(* ===== verification/Js_Prelude.thy ===== *)
theory Js_Prelude imports Complex_Main "HOL-Library.Word" "HOL-Library.Multiset" begin

text \<open>
  The part of JavaScript the admin frontend is written in, as HOL functions shared by every
  component theory.

  A JavaScript string is a sequence of 16-bit code units, so \<open>jsstr\<close> is a list of
  \<open>16 word\<close>; \<open>length\<close>, \<open>slice\<close> and \<open>includes\<close> then count what the code counts.
  ASCII literals are written \<open>js ''auto''\<close>. The strings shown in Chinese are code-unit
  lists. An optional property (\<open>name?: string\<close>) is an \<open>option\<close>; \<open>undefined\<close> and the empty
  string are both falsy, which \<open>truthy\<close>, \<open>opt_str\<close> and \<open>or_str\<close> write out for
  \<open>Boolean(x)\<close>, \<open>x || ''\<close> and \<open>x || y\<close>.

  \<open>to_lower\<close> covers ASCII, Latin-1, Greek, Cyrillic, full-width letters and the special cases
  U+0130, U+212A and U+212B; other scripts with case are left alone.
  \<open>js_sort\<close> is the stable sort of \<open>Array.prototype.sort\<close>; a comparator that returns NaN
  counts as "equal", as in ECMAScript. Where a comparator is inconsistent the language leaves the
  order to the implementation, and the theorems about order assume that it is consistent.
\<close>

named_theorems js_eval \<open>unfolding rules that evaluate string operations on closed strings\<close>
named_theorems js_bool \<open>truthiness, defaults and fallbacks\<close>

section \<open>Strings\<close>

type_synonym unit16 = "16 word"
type_synonym jsstr = "unit16 list"

definition js :: "string \<Rightarrow> jsstr" where
  "js s = List.map of_char s"

lemma of_char_unit16_eq: "(of_char c :: unit16) = of_char d \<longleftrightarrow> c = d"
proof
  assume "(of_char c :: unit16) = of_char d"
  then have "unat (of_char c :: unit16) = unat (of_char d :: unit16)" by simp
  moreover have "unat (of_char x :: unit16) = of_char x" for x :: char
    by (cases x) (simp add: of_char_def)
  ultimately show "c = d" by simp
qed simp

lemma js_inject [simp]: "js s = js t \<longleftrightarrow> s = t"
  unfolding js_def by (rule inj_eq, rule inj_mapI, rule injI, simp add: of_char_unit16_eq)

lemma js_Nil [simp]: "js [] = []"
  by (simp add: js_def)

lemma js_eq_Nil [simp]: "js s = [] \<longleftrightarrow> s = []" "[] = js s \<longleftrightarrow> s = []"
  by (auto simp: js_def)

lemma length_js [simp]: "length (js s) = length s"
  by (simp add: js_def)

lemma js_append: "js (s @ t) = js s @ js t"
  by (simp add: js_def)

lemmas [js_eval] = js_def

subsection \<open>Truthiness and fallbacks\<close>

definition truthy :: "jsstr option \<Rightarrow> bool" where
  "truthy v = (case v of None \<Rightarrow> False | Some s \<Rightarrow> s \<noteq> [])"

definition opt_str :: "jsstr option \<Rightarrow> jsstr" where
  "opt_str v = (case v of None \<Rightarrow> [] | Some s \<Rightarrow> s)"

definition or_str :: "jsstr \<Rightarrow> jsstr \<Rightarrow> jsstr" where
  "or_str a b = (if a = [] then b else a)"

definition or_opt :: "jsstr option \<Rightarrow> jsstr option \<Rightarrow> jsstr option" where
  "or_opt a b = (if truthy a then a else b)"

definition nullish :: "'a option \<Rightarrow> 'a option \<Rightarrow> 'a option" where
  "nullish a b = (case a of None \<Rightarrow> b | Some _ \<Rightarrow> a)"

definition opt_true :: "bool option \<Rightarrow> bool" where
  "opt_true v = (v = Some True)"

definition opt_list :: "'a list option \<Rightarrow> 'a list" where
  "opt_list v = (case v of None \<Rightarrow> [] | Some xs \<Rightarrow> xs)"

lemma truthy_simps [simp, js_bool]:
  "truthy None = False" "truthy (Some s) = (s \<noteq> [])"
  by (simp_all add: truthy_def)

lemma opt_str_simps [simp, js_bool]: "opt_str None = []" "opt_str (Some s) = s"
  by (simp_all add: opt_str_def)

lemma or_str_simps [simp, js_bool]:
  "or_str [] b = b" "or_str (c # a) b = c # a" "or_str a [] = a" "or_str a a = a"
  by (simp_all add: or_str_def)

lemma or_str_js [simp]: "s \<noteq> [] \<Longrightarrow> or_str (js s) b = js s"
  by (simp add: or_str_def)

lemma or_str_eq_Nil [simp]: "or_str a b = [] \<longleftrightarrow> a = [] \<and> b = []"
  by (auto simp: or_str_def)

lemma or_str_assoc: "or_str (or_str a b) c = or_str a (or_str b c)"
  by (simp add: or_str_def)

lemma or_opt_simps [simp, js_bool]:
  "or_opt None b = b" "or_opt (Some []) b = b" "or_opt (Some (c # s)) b = Some (c # s)"
  "or_opt a a = a"
  by (simp_all add: or_opt_def)

lemma truthy_or_opt [simp]: "truthy (or_opt a b) \<longleftrightarrow> truthy a \<or> truthy b"
  by (auto simp: or_opt_def)

lemma opt_str_or_opt: "opt_str (or_opt a b) = or_str (opt_str a) (opt_str b)"
  by (cases a; cases b) (auto simp: or_opt_def or_str_def)

lemma nullish_simps [simp, js_bool]:
  "nullish None b = b" "nullish (Some x) b = Some x" "nullish a None = a" "nullish a a = a"
  by (simp_all add: nullish_def split: option.splits)

lemma nullish_assoc: "nullish (nullish a b) c = nullish a (nullish b c)"
  by (cases a) simp_all

lemma opt_true_simps [simp, js_bool]:
  "opt_true None = False" "opt_true (Some b) = b"
  by (simp_all add: opt_true_def)

lemma opt_list_simps [simp, js_bool]: "opt_list None = []" "opt_list (Some xs) = xs"
  by (simp_all add: opt_list_def)

lemma truthy_opt_str: "truthy v \<longleftrightarrow> opt_str v \<noteq> []"
  by (cases v) simp_all

lemma or_str_idem: "or_str a (or_str a b) = or_str a b"
  by (simp add: or_str_def)

subsection \<open>White space, case and searching\<close>

definition is_space :: "unit16 \<Rightarrow> bool" where
  "is_space c \<longleftrightarrow> c \<in> set [9, 10, 11, 12, 13, 32, 0xA0, 0x1680, 0x2028, 0x2029, 0x202F, 0x205F, 0x3000, 0xFEFF]
     \<or> 0x2000 \<le> c \<and> c \<le> 0x200A"

definition trim_start :: "jsstr \<Rightarrow> jsstr" where
  "trim_start s = dropWhile is_space s"

definition trim_end :: "jsstr \<Rightarrow> jsstr" where
  "trim_end s = rev (dropWhile is_space (rev s))"

definition trim :: "jsstr \<Rightarrow> jsstr" where
  "trim s = trim_end (trim_start s)"

definition lower_unit :: "unit16 \<Rightarrow> jsstr" where
  "lower_unit c =
     (if 0x41 \<le> c \<and> c \<le> 0x5A then [c + 32]
      else if c < 0x80 then [c]
      else if 0xC0 \<le> c \<and> c \<le> 0xDE \<and> c \<noteq> 0xD7 then [c + 32]
      else if 0x391 \<le> c \<and> c \<le> 0x3A9 \<and> c \<noteq> 0x3A2 then [c + 32]
      else if 0x410 \<le> c \<and> c \<le> 0x42F then [c + 32]
      else if 0x400 \<le> c \<and> c \<le> 0x40F then [c + 80]
      else if 0xFF21 \<le> c \<and> c \<le> 0xFF3A then [c + 32]
      else if c = 0x130 then [0x69, 0x307]
      else if c = 0x212A then [0x6B]
      else if c = 0x212B then [0xE5]
      else [c])"

definition to_lower :: "jsstr \<Rightarrow> jsstr" where
  "to_lower s = concat (List.map lower_unit s)"

definition starts_with :: "jsstr \<Rightarrow> jsstr \<Rightarrow> bool" where
  "starts_with p s \<longleftrightarrow> take (length p) s = p"

definition ends_with :: "jsstr \<Rightarrow> jsstr \<Rightarrow> bool" where
  "ends_with p s \<longleftrightarrow> starts_with (rev p) (rev s)"

fun str_includes :: "jsstr \<Rightarrow> jsstr \<Rightarrow> bool" where
  "str_includes p [] = (p = [])"
| "str_includes p (c # s) = (starts_with p (c # s) \<or> str_includes p s)"

fun join :: "jsstr \<Rightarrow> jsstr list \<Rightarrow> jsstr" where
  "join sep [] = []"
| "join sep [x] = x"
| "join sep (x # y # xs) = x @ sep @ join sep (y # xs)"

text \<open>\<open>s.split(c)\<close> for a one-unit separator.\<close>

fun split_unit :: "unit16 \<Rightarrow> jsstr \<Rightarrow> jsstr list" where
  "split_unit c [] = [[]]"
| "split_unit c (d # s) =
     (if d = c then [] # split_unit c s
      else case split_unit c s of [] \<Rightarrow> [[d]] | w # ws \<Rightarrow> (d # w) # ws)"

lemmas [js_eval] = is_space_def trim_start_def trim_end_def trim_def lower_unit_def to_lower_def
  starts_with_def ends_with_def

lemma to_lower_Nil [simp]: "to_lower [] = []"
  by (simp add: to_lower_def)

lemma to_lower_append: "to_lower (s @ t) = to_lower s @ to_lower t"
  by (simp add: to_lower_def)

lemma lower_unit_neq_Nil [simp]: "lower_unit c \<noteq> []"
  by (simp add: lower_unit_def)

lemma to_lower_eq_Nil [simp]: "to_lower s = [] \<longleftrightarrow> s = []"
  by (cases s) (simp_all add: to_lower_def)

lemma trim_Nil [simp]: "trim [] = []"
  by (simp add: trim_def trim_start_def trim_end_def)

lemma dropWhile_idem: "dropWhile p (dropWhile p xs) = dropWhile p xs"
  by (induction xs) simp_all

lemma hd_trim_end: "s = [] \<or> \<not> is_space (hd s) \<Longrightarrow> trim_end s = [] \<or> hd (trim_end s) = hd s"
proof (induction s rule: rev_induct)
  case Nil
  show ?case by (simp add: trim_end_def)
next
  case (snoc x s)
  show ?case
  proof (cases "is_space x")
    case True
    then have eq: "trim_end (s @ [x]) = trim_end s" by (simp add: trim_end_def)
    show ?thesis
    proof (cases "s = []")
      case True
      then show ?thesis by (simp add: eq trim_end_def)
    next
      case False
      then show ?thesis using snoc by (simp add: eq)
    qed
  next
    case False
    then show ?thesis by (simp add: trim_end_def)
  qed
qed

lemma trim_start_trim [simp]: "trim_start (trim s) = trim s"
proof -
  have "trim_start s = [] \<or> \<not> is_space (hd (trim_start s))"
    unfolding trim_start_def by (metis hd_dropWhile)
  then have "trim s = [] \<or> \<not> is_space (hd (trim s))"
    using hd_trim_end [of "trim_start s"]
    by (auto simp: trim_def trim_end_def)
  then show ?thesis by (cases "trim s") (simp_all add: trim_start_def)
qed

lemma trim_idem [simp]: "trim (trim s) = trim s"
proof -
  have "trim_end (trim s) = trim s"
    by (simp add: trim_def trim_end_def dropWhile_idem)
  then show ?thesis by (simp add: trim_def [of "trim s"])
qed

lemma length_trim_le: "length (trim s) \<le> length s"
  by (metis (no_types) length_dropWhile_le length_rev order_trans trim_def trim_end_def trim_start_def)

lemma starts_with_append [simp]: "starts_with p (p @ s)"
  by (simp add: starts_with_def)

lemma starts_with_Nil [simp]: "starts_with [] s"
  by (simp add: starts_with_def)

lemma starts_with_iff: "starts_with p s \<longleftrightarrow> (\<exists>t. s = p @ t)"
  by (metis append_take_drop_id append_eq_conv_conj starts_with_def)

lemma str_includes_iff: "str_includes p s \<longleftrightarrow> (\<exists>a b. s = a @ p @ b)"
proof (induction s)
  case Nil
  show ?case by auto
next
  case (Cons c s)
  show ?case
  proof
    assume "str_includes p (c # s)"
    then consider "starts_with p (c # s)" | "str_includes p s" by auto
    then show "\<exists>a b. c # s = a @ p @ b"
    proof cases
      case 1
      then show ?thesis by (metis append_Nil starts_with_iff)
    next
      case 2
      then show ?thesis using Cons.IH by (metis append_Cons)
    qed
  next
    assume "\<exists>a b. c # s = a @ p @ b"
    then obtain a b where eq: "c # s = a @ p @ b" by blast
    show "str_includes p (c # s)"
    proof (cases a)
      case Nil
      then have "starts_with p (c # s)" using eq by (auto simp: starts_with_iff)
      then show ?thesis by simp
    next
      case (Cons x xs)
      then show ?thesis using eq \<open>str_includes p s \<longleftrightarrow> (\<exists>a b. s = a @ p @ b)\<close> by auto
    qed
  qed
qed

lemma str_includes_Nil [simp]: "str_includes [] s"
  by (auto simp: str_includes_iff)

lemma split_unit_neq_Nil [simp]: "split_unit c s \<noteq> []"
  by (induction s) (auto split: list.splits)

lemma join_Cons_unit: "join sep ((d # a) # ws) = d # join sep (a # ws)"
  by (cases ws) simp_all

lemma join_split_unit: "join [c] (split_unit c s) = s"
proof (induction s)
  case Nil
  show ?case by simp
next
  case (Cons d s)
  obtain w ws where "split_unit c s = w # ws" by (meson list.exhaust split_unit_neq_Nil)
  then show ?case using Cons by (auto simp: join_Cons_unit)
qed

lemma split_unit_free: "c \<notin> set s \<Longrightarrow> split_unit c s = [s]"
  by (induction s) auto

lemma split_unit_at: "c \<notin> set a \<Longrightarrow> split_unit c (a @ c # b) = a # split_unit c b"
  by (induction a) auto

section \<open>Arrays\<close>

text \<open>\<open>[...new Set(xs)]\<close> keeps the first occurrence of every element, in order.\<close>

fun js_unique :: "'a list \<Rightarrow> 'a list" where
  "js_unique [] = []"
| "js_unique (x # xs) = x # filter (\<lambda>y. y \<noteq> x) (js_unique xs)"

text \<open>\<open>new Map(entries).values()\<close>: a key stands where it came first, with the value given last.\<close>

definition js_map_values :: "('k \<times> 'v) list \<Rightarrow> 'v list" where
  "js_map_values es = List.map_filter (map_of (rev es)) (js_unique (List.map fst es))"

lemma set_js_unique [simp]: "set (js_unique xs) = set xs"
  by (induction xs) auto

lemma distinct_js_unique [simp]: "distinct (js_unique xs)"
  by (induction xs) auto

lemma js_unique_id: "distinct xs \<Longrightarrow> js_unique xs = xs"
  by (induction xs) (auto simp: filter_id_conv)

lemma js_unique_eq_Nil [simp]: "js_unique xs = [] \<longleftrightarrow> xs = []"
  by (cases xs) simp_all

subsection \<open>Sorting with a comparator\<close>

text \<open>The result of a comparator: \<open>None\<close> is NaN.\<close>

definition cmp_after :: "int option \<Rightarrow> bool" where
  "cmp_after c = (case c of None \<Rightarrow> False | Some d \<Rightarrow> 0 < d)"

fun js_insert :: "('a \<Rightarrow> 'a \<Rightarrow> int option) \<Rightarrow> 'a \<Rightarrow> 'a list \<Rightarrow> 'a list" where
  "js_insert cmp x [] = [x]"
| "js_insert cmp x (y # ys) =
     (if cmp_after (cmp x y) then y # js_insert cmp x ys else x # y # ys)"

fun js_sort :: "('a \<Rightarrow> 'a \<Rightarrow> int option) \<Rightarrow> 'a list \<Rightarrow> 'a list" where
  "js_sort cmp [] = []"
| "js_sort cmp (x # xs) = js_insert cmp x (js_sort cmp xs)"

text \<open>The comparator \<open>(left, right) => key(right) - key(left)\<close>: newest first.\<close>

definition by_desc :: "('a \<Rightarrow> int option) \<Rightarrow> 'a \<Rightarrow> 'a \<Rightarrow> int option" where
  "by_desc key l r = (case (key l, key r) of (Some a, Some b) \<Rightarrow> Some (b - a) | _ \<Rightarrow> None)"

lemma set_js_insert [simp]: "set (js_insert cmp x ys) = insert x (set ys)"
  by (induction ys) auto

lemma set_js_sort [simp]: "set (js_sort cmp xs) = set xs"
  by (induction xs) auto

lemma length_js_insert [simp]: "length (js_insert cmp x ys) = Suc (length ys)"
  by (induction ys) auto

lemma length_js_sort [simp]: "length (js_sort cmp xs) = length xs"
  by (induction xs) auto

lemma mset_js_insert [simp]: "mset (js_insert cmp x ys) = add_mset x (mset ys)"
  by (induction ys) auto

lemma mset_js_sort [simp]: "mset (js_sort cmp xs) = mset xs"
  by (induction xs) auto

lemma js_sort_eq_Nil [simp]: "js_sort cmp xs = [] \<longleftrightarrow> xs = []"
  by (metis length_0_conv length_js_sort)

lemma map_distinct_js_insert:
  "distinct (List.map f (js_insert cmp x ys)) \<longleftrightarrow> f x \<notin> f ` set ys \<and> distinct (List.map f ys)"
  by (induction ys) auto

lemma map_distinct_js_sort [simp]:
  "distinct (List.map f (js_sort cmp xs)) \<longleftrightarrow> distinct (List.map f xs)"
  by (induction xs) (auto simp: map_distinct_js_insert)

lemma find_js_insert:
  assumes "distinct (List.map f (x # ys))"
  shows "List.find (\<lambda>y. f y = k) (js_insert cmp x ys) = (if f x = k then Some x else List.find (\<lambda>y. f y = k) ys)"
  using assms by (induction ys) auto

lemma find_js_sort:
  "distinct (List.map f xs) \<Longrightarrow> List.find (\<lambda>y. f y = k) (js_sort cmp xs) = List.find (\<lambda>y. f y = k) xs"
proof (induction xs)
  case Nil
  show ?case by simp
next
  case (Cons x xs)
  then have "distinct (List.map f (x # js_sort cmp xs))" by (auto simp: image_iff)
  then show ?case using Cons by (simp add: find_js_insert)
qed

definition desc_by :: "('a \<Rightarrow> int option) \<Rightarrow> 'a \<Rightarrow> 'a \<Rightarrow> bool" where
  "desc_by key x y = (the (key y) \<le> the (key x))"

lemma sorted_js_insert:
  assumes "\<forall>y \<in> insert x (set ys). key y \<noteq> None" and "sorted_wrt (desc_by key) ys"
  shows "sorted_wrt (desc_by key) (js_insert (by_desc key) x ys)"
  using assms by (induction ys) (force simp: by_desc_def cmp_after_def desc_by_def)+

lemma sorted_js_sort:
  "\<forall>y \<in> set xs. key y \<noteq> None \<Longrightarrow> sorted_wrt (desc_by key) (js_sort (by_desc key) xs)"
  by (induction xs) (auto intro!: sorted_js_insert)

lemma js_insert_front:
  assumes "\<forall>y \<in> insert x (set ys). key y \<noteq> None" and "\<forall>y \<in> set ys. desc_by key x y"
  shows "js_insert (by_desc key) x ys = x # ys"
  using assms by (cases ys) (auto simp: by_desc_def cmp_after_def desc_by_def)

lemma js_sort_sorted_id:
  "\<forall>y \<in> set xs. key y \<noteq> None \<Longrightarrow> sorted_wrt (desc_by key) xs \<Longrightarrow> js_sort (by_desc key) xs = xs"
  by (induction xs) (simp_all add: js_insert_front)

lemma filter_js_insert:
  assumes "\<forall>y \<in> insert x (set ys). key y \<noteq> None"
  shows "filter (\<lambda>y. key y = k) (js_insert (by_desc key) x ys) = filter (\<lambda>y. key y = k) (x # ys)"
  using assms by (induction ys) (auto simp: by_desc_def cmp_after_def)

lemma js_sort_stable:
  "\<forall>y \<in> set xs. key y \<noteq> None \<Longrightarrow>
   filter (\<lambda>y. key y = k) (js_sort (by_desc key) xs) = filter (\<lambda>y. key y = k) xs"
  by (induction xs) (simp_all add: filter_js_insert)

subsection \<open>Lists used as keyed collections\<close>

text \<open>\<open>xs.map((x) => (x.id === k ? f(x) : x))\<close>\<close>

definition map_where :: "('a \<Rightarrow> bool) \<Rightarrow> ('a \<Rightarrow> 'a) \<Rightarrow> 'a list \<Rightarrow> 'a list" where
  "map_where p f xs = List.map (\<lambda>x. if p x then f x else x) xs"

lemma map_where_Nil [simp]: "map_where p f [] = []"
  by (simp add: map_where_def)

lemma map_where_append [simp]: "map_where p f (xs @ ys) = map_where p f xs @ map_where p f ys"
  by (simp add: map_where_def)

lemma length_map_where [simp]: "length (map_where p f xs) = length xs"
  by (simp add: map_where_def)

lemma map_where_none: "\<forall>x \<in> set xs. \<not> p x \<Longrightarrow> map_where p f xs = xs"
  by (induction xs) (auto simp: map_where_def)

lemma map_where_Cons [simp]: "map_where p f (x # xs) = (if p x then f x else x) # map_where p f xs"
  by (simp add: map_where_def)

lemma find_None_iff_notin: "List.find (\<lambda>x. f x = k) xs = None \<longleftrightarrow> k \<notin> f ` set xs"
  by (auto simp: find_None_iff)

lemma find_SomeD: "List.find p xs = Some x \<Longrightarrow> p x \<and> x \<in> set xs"
  by (metis find_Some_iff nth_mem)

lemma find_filter_neq:
  "List.find (\<lambda>x. f x = k) (filter (\<lambda>x. f x \<noteq> j) xs) = (if k = j then None else List.find (\<lambda>x. f x = k) xs)"
  by (induction xs) auto

lemma find_append: "List.find p (xs @ ys) = (case List.find p xs of None \<Rightarrow> List.find p ys | Some x \<Rightarrow> Some x)"
  by (induction xs) auto

lemma find_cong_eq: "(\<And>x. x \<in> set xs \<Longrightarrow> p x = q x) \<Longrightarrow> List.find p xs = List.find q xs"
  by (induction xs) auto

lemma find_distinct_mem:
  "distinct (List.map f xs) \<Longrightarrow> x \<in> set xs \<Longrightarrow> List.find (\<lambda>y. f y = f x) xs = Some x"
  by (induction xs) (auto simp: image_iff)

end
