(* ===== verification/Interfaces.thy ===== *)
theory Interfaces imports Js_Prelude begin

text \<open>
  The contracts that several components of the frontend share, as locales.

  \<^item> \<open>keyed_store\<close>: a collection of items under an id, changed by inserting one item that is
    merged with the item of the same id (\<open>deletable_store\<close>: also by deleting). The list of
    conversations, the cache of conversation details and the messages of one conversation are
    such stores.
  \<^item> \<open>latest_wins\<close>: a view that numbers its requests and drops the answer to any request but
    the last (\<open>loadRevision\<close> of the chat, \<open>revision\<close> of the notebook dialog).
  \<^item> \<open>single_flight\<close>: an operation that a flag keeps from starting twice (\<open>inFlight\<close> of the
    model policy, \<open>abortRef\<close> of the chat, \<open>quickTestInFlight\<close> of the accounts panel).

  Each is interpreted on the model's own operations in the theory that defines them.
\<close>

named_theorems store_laws \<open>lookup laws of the interpreted stores\<close>

section \<open>Keyed stores\<close>

locale keyed_store =
  fixes lookup :: "'m \<Rightarrow> 'k \<Rightarrow> 'v option"
    and upsert :: "'u \<Rightarrow> 'm \<Rightarrow> 'm"
    and key :: "'u \<Rightarrow> 'k"
    and merge :: "'v option \<Rightarrow> 'u \<Rightarrow> 'v"
    and accepts :: "'u \<Rightarrow> bool"
    and invar :: "'m \<Rightarrow> bool"
  assumes lookup_upsert:
      "invar m \<Longrightarrow> accepts u \<Longrightarrow>
       lookup (upsert u m) k = (if k = key u then Some (merge (lookup m k) u) else lookup m k)"
    and upsert_rejected: "\<not> accepts u \<Longrightarrow> upsert u m = m"
    and invar_upsert: "invar m \<Longrightarrow> invar (upsert u m)"
begin

definition upsert_all :: "'u list \<Rightarrow> 'm \<Rightarrow> 'm" where
  "upsert_all us m = fold upsert us m"

lemma invar_upsert_all: "invar m \<Longrightarrow> invar (upsert_all us m)"
  unfolding upsert_all_def by (induction us arbitrary: m) (simp_all add: invar_upsert)

lemma lookup_upsert_other: "invar m \<Longrightarrow> k \<noteq> key u \<Longrightarrow> lookup (upsert u m) k = lookup m k"
  by (cases "accepts u") (simp_all add: lookup_upsert upsert_rejected)

lemma lookup_upsert_same:
  "invar m \<Longrightarrow> accepts u \<Longrightarrow> lookup (upsert u m) (key u) = Some (merge (lookup m (key u)) u)"
  by (simp add: lookup_upsert)

text \<open>What a batch of updates does to one id: the fold of the merges that address it.\<close>

lemma lookup_upsert_all:
  "invar m \<Longrightarrow> lookup (upsert_all us m) k =
     fold (\<lambda>u v. Some (merge v u)) (filter (\<lambda>u. accepts u \<and> key u = k) us) (lookup m k)"
proof (induction us arbitrary: m)
  case Nil
  show ?case by (simp add: upsert_all_def)
next
  case (Cons u us)
  then have "lookup (upsert_all us (upsert u m)) k =
      fold (\<lambda>u v. Some (merge v u)) (filter (\<lambda>u. accepts u \<and> key u = k) us) (lookup (upsert u m) k)"
    by (simp add: invar_upsert)
  then show ?case
    using Cons.prems lookup_upsert_other [of m k u]
    by (cases "key u = k") (auto simp: upsert_all_def lookup_upsert upsert_rejected)
qed

lemma lookup_upsert_all_other:
  "invar m \<Longrightarrow> k \<notin> key ` set us \<Longrightarrow> lookup (upsert_all us m) k = lookup m k"
proof -
  assume "invar m" and "k \<notin> key ` set us"
  moreover from this have "filter (\<lambda>u. accepts u \<and> key u = k) us = []"
    by (auto simp: filter_empty_conv)
  ultimately show ?thesis by (simp add: lookup_upsert_all)
qed

lemma upsert_commutes_lookup:
  assumes "invar m" and "key u \<noteq> key w"
  shows "lookup (upsert u (upsert w m)) k = lookup (upsert w (upsert u m)) k"
  using assms by (cases "accepts u"; cases "accepts w") (auto simp: lookup_upsert invar_upsert upsert_rejected)

end

text \<open>The store keeps the last item written under an id: no trace of earlier versions.\<close>

locale replacing_store = keyed_store +
  assumes merge_replaces: "merge v u = merge w u"
begin

lemma last_write_wins:
  assumes "invar m" and "accepts u" and "\<forall>w \<in> set later. key w \<noteq> key u"
  shows "lookup (upsert_all (earlier @ u # later) m) (key u) = Some (merge None u)"
proof -
  have "filter (\<lambda>w. accepts w \<and> key w = key u) later = []"
    using assms(3) by (auto simp: filter_empty_conv)
  then show ?thesis
    using assms(1,2) merge_replaces [of _ u None] by (simp add: lookup_upsert_all)
qed

end

locale deletable_store = keyed_store lookup upsert key merge accepts invar
  for lookup :: "'m \<Rightarrow> 'k \<Rightarrow> 'v option"
    and upsert :: "'u \<Rightarrow> 'm \<Rightarrow> 'm"
    and key :: "'u \<Rightarrow> 'k"
    and merge :: "'v option \<Rightarrow> 'u \<Rightarrow> 'v"
    and accepts :: "'u \<Rightarrow> bool"
    and invar :: "'m \<Rightarrow> bool" +
  fixes delete :: "'k \<Rightarrow> 'm \<Rightarrow> 'm"
  assumes lookup_delete: "invar m \<Longrightarrow> lookup (delete j m) k = (if k = j then None else lookup m k)"
    and invar_delete: "invar m \<Longrightarrow> invar (delete j m)"
begin

lemma lookup_delete_all:
  "invar m \<Longrightarrow> lookup (fold delete ks m) k = (if k \<in> set ks then None else lookup m k)"
  by (induction ks arbitrary: m) (auto simp: lookup_delete invar_delete)

lemma delete_then_upsert:
  "invar m \<Longrightarrow> accepts u \<Longrightarrow> lookup (upsert u (delete (key u) m)) (key u) = Some (merge None u)"
  by (simp add: lookup_upsert invar_delete lookup_delete)

end

section \<open>The latest request wins\<close>

locale latest_wins =
  fixes ticket :: "'s \<Rightarrow> nat"
    and issue :: "'q \<Rightarrow> 's \<Rightarrow> 's"
    and deliver :: "nat \<Rightarrow> 'r \<Rightarrow> 's \<Rightarrow> 's"
  assumes ticket_issue: "ticket s \<le> ticket (issue q s)"
    and deliver_stale: "n \<noteq> ticket s \<Longrightarrow> deliver n r s = s"
    and ticket_deliver: "ticket s \<le> ticket (deliver n r s)"
begin

definition deliver_all :: "(nat \<times> 'r) list \<Rightarrow> 's \<Rightarrow> 's" where
  "deliver_all rs s = fold (\<lambda>(n, r). deliver n r) rs s"

lemma deliver_all_stale: "\<forall>(n, r) \<in> set rs. n \<noteq> ticket s \<Longrightarrow> deliver_all rs s = s"
  unfolding deliver_all_def by (induction rs) (auto simp: deliver_stale)

text \<open>Answers that belong to earlier requests change nothing once a newer one is out.\<close>

lemma superseded_ignored:
  assumes "ticket s < ticket (issue q s)" and "\<forall>(n, r) \<in> set rs. n \<le> ticket s"
  shows "deliver_all rs (issue q s) = issue q s"
  by (rule deliver_all_stale) (use assms in fastforce)

lemma superseded_interleaved:
  assumes "\<forall>(n, r) \<in> set rs. n < ticket s" and "\<forall>(n, r) \<in> set rs'. n < ticket s"
  shows "deliver_all rs' (deliver m r (deliver_all rs s)) = deliver m r s"
proof -
  have "deliver_all rs s = s" by (rule deliver_all_stale) (use assms(1) in auto)
  moreover have "deliver_all rs' (deliver m r s) = deliver m r s"
    by (rule deliver_all_stale) (use assms(2) ticket_deliver [of s m r] in fastforce)
  ultimately show ?thesis by simp
qed

end

section \<open>Single flight\<close>

locale single_flight =
  fixes busy :: "'s \<Rightarrow> bool"
    and start :: "'q \<Rightarrow> 's \<Rightarrow> 's"
    and settle :: "'r \<Rightarrow> 's \<Rightarrow> 's"
  assumes start_busy: "busy s \<Longrightarrow> start q s = s"
    and settle_idle: "\<not> busy (settle r s)"
begin

lemma starts_once: "busy (start q s) \<Longrightarrow> start p (start q s) = start q s"
  by (rule start_busy)

lemma starts_all_busy: "busy s \<Longrightarrow> fold start qs s = s"
  by (induction qs) (simp_all add: start_busy)

lemma starts_collapse: "busy (start q s) \<Longrightarrow> fold start (q # qs) s = start q s"
  by (simp add: starts_all_busy)

lemma settled_can_start: "\<not> busy (settle r (start q s))"
  by (rule settle_idle)

end

section \<open>A panel in its host\<close>

text \<open>
  What the shell relies on in a panel it mounts: a freshly mounted panel and one that is given new properties are in a state the
  panel itself can reach, show the properties they were given, and wait for the calls they had made, none at
  first; new properties keep the drafts.
\<close>

locale hosted_panel =
  fixes mounted :: "'p \<Rightarrow> 's" and reloaded :: "'p \<Rightarrow> 's \<Rightarrow> 's" and alive :: "'s \<Rightarrow> bool"
    and props :: "'s \<Rightarrow> 'p" and waits :: "'s \<Rightarrow> 't list" and kept :: "'s \<Rightarrow> 's \<Rightarrow> bool"
  assumes alive_mounted: "alive (mounted p)" and props_mounted: "props (mounted p) = p" and waits_mounted: "waits (mounted p) = []"
    and alive_reloaded: "alive s \<Longrightarrow> alive (reloaded p s)" and props_reloaded: "props (reloaded p s) = p"
    and waits_reloaded: "waits (reloaded p s) = waits s"
    and kept_reloaded: "alive s \<Longrightarrow> kept s (reloaded p s)"
begin

lemma alive_rendered: "(\<And>s. old = Some s \<Longrightarrow> alive s) \<Longrightarrow> alive (case old of Some s \<Rightarrow> reloaded p s | None \<Rightarrow> mounted p)"
  by (cases old) (simp_all add: alive_mounted alive_reloaded)

lemma props_rendered: "props (case old of Some s \<Rightarrow> reloaded p s | None \<Rightarrow> mounted p) = p"
  by (cases old) (simp_all add: props_mounted props_reloaded)

lemma waits_rendered:
  "waits (case old of Some s \<Rightarrow> reloaded p s | None \<Rightarrow> mounted p) = (case old of Some s \<Rightarrow> waits s | None \<Rightarrow> [])"
  by (cases old) (simp_all add: waits_mounted waits_reloaded)

lemma reloads: "alive s \<Longrightarrow> alive (fold reloaded ps s) \<and> waits (fold reloaded ps s) = waits s"
  by (induction ps arbitrary: s) (simp_all add: alive_reloaded waits_reloaded)

end

end
