(* ===== verification/Json_Codec.thy ===== *)
theory Json_Codec imports Js_Prelude begin

text \<open>
  \<open>JSON.stringify\<close> (without indentation) and \<open>JSON.parse\<close>, which the frontend uses for
  request bodies, for the events of an answer stream, for the saved chat session and, in
  \<open>targetID\<close>, as an injective pairing of an account and a workspace.

  Numbers are kept as their literal: no component computes with a number it has parsed itself.
  Objects are association lists in the order of the text; a lookup takes the last binding of a
  key, as \<open>JSON.parse\<close> does. The parser recurses on a fuel argument; \<open>json_parse\<close> gives it
  one more than the length of the text, and \<open>parse_stringify\<close> shows that this is enough for
  every printed value. A \<open>SyntaxError\<close> is \<open>None\<close>.
\<close>

datatype json =
    JNull
  | JBool bool
  | JNum jsstr
  | JStr jsstr
  | JArr "json list"
  | JObj "(jsstr \<times> json) list"

section \<open>Printing\<close>

definition hex_unit :: "nat \<Rightarrow> unit16" where
  "hex_unit n = (if n < 10 then 48 + of_nat n else 87 + of_nat n)"

definition hex4 :: "unit16 \<Rightarrow> jsstr" where
  "hex4 c = (let n = unat c in
     [hex_unit (n div 4096), hex_unit (n div 256 mod 16), hex_unit (n div 16 mod 16), hex_unit (n mod 16)])"

definition high_surrogate :: "unit16 \<Rightarrow> bool" where
  "high_surrogate c \<longleftrightarrow> 0xD800 \<le> c \<and> c \<le> 0xDBFF"

definition low_surrogate :: "unit16 \<Rightarrow> bool" where
  "low_surrogate c \<longleftrightarrow> 0xDC00 \<le> c \<and> c \<le> 0xDFFF"

definition escape_unit :: "unit16 \<Rightarrow> jsstr" where
  "escape_unit c =
     (if c = 8 then js [CHR 0x5C, CHR ''b''] else if c = 9 then js [CHR 0x5C, CHR ''t'']
      else if c = 10 then js [CHR 0x5C, CHR ''n''] else if c = 12 then js [CHR 0x5C, CHR ''f'']
      else if c = 13 then js [CHR 0x5C, CHR ''r''] else if c = 34 then [92, 34]
      else if c = 92 then [92, 92]
      else if c < 32 \<or> high_surrogate c \<or> low_surrogate c then [92, 117] @ hex4 c
      else [c])"

fun escape :: "jsstr \<Rightarrow> jsstr" where
  "escape [] = []"
| "escape [c] = escape_unit c"
| "escape (c # d # s) =
     (if high_surrogate c \<and> low_surrogate d then c # d # escape s
      else escape_unit c @ escape (d # s))"

definition quote :: "jsstr \<Rightarrow> jsstr" where
  "quote s = 34 # escape s @ [34]"

fun stringify :: "json \<Rightarrow> jsstr" where
  "stringify JNull = js ''null''"
| "stringify (JBool b) = (if b then js ''true'' else js ''false'')"
| "stringify (JNum n) = n"
| "stringify (JStr s) = quote s"
| "stringify (JArr xs) = 91 # join [44] (List.map stringify xs) @ [93]"
| "stringify (JObj ms) = 123 # join [44] (List.map (\<lambda>(k, v). quote k @ 58 # stringify v) ms) @ [125]"

section \<open>Parsing\<close>

definition json_space :: "unit16 \<Rightarrow> bool" where
  "json_space c \<longleftrightarrow> c = 32 \<or> c = 9 \<or> c = 10 \<or> c = 13"

definition skip_space :: "jsstr \<Rightarrow> jsstr" where
  "skip_space s = dropWhile json_space s"

definition is_digit :: "unit16 \<Rightarrow> bool" where
  "is_digit c \<longleftrightarrow> 48 \<le> c \<and> c \<le> 57"

definition number_unit :: "unit16 \<Rightarrow> bool" where
  "number_unit c \<longleftrightarrow> is_digit c \<or> c = 43 \<or> c = 45 \<or> c = 46 \<or> c = 69 \<or> c = 101"

definition valid_exponent :: "jsstr \<Rightarrow> bool" where
  "valid_exponent s \<longleftrightarrow> (case s of [] \<Rightarrow> True
     | e # t \<Rightarrow> (e = 69 \<or> e = 101) \<and>
         (let u = (case t of [] \<Rightarrow> [] | p # u \<Rightarrow> if p = 43 \<or> p = 45 then u else t)
          in u \<noteq> [] \<and> list_all is_digit u))"

definition valid_fraction :: "jsstr \<Rightarrow> bool" where
  "valid_fraction s \<longleftrightarrow> (case s of [] \<Rightarrow> True
     | d # t \<Rightarrow> if d = 46 then takeWhile is_digit t \<noteq> [] \<and> valid_exponent (dropWhile is_digit t)
               else valid_exponent s)"

definition valid_number :: "jsstr \<Rightarrow> bool" where
  "valid_number s \<longleftrightarrow> (let t = (case s of [] \<Rightarrow> [] | m # u \<Rightarrow> if m = 45 then u else s) in
     (case t of [] \<Rightarrow> False
      | d # u \<Rightarrow> is_digit d \<and> (if d = 48 then valid_fraction u else valid_fraction (dropWhile is_digit u))))"

definition hex_value :: "unit16 \<Rightarrow> nat option" where
  "hex_value c =
     (if is_digit c then Some (unat c - 48)
      else if 97 \<le> c \<and> c \<le> 102 then Some (unat c - 87)
      else if 65 \<le> c \<and> c \<le> 70 then Some (unat c - 55) else None)"

definition parse_hex4 :: "unit16 \<Rightarrow> unit16 \<Rightarrow> unit16 \<Rightarrow> unit16 \<Rightarrow> unit16 option" where
  "parse_hex4 a b c d = (case (hex_value a, hex_value b, hex_value c, hex_value d) of
     (Some i, Some j, Some k, Some l) \<Rightarrow> Some (of_nat (i * 4096 + j * 256 + k * 16 + l))
   | _ \<Rightarrow> None)"

definition unescape :: "unit16 \<Rightarrow> unit16 option" where
  "unescape e =
     (if e = 98 then Some 8 else if e = 116 then Some 9 else if e = 110 then Some 10
      else if e = 102 then Some 12 else if e = 114 then Some 13
      else if e = 34 \<or> e = 92 \<or> e = 47 then Some e else None)"

text \<open>The rest of a string literal, after its opening quote.\<close>

fun parse_string :: "jsstr \<Rightarrow> (jsstr \<times> jsstr) option" where
  "parse_string [] = None"
| "parse_string (c # s) =
     (if c = 34 then Some ([], s)
      else if c = 92 then
        (case s of [] \<Rightarrow> None
         | e # t \<Rightarrow>
             if e = 117 then
               (case t of h1 # h2 # h3 # h4 # u \<Rightarrow>
                  (case parse_hex4 h1 h2 h3 h4 of None \<Rightarrow> None
                   | Some x \<Rightarrow> map_option (apfst (Cons x)) (parse_string u))
                | _ \<Rightarrow> None)
             else (case unescape e of None \<Rightarrow> None
                   | Some x \<Rightarrow> map_option (apfst (Cons x)) (parse_string t)))
      else if c < 32 then None
      else map_option (apfst (Cons c)) (parse_string s))"

fun parse_value :: "nat \<Rightarrow> jsstr \<Rightarrow> (json \<times> jsstr) option"
  and parse_items :: "nat \<Rightarrow> jsstr \<Rightarrow> (json list \<times> jsstr) option"
  and parse_members :: "nat \<Rightarrow> jsstr \<Rightarrow> ((jsstr \<times> json) list \<times> jsstr) option" where
  "parse_value 0 s = None"
| "parse_value (Suc n) s =
     (if starts_with (js ''null'') s then Some (JNull, drop 4 s)
      else if starts_with (js ''true'') s then Some (JBool True, drop 4 s)
      else if starts_with (js ''false'') s then Some (JBool False, drop 5 s)
      else (case s of [] \<Rightarrow> None
        | c # t \<Rightarrow>
            if c = 34 then map_option (apfst JStr) (parse_string t)
            else if c = 91 then
              (case skip_space t of [] \<Rightarrow> None
               | d # u \<Rightarrow> if d = 93 then Some (JArr [], u)
                         else map_option (apfst JArr) (parse_items n (d # u)))
            else if c = 123 then
              (case skip_space t of [] \<Rightarrow> None
               | d # u \<Rightarrow> if d = 125 then Some (JObj [], u)
                         else map_option (apfst JObj) (parse_members n (d # u)))
            else (let w = takeWhile number_unit s in
              if valid_number w then Some (JNum w, dropWhile number_unit s) else None)))"
| "parse_items 0 s = None"
| "parse_items (Suc n) s =
     (case parse_value n s of None \<Rightarrow> None
      | Some (v, t) \<Rightarrow> (case skip_space t of [] \<Rightarrow> None
         | d # u \<Rightarrow> if d = 44 then map_option (apfst (Cons v)) (parse_items n (skip_space u))
                   else if d = 93 then Some ([v], u) else None))"
| "parse_members 0 s = None"
| "parse_members (Suc n) s =
     (case s of [] \<Rightarrow> None
      | q # r \<Rightarrow> if q \<noteq> 34 then None else
         (case parse_string r of None \<Rightarrow> None
          | Some (k, t) \<Rightarrow> (case skip_space t of [] \<Rightarrow> None
             | d # u \<Rightarrow> if d \<noteq> 58 then None else
                (case parse_value n (skip_space u) of None \<Rightarrow> None
                 | Some (v, x) \<Rightarrow> (case skip_space x of [] \<Rightarrow> None
                    | e # y \<Rightarrow> if e = 44 then map_option (apfst (Cons (k, v))) (parse_members n (skip_space y))
                              else if e = 125 then Some ([(k, v)], y) else None)))))"

definition json_parse :: "jsstr \<Rightarrow> json option" where
  "json_parse s = (case parse_value (Suc (length s)) (skip_space s) of
     None \<Rightarrow> None
   | Some (v, t) \<Rightarrow> if skip_space t = [] then Some v else None)"

section \<open>Reading parsed values\<close>

text \<open>\<open>obj[k]\<close> for a parsed value that is an object; \<open>None\<close> is \<open>undefined\<close>.\<close>

definition jget :: "jsstr \<Rightarrow> json \<Rightarrow> json option" where
  "jget k v = (case v of JObj ms \<Rightarrow> map_of (rev ms) k | _ \<Rightarrow> None)"

definition jstring :: "json option \<Rightarrow> jsstr option" where
  "jstring v = (case v of Some (JStr s) \<Rightarrow> Some s | _ \<Rightarrow> None)"

definition jbool :: "json option \<Rightarrow> bool option" where
  "jbool v = (case v of Some (JBool b) \<Rightarrow> Some b | _ \<Rightarrow> None)"

text \<open>Truthiness of a parsed value: \<open>null\<close>, \<open>false\<close>, \<open>0\<close> and the empty string are falsy.\<close>

definition zero_literal :: "jsstr \<Rightarrow> bool" where
  "zero_literal n \<longleftrightarrow> list_all (\<lambda>c. c = 48 \<or> c = 45 \<or> c = 46) (takeWhile (\<lambda>c. c \<noteq> 69 \<and> c \<noteq> 101) n)"

definition json_truthy :: "json option \<Rightarrow> bool" where
  "json_truthy v = (case v of None \<Rightarrow> False | Some JNull \<Rightarrow> False | Some (JBool b) \<Rightarrow> b
     | Some (JNum n) \<Rightarrow> \<not> zero_literal n | Some (JStr s) \<Rightarrow> s \<noteq> [] | Some _ \<Rightarrow> True)"

section \<open>Printing and parsing back\<close>

lemma unat_unit16_bound: "unat (c :: unit16) < 65536"
  using unsigned_less [of c] by simp

lemma hex_value_table: "list_all (\<lambda>n. hex_value (hex_unit n) = Some n) [0..<16]"
  by code_simp

lemma hex_value_hex_unit: "n < 16 \<Longrightarrow> hex_value (hex_unit n) = Some n"
  using hex_value_table by (simp add: list_all_iff)

lemma hex_digits_sum:
  "(n::nat) div 4096 * 4096 + n div 256 mod 16 * 256 + n div 16 mod 16 * 16 + n mod 16 = n"
proof -
  have "n div 16 div 16 = n div 256" and "n div 256 div 16 = n div 4096"
    by (simp_all add: div_mult2_eq [symmetric])
  then show ?thesis
    using div_mult_mod_eq [of n 16] div_mult_mod_eq [of "n div 16" 16] div_mult_mod_eq [of "n div 256" 16]
    by linarith
qed

lemma parse_hex4_hex4:
  "hex4 c = [h1, h2, h3, h4] \<Longrightarrow> parse_hex4 h1 h2 h3 h4 = Some c"
proof -
  let ?n = "unat c"
  assume h: "hex4 c = [h1, h2, h3, h4]"
  have "?n div 4096 < 16" using unat_unit16_bound [of c] by simp
  then show ?thesis
    using h by (auto simp: hex4_def Let_def parse_hex4_def hex_value_hex_unit hex_digits_sum)
qed

lemma parse_string_escape_unit:
  "parse_string (escape_unit c @ t) = map_option (apfst (Cons c)) (parse_string t)"
proof -
  obtain h1 h2 h3 h4 where h: "hex4 c = [h1, h2, h3, h4]" by (simp add: hex4_def Let_def)
  show ?thesis
    by (auto simp: escape_unit_def unescape_def h parse_hex4_hex4 [OF h] js_def)
qed

lemma surrogate_plain: "high_surrogate c \<or> low_surrogate c \<Longrightarrow> c \<noteq> 34 \<and> c \<noteq> 92 \<and> \<not> c < 32"
  by (auto simp: high_surrogate_def low_surrogate_def) (unat_arith+)

lemma parse_string_escape: "parse_string (escape s @ 34 # rest) = Some (s, rest)"
  by (induction s rule: escape.induct) (auto simp: parse_string_escape_unit surrogate_plain)

text \<open>Values whose number literals are valid: all that \<open>JSON.stringify\<close> prints.\<close>

fun json_ok :: "json \<Rightarrow> bool" where
  "json_ok (JNum n) = valid_number n"
| "json_ok (JArr xs) = list_all json_ok xs"
| "json_ok (JObj ms) = list_all (\<lambda>(k, v). json_ok v) ms"
| "json_ok v = True"

lemma number_unit_digit [simp]: "is_digit c \<Longrightarrow> number_unit c"
  by (simp add: number_unit_def)

lemma list_all_digits: "list_all is_digit u \<Longrightarrow> list_all number_unit u"
  by (auto simp: list_all_iff)

lemma digits_then: "list_all number_unit (dropWhile is_digit u) \<Longrightarrow> list_all number_unit u"
  by (induction u) (auto split: if_splits)

lemma valid_exponent_units: "valid_exponent s \<Longrightarrow> list_all number_unit s"
  by (auto simp: valid_exponent_def number_unit_def Let_def list_all_iff split: list.splits if_splits)

lemma valid_fraction_units: "valid_fraction s \<Longrightarrow> list_all number_unit s"
  by (auto simp: valid_fraction_def number_unit_def split: list.splits if_splits
      intro: valid_exponent_units digits_then dest: valid_exponent_units)

lemma valid_number_units: "valid_number s \<Longrightarrow> list_all number_unit s"
  by (auto simp: valid_number_def Let_def number_unit_def split: list.splits if_splits
      intro: digits_then dest: valid_fraction_units)

lemma valid_number_first:
  "valid_number s \<Longrightarrow> \<exists>c t. s = c # t \<and> (c = 45 \<or> 48 \<le> c \<and> c \<le> 57)"
  by (auto simp: valid_number_def Let_def is_digit_def split: list.splits if_splits)

definition ends_number :: "jsstr \<Rightarrow> bool" where
  "ends_number rest \<longleftrightarrow> (case rest of [] \<Rightarrow> True | c # _ \<Rightarrow> \<not> number_unit c)"

lemma number_split:
  assumes "list_all number_unit n" and "ends_number rest"
  shows "takeWhile number_unit (n @ rest) = n" and "dropWhile number_unit (n @ rest) = rest"
  using assms by (auto simp: list_all_iff ends_number_def takeWhile_append dropWhile_append split: list.splits)

definition plain_start :: "unit16 \<Rightarrow> bool" where
  "plain_start c \<longleftrightarrow> \<not> json_space c \<and> c \<noteq> 93 \<and> c \<noteq> 125"

lemma plain_start_number: "c = 45 \<or> 48 \<le> c \<and> c \<le> 57 \<Longrightarrow> plain_start c \<and> c \<noteq> 34 \<and> c \<noteq> 91 \<and> c \<noteq> 123 \<and> c \<noteq> 110 \<and> c \<noteq> 116 \<and> c \<noteq> 102"
  by (auto simp: plain_start_def json_space_def)

lemma stringify_start: "json_ok v \<Longrightarrow> \<exists>c t. stringify v = c # t \<and> plain_start c"
  by (cases v) (auto simp: js_def quote_def plain_start_def json_space_def
      dest!: valid_number_first plain_start_number)

lemma skip_space_plain: "plain_start c \<Longrightarrow> skip_space (c # t) = c # t"
  by (simp add: plain_start_def skip_space_def)

lemma stringify_skip [simp]: "json_ok v \<Longrightarrow> skip_space (stringify v @ r) = stringify v @ r"
  using stringify_start [of v] by (auto simp: skip_space_plain)

lemma skip_space_punct [simp]:
  "skip_space (34 # t) = 34 # t" "skip_space (44 # t) = 44 # t" "skip_space (58 # t) = 58 # t"
  "skip_space (93 # t) = 93 # t" "skip_space (125 # t) = 125 # t"
  by (simp_all add: skip_space_def json_space_def)

lemma ends_number_punct [simp]:
  "ends_number []" "ends_number (44 # t)" "ends_number (93 # t)" "ends_number (125 # t)"
  by (simp_all add: ends_number_def number_unit_def is_digit_def)

abbreviation parses :: "json \<Rightarrow> bool" where
  "parses v \<equiv> \<forall>n rest. length (stringify v) < n \<longrightarrow> ends_number rest \<longrightarrow>
     parse_value n (stringify v @ rest) = Some (v, rest)"

lemma parses_number: "valid_number w \<Longrightarrow> parses (JNum w)"
proof (intro allI impI)
  fix n rest
  assume w: "valid_number w" and "length (stringify (JNum w)) < n" and r: "ends_number rest"
  then obtain m where n: "n = Suc m" by (cases n) auto
  obtain c t where ct: "w = c # t" and c: "c = 45 \<or> 48 \<le> c \<and> c \<le> 57"
    using valid_number_first [OF w] by blast
  have "c \<noteq> 34 \<and> c \<noteq> 91 \<and> c \<noteq> 123 \<and> c \<noteq> 110 \<and> c \<noteq> 116 \<and> c \<noteq> 102"
    using plain_start_number [OF c] by blast
  then show "parse_value n (stringify (JNum w) @ rest) = Some (JNum w, rest)"
    using w number_split [OF valid_number_units [OF w] r] unfolding n
    by (simp add: ct js_def starts_with_def)
qed

lemma parses_string: "parses (JStr w)"
proof (intro allI impI)
  fix n rest
  assume "length (stringify (JStr w)) < n"
  then obtain m where n: "n = Suc m" by (cases n) auto
  show "parse_value n (stringify (JStr w) @ rest) = Some (JStr w, rest)"
    unfolding n by (simp add: quote_def parse_string_escape js_def starts_with_def)
qed

lemma parse_items_stringify:
  assumes "xs \<noteq> []" and "\<forall>x \<in> set xs. json_ok x \<and> parses x"
    and "length (join [44] (List.map stringify xs)) + 1 < n"
  shows "parse_items n (join [44] (List.map stringify xs) @ 93 # rest) = Some (xs, rest)"
  using assms
proof (induction xs arbitrary: n)
  case Nil
  then show ?case by simp
next
  case (Cons x xs)
  obtain m where n: "n = Suc m" using Cons.prems(3) by (cases n) auto
  show ?case
  proof (cases xs)
    case Nil
    then show ?thesis using Cons.prems unfolding n by simp
  next
    case (Cons y ys)
    then have "parse_items m (join [44] (List.map stringify xs) @ 93 # rest) = Some (xs, rest)"
      using Cons.IH [of m] Cons.prems unfolding n by simp
    moreover have "skip_space (join [44] (List.map stringify xs) @ 93 # rest) = join [44] (List.map stringify xs) @ 93 # rest"
      using Cons Cons.prems(2) by (cases ys) simp_all
    ultimately show ?thesis using Cons Cons.prems unfolding n by simp
  qed
qed

abbreviation member_text :: "jsstr \<times> json \<Rightarrow> jsstr" where
  "member_text \<equiv> \<lambda>(k, v). quote k @ 58 # stringify v"

lemma join_two: "xs \<noteq> [] \<Longrightarrow> join s (x # xs) = x @ s @ join s xs"
  by (cases xs) simp_all

lemma join_members_start:
  "ms \<noteq> [] \<Longrightarrow> \<exists>t. join [44] (List.map member_text ms) = 34 # t"
  by (cases ms; cases "tl ms") (auto simp: quote_def)

lemma parse_members_stringify:
  assumes "ms \<noteq> []" and "\<forall>(k, v) \<in> set ms. json_ok v \<and> parses v"
    and "length (join [44] (List.map member_text ms)) + 1 < n"
  shows "parse_members n (join [44] (List.map member_text ms) @ 125 # rest) = Some (ms, rest)"
  using assms
proof (induction ms arbitrary: n)
  case Nil
  then show ?case by simp
next
  case (Cons m ms)
  obtain k v where m: "m = (k, v)" by fastforce
  obtain i where n: "n = Suc i" using Cons.prems(3) by (cases n) auto
  have v: "json_ok v" "parses v" using Cons.prems(2) m by auto
  show ?case
  proof (cases "ms = []")
    case True
    then show ?thesis using Cons.prems(3) v unfolding n m
      by (simp add: quote_def parse_string_escape)
  next
    case False
    have len: "length (quote k) + length (stringify v) + length (join [44] (List.map member_text ms)) + 3 < n"
      using Cons.prems(3) False m by (simp add: join_two)
    have "parse_members i (join [44] (List.map member_text ms) @ 125 # rest) = Some (ms, rest)"
      using Cons.IH [of i] Cons.prems(2) False len unfolding n by simp
    moreover have "parse_value i (stringify v @ 44 # u) = Some (v, 44 # u)" for u
      using v len unfolding n by simp
    moreover obtain t where "join [44] (List.map member_text ms) = 34 # t"
      using join_members_start [OF False] by blast
    ultimately show ?thesis using v False unfolding n m
      by (simp add: join_two quote_def parse_string_escape)
  qed
qed

lemma parses_array:
  assumes "\<forall>x \<in> set xs. json_ok x \<and> parses x"
  shows "parses (JArr xs)"
proof (intro allI impI)
  fix n rest
  assume len: "length (stringify (JArr xs)) < n"
  then obtain m where n: "n = Suc m" by (cases n) auto
  show "parse_value n (stringify (JArr xs) @ rest) = Some (JArr xs, rest)"
  proof (cases xs)
    case Nil
    then show ?thesis unfolding n by (simp add: js_def starts_with_def)
  next
    case (Cons x ys)
    obtain c t where c: "stringify x = c # t" "plain_start c"
      using stringify_start assms Cons by (metis list.set_intros(1))
    then have j: "\<exists>u. join [44] (List.map stringify xs) = c # u"
      using Cons by (cases ys) auto
    have "parse_items m (join [44] (List.map stringify xs) @ 93 # rest) = Some (xs, rest)"
      using parse_items_stringify [OF _ assms, of m rest] Cons len unfolding n by simp
    then show ?thesis using j c(2) unfolding n
      by (auto simp: js_def starts_with_def skip_space_plain plain_start_def)
  qed
qed

lemma parses_object:
  assumes "\<forall>(k, v) \<in> set ms. json_ok v \<and> parses v"
  shows "parses (JObj ms)"
proof (intro allI impI)
  fix n rest
  assume len: "length (stringify (JObj ms)) < n"
  then obtain m where n: "n = Suc m" by (cases n) auto
  show "parse_value n (stringify (JObj ms) @ rest) = Some (JObj ms, rest)"
  proof (cases "ms = []")
    case True
    then show ?thesis unfolding n by (simp add: js_def starts_with_def)
  next
    case False
    have "parse_members m (join [44] (List.map member_text ms) @ 125 # rest) = Some (ms, rest)"
      using parse_members_stringify [OF False assms, of m rest] len unfolding n by simp
    then show ?thesis using join_members_start [OF False] unfolding n
      by (auto simp: js_def starts_with_def)
  qed
qed

lemma parses_literal: "parses JNull" "parses (JBool b)"
  by (auto simp: js_def starts_with_def gr0_conv_Suc elim!: less_natE)

lemma parses_all: "json_ok v \<Longrightarrow> parses v"
proof (induction v)
  case (JArr xs)
  then show ?case by (intro parses_array) (auto simp: list_all_iff)
next
  case (JObj ms)
  then have "\<forall>(k, v) \<in> set ms. json_ok v \<and> parses v"
    by (fastforce simp: list_all_iff)
  then show ?case by (rule parses_object)
qed (auto simp: parses_number parses_string parses_literal simp del: stringify.simps parse_value.simps)

lemma parse_stringify:
  assumes "json_ok v"
  shows "json_parse (stringify v) = Some v"
proof -
  have "parse_value (Suc (length (stringify v))) (stringify v @ []) = Some (v, [])"
    using parses_all [OF assms] by (simp del: parse_value.simps append_Nil2)
  then show ?thesis
    using stringify_skip [OF assms, of "[]"]
    by (simp add: json_parse_def skip_space_def del: parse_value.simps stringify_skip)
qed

lemma stringify_inject: "json_ok v \<Longrightarrow> json_ok w \<Longrightarrow> stringify v = stringify w \<longleftrightarrow> v = w"
  by (metis option.inject parse_stringify)

end
