(* ===== verification/Api_Types.thy ===== *)
theory Api_Types imports Json_Codec begin

text \<open>
  The data the admin frontend exchanges with its backend: one record per interface of
  \<open>frontend/lib/services/admin/types.ts\<close>, field by field and in the order of the file (an
  interface used by another one stands before it). A field \<open>f?: t\<close> is an \<open>option\<close>, where
  \<open>None\<close> is a property that is absent; a union of string literals is a datatype; a field that
  is also open to any other string (\<open>'user' | 'assistant' | string\<close>) is a string. An inline
  object type is a record of its own. Each field has a prefix that names its interface, since
  record fields share one name space here.

  A \<open>number\<close> is a rational: JSON carries no NaN and no infinity, and every finite double is a
  rational, so a field holds exactly the number that was received. The arithmetic on them is
  exact here and rounded to 53 bits in the browser.
\<close>

type_synonym jsnum = rat

datatype tab_key = Dashboard | Tester | Conversations | Settings | Accounts | Models

datatype policy_scope = Personal | Custom

datatype policy_action = Lock | Restore | Clear

datatype capability_mode = Manual | Auto_only | Unknown_mode

text \<open>\<open>data: string | ArrayBuffer | null\<close>, the result of a \<open>FileReader\<close>.\<close>

datatype attachment_data = Data_url jsstr | Data_buffer "8 word list" | Data_null

type_synonym json_result = json

record model_item =
  mi_default_reasoning_effort :: "jsstr option"
  mi_supported_reasoning_efforts :: "jsstr list option"
  mi_disabled_reason :: "jsstr option"
  mi_id :: jsstr
  mi_name :: "jsstr option"
  mi_family :: "jsstr option"
  mi_group :: "jsstr option"
  mi_notion_model :: "jsstr option"
  mi_aliases :: "jsstr list option"
  mi_beta :: "bool option"
  mi_enabled :: "bool option"

record model_policy =
  wp_disabledModels :: "jsstr list"
  wp_disabledProviders :: "jsstr list"

record restore_point =
  rp_policy :: model_policy
  rp_present :: bool
  rp_saved_at :: jsstr

record policy_model =
  pm_id :: jsstr
  pm_name :: jsstr
  pm_final_model :: "jsstr option"
  pm_provider :: jsstr
  pm_available :: bool
  pm_disabled_reason :: "jsstr option"
  pm_allowed :: bool

record policy_snapshot =
  ps_email :: jsstr
  ps_workspace_id :: jsstr
  ps_scope :: policy_scope
  ps_membership_type :: jsstr
  ps_can_edit :: bool
  ps_policy :: model_policy
  ps_policy_present :: bool
  ps_revision :: jsstr
  ps_models :: "policy_model list"
  ps_restore_point :: "restore_point option"

record policy_edit =
  pe_email :: jsstr
  pe_workspace_id :: jsstr
  pe_scope :: policy_scope
  pe_revision :: jsstr
  pe_action :: policy_action
  pe_model_id :: "jsstr option"

record session_summary =
  ss_user_email :: "jsstr option"
  ss_user_name :: "jsstr option"
  ss_space_name :: "jsstr option"
  ss_space_id :: "jsstr option"
  ss_probe_path :: "jsstr option"
  ss_client_version :: "jsstr option"
  ss_user_id :: "jsstr option"

record session_refresh_runtime =
  sr_last_refresh_at :: "jsstr option"
  sr_last_error :: "jsstr option"

record feature_config =
  fc_use_web_search :: "bool option"
  fc_use_read_only_mode :: "bool option"
  fc_force_disable_upstream_edits :: "bool option"
  fc_force_fresh_thread_per_request :: "bool option"
  fc_allow_native_transport_fallback :: "bool option"
  fc_writer_mode :: "bool option"
  fc_enable_generate_image :: "bool option"
  fc_enable_csv_attachment_support :: "bool option"
  fc_ai_surface :: "jsstr option"
  fc_thread_type :: "jsstr option"
  fc_search_scopes :: "jsstr list option"
  fc_extra :: "(jsstr \<times> json) list"

record prompt_config =
  pc_profile :: "jsstr option"
  pc_custom_prefix :: "jsstr option"
  pc_fallback_profiles :: "jsstr list option"
  pc_max_escalation_steps :: "jsnum option"
  pc_max_refusal_retries :: "jsnum option"
  pc_cognitive_reframing_prefix :: "jsstr option"
  pc_toolbox_capability_expansion_prefix :: "jsstr option"
  pc_coding_retry_prefixes :: "jsstr list option"
  pc_general_retry_prefixes :: "jsstr list option"
  pc_direct_answer_retry_prefixes :: "jsstr list option"

record responses_config =
  rc_store_ttl_seconds :: "jsnum option"

record storage_config =
  sc_sqlite_path :: "jsstr option"
  sc_persist_conversations :: "bool option"
  sc_persist_conversation_snapshots :: "bool option"
  sc_persist_responses :: "bool option"
  sc_persist_continuation_sessions :: "bool option"
  sc_persist_sillytavern_bindings :: "bool option"

record admin_config =
  ac_password :: "jsstr option"
  ac_token_ttl_hours :: "jsnum option"

record login_helper_config =
  lh_sessions_dir :: "jsstr option"
  lh_timeout_sec :: "jsnum option"

record app_config =
  cfg_host :: "jsstr option"
  cfg_port :: "jsnum option"
  cfg_api_key :: "jsstr option"
  cfg_upstream_base_url :: "jsstr option"
  cfg_upstream_origin :: "jsstr option"
  cfg_upstream_host_header :: "jsstr option"
  cfg_upstream_tls_server_name :: "jsstr option"
  cfg_upstream_use_env_proxy :: "bool option"
  cfg_timeout_sec :: "jsnum option"
  cfg_poll_interval_sec :: "jsnum option"
  cfg_poll_max_rounds :: "jsnum option"
  cfg_stream_chunk_runes :: "jsnum option"
  cfg_default_model :: "jsstr option"
  cfg_model_id :: "jsstr option"
  cfg_debug_upstream :: "bool option"
  cfg_model_aliases :: "((jsstr \<times> jsstr) list) option"
  cfg_responses :: "responses_config option"
  cfg_storage :: "storage_config option"
  cfg_admin :: "admin_config option"
  cfg_login_helper :: "login_helper_config option"
  cfg_prompt :: "prompt_config option"
  cfg_features :: "feature_config option"

record config_secrets =
  cs_api_key_set :: "bool option"
  cs_admin_password_set :: "bool option"

record admin_config_payload =
  acp_success :: bool
  acp_config :: app_config
  acp_secrets :: "config_secrets option"
  acp_session :: "session_summary option"
  acp_session_refresh_runtime :: "session_refresh_runtime option"
  acp_models :: "model_item list option"

record admin_verify_payload =
  av_authenticated :: "bool option"
  av_password_required :: "bool option"
  av_password_configured :: "bool option"
  av_admin_enabled :: "bool option"

record version_storage =
  vs_persist_conversations :: "bool option"
  vs_persist_conversation_snapshots :: "bool option"
  vs_persist_responses :: "bool option"
  vs_persist_continuation_sessions :: "bool option"
  vs_persist_sillytavern_bindings :: "bool option"

record version_payload =
  vp_success :: "bool option"
  vp_version :: "jsstr option"
  vp_name :: "jsstr option"
  vp_default_model :: "jsstr option"
  vp_model_count :: "jsnum option"
  vp_user_email :: "jsstr option"
  vp_space_id :: "jsstr option"
  vp_features :: "feature_config option"
  vp_responses :: "responses_config option"
  vp_storage :: "version_storage option"

record health_payload =
  hp_ok :: "bool option"
  hp_session_ready :: "bool option"
  hp_version :: "jsstr option"
  hp_model :: "jsstr option"
  hp_user_email :: "jsstr option"
  hp_space_id :: "jsstr option"

record login_status =
  ls_status :: "jsstr option"
  ls_message :: "jsstr option"
  ls_error :: "jsstr option"

record model_capabilities =
  mc_mode :: capability_mode
  mc_checked_at :: "jsstr option"
  mc_models :: "model_item list option"
  mc_catalog :: "model_item list option"

record workspace_item =
  ws_model_capabilities :: "model_capabilities option"
  ws_ai_disabled :: "bool option"
  ws_eligible :: "bool option"
  ws_eligibility_reason :: "jsstr option"
  ws_id :: jsstr
  ws_view_id :: "jsstr option"
  ws_name :: "jsstr option"
  ws_plan_type :: "jsstr option"
  ws_subscription_tier :: "jsstr option"
  ws_ai_enabled :: "bool option"
  ws_status :: "jsstr option"
  ws_last_error :: "jsstr option"
  ws_priority :: "jsnum option"
  ws_hourly_quota :: "jsnum option"
  ws_max_concurrency :: "jsnum option"
  ws_quota_limited :: "bool option"
  ws_remaining_quota :: "jsnum option"
  ws_window_started_at :: "jsstr option"
  ws_window_request_count :: "jsnum option"
  ws_cooldown_until :: "jsstr option"
  ws_cooldown_active :: "bool option"
  ws_cooldown_remaining_sec :: "jsnum option"
  ws_last_used_at :: "jsstr option"
  ws_last_success_at :: "jsstr option"
  ws_last_refresh_at :: "jsstr option"
  ws_last_quota_exhausted_at :: "jsstr option"
  ws_consecutive_failures :: "jsnum option"
  ws_total_successes :: "jsnum option"
  ws_total_failures :: "jsnum option"
  ws_default :: "bool option"
  ws_active :: "bool option"

record account_item =
  acct_credential_cooldown_until :: "jsstr option"
  acct_credential_cooldown_active :: "bool option"
  acct_account_max_concurrency :: "jsnum option"
  acct_email :: "jsstr option"
  acct_active :: "bool option"
  acct_disabled :: "bool option"
  acct_status :: "jsstr option"
  acct_last_login_at :: "jsstr option"
  acct_last_success_at :: "jsstr option"
  acct_last_refresh_at :: "jsstr option"
  acct_last_relogin_at :: "jsstr option"
  acct_priority :: "jsnum option"
  acct_hourly_quota :: "jsnum option"
  acct_max_concurrency :: "jsnum option"
  acct_quota_limited :: "bool option"
  acct_remaining_quota :: "jsnum option"
  acct_cooldown_active :: "bool option"
  acct_cooldown_remaining_sec :: "jsnum option"
  acct_cooldown_until :: "jsstr option"
  acct_window_started_at :: "jsstr option"
  acct_window_request_count :: "jsnum option"
  acct_total_successes :: "jsnum option"
  acct_total_failures :: "jsnum option"
  acct_consecutive_failures :: "jsnum option"
  acct_user_id :: "jsstr option"
  acct_user_name :: "jsstr option"
  acct_space_id :: "jsstr option"
  acct_space_view_id :: "jsstr option"
  acct_space_name :: "jsstr option"
  acct_plan_type :: "jsstr option"
  acct_default_workspace_id :: "jsstr option"
  acct_workspaces :: "workspace_item list option"
  acct_client_version :: "jsstr option"
  acct_probe_json :: "jsstr option"
  acct_probe_exists :: "bool option"
  acct_profile_dir :: "jsstr option"
  acct_profile_dir_exists :: "bool option"
  acct_storage_state_path :: "jsstr option"
  acct_storage_state_exists :: "bool option"
  acct_pending_state_path :: "jsstr option"
  acct_pending_state_exists :: "bool option"
  acct_last_used_at :: "jsstr option"
  acct_last_error :: "jsstr option"
  acct_login_status :: "login_status option"

record session_refresh_config =
  src_enabled :: "bool option"
  src_interval_minutes :: "jsnum option"

record accounts_payload =
  ap_items :: "account_item list option"
  ap_active_account :: "jsstr option"
  ap_active_workspace_id :: "jsstr option"
  ap_session_ready :: "bool option"
  ap_session :: "session_summary option"
  ap_login_helper :: "login_helper_config option"
  ap_session_refresh :: "session_refresh_config option"
  ap_session_refresh_runtime :: "session_refresh_runtime option"

record rate_limit_window =
  rw_resets_at_ms :: "jsnum option"
  rw_label :: "jsstr option"
  rw_credit_type :: "jsstr option"
  rw_scope :: "jsstr option"
  rw_cadence :: "jsstr option"
  rw_used :: jsnum
  rw_limit :: jsnum
  rw_period_end_ms :: "jsnum option"

record rate_limit =
  rl_status :: "jsstr option"
  rl_short :: "rate_limit_window option"
  rl_long :: "rate_limit_window option"

record ai_usage =
  us_is_eligible :: bool
  us_is_eligible_known :: bool
  us_type :: "jsstr option"
  us_quota_enforced :: bool
  us_basic_usage_known :: "bool option"
  us_basic_limits_known :: "bool option"
  us_space_usage :: jsnum
  us_space_limit :: jsnum
  us_user_usage :: jsnum
  us_user_limit :: jsnum
  us_current_period_usage_known :: "bool option"
  us_current_period_space_usage :: "jsnum option"
  us_current_period_user_usage :: "jsnum option"
  us_promotional_usage_known :: "bool option"
  us_promotional_usage :: "jsnum option"
  us_promotional_limit_known :: "bool option"
  us_promotional_limit :: "jsnum option"
  us_premium_credit_known :: "bool option"
  us_premium_credit_balance :: "jsnum option"
  us_credits_in_overage :: "jsnum option"
  us_overage_limit :: "jsnum option"
  us_premium_service_period_start_ms :: "jsnum option"
  us_rate_limit :: "rate_limit option"

record ai_usage_report =
  ur_email :: jsstr
  ur_space_id :: "jsstr option"
  ur_workspace_name :: "jsstr option"
  ur_status :: jsstr
  ur_detail :: "jsstr option"
  ur_cached :: bool
  ur_fetched_at :: "jsstr option"
  ur_usage :: "ai_usage option"

record ai_usage_payload =
  up_accounts :: "ai_usage_report list"
  up_ttl_seconds :: jsnum

record workspace_ai_usage_payload =
  wu_report :: ai_usage_report
  wu_ttl_seconds :: jsnum

record attachment_input =
  ai_name :: jsstr
  ai_content_type :: jsstr
  ai_data :: attachment_data

record chat_run_input =
  cri_account_email :: "jsstr option"
  cri_workspace_id :: "jsstr option"
  cri_prompt :: jsstr
  cri_model :: jsstr
  cri_use_web_search :: bool
  cri_attachments :: "attachment_input list"
  cri_conversation_id :: "jsstr option"

record chat_run_result =
  crr_conversation_id :: jsstr
  crr_text :: jsstr
  crr_truncated :: "bool option"

record message_attachment =
  ma_name :: "jsstr option"
  ma_content_type :: "jsstr option"
  ma_contentType :: "jsstr option"
  ma_url :: "jsstr option"
  ma_source :: "jsstr option"

record model_observation =
  mo_model :: jsstr
  mo_provider :: "jsstr option"
  mo_source :: jsstr
  mo_step_id :: "jsstr option"

record conversation_message =
  cm_requested_model :: "jsstr option"
  cm_model_selection_mode :: "jsstr option"
  cm_model_observations :: "model_observation list option"
  cm_id :: "jsstr option"
  cm_role :: "jsstr option"
  cm_status :: "jsstr option"
  cm_content :: "jsstr option"
  cm_created_at :: "jsstr option"
  cm_updated_at :: "jsstr option"
  cm_edited_at :: "jsstr option"
  cm_truncated :: "bool option"
  cm_step_type :: "jsstr option"
  cm_attachments :: "message_attachment list option"

record conversation_summary =
  cv_id :: jsstr
  cv_title :: "jsstr option"
  cv_title_edited_at :: "jsstr option"
  cv_origin :: "jsstr option"
  cv_remote_only :: "bool option"
  cv_preview :: "jsstr option"
  cv_request_prompt :: "jsstr option"
  cv_status :: "jsstr option"
  cv_source :: "jsstr option"
  cv_transport :: "jsstr option"
  cv_model :: "jsstr option"
  cv_notion_model :: "jsstr option"
  cv_account_email :: "jsstr option"
  cv_space_id :: "jsstr option"
  cv_thread_id :: "jsstr option"
  cv_trace_id :: "jsstr option"
  cv_response_id :: "jsstr option"
  cv_completion_id :: "jsstr option"
  cv_created_by_display_name :: "jsstr option"
  cv_created_at :: "jsstr option"
  cv_updated_at :: "jsstr option"
  cv_error :: "jsstr option"

record conversation_detail = conversation_summary +
  cd_messages :: "conversation_message list option"

record conversation_mutation_payload =
  cmp_success :: bool
  cmp_item :: conversation_detail

record conversations_payload =
  csp_items :: "conversation_summary list option"

record conversation_detail_payload =
  cdp_item :: conversation_detail

section \<open>Empty values\<close>

text \<open>
  The object literals with no optional property, from which concrete values are written as
  record updates.
\<close>

definition no_model_item :: model_item where
  "no_model_item = \<lparr>mi_default_reasoning_effort = None, mi_supported_reasoning_efforts = None,
     mi_disabled_reason = None, mi_id = [], mi_name = None, mi_family = None, mi_group = None,
     mi_notion_model = None, mi_aliases = None, mi_beta = None, mi_enabled = None\<rparr>"

definition no_workspace_item :: workspace_item where
  "no_workspace_item = \<lparr>ws_model_capabilities = None, ws_ai_disabled = None, ws_eligible = None,
     ws_eligibility_reason = None, ws_id = [], ws_view_id = None, ws_name = None,
     ws_plan_type = None, ws_subscription_tier = None, ws_ai_enabled = None, ws_status = None,
     ws_last_error = None, ws_priority = None, ws_hourly_quota = None,
     ws_max_concurrency = None, ws_quota_limited = None, ws_remaining_quota = None,
     ws_window_started_at = None, ws_window_request_count = None, ws_cooldown_until = None,
     ws_cooldown_active = None, ws_cooldown_remaining_sec = None, ws_last_used_at = None,
     ws_last_success_at = None, ws_last_refresh_at = None, ws_last_quota_exhausted_at = None,
     ws_consecutive_failures = None, ws_total_successes = None, ws_total_failures = None,
     ws_default = None, ws_active = None\<rparr>"

definition no_account_item :: account_item where
  "no_account_item = \<lparr>acct_credential_cooldown_until = None, acct_credential_cooldown_active = None,
     acct_account_max_concurrency = None, acct_email = None, acct_active = None,
     acct_disabled = None, acct_status = None, acct_last_login_at = None,
     acct_last_success_at = None, acct_last_refresh_at = None, acct_last_relogin_at = None,
     acct_priority = None, acct_hourly_quota = None, acct_max_concurrency = None,
     acct_quota_limited = None, acct_remaining_quota = None, acct_cooldown_active = None,
     acct_cooldown_remaining_sec = None, acct_cooldown_until = None,
     acct_window_started_at = None, acct_window_request_count = None,
     acct_total_successes = None, acct_total_failures = None,
     acct_consecutive_failures = None, acct_user_id = None, acct_user_name = None,
     acct_space_id = None, acct_space_view_id = None, acct_space_name = None,
     acct_plan_type = None, acct_default_workspace_id = None, acct_workspaces = None,
     acct_client_version = None, acct_probe_json = None, acct_probe_exists = None,
     acct_profile_dir = None, acct_profile_dir_exists = None, acct_storage_state_path = None,
     acct_storage_state_exists = None, acct_pending_state_path = None,
     acct_pending_state_exists = None, acct_last_used_at = None, acct_last_error = None,
     acct_login_status = None\<rparr>"

definition no_conversation_message :: conversation_message where
  "no_conversation_message = \<lparr>cm_requested_model = None, cm_model_selection_mode = None, cm_model_observations = None,
     cm_id = None, cm_role = None, cm_status = None, cm_content = None, cm_created_at = None,
     cm_updated_at = None, cm_edited_at = None, cm_truncated = None, cm_step_type = None,
     cm_attachments = None\<rparr>"

definition no_conversation_summary :: conversation_summary where
  "no_conversation_summary = \<lparr>cv_id = [], cv_title = None, cv_title_edited_at = None, cv_origin = None,
     cv_remote_only = None, cv_preview = None, cv_request_prompt = None, cv_status = None,
     cv_source = None, cv_transport = None, cv_model = None, cv_notion_model = None,
     cv_account_email = None, cv_space_id = None, cv_thread_id = None, cv_trace_id = None,
     cv_response_id = None, cv_completion_id = None, cv_created_by_display_name = None,
     cv_created_at = None, cv_updated_at = None, cv_error = None\<rparr>"

definition no_conversation_detail :: conversation_detail where
  "no_conversation_detail = conversation_summary.extend no_conversation_summary \<lparr>cd_messages = None\<rparr>"

lemmas no_value_defs = no_model_item_def no_workspace_item_def no_account_item_def
  no_conversation_message_def no_conversation_summary_def no_conversation_detail_def

end
