(* ===== verification/Texts.thy ===== *)
theory Texts imports Js_Prelude begin

text \<open>
  The string literals of the frontend that are not ASCII, as UTF-16 code units, each with an
  English gloss. The components refer to them by name, so that a message is compared and
  concatenated as the string the code shows.
\<close>

text \<open>\<open>txt_stream_off\<close>: event stream not connected.\<close>

definition txt_stream_off :: jsstr where
  "txt_stream_off = [0x5B9E, 0x65F6, 0x6D41, 0x672A, 0x8FDE, 0x63A5]"

text \<open>\<open>txt_stream_connecting\<close>: event stream connecting.\<close>

definition txt_stream_connecting :: jsstr where
  "txt_stream_connecting = [0x5B9E, 0x65F6, 0x6D41, 0x8FDE, 0x63A5, 0x4E2D]"

text \<open>\<open>txt_stream_on\<close>: event stream connected.\<close>

definition txt_stream_on :: jsstr where
  "txt_stream_on = [0x5B9E, 0x65F6, 0x6D41, 0x5DF2, 0x8FDE, 0x63A5]"

text \<open>\<open>txt_stream_retry\<close>: event stream reconnecting.\<close>

definition txt_stream_retry :: jsstr where
  "txt_stream_retry = [0x5B9E, 0x65F6, 0x6D41, 0x91CD, 0x8FDE, 0x4E2D]"

text \<open>\<open>txt_boot_failed\<close>: loading the console failed.\<close>

definition txt_boot_failed :: jsstr where
  "txt_boot_failed = [0x52A0, 0x8F7D, 0x63A7, 0x5236, 0x53F0, 0x5931, 0x8D25]"

text \<open>\<open>txt_html_error_page\<close>: HTML error page.\<close>

definition txt_html_error_page :: jsstr where
  "txt_html_error_page = [72, 84, 77, 76, 32, 0x9519, 0x8BEF, 0x9875]"

text \<open>\<open>txt_html_prefix\<close>: received an HTML error page (HTTP.\<close>

definition txt_html_prefix :: jsstr where
  "txt_html_prefix = [0x6536, 0x5230, 32, 72, 84, 77, 76, 32, 0x9519, 0x8BEF, 0x9875, 0xFF08, 72, 84, 84, 80,
     32]"

text \<open>\<open>txt_html_middle\<close>: ), the details may have been replaced by a gateway; see the conversation record:.\<close>

definition txt_html_middle :: jsstr where
  "txt_html_middle = [0xFF09, 0xFF0C, 0x9519, 0x8BEF, 0x8BE6, 0x60C5, 0x53EF, 0x80FD, 0x88AB, 0x7F51, 0x5173,
     0x66FF, 0x6362, 0xFF0C, 0x8BF7, 0x67E5, 0x770B, 0x4F1A, 0x8BDD, 0x8BB0, 0x5F55, 0x4E2D,
     0x7684, 0x5931, 0x8D25, 0x539F, 0x56E0, 0xFF1A]"

text \<open>\<open>txt_stream_cut\<close>: connection lost, the answer is not finished.\<close>

definition txt_stream_cut :: jsstr where
  "txt_stream_cut = [0x8FDE, 0x63A5, 0x4E2D, 0x65AD, 0xFF0C, 0x56DE, 0x7B54, 0x5C1A, 0x672A, 0x5B8C, 0x6210]"

text \<open>\<open>txt_generation_failed\<close>: generation failed.\<close>

definition txt_generation_failed :: jsstr where
  "txt_generation_failed = [0x751F, 0x6210, 0x5931, 0x8D25]"

text \<open>\<open>txt_copy_failed\<close>: copying failed.\<close>

definition txt_copy_failed :: jsstr where
  "txt_copy_failed = [0x590D, 0x5236, 0x5931, 0x8D25]"

text \<open>\<open>txt_read_failed\<close>: reading the file failed.\<close>

definition txt_read_failed :: jsstr where
  "txt_read_failed = [0x8BFB, 0x53D6, 0x6587, 0x4EF6, 0x5931, 0x8D25]"

text \<open>\<open>txt_unknown_model_open\<close>: unrecognised model (.\<close>

definition txt_unknown_model_open :: jsstr where
  "txt_unknown_model_open = [0x672A, 0x8BC6, 0x522B, 0x6A21, 0x578B, 0xFF08]"

text \<open>\<open>txt_close_paren\<close>: ).\<close>

definition txt_close_paren :: jsstr where
  "txt_close_paren = [0xFF09]"

text \<open>\<open>txt_unknown_actual\<close>: unknown (not reported upstream).\<close>

definition txt_unknown_actual :: jsstr where
  "txt_unknown_actual = [0x672A, 0x77E5, 0xFF08, 0x4E0A, 0x6E38, 0x672A, 0x62A5, 0x544A, 0xFF09]"

text \<open>\<open>txt_auto_fallback\<close>: Auto, compatible.\<close>

definition txt_auto_fallback :: jsstr where
  "txt_auto_fallback = [32, 0xB7, 32, 65, 117, 116, 111, 32, 0x517C, 0x5BB9]"

text \<open>\<open>txt_auto_assigned\<close>: Auto, assigned.\<close>

definition txt_auto_assigned :: jsstr where
  "txt_auto_assigned = [32, 0xB7, 32, 65, 117, 116, 111, 32, 0x5206, 0x914D]"

text \<open>\<open>txt_starter_plan\<close>: order thoughts and a plan.\<close>

definition txt_starter_plan :: jsstr where
  "txt_starter_plan = [0x68B3, 0x7406, 0x601D, 0x8DEF, 0x4E0E, 0x884C, 0x52A8, 0x8BA1, 0x5212]"

text \<open>\<open>txt_starter_document\<close>: analyse a document.\<close>

definition txt_starter_document :: jsstr where
  "txt_starter_document = [0x5206, 0x6790, 0x6587, 0x6863, 0x4E2D, 0x7684, 0x5173, 0x952E, 0x4FE1, 0x606F]"

text \<open>\<open>txt_starter_text\<close>: polish a text.\<close>

definition txt_starter_text :: jsstr where
  "txt_starter_text = [0x4E00, 0x8D77, 0x6253, 0x78E8, 0x4E00, 0x6BB5, 0x6587, 0x5B57]"

text \<open>\<open>txt_step_search\<close>: web search.\<close>

definition txt_step_search :: jsstr where
  "txt_step_search = [0x8054, 0x7F51, 0x641C, 0x7D22]"

text \<open>\<open>txt_step_tool\<close>: tool call.\<close>

definition txt_step_tool :: jsstr where
  "txt_step_tool = [0x8C03, 0x7528, 0x5DE5, 0x5177]"

text \<open>\<open>txt_step_think\<close>: thinking.\<close>

definition txt_step_think :: jsstr where
  "txt_step_think = [0x601D, 0x8003]"

text \<open>\<open>txt_step_read\<close>: reading a file.\<close>

definition txt_step_read :: jsstr where
  "txt_step_read = [0x8BFB, 0x53D6, 0x6587, 0x4EF6]"

text \<open>\<open>txt_step_title\<close>: making a title.\<close>

definition txt_step_title :: jsstr where
  "txt_step_title = [0x751F, 0x6210, 0x6807, 0x9898]"

text \<open>\<open>txt_step_other\<close>: processing step.\<close>

definition txt_step_other :: jsstr where
  "txt_step_other = [0x5904, 0x7406, 0x6B65, 0x9AA4]"

text \<open>\<open>txt_conversation\<close>: conversation.\<close>

definition txt_conversation :: jsstr where
  "txt_conversation = [0x5BF9, 0x8BDD]"

text \<open>\<open>txt_model_colon\<close>: model:.\<close>

definition txt_model_colon :: jsstr where
  "txt_model_colon = [0x6A21, 0x578B, 0xFF1A]"

text \<open>\<open>txt_account_colon\<close>: account:.\<close>

definition txt_account_colon :: jsstr where
  "txt_account_colon = [0x8D26, 0x53F7, 0xFF1A]"

text \<open>\<open>txt_exported_colon\<close>: exported at:.\<close>

definition txt_exported_colon :: jsstr where
  "txt_exported_colon = [0x5BFC, 0x51FA, 0x65F6, 0x95F4, 0xFF1A]"

text \<open>\<open>txt_middle_dot\<close>: a middle dot between spaces.\<close>

definition txt_middle_dot :: jsstr where
  "txt_middle_dot = [32, 0xB7, 32]"

text \<open>\<open>txt_process_dot\<close>: process.\<close>

definition txt_process_dot :: jsstr where
  "txt_process_dot = [62, 32, 0x8FC7, 0x7A0B, 32, 0xB7, 32]"

text \<open>\<open>txt_colon\<close>: full-width colon.\<close>

definition txt_colon :: jsstr where
  "txt_colon = [0xFF1A]"

text \<open>\<open>txt_user_heading\<close>: user.\<close>

definition txt_user_heading :: jsstr where
  "txt_user_heading = [35, 35, 32, 0x7528, 0x6237]"

text \<open>\<open>txt_attachments_colon\<close>: attachments:.\<close>

definition txt_attachments_colon :: jsstr where
  "txt_attachments_colon = [0x9644, 0x4EF6, 0xFF1A]"

text \<open>\<open>txt_attachment_space\<close>: attachment.\<close>

definition txt_attachment_space :: jsstr where
  "txt_attachment_space = [0x9644, 0x4EF6, 32]"

text \<open>\<open>txt_edited_note\<close>: edited by hand.\<close>

definition txt_edited_note :: jsstr where
  "txt_edited_note = [95, 0xFF08, 0x6B64, 0x6761, 0x5185, 0x5BB9, 0x5DF2, 0x88AB, 0x624B, 0x52A8, 0x7F16,
     0x8F91, 0xFF09, 95]"

text \<open>\<open>txt_tier_unknown\<close>: plan not confirmed.\<close>

definition txt_tier_unknown :: jsstr where
  "txt_tier_unknown = [0x5957, 0x9910, 0x5F85, 0x786E, 0x8BA4]"

text \<open>\<open>txt_new_conversation\<close>: new conversation.\<close>

definition txt_new_conversation :: jsstr where
  "txt_new_conversation = [0x65B0, 0x5BF9, 0x8BDD]"

text \<open>\<open>txt_busy_no_files\<close>: generating, no files can be added now.\<close>

definition txt_busy_no_files :: jsstr where
  "txt_busy_no_files = [0x6B63, 0x5728, 0x751F, 0x6210, 0xFF0C, 0x6682, 0x65F6, 0x4E0D, 0x80FD, 0x6DFB, 0x52A0,
     0x9644, 0x4EF6]"

text \<open>\<open>txt_unnamed_file\<close>: unnamed file.\<close>

definition txt_unnamed_file :: jsstr where
  "txt_unnamed_file = [0x672A, 0x547D, 0x540D, 0x6587, 0x4EF6]"

text \<open>\<open>txt_empty_file\<close>: (empty file).\<close>

definition txt_empty_file :: jsstr where
  "txt_empty_file = [0xFF08, 0x7A7A, 0x6587, 0x4EF6, 0xFF09]"

text \<open>\<open>txt_open_paren\<close>: (.\<close>

definition txt_open_paren :: jsstr where
  "txt_open_paren = [0xFF08]"

text \<open>\<open>txt_limit_about\<close>: , at most about.\<close>

definition txt_limit_about :: jsstr where
  "txt_limit_about = [0xFF0C, 0x5355, 0x6B21, 0x53D1, 0x9001, 0x4E0A, 0x9650, 0x7EA6, 32]"

text \<open>\<open>txt_skipped\<close>: skipped.\<close>

definition txt_skipped :: jsstr where
  "txt_skipped = [0x5DF2, 0x8DF3, 0x8FC7, 32]"

text \<open>\<open>txt_files_colon\<close>: files:.\<close>

definition txt_files_colon :: jsstr where
  "txt_files_colon = [32, 0x4E2A, 0x6587, 0x4EF6, 0xFF1A]"

text \<open>\<open>txt_semicolon\<close>: full-width semicolon.\<close>

definition txt_semicolon :: jsstr where
  "txt_semicolon = [0xFF1B]"

text \<open>\<open>txt_quota_read_failed\<close>: reading the quota failed.\<close>

definition txt_quota_read_failed :: jsstr where
  "txt_quota_read_failed = [0x989D, 0x5EA6, 0x8BFB, 0x53D6, 0x5931, 0x8D25]"

text \<open>\<open>txt_quota_no_email\<close>: the account of this workspace has no email, its quota cannot be read.\<close>

definition txt_quota_no_email :: jsstr where
  "txt_quota_no_email = [0x8BE5, 0x5DE5, 0x4F5C, 0x533A, 0x6240, 0x5C5E, 0x8D26, 0x53F7, 0x7F3A, 0x5C11, 0x90AE,
     0x7BB1, 0xFF0C, 0x65E0, 0x6CD5, 0x8BFB, 0x53D6, 0x989D, 0x5EA6]"

text \<open>\<open>txt_resets_on\<close>: resets on.\<close>

definition txt_resets_on :: jsstr where
  "txt_resets_on = [0x91CD, 0x7F6E, 0x4E8E, 32]"

text \<open>\<open>txt_reset_unknown\<close>: reset date not returned.\<close>

definition txt_reset_unknown :: jsstr where
  "txt_reset_unknown = [0x91CD, 0x7F6E, 0x65E5, 0x671F, 0x672A, 0x8FD4, 0x56DE]"

text \<open>\<open>txt_rolling_window\<close>: rolling window.\<close>

definition txt_rolling_window :: jsstr where
  "txt_rolling_window = [0x6EDA, 0x52A8, 0x5468, 0x671F, 32]"

text \<open>\<open>txt_unknown\<close>: unknown.\<close>

definition txt_unknown :: jsstr where
  "txt_unknown = [0x672A, 0x77E5]"

text \<open>\<open>txt_reset_not_given\<close>: reset time not returned yet.\<close>

definition txt_reset_not_given :: jsstr where
  "txt_reset_not_given = [32, 0xB7, 32, 0x4E0A, 0x6E38, 0x5C1A, 0x672A, 0x8FD4, 0x56DE, 0x91CD, 0x7F6E, 0x65F6,
     0x95F4]"

text \<open>\<open>txt_reset_reached\<close>: reset time reached, waiting for a refresh.\<close>

definition txt_reset_reached :: jsstr where
  "txt_reset_reached = [0x5DF2, 0x5230, 0x91CD, 0x7F6E, 0x65F6, 0x95F4, 0xFF0C, 0x7B49, 0x5F85, 0x5237, 0x65B0,
     0x786E, 0x8BA4]"

text \<open>\<open>txt_hours\<close>: hours.\<close>

definition txt_hours :: jsstr where
  "txt_hours = [32, 0x5C0F, 0x65F6, 32]"

text \<open>\<open>txt_minutes\<close>: minutes.\<close>

definition txt_minutes :: jsstr where
  "txt_minutes = [32, 0x5206, 0x949F]"

text \<open>\<open>txt_within\<close>: within.\<close>

definition txt_within :: jsstr where
  "txt_within = [0x5185]"

text \<open>\<open>txt_under_a_minute\<close>: less than a minute.\<close>

definition txt_under_a_minute :: jsstr where
  "txt_under_a_minute = [0x4E0D, 0x5230, 32, 49, 32, 0x5206, 0x949F]"

text \<open>\<open>txt_until_reset\<close>: until reset.\<close>

definition txt_until_reset :: jsstr where
  "txt_until_reset = [0x540E, 0x91CD, 0x7F6E]"

text \<open>\<open>txt_quota_unavailable\<close>: quota unavailable.\<close>

definition txt_quota_unavailable :: jsstr where
  "txt_quota_unavailable = [0x989D, 0x5EA6, 0x6682, 0x65F6, 0x4E0D, 0x53EF, 0x7528]"

text \<open>\<open>txt_rolling\<close>: rolling.\<close>

definition txt_rolling :: jsstr where
  "txt_rolling = [0x6EDA, 0x52A8]"

text \<open>\<open>txt_monthly\<close>: monthly.\<close>

definition txt_monthly :: jsstr where
  "txt_monthly = [0x6708, 0x5EA6]"

text \<open>\<open>txt_window_missing\<close>: window not returned.\<close>

definition txt_window_missing :: jsstr where
  "txt_window_missing = [0x4E0A, 0x6E38, 0x672A, 0x8FD4, 0x56DE, 0x6B64, 0x7A97, 0x53E3]"

text \<open>\<open>txt_stop_before_switch\<close>: stop the current answer before switching.\<close>

definition txt_stop_before_switch :: jsstr where
  "txt_stop_before_switch = [0x8BF7, 0x5148, 0x505C, 0x6B62, 0x5F53, 0x524D, 0x751F, 0x6210, 0xFF0C, 0x518D, 0x5207,
     0x6362, 0x5BF9, 0x8BDD]"

text \<open>\<open>txt_loading_conversation\<close>: loading the conversation.\<close>

definition txt_loading_conversation :: jsstr where
  "txt_loading_conversation = [0x52A0, 0x8F7D, 0x5BF9, 0x8BDD, 0x2026]"

text \<open>\<open>txt_conversation_gone\<close>: the conversation no longer exists, switched to a new one.\<close>

definition txt_conversation_gone :: jsstr where
  "txt_conversation_gone = [0x8BE5, 0x4F1A, 0x8BDD, 0x5DF2, 0x4E0D, 0x5B58, 0x5728, 0xFF0C, 0x5DF2, 0x5207, 0x6362,
     0x5230, 0x65B0, 0x5BF9, 0x8BDD, 0x3002]"

text \<open>\<open>txt_draft_kept\<close>: the draft is kept.\<close>

definition txt_draft_kept :: jsstr where
  "txt_draft_kept = [0x8349, 0x7A3F, 0x5DF2, 0x4FDD, 0x7559, 0x3002]"

text \<open>\<open>txt_load_failed_title\<close>: loading the conversation failed.\<close>

definition txt_load_failed_title :: jsstr where
  "txt_load_failed_title = [0x5BF9, 0x8BDD, 0x52A0, 0x8F7D, 0x5931, 0x8D25]"

text \<open>\<open>txt_load_failed\<close>: loading the conversation failed.\<close>

definition txt_load_failed :: jsstr where
  "txt_load_failed = [0x4F1A, 0x8BDD, 0x52A0, 0x8F7D, 0x5931, 0x8D25]"

text \<open>\<open>txt_rename_remote\<close>: exists only in Notion, cannot be renamed here.\<close>

definition txt_rename_remote :: jsstr where
  "txt_rename_remote = [0x8BE5, 0x5BF9, 0x8BDD, 0x53EA, 0x5B58, 0x5728, 0x4E8E, 32, 78, 111, 116, 105, 111, 110,
     0xFF0C, 0x65E0, 0x6CD5, 0x5728, 0x6B64, 0x91CD, 0x547D, 0x540D]"

text \<open>\<open>txt_renamed\<close>: renamed.\<close>

definition txt_renamed :: jsstr where
  "txt_renamed = [0x5DF2, 0x91CD, 0x547D, 0x540D]"

text \<open>\<open>txt_rename_failed\<close>: renaming failed.\<close>

definition txt_rename_failed :: jsstr where
  "txt_rename_failed = [0x91CD, 0x547D, 0x540D, 0x5931, 0x8D25]"

text \<open>\<open>txt_delete_remote\<close>: exists only in Notion, cannot be deleted here.\<close>

definition txt_delete_remote :: jsstr where
  "txt_delete_remote = [0x8BE5, 0x5BF9, 0x8BDD, 0x53EA, 0x5B58, 0x5728, 0x4E8E, 32, 78, 111, 116, 105, 111, 110,
     0xFF0C, 0x65E0, 0x6CD5, 0x5728, 0x6B64, 0x5220, 0x9664]"

text \<open>\<open>txt_delete_running\<close>: still generating, delete it later.\<close>

definition txt_delete_running :: jsstr where
  "txt_delete_running = [0x6B64, 0x5BF9, 0x8BDD, 0x6B63, 0x5728, 0x751F, 0x6210, 0xFF0C, 0x5B8C, 0x6210, 0x540E,
     0x518D, 0x5220, 0x9664]"

text \<open>\<open>txt_deleted\<close>: deleted.\<close>

definition txt_deleted :: jsstr where
  "txt_deleted = [0x5DF2, 0x5220, 0x9664]"

text \<open>\<open>txt_delete_failed\<close>: deleting failed.\<close>

definition txt_delete_failed :: jsstr where
  "txt_delete_failed = [0x5220, 0x9664, 0x5931, 0x8D25]"

text \<open>\<open>txt_exported\<close>: exported.\<close>

definition txt_exported :: jsstr where
  "txt_exported = [0x5DF2, 0x5BFC, 0x51FA, 32, 77, 97, 114, 107, 100, 111, 119, 110]"

text \<open>\<open>txt_export_failed\<close>: exporting failed.\<close>

definition txt_export_failed :: jsstr where
  "txt_export_failed = [0x5BFC, 0x51FA, 0x5931, 0x8D25]"

text \<open>\<open>txt_edit_running\<close>: generating, cannot edit now.\<close>

definition txt_edit_running :: jsstr where
  "txt_edit_running = [0x6B63, 0x5728, 0x751F, 0x6210, 0xFF0C, 0x6682, 0x65F6, 0x4E0D, 0x80FD, 0x7F16, 0x8F91]"

text \<open>\<open>txt_message_deleted\<close>: local message deleted.\<close>

definition txt_message_deleted :: jsstr where
  "txt_message_deleted = [0x5DF2, 0x5220, 0x9664, 0x672C, 0x5730, 0x6D88, 0x606F]"

text \<open>\<open>txt_content_empty\<close>: the content must not be empty.\<close>

definition txt_content_empty :: jsstr where
  "txt_content_empty = [0x5185, 0x5BB9, 0x4E0D, 0x80FD, 0x4E3A, 0x7A7A]"

text \<open>\<open>txt_saved\<close>: saved.\<close>

definition txt_saved :: jsstr where
  "txt_saved = [0x5DF2, 0x4FDD, 0x5B58]"

text \<open>\<open>txt_save_failed\<close>: saving failed.\<close>

definition txt_save_failed :: jsstr where
  "txt_save_failed = [0x4FDD, 0x5B58, 0x5931, 0x8D25]"

text \<open>\<open>txt_target_unavailable\<close>: the selected workspace is no longer available.\<close>

definition txt_target_unavailable :: jsstr where
  "txt_target_unavailable = [0x6240, 0x9009, 0x5DE5, 0x4F5C, 0x533A, 0x5DF2, 0x4E0D, 0x53EF, 0x7528, 0xFF0C, 0x8BF7,
     0x91CD, 0x65B0, 0x9009, 0x62E9, 0x5546, 0x4E1A, 0x5DE5, 0x4F5C, 0x533A, 0x3002]"

text \<open>\<open>txt_attachment_conversation\<close>: conversation with attachments.\<close>

definition txt_attachment_conversation :: jsstr where
  "txt_attachment_conversation = [0x9644, 0x4EF6, 0x5BF9, 0x8BDD]"

text \<open>\<open>txt_stopped\<close>: stopped.\<close>

definition txt_stopped :: jsstr where
  "txt_stopped = [0x5DF2, 0x505C, 0x6B62, 0x751F, 0x6210]"

text \<open>\<open>txt_note_reference\<close>: note:.\<close>

definition txt_note_reference :: jsstr where
  "txt_note_reference = [0x53C2, 0x8003, 0x7B14, 0x8BB0, 0xFF1A]"

text \<open>\<open>txt_note_source\<close>: source:.\<close>

definition txt_note_source :: jsstr where
  "txt_note_source = [0x6765, 0x6E90, 0xFF1A, 104, 116, 116, 112, 115, 58, 47, 47, 119, 119, 119, 46, 110, 111,
     116, 105, 111, 110, 46, 115, 111, 47]"

text \<open>\<open>txt_note_partial\<close>: (part of the text).\<close>

definition txt_note_partial :: jsstr where
  "txt_note_partial = [0xFF08, 0x90E8, 0x5206, 0x6587, 0x672C, 0x5FEB, 0x7167, 0xFF09]"

end
