(* ===== verification/Js_Number.thy ===== *)
theory Js_Number imports Js_Prelude begin

text \<open>
  Numbers of the frontend. A finite double is a rational; \<open>double_of\<close> rounds an exact result to
  the nearest double with 53 bits of precision, ties to even, as every arithmetic operation does
  (overflow to infinity and subnormal numbers do not occur with counts, sizes and percentages and
  are left out). \<open>Math.round\<close> rounds halves up; \<open>toFixed(1)\<close> takes the nearest tenth, the larger
  of two. \<open>double_of_int\<close>: integers below 2^53 are exact, so counts and sizes never round.
\<close>

section \<open>Rounding to doubles\<close>

fun bits :: "nat \<Rightarrow> nat" where
  "bits n = (if n = 0 then 0 else Suc (bits (n div 2)))"

declare bits.simps [simp del]

definition two_to :: "int \<Rightarrow> rat" where
  "two_to e = (if 0 \<le> e then 2 ^ nat e else 1 / 2 ^ nat (- e))"

definition half_even :: "rat \<Rightarrow> int" where
  "half_even m = (let f = \<lfloor>m\<rfloor>; r = m - of_int f in
     if r < 1 / 2 then f else if r > 1 / 2 then f + 1 else if even f then f else f + 1)"

definition binary_exponent :: "rat \<Rightarrow> int" where
  "binary_exponent a = (case quotient_of a of (n, d) \<Rightarrow>
     (let e = int (bits (nat n)) - int (bits (nat d)) in if a < two_to e then e - 1 else e))"

definition round_positive :: "rat \<Rightarrow> rat" where
  "round_positive a = (let u = two_to (binary_exponent a - 52) in of_int (half_even (a / u)) * u)"

definition double_of :: "rat \<Rightarrow> rat" where
  "double_of x = (if x = 0 then 0 else if 0 < x then round_positive x else - round_positive (- x))"

definition fl_add :: "rat \<Rightarrow> rat \<Rightarrow> rat" where "fl_add x y = double_of (x + y)"
definition fl_sub :: "rat \<Rightarrow> rat \<Rightarrow> rat" where "fl_sub x y = double_of (x - y)"
definition fl_mul :: "rat \<Rightarrow> rat \<Rightarrow> rat" where "fl_mul x y = double_of (x * y)"
definition fl_div :: "rat \<Rightarrow> rat \<Rightarrow> rat" where "fl_div x y = double_of (x / y)"

section \<open>Rounding functions\<close>

definition math_round :: "rat \<Rightarrow> int" where "math_round x = \<lfloor>x + 1 / 2\<rfloor>"
definition math_ceil :: "rat \<Rightarrow> int" where "math_ceil x = \<lceil>x\<rceil>"
definition math_floor :: "rat \<Rightarrow> int" where "math_floor x = \<lfloor>x\<rfloor>"

section \<open>Numerals\<close>

text \<open>The decimal numeral of a natural number, as a template literal prints it.\<close>

fun nat_str :: "nat \<Rightarrow> jsstr" where
  "nat_str n = (if n < 10 then [48 + of_nat n] else nat_str (n div 10) @ [48 + of_nat (n mod 10)])"

declare nat_str.simps [simp del]

definition int_str :: "int \<Rightarrow> jsstr" where
  "int_str i = (if i < 0 then 45 # nat_str (nat (- i)) else nat_str (nat i))"

text \<open>\<open>x.toFixed(1)\<close> for a number that is not negative.\<close>

definition to_fixed1 :: "rat \<Rightarrow> jsstr" where
  "to_fixed1 x = (let n = nat \<lfloor>x * 10 + 1 / 2\<rfloor> in nat_str (n div 10) @ [46] @ nat_str (n mod 10))"

section \<open>Signs and exact integers\<close>

lemma two_to_pos: "0 < two_to e"
  by (simp add: two_to_def)

lemma half_even_of_int: "half_even (of_int k) = k"
  by (simp add: half_even_def)

lemma half_even_nonneg: "0 \<le> m \<Longrightarrow> 0 \<le> half_even m"
  by (simp add: half_even_def Let_def)

lemma round_positive_nonneg: "0 \<le> a \<Longrightarrow> 0 \<le> round_positive a"
  using two_to_pos by (simp add: round_positive_def Let_def half_even_nonneg less_imp_le)

lemma double_of_nonneg: "0 \<le> x \<Longrightarrow> 0 \<le> double_of x"
  by (simp add: double_of_def round_positive_nonneg)

lemma double_of_nonpos: "x \<le> 0 \<Longrightarrow> double_of x \<le> 0"
  using round_positive_nonneg [of "- x"] by (simp add: double_of_def)

lemma double_of_0 [simp]: "double_of 0 = 0"
  by (simp add: double_of_def)

lemma bits_le: "n < 2 ^ k \<Longrightarrow> bits n \<le> k"
proof (induction n arbitrary: k rule: bits.induct)
  case (1 n)
  show ?case
  proof (cases "n = 0")
    case True
    then show ?thesis by (simp add: bits.simps)
  next
    case False
    then obtain j where k: "k = Suc j" using 1(2) by (cases k) auto
    then have "n div 2 < 2 ^ j" using 1(2) by simp
    then have "bits (n div 2) \<le> j" using 1(1) False by blast
    then show ?thesis using False k by (subst bits.simps) simp
  qed
qed

lemma round_positive_int:
  assumes "0 < i" and "i < 2 ^ 53"
  shows "round_positive (of_int i) = of_int i"
proof -
  have "nat i < 2 ^ 53" using assms by (simp add: nat_less_iff)
  then have "bits (nat i) \<le> 53" by (rule bits_le)
  moreover have "bits 1 = 1" by (simp add: bits.simps)
  ultimately have e: "binary_exponent (of_int i) \<le> 52"
    by (simp add: binary_exponent_def Let_def quotient_of_int)
  obtain k where k: "binary_exponent (of_int i) - 52 = - int k"
    using e by (metis diff_le_0_iff_le int_minus minus_minus neg_0_le_iff_le zero_le_imp_eq_int)
  have u: "two_to (- int k) = 1 / 2 ^ k" by (simp add: two_to_def)
  have "half_even ((of_int i :: rat) / (1 / 2 ^ k)) = i * 2 ^ k"
    using half_even_of_int [of "i * 2 ^ k"] by simp
  then show ?thesis by (simp add: round_positive_def k u Let_def)
qed

lemma double_of_int: "\<bar>i\<bar> < 2 ^ 53 \<Longrightarrow> double_of (of_int i) = of_int i"
  using round_positive_int [of i] round_positive_int [of "- i"]
  by (cases "i = 0"; cases "0 < i") (auto simp: double_of_def)

lemma math_round_int [simp]: "math_round (of_int k) = k"
  by (simp add: math_round_def) linarith

lemma math_round_nonneg: "0 \<le> x \<Longrightarrow> 0 \<le> math_round x"
  by (simp add: math_round_def)

lemma math_round_nonpos: "x \<le> 0 \<Longrightarrow> math_round x \<le> 0"
  by (simp add: math_round_def)

lemma math_round_mono: "x \<le> y \<Longrightarrow> math_round x \<le> math_round y"
  by (simp add: math_round_def floor_mono)

lemma nat_str_neq_Nil [simp]: "nat_str n \<noteq> []"
  by (subst nat_str.simps) simp

section \<open>Rounding is monotone\<close>

lemma two_to_powi: "two_to e = 2 powi e"
  by (simp add: two_to_def power_int_def power_one_over inverse_eq_divide)

lemma two_to_add: "two_to (e + f) = two_to e * two_to f"
  by (simp add: two_to_powi power_int_add)

lemma two_to_mono: "e \<le> f \<Longrightarrow> two_to e \<le> two_to f"
  by (simp add: two_to_powi power_int_increasing)

lemma two_to_nat: "two_to (int k) = 2 ^ k"
  by (simp add: two_to_def)

lemma bits_bounds: "0 < n \<Longrightarrow> 0 < bits n \<and> 2 ^ (bits n - 1) \<le> n \<and> n < 2 ^ bits n"
proof (induction n rule: bits.induct)
  case (1 n)
  have step: "bits n = Suc (bits (n div 2))" using 1(2) by (subst bits.simps) simp
  show ?case
  proof (cases "n div 2 = 0")
    case True
    then have "n = 1" using 1(2) by simp
    then show ?thesis by (simp add: bits.simps)
  next
    case False
    then have ih: "0 < bits (n div 2)" "2 ^ (bits (n div 2) - 1) \<le> n div 2" "n div 2 < 2 ^ bits (n div 2)"
      using 1 by auto
    have "2 ^ bits (n div 2) = 2 * (2 ^ (bits (n div 2) - 1) :: nat)"
      using ih(1) by (cases "bits (n div 2)") auto
    moreover have "2 * (n div 2) \<le> n" "n < 2 * (n div 2) + 2" by simp_all
    ultimately have "2 ^ bits (n div 2) \<le> n" "n < 2 * 2 ^ bits (n div 2)" using ih by linarith+
    then show ?thesis unfolding step by simp
  qed
qed

lemma binary_exponent_bounds:
  assumes "0 < a"
  shows "two_to (binary_exponent a) \<le> a \<and> a < two_to (binary_exponent a + 1)"
proof -
  obtain p q where pq: "quotient_of a = (p, q)" by force
  have q: "0 < q" using pq by (rule quotient_of_denom_pos)
  have a: "a = of_int p / of_int q" using pq by (rule quotient_of_div)
  have p: "0 < p" using assms q unfolding a by (simp add: zero_less_divide_iff)
  define n d where "n = nat p" and "d = nat q"
  have a': "a = of_nat n / of_nat d" using p q by (simp add: a n_def d_def)
  have nd: "0 < n" "0 < d" using p q by (simp_all add: n_def d_def)
  note N = bits_bounds [OF nd(1)] and D = bits_bounds [OF nd(2)]
  let ?e = "int (bits n) - int (bits d)"
  have n_lo: "two_to (int (bits n) - 1) \<le> of_nat n" and n_hi: "of_nat n < two_to (int (bits n))"
    and d_lo: "two_to (int (bits d) - 1) \<le> of_nat d" and d_hi: "of_nat d < two_to (int (bits d))"
    using N D two_to_nat [of "bits n - 1"] two_to_nat [of "bits d - 1"] two_to_nat [of "bits n"] two_to_nat [of "bits d"]
    by (simp_all add: of_nat_diff flip: of_nat_power [of 2, simplified])
  have lo: "two_to (?e - 1) < a"
  proof -
    have "two_to (?e - 1) * of_nat d < two_to (?e - 1) * two_to (int (bits d))"
      using d_hi two_to_pos by (rule mult_strict_left_mono)
    also have "\<dots> = two_to (int (bits n) - 1)" by (simp flip: two_to_add)
    finally show ?thesis using n_lo nd(2) by (simp add: a' less_divide_eq)
  qed
  have hi: "a < two_to (?e + 1)"
  proof -
    have "two_to (int (bits n)) = two_to (?e + 1) * two_to (int (bits d) - 1)" by (simp flip: two_to_add)
    also have "\<dots> \<le> two_to (?e + 1) * of_nat d"
      using d_lo less_imp_le [OF two_to_pos] by (rule mult_left_mono)
    finally show ?thesis using n_hi nd(2) by (simp add: a' divide_less_eq)
  qed
  have "binary_exponent a = (if a < two_to ?e then ?e - 1 else ?e)"
    by (simp add: binary_exponent_def pq n_def d_def Let_def)
  then show ?thesis using lo hi by (cases "a < two_to ?e") auto
qed

lemma half_even_bounds: "\<lfloor>m\<rfloor> \<le> half_even m \<and> half_even m \<le> \<lfloor>m\<rfloor> + 1"
  by (simp add: half_even_def Let_def)

lemma half_even_mono:
  assumes "m \<le> m'"
  shows "half_even m \<le> half_even m'"
proof (cases "\<lfloor>m\<rfloor> = \<lfloor>m'\<rfloor>")
  case True
  then show ?thesis using assms by (auto simp: half_even_def Let_def)
next
  case False
  then have "\<lfloor>m\<rfloor> + 1 \<le> \<lfloor>m'\<rfloor>" using floor_mono [OF assms] by linarith
  then show ?thesis using half_even_bounds [of m] half_even_bounds [of m'] by linarith
qed

lemma round_positive_bounds:
  assumes "0 < a"
  shows "two_to (binary_exponent a) \<le> round_positive a \<and> round_positive a \<le> two_to (binary_exponent a + 1)"
proof -
  let ?e = "binary_exponent a" and ?u = "two_to (binary_exponent a - 52)"
  have u: "0 < ?u" by (rule two_to_pos)
  have lo: "two_to ?e = 2 ^ 52 * ?u" and hi: "two_to (?e + 1) = 2 ^ 53 * ?u"
    using two_to_add [of "int 52" "?e - 52"] two_to_add [of "int 53" "?e - 52"]
    unfolding two_to_nat by (simp_all add: algebra_simps)
  have "2 ^ 52 \<le> a / ?u" "a / ?u \<le> 2 ^ 53"
    using binary_exponent_bounds [OF assms] u unfolding lo hi by (simp_all add: le_divide_eq divide_le_eq)
  then have "half_even (of_int (2 ^ 52)) \<le> half_even (a / ?u)" "half_even (a / ?u) \<le> half_even (of_int (2 ^ 53))"
    by (intro half_even_mono; simp)+
  then have "2 ^ 52 \<le> half_even (a / ?u)" "half_even (a / ?u) \<le> 2 ^ 53"
    unfolding half_even_of_int by simp_all
  then have "of_int (2 ^ 52) \<le> (of_int (half_even (a / ?u)) :: rat)" "of_int (half_even (a / ?u)) \<le> (of_int (2 ^ 53) :: rat)"
    by (simp_all only: of_int_le_iff)
  then show ?thesis using u unfolding lo hi round_positive_def Let_def
    by (auto intro!: mult_right_mono)
qed

lemma round_positive_mono:
  assumes "0 < a" and "a \<le> b"
  shows "round_positive a \<le> round_positive b"
proof -
  let ?e = "binary_exponent a" and ?f = "binary_exponent b"
  have b: "0 < b" using assms by simp
  consider "?e = ?f" | "?e < ?f" | "?f < ?e" by linarith
  then show ?thesis
  proof cases
    case 1
    have "half_even (a / two_to (?f - 52)) \<le> half_even (b / two_to (?f - 52))"
      using assms(2) two_to_pos by (intro half_even_mono divide_right_mono) (auto intro: less_imp_le)
    then show ?thesis using two_to_pos 1
      by (auto simp: round_positive_def Let_def intro!: mult_right_mono less_imp_le)
  next
    case 2
    then have "two_to (?e + 1) \<le> two_to ?f" by (intro two_to_mono) simp
    then show ?thesis using round_positive_bounds [OF assms(1)] round_positive_bounds [OF b] by linarith
  next
    case 3
    then have "two_to (?f + 1) \<le> two_to ?e" by (intro two_to_mono) simp
    then show ?thesis
      using binary_exponent_bounds [OF assms(1)] binary_exponent_bounds [OF b] assms(2) by linarith
  qed
qed

lemma double_of_mono: "x \<le> y \<Longrightarrow> double_of x \<le> double_of y"
proof -
  assume xy: "x \<le> y"
  show ?thesis
  proof (cases "0 < x")
    case True
    then show ?thesis using xy round_positive_mono by (simp add: double_of_def)
  next
    case nx: False
    show ?thesis
    proof (cases "y < 0")
      case True
      then show ?thesis using xy nx round_positive_mono [of "- y" "- x"] by (simp add: double_of_def)
    next
      case False
      then show ?thesis using nx double_of_nonpos [of x] double_of_nonneg [of y] by simp
    qed
  qed
qed

end
