(* ===== verification/Api_Client.thy ===== *)
theory Api_Client imports Api_Types Texts Js_Number begin

text \<open>
  The HTTP client of the frontend (\<open>frontend/lib/services/core/api-client.ts\<close>).

  \<open>fetch\<close> is the browser's: a call is modelled by the request it sends and by what the code does
  with the outcome, which is an argument (\<open>Network_failed\<close>, or a response with its status, its
  content type and its whole body). A body read as a stream is the list of items the reader
  delivers; the end of the list is the end of the stream. A thrown value is a \<open>failure\<close>; the
  message of a \<open>SyntaxError\<close>, \<open>TypeError\<close> or \<open>URIError\<close> is the engine's (\<open>Engine_error\<close>).
\<close>

section \<open>Failures\<close>

datatype failure =
    Api_error jsstr nat "jsstr option" \<comment> \<open>\<open>ApiError\<close>: message, status, code\<close>
  | Error_message jsstr
  | Engine_error
  | Other_value \<comment> \<open>a thrown value that is no \<open>Error\<close>\<close>

text \<open>\<open>error instanceof Error ? error.message : fallback\<close>, with one text for the messages the engine makes.\<close>

definition engine_error_text :: jsstr where
  "engine_error_text = js ''Error''"

fun failure_text :: "failure \<Rightarrow> jsstr \<Rightarrow> jsstr" where
  "failure_text (Api_error m _ _) fallback = m"
| "failure_text (Error_message m) fallback = m"
| "failure_text Engine_error fallback = engine_error_text"
| "failure_text Other_value fallback = fallback"

text \<open>The notices a component shows (\<open>toast\<close> of \<open>sonner\<close>).\<close>

datatype toast = Toast_info jsstr | Toast_success jsstr | Toast_error jsstr | Toast_warning jsstr

section \<open>Addresses\<close>

definition api_base :: "jsstr option \<Rightarrow> jsstr" where
  "api_base env = (let base = opt_str env in
     if base \<noteq> [] \<and> last base = 47 then butlast base else base)"

definition buildURL :: "jsstr \<Rightarrow> jsstr \<Rightarrow> jsstr" where
  "buildURL base path = base @ path"

definition buildEventStreamURL :: "jsstr \<Rightarrow> jsstr \<Rightarrow> jsstr" where
  "buildEventStreamURL base path = buildURL base path"

section \<open>HTML error pages\<close>

definition ascii_lower :: "unit16 \<Rightarrow> unit16" where
  "ascii_lower c = (if 65 \<le> c \<and> c \<le> 90 then c + 32 else c)"

text \<open>A literal of a pattern with the flag \<open>i\<close>, matched at the front; the rest of the text.\<close>

definition match_prefix :: "jsstr \<Rightarrow> jsstr \<Rightarrow> jsstr option" where
  "match_prefix p s = (if length p \<le> length s \<and> List.map ascii_lower (take (length p) s) = p
     then Some (drop (length p) s) else None)"

text \<open>\<open><tag[^>]*>\<close> at the front, and what follows it.\<close>

definition match_open :: "jsstr \<Rightarrow> jsstr \<Rightarrow> jsstr option" where
  "match_open tag s = (case match_prefix (60 # tag) s of None \<Rightarrow> None
     | Some t \<Rightarrow> (case dropWhile (\<lambda>c. c \<noteq> 62) t of [] \<Rightarrow> None | _ # u \<Rightarrow> Some u))"

text \<open>The shortest text before \<open></tag>\<close>.\<close>

fun until_close :: "jsstr \<Rightarrow> jsstr \<Rightarrow> jsstr option" where
  "until_close tag [] = None"
| "until_close tag (c # s) =
     (if match_prefix ([60, 47] @ tag @ [62]) (c # s) \<noteq> None then Some []
      else map_option (Cons c) (until_close tag s))"

text \<open>Group 1 of the leftmost match of \<open>/<tag[^>]*>([\s\S]*?)<\/tag>/i\<close>.\<close>

fun element_text :: "jsstr \<Rightarrow> jsstr \<Rightarrow> jsstr option" where
  "element_text tag [] = None"
| "element_text tag (c # s) =
     (case Option.bind (match_open tag (c # s)) (until_close tag) of
        Some t \<Rightarrow> Some t | None \<Rightarrow> element_text tag s)"

text \<open>\<open>replace(/<[^>]+>/g, ' ')\<close>; the first argument bounds the recursion by the length.\<close>

fun drop_tags :: "nat \<Rightarrow> jsstr \<Rightarrow> jsstr" where
  "drop_tags 0 s = []"
| "drop_tags (Suc n) [] = []"
| "drop_tags (Suc n) (c # s) =
     (if c = 60 \<and> takeWhile (\<lambda>d. d \<noteq> 62) s \<noteq> [] \<and> dropWhile (\<lambda>d. d \<noteq> 62) s \<noteq> []
      then 32 # drop_tags n (tl (dropWhile (\<lambda>d. d \<noteq> 62) s))
      else c # drop_tags n s)"

text \<open>\<open>replace(/\s+/g, ' ')\<close>\<close>

fun collapse_spaces :: "jsstr \<Rightarrow> jsstr" where
  "collapse_spaces [] = []"
| "collapse_spaces [c] = (if is_space c then [32] else [c])"
| "collapse_spaces (c # d # s) =
     (if is_space c then (if is_space d then collapse_spaces (d # s) else 32 # collapse_spaces (d # s))
      else c # collapse_spaces (d # s))"

definition strip :: "jsstr \<Rightarrow> jsstr" where
  "strip v = trim (collapse_spaces (drop_tags (length v) v))"

definition looks_like_html :: "jsstr \<Rightarrow> bool" where
  "looks_like_html text = (let lower = to_lower text in
     starts_with (js ''<!doctype html'') lower \<or> starts_with (js ''<html'') lower \<or> str_includes (js ''<title'') lower)"

definition summarizeHTMLText :: "jsstr \<Rightarrow> jsstr" where
  "summarizeHTMLText raw = (let text = trim raw in
     if \<not> looks_like_html text then []
     else (let title = strip (opt_str (element_text (js ''title'') text));
               h1 = strip (opt_str (element_text (js ''h1'') text))
           in if title \<noteq> [] \<and> h1 \<noteq> [] \<and> title \<noteq> h1 then title @ js '' | '' @ h1
              else or_str title (or_str h1 txt_html_error_page)))"

definition describeHTMLResponse :: "nat \<Rightarrow> jsstr \<Rightarrow> jsstr" where
  "describeHTMLResponse status raw = (let summary = summarizeHTMLText raw in
     if summary = [] then []
     else txt_html_prefix @ nat_str status @ txt_html_middle @ summary)"

section \<open>Requests\<close>

record request =
  rq_method :: jsstr
  rq_url :: jsstr
  rq_headers :: "(jsstr \<times> jsstr) list" \<comment> \<open>names in lower case, as \<open>Headers\<close> keeps them\<close>
  rq_body :: "jsstr option"
  rq_credentials :: jsstr
  rq_cache :: "jsstr option"
  rq_redirect :: "jsstr option"

record request_init =
  in_method :: "jsstr option"
  in_headers :: "(jsstr \<times> jsstr) list"
  in_body :: "jsstr option"
  in_cache :: "jsstr option"
  in_redirect :: "jsstr option"

definition content_type :: jsstr where "content_type = js ''content-type''"

definition fetch_request :: "jsstr \<Rightarrow> jsstr \<Rightarrow> request_init \<Rightarrow> request" where
  "fetch_request base path init =
     (let headers = in_headers init;
          headers' = (if truthy (in_body init) \<and> content_type \<notin> fst ` set headers
                      then headers @ [(content_type, js ''application/json'')] else headers)
      in \<lparr>rq_method = or_str (opt_str (in_method init)) (js ''GET''), rq_url = buildURL base path,
          rq_headers = headers', rq_body = in_body init, rq_credentials = js ''include'',
          rq_cache = in_cache init, rq_redirect = in_redirect init\<rparr>)"

section \<open>Responses\<close>

record response =
  rs_status :: nat
  rs_status_text :: jsstr
  rs_content_type :: "jsstr option"
  rs_body :: jsstr

datatype fetched = Network_failed failure | Fetched response

definition rs_ok :: "response \<Rightarrow> bool" where
  "rs_ok r \<longleftrightarrow> 200 \<le> rs_status r \<and> rs_status r \<le> 299"

definition status_line :: "response \<Rightarrow> jsstr" where
  "status_line r = nat_str (rs_status r) @ js '' '' @ rs_status_text r"

datatype payload = Payload_json json | Payload_text jsstr

definition read_payload :: "response \<Rightarrow> failure + payload" where
  "read_payload r =
     (if str_includes (js ''application/json'') (opt_str (rs_content_type r))
      then (case json_parse (rs_body r) of None \<Rightarrow> Inl Engine_error | Some v \<Rightarrow> Inr (Payload_json v))
      else Inr (Payload_text (rs_body r)))"

text \<open>\<open>String(v)\<close> for a parsed value.\<close>

fun to_js_string :: "json \<Rightarrow> jsstr" where
  "to_js_string JNull = js ''null''"
| "to_js_string (JBool b) = (if b then js ''true'' else js ''false'')"
| "to_js_string (JNum n) = n"
| "to_js_string (JStr s) = s"
| "to_js_string (JArr xs) = join [44] (List.map (\<lambda>x. if x = JNull then [] else to_js_string x) xs)"
| "to_js_string (JObj ms) = js ''[object Object]''"

definition jor :: "json option \<Rightarrow> json option \<Rightarrow> json option" where
  "jor a b = (if json_truthy a then a else b)"

definition error_field :: "jsstr \<Rightarrow> json \<Rightarrow> json option" where
  "error_field k v = Option.bind (jget (js ''error'') v) (jget k)"

text \<open>The \<open>ApiError\<close> that a response which is not ok is turned into.\<close>

fun payload_error :: "response \<Rightarrow> payload \<Rightarrow> failure" where
  "payload_error r (Payload_text t) =
     Api_error (or_str (describeHTMLResponse (rs_status r) t) (or_str t (status_line r))) (rs_status r) None"
| "payload_error r (Payload_json (JStr t)) =
     Api_error (or_str (describeHTMLResponse (rs_status r) t) (or_str t (status_line r))) (rs_status r) None"
| "payload_error r (Payload_json v) =
     (case v of
        JObj _ \<Rightarrow> Api_error
          (case jor (jget (js ''detail'') v) (error_field (js ''message'') v) of
             None \<Rightarrow> status_line r
           | Some m \<Rightarrow> if json_truthy (Some m) then to_js_string m else status_line r)
          (rs_status r) (jstring (jor (jget (js ''code'') v) (error_field (js ''code'') v)))
      | JArr _ \<Rightarrow> Api_error (status_line r) (rs_status r) None
      | _ \<Rightarrow> Api_error (if json_truthy (Some v) then to_js_string v else status_line r) (rs_status r) None)"

definition apiFetch :: "fetched \<Rightarrow> failure + payload" where
  "apiFetch outcome = (case outcome of Network_failed e \<Rightarrow> Inl e
     | Fetched r \<Rightarrow> (case read_payload r of Inl e \<Rightarrow> Inl e
         | Inr p \<Rightarrow> if rs_ok r then Inr p else Inl (payload_error r p)))"

section \<open>Event streams\<close>

text \<open>
  \<open>apiEventStream\<close>: the request; the check of the response head; the loop that hands the data of
  each event to \<open>onEvent\<close>, here a function on the caller's state that may throw.
\<close>

definition event_stream_request :: "jsstr \<Rightarrow> jsstr \<Rightarrow> json \<Rightarrow> request" where
  "event_stream_request base path v =
     \<lparr>rq_method = js ''POST'', rq_url = buildURL base path,
      rq_headers = [(content_type, js ''application/json'')], rq_body = Some (stringify v),
      rq_credentials = js ''include'', rq_cache = None, rq_redirect = None\<rparr>"

datatype stream_item = Item jsstr | Read_failed failure

record event_response = response +
  rs_items :: "stream_item list option" \<comment> \<open>\<open>None\<close>: no body\<close>
  rs_conversation_id :: "jsstr option" \<comment> \<open>the header \<open>x-conversation-id\<close>\<close>

definition is_event_stream :: "event_response \<Rightarrow> bool" where
  "is_event_stream r \<longleftrightarrow> (200 \<le> rs_status r \<and> rs_status r \<le> 299) \<and> rs_items r \<noteq> None \<and>
     str_includes (js ''text/event-stream'') (opt_str (rs_content_type r))"

definition stream_refused :: "event_response \<Rightarrow> failure" where
  "stream_refused r =
     (let text = rs_body r;
          message = or_str (describeHTMLResponse (rs_status r) text) (status_line (response.truncate r));
          message' = (case json_parse text of None \<Rightarrow> message
            | Some v \<Rightarrow> (case jor (jget (js ''detail'') v) (error_field (js ''message'') v) of
                None \<Rightarrow> message
              | Some m \<Rightarrow> if json_truthy (Some m) then to_js_string m else message))
      in Api_error message' (rs_status r) None)"

fun read_events :: "(jsstr \<Rightarrow> 's \<Rightarrow> failure + 's) \<Rightarrow> stream_item list \<Rightarrow> 's \<Rightarrow> 's \<times> failure option" where
  "read_events onEvent [] s = (s, Some (Error_message txt_stream_cut))"
| "read_events onEvent (Read_failed e # items) s = (s, Some e)"
| "read_events onEvent (Item d # items) s =
     (if d = js ''[DONE]'' then (s, None)
      else (case onEvent d s of Inl e \<Rightarrow> (s, Some e) | Inr s' \<Rightarrow> read_events onEvent items s'))"

datatype event_fetched = Stream_network_failed failure | Stream_fetched event_response

text \<open>The caller's state when the promise settles, and the failure if it rejects.\<close>

definition apiEventStream :: "(jsstr \<Rightarrow> 's \<Rightarrow> failure + 's) \<Rightarrow> event_fetched \<Rightarrow> 's \<Rightarrow> 's \<times> (failure + event_response)" where
  "apiEventStream onEvent outcome s = (case outcome of
     Stream_network_failed e \<Rightarrow> (s, Inl e)
   | Stream_fetched r \<Rightarrow>
       (if \<not> is_event_stream r then (s, Inl (stream_refused r))
        else (case read_events onEvent (opt_list (rs_items r)) s of
            (s', None) \<Rightarrow> (s', Inr r) | (s', Some e) \<Rightarrow> (s', Inl e))))"

section \<open>Attachments and the clipboard\<close>

record js_file =
  file_name :: jsstr
  file_type :: jsstr
  file_size :: nat

definition file_attachment :: "js_file \<Rightarrow> attachment_data \<Rightarrow> attachment_input" where
  "file_attachment f result = \<lparr>ai_name = file_name f, ai_content_type = file_type f, ai_data = result\<rparr>"

text \<open>
  \<open>Promise.all\<close>: the readers settle in any order. An event says which promise settled and how;
  the whole rejects with the first rejection, or resolves once every promise has resolved.
\<close>

datatype 'a settled = Pending "'a option list" | Resolved "'a list" | Rejected failure

fun settle_one :: "nat \<times> (failure + 'a) \<Rightarrow> 'a settled \<Rightarrow> 'a settled" where
  "settle_one (i, Inl e) (Pending slots) = Rejected e"
| "settle_one (i, Inr x) (Pending slots) =
     (let slots' = slots[i := Some x]
      in if list_all (\<lambda>v. v \<noteq> None) slots' then Resolved (List.map the slots') else Pending slots')"
| "settle_one _ done = done"

definition promise_all :: "nat \<Rightarrow> (nat \<times> (failure + 'a)) list \<Rightarrow> 'a settled" where
  "promise_all n events =
     fold settle_one events (if n = 0 then Resolved [] else Pending (replicate n None))"

text \<open>\<open>readAsDataURL\<close> of each file: \<open>readings\<close> is the order in which the readers fire.\<close>

definition readFilesAsAttachments ::
    "js_file list \<Rightarrow> (nat \<times> (failure option + attachment_data)) list \<Rightarrow> attachment_input settled" where
  "readFilesAsAttachments files readings =
     promise_all (length files)
       (List.map (\<lambda>(i, r). (i, case r of
            Inl None \<Rightarrow> Inl (Error_message txt_read_failed)
          | Inl (Some e) \<Rightarrow> Inl e
          | Inr d \<Rightarrow> Inr (file_attachment (files ! i) d))) readings)"

text \<open>
  \<open>copyText\<close>: the asynchronous clipboard where the browser has one, else a temporary text area,
  which is removed on every path. The outcomes of the browser calls are arguments; the result is
  the failure, if any, and the number of text areas left in the document.
\<close>

datatype clipboard = No_clipboard | Clipboard "failure option"

definition copyText :: "clipboard \<Rightarrow> failure + bool \<Rightarrow> failure option \<times> nat" where
  "copyText clip exec = (case clip of
     Clipboard outcome \<Rightarrow> (outcome, 0)
   | No_clipboard \<Rightarrow>
       (let opened = (1::nat);
            result = (case exec of Inl e \<Rightarrow> Some e
              | Inr copied \<Rightarrow> if copied then None else Some (Error_message txt_copy_failed))
        in (result, opened - 1)))"

text \<open>
  The older \<open>copyToClipboard\<close> of \<open>lib/utils.ts\<close>: it tries the text area whenever the clipboard
  fails, ignores what \<open>execCommand\<close> returns, and leaves the text area behind when that throws.
\<close>

definition copyToClipboard :: "clipboard \<Rightarrow> failure + bool \<Rightarrow> failure option \<times> nat" where
  "copyToClipboard clip exec = (case clip of
     Clipboard None \<Rightarrow> (None, 0)
   | _ \<Rightarrow> (case exec of Inl _ \<Rightarrow> (Some (Error_message txt_copy_failed), 1) | Inr _ \<Rightarrow> (None, 0)))"

section \<open>Event streams: what a resolved call means\<close>

text \<open>The events in order, up to the first that the handler throws on.\<close>

fun run_events :: "(jsstr \<Rightarrow> 's \<Rightarrow> failure + 's) \<Rightarrow> jsstr list \<Rightarrow> 's \<Rightarrow> failure + 's" where
  "run_events h [] s = Inr s"
| "run_events h (d # ds) s = (case h d s of Inl e \<Rightarrow> Inl e | Inr s' \<Rightarrow> run_events h ds s')"

definition stream_done :: jsstr where "stream_done = js ''[DONE]''"

lemma read_events_ok:
  "read_events h items s = (s', None) \<longleftrightarrow>
     (\<exists>ds rest. items = List.map Item ds @ Item stream_done # rest \<and> stream_done \<notin> set ds \<and>
        run_events h ds s = Inr s')"
proof (induction h items s rule: read_events.induct)
  case (1 h s)
  show ?case by simp
next
  case (2 h e items s)
  show ?case by (auto simp: Cons_eq_append_conv)
next
  case (3 h d items s)
  show ?case
  proof (cases "d = stream_done")
    case True
    show ?thesis
    proof
      assume "read_events h (Item d # items) s = (s', None)"
      then show "\<exists>ds rest. Item d # items = List.map Item ds @ Item stream_done # rest \<and>
          stream_done \<notin> set ds \<and> run_events h ds s = Inr s'"
        using True by (intro exI [of _ "[]"] exI [of _ items]) (simp add: stream_done_def)
    next
      assume "\<exists>ds rest. Item d # items = List.map Item ds @ Item stream_done # rest \<and>
          stream_done \<notin> set ds \<and> run_events h ds s = Inr s'"
      then show "read_events h (Item d # items) s = (s', None)"
        using True by (auto simp: Cons_eq_append_conv Cons_eq_map_conv stream_done_def)
    qed
  next
    case False
    have shape: "(\<exists>ds rest. Item d # items = List.map Item ds @ Item stream_done # rest \<and>
        stream_done \<notin> set ds \<and> run_events h ds s = Inr s') \<longleftrightarrow>
        (\<exists>ds rest. items = List.map Item ds @ Item stream_done # rest \<and>
        stream_done \<notin> set ds \<and> run_events h (d # ds) s = Inr s')" (is "?l \<longleftrightarrow> ?r")
    proof
      assume ?l
      then obtain ds rest where *: "Item d # items = List.map Item ds @ Item stream_done # rest"
          "stream_done \<notin> set ds" "run_events h ds s = Inr s'" by blast
      then obtain es where "ds = d # es" using False by (cases ds) auto
      then show ?r using * by auto
    next
      assume ?r
      then obtain ds rest where "items = List.map Item ds @ Item stream_done # rest"
          "stream_done \<notin> set ds" "run_events h (d # ds) s = Inr s'" by blast
      then show ?l using False by (intro exI [of _ "d # ds"] exI [of _ rest]) auto
    qed
    show ?thesis
      unfolding shape using False 3 by (auto simp: stream_done_def split: sum.splits)
  qed
qed

lemma event_stream_resolved:
  "apiEventStream h (Stream_fetched r) s = (s', Inr r') \<longleftrightarrow>
     r' = r \<and> is_event_stream r \<and>
     (\<exists>ds rest. rs_items r = Some (List.map Item ds @ Item (js ''[DONE]'') # rest) \<and>
        js ''[DONE]'' \<notin> set ds \<and> run_events h ds s = Inr s')"
proof (cases "is_event_stream r")
  case False
  then show ?thesis by (simp add: apiEventStream_def)
next
  case True
  then obtain items where items: "rs_items r = Some items" by (auto simp: is_event_stream_def)
  obtain t e where run: "read_events h items s = (t, e)" by force
  have "apiEventStream h (Stream_fetched r) s = (s', Inr r') \<longleftrightarrow> r' = r \<and> read_events h items s = (s', None)"
    using True items by (cases e) (auto simp: apiEventStream_def run)
  then show ?thesis
    using True items by (auto simp: read_events_ok stream_done_def)
qed

text \<open>
  C29. A streamed answer counts as complete exactly when the response is an event stream and a
  \<open>[DONE]\<close> event arrived, with every event before it handled without an exception; the caller then
  holds the result of exactly those events in order, and whatever follows \<open>[DONE]\<close> is ignored. A
  stream that just ends is never a complete answer.\<close>

theorem event_stream_complete:
  "apiEventStream h (Stream_fetched r) s = (s', Inr r') \<longleftrightarrow>
     r' = r \<and> is_event_stream r \<and>
     (\<exists>ds rest. rs_items r = Some (List.map Item ds @ Item (js ''[DONE]'') # rest) \<and>
        js ''[DONE]'' \<notin> set ds \<and> run_events h ds s = Inr s')"
  by (rule event_stream_resolved)

section \<open>Error pages\<close>

fun tag_free :: "jsstr \<Rightarrow> bool" where
  "tag_free [] = True"
| "tag_free (c # s) = ((c = 60 \<longrightarrow> s = [] \<or> hd s = 62 \<or> 62 \<notin> set s) \<and> tag_free s)"

lemma tag_free_appendD: "tag_free (a @ b) \<Longrightarrow> tag_free a \<and> tag_free b"
proof (induction a)
  case Nil
  then show ?case by simp
next
  case (Cons c a)
  then show ?case by (cases a) auto
qed

lemma gt_drop_tags: "62 \<notin> set s \<Longrightarrow> 62 \<notin> set (drop_tags n s)"
proof (induction n s rule: drop_tags.induct)
  case (3 n c s)
  then have "dropWhile (\<lambda>d. d \<noteq> 62) s = []" by auto
  then show ?case using 3 by simp
qed simp_all

lemma drop_tags_gt: "drop_tags n (62 # s) = [] \<or> hd (drop_tags n (62 # s)) = 62"
  by (cases n) auto

lemma tag_free_drop_tags: "tag_free (drop_tags n s)"
proof (induction n s rule: drop_tags.induct)
  case (3 n c s)
  show ?case
  proof (cases "c = 60 \<and> takeWhile (\<lambda>d. d \<noteq> 62) s \<noteq> [] \<and> dropWhile (\<lambda>d. d \<noteq> 62) s \<noteq> []")
    case True
    then show ?thesis using 3 by simp
  next
    case False
    have "c = 60 \<longrightarrow> drop_tags n s = [] \<or> hd (drop_tags n s) = 62 \<or> 62 \<notin> set (drop_tags n s)"
    proof
      assume "c = 60"
      then consider "takeWhile (\<lambda>d. d \<noteq> 62) s = []" | "dropWhile (\<lambda>d. d \<noteq> 62) s = []" using False by blast
      then show "drop_tags n s = [] \<or> hd (drop_tags n s) = 62 \<or> 62 \<notin> set (drop_tags n s)"
      proof cases
        case 1
        then show ?thesis using drop_tags_gt by (cases s; cases n) (auto split: if_splits)
      next
        case 2
        then have "62 \<notin> set s" by (auto simp: dropWhile_eq_Nil_conv)
        then show ?thesis using gt_drop_tags by simp
      qed
    qed
    then show ?thesis using False 3 by auto
  qed
qed simp_all

lemma set_collapse_spaces: "c \<in> set (collapse_spaces s) \<Longrightarrow> c \<in> set s \<or> c = 32"
  by (induction s rule: collapse_spaces.induct) (auto split: if_splits)

lemma hd_collapse_spaces: "s \<noteq> [] \<Longrightarrow> \<not> is_space (hd s) \<Longrightarrow> hd (collapse_spaces s) = hd s"
  by (cases s rule: collapse_spaces.cases) auto

lemma tag_free_collapse_spaces: "tag_free s \<Longrightarrow> tag_free (collapse_spaces s)"
proof (induction s rule: collapse_spaces.induct)
  case (3 c d s)
  have gt: "\<not> is_space 62" and lt: "\<not> is_space 60" by (simp_all add: is_space_def)
  show ?case
  proof (cases "c = 60")
    case True
    then have "d = 62 \<or> 62 \<notin> set (d # s)" using 3(4) by auto
    then have "collapse_spaces (d # s) = [] \<or> hd (collapse_spaces (d # s)) = 62 \<or> 62 \<notin> set (collapse_spaces (d # s))"
      using hd_collapse_spaces [of "d # s"] set_collapse_spaces [of 62 "d # s"] gt by auto
    then show ?thesis using True 3 lt by auto
  next
    case False
    then show ?thesis using 3 by auto
  qed
qed auto

lemma tag_free_strip: "tag_free (strip v)"
proof -
  let ?t = "collapse_spaces (drop_tags (length v) v)"
  have "tag_free ?t" by (simp add: tag_free_drop_tags tag_free_collapse_spaces)
  then have start: "tag_free (trim_start ?t)"
    using tag_free_appendD [of "takeWhile is_space ?t" "dropWhile is_space ?t"]
    by (simp add: trim_start_def)
  have "trim_start ?t = trim ?t @ rev (takeWhile is_space (rev (trim_start ?t)))"
    unfolding trim_def trim_end_def by (metis rev_append rev_rev_ident takeWhile_dropWhile_id)
  then show ?thesis using start tag_free_appendD unfolding strip_def by metis
qed

definition page_title :: "jsstr \<Rightarrow> jsstr" where
  "page_title raw = strip (opt_str (element_text (js ''title'') (trim raw)))"

text \<open>
  When a gateway answers a failed call with an HTML page, the exception carries the status and a
  message made of the page's title (or its heading, or a fixed text): never the page itself, and the
  quoted title holds no markup.\<close>

theorem html_error_summarised:
  assumes "\<not> rs_ok r" and "\<not> str_includes (js ''application/json'') (opt_str (rs_content_type r))"
    and "looks_like_html (trim (rs_body r))"
  shows "\<exists>summary. apiFetch (Fetched r) =
      Inl (Api_error (txt_html_prefix @ nat_str (rs_status r) @ txt_html_middle @ summary) (rs_status r) None) \<and>
      summary \<noteq> [] \<and>
      (page_title (rs_body r) \<noteq> [] \<longrightarrow> starts_with (page_title (rs_body r)) summary \<and> tag_free (page_title (rs_body r)))"
proof -
  let ?s = "summarizeHTMLText (rs_body r)"
  have ne: "?s \<noteq> []"
    using assms(3) by (auto simp: summarizeHTMLText_def Let_def txt_html_error_page_def)
  have start: "page_title (rs_body r) \<noteq> [] \<longrightarrow> starts_with (page_title (rs_body r)) ?s"
    using assms(3) by (auto simp: summarizeHTMLText_def page_title_def Let_def or_str_def starts_with_iff)
  have "apiFetch (Fetched r) =
      Inl (Api_error (txt_html_prefix @ nat_str (rs_status r) @ txt_html_middle @ ?s) (rs_status r) None)"
    using assms ne
    by (simp add: apiFetch_def read_payload_def describeHTMLResponse_def or_str_def txt_html_prefix_def Let_def)
  then show ?thesis using ne start tag_free_strip by (auto simp: page_title_def)
qed

definition gateway_page :: response where
  "gateway_page = \<lparr>rs_status = 502, rs_status_text = js ''Bad Gateway'', rs_content_type = Some (js ''text/html''),
     rs_body = js ''<html><title>Bad <b>gateway</title></html>''\<rparr>"

lemma gateway_page_facts:
  "\<not> rs_ok gateway_page"
  "\<not> str_includes (js ''application/json'') (opt_str (rs_content_type gateway_page))"
  "looks_like_html (trim (rs_body gateway_page))"
  "page_title (rs_body gateway_page) = js ''Bad gateway''"
  by code_simp+

lemma html_error_summarised_witness:
  "\<exists>summary. apiFetch (Fetched gateway_page) =
      Inl (Api_error (txt_html_prefix @ nat_str 502 @ txt_html_middle @ summary) 502 None) \<and>
      starts_with (js ''Bad gateway'') summary"
  using html_error_summarised [OF gateway_page_facts(1-3)] gateway_page_facts(4)
  by (auto simp: gateway_page_def)

section \<open>Attachments\<close>

lemma map_of_map_key: "map_of (List.map (\<lambda>(k, v). (k, f k v)) xs) j = map_option (f j) (map_of xs j)"
  by (induction xs) auto

lemma fold_settle_one:
  assumes "distinct (List.map fst es)" and "fst ` set es = {i. i < length slots \<and> slots ! i = None}"
    and "es \<noteq> []"
  shows "fold settle_one (List.map (\<lambda>(i, x). (i, Inr x)) es) (Pending slots) =
     Resolved (List.map (\<lambda>i. case map_of es i of Some x \<Rightarrow> x | None \<Rightarrow> the (slots ! i)) [0..<length slots])"
  using assms
proof (induction es arbitrary: slots)
  case Nil
  then show ?case by simp
next
  case (Cons e es)
  obtain i x where e: "e = (i, x)" by force
  have i: "i < length slots" "slots ! i = None" using Cons.prems(2) e by auto
  define slots' where "slots' = slots[i := Some x]"
  have len: "length slots' = length slots" by (simp add: slots'_def)
  have rest: "fst ` set es = {j. j < length slots' \<and> slots' ! j = None}"
  proof -
    have "fst ` set es = {j. j < length slots \<and> slots ! j = None} - {i}"
      using Cons.prems(1,2) e by auto
    then show ?thesis using i by (auto simp: slots'_def nth_list_update split: if_splits)
  qed
  have val: "(case map_of (e # es) j of Some x \<Rightarrow> x | None \<Rightarrow> the (slots ! j)) =
      (case map_of es j of Some x \<Rightarrow> x | None \<Rightarrow> the (slots' ! j))" if "j < length slots" for j
  proof (cases "j = i")
    case True
    then have "map_of es j = None" using Cons.prems(1) e by (simp add: map_of_eq_None_iff)
    then show ?thesis using True e i by (simp add: slots'_def)
  next
    case False
    then have "slots' ! j = slots ! j" by (simp add: slots'_def)
    then show ?thesis using e False by (simp split: option.split)
  qed
  show ?case
  proof (cases "es = []")
    case True
    then have full: "\<forall>j < length slots'. slots' ! j \<noteq> None" using rest by auto
    then have "list_all (\<lambda>v. v \<noteq> None) slots'" by (simp add: list_all_length)
    moreover have "List.map the slots' = List.map (\<lambda>j. case map_of es j of Some x \<Rightarrow> x | None \<Rightarrow> the (slots' ! j)) [0..<length slots]"
      by (rule nth_equalityI) (simp_all add: True len)
    moreover have "settle_one (i, Inr x) (Pending slots) =
        (if list_all (\<lambda>v. v \<noteq> None) slots' then Resolved (List.map the slots') else Pending slots')"
      by (simp add: slots'_def Let_def)
    moreover have "List.map (\<lambda>j. case map_of (e # es) j of Some x \<Rightarrow> x | None \<Rightarrow> the (slots ! j)) [0..<length slots] =
        List.map (\<lambda>j. case map_of es j of Some x \<Rightarrow> x | None \<Rightarrow> the (slots' ! j)) [0..<length slots]"
      by (rule map_cong [OF refl]) (rule val, simp)
    ultimately show ?thesis using True e by simp
  next
    case False
    then obtain j where "j < length slots'" "slots' ! j = None" using rest by (cases es) auto
    then have "\<not> list_all (\<lambda>v. v \<noteq> None) slots'" by (auto simp: list_all_length)
    then have "settle_one (i, Inr x) (Pending slots) = Pending slots'"
      by (simp add: slots'_def Let_def)
    moreover have "List.map (\<lambda>j. case map_of (e # es) j of Some x \<Rightarrow> x | None \<Rightarrow> the (slots ! j)) [0..<length slots] =
        List.map (\<lambda>j. case map_of es j of Some x \<Rightarrow> x | None \<Rightarrow> the (slots' ! j)) [0..<length slots]"
      by (rule map_cong [OF refl]) (rule val, simp)
    ultimately show ?thesis
      using Cons.IH [OF _ rest False] Cons.prems(1) e len by simp
  qed
qed

text \<open>
  Attachments reach the request in the order the files were chosen, whatever the order in which the
  file readers finish: with one reading per file, in any order, the call resolves to the list that
  pairs each file with its own content.\<close>

theorem attachments_in_order:
  assumes "distinct (List.map fst readings)" and "fst ` set readings = {..<length fs}"
  shows "readFilesAsAttachments fs (List.map (\<lambda>(i, d). (i, Inr d)) readings) =
     Resolved (List.map (\<lambda>i. file_attachment (fs ! i) (the (map_of readings i))) [0..<length fs])"
proof (cases "fs = []")
  case True
  then have "readings = []" using assms(2) by simp
  then show ?thesis using True by (simp add: readFilesAsAttachments_def promise_all_def)
next
  case False
  let ?es = "List.map (\<lambda>(i, d). (i, file_attachment (fs ! i) d)) readings"
  have fsts: "List.map fst ?es = List.map fst readings" by (simp add: case_prod_beta comp_def)
  have val: "map_of ?es i = Some (file_attachment (fs ! i) (the (map_of readings i)))" if "i < length fs" for i
  proof -
    have "i \<in> fst ` set readings" using assms(2) that by blast
    then obtain d where "map_of readings i = Some d"
      by (cases "map_of readings i") (simp_all add: map_of_eq_None_iff)
    then show ?thesis by (simp add: map_of_map_key)
  qed
  have "fst ` set ?es = fst ` set readings" using fsts by (metis list.set_map)
  then have dom: "fst ` set ?es = {i. i < length (replicate (length fs) None) \<and> replicate (length fs) None ! i = None}"
    using assms(2) by auto
  have ne: "?es \<noteq> []" using assms(2) False by auto
  have eq: "List.map (\<lambda>(i, r). (i, case r of Inl None \<Rightarrow> Inl (Error_message txt_read_failed) | Inl (Some e) \<Rightarrow> Inl e
       | Inr d \<Rightarrow> Inr (file_attachment (fs ! i) d))) (List.map (\<lambda>(i, d). (i, Inr d)) readings) =
     List.map (\<lambda>(i, x). (i, Inr x)) ?es"
    by (simp add: case_prod_beta comp_def)
  have "fold settle_one (List.map (\<lambda>(i, x). (i, Inr x)) ?es) (Pending (replicate (length fs) None)) =
      Resolved (List.map (\<lambda>i. case map_of ?es i of Some x \<Rightarrow> x | None \<Rightarrow> the (replicate (length fs) None ! i)) [0..<length fs])"
    by (rule fold_settle_one [OF _ dom, unfolded length_replicate]) (simp_all only: fsts assms(1) ne not_False_eq_True)
  also have "\<dots> = Resolved (List.map (\<lambda>i. file_attachment (fs ! i) (the (map_of readings i))) [0..<length fs])"
    by (auto simp: val)
  finally show ?thesis
    unfolding readFilesAsAttachments_def promise_all_def eq using False by simp
qed

lemma attachments_in_order_witness:
  "readFilesAsAttachments
     [\<lparr>file_name = js ''a'', file_type = js ''t'', file_size = 1\<rparr>, \<lparr>file_name = js ''b'', file_type = js ''t'', file_size = 2\<rparr>]
     [(1, Inr (Data_url (js ''B''))), (0, Inr (Data_url (js ''A'')))] =
   Resolved [\<lparr>ai_name = js ''a'', ai_content_type = js ''t'', ai_data = Data_url (js ''A'')\<rparr>,
             \<lparr>ai_name = js ''b'', ai_content_type = js ''t'', ai_data = Data_url (js ''B'')\<rparr>]"
  using attachments_in_order [of "[(1, Data_url (js ''B'')), (0, Data_url (js ''A''))]"
      "[\<lparr>file_name = js ''a'', file_type = js ''t'', file_size = 1\<rparr>, \<lparr>file_name = js ''b'', file_type = js ''t'', file_size = 2\<rparr>]"]
  by (simp add: file_attachment_def upt_conv_Cons lessThan_Suc insert_commute)

end
