(* ===== verification/Js_Date.thy ===== *)
theory Js_Date imports Js_Prelude begin

text \<open>
  \<open>new Date(s).getTime()\<close> for the ECMAScript date-time format: milliseconds since the epoch, or
  \<open>None\<close> (NaN). The backend writes its time stamps in this format (RFC 3339 with an offset). A
  date without a time is UTC; a time without an offset, which the backend never sends, would be
  local time and is \<open>None\<close> here, as is every other spelling. Fractions of a second are cut to
  milliseconds.
\<close>

definition digit_value :: "unit16 \<Rightarrow> int option" where
  "digit_value c = (if 48 \<le> c \<and> c \<le> 57 then Some (uint c - 48) else None)"

fun number_of_digits :: "jsstr \<Rightarrow> int \<Rightarrow> int option" where
  "number_of_digits [] acc = Some acc"
| "number_of_digits (c # s) acc =
     (case digit_value c of None \<Rightarrow> None | Some d \<Rightarrow> number_of_digits s (acc * 10 + d))"

text \<open>Exactly \<open>n\<close> digits at the front.\<close>

definition fixed_digits :: "nat \<Rightarrow> jsstr \<Rightarrow> (int \<times> jsstr) option" where
  "fixed_digits n s =
     (if length s < n then None
      else map_option (\<lambda>v. (v, drop n s)) (number_of_digits (take n s) 0))"

definition days_from_civil :: "int \<Rightarrow> int \<Rightarrow> int \<Rightarrow> int" where
  "days_from_civil y m d =
     (let y' = (if m \<le> 2 then y - 1 else y);
          era = y' div 400;
          yoe = y' - era * 400;
          doy = (153 * (if 2 < m then m - 3 else m + 9) + 2) div 5 + d - 1;
          doe = yoe * 365 + yoe div 4 - yoe div 100 + doy
      in era * 146097 + doe - 719468)"

text \<open>The offset from UTC in minutes: \<open>Z\<close>, \<open>+hh:mm\<close> or \<open>-hh:mm\<close>.\<close>

definition parse_offset :: "jsstr \<Rightarrow> int option" where
  "parse_offset s =
     (if s = js ''Z'' then Some 0
      else case s of [] \<Rightarrow> None
      | sign # t \<Rightarrow>
          if sign \<noteq> 43 \<and> sign \<noteq> 45 then None else
          (case fixed_digits 2 t of None \<Rightarrow> None
           | Some (h, u) \<Rightarrow> (case u of [] \<Rightarrow> None
              | c # v \<Rightarrow> if c \<noteq> 58 then None else
                  (case fixed_digits 2 v of None \<Rightarrow> None
                   | Some (m, w) \<Rightarrow>
                       if w = [] \<and> h \<le> 23 \<and> m \<le> 59
                       then Some ((if sign = 45 then -1 else 1) * (h * 60 + m)) else None))))"

definition is_decimal :: "unit16 \<Rightarrow> bool" where
  "is_decimal c \<longleftrightarrow> 48 \<le> c \<and> c \<le> 57"

text \<open>An optional fraction of a second, in milliseconds, and what follows it.\<close>

definition parse_fraction :: "jsstr \<Rightarrow> (int \<times> jsstr) option" where
  "parse_fraction s = (case s of [] \<Rightarrow> Some (0, [])
     | c # t \<Rightarrow> if c \<noteq> 46 then Some (0, s) else
         (let f = takeWhile is_decimal t in
          if f = [] then None
          else map_option (\<lambda>v. (v, dropWhile is_decimal t)) (number_of_digits (take 3 (f @ [48, 48])) 0)))"

definition parse_clock :: "jsstr \<Rightarrow> (int \<times> jsstr) option" where
  "parse_clock s =
     (case fixed_digits 2 s of None \<Rightarrow> None
      | Some (h, t) \<Rightarrow> (case t of [] \<Rightarrow> None
         | c # u \<Rightarrow> if c \<noteq> 58 then None else
             (case fixed_digits 2 u of None \<Rightarrow> None
              | Some (m, v) \<Rightarrow>
                  (let sec = (case v of [] \<Rightarrow> Some (0, 0, [])
                     | d # w \<Rightarrow> if d \<noteq> 58 then Some (0, 0, v) else
                         (case fixed_digits 2 w of None \<Rightarrow> None
                          | Some (s2, x) \<Rightarrow> map_option (\<lambda>(ms, y). (s2, ms, y)) (parse_fraction x)))
                   in case sec of None \<Rightarrow> None
                      | Some (s2, ms, y) \<Rightarrow>
                          if h \<le> 23 \<and> m \<le> 59 \<and> s2 \<le> 59 \<or> h = 24 \<and> m = 0 \<and> s2 = 0 \<and> ms = 0
                          then Some (((h * 60 + m) * 60 + s2) * 1000 + ms, y) else None))))"

definition date_ms :: "jsstr \<Rightarrow> int option" where
  "date_ms s =
     (case fixed_digits 4 s of None \<Rightarrow> None
      | Some (y, r1) \<Rightarrow> (case r1 of [] \<Rightarrow> None
         | c1 # r2 \<Rightarrow> if c1 \<noteq> 45 then None else
             (case fixed_digits 2 r2 of None \<Rightarrow> None
              | Some (m, r3) \<Rightarrow> (case r3 of [] \<Rightarrow> None
                 | c2 # r4 \<Rightarrow> if c2 \<noteq> 45 then None else
                     (case fixed_digits 2 r4 of None \<Rightarrow> None
                      | Some (d, r5) \<Rightarrow>
                          if m < 1 \<or> 12 < m \<or> d < 1 \<or> 31 < d then None else
                          (let day = days_from_civil y m d * 86400000 in
                           case r5 of [] \<Rightarrow> Some day
                           | t # r6 \<Rightarrow> if t \<noteq> 84 then None else
                               (case parse_clock r6 of None \<Rightarrow> None
                                | Some (ms, z) \<Rightarrow>
                                    map_option (\<lambda>off. day + ms - off * 60000) (parse_offset z))))))))"

lemmas date_eval = date_ms_def fixed_digits_def digit_value_def days_from_civil_def parse_clock_def
  parse_fraction_def parse_offset_def is_decimal_def Let_def

lemma date_ms_epoch: "date_ms (js ''1970-01-01T00:00:00Z'') = Some 0"
  by code_simp

lemma date_ms_example: "date_ms (js ''2026-10-08T12:34:56.789123456+08:00'') = Some 1791434096789"
  by code_simp

end
