(* ===== verification/Console_Store.thy ===== *)
theory Console_Store imports Interfaces Api_Client Js_Date begin

text \<open>
  The hook \<open>useAdminConsole\<close> (\<open>frontend/hooks/use-admin-console.ts\<close>): the state every panel
  of the console reads, the requests that fill it and the event stream that keeps it current.

  The hook's \<open>useState\<close> values and its refs are the fields of \<open>console\<close>. A handler runs to its
  next \<open>await\<close> and leaves a \<open>task\<close> that says what it waits for; \<open>resume\<close> continues it with the
  reply, so that any other handler, reply or stream event may run in between. After each such
  step React commits: \<open>commit\<close> is the hook's effects. A request that fails carries a
  \<open>failure\<close>; the promise a caller then sees is not part of the state.
\<close>

section \<open>Lists of conversations and messages\<close>

definition conversation_time :: "conversation_summary \<Rightarrow> int option" where
  "conversation_time c =
     (let stamp = or_str (opt_str (cv_updated_at c)) (opt_str (cv_created_at c))
      in if stamp = [] then Some 0 else date_ms stamp)"

definition sortConversations :: "conversation_summary list \<Rightarrow> conversation_summary list" where
  "sortConversations items = js_sort (by_desc conversation_time) items"

text \<open>The object spread \<open>{...current, ...next}\<close>: a property of \<open>next\<close> replaces that of \<open>current\<close>.\<close>

definition spread_summary :: "conversation_summary \<Rightarrow> conversation_summary \<Rightarrow> conversation_summary" where
  "spread_summary cur nxt =
     \<lparr>cv_id = cv_id nxt, cv_title = nullish (cv_title nxt) (cv_title cur),
      cv_title_edited_at = nullish (cv_title_edited_at nxt) (cv_title_edited_at cur),
      cv_origin = nullish (cv_origin nxt) (cv_origin cur),
      cv_remote_only = nullish (cv_remote_only nxt) (cv_remote_only cur),
      cv_preview = nullish (cv_preview nxt) (cv_preview cur),
      cv_request_prompt = nullish (cv_request_prompt nxt) (cv_request_prompt cur),
      cv_status = nullish (cv_status nxt) (cv_status cur), cv_source = nullish (cv_source nxt) (cv_source cur),
      cv_transport = nullish (cv_transport nxt) (cv_transport cur), cv_model = nullish (cv_model nxt) (cv_model cur),
      cv_notion_model = nullish (cv_notion_model nxt) (cv_notion_model cur),
      cv_account_email = nullish (cv_account_email nxt) (cv_account_email cur),
      cv_space_id = nullish (cv_space_id nxt) (cv_space_id cur),
      cv_thread_id = nullish (cv_thread_id nxt) (cv_thread_id cur),
      cv_trace_id = nullish (cv_trace_id nxt) (cv_trace_id cur),
      cv_response_id = nullish (cv_response_id nxt) (cv_response_id cur),
      cv_completion_id = nullish (cv_completion_id nxt) (cv_completion_id cur),
      cv_created_by_display_name = nullish (cv_created_by_display_name nxt) (cv_created_by_display_name cur),
      cv_created_at = nullish (cv_created_at nxt) (cv_created_at cur),
      cv_updated_at = nullish (cv_updated_at nxt) (cv_updated_at cur),
      cv_error = nullish (cv_error nxt) (cv_error cur)\<rparr>"

definition preserveMergedTitle :: "conversation_summary \<Rightarrow> conversation_summary \<Rightarrow> bool" where
  "preserveMergedTitle cur nxt \<longleftrightarrow>
     cv_origin cur = Some (js ''merged'') \<and> truthy (cv_thread_id cur) \<and> cv_thread_id cur = cv_thread_id nxt \<and>
     (\<not> truthy (cv_origin nxt) \<or> cv_origin nxt = Some (js ''local''))"

definition mergeConversationSummaryState ::
    "conversation_summary option \<Rightarrow> conversation_summary \<Rightarrow> conversation_summary" where
  "mergeConversationSummaryState current nxt =
     (case current of None \<Rightarrow> nxt
      | Some cur \<Rightarrow> (spread_summary cur nxt)\<lparr>
          cv_title := (if preserveMergedTitle cur nxt then or_opt (cv_title cur) (cv_title nxt)
                       else or_opt (cv_title nxt) (cv_title cur)),
          cv_origin := or_opt (cv_origin nxt) (cv_origin cur),
          cv_remote_only := nullish (cv_remote_only nxt) (cv_remote_only cur),
          cv_created_by_display_name :=
            or_opt (cv_created_by_display_name nxt) (cv_created_by_display_name cur)\<rparr>)"

fun findIndex :: "('a \<Rightarrow> bool) \<Rightarrow> 'a list \<Rightarrow> nat option" where
  "findIndex p [] = None"
| "findIndex p (x # xs) = (if p x then Some 0 else map_option Suc (findIndex p xs))"

definition mergeConversationMessages ::
    "conversation_message list option \<Rightarrow> conversation_message option \<Rightarrow> conversation_message list" where
  "mergeConversationMessages currentMessages nextMessage =
     (let current = opt_list currentMessages in
      case nextMessage of None \<Rightarrow> current
      | Some m \<Rightarrow>
          if \<not> truthy (cm_id m) then current
          else (case findIndex (\<lambda>item. cm_id item = cm_id m) current of
                  Some i \<Rightarrow> current[i := m]
                | None \<Rightarrow> current @ [m]))"

section \<open>The state of the hook\<close>

datatype list_then = List_only | List_refresh | List_boot
datatype detail_then = Detail_only | Detail_refresh | Detail_boot

text \<open>
  What a running handler waits for. \<open>list_then\<close> and \<open>detail_then\<close> say which handler called
  \<open>loadConversations\<close> and \<open>loadConversationDetail\<close>, so what comes after the reply.
\<close>

datatype task =
    T_verify
  | T_bundle
  | T_list list_then
  | T_detail jsstr detail_then
  | T_login
  | T_logout
  | T_delete jsstr
  | T_batch_delete "jsstr list"
  | T_accounts
  | T_config_bundle

record console =
  uc_verify :: "admin_verify_payload option"
  uc_config :: "admin_config_payload option"
  uc_version :: "version_payload option"
  uc_health :: "health_payload option"
  uc_accounts :: "accounts_payload option"
  uc_conversations :: "conversation_summary list"
  uc_details :: "jsstr \<Rightarrow> conversation_detail option"
  uc_selected :: jsstr
  uc_stream_state :: jsstr
  uc_boot_loading :: bool
  uc_boot_error :: jsstr
  uc_source :: bool \<comment> \<open>\<open>eventSourceRef.current\<close> is set\<close>
  uc_selected_ref :: jsstr
  uc_details_ref :: "jsstr \<Rightarrow> conversation_detail option"
  uc_auth_dep :: bool \<comment> \<open>the dependency \<open>verify?.authenticated\<close> the stream effect last ran for\<close>
  uc_tasks :: "(nat \<times> task) list"
  uc_next :: nat

definition initial_console :: console where
  "initial_console =
     \<lparr>uc_verify = None, uc_config = None, uc_version = None, uc_health = None, uc_accounts = None,
      uc_conversations = [], uc_details = (\<lambda>_. None), uc_selected = [], uc_stream_state = txt_stream_off,
      uc_boot_loading = True, uc_boot_error = [], uc_source = False, uc_selected_ref = [],
      uc_details_ref = (\<lambda>_. None), uc_auth_dep = False, uc_tasks = [], uc_next = 0\<rparr>"

definition has_conversation :: "jsstr \<Rightarrow> conversation_summary list \<Rightarrow> bool" where
  "has_conversation i items = list_ex (\<lambda>item. cv_id item = i) items"

text \<open>\<open>items[0]?.id || ''\<close>\<close>

definition first_conversation :: "conversation_summary list \<Rightarrow> jsstr" where
  "first_conversation items = (case items of [] \<Rightarrow> [] | item # _ \<Rightarrow> cv_id item)"

definition authenticated :: "console \<Rightarrow> bool" where
  "authenticated s = (case uc_verify s of None \<Rightarrow> False | Some v \<Rightarrow> opt_true (av_authenticated v))"

definition spawn :: "task \<Rightarrow> console \<Rightarrow> console" where
  "spawn t s = s\<lparr>uc_tasks := uc_tasks s @ [(uc_next s, t)], uc_next := Suc (uc_next s)\<rparr>"

section \<open>State updates\<close>

text \<open>The updaters that \<open>setConversations\<close> and \<open>setConversationDetails\<close> are given.\<close>

definition upsert_summary :: "conversation_summary \<Rightarrow> conversation_summary list \<Rightarrow> conversation_summary list" where
  "upsert_summary summary current =
     (if cv_id summary = [] then current
      else (let existing = List.find (\<lambda>item. cv_id item = cv_id summary) current;
                filtered = filter (\<lambda>item. cv_id item \<noteq> cv_id summary) current
            in sortConversations (filtered @ [mergeConversationSummaryState existing summary])))"

definition upsertConversationSummary :: "conversation_summary \<Rightarrow> console \<Rightarrow> console" where
  "upsertConversationSummary summary s = s\<lparr>uc_conversations := upsert_summary summary (uc_conversations s)\<rparr>"

type_synonym details = "jsstr \<Rightarrow> conversation_detail option"

definition remember_detail :: "conversation_detail \<Rightarrow> details \<Rightarrow> details" where
  "remember_detail conversation current =
     (if cv_id conversation = [] then current else current(cv_id conversation \<mapsto> conversation))"

definition rememberConversation :: "conversation_detail \<Rightarrow> console \<Rightarrow> console" where
  "rememberConversation conversation s =
     (if cv_id conversation = [] then s
      else (let nxt = remember_detail conversation (uc_details s)
            in s\<lparr>uc_details := nxt, uc_details_ref := nxt\<rparr>))"

definition forget_detail :: "jsstr \<Rightarrow> details \<Rightarrow> details" where
  "forget_detail i current = current(i := None)"

definition closeStream :: "console \<Rightarrow> console" where
  "closeStream s = s\<lparr>uc_source := False, uc_stream_state := txt_stream_off\<rparr>"

definition ensureStream :: "console \<Rightarrow> console" where
  "ensureStream s =
     (if uc_source s \<or> \<not> authenticated s then s
      else s\<lparr>uc_source := True, uc_stream_state := txt_stream_connecting\<rparr>)"

definition selectConversation :: "jsstr \<Rightarrow> console \<Rightarrow> console" where
  "selectConversation i s = s\<lparr>uc_selected := i\<rparr>"

definition forgetConversations :: "jsstr list \<Rightarrow> console \<Rightarrow> console" where
  "forgetConversations ids s =
     s\<lparr>uc_details := fold forget_detail ids (uc_details s)\<rparr>"

section \<open>Handlers\<close>

text \<open>\<open>loadConversationDetail\<close> up to its \<open>await\<close>.\<close>

definition loadConversationDetail :: "jsstr \<Rightarrow> bool \<Rightarrow> detail_then \<Rightarrow> console \<Rightarrow> console" where
  "loadConversationDetail i force after s =
     (if i = [] then selectConversation [] s
      else (let s' = selectConversation i s in
            if \<not> force \<and> uc_details_ref s' i \<noteq> None then s'
            else spawn (T_detail i after) s'))"

definition loadConversations :: "list_then \<Rightarrow> console \<Rightarrow> console" where
  "loadConversations after s = spawn (T_list after) s"

definition refreshConversations :: "console \<Rightarrow> console" where
  "refreshConversations s = loadConversations List_refresh s"

definition refreshAll :: "console \<Rightarrow> console" where
  "refreshAll s = spawn T_verify (s\<lparr>uc_boot_loading := True, uc_boot_error := []\<rparr>)"

text \<open>The \<open>catch\<close> and \<open>finally\<close> of \<open>refreshAll\<close>.\<close>

definition boot_failed :: "failure \<Rightarrow> console \<Rightarrow> console" where
  "boot_failed e s = s\<lparr>uc_boot_error := failure_text e txt_boot_failed, uc_boot_loading := False\<rparr>"

definition boot_done :: "console \<Rightarrow> console" where
  "boot_done s = s\<lparr>uc_boot_loading := False\<rparr>"

definition signed_out :: "admin_verify_payload \<Rightarrow> bool" where
  "signed_out v \<longleftrightarrow> \<not> opt_true (av_password_configured v) \<or>
     (\<not> opt_true (av_authenticated v) \<and> opt_true (av_password_required v))"

definition clear_console :: "console \<Rightarrow> console" where
  "clear_console s = (closeStream s)\<lparr>uc_config := None, uc_version := None, uc_health := None,
     uc_accounts := None, uc_conversations := [], uc_details := (\<lambda>_. None), uc_selected := []\<rparr>"

definition after_verify :: "admin_verify_payload \<Rightarrow> console \<Rightarrow> console" where
  "after_verify v s =
     (let s' = s\<lparr>uc_verify := Some v\<rparr> in
      if signed_out v then boot_done (clear_console s') else spawn T_bundle s')"

definition after_bundle ::
    "admin_config_payload \<Rightarrow> version_payload \<Rightarrow> health_payload \<Rightarrow> accounts_payload \<Rightarrow> console \<Rightarrow> console" where
  "after_bundle config version health accounts s =
     loadConversations List_boot
       (s\<lparr>uc_config := Some config, uc_version := Some version, uc_health := Some health,
          uc_accounts := Some accounts\<rparr>)"

text \<open>
  The reply of \<open>getConversations\<close>: \<open>loadConversations\<close> sets the list and repairs the selection;
  \<open>refreshConversations\<close> then reads the ref, which still holds the selection of the last commit.
\<close>

definition set_conversations :: "conversations_payload \<Rightarrow> console \<Rightarrow> console" where
  "set_conversations p s =
     (let items = sortConversations (opt_list (csp_items p))
      in s\<lparr>uc_conversations := items,
           uc_selected := (if uc_selected s \<noteq> [] \<and> has_conversation (uc_selected s) items
                           then uc_selected s else first_conversation items)\<rparr>)"

definition refresh_target :: "console \<Rightarrow> jsstr" where
  "refresh_target s =
     (if uc_selected_ref s \<noteq> [] \<and> has_conversation (uc_selected_ref s) (uc_conversations s)
      then uc_selected_ref s else first_conversation (uc_conversations s))"

fun after_list :: "list_then \<Rightarrow> conversations_payload \<Rightarrow> console \<Rightarrow> console" where
  "after_list List_only p s = set_conversations p s"
| "after_list List_refresh p s =
     (let s' = set_conversations p s; t = refresh_target s'
      in if t = [] then s' else loadConversationDetail t True Detail_refresh s')"
| "after_list List_boot p s =
     (let s' = set_conversations p s; t = refresh_target s'
      in if t = [] then boot_done s' else loadConversationDetail t True Detail_boot s')"

fun after_detail :: "detail_then \<Rightarrow> conversation_detail_payload \<Rightarrow> console \<Rightarrow> console" where
  "after_detail Detail_boot p s = boot_done (rememberConversation (cdp_item p) s)"
| "after_detail _ p s = rememberConversation (cdp_item p) s"

text \<open>The other calls: \<open>login\<close>, \<open>logout\<close>, deleting, and the reads that panels ask for.\<close>

definition login :: "console \<Rightarrow> console" where "login s = spawn T_login s"
definition logout :: "console \<Rightarrow> console" where "logout s = spawn T_logout s"

definition deleteConversation :: "jsstr \<Rightarrow> console \<Rightarrow> console" where
  "deleteConversation i s = spawn (T_delete i) s"

definition batchDeleteConversations :: "jsstr list \<Rightarrow> console \<Rightarrow> console" where
  "batchDeleteConversations ids s = spawn (T_batch_delete ids) s"

definition refreshAccounts :: "console \<Rightarrow> console" where "refreshAccounts s = spawn T_accounts s"
definition refreshConfigBundle :: "console \<Rightarrow> console" where "refreshConfigBundle s = spawn T_config_bundle s"

section \<open>Replies\<close>

datatype reply =
    R_verify admin_verify_payload
  | R_bundle admin_config_payload version_payload health_payload accounts_payload
  | R_list conversations_payload
  | R_detail conversation_detail_payload
  | R_json json_result
  | R_accounts accounts_payload
  | R_config_bundle admin_config_payload version_payload health_payload
  | R_failed failure

text \<open>Whether a task belongs to a run of \<open>refreshAll\<close>, whose \<open>catch\<close> then sees its failure.\<close>

fun boot_task :: "task \<Rightarrow> bool" where
  "boot_task T_verify = True"
| "boot_task T_bundle = True"
| "boot_task (T_list List_boot) = True"
| "boot_task (T_detail _ Detail_boot) = True"
| "boot_task _ = False"

fun resume :: "task \<Rightarrow> reply \<Rightarrow> console \<Rightarrow> console" where
  "resume t (R_failed e) s = (if boot_task t then boot_failed e s else s)"
| "resume T_verify (R_verify v) s = after_verify v s"
| "resume T_bundle (R_bundle c v h a) s = after_bundle c v h a s"
| "resume (T_list after) (R_list p) s = after_list after p s"
| "resume (T_detail i after) (R_detail p) s = after_detail after p s"
| "resume T_login (R_json r) s = refreshAll s"
| "resume T_logout (R_json r) s = refreshAll s"
| "resume (T_delete i) (R_json r) s = refreshConversations (forgetConversations [i] s)"
| "resume (T_batch_delete ids) (R_json r) s = refreshConversations (forgetConversations ids s)"
| "resume T_accounts (R_accounts a) s = s\<lparr>uc_accounts := Some a\<rparr>"
| "resume T_config_bundle (R_config_bundle c v h) s =
     s\<lparr>uc_config := Some c, uc_version := Some v, uc_health := Some h\<rparr>"
| "resume _ _ s = s"

definition answers :: "task \<Rightarrow> reply \<Rightarrow> bool" where
  "answers t r = (case r of R_failed _ \<Rightarrow> True
     | R_verify _ \<Rightarrow> t = T_verify | R_bundle _ _ _ _ \<Rightarrow> t = T_bundle
     | R_list _ \<Rightarrow> (case t of T_list _ \<Rightarrow> True | _ \<Rightarrow> False)
     | R_detail _ \<Rightarrow> (case t of T_detail _ _ \<Rightarrow> True | _ \<Rightarrow> False)
     | R_json _ \<Rightarrow> (case t of T_login \<Rightarrow> True | T_logout \<Rightarrow> True | T_delete _ \<Rightarrow> True | T_batch_delete _ \<Rightarrow> True | _ \<Rightarrow> False)
     | R_accounts _ \<Rightarrow> t = T_accounts | R_config_bundle _ _ _ \<Rightarrow> t = T_config_bundle)"

section \<open>The event stream\<close>

text \<open>The parsed data of one event of \<open>/admin/events\<close>.\<close>

record stream_payload =
  sp_type :: "jsstr option"
  sp_summary :: "conversation_summary option"
  sp_conversation :: "conversation_detail option"
  sp_conversation_id :: "jsstr option"
  sp_message :: "conversation_message option"
  sp_at :: "jsstr option"

definition apply_delta :: "jsstr \<Rightarrow> stream_payload \<Rightarrow> console \<Rightarrow> console" where
  "apply_delta i p s =
     (case uc_details s i of None \<Rightarrow> s
      | Some existing \<Rightarrow>
          s\<lparr>uc_details := (uc_details s)(i \<mapsto> existing\<lparr>
              cv_status := or_opt (Option.bind (sp_summary p) cv_status) (cv_status existing),
              cv_updated_at := or_opt (Option.bind (sp_summary p) cv_updated_at)
                                 (or_opt (sp_at p) (cv_updated_at existing)),
              cd_messages := Some (mergeConversationMessages (cd_messages existing) (sp_message p))\<rparr>)\<rparr>)"

definition select_if_none :: "jsstr \<Rightarrow> console \<Rightarrow> console" where
  "select_if_none i s = s\<lparr>uc_selected := or_str (uc_selected s) i\<rparr>"

definition handleEvent :: "stream_payload \<Rightarrow> console \<Rightarrow> console" where
  "handleEvent p s =
     (let s1 = (case sp_summary p of None \<Rightarrow> s | Some c \<Rightarrow> upsertConversationSummary c s);
          s2 = (case sp_conversation p of None \<Rightarrow> s1 | Some c \<Rightarrow> rememberConversation c s1);
          i = opt_str (sp_conversation_id p);
          s3 = (if sp_type p = Some (js ''conversation.delta'') \<and> i \<noteq> [] then apply_delta i p s2 else s2);
          s4 = (if sp_type p = Some (js ''conversation.created'') \<and> i \<noteq> [] then select_if_none i s3 else s3)
      in if (sp_type p = Some (js ''conversation.completed'') \<or> sp_type p = Some (js ''conversation.failed'')) \<and> i \<noteq> []
         then select_if_none i s4 else s4)"

text \<open>
  What the open stream delivers. A named event carries its data, \<open>None\<close> when it is empty or
  does not parse; \<open>admin.ready\<close> needs data that parses too.
\<close>

datatype stream_event =
    Stream_open
  | Stream_error
  | Stream_ready "json option"
  | Stream_named "stream_payload option"

fun stream_step :: "stream_event \<Rightarrow> console \<Rightarrow> console" where
  "stream_step Stream_open s = s\<lparr>uc_stream_state := txt_stream_on\<rparr>"
| "stream_step Stream_error s = s\<lparr>uc_stream_state := txt_stream_retry\<rparr>"
| "stream_step (Stream_ready None) s = s"
| "stream_step (Stream_ready (Some _)) s = s\<lparr>uc_stream_state := txt_stream_on\<rparr>"
| "stream_step (Stream_named None) s = s"
| "stream_step (Stream_named (Some p)) s = handleEvent p s"

section \<open>Effects and derived values\<close>

definition stream_effect :: "console \<Rightarrow> console" where
  "stream_effect s =
     (if authenticated s = uc_auth_dep s then s
      else (if authenticated s then ensureStream else closeStream) (s\<lparr>uc_auth_dep := authenticated s\<rparr>))"

definition selection_effect :: "console \<Rightarrow> console" where
  "selection_effect s =
     (if uc_selected s \<noteq> [] \<and> \<not> has_conversation (uc_selected s) (uc_conversations s)
      then s\<lparr>uc_selected := first_conversation (uc_conversations s)\<rparr> else s)"

definition sync_refs :: "console \<Rightarrow> console" where
  "sync_refs s = s\<lparr>uc_selected_ref := uc_selected s, uc_details_ref := uc_details s\<rparr>"

definition commit :: "console \<Rightarrow> console" where
  "commit s = sync_refs (selection_effect (stream_effect s))"

definition selectedConversation :: "console \<Rightarrow> (conversation_detail + conversation_summary) option" where
  "selectedConversation s =
     (if uc_selected s = [] then None
      else case uc_details s (uc_selected s) of
        Some d \<Rightarrow> Some (Inl d)
      | None \<Rightarrow> map_option Inr (List.find (\<lambda>item. cv_id item = uc_selected s) (uc_conversations s)))"

text \<open>The mount effect loads everything; the cleanup closes the stream.\<close>

definition mounted_console :: console where
  "mounted_console = commit (refreshAll initial_console)"

definition unmount :: "console \<Rightarrow> console" where
  "unmount s = closeStream s"

section \<open>Commands and runs\<close>

text \<open>What a panel can ask the hook to do.\<close>

datatype command =
    Refresh_all
  | Refresh_conversations
  | Load_conversations
  | Load_detail jsstr bool
  | Select jsstr
  | Log_in
  | Log_out
  | Delete_conversation jsstr
  | Batch_delete "jsstr list"
  | Refresh_accounts
  | Refresh_config_bundle
  | Close_stream

fun run_command :: "command \<Rightarrow> console \<Rightarrow> console" where
  "run_command Refresh_all s = refreshAll s"
| "run_command Refresh_conversations s = refreshConversations s"
| "run_command Load_conversations s = loadConversations List_only s"
| "run_command (Load_detail i force) s = loadConversationDetail i force Detail_only s"
| "run_command (Select i) s = selectConversation i s"
| "run_command Log_in s = login s"
| "run_command Log_out s = logout s"
| "run_command (Delete_conversation i) s = deleteConversation i s"
| "run_command (Batch_delete ids) s = batchDeleteConversations ids s"
| "run_command Refresh_accounts s = refreshAccounts s"
| "run_command Refresh_config_bundle s = refreshConfigBundle s"
| "run_command Close_stream s = closeStream s"

definition finish_task :: "nat \<Rightarrow> console \<Rightarrow> console" where
  "finish_task n s = s\<lparr>uc_tasks := filter (\<lambda>(m, _). m \<noteq> n) (uc_tasks s)\<rparr>"

inductive console_step :: "console \<Rightarrow> console \<Rightarrow> bool" where
  command: "console_step s (commit (run_command c s))"
| reply: "(n, t) \<in> set (uc_tasks s) \<Longrightarrow> answers t r \<Longrightarrow>
     console_step s (commit (resume t r (finish_task n s)))"
| stream: "uc_source s \<Longrightarrow> console_step s (commit (stream_step e s))"

inductive console_reachable :: "console \<Rightarrow> bool" where
  mount: "console_reachable mounted_console"
| step: "console_reachable s \<Longrightarrow> console_step s t \<Longrightarrow> console_reachable t"

section \<open>Lemmas: the stores\<close>

lemma cv_id_spread [simp]: "cv_id (spread_summary cur nxt) = cv_id nxt"
  by (simp add: spread_summary_def)

lemma cv_id_merge [simp]: "cv_id (mergeConversationSummaryState cur nxt) = cv_id nxt"
  by (simp add: mergeConversationSummaryState_def split: option.splits)

lemma distinct_upsert_summary:
  "distinct (List.map cv_id items) \<Longrightarrow> distinct (List.map cv_id (upsert_summary c items))"
  by (auto simp: upsert_summary_def sortConversations_def Let_def distinct_map_filter)

lemma lookup_upsert_summary:
  assumes "distinct (List.map cv_id items)" and "cv_id c \<noteq> []"
  shows "List.find (\<lambda>item. cv_id item = k) (upsert_summary c items) =
    (if k = cv_id c then Some (mergeConversationSummaryState (List.find (\<lambda>item. cv_id item = k) items) c)
     else List.find (\<lambda>item. cv_id item = k) items)"
proof -
  let ?m = "mergeConversationSummaryState (List.find (\<lambda>item. cv_id item = cv_id c) items) c"
  have "distinct (List.map cv_id (filter (\<lambda>item. cv_id item \<noteq> cv_id c) items @ [?m]))"
    using assms(1) by (auto simp: distinct_map_filter)
  then have "List.find (\<lambda>item. cv_id item = k) (upsert_summary c items) =
      List.find (\<lambda>item. cv_id item = k) (filter (\<lambda>item. cv_id item \<noteq> cv_id c) items @ [?m])"
    using assms(2) by (simp add: upsert_summary_def sortConversations_def Let_def find_js_sort)
  then show ?thesis by (auto simp: find_append find_filter_neq split: option.splits)
qed

interpretation conv_list: keyed_store
  "\<lambda>items k. List.find (\<lambda>item. cv_id item = k) items" upsert_summary cv_id
  mergeConversationSummaryState "\<lambda>c. cv_id c \<noteq> []" "\<lambda>items. distinct (List.map cv_id items)"
  by unfold_locales (simp_all add: lookup_upsert_summary distinct_upsert_summary, simp add: upsert_summary_def)

interpretation detail_cache: replacing_store
  "\<lambda>m :: details. m" remember_detail cv_id "\<lambda>_ d. d" "\<lambda>d. cv_id d \<noteq> []" "\<lambda>_. True"
  by unfold_locales (simp_all add: remember_detail_def)

interpretation detail_cache_del: deletable_store
  "\<lambda>m :: details. m" remember_detail cv_id "\<lambda>_ d. d" "\<lambda>d. cv_id d \<noteq> []" "\<lambda>_. True" forget_detail
  by unfold_locales (simp_all add: forget_detail_def)

lemma findIndex_find:
  "List.find p xs = (case findIndex p xs of None \<Rightarrow> None | Some i \<Rightarrow> Some (xs ! i))"
  by (induction xs) (auto split: option.splits)

lemma findIndex_Some: "findIndex p xs = Some i \<Longrightarrow> i < length xs \<and> p (xs ! i)"
  by (induction xs arbitrary: i) (auto split: if_splits)

lemma find_update_found:
  "findIndex (\<lambda>x. f x = f m) xs = Some i \<Longrightarrow>
   List.find (\<lambda>x. f x = k) (xs[i := m]) = (if k = f m then Some m else List.find (\<lambda>x. f x = k) xs)"
  by (induction xs arbitrary: i) (auto split: if_splits)

lemma findIndex_None: "findIndex p xs = None \<longleftrightarrow> List.find p xs = None"
  by (simp add: findIndex_find split: option.splits)

abbreviation upsert_message :: "conversation_message \<Rightarrow> conversation_message list \<Rightarrow> conversation_message list" where
  "upsert_message m ms \<equiv> mergeConversationMessages (Some ms) (Some m)"

lemma lookup_upsert_message:
  "truthy (cm_id m) \<Longrightarrow> List.find (\<lambda>x. cm_id x = k) (upsert_message m ms) =
    (if k = cm_id m then Some m else List.find (\<lambda>x. cm_id x = k) ms)"
  by (auto simp: mergeConversationMessages_def find_update_found findIndex_None find_append split: option.splits)

interpretation message_list: replacing_store
  "\<lambda>ms k. List.find (\<lambda>x. cm_id x = k) ms" upsert_message cm_id "\<lambda>_ m. m" "\<lambda>m. truthy (cm_id m)" "\<lambda>_. True"
  by unfold_locales (simp_all add: lookup_upsert_message, simp add: mergeConversationMessages_def)

section \<open>Lemmas: the invariant of every reachable state\<close>

named_theorems console_defs \<open>the state updates of the hook\<close>

lemmas [console_defs] = spawn_def upsertConversationSummary_def rememberConversation_def closeStream_def
  ensureStream_def selectConversation_def forgetConversations_def loadConversationDetail_def
  loadConversations_def refreshConversations_def refreshAll_def boot_failed_def boot_done_def
  clear_console_def after_verify_def after_bundle_def set_conversations_def
  login_def logout_def deleteConversation_def batchDeleteConversations_def refreshAccounts_def
  refreshConfigBundle_def apply_delta_def select_if_none_def handleEvent_def finish_task_def Let_def

text \<open>The cache holds every conversation under its own, non-empty id.\<close>

definition details_ok :: "details \<Rightarrow> bool" where
  "details_ok m \<longleftrightarrow> (\<forall>i d. m i = Some d \<longrightarrow> cv_id d = i \<and> i \<noteq> [])"

lemma details_ok_empty [simp]: "details_ok (\<lambda>_. None)"
  by (simp add: details_ok_def)

lemma details_ok_remember [simp]: "details_ok m \<Longrightarrow> details_ok (remember_detail d m)"
  by (simp add: details_ok_def remember_detail_def)

lemma details_ok_forget_one: "details_ok m \<Longrightarrow> details_ok (forget_detail i m)"
  by (simp add: details_ok_def forget_detail_def)

lemma details_ok_forget [simp]: "details_ok m \<Longrightarrow> details_ok (fold forget_detail ids m)"
  by (induction ids arbitrary: m) (simp_all add: details_ok_forget_one)

text \<open>The stream is open or closed, and its label says so.\<close>

definition stream_ok :: "bool \<Rightarrow> jsstr \<Rightarrow> bool" where
  "stream_ok opened label \<longleftrightarrow>
     (if opened then label \<in> {txt_stream_connecting, txt_stream_on, txt_stream_retry} else label = txt_stream_off)"

text \<open>What holds between commits, in the middle of a step.\<close>

definition tasks_ok :: "(nat \<times> task) list \<Rightarrow> nat \<Rightarrow> bool" where
  "tasks_ok ts k \<longleftrightarrow> (\<forall>(n, t) \<in> set ts. n < k) \<and> distinct (List.map fst ts)"

definition boot_ok :: "bool \<Rightarrow> (nat \<times> task) list \<Rightarrow> bool" where
  "boot_ok loading ts \<longleftrightarrow> (loading \<longrightarrow> (\<exists>(n, t) \<in> set ts. boot_task t))"

definition base_ok :: "console \<Rightarrow> bool" where
  "base_ok s \<longleftrightarrow> details_ok (uc_details s) \<and> stream_ok (uc_source s) (uc_stream_state s) \<and> (uc_source s \<longrightarrow> uc_auth_dep s) \<and>
     tasks_ok (uc_tasks s) (uc_next s)"

definition pre_commit :: "console \<Rightarrow> bool" where
  "pre_commit s \<longleftrightarrow> base_ok s \<and> boot_ok (uc_boot_loading s) (uc_tasks s)"

definition console_inv :: "console \<Rightarrow> bool" where
  "console_inv s \<longleftrightarrow> pre_commit s \<and> uc_auth_dep s = authenticated s \<and>
     uc_selected_ref s = uc_selected s \<and> uc_details_ref s = uc_details s \<and>
     (uc_selected s = [] \<or> has_conversation (uc_selected s) (uc_conversations s))"

lemma has_first_conversation: "items \<noteq> [] \<Longrightarrow> has_conversation (first_conversation items) items"
  by (cases items) (simp_all add: has_conversation_def first_conversation_def)

lemma first_conversation_Nil [simp]: "first_conversation [] = []"
  by (simp add: first_conversation_def)

lemma commit_fields [simp]:
  "uc_details (commit s) = uc_details s" "uc_conversations (commit s) = uc_conversations s"
  "uc_tasks (commit s) = uc_tasks s" "uc_next (commit s) = uc_next s"
  "uc_boot_loading (commit s) = uc_boot_loading s" "uc_boot_error (commit s) = uc_boot_error s"
  "uc_verify (commit s) = uc_verify s" "uc_accounts (commit s) = uc_accounts s"
  "uc_config (commit s) = uc_config s" "uc_version (commit s) = uc_version s"
  "uc_health (commit s) = uc_health s"
  by (simp_all add: commit_def sync_refs_def selection_effect_def stream_effect_def console_defs)

lemma commit_selected:
  "uc_selected (commit s) =
     (if uc_selected s \<noteq> [] \<and> \<not> has_conversation (uc_selected s) (uc_conversations s)
      then first_conversation (uc_conversations s) else uc_selected s)"
  by (simp add: commit_def sync_refs_def selection_effect_def stream_effect_def console_defs)

lemma commit_stream:
  "uc_source (commit s) = uc_source (stream_effect s)"
  "uc_stream_state (commit s) = uc_stream_state (stream_effect s)"
  "uc_auth_dep (commit s) = uc_auth_dep (stream_effect s)"
  by (simp_all add: commit_def sync_refs_def selection_effect_def)

lemma authenticated_auth_dep [simp]: "authenticated (s\<lparr>uc_auth_dep := b\<rparr>) = authenticated s"
  by (simp add: authenticated_def)

lemma stream_ok_commit:
  "stream_ok (uc_source s) (uc_stream_state s) \<Longrightarrow>
   stream_ok (uc_source (commit s)) (uc_stream_state (commit s))"
  by (auto simp: stream_ok_def commit_stream stream_effect_def ensureStream_def closeStream_def split: if_splits)

lemma auth_dep_commit: "uc_auth_dep (commit s) = authenticated s"
  by (simp add: commit_stream stream_effect_def ensureStream_def closeStream_def)

lemma source_commit: "(uc_source s \<longrightarrow> uc_auth_dep s) \<Longrightarrow> uc_source (commit s) \<longrightarrow> uc_auth_dep (commit s)"
  by (auto simp: commit_stream stream_effect_def ensureStream_def closeStream_def authenticated_def)

lemma commit_inv: "pre_commit s \<Longrightarrow> console_inv (commit s)"
proof -
  assume pre: "pre_commit s"
  have "pre_commit (commit s)"
    using pre by (simp add: pre_commit_def base_ok_def stream_ok_commit source_commit)
  moreover have "uc_auth_dep (commit s) = authenticated (commit s)"
    by (simp add: auth_dep_commit) (simp add: authenticated_def)
  moreover have "uc_selected (commit s) = [] \<or> has_conversation (uc_selected (commit s)) (uc_conversations (commit s))"
    using has_first_conversation [of "uc_conversations s"]
    by (cases "uc_conversations s = []") (auto simp: commit_selected)
  moreover have "uc_selected_ref (commit s) = uc_selected (commit s)" "uc_details_ref (commit s) = uc_details (commit s)"
    by (simp_all add: commit_def sync_refs_def)
  ultimately show ?thesis by (simp add: console_inv_def)
qed

lemma base_ok_frame [simp]:
  "base_ok (s\<lparr>uc_verify := a1\<rparr>) = base_ok s" "base_ok (s\<lparr>uc_config := a2\<rparr>) = base_ok s"
  "base_ok (s\<lparr>uc_version := a3\<rparr>) = base_ok s" "base_ok (s\<lparr>uc_health := a4\<rparr>) = base_ok s"
  "base_ok (s\<lparr>uc_accounts := a5\<rparr>) = base_ok s" "base_ok (s\<lparr>uc_conversations := a6\<rparr>) = base_ok s"
  "base_ok (s\<lparr>uc_selected := a7\<rparr>) = base_ok s" "base_ok (s\<lparr>uc_boot_loading := a8\<rparr>) = base_ok s"
  "base_ok (s\<lparr>uc_boot_error := a9\<rparr>) = base_ok s" "base_ok (s\<lparr>uc_details_ref := a10\<rparr>) = base_ok s"
  by (simp_all add: base_ok_def)

lemma base_ok_details [simp]: "base_ok s \<Longrightarrow> details_ok m \<Longrightarrow> base_ok (s\<lparr>uc_details := m\<rparr>)"
  by (simp add: base_ok_def)

lemma base_ok_get_details: "base_ok s \<Longrightarrow> details_ok (uc_details s)"
  by (simp add: base_ok_def)

lemma tasks_ok_spawn: "tasks_ok ts k \<Longrightarrow> tasks_ok (ts @ [(k, t)]) (Suc k)"
  by (auto simp: tasks_ok_def)

lemma base_ok_spawn [simp]: "base_ok s \<Longrightarrow> base_ok (spawn t s)"
  by (simp add: base_ok_def spawn_def tasks_ok_spawn)

lemma base_ok_close [simp]: "base_ok s \<Longrightarrow> base_ok (closeStream s)"
  by (simp add: base_ok_def closeStream_def stream_ok_def)

lemma base_ok_finish [simp]: "base_ok s \<Longrightarrow> base_ok (finish_task n s)"
  by (auto simp: base_ok_def finish_task_def tasks_ok_def distinct_map_filter)

lemma base_ok_remember [simp]: "base_ok s \<Longrightarrow> base_ok (rememberConversation d s)"
  by (simp add: rememberConversation_def Let_def base_ok_get_details)

lemma base_ok_detail [simp]: "base_ok s \<Longrightarrow> base_ok (loadConversationDetail i f a s)"
  by (simp add: loadConversationDetail_def selectConversation_def Let_def)

lemma base_ok_set [simp]: "base_ok (set_conversations p s) = base_ok s"
  by (simp add: set_conversations_def Let_def)

lemma boot_ok_idle [simp]: "boot_ok False ts"
  by (simp add: boot_ok_def)

lemma boot_ok_append: "boot_ok b ts \<Longrightarrow> boot_ok b (ts @ us)"
  by (auto simp: boot_ok_def)

lemma boot_ok_boot_task: "boot_task t \<Longrightarrow> boot_ok b (ts @ [(k, t)])"
  by (auto simp: boot_ok_def)

lemma spawn_fields [simp]:
  "uc_tasks (spawn t s) = uc_tasks s @ [(uc_next s, t)]" "uc_boot_loading (spawn t s) = uc_boot_loading s"
  by (simp_all add: spawn_def)

lemma remember_fields [simp]:
  "uc_tasks (rememberConversation d s) = uc_tasks s"
  "uc_boot_loading (rememberConversation d s) = uc_boot_loading s"
  by (simp_all add: rememberConversation_def Let_def)

lemma set_conversations_fields [simp]:
  "uc_tasks (set_conversations p s) = uc_tasks s"
  "uc_boot_loading (set_conversations p s) = uc_boot_loading s"
  by (simp_all add: set_conversations_def Let_def)

lemma closeStream_fields [simp]:
  "uc_tasks (closeStream s) = uc_tasks s" "uc_boot_loading (closeStream s) = uc_boot_loading s"
  by (simp_all add: closeStream_def)

lemmas boot_intros = boot_ok_append boot_ok_boot_task

lemma boot_ok_detail:
  "boot_ok (uc_boot_loading s) (uc_tasks s) \<Longrightarrow>
   boot_ok (uc_boot_loading (loadConversationDetail i f a s)) (uc_tasks (loadConversationDetail i f a s))"
  by (simp add: loadConversationDetail_def selectConversation_def Let_def boot_ok_append)

lemma boot_ok_detail_boot:
  "i \<noteq> [] \<Longrightarrow>
   boot_ok (uc_boot_loading (loadConversationDetail i True Detail_boot s))
     (uc_tasks (loadConversationDetail i True Detail_boot s))"
  by (simp add: loadConversationDetail_def selectConversation_def Let_def boot_ok_boot_task)

lemma pre_commit_command: "pre_commit s \<Longrightarrow> pre_commit (run_command c s)"
  by (cases c) (simp_all add: pre_commit_def boot_ok_detail boot_intros refreshAll_def
      refreshConversations_def loadConversations_def login_def logout_def deleteConversation_def
      batchDeleteConversations_def refreshAccounts_def refreshConfigBundle_def selectConversation_def)

text \<open>
  A reply takes its task out of the list. Unless that was a task of \<open>refreshAll\<close>, loading is
  still accounted for; if it was one, the continuation ends the loading or waits again.
\<close>

lemma boot_ok_finish:
  assumes "pre_commit s" and "(n, t) \<in> set (uc_tasks s)" and "\<not> boot_task t"
  shows "boot_ok (uc_boot_loading s) (uc_tasks (finish_task n s))"
proof -
  have d: "distinct (List.map fst (uc_tasks s))"
    using assms(1) by (simp add: pre_commit_def base_ok_def tasks_ok_def)
  have "m \<noteq> n" if "(m, u) \<in> set (uc_tasks s)" "boot_task u" for m u
    using d that assms(2,3) eq_key_imp_eq_value by metis
  then show ?thesis
    using assms(1) by (fastforce simp: pre_commit_def boot_ok_def finish_task_def)
qed

lemma finish_fields [simp]:
  "uc_boot_loading (finish_task n s) = uc_boot_loading s" "uc_details (finish_task n s) = uc_details s"
  by (simp_all add: finish_task_def)

abbreviation boots :: "console \<Rightarrow> bool" where
  "boots s \<equiv> boot_ok (uc_boot_loading s) (uc_tasks s)"

lemma pre_commit_intro: "base_ok s \<Longrightarrow> boots s \<Longrightarrow> pre_commit s"
  by (simp add: pre_commit_def)

lemma resume_failed:
  "base_ok s \<Longrightarrow> (\<not> boot_task t \<Longrightarrow> boots s) \<Longrightarrow> pre_commit (resume t (R_failed e) s)"
  by (simp add: pre_commit_def boot_failed_def)

lemma after_verify_pre: "base_ok s \<Longrightarrow> pre_commit (after_verify v s)"
  by (simp add: after_verify_def Let_def pre_commit_def boot_done_def clear_console_def boot_ok_boot_task)

lemma after_bundle_pre: "base_ok s \<Longrightarrow> pre_commit (after_bundle c v h a s)"
  by (simp add: after_bundle_def pre_commit_def loadConversations_def boot_ok_boot_task)

lemma after_list_pre:
  "base_ok s \<Longrightarrow> (a \<noteq> List_boot \<Longrightarrow> boots s) \<Longrightarrow> pre_commit (after_list a p s)"
  by (cases a) (simp_all add: Let_def pre_commit_def boot_done_def boot_ok_detail boot_ok_detail_boot)

lemma after_detail_pre:
  "base_ok s \<Longrightarrow> (a \<noteq> Detail_boot \<Longrightarrow> boots s) \<Longrightarrow> pre_commit (after_detail a p s)"
  by (cases a) (simp_all add: pre_commit_def boot_done_def)

lemma refresh_pre: "pre_commit s \<Longrightarrow> pre_commit (refreshAll s)" "pre_commit s \<Longrightarrow> pre_commit (refreshConversations s)"
  using pre_commit_command [of s Refresh_all] pre_commit_command [of s Refresh_conversations] by simp_all

lemma forget_pre: "pre_commit s \<Longrightarrow> pre_commit (forgetConversations ids s)"
  by (simp add: forgetConversations_def pre_commit_def base_ok_get_details del: fold_simps)

lemma resume_pre:
  assumes "base_ok s" and "\<not> boot_task t \<Longrightarrow> boots s" and "answers t r"
  shows "pre_commit (resume t r s)"
proof (cases r)
  case (R_list p)
  then obtain a where "t = T_list a" using assms(3) by (auto simp: answers_def split: task.splits)
  then show ?thesis using assms R_list after_list_pre [of s a p] by (cases a) simp_all
next
  case (R_detail p)
  then obtain i a where "t = T_detail i a" using assms(3) by (auto simp: answers_def split: task.splits)
  then show ?thesis using assms R_detail after_detail_pre [of s a p] by (cases a) simp_all
next
  case (R_json j)
  then have pre: "pre_commit s"
    using assms by (intro pre_commit_intro) (auto simp: answers_def split: task.splits)
  show ?thesis
    using assms(3) R_json refresh_pre [OF pre] refresh_pre(2) [OF forget_pre [OF pre]]
    by (auto simp: answers_def split: task.splits)
next
  case (R_verify v)
  then show ?thesis using assms after_verify_pre [of s v] by (simp add: answers_def)
next
  case (R_bundle c v h a)
  then show ?thesis using assms after_bundle_pre [of s c v h a] by (simp add: answers_def)
next
  case (R_failed e)
  then show ?thesis using assms resume_failed by blast
qed (use assms in \<open>simp_all add: answers_def pre_commit_def\<close>)

lemma handleEvent_fields [simp]:
  "uc_tasks (handleEvent p s) = uc_tasks s" "uc_boot_loading (handleEvent p s) = uc_boot_loading s"
  by (simp_all add: handleEvent_def Let_def apply_delta_def select_if_none_def upsertConversationSummary_def
      split: option.splits)

lemma base_ok_delta: "base_ok s \<Longrightarrow> base_ok (apply_delta i p s)"
proof -
  assume b: "base_ok s"
  then have "details_ok ((uc_details s)(i \<mapsto> d))" if "uc_details s i = Some e" "cv_id d = cv_id e" for d e
    using that base_ok_get_details [OF b] by (auto simp: details_ok_def)
  then show ?thesis using b by (auto simp: apply_delta_def split: option.splits)
qed

lemma base_ok_event: "base_ok s \<Longrightarrow> base_ok (handleEvent p s)"
  by (simp add: handleEvent_def Let_def select_if_none_def upsertConversationSummary_def base_ok_delta
      split: option.splits)

lemma stream_step_pre:
  assumes "pre_commit s" and "uc_source s"
  shows "pre_commit (stream_step e s)"
  using assms
proof (cases "(e, s)" rule: stream_step.cases)
  case (6 p s')
  then show ?thesis using assms by (simp add: pre_commit_def base_ok_event)
qed (auto simp: pre_commit_def base_ok_def stream_ok_def)

lemma console_inv_step: "console_step s t \<Longrightarrow> console_inv s \<Longrightarrow> console_inv t"
proof (induction rule: console_step.induct)
  case (command s c)
  then show ?case by (intro commit_inv pre_commit_command) (simp add: console_inv_def)
next
  case (reply n t s r)
  then have pre: "pre_commit s" by (simp add: console_inv_def)
  then have "base_ok (finish_task n s)" by (simp add: pre_commit_def)
  moreover have "\<not> boot_task t \<Longrightarrow> boots (finish_task n s)"
    using boot_ok_finish [OF pre reply(1)] by simp
  ultimately show ?case using reply(2) by (intro commit_inv resume_pre)
next
  case (stream s e)
  then show ?case by (intro commit_inv stream_step_pre) (simp_all add: console_inv_def)
qed

lemma console_inv_mount: "console_inv mounted_console"
  unfolding mounted_console_def
  by (rule commit_inv) (simp add: pre_commit_def base_ok_def refreshAll_def spawn_def initial_console_def
      stream_ok_def tasks_ok_def boot_ok_def)

lemma console_inv_reachable: "console_reachable s \<Longrightarrow> console_inv s"
  by (induction rule: console_reachable.induct) (auto intro: console_inv_mount console_inv_step)

section \<open>Properties\<close>

text \<open>
  C27. In every state the console can reach, whatever commands, replies and stream events came
  in whatever order: the event stream is open only while the operator is authenticated, and its
  label says whether it is open; the loading indicator is on only while a request of
  \<open>refreshAll\<close> is outstanding, so it cannot stay on for ever with nothing to wait for; the
  selected conversation is in the list or nothing is selected; and the cache holds every
  conversation under its own id.
\<close>

theorem console_reachable_ok:
  assumes "console_reachable s"
  shows "(uc_source s \<longrightarrow> authenticated s) \<and>
    (\<not> uc_source s \<longrightarrow> uc_stream_state s = txt_stream_off) \<and>
    (uc_boot_loading s \<longrightarrow> (\<exists>(n, t) \<in> set (uc_tasks s). boot_task t)) \<and>
    (uc_selected s = [] \<or> has_conversation (uc_selected s) (uc_conversations s)) \<and>
    (\<forall>i d. uc_details s i = Some d \<longrightarrow> cv_id d = i)"
  using console_inv_reachable [OF assms]
  by (auto simp: console_inv_def pre_commit_def base_ok_def boot_ok_def details_ok_def stream_ok_def)

text \<open>A console whose verification has just been answered: authenticated, stream connecting.\<close>

definition demo_verify :: admin_verify_payload where
  "demo_verify = \<lparr>av_authenticated = Some True, av_password_required = Some True,
     av_password_configured = Some True, av_admin_enabled = Some True\<rparr>"

definition demo_console :: console where
  "demo_console = commit (resume T_verify (R_verify demo_verify) (finish_task 0 mounted_console))"

lemma demo_console_reachable: "console_reachable demo_console"
proof -
  have "(0, T_verify) \<in> set (uc_tasks mounted_console)"
    by (simp add: mounted_console_def refreshAll_def initial_console_def spawn_def)
  then show ?thesis
    unfolding demo_console_def
    by (intro console_reachable.step [OF console_reachable.mount] console_step.reply) (simp_all add: answers_def)
qed

theorem console_reachable_ok_witness:
  "console_reachable demo_console \<and> uc_source demo_console \<and> authenticated demo_console"
proof -
  have "uc_source demo_console"
    by (simp add: demo_console_def commit_stream stream_effect_def ensureStream_def authenticated_def
        after_verify_def Let_def signed_out_def demo_verify_def mounted_console_def commit_def sync_refs_def
        selection_effect_def refreshAll_def spawn_def initial_console_def finish_task_def)
  then show ?thesis
    using console_reachable_ok [OF demo_console_reachable] demo_console_reachable by blast
qed

text \<open>
  \<open>sortConversations\<close> neither loses nor invents a conversation; when every time stamp parses,
  the newest conversation comes first and conversations of the same time keep their order.
\<close>

theorem sortConversations_ok:
  assumes "\<forall>c \<in> set items. conversation_time c \<noteq> None"
  shows "mset (sortConversations items) = mset items \<and>
    sorted_wrt (\<lambda>a b. the (conversation_time b) \<le> the (conversation_time a)) (sortConversations items) \<and>
    filter (\<lambda>c. conversation_time c = k) (sortConversations items) = filter (\<lambda>c. conversation_time c = k) items"
  using sorted_js_sort [OF assms] js_sort_stable [OF assms, of k]
  by (simp add: sortConversations_def desc_by_def [abs_def])

definition demo_conversation :: "string \<Rightarrow> string \<Rightarrow> conversation_summary" where
  "demo_conversation i stamp = no_conversation_summary\<lparr>cv_id := js i, cv_updated_at := Some (js stamp)\<rparr>"

theorem sortConversations_ok_witness:
  "sorted_wrt (\<lambda>a b. the (conversation_time b) \<le> the (conversation_time a))
     (sortConversations [demo_conversation ''a'' ''2026-10-08T10:00:00Z'', demo_conversation ''b'' ''2026-10-08T12:00:00+01:00'']) \<and>
   List.map cv_id (sortConversations [demo_conversation ''a'' ''2026-10-08T10:00:00Z'',
     demo_conversation ''b'' ''2026-10-08T12:00:00+01:00'']) = [js ''b'', js ''a'']"
proof -
  have a: "conversation_time (demo_conversation ''a'' ''2026-10-08T10:00:00Z'') = Some 1791453600000"
    and b: "conversation_time (demo_conversation ''b'' ''2026-10-08T12:00:00+01:00'') = Some 1791457200000"
    by code_simp+
  then show ?thesis
    using sortConversations_ok [of "[demo_conversation ''a'' ''2026-10-08T10:00:00Z'',
        demo_conversation ''b'' ''2026-10-08T12:00:00+01:00'']"]
    by (simp add: sortConversations_def by_desc_def cmp_after_def demo_conversation_def)
qed

text \<open>
  C28. After any sequence of summary events the list shows, for each conversation, the entry it
  had before with exactly the events about that conversation merged into it, in their order;
  events about other conversations leave it alone.
\<close>

theorem summary_events_merge:
  assumes "distinct (List.map cv_id items)"
  shows "List.find (\<lambda>item. cv_id item = k) (fold upsert_summary events items) =
    fold (\<lambda>u v. Some (mergeConversationSummaryState v u)) (filter (\<lambda>u. cv_id u \<noteq> [] \<and> cv_id u = k) events)
      (List.find (\<lambda>item. cv_id item = k) items)"
  using conv_list.lookup_upsert_all [OF assms, where us = events and k = k] by (simp add: conv_list.upsert_all_def)

theorem summary_events_merge_witness:
  "map_option cv_id (List.find (\<lambda>item. cv_id item = js ''a'')
     (fold upsert_summary [demo_conversation ''b'' [], demo_conversation ''a'' []] [demo_conversation ''b'' []])) =
   Some (js ''a'')"
proof -
  have "distinct (List.map cv_id [demo_conversation ''b'' []])" by simp
  from summary_events_merge [OF this, where k = "js ''a''" and events = "[demo_conversation ''b'' [], demo_conversation ''a'' []]"]
  show ?thesis by (simp add: demo_conversation_def)
qed

text \<open>
  The title of a merged conversation is kept through one local summary of the same thread,
  and only through one: that summary also turns the origin of the entry into \<open>local\<close>, so the
  next local summary replaces the title. The backend sends \<open>origin: 'local'\<close> with every stream
  event, so the protection \<open>preserveMergedTitle\<close> is meant to give lasts for a single event.
\<close>

theorem merged_title_kept_once:
  assumes "cv_origin cur = Some (js ''merged'')" and "truthy (cv_thread_id cur)" and "truthy (cv_title cur)"
    and "cv_thread_id n1 = cv_thread_id cur" and "cv_origin n1 = Some (js ''local'')"
    and "cv_origin n2 = Some (js ''local'')" and "truthy (cv_title n2)"
  defines "first \<equiv> mergeConversationSummaryState (Some cur) n1"
  shows "cv_title first = cv_title cur \<and> cv_title (mergeConversationSummaryState (Some first) n2) = cv_title n2"
  using assms by (simp add: mergeConversationSummaryState_def preserveMergedTitle_def or_opt_def)

theorem merged_title_kept_once_witness:
  "let cur = no_conversation_summary\<lparr>cv_id := js ''c'', cv_origin := Some (js ''merged''),
         cv_thread_id := Some (js ''t''), cv_title := Some (js ''Remote title'')\<rparr>;
       n = no_conversation_summary\<lparr>cv_id := js ''c'', cv_origin := Some (js ''local''),
         cv_thread_id := Some (js ''t''), cv_title := Some (js ''Local title'')\<rparr>;
       first = mergeConversationSummaryState (Some cur) n
   in cv_title first = Some (js ''Remote title'') \<and>
      cv_title (mergeConversationSummaryState (Some first) n) = Some (js ''Local title'')"
  using merged_title_kept_once [of "no_conversation_summary\<lparr>cv_id := js ''c'', cv_origin := Some (js ''merged''),
         cv_thread_id := Some (js ''t''), cv_title := Some (js ''Remote title'')\<rparr>"
      "no_conversation_summary\<lparr>cv_id := js ''c'', cv_origin := Some (js ''local''),
         cv_thread_id := Some (js ''t''), cv_title := Some (js ''Local title'')\<rparr>"
      "no_conversation_summary\<lparr>cv_id := js ''c'', cv_origin := Some (js ''local''),
         cv_thread_id := Some (js ''t''), cv_title := Some (js ''Local title'')\<rparr>"]
  by (simp add: Let_def)

text \<open>
  A \<open>conversation.delta\<close> event for a cached conversation writes its message into that
  conversation's transcript: the message of the same id is replaced where it stands, or a new one
  is appended; every other message, its place and every other conversation stay as they were.
  For a conversation that is not cached the event changes no transcript.
\<close>

theorem delta_event_effect:
  fixes stamp :: "jsstr option"
  assumes "truthy (cm_id m)" and "i \<noteq> []"
  defines "p \<equiv> \<lparr>sp_type = Some (js ''conversation.delta''), sp_summary = None, sp_conversation = None,
    sp_conversation_id = Some i, sp_message = Some m, sp_at = stamp\<rparr>"
  shows "(\<forall>j. j \<noteq> i \<longrightarrow> uc_details (handleEvent p s) j = uc_details s j) \<and>
    (case uc_details s i of
       None \<Rightarrow> uc_details (handleEvent p s) i = None
     | Some d \<Rightarrow> \<exists>ms. map_option cd_messages (uc_details (handleEvent p s) i) = Some (Some ms) \<and>
         (\<forall>k. List.find (\<lambda>x. cm_id x = k) ms =
           (if k = cm_id m then Some m else List.find (\<lambda>x. cm_id x = k) (opt_list (cd_messages d)))) \<and>
         length ms = length (opt_list (cd_messages d)) +
           (if cm_id m \<in> cm_id ` set (opt_list (cd_messages d)) then 0 else 1))"
proof -
  have norm: "mergeConversationMessages o1 (Some m) = upsert_message m (opt_list o1)" for o1
    by (cases o1) (simp_all add: mergeConversationMessages_def)
  have len: "length (mergeConversationMessages o1 (Some m)) =
      length (opt_list o1) + (if cm_id m \<in> cm_id ` set (opt_list o1) then 0 else 1)" for o1
  proof -
    have "findIndex (\<lambda>x. cm_id x = cm_id m) (opt_list o1) = None \<longleftrightarrow> cm_id m \<notin> cm_id ` set (opt_list o1)"
      by (simp add: findIndex_None find_None_iff_notin)
    then show ?thesis using assms(1) by (auto simp: mergeConversationMessages_def split: option.splits)
  qed
  have look: "List.find (\<lambda>x. cm_id x = k) (mergeConversationMessages o1 (Some m)) =
      (if k = cm_id m then Some m else List.find (\<lambda>x. cm_id x = k) (opt_list o1))" for o1 k
    by (subst norm) (rule message_list.lookup_upsert [OF TrueI assms(1)])
  show ?thesis
    using assms(2) by (simp add: p_def handleEvent_def Let_def apply_delta_def len look split: option.splits)
qed

theorem delta_event_effect_witness:
  "uc_details (handleEvent \<lparr>sp_type = Some (js ''conversation.delta''), sp_summary = None, sp_conversation = None,
     sp_conversation_id = Some (js ''a''), sp_message = Some (no_conversation_message\<lparr>cm_id := Some (js ''m'')\<rparr>),
     sp_at = None\<rparr> (initial_console\<lparr>uc_details := [js ''b'' \<mapsto> no_conversation_detail]\<rparr>)) (js ''b'') = Some no_conversation_detail"
proof -
  have "truthy (cm_id (no_conversation_message\<lparr>cm_id := Some (js ''m'')\<rparr>))" and "js ''a'' \<noteq> []" by simp_all
  from delta_event_effect [OF this, where stamp = None
      and s = "initial_console\<lparr>uc_details := [js ''b'' \<mapsto> no_conversation_detail]\<rparr>"]
  show ?thesis by simp
qed

text \<open>
  When the verification says that the operator is signed out, or that no password is
  configured, the console drops everything it had loaded, closes the stream and stops loading; no
  further request is sent.
\<close>

theorem signed_out_clears:
  fixes s :: console
  assumes "signed_out v"
  defines "t \<equiv> commit (resume T_verify (R_verify v) s)"
  shows "uc_config t = None \<and> uc_version t = None \<and> uc_health t = None \<and> uc_accounts t = None \<and>
    uc_conversations t = [] \<and> uc_details t = (\<lambda>_. None) \<and> uc_details_ref t = (\<lambda>_. None) \<and>
    uc_selected t = [] \<and> uc_selected_ref t = [] \<and> \<not> uc_boot_loading t \<and> uc_tasks t = uc_tasks s"
  using assms by (simp add: after_verify_def Let_def clear_console_def boot_done_def closeStream_def
      commit_def sync_refs_def selection_effect_def stream_effect_def ensureStream_def)

theorem signed_out_clears_witness:
  "uc_conversations (commit (resume T_verify (R_verify \<lparr>av_authenticated = Some False, av_password_required = Some True,
      av_password_configured = Some True, av_admin_enabled = Some True\<rparr>)
      (initial_console\<lparr>uc_conversations := [demo_conversation ''a'' []]\<rparr>))) = []"
  using signed_out_clears [of "\<lparr>av_authenticated = Some False, av_password_required = Some True,
      av_password_configured = Some True, av_admin_enabled = Some True\<rparr>"]
  by (simp add: signed_out_def)

text \<open>
  A refresh reads again the conversation that is shown: when the list arrives, the request
  that \<open>refreshConversations\<close> sends next is for the conversation that is selected from then on,
  although it is chosen from a ref of the last commit and the selection from the current state.
\<close>

theorem refresh_reads_selected:
  fixes p :: conversations_payload
  assumes "console_reachable s" and "(n, T_list List_refresh) \<in> set (uc_tasks s)"
  defines "t \<equiv> commit (resume (T_list List_refresh) (R_list p) (finish_task n s))"
  shows "uc_selected t = [] \<or> (uc_next s, T_detail (uc_selected t) Detail_refresh) \<in> set (uc_tasks t)"
proof -
  let ?s = "finish_task n s"
  have ref: "uc_selected_ref ?s = uc_selected ?s"
    using console_inv_reachable [OF assms(1)] by (simp add: console_inv_def finish_task_def)
  have tgt: "refresh_target (set_conversations p ?s) = uc_selected (set_conversations p ?s)"
    using ref by (simp add: refresh_target_def set_conversations_def Let_def)
  have "uc_selected (set_conversations p ?s) = [] \<or>
      has_conversation (uc_selected (set_conversations p ?s)) (uc_conversations (set_conversations p ?s))"
    by (auto simp: set_conversations_def Let_def intro!: has_first_conversation)
  then show ?thesis
    using tgt by (auto simp: t_def Let_def loadConversationDetail_def selectConversation_def spawn_def
        commit_selected set_conversations_def finish_task_def)
qed

theorem refresh_reads_selected_witness:
  "\<exists>s n. console_reachable s \<and> (n, T_list List_refresh) \<in> set (uc_tasks s) \<and>
     (uc_next s, T_detail (js ''a'') Detail_refresh) \<in> set (uc_tasks (commit (resume (T_list List_refresh)
        (R_list \<lparr>csp_items = Some [demo_conversation ''a'' []]\<rparr>) (finish_task n s))))"
proof -
  let ?s = "commit (run_command Refresh_conversations demo_console)"
  have r: "console_reachable ?s"
    by (intro console_reachable.step [OF demo_console_reachable] console_step.command)
  have t: "(2, T_list List_refresh) \<in> set (uc_tasks ?s)" and sel: "uc_selected ?s = []"
    by (simp_all add: demo_console_def refreshConversations_def loadConversations_def commit_selected
        after_verify_def Let_def signed_out_def demo_verify_def mounted_console_def refreshAll_def spawn_def
        initial_console_def finish_task_def commit_def sync_refs_def selection_effect_def stream_effect_def
        ensureStream_def authenticated_def)
  have "uc_selected (commit (resume (T_list List_refresh)
        (R_list \<lparr>csp_items = Some [demo_conversation ''a'' []]\<rparr>) (finish_task 2 ?s))) = js ''a''"
    using sel by (simp add: commit_selected set_conversations_def refresh_target_def Let_def finish_task_def
        has_conversation_def sortConversations_def demo_conversation_def first_conversation_def
        loadConversationDetail_def selectConversation_def spawn_def)
  then show ?thesis using refresh_reads_selected [OF r t] r t by (metis js_eq_Nil(1) list.distinct(1))
qed

text \<open>
  Deleting several conversations forgets exactly their cached transcripts, and only once the
  server has confirmed; the list is then read again.
\<close>

theorem batch_delete_forgets:
  "uc_details (resume (T_batch_delete ids) (R_json r) s) i = (if i \<in> set ids then None else uc_details s i) \<and>
   (uc_next s, T_list List_refresh) \<in> set (uc_tasks (resume (T_batch_delete ids) (R_json r) s)) \<and>
   uc_details (resume (T_batch_delete ids) (R_failed e) s) = uc_details s \<and>
   uc_details (batchDeleteConversations ids s) = uc_details s"
  using detail_cache_del.lookup_delete_all [OF TrueI, of ids "uc_details s" i]
  by (simp add: forgetConversations_def refreshConversations_def loadConversations_def spawn_def
      batchDeleteConversations_def)

end
