(* ===== verification/Uri_Codec.thy ===== *)
theory Uri_Codec imports Json_Codec begin

text \<open>
  \<open>encodeURIComponent\<close> and the serializer of \<open>URLSearchParams\<close>, with which the service builds
  its addresses: UTF-16 code units to code points, code points to UTF-8, bytes to \<open>%XX\<close>. A lone
  surrogate makes \<open>encodeURIComponent\<close> throw (\<open>None\<close>) and is replaced by U+FFFD in a query. The
  decoder is what a server does with a path segment; \<open>decode_encodeURIComponent\<close> shows that it
  gets the identifier back, and \<open>segment_units\<close> that the segment cannot change the path.
\<close>

section \<open>Code points\<close>

definition pair_point :: "unit16 \<Rightarrow> unit16 \<Rightarrow> nat" where
  "pair_point c d = 0x10000 + (unat c - 0xD800) * 0x400 + (unat d - 0xDC00)"

fun code_points :: "jsstr \<Rightarrow> nat list option" where
  "code_points [] = Some []"
| "code_points (c # s) =
     (if high_surrogate c then
        (case s of [] \<Rightarrow> None
         | d # t \<Rightarrow> if low_surrogate d then map_option (Cons (pair_point c d)) (code_points t) else None)
      else if low_surrogate c then None
      else map_option (Cons (unat c)) (code_points s))"

text \<open>The same with U+FFFD for a lone surrogate: the conversion to \<open>USVString\<close>.\<close>

fun scalar_values :: "jsstr \<Rightarrow> nat list" where
  "scalar_values [] = []"
| "scalar_values [c] = [if high_surrogate c \<or> low_surrogate c then 0xFFFD else unat c]"
| "scalar_values (c # d # s) =
     (if high_surrogate c \<and> low_surrogate d then pair_point c d # scalar_values s
      else (if high_surrogate c \<or> low_surrogate c then 0xFFFD else unat c) # scalar_values (d # s))"

definition point_units :: "nat \<Rightarrow> jsstr" where
  "point_units n = (if n < 0x10000 then [of_nat n]
     else [of_nat (0xD800 + (n - 0x10000) div 0x400), of_nat (0xDC00 + (n - 0x10000) mod 0x400)])"

section \<open>UTF-8\<close>

definition utf8 :: "nat \<Rightarrow> nat list" where
  "utf8 n =
     (if n < 0x80 then [n]
      else if n < 0x800 then [0xC0 + n div 64, 0x80 + n mod 64]
      else if n < 0x10000 then [0xE0 + n div 4096, 0x80 + n div 64 mod 64, 0x80 + n mod 64]
      else [0xF0 + n div 262144, 0x80 + n div 4096 mod 64, 0x80 + n div 64 mod 64, 0x80 + n mod 64])"

fun utf8_decode :: "nat list \<Rightarrow> nat list" where
  "utf8_decode [] = []"
| "utf8_decode (b # bs) =
     (if b < 0x80 then b # utf8_decode bs
      else (case bs of [] \<Rightarrow> []
        | c # cs \<Rightarrow>
            if b < 0xE0 then ((b - 0xC0) * 64 + (c - 0x80)) # utf8_decode cs
            else (case cs of [] \<Rightarrow> []
              | d # ds \<Rightarrow>
                  if b < 0xF0 then ((b - 0xE0) * 4096 + (c - 0x80) * 64 + (d - 0x80)) # utf8_decode ds
                  else (case ds of [] \<Rightarrow> []
                    | e # es \<Rightarrow>
                        ((b - 0xF0) * 262144 + (c - 0x80) * 4096 + (d - 0x80) * 64 + (e - 0x80)) # utf8_decode es))))"

section \<open>Percent encoding\<close>

definition alphanumeric :: "nat \<Rightarrow> bool" where
  "alphanumeric b \<longleftrightarrow> 48 \<le> b \<and> b \<le> 57 \<or> 65 \<le> b \<and> b \<le> 90 \<or> 97 \<le> b \<and> b \<le> 122"

text \<open>Letters, digits and \<open>- _ . ! ~ * ' ( )\<close>.\<close>

definition unreserved :: "nat \<Rightarrow> bool" where
  "unreserved b \<longleftrightarrow> alphanumeric b \<or> b \<in> set [45, 95, 46, 33, 126, 42, 39, 40, 41]"

definition upper_hex :: "nat \<Rightarrow> unit16" where
  "upper_hex n = (if n < 10 then 48 + of_nat n else 55 + of_nat n)"

definition percent_byte :: "nat \<Rightarrow> jsstr" where
  "percent_byte b = [37, upper_hex (b div 16), upper_hex (b mod 16)]"

definition component_byte :: "nat \<Rightarrow> jsstr" where
  "component_byte b = (if unreserved b then [of_nat b] else percent_byte b)"

definition encodeURIComponent :: "jsstr \<Rightarrow> jsstr option" where
  "encodeURIComponent s = map_option (\<lambda>ps. concat (List.map component_byte (concat (List.map utf8 ps)))) (code_points s)"

text \<open>The serializer of \<open>application/x-www-form-urlencoded\<close>.\<close>

definition form_byte :: "nat \<Rightarrow> jsstr" where
  "form_byte b = (if b = 32 then [43] else if alphanumeric b \<or> b \<in> set [42, 45, 46, 95] then [of_nat b] else percent_byte b)"

definition form_text :: "jsstr \<Rightarrow> jsstr" where
  "form_text s = concat (List.map form_byte (concat (List.map utf8 (scalar_values s))))"

definition query_string :: "(jsstr \<times> jsstr) list \<Rightarrow> jsstr" where
  "query_string ps = join [38] (List.map (\<lambda>(k, v). form_text k @ [61] @ form_text v) ps)"

text \<open>What a server reads in a segment.\<close>

fun unpercent :: "jsstr \<Rightarrow> nat list" where
  "unpercent [] = []"
| "unpercent (c # s) =
     (if c = 37 then
        (case s of h # l # t \<Rightarrow>
           (case (hex_value h, hex_value l) of (Some i, Some j) \<Rightarrow> (i * 16 + j) # unpercent t | _ \<Rightarrow> [])
         | _ \<Rightarrow> [])
      else unat c # unpercent s)"

definition decode_segment :: "jsstr \<Rightarrow> jsstr" where
  "decode_segment s = concat (List.map point_units (utf8_decode (unpercent s)))"

section \<open>Round trip\<close>

lemma upper_hex_table: "list_all (\<lambda>n. hex_value (upper_hex n) = Some n \<and> upper_hex n \<in> set (js ''0123456789ABCDEF'')) [0..<16]"
  by code_simp

lemma upper_hex_facts: "n < 16 \<Longrightarrow> hex_value (upper_hex n) = Some n"
  "n < 16 \<Longrightarrow> upper_hex n \<in> set (js ''0123456789ABCDEF'')"
  using upper_hex_table by (auto simp: list_all_iff)

lemma utf8_byte: "n < 0x110000 \<Longrightarrow> b \<in> set (utf8 n) \<Longrightarrow> b < 256"
  by (auto simp: utf8_def split: if_splits)

lemma utf8_decode_utf8: "n < 0x110000 \<Longrightarrow> utf8_decode (utf8 n @ bs) = n # utf8_decode bs"
proof -
  assume n: "n < 0x110000"
  consider "n < 0x80" | "0x80 \<le> n" "n < 0x800" | "0x800 \<le> n" "n < 0x10000" | "0x10000 \<le> n" by linarith
  then show ?thesis
  proof cases
    case 1
    then show ?thesis by (simp add: utf8_def)
  next
    case 2
    then have "n div 64 < 32" by (intro less_mult_imp_div_less) simp
    then obtain k where k: "n div 64 = k" "k < 32" by blast
    have "n = k * 64 + n mod 64" using div_mult_mod_eq [of n 64] k(1) by simp
    then show ?thesis using 2 k by (simp add: utf8_def)
  next
    case 3
    then have "n div 4096 < 16" by (intro less_mult_imp_div_less) simp
    then obtain k where k: "n div 4096 = k" "k < 16" by blast
    obtain l where l: "n div 64 mod 64 = l" by blast
    have "n div 64 = k * 64 + l"
      using div_mult_mod_eq [of "n div 64" 64] k(1) l by (simp add: div_mult2_eq [symmetric])
    then have "n = k * 4096 + l * 64 + n mod 64" using div_mult_mod_eq [of n 64] by simp
    then show ?thesis using 3 k l by (simp add: utf8_def)
  next
    case 4
    obtain k l m where k: "n div 262144 = k" "n div 4096 mod 64 = l" "n div 64 mod 64 = m" by blast
    have "n div 4096 = k * 64 + l"
      using div_mult_mod_eq [of "n div 4096" 64] k by (simp add: div_mult2_eq [symmetric])
    then have "n div 64 = k * 4096 + l * 64 + m"
      using div_mult_mod_eq [of "n div 64" 64] k by (simp add: div_mult2_eq [symmetric])
    then have "n = k * 262144 + l * 4096 + m * 64 + n mod 64" using div_mult_mod_eq [of n 64] by simp
    then show ?thesis using 4 k by (simp add: utf8_def)
  qed
qed

lemma utf8_decode_all:
  "\<forall>n \<in> set ps. n < 0x110000 \<Longrightarrow> utf8_decode (concat (List.map utf8 ps)) = ps"
  by (induction ps) (simp_all add: utf8_decode_utf8)

lemma surrogate_bounds:
  "high_surrogate c \<Longrightarrow> 0xD800 \<le> unat c \<and> unat c \<le> 0xDBFF"
  "low_surrogate c \<Longrightarrow> 0xDC00 \<le> unat c \<and> unat c \<le> 0xDFFF"
  by (simp_all add: high_surrogate_def low_surrogate_def word_le_nat_alt)

lemma pair_point_bounds:
  "high_surrogate c \<Longrightarrow> low_surrogate d \<Longrightarrow> 0x10000 \<le> pair_point c d \<and> pair_point c d < 0x110000"
  using surrogate_bounds(1) [of c] surrogate_bounds(2) [of d] by (auto simp: pair_point_def)

lemma point_units_pair:
  assumes "high_surrogate c" and "low_surrogate d"
  shows "point_units (pair_point c d) = [c, d]"
proof -
  let ?h = "unat c - 0xD800" and ?l = "unat d - 0xDC00"
  have b: "0xD800 \<le> unat c" "0xDC00 \<le> unat d" "?l < 0x400"
    using surrogate_bounds(1) [OF assms(1)] surrogate_bounds(2) [OF assms(2)] by auto
  have n: "pair_point c d - 0x10000 = ?h * 0x400 + ?l" by (simp add: pair_point_def)
  have "(?h * 0x400 + ?l) div 0x400 = ?h" using b(3) by (simp add: div_mult_self3)
  moreover have "(?h * 0x400 + ?l) mod 0x400 = ?l" using b(3) by simp
  ultimately show ?thesis
    using b(1,2) pair_point_bounds [OF assms] unfolding point_units_def n by simp
qed

lemma code_points_range: "code_points s = Some ps \<Longrightarrow> \<forall>n \<in> set ps. n < 0x110000"
proof (induction s arbitrary: ps rule: code_points.induct)
  case (2 c s)
  then show ?case
    using pair_point_bounds unat_unit16_bound [of c] by (fastforce split: if_splits list.splits)
qed simp

lemma code_points_units: "code_points s = Some ps \<Longrightarrow> concat (List.map point_units ps) = s"
proof (induction s arbitrary: ps rule: code_points.induct)
  case (2 c s)
  have "point_units (unat c) = [c]" using unat_unit16_bound [of c] by (simp add: point_units_def)
  then show ?case using 2 point_units_pair by (fastforce split: if_splits list.splits)
qed simp

lemma unat_numeral_37: "unat (37 :: unit16) = 37"
  by simp

lemma byte_digits: "b < 256 \<Longrightarrow> b div 16 < 16" for b :: nat
  by (intro less_mult_imp_div_less) simp

lemma unpercent_component:
  "b < 256 \<Longrightarrow> unpercent (component_byte b @ s) = b # unpercent s"
proof -
  assume b: "b < 256"
  show ?thesis
  proof (cases "unreserved b")
    case True
    then have "b \<noteq> 37" by (auto simp: unreserved_def alphanumeric_def)
    moreover have "unat (of_nat b :: unit16) = b" using b by (simp add: unat_of_nat)
    ultimately have "(of_nat b :: unit16) \<noteq> 37" by (metis unat_numeral_37)
    then show ?thesis using True \<open>unat (of_nat b :: unit16) = b\<close> by (simp add: component_byte_def)
  next
    case False
    have "b div 16 < 16" "b mod 16 < 16" using b byte_digits by simp_all
    then show ?thesis using False
      by (simp add: component_byte_def percent_byte_def upper_hex_facts)
  qed
qed

lemma unpercent_bytes: "\<forall>b \<in> set bs. b < 256 \<Longrightarrow> unpercent (concat (List.map component_byte bs)) = bs"
  by (induction bs) (simp_all add: unpercent_component)

lemma decode_encodeURIComponent: "encodeURIComponent s = Some e \<Longrightarrow> decode_segment e = s"
proof -
  assume "encodeURIComponent s = Some e"
  then obtain ps where ps: "code_points s = Some ps"
      and e: "e = concat (List.map component_byte (concat (List.map utf8 ps)))"
    by (auto simp: encodeURIComponent_def)
  have "\<forall>b \<in> set (concat (List.map utf8 ps)). b < 256"
    using code_points_range [OF ps] utf8_byte by auto
  then show ?thesis
    unfolding decode_segment_def e
    by (simp add: unpercent_bytes utf8_decode_all code_points_range [OF ps] code_points_units [OF ps])
qed

lemma encodeURIComponent_inject:
  "encodeURIComponent s = Some e \<Longrightarrow> encodeURIComponent t = Some e \<Longrightarrow> s = t"
  by (metis decode_encodeURIComponent)

text \<open>The separators of an address: \<open>/\<close>, \<open>?\<close>, \<open>#\<close>, \<open>&\<close>, \<open>=\<close>, \<open>+\<close> and white space.\<close>

definition separator :: "unit16 \<Rightarrow> bool" where
  "separator c \<longleftrightarrow> c \<in> set [47, 63, 35, 38, 61, 43, 32]"

lemma percent_byte_units: "b < 256 \<Longrightarrow> c \<in> set (percent_byte b) \<Longrightarrow> c = 37 \<or> c \<in> set (js ''0123456789ABCDEF'')"
  using upper_hex_facts(2) [of "b div 16"] upper_hex_facts(2) [of "b mod 16"] byte_digits [of b] by (auto simp: percent_byte_def)

lemma hex_no_separator: "c \<in> set (js ''0123456789ABCDEF'') \<Longrightarrow> \<not> separator c"
  by (auto simp: js_def separator_def)

lemma component_byte_units: "b < 256 \<Longrightarrow> c \<in> set (component_byte b) \<Longrightarrow> \<not> separator c"
proof -
  assume b: "b < 256" and c: "c \<in> set (component_byte b)"
  show ?thesis
  proof (cases "unreserved b")
    case True
    then have eq: "c = of_nat b" using c by (simp add: component_byte_def)
    have "unat c = b" using b by (simp add: eq unat_of_nat)
    then show ?thesis using True
      by (auto simp: separator_def unreserved_def alphanumeric_def)
  next
    case False
    then have "c = 37 \<or> c \<in> set (js ''0123456789ABCDEF'')" using c b percent_byte_units by (simp add: component_byte_def)
    then show ?thesis using hex_no_separator by (auto simp: separator_def)
  qed
qed

lemma segment_units:
  assumes "encodeURIComponent s = Some e" and "c \<in> set e"
  shows "\<not> separator c"
proof -
  obtain ps where ps: "code_points s = Some ps"
      and e: "e = concat (List.map component_byte (concat (List.map utf8 ps)))"
    using assms(1) by (auto simp: encodeURIComponent_def)
  obtain n b where "n \<in> set ps" "b \<in> set (utf8 n)" "c \<in> set (component_byte b)"
    using assms(2) by (auto simp: e)
  then show ?thesis using code_points_range [OF ps] utf8_byte component_byte_units by blast
qed

end
