(* ===== verification/Admin_Service.thy ===== *)
theory Admin_Service imports Uri_Codec Api_Client begin

text \<open>
  \<open>AdminService\<close> (\<open>frontend/lib/services/admin/admin.service.ts\<close>): for every operation the address
  and the request options it hands to \<open>apiFetch\<close>, and the operation that reads an answer stream.

  An operation whose path holds an identifier goes through \<open>encodeURIComponent\<close>, which throws on a
  lone surrogate: \<open>Inl Engine_error\<close>, and no request is sent. A body is \<open>JSON.stringify\<close> of an
  object literal; a property whose value is \<open>undefined\<close> is left out, as \<open>JSON.stringify\<close> does.
\<close>

section \<open>Calls\<close>

type_synonym api_call = "jsstr \<times> request_init"

definition no_init :: request_init where
  "no_init = \<lparr>in_method = None, in_headers = [], in_body = None, in_cache = None, in_redirect = None\<rparr>"

definition with_body :: "string \<Rightarrow> json \<Rightarrow> request_init" where
  "with_body m body = no_init\<lparr>in_method := Some (js m), in_body := Some (stringify body)\<rparr>"

text \<open>An object literal with optional properties.\<close>

definition obj :: "(string \<times> json option) list \<Rightarrow> json" where
  "obj ms = JObj (List.map_filter (\<lambda>(k, v). map_option (Pair (js k)) v) ms)"

definition jstr :: "jsstr \<Rightarrow> json option" where "jstr s = Some (JStr s)"

definition in_segment :: "string \<Rightarrow> jsstr \<Rightarrow> jsstr \<Rightarrow> request_init \<Rightarrow> failure + api_call" where
  "in_segment prefix i suffix init = (case encodeURIComponent i of None \<Rightarrow> Inl Engine_error
     | Some e \<Rightarrow> Inr (js prefix @ e @ suffix, init))"

section \<open>Notes\<close>

definition getNotes :: "jsstr \<Rightarrow> jsstr \<Rightarrow> bool \<Rightarrow> jsstr \<Rightarrow> api_call" where
  "getNotes email workspaceID refresh source =
     (js ''/admin/notes?'' @ query_string
        ([(js ''email'', email), (js ''workspace_id'', workspaceID), (js ''source'', source)] @
         (if refresh then [(js ''refresh'', js ''1'')] else [])), no_init)"

definition getNote :: "jsstr \<Rightarrow> jsstr \<Rightarrow> jsstr \<Rightarrow> api_call" where
  "getNote email workspaceID pageID =
     (js ''/admin/notes?'' @ query_string
        [(js ''email'', email), (js ''workspace_id'', workspaceID), (js ''page_id'', pageID)], no_init)"

section \<open>Sign-in and reads\<close>

definition verify_call :: api_call where "verify_call = (js ''/admin/verify'', no_init)"

definition login_call :: "jsstr \<Rightarrow> api_call" where
  "login_call password = (js ''/admin/login'', with_body ''POST'' (obj [(''password'', jstr password)]))"

definition logout_call :: api_call where
  "logout_call = (js ''/admin/logout'', no_init\<lparr>in_method := Some (js ''POST'')\<rparr>)"

definition getConfig :: api_call where "getConfig = (js ''/admin/config'', no_init)"
definition getVersion :: api_call where "getVersion = (js ''/admin/version'', no_init)"
definition getHealth :: api_call where "getHealth = (js ''/healthz'', no_init)"
definition getAccounts :: api_call where "getAccounts = (js ''/admin/accounts'', no_init)"

definition refreshWorkspaces :: "jsstr \<Rightarrow> api_call" where
  "refreshWorkspaces email =
     (js ''/admin/accounts/refresh-workspaces'', with_body ''POST'' (obj [(''email'', jstr email)]))"

definition refreshModels :: "jsstr \<Rightarrow> jsstr \<Rightarrow> api_call" where
  "refreshModels email workspace_id =
     (js ''/admin/accounts/refresh-models'',
      with_body ''POST'' (obj [(''email'', jstr email), (''workspace_id'', jstr workspace_id)]))"

section \<open>Model policy\<close>

fun scope_text :: "policy_scope \<Rightarrow> jsstr" where
  "scope_text Personal = js ''personal''"
| "scope_text Custom = js ''custom''"

fun action_text :: "policy_action \<Rightarrow> jsstr" where
  "action_text Lock = js ''lock''"
| "action_text Restore = js ''restore''"
| "action_text Clear = js ''clear''"

definition getModelPolicy :: "jsstr \<Rightarrow> jsstr \<Rightarrow> policy_scope \<Rightarrow> api_call" where
  "getModelPolicy email workspace_id scope =
     (js ''/admin/accounts/model-policy?'' @ query_string
        [(js ''email'', email), (js ''workspace_id'', workspace_id), (js ''scope'', scope_text scope)],
      no_init\<lparr>in_cache := Some (js ''no-store'')\<rparr>)"

definition policy_edit_json :: "policy_edit \<Rightarrow> json" where
  "policy_edit_json e = obj
     [(''email'', jstr (pe_email e)), (''workspace_id'', jstr (pe_workspace_id e)),
      (''scope'', jstr (scope_text (pe_scope e))), (''revision'', jstr (pe_revision e)),
      (''action'', jstr (action_text (pe_action e))), (''model_id'', map_option JStr (pe_model_id e))]"

definition updateModelPolicy :: "policy_edit \<Rightarrow> api_call" where
  "updateModelPolicy payload =
     (js ''/admin/accounts/model-policy'',
      (with_body ''PUT'' (policy_edit_json payload))\<lparr>in_redirect := Some (js ''error'')\<rparr>)"

section \<open>Usage\<close>

definition getAIUsage :: "bool \<Rightarrow> api_call" where
  "getAIUsage refresh = (js ''/admin/accounts/ai-usage'' @ (if refresh then js ''?refresh=1'' else []), no_init)"

definition getWorkspaceAIUsage :: "jsstr \<Rightarrow> jsstr \<Rightarrow> bool \<Rightarrow> api_call" where
  "getWorkspaceAIUsage email workspaceId refresh =
     (js ''/admin/accounts/ai-usage/workspace?'' @ query_string
        ([(js ''email'', email), (js ''workspace_id'', workspaceId)] @
         (if refresh then [(js ''refresh'', js ''1'')] else [])),
      no_init\<lparr>in_cache := Some (js ''no-store'')\<rparr>)"

section \<open>Conversations\<close>

definition getConversations :: api_call where "getConversations = (js ''/admin/conversations'', no_init)"

definition getConversation :: "jsstr \<Rightarrow> bool \<Rightarrow> failure + api_call" where
  "getConversation i local =
     in_segment ''/admin/conversations/'' i (if local then js ''?local=1'' else []) no_init"

definition deleteConversation_call :: "jsstr \<Rightarrow> failure + api_call" where
  "deleteConversation_call i =
     in_segment ''/admin/conversations/'' i [] (no_init\<lparr>in_method := Some (js ''DELETE'')\<rparr>)"

definition batchDelete_call :: "jsstr list \<Rightarrow> api_call" where
  "batchDelete_call ids =
     (js ''/admin/conversations/batch-delete'',
      with_body ''POST'' (obj [(''ids'', Some (JArr (List.map JStr ids)))]))"

definition renameConversation :: "jsstr \<Rightarrow> jsstr \<Rightarrow> failure + api_call" where
  "renameConversation i title =
     in_segment ''/admin/conversations/'' i [] (with_body ''PATCH'' (obj [(''title'', jstr title)]))"

definition message_path :: "jsstr \<Rightarrow> jsstr \<Rightarrow> jsstr option" where
  "message_path i messageId = (case (encodeURIComponent i, encodeURIComponent messageId) of
     (Some a, Some b) \<Rightarrow> Some (js ''/admin/conversations/'' @ a @ js ''/messages/'' @ b)
   | _ \<Rightarrow> None)"

definition message_call :: "jsstr \<Rightarrow> jsstr \<Rightarrow> request_init \<Rightarrow> failure + api_call" where
  "message_call i messageId init = (case message_path i messageId of
     None \<Rightarrow> Inl Engine_error | Some p \<Rightarrow> Inr (p, init))"

definition editConversationMessage :: "jsstr \<Rightarrow> jsstr \<Rightarrow> jsstr \<Rightarrow> failure + api_call" where
  "editConversationMessage i messageId content =
     message_call i messageId (with_body ''PATCH'' (obj [(''content'', jstr content)]))"

definition deleteConversationMessage :: "jsstr \<Rightarrow> jsstr \<Rightarrow> failure + api_call" where
  "deleteConversationMessage i messageId =
     message_call i messageId (no_init\<lparr>in_method := Some (js ''DELETE'')\<rparr>)"

section \<open>Settings and accounts\<close>

definition updateSettings :: "json \<Rightarrow> api_call" where
  "updateSettings config = (js ''/admin/settings'', with_body ''PUT'' (obj [(''config'', Some config)]))"

definition importConfig :: "json \<Rightarrow> api_call" where
  "importConfig config = (js ''/admin/config/import'', with_body ''POST'' (obj [(''config'', Some config)]))"

definition exportConfig :: api_call where "exportConfig = (js ''/admin/config/export'', no_init)"

definition createConfigSnapshot :: api_call where
  "createConfigSnapshot = (js ''/admin/config/snapshot'', no_init\<lparr>in_method := Some (js ''POST'')\<rparr>)"

definition listConfigSnapshots :: api_call where
  "listConfigSnapshots = (js ''/admin/config/snapshot'', no_init)"

definition startAccountLogin :: "jsstr \<Rightarrow> api_call" where
  "startAccountLogin email =
     (js ''/admin/accounts/login/start'', with_body ''POST'' (obj [(''email'', jstr email)]))"

definition verifyAccountCode :: "jsstr \<Rightarrow> jsstr \<Rightarrow> api_call" where
  "verifyAccountCode email code =
     (js ''/admin/accounts/login/verify'',
      with_body ''POST'' (obj [(''email'', jstr email), (''code'', jstr code)]))"

definition importAccount :: "json \<Rightarrow> api_call" where
  "importAccount payload = (js ''/admin/accounts/manual'', with_body ''POST'' payload)"

definition quickTestAccount :: "json \<Rightarrow> api_call" where
  "quickTestAccount payload = (js ''/admin/accounts/test'', with_body ''POST'' payload)"

definition activateAccount :: "jsstr \<Rightarrow> jsstr option \<Rightarrow> api_call" where
  "activateAccount email workspaceId =
     (js ''/admin/accounts/activate'',
      with_body ''POST'' (obj [(''email'', jstr email), (''workspace_id'', map_option JStr workspaceId)]))"

definition deleteAccount :: "jsstr \<Rightarrow> failure + api_call" where
  "deleteAccount email =
     in_segment ''/admin/accounts/'' email [] (no_init\<lparr>in_method := Some (js ''DELETE'')\<rparr>)"

definition saveAccountSettings :: "json \<Rightarrow> api_call" where
  "saveAccountSettings payload = (js ''/admin/accounts'', with_body ''PUT'' payload)"

section \<open>Answer streams\<close>

fun attachment_data_json :: "attachment_data \<Rightarrow> json" where
  "attachment_data_json (Data_url s) = JStr s"
| "attachment_data_json (Data_buffer _) = JObj []"
| "attachment_data_json Data_null = JNull"

definition attachment_json :: "attachment_input \<Rightarrow> json" where
  "attachment_json a = obj [(''type'', jstr (js ''attachment'')), (''name'', jstr (ai_name a)),
     (''content_type'', jstr (ai_content_type a)), (''data'', Some (attachment_data_json (ai_data a)))]"

definition run_fields :: "chat_run_input \<Rightarrow> (string \<times> json option) list" where
  "run_fields p =
     [(''prompt'', jstr (cri_prompt p)), (''model'', jstr (cri_model p)),
      (''use_web_search'', Some (JBool (cri_use_web_search p))),
      (''attachments'', Some (JArr (List.map attachment_json (cri_attachments p)))),
      (''conversation_id'', map_option JStr (cri_conversation_id p)),
      (''account_email'', map_option JStr (cri_account_email p)),
      (''workspace_id'', map_option JStr (cri_workspace_id p))]"

definition testPrompt :: "chat_run_input \<Rightarrow> api_call" where
  "testPrompt payload = (js ''/admin/test'', with_body ''POST'' (obj (run_fields payload)))"

definition stream_test_request :: "jsstr \<Rightarrow> chat_run_input \<Rightarrow> request" where
  "stream_test_request base payload =
     event_stream_request base (js ''/admin/test'') (obj (run_fields payload @ [(''stream'', Some (JBool True))]))"

text \<open>The two variables of \<open>streamTestPrompt\<close> and the deltas it has handed to \<open>onDelta\<close>.\<close>

record test_stream =
  ts_text :: jsstr
  ts_truncated :: bool
  ts_deltas :: "jsstr list"

text \<open>\<open>v?.[0]\<close> for a parsed value.\<close>

definition jindex0 :: "json option \<Rightarrow> json option" where
  "jindex0 v = (case v of Some (JArr (x # _)) \<Rightarrow> Some x | Some (JObj ms) \<Rightarrow> jget (js ''0'') (JObj ms)
     | Some (JStr (c # _)) \<Rightarrow> Some (JStr [c]) | _ \<Rightarrow> None)"

definition opt_get :: "string \<Rightarrow> json option \<Rightarrow> json option" where
  "opt_get k v = Option.bind v (jget (js k))"

definition event_choice :: "json \<Rightarrow> json option" where
  "event_choice event = jindex0 (jget (js ''choices'') event)"

definition event_delta :: "json \<Rightarrow> jsstr option" where
  "event_delta event = jstring (opt_get ''content'' (opt_get ''delta'' (event_choice event)))"

definition event_truncates :: "json \<Rightarrow> bool" where
  "event_truncates event \<longleftrightarrow> jstring (opt_get ''finish_reason'' (event_choice event)) = Some (js ''length'')"

definition event_error :: "json \<Rightarrow> failure option" where
  "event_error event =
     (let e = jget (js ''error'') event in
      if \<not> json_truthy e then None
      else (let m = opt_get ''message'' e in
            Some (Error_message (if json_truthy m then to_js_string (the m) else txt_generation_failed))))"

definition test_event :: "jsstr \<Rightarrow> test_stream \<Rightarrow> failure + test_stream" where
  "test_event data s = (case json_parse data of None \<Rightarrow> Inl Engine_error
     | Some event \<Rightarrow>
         if event = JNull then Inl Engine_error
         else (case event_error event of Some e \<Rightarrow> Inl e
           | None \<Rightarrow>
               (let s' = (if event_truncates event then s\<lparr>ts_truncated := True\<rparr> else s)
                in Inr (case event_delta event of None \<Rightarrow> s'
                     | Some d \<Rightarrow> s'\<lparr>ts_text := ts_text s' @ d, ts_deltas := ts_deltas s' @ [d]\<rparr>))))"

definition stream_start :: test_stream where
  "stream_start = \<lparr>ts_text = [], ts_truncated = False, ts_deltas = []\<rparr>"

text \<open>The deltas delivered, and the result or the failure.\<close>

definition streamTestPrompt :: "chat_run_input \<Rightarrow> event_fetched \<Rightarrow> jsstr list \<times> (failure + chat_run_result)" where
  "streamTestPrompt payload outcome =
     (case apiEventStream test_event outcome stream_start of
        (s, Inl e) \<Rightarrow> (ts_deltas s, Inl e)
      | (s, Inr r) \<Rightarrow> (ts_deltas s, Inr
          \<lparr>crr_conversation_id = or_str (opt_str (rs_conversation_id r)) (opt_str (cri_conversation_id payload)),
           crr_text = ts_text s, crr_truncated = Some (ts_truncated s)\<rparr>))"

section \<open>Addresses keep their shape\<close>

lemma message_path_segments:
  assumes "message_path i m = Some p"
  shows "\<exists>a b. p = js ''/admin/conversations/'' @ a @ js ''/messages/'' @ b \<and>
     (\<forall>c \<in> set (a @ b). \<not> separator c) \<and> decode_segment a = i \<and> decode_segment b = m"
proof -
  obtain a b where ab: "encodeURIComponent i = Some a" "encodeURIComponent m = Some b"
      and p: "p = js ''/admin/conversations/'' @ a @ js ''/messages/'' @ b"
    using assms by (auto simp: message_path_def split: option.splits)
  then show ?thesis using segment_units decode_encodeURIComponent by (intro exI [of _ a] exI [of _ b]) auto
qed

text \<open>
  The address of a message operation always has the shape
  \<open>/admin/conversations/<one segment>/messages/<one segment>\<close>: the segments hold no separator, so an
  identifier cannot reach another route or add a query, and decoding them gives back the conversation
  and the message that were asked for.\<close>

theorem message_address_decodes:
  assumes "editConversationMessage i m content = Inr (p, init)"
  shows "\<exists>a b. p = js ''/admin/conversations/'' @ a @ js ''/messages/'' @ b \<and>
     (\<forall>c \<in> set (a @ b). \<not> separator c) \<and> decode_segment a = i \<and> decode_segment b = m \<and>
     deleteConversationMessage i m = Inr (p, no_init\<lparr>in_method := Some (js ''DELETE'')\<rparr>)"
proof -
  have "message_path i m = Some p"
    using assms by (auto simp: editConversationMessage_def message_call_def split: option.splits)
  then show ?thesis
    using message_path_segments by (simp add: deleteConversationMessage_def message_call_def)
qed

lemma message_address_decodes_witness:
  "\<exists>a b. fst (projr (editConversationMessage (js ''a/b?c'') (js ''m#1'') (js ''x''))) =
     js ''/admin/conversations/'' @ a @ js ''/messages/'' @ b \<and>
     list_all (\<lambda>c. \<not> separator c) (a @ b) \<and> decode_segment a = js ''a/b?c'' \<and> decode_segment b = js ''m#1''"
proof -
  have "\<not> isl (editConversationMessage (js ''a/b?c'') (js ''m#1'') (js ''x''))" by code_simp
  then obtain p init where "editConversationMessage (js ''a/b?c'') (js ''m#1'') (js ''x'') = Inr (p, init)"
    by (metis prod.exhaust sum.collapse(2))
  then show ?thesis using message_address_decodes unfolding list_all_iff by fastforce
qed

section \<open>What a streamed answer is\<close>

definition plain_event :: "jsstr \<Rightarrow> bool" where
  "plain_event d \<longleftrightarrow> (case json_parse d of None \<Rightarrow> False | Some v \<Rightarrow> v \<noteq> JNull \<and> event_error v = None)"

definition stream_deltas :: "jsstr list \<Rightarrow> jsstr list" where
  "stream_deltas ds = List.map_filter (\<lambda>d. Option.bind (json_parse d) event_delta) ds"

definition stream_truncates :: "jsstr list \<Rightarrow> bool" where
  "stream_truncates ds \<longleftrightarrow> list_ex (\<lambda>d. case json_parse d of None \<Rightarrow> False | Some v \<Rightarrow> event_truncates v) ds"

lemma test_event_plain:
  assumes "plain_event d"
  shows "test_event d s = Inr \<lparr>ts_text = ts_text s @ concat (stream_deltas [d]),
     ts_truncated = (ts_truncated s \<or> stream_truncates [d]), ts_deltas = ts_deltas s @ stream_deltas [d]\<rparr>"
  using assms by (cases s) (auto simp: plain_event_def test_event_def stream_deltas_def stream_truncates_def
      map_filter_simps Let_def split: option.splits)

lemma test_event_other: "\<not> plain_event d \<Longrightarrow> \<exists>e. test_event d s = Inl e"
  by (auto simp: plain_event_def test_event_def split: option.splits)

lemma stream_deltas_Cons: "stream_deltas (d # ds) = stream_deltas [d] @ stream_deltas ds"
  by (simp add: stream_deltas_def List.map_filter_def)

lemma run_test_events:
  "run_events test_event ds s = Inr s' \<longleftrightarrow> list_all plain_event ds \<and>
     s' = \<lparr>ts_text = ts_text s @ concat (stream_deltas ds),
           ts_truncated = (ts_truncated s \<or> stream_truncates ds), ts_deltas = ts_deltas s @ stream_deltas ds\<rparr>"
proof (induction ds arbitrary: s)
  case Nil
  show ?case by (cases s; cases s') (auto simp: stream_deltas_def stream_truncates_def map_filter_simps)
next
  case (Cons d ds)
  show ?case
  proof (cases "plain_event d")
    case True
    show ?thesis
      unfolding stream_deltas_Cons [of d ds]
      using True by (simp add: test_event_plain Cons.IH) (auto simp: stream_truncates_def)
  next
    case False
    then obtain e where "test_event d s = Inl e" using test_event_other by blast
    then show ?thesis using False by simp
  qed
qed

text \<open>
  C30. A prompt run resolves exactly when the events before \<open>[DONE]\<close> are all well formed and none reports
  an error. The result's text is then the concatenation of the deltas shown while streaming, it is
  marked truncated exactly when an event ended with the reason \<open>length\<close>, and it names the conversation
  of the response header, or the one asked for.\<close>

theorem stream_result:
  "streamTestPrompt payload (Stream_fetched r) = (deltas, Inr result) \<longleftrightarrow>
     is_event_stream r \<and>
     (\<exists>ds rest. rs_items r = Some (List.map Item ds @ Item (js ''[DONE]'') # rest) \<and>
        js ''[DONE]'' \<notin> set ds \<and> list_all plain_event ds \<and> deltas = stream_deltas ds \<and>
        result = \<lparr>crr_conversation_id = or_str (opt_str (rs_conversation_id r)) (opt_str (cri_conversation_id payload)),
          crr_text = concat deltas, crr_truncated = Some (stream_truncates ds)\<rparr>)"
proof -
  let ?result = "\<lambda>s'. \<lparr>crr_conversation_id = or_str (opt_str (rs_conversation_id r)) (opt_str (cri_conversation_id payload)),
      crr_text = ts_text s', crr_truncated = Some (ts_truncated s')\<rparr>"
  obtain s e where run: "apiEventStream test_event (Stream_fetched r) stream_start = (s, e)" by force
  have same: "r' = r" if "e = Inr r'" for r'
    using event_stream_resolved [of test_event r stream_start s r'] run that by simp
  have "streamTestPrompt payload (Stream_fetched r) = (deltas, Inr result) \<longleftrightarrow>
      (\<exists>s'. apiEventStream test_event (Stream_fetched r) stream_start = (s', Inr r) \<and> deltas = ts_deltas s' \<and>
        result = ?result s')"
    using same by (cases e) (auto simp: streamTestPrompt_def run)
  also have "\<dots> \<longleftrightarrow> is_event_stream r \<and> (\<exists>ds rest s'. rs_items r = Some (List.map Item ds @ Item (js ''[DONE]'') # rest) \<and>
      js ''[DONE]'' \<notin> set ds \<and> run_events test_event ds stream_start = Inr s' \<and> deltas = ts_deltas s' \<and> result = ?result s')"
    unfolding event_stream_resolved by blast
  finally show ?thesis by (simp add: run_test_events stream_start_def conj_ac cong: conj_cong)
qed

end
