(* ===== verification/Model_Display.thy ===== *)
theory Model_Display imports Api_Types Texts begin

text \<open>
  The name under which a model is shown (\<open>frontend/lib/model-display.ts\<close>) and the evidence line
  below an answer (\<open>components/admin/model-evidence.tsx\<close>).

  \<open>verifiedNames\<close> is an object literal, so indexing it also finds what it inherits from
  \<open>Object.prototype\<close>. The key is in lower case, which leaves two inherited names:
  \<open>constructor\<close>, a function called \<open>Object\<close> with no \<open>provider\<close>, and \<open>__proto__\<close>, whose \<open>name\<close>
  is \<open>undefined\<close> (which the callers treat as they treat \<open>null\<close>).
\<close>

section \<open>Display names\<close>

definition model_key :: "jsstr option \<Rightarrow> jsstr" where
  "model_key v = to_lower (trim (opt_str v))"

definition providers :: "jsstr set" where
  "providers = set (List.map js [''anthropic'', ''openai'', ''gemini'', ''deepseek'', ''kimi'', ''glm'', ''xai''])"

record verified =
  vn_name :: "jsstr option"
  vn_provider :: "jsstr option"

definition verifiedNames :: "jsstr \<Rightarrow> verified option" where
  "verifiedNames k =
     (if k = js ''albuquerque-quinn'' then Some \<lparr>vn_name = Some (js ''Opus 5.5''), vn_provider = Some (js ''anthropic'')\<rparr>
      else if k = js ''achira-donut'' then Some \<lparr>vn_name = Some (js ''Sonnet 5.5''), vn_provider = Some (js ''anthropic'')\<rparr>
      else if k = js ''constructor'' then Some \<lparr>vn_name = Some (js ''Object''), vn_provider = None\<rparr>
      else if k = js ''__proto__'' then Some \<lparr>vn_name = None, vn_provider = None\<rparr>
      else None)"

definition model_names :: "model_item \<Rightarrow> jsstr option list" where
  "model_names m = Some (mi_id m) # mi_notion_model m # List.map Some (opt_list (mi_aliases m))"

definition model_matches :: "jsstr \<Rightarrow> jsstr option \<Rightarrow> model_item \<Rightarrow> bool" where
  "model_matches raw provider m \<longleftrightarrow>
     (if model_key provider \<in> providers \<and> model_key (mi_family m) \<in> providers \<and>
         model_key provider \<noteq> model_key (mi_family m) then False
      else list_ex (\<lambda>alias. model_key alias = model_key (Some raw)) (model_names m))"

definition catalog_matches :: "jsstr \<Rightarrow> jsstr option \<Rightarrow> model_item list \<Rightarrow> model_item list" where
  "catalog_matches raw provider catalog = filter (model_matches raw provider) catalog"

definition display_candidates :: "jsstr \<Rightarrow> model_item list \<Rightarrow> jsstr option \<Rightarrow> model_item list \<Rightarrow> model_item list" where
  "display_candidates raw models provider preferred =
     (let scoped = catalog_matches raw provider preferred
      in if scoped \<noteq> [] then scoped else catalog_matches raw provider models)"

definition shown_name :: "jsstr \<Rightarrow> model_item \<Rightarrow> jsstr option" where
  "shown_name raw m = (case mi_name m of None \<Rightarrow> None
     | Some n \<Rightarrow> if trim n \<noteq> [] \<and> model_key (Some (trim n)) \<noteq> model_key (Some raw) then Some (trim n) else None)"

definition candidate_names :: "jsstr \<Rightarrow> model_item list \<Rightarrow> jsstr list" where
  "candidate_names raw candidates = js_unique (List.map_filter (shown_name raw) candidates)"

definition modelDisplayName :: "jsstr \<Rightarrow> model_item list \<Rightarrow> jsstr option \<Rightarrow> model_item list \<Rightarrow> jsstr option" where
  "modelDisplayName raw models provider preferred =
     (let candidates = display_candidates raw models provider preferred;
          names = candidate_names raw candidates;
          fallback = (if list_ex (\<lambda>m. model_key (mi_name m) = model_key (Some raw)) candidates then Some raw else None)
      in case names of
           [n] \<Rightarrow> Some n
         | [] \<Rightarrow> (case verifiedNames (model_key (Some raw)) of
               None \<Rightarrow> fallback
             | Some v \<Rightarrow> if \<not> truthy provider \<or> Some (model_key provider) = vn_provider v then vn_name v else fallback)
         | _ \<Rightarrow> None)"

section \<open>The evidence line\<close>

definition evidence_label :: "model_item list \<Rightarrow> model_item list \<Rightarrow> model_observation \<Rightarrow> jsstr" where
  "evidence_label models preferredModels item =
     or_str (opt_str (modelDisplayName (mo_model item) models (mo_provider item) preferredModels))
       (txt_unknown_model_open @ mo_model item @ txt_close_paren)"

record evidence =
  ev_summary :: jsstr
  ev_mode :: jsstr
  ev_requested :: "jsstr option"

definition ModelEvidence :: "conversation_message \<Rightarrow> model_item list \<Rightarrow> model_item list \<Rightarrow> evidence option" where
  "ModelEvidence message models preferredModels =
     (if cm_role message = Some (js ''user'') \<or> cm_status message = Some (js ''streaming'') then None
      else (let observations = opt_list (cm_model_observations message);
                labels = js_unique (List.map (evidence_label models preferredModels) observations);
                mode = cm_model_selection_mode message
            in Some \<lparr>ev_summary = (if labels \<noteq> [] then join (js '' / '') labels else txt_unknown_actual),
              ev_mode = (if mode = Some (js ''auto_fallback'') then txt_auto_fallback
                         else if mode = Some (js ''auto'') then txt_auto_assigned else []),
              ev_requested = (if mode = Some (js ''auto_fallback'')
                then or_opt (modelDisplayName (opt_str (cm_requested_model message)) models None [])
                       (cm_requested_model message)
                else None)\<rparr>))"

section \<open>Names come from evidence\<close>

lemma set_map_filter_iff: "y \<in> set (List.map_filter f xs) \<longleftrightarrow> (\<exists>x \<in> set xs. f x = Some y)"
  by (induction xs) (auto simp: map_filter_simps split: option.splits)

lemma candidate_names_iff:
  "n \<in> set (candidate_names raw cs) \<longleftrightarrow> (\<exists>m \<in> set cs. shown_name raw m = Some n)"
  by (simp add: candidate_names_def set_map_filter_iff)

lemma display_candidates_match:
  "m \<in> set (display_candidates raw models provider preferred) \<Longrightarrow>
   model_matches raw provider m \<and> m \<in> set preferred \<union> set models"
  by (auto simp: display_candidates_def catalog_matches_def Let_def split: if_splits)

text \<open>
  A display name is never made up: it is the trimmed name of a catalog entry that carries the raw
  code among its names and does not belong to another known provider, or a name in the verified table
  under that code, or the raw code itself.\<close>

theorem display_name_evidence:
  assumes "modelDisplayName raw models provider preferred = Some n"
  shows "(\<exists>m \<in> set preferred \<union> set models. model_matches raw provider m \<and> shown_name raw m = Some n) \<or>
     (\<exists>v. verifiedNames (model_key (Some raw)) = Some v \<and> vn_name v = Some n) \<or> n = raw"
proof -
  let ?cs = "display_candidates raw models provider preferred"
  consider (one) "candidate_names raw ?cs = [n]" | (none) "candidate_names raw ?cs = []"
    using assms by (auto simp: modelDisplayName_def Let_def split: list.splits)
  then show ?thesis
  proof cases
    case one
    then have "n \<in> set (candidate_names raw ?cs)" by simp
    then show ?thesis using display_candidates_match by (fastforce simp: candidate_names_iff)
  next
    case none
    then show ?thesis using assms
      by (auto simp: modelDisplayName_def Let_def split: option.splits if_splits)
  qed
qed

definition quinn :: model_item where
  "quinn = no_model_item\<lparr>mi_id := js ''quinn'', mi_name := Some (js '' Quinn 2 ''), mi_aliases := Some [js ''Q2'']\<rparr>"

lemma quinn_name: "modelDisplayName (js ''q2 '') [quinn] None [] = Some (js ''Quinn 2'')"
  by code_simp

lemma display_name_evidence_witness:
  "(\<exists>m \<in> {quinn}. model_matches (js ''q2 '') None m \<and> shown_name (js ''q2 '') m = Some (js ''Quinn 2'')) \<or>
   (\<exists>v. verifiedNames (model_key (Some (js ''q2 ''))) = Some v \<and> vn_name v = Some (js ''Quinn 2'')) \<or>
   js ''Quinn 2'' = js ''q2 ''"
  using display_name_evidence [OF quinn_name] by simp

lemma two_names: "a \<in> set xs \<Longrightarrow> b \<in> set xs \<Longrightarrow> a \<noteq> b \<Longrightarrow> \<exists>x y zs. xs = x # y # zs"
  by (cases xs; cases "tl xs") auto

text \<open>
  An ambiguous code has no display name: when two matching entries of the preferred catalog carry
  different names, the result is nothing, whatever the general catalog and the verified table say.\<close>

theorem display_name_ambiguous:
  assumes "m1 \<in> set preferred" and "m2 \<in> set preferred"
    and "model_matches raw provider m1" and "model_matches raw provider m2"
    and "shown_name raw m1 = Some n1" and "shown_name raw m2 = Some n2" and "n1 \<noteq> n2"
  shows "modelDisplayName raw models provider preferred = None"
proof -
  let ?cs = "display_candidates raw models provider preferred"
  have "m1 \<in> set ?cs" "m2 \<in> set ?cs"
    using assms(1-4) by (auto simp: display_candidates_def catalog_matches_def Let_def filter_empty_conv)
  then have "n1 \<in> set (candidate_names raw ?cs)" "n2 \<in> set (candidate_names raw ?cs)"
    using assms(5,6) by (auto simp: candidate_names_iff)
  then obtain x y zs where "candidate_names raw ?cs = x # y # zs" using two_names assms(7) by metis
  then show ?thesis by (simp add: modelDisplayName_def Let_def)
qed

definition other_quinn :: model_item where
  "other_quinn = quinn\<lparr>mi_id := js ''q2'', mi_name := Some (js ''Other'')\<rparr>"

lemma two_quinns:
  "model_matches (js ''q2'') None quinn" "model_matches (js ''q2'') None other_quinn"
  "shown_name (js ''q2'') quinn = Some (js ''Quinn 2'')" "shown_name (js ''q2'') other_quinn = Some (js ''Other'')"
  by code_simp+

lemma display_name_ambiguous_witness:
  "modelDisplayName (js ''q2'') [quinn] None [quinn, other_quinn] = None"
  by (rule display_name_ambiguous [OF _ _ two_quinns]) simp_all

text \<open>Looking a code up in an object literal finds inherited properties too.\<close>

theorem inherited_display_name:
  "modelDisplayName (js ''Constructor'') [] None [] = Some (js ''Object'')"
  by code_simp

end
