(* ===== verification/Chat_Text.thy ===== *)
theory Chat_Text imports Api_Client begin

text \<open>
  The functions of \<open>components/admin/chat-workspace.tsx\<close> that stand outside the component: sizes,
  token estimates, step labels, the Markdown export, file names, identifiers and quota percentages.

  A function that reads the clock or the random source takes what it reads as an argument. A
  pattern with the flag \<open>i\<close> and no flag \<open>u\<close> folds ASCII letters only, as \<open>ascii_lower\<close> does.
\<close>

section \<open>Attachments\<close>

definition MAX_REQUEST_BODY_BYTES :: int where "MAX_REQUEST_BODY_BYTES = 4 * 1024 * 1024"
definition JSON_ENVELOPE_BYTES :: int where "JSON_ENVELOPE_BYTES = 2048"
definition BASE64_PREFIX_BYTES :: int where "BASE64_PREFIX_BYTES = 64"

definition encodedAttachmentBytes :: "js_file \<Rightarrow> int" where
  "encodedAttachmentBytes f = math_ceil (fl_div (of_nat (file_size f * 4)) 3) + BASE64_PREFIX_BYTES"

definition formatBytes :: "nat \<Rightarrow> jsstr" where
  "formatBytes bytes =
     (if bytes < 1024 then nat_str bytes @ js '' B''
      else if bytes < 1024 * 1024 then int_str (math_round (fl_div (of_nat bytes) 1024)) @ js '' KB''
      else to_fixed1 (fl_div (of_nat bytes) (1024 * 1024)) @ js '' MB'')"

definition image_suffixes :: "jsstr list" where
  "image_suffixes = List.map js [''.png'', ''.jpg'', ''.jpeg'', ''.gif'', ''.webp'', ''.avif'', ''.bmp'', ''.svg'']"

definition attachmentIsImage :: "message_attachment \<Rightarrow> bool" where
  "attachmentIsImage f =
     (let type = to_lower (opt_str (or_opt (ma_content_type f) (ma_contentType f))) in
      starts_with (js ''image/'') type \<or>
      list_ex (\<lambda>suffix. ends_with suffix (List.map ascii_lower (opt_str (ma_name f)))) image_suffixes)"

section \<open>Token estimates\<close>

definition isCJKIdeograph :: "unit16 \<Rightarrow> bool" where
  "isCJKIdeograph c \<longleftrightarrow> 0x2e80 \<le> c \<and> c \<le> 0x9fff \<or> 0xf900 \<le> c \<and> c \<le> 0xfaff
     \<or> 0xac00 \<le> c \<and> c \<le> 0xd7af \<or> 0xff00 \<le> c \<and> c \<le> 0xffef"

text \<open>
  The loop over the characters, with its two counters. A surrogate pair is one character and, being
  above U+FFFF, outside every range; a lone surrogate is a character outside every range too.
\<close>

fun count_chars :: "jsstr \<Rightarrow> nat \<times> nat \<Rightarrow> nat \<times> nat" where
  "count_chars [] counts = counts"
| "count_chars [c] (cjk, other) = (if isCJKIdeograph c then (Suc cjk, other) else (cjk, Suc other))"
| "count_chars (c # d # s) (cjk, other) =
     (if high_surrogate c \<and> low_surrogate d then count_chars s (cjk, Suc other)
      else if isCJKIdeograph c then count_chars (d # s) (Suc cjk, other)
      else count_chars (d # s) (cjk, Suc other))"

definition estimateTokens :: "jsstr option \<Rightarrow> nat" where
  "estimateTokens text =
     (let value = opt_str text in
      if value = [] then 0
      else (case count_chars value (0, 0) of (cjk, other) \<Rightarrow> cjk + nat (math_ceil (of_nat other / 4))))"

definition formatTokens :: "nat \<Rightarrow> jsstr" where
  "formatTokens n = (if 10000 \<le> n then to_fixed1 (fl_div (of_nat n) 1000) @ js ''k'' else nat_str n)"

section \<open>Step labels\<close>

definition step_labels :: "(jsstr list \<times> jsstr) list" where
  "step_labels =
     [([js ''search''], txt_step_search), ([js ''tool''], txt_step_tool),
      ([js ''think'', js ''reason''], txt_step_think),
      ([js ''read'', js ''file'', js ''attach''], txt_step_read), ([js ''title''], txt_step_title)]"

definition stepLabel :: "jsstr option \<Rightarrow> jsstr" where
  "stepLabel raw =
     (let type = trim (opt_str raw) in
      if type = [] then txt_step_other
      else (case List.find (\<lambda>(words, _). list_ex (\<lambda>w. str_includes w (to_lower type)) words) step_labels of
              Some (_, label) \<Rightarrow> label | None \<Rightarrow> type))"

section \<open>Markdown export\<close>

record export_meta =
  em_model :: "jsstr option"
  em_account :: "jsstr option"

definition attachment_line :: "nat \<times> message_attachment \<Rightarrow> jsstr" where
  "attachment_line p = (case p of (index, f) \<Rightarrow>
     (let name = or_str (opt_str (ma_name f)) (txt_attachment_space @ nat_str (index + 1)) in
      if truthy (ma_url f) then js ''- ['' @ name @ js ''](''@ opt_str (ma_url f) @ js '')''
      else js ''- '' @ name))"

definition message_lines :: "conversation_message \<Rightarrow> jsstr list" where
  "message_lines m =
     (let role = to_lower (opt_str (cm_role m)) in
      if role = js ''step'' then
        [txt_process_dot @ stepLabel (cm_step_type m) @
         (if truthy (cm_content m) then txt_colon @ opt_str (cm_content m) else [])]
      else [if role = js ''user'' then txt_user_heading else js ''## Notion AI'', []] @
        (if truthy (cm_content m) then [opt_str (cm_content m), []] else []) @
        (if opt_list (cm_attachments m) \<noteq> [] then
           [txt_attachments_colon] @ List.map attachment_line (enumerate 0 (opt_list (cm_attachments m))) @ [[]]
         else []) @
        (if truthy (cm_edited_at m) then [txt_edited_note, []] else []))"

definition markdown_lines :: "jsstr \<Rightarrow> jsstr \<Rightarrow> conversation_message list \<Rightarrow> export_meta \<Rightarrow> jsstr list" where
  "markdown_lines now title messages meta =
     (let facts = filter (\<lambda>f. f \<noteq> [])
        [if truthy (em_model meta) then txt_model_colon @ opt_str (em_model meta) else [],
         if truthy (em_account meta) then txt_account_colon @ opt_str (em_account meta) else [],
         txt_exported_colon @ now]
      in [js ''# '' @ or_str title txt_conversation, [], js ''> '' @ join txt_middle_dot facts, []] @
         concat (List.map message_lines messages))"

text \<open>\<open>replace(/\n{3,}/g, '\n\n')\<close>: of a run of line breaks at most two stay; the counter is the
  length of the run so far.\<close>

fun squeeze :: "nat \<Rightarrow> jsstr \<Rightarrow> jsstr" where
  "squeeze k [] = []"
| "squeeze k (c # s) =
     (if c = 10 then (if k < 2 then c # squeeze (Suc k) s else squeeze k s) else c # squeeze 0 s)"

definition conversationMarkdown :: "jsstr \<Rightarrow> jsstr \<Rightarrow> conversation_message list \<Rightarrow> export_meta \<Rightarrow> jsstr" where
  "conversationMarkdown now title messages meta =
     trim_end (squeeze 0 (join [10] (markdown_lines now title messages meta))) @ [10]"

section \<open>File names and identifiers\<close>

text \<open>The class \<open>[\\/:*?"<>|\u0000-\u001f]\<close>.\<close>

definition file_unsafe :: "unit16 \<Rightarrow> bool" where
  "file_unsafe c \<longleftrightarrow> c \<in> set [92, 47, 58, 42, 63, 34, 60, 62, 124] \<or> c \<le> 31"

definition safeFileName :: "jsstr \<Rightarrow> jsstr" where
  "safeFileName name =
     (let cleaned = trim (collapse_spaces (List.map (\<lambda>c. if file_unsafe c then 32 else c) name))
      in take 80 (or_str cleaned (js ''conversation'')))"

definition hex_byte :: "8 word \<Rightarrow> jsstr" where
  "hex_byte b = [hex_unit (unat b div 16), hex_unit (unat b mod 16)]"

text \<open>\<open>uuid\<close>: what \<open>randomUUID\<close> returns, where the browser has it; else sixteen random bytes.\<close>

definition newID :: "jsstr option \<Rightarrow> 8 word list \<Rightarrow> jsstr" where
  "newID uuid bytes = (case uuid of Some u \<Rightarrow> filter (\<lambda>c. c \<noteq> 45) u | None \<Rightarrow> concat (List.map hex_byte bytes))"

definition targetID :: "jsstr \<Rightarrow> jsstr \<Rightarrow> jsstr" where
  "targetID email workspace = stringify (JArr [JStr email, JStr workspace])"

section \<open>Quota\<close>

definition quotaRemainingPercent :: "rate_limit_window option \<Rightarrow> int option" where
  "quotaRemainingPercent window = (case window of None \<Rightarrow> None
     | Some w \<Rightarrow> if rw_limit w \<le> 0 then None
         else Some (max 0 (min 100 (math_round (fl_mul (fl_div (fl_sub (rw_limit w) (rw_used w)) (rw_limit w)) 100)))))"

datatype quota_tone = Tone_low | Tone_warn | Tone_ok

definition quotaTone :: "int \<Rightarrow> quota_tone" where
  "quotaTone percent = (if percent \<le> 15 then Tone_low else if percent \<le> 40 then Tone_warn else Tone_ok)"

fun tone_rank :: "quota_tone \<Rightarrow> nat" where
  "tone_rank Tone_low = 0"
| "tone_rank Tone_warn = 1"
| "tone_rank Tone_ok = 2"

instantiation quota_tone :: linorder
begin
definition less_eq_quota_tone :: "quota_tone \<Rightarrow> quota_tone \<Rightarrow> bool" where
  "less_eq_quota_tone a b = (tone_rank a \<le> tone_rank b)"
definition less_quota_tone :: "quota_tone \<Rightarrow> quota_tone \<Rightarrow> bool" where
  "less_quota_tone a b = (tone_rank a < tone_rank b)"
instance
proof
  fix a b c :: quota_tone
  show "a < b \<longleftrightarrow> a \<le> b \<and> \<not> b \<le> a" "a \<le> a" "a \<le> b \<or> b \<le> a"
    by (auto simp: less_eq_quota_tone_def less_quota_tone_def)
  show "a \<le> b \<Longrightarrow> b \<le> c \<Longrightarrow> a \<le> c" by (simp add: less_eq_quota_tone_def)
  show "a \<le> b \<Longrightarrow> b \<le> a \<Longrightarrow> a = b"
    by (cases a; cases b) (simp_all add: less_eq_quota_tone_def)
qed
end

section \<open>Estimates are bounded and grow with the text\<close>

fun char_kinds :: "jsstr \<Rightarrow> bool list" where
  "char_kinds [] = []"
| "char_kinds [c] = [isCJKIdeograph c]"
| "char_kinds (c # d # s) =
     (if high_surrogate c \<and> low_surrogate d then False # char_kinds s else isCJKIdeograph c # char_kinds (d # s))"

definition cjk_chars :: "jsstr \<Rightarrow> nat" where "cjk_chars s = length (filter id (char_kinds s))"
definition other_chars :: "jsstr \<Rightarrow> nat" where "other_chars s = length (filter Not (char_kinds s))"

lemma high_not_cjk: "high_surrogate c \<Longrightarrow> \<not> isCJKIdeograph c"
  by (auto simp: isCJKIdeograph_def high_surrogate_def word_le_nat_alt)

lemma count_chars_kinds:
  "count_chars s (a, b) = (a + length (filter id (char_kinds s)), b + length (filter Not (char_kinds s)))"
  by (induction s arbitrary: a b rule: char_kinds.induct) auto

lemma ceil_quarter: "nat (math_ceil (of_nat n / 4)) = (n + 3) div 4"
proof -
  have "\<lceil>(of_nat n :: rat) / 4\<rceil> = (int n + 3) div 4"
    using ceiling_divide_eq_div [of "int n" 4] by (simp add: minus_div_mult_eq_mod [symmetric]) linarith
  then show ?thesis by (simp add: math_ceil_def nat_div_distrib nat_add_distrib)
qed

lemma estimate_chars: "estimateTokens (Some s) = cjk_chars s + (other_chars s + 3) div 4"
  by (cases s) (simp_all add: estimateTokens_def cjk_chars_def other_chars_def count_chars_kinds ceil_quarter Let_def)

lemma chars_le_length: "cjk_chars s + other_chars s \<le> length s"
  by (induction s rule: char_kinds.induct) (auto simp: cjk_chars_def other_chars_def)

lemma chars_pos: "s \<noteq> [] \<Longrightarrow> 0 < cjk_chars s + other_chars s"
  by (cases s rule: char_kinds.cases) (auto simp: cjk_chars_def other_chars_def)

lemma chars_append: "cjk_chars s \<le> cjk_chars (s @ t) \<and> other_chars s \<le> other_chars (s @ t)"
proof (induction s rule: char_kinds.induct)
  case 1
  show ?case by (simp add: cjk_chars_def other_chars_def)
next
  case (2 c)
  show ?case using high_not_cjk [of c] by (cases t) (auto simp: cjk_chars_def other_chars_def)
next
  case (3 c d s)
  then show ?case by (auto simp: cjk_chars_def other_chars_def)
qed

text \<open>
  The token estimate of a message is at least one and at most the number of its code units, and
  while an answer streams in it never goes down.\<close>

theorem estimate_bounds:
  assumes "answer \<noteq> []"
  shows "1 \<le> estimateTokens (Some answer) \<and> estimateTokens (Some answer) \<le> length answer \<and>
     estimateTokens (Some answer) \<le> estimateTokens (Some (answer @ delta))"
proof -
  have "(other_chars answer + 3) div 4 \<le> (other_chars (answer @ delta) + 3) div 4"
    using chars_append [of answer delta] by (intro div_le_mono) simp
  then show ?thesis
    using chars_pos [OF assms] chars_le_length [of answer] chars_append [of answer delta]
    unfolding estimate_chars by auto
qed

lemma estimate_bounds_witness:
  "1 \<le> estimateTokens (Some (js ''Hello'')) \<and> estimateTokens (Some (js ''Hello'')) \<le> 5 \<and>
   estimateTokens (Some (js ''Hello'')) \<le> estimateTokens (Some (js ''Hello'' @ [0x4F60, 0x597D]))"
  using estimate_bounds [of "js ''Hello''" "[0x4F60, 0x597D]"] by simp

section \<open>The shape of an export\<close>

lemma squeeze_no_triple: "k \<le> 2 \<Longrightarrow> \<not> str_includes [10, 10, 10] (replicate k 10 @ squeeze k s)"
proof (induction k s rule: squeeze.induct)
  case (1 k)
  then consider "k = 0" | "k = 1" | "k = 2" by linarith
  then show ?case by cases (simp_all add: starts_with_def numeral_2_eq_2)
next
  case (2 k c s)
  show ?case
  proof (cases "c = 10")
    case True
    have eq: "replicate k 10 @ 10 # t = replicate (Suc k) 10 @ t" for t :: jsstr
      by (simp add: replicate_app_Cons_same)
    show ?thesis
    proof (cases "k < 2")
      case k: True
      then have "\<not> str_includes [10, 10, 10] (replicate (Suc k) 10 @ squeeze (Suc k) s)" using 2(1) True by simp
      then show ?thesis using True k unfolding eq [symmetric] by simp
    next
      case False
      then show ?thesis using 2(2,4) True by simp
    qed
  next
    case False
    have zero: "\<not> str_includes [10, 10, 10] (squeeze 0 s)" using 2(3) False by simp
    consider "k = 0" | "k = 1" | "k = 2" using 2(4) by linarith
    then show ?thesis using zero False
      by cases (simp_all add: starts_with_def numeral_2_eq_2)
  qed
qed

lemma str_includes_prefix: "str_includes p a \<Longrightarrow> str_includes p (a @ b)"
  by (auto simp: str_includes_iff) (metis append_assoc)

lemma trim_end_prefix: "\<exists>b. s = trim_end s @ b"
  unfolding trim_end_def by (metis rev_append rev_rev_ident takeWhile_dropWhile_id)

lemma trim_end_last: "trim_end s \<noteq> [] \<Longrightarrow> \<not> is_space (last (trim_end s))"
  unfolding trim_end_def using hd_dropWhile [of is_space "rev s"] by (simp add: last_rev)

lemma includes_snoc:
  "str_includes p (t @ [c]) \<Longrightarrow> p \<noteq> [] \<Longrightarrow> str_includes p t \<or> (\<exists>a. t @ [c] = a @ p)"
  by (auto simp: str_includes_iff) (metis append.assoc butlast_append butlast_snoc self_append_conv)

text \<open>
  A Markdown export never holds more than one blank line in a row and ends with exactly one line
  break.\<close>

theorem markdown_shape:
  "\<not> str_includes [10, 10, 10] (conversationMarkdown now title messages meta) \<and>
   (\<exists>t. conversationMarkdown now title messages meta = t @ [10] \<and> (t = [] \<or> last t \<noteq> 10))"
proof -
  let ?s = "squeeze 0 (join [10] (markdown_lines now title messages meta))"
  have sp: "is_space 10" by (simp add: is_space_def)
  have last: "trim_end ?s = [] \<or> last (trim_end ?s) \<noteq> 10" using trim_end_last [of ?s] sp by auto
  have "\<not> str_includes [10, 10, 10] ?s" using squeeze_no_triple [of 0] by simp
  then have no: "\<not> str_includes [10, 10, 10] (trim_end ?s)"
    using trim_end_prefix [of ?s] str_includes_prefix by metis
  have "\<not> str_includes [10, 10, 10] (trim_end ?s @ [10])"
  proof
    assume "str_includes [10, 10, 10] (trim_end ?s @ [10])"
    then obtain a where "trim_end ?s @ [10] = a @ [10, 10, 10]" using includes_snoc no by blast
    then have "trim_end ?s = (a @ [10]) @ [10]" by simp
    then show False using last by simp
  qed
  then show ?thesis using last by (auto simp: conversationMarkdown_def)
qed

section \<open>File names\<close>

lemma set_trim: "c \<in> set (trim s) \<Longrightarrow> c \<in> set s"
  unfolding trim_def trim_end_def trim_start_def by (metis set_dropWhileD set_rev)

text \<open>
  The name of an exported file is never empty, has at most 80 units, and holds no character that
  could leave the download directory or that a file system refuses.\<close>

theorem safe_file_name:
  "safeFileName name \<noteq> [] \<and> length (safeFileName name) \<le> 80 \<and> (\<forall>c \<in> set (safeFileName name). \<not> file_unsafe c)"
proof -
  let ?c = "trim (collapse_spaces (List.map (\<lambda>c. if file_unsafe c then 32 else c) name))"
  have space: "\<not> file_unsafe 32" by (simp add: file_unsafe_def)
  have "\<not> file_unsafe c" if "c \<in> set ?c" for c
  proof -
    have "c \<in> set (List.map (\<lambda>c. if file_unsafe c then 32 else c) name) \<or> c = 32"
      using set_collapse_spaces [OF set_trim [OF that]] by simp
    then show ?thesis using space by auto
  qed
  moreover have "list_all (\<lambda>c. \<not> file_unsafe c) (js ''conversation'')" by code_simp
  ultimately have all: "\<forall>c \<in> set (or_str ?c (js ''conversation'')). \<not> file_unsafe c"
    by (auto simp: or_str_def list_all_iff)
  show ?thesis
    using all by (auto simp: safeFileName_def Let_def dest: in_set_takeD)
qed

theorem safe_file_name_witness: "length (safeFileName (js ''a/b'')) \<le> 80 \<and> list_all (\<lambda>c. \<not> file_unsafe c) (safeFileName (js ''a/b''))"
  using safe_file_name [of "js ''a/b''"] by (simp add: list_all_iff)

section \<open>Identifiers\<close>

text \<open>
  The identifier of a target names one workspace of one account: different pairs never share an
  identifier, whatever characters the email and the workspace hold.\<close>

theorem targetID_inject: "targetID e w = targetID e' w' \<longleftrightarrow> e = e' \<and> w = w'"
  using stringify_inject [of "JArr [JStr e, JStr w]" "JArr [JStr e', JStr w']"]
  by (auto simp: targetID_def)

section \<open>Quota\<close>

lemma remaining_mono:
  assumes "0 < l" and "u \<le> v"
  shows "fl_mul (fl_div (fl_sub l v) l) 100 \<le> fl_mul (fl_div (fl_sub l u) l) 100"
proof -
  have "fl_sub l v \<le> fl_sub l u" unfolding fl_sub_def using assms(2) by (intro double_of_mono) simp
  then have "fl_sub l v / l \<le> fl_sub l u / l" using assms(1) by (intro divide_right_mono) auto
  then have "fl_div (fl_sub l v) l \<le> fl_div (fl_sub l u) l" unfolding fl_div_def by (rule double_of_mono)
  then show ?thesis unfolding fl_mul_def by (intro double_of_mono) simp
qed

lemma quotaTone_mono: "p \<le> q \<Longrightarrow> quotaTone p \<le> quotaTone q"
  by (simp add: quotaTone_def less_eq_quota_tone_def)

text \<open>
  For a window with a positive limit the indicator lies between 0 and 100, shows 0 once the limit
  is used up, and, rounding errors included, never rises (and its tone never improves) when more has
  been used.\<close>

theorem quota_indicator:
  assumes "0 < rw_limit w" and "rw_used w \<le> rw_used v" and "rw_limit v = rw_limit w"
  shows "\<exists>p q. quotaRemainingPercent (Some w) = Some p \<and> quotaRemainingPercent (Some v) = Some q \<and>
     0 \<le> q \<and> q \<le> p \<and> p \<le> 100 \<and> quotaTone q \<le> quotaTone p \<and> (rw_limit v \<le> rw_used v \<longrightarrow> q = 0)"
proof -
  define f where "f u = max 0 (min 100 (math_round (fl_mul (fl_div (fl_sub (rw_limit w) u) (rw_limit w)) 100)))" for u
  have eq: "quotaRemainingPercent (Some w) = Some (f (rw_used w))" "quotaRemainingPercent (Some v) = Some (f (rw_used v))"
    using assms by (simp_all add: quotaRemainingPercent_def f_def)
  have "math_round (fl_mul (fl_div (fl_sub (rw_limit w) (rw_used v)) (rw_limit w)) 100) \<le>
      math_round (fl_mul (fl_div (fl_sub (rw_limit w) (rw_used w)) (rw_limit w)) 100)"
    by (rule math_round_mono) (rule remaining_mono [OF assms(1,2)])
  then have le: "f (rw_used v) \<le> f (rw_used w)" by (simp add: f_def)
  have zero: "f (rw_used v) = 0" if "rw_limit v \<le> rw_used v"
  proof -
    have "fl_sub (rw_limit w) (rw_used v) \<le> 0"
      unfolding fl_sub_def using that assms(3) by (intro double_of_nonpos) simp
    then have "fl_div (fl_sub (rw_limit w) (rw_used v)) (rw_limit w) \<le> 0"
      unfolding fl_div_def using assms(1) by (intro double_of_nonpos) (simp add: divide_le_0_iff)
    then have "fl_mul (fl_div (fl_sub (rw_limit w) (rw_used v)) (rw_limit w)) 100 \<le> 0"
      unfolding fl_mul_def by (intro double_of_nonpos) simp
    then show ?thesis using math_round_nonpos [of "fl_mul (fl_div (fl_sub (rw_limit w) (rw_used v)) (rw_limit w)) 100"]
      by (simp add: f_def)
  qed
  show ?thesis
    using eq le zero quotaTone_mono [OF le] by (intro exI [of _ "f (rw_used w)"] exI [of _ "f (rw_used v)"]) (auto simp: f_def)
qed

definition usage_window :: "jsnum \<Rightarrow> rate_limit_window" where
  "usage_window u = \<lparr>rw_resets_at_ms = None, rw_label = None, rw_credit_type = None, rw_scope = None,
     rw_cadence = None, rw_used = u, rw_limit = 300, rw_period_end_ms = None\<rparr>"

lemma quota_indicator_witness:
  "\<exists>p q. quotaRemainingPercent (Some (usage_window 100)) = Some p \<and>
     quotaRemainingPercent (Some (usage_window 310)) = Some q \<and> q = 0 \<and> q \<le> p \<and> p \<le> 100 \<and> quotaTone q \<le> quotaTone p"
  using quota_indicator [of "usage_window 100" "usage_window 310"] by (auto simp: usage_window_def)

end
