(* ===== verification/Chat_Targets.thy ===== *)
theory Chat_Targets imports Chat_Text begin

text \<open>
  The values \<open>ChatWorkspace\<close> derives from its properties on every render
  (\<open>components/admin/chat-workspace.tsx\<close>): the workspaces a turn can use, the models on offer, the
  filtered history and the workspace the quota indicator follows.
\<close>

record chat_target =
  ct_id :: jsstr
  ct_email :: jsstr
  ct_workspace :: jsstr
  ct_name :: jsstr
  ct_tier :: jsstr
  ct_capability :: "model_capabilities option"
  ct_disabled :: bool
  ct_eligible :: bool

definition workspace_target :: "account_item \<Rightarrow> workspace_item \<Rightarrow> chat_target" where
  "workspace_target account workspace =
     \<lparr>ct_id = targetID (opt_str (acct_email account)) (ws_id workspace),
      ct_email = opt_str (acct_email account), ct_workspace = ws_id workspace,
      ct_name = or_str (opt_str (ws_name workspace)) (ws_id workspace),
      ct_tier = or_str (opt_str (or_opt (ws_subscription_tier workspace) (ws_plan_type workspace))) txt_tier_unknown,
      ct_capability = ws_model_capabilities workspace,
      ct_disabled = opt_true (acct_disabled account),
      ct_eligible = (\<not> opt_true (acct_disabled account) \<and> opt_true (ws_eligible workspace))\<rparr>"

definition allTargets :: "account_item list \<Rightarrow> chat_target list" where
  "allTargets accounts =
     concat (List.map (\<lambda>account. List.map (workspace_target account) (opt_list (acct_workspaces account))) accounts)"

definition eligible_targets :: "account_item list \<Rightarrow> chat_target list" where
  "eligible_targets accounts = filter ct_eligible (allTargets accounts)"

definition auto :: jsstr where "auto = js ''auto''"

definition selectedTarget :: "account_item list \<Rightarrow> jsstr \<Rightarrow> chat_target option" where
  "selectedTarget accounts target = List.find (\<lambda>item. ct_id item = target) (eligible_targets accounts)"

definition boundTarget :: "account_item list \<Rightarrow> jsstr \<Rightarrow> chat_target option" where
  "boundTarget accounts target = List.find (\<lambda>item. ct_id item = target) (allTargets accounts)"

definition modelTargets :: "account_item list \<Rightarrow> jsstr \<Rightarrow> chat_target list" where
  "modelTargets accounts target =
     (if target = auto then eligible_targets accounts
      else case boundTarget accounts target of Some b \<Rightarrow> [b] | None \<Rightarrow> [])"

definition manual_models :: "chat_target \<Rightarrow> model_item list" where
  "manual_models item = (case ct_capability item of
     Some c \<Rightarrow> if mc_mode c = Manual then opt_list (mc_models c) else []
   | None \<Rightarrow> [])"

definition offered :: "model_item list \<Rightarrow> model_item \<Rightarrow> bool" where
  "offered models item \<longleftrightarrow> mi_enabled item \<noteq> Some False \<and> mi_id item \<noteq> auto \<and>
     Option.bind (List.find (\<lambda>model. mi_id model = mi_id item) models) mi_enabled \<noteq> Some False"

definition auto_model :: model_item where
  "auto_model = no_model_item\<lparr>mi_id := auto, mi_name := Some (js ''Auto'')\<rparr>"

definition availableModels :: "model_item list \<Rightarrow> account_item list \<Rightarrow> jsstr \<Rightarrow> model_item list" where
  "availableModels models accounts target =
     auto_model # js_map_values (List.map (\<lambda>item. (mi_id item, item))
       (filter (offered models) (concat (List.map manual_models (modelTargets accounts target)))))"

definition modelCatalog :: "model_item list \<Rightarrow> account_item list \<Rightarrow> model_item list" where
  "modelCatalog models accounts =
     models @ concat (List.map (\<lambda>item. case ct_capability item of None \<Rightarrow> []
       | Some c \<Rightarrow> opt_list (mc_models c) @ opt_list (mc_catalog c)) (allTargets accounts))"

definition autoOnly :: "account_item list \<Rightarrow> jsstr \<Rightarrow> bool" where
  "autoOnly accounts target \<longleftrightarrow>
     map_option mc_mode (Option.bind (boundTarget accounts target) ct_capability) = Some Auto_only"

definition history_text :: "conversation_summary \<Rightarrow> jsstr" where
  "history_text item = or_str (opt_str (or_opt (cv_title item) (or_opt (cv_preview item) (cv_request_prompt item)))) txt_new_conversation"

definition history :: "conversation_summary list \<Rightarrow> jsstr \<Rightarrow> conversation_summary list" where
  "history conversations flt = filter (\<lambda>item. str_includes (to_lower flt) (to_lower (history_text item))) conversations"

definition conversationLabel :: "conversation_summary \<Rightarrow> jsstr" where
  "conversationLabel item =
     or_str (opt_str (or_opt (cv_title item) (or_opt (cv_request_prompt item) (cv_preview item)))) txt_new_conversation"

definition effectiveWorkspace :: "account_item list \<Rightarrow> jsstr \<Rightarrow> chat_target option" where
  "effectiveWorkspace accounts target = (if target = auto then None else boundTarget accounts target)"

definition workspace_key :: "chat_target option \<Rightarrow> jsstr" where
  "workspace_key w = (case w of None \<Rightarrow> [] | Some t \<Rightarrow> ct_email t @ [0] @ ct_workspace t)"

definition policyWorkspace :: "account_item list \<Rightarrow> jsstr \<Rightarrow> jsstr \<Rightarrow> chat_target option" where
  "policyWorkspace accounts policyTarget target =
     (case List.find (\<lambda>item. ct_id item = policyTarget) (eligible_targets accounts) of
        Some t \<Rightarrow> Some t
      | None \<Rightarrow> (case effectiveWorkspace accounts target of Some t \<Rightarrow> Some t
          | None \<Rightarrow> (case eligible_targets accounts of [] \<Rightarrow> None | t # _ \<Rightarrow> Some t)))"

definition inputTokens :: "conversation_message list \<Rightarrow> nat" where
  "inputTokens messages = sum_list (List.map (\<lambda>m. estimateTokens (cm_content m)) (filter (\<lambda>m. cm_role m = Some (js ''user'')) messages))"

definition outputTokens :: "conversation_message list \<Rightarrow> nat" where
  "outputTokens messages = sum_list (List.map (\<lambda>m. estimateTokens (cm_content m)) (filter (\<lambda>m. cm_role m = Some (js ''assistant'')) messages))"

section \<open>The models on offer\<close>

lemma map_of_rev_mem: "k \<in> fst ` set es \<Longrightarrow> \<exists>v. map_of (rev es) k = Some v \<and> (k, v) \<in> set es"
proof -
  assume "k \<in> fst ` set es"
  then have "k \<in> fst ` set (rev es)" by simp
  then obtain v where "map_of (rev es) k = Some v" by (metis domD dom_map_of_conv_image_fst)
  then show ?thesis using map_of_SomeD by fastforce
qed

lemma set_js_map_values: "set (js_map_values es) \<subseteq> snd ` set es"
proof
  fix v
  assume "v \<in> set (js_map_values es)"
  then obtain k where "map_of (rev es) k = Some v"
    by (auto simp: js_map_values_def List.map_filter_def)
  then show "v \<in> snd ` set es" by (force dest: map_of_SomeD)
qed

lemma js_map_values_keys:
  assumes "\<forall>(k, v) \<in> set es. key v = k"
  shows "List.map key (js_map_values es) = js_unique (List.map fst es)"
proof -
  have "List.map key (List.map_filter (map_of (rev es)) ks) = ks" if "set ks \<subseteq> fst ` set es" for ks
    using that
  proof (induction ks)
    case Nil
    show ?case by (simp add: map_filter_simps)
  next
    case (Cons k ks)
    then obtain v where "map_of (rev es) k = Some v" "(k, v) \<in> set es" using map_of_rev_mem [of k es] by auto
    then show ?case using Cons assms by (auto simp: map_filter_simps)
  qed
  then show ?thesis by (simp add: js_map_values_def)
qed


definition one_workspace :: "account_item list" where
  "one_workspace = [no_account_item\<lparr>acct_email := Some (js ''a@b''), acct_workspaces := Some
     [no_workspace_item\<lparr>ws_id := js ''w'', ws_eligible := Some True,
        ws_model_capabilities := Some \<lparr>mc_mode = Manual, mc_checked_at = None,
          mc_models = Some [no_model_item\<lparr>mi_id := js ''m''\<rparr>, no_model_item\<lparr>mi_id := js ''n'', mi_enabled := Some False\<rparr>],
          mc_catalog = None\<rparr>\<rparr>]\<rparr>]"


end
