(* ===== verification/Chat_Quota.thy ===== *)
theory Chat_Quota imports Chat_Targets Admin_Service Interfaces begin

text \<open>
  The quota indicator of the chat (\<open>components/admin/chat-workspace.tsx\<close>: the quota state of
  \<open>ChatWorkspace\<close>, \<open>loadQuotaRows\<close>, \<open>refreshQuota\<close>, \<open>toggleQuota\<close> and the quota effect) and the
  window display (\<open>components/admin/quota-windows.tsx\<close>).

  The effect runs when its dependencies change; \<open>qs_dep\<close> holds those of its last run. Each run has
  a number, and \<open>cancelled\<close> of a run is true once a later run has started, so a reply to an
  earlier run is dropped. Times are milliseconds and an argument, as is the text of a date.
\<close>

section \<open>Quota windows\<close>

definition usedPercent :: "rate_limit_window \<Rightarrow> rat option" where
  "usedPercent w = (if rw_limit w \<le> 0 then None
     else Some (max 0 (min 100 (fl_div (of_int (math_round (fl_mul (fl_div (rw_used w) (rw_limit w)) 10000))) 100))))"

definition present :: "jsnum option \<Rightarrow> bool" where
  "present v = (case v of None \<Rightarrow> False | Some x \<Rightarrow> x \<noteq> 0)"

definition countdown :: "nat \<Rightarrow> jsstr" where
  "countdown seconds =
     (let hours = seconds div 3600; minutes = seconds mod 3600 div 60
      in (if hours \<noteq> 0 then nat_str hours @ txt_hours else []) @
         (if minutes \<noteq> 0 then nat_str minutes @ txt_minutes else if hours \<noteq> 0 then txt_within else txt_under_a_minute) @
         txt_until_reset)"

definition resetLabel :: "(jsnum \<Rightarrow> jsstr) \<Rightarrow> rate_limit_window \<Rightarrow> bool \<Rightarrow> jsnum \<Rightarrow> jsstr" where
  "resetLabel date_text w rolling now =
     (if \<not> rolling then (if present (rw_period_end_ms w) then txt_resets_on @ date_text (the (rw_period_end_ms w)) else txt_reset_unknown)
      else if \<not> present (rw_resets_at_ms w) then
        txt_rolling_window @ or_str (opt_str (rw_label w)) txt_unknown @ txt_reset_not_given
      else (let seconds = nat (math_floor (fl_div (fl_sub (the (rw_resets_at_ms w)) now) 1000))
            in if seconds = 0 then txt_reset_reached else countdown seconds))"

record window_row =
  wr_label :: jsstr
  wr_percent :: "rat option"
  wr_high :: bool
  wr_width :: rat
  wr_reset :: jsstr

definition window_row :: "(jsnum \<Rightarrow> jsstr) \<Rightarrow> jsnum \<Rightarrow> jsstr \<times> rate_limit_window option \<Rightarrow> window_row" where
  "window_row date_text now lw = (case lw of (label, window) \<Rightarrow>
     (let percent = Option.bind window usedPercent
      in \<lparr>wr_label = label, wr_percent = percent,
          wr_high = (case percent of None \<Rightarrow> False | Some p \<Rightarrow> 85 \<le> p),
          wr_width = (case percent of None \<Rightarrow> 0 | Some p \<Rightarrow> p),
          wr_reset = (case window of None \<Rightarrow> txt_window_missing
            | Some w \<Rightarrow> resetLabel date_text w (label = txt_rolling) now)\<rparr>))"

definition QuotaWindows :: "(jsnum \<Rightarrow> jsstr) \<Rightarrow> jsnum \<Rightarrow> ai_usage_report \<Rightarrow> jsstr option \<times> window_row list" where
  "QuotaWindows date_text now report =
     (let rate = Option.bind (ur_usage report) us_rate_limit
      in (if ur_status report \<noteq> js ''ok'' then Some (or_str (opt_str (ur_detail report)) txt_quota_unavailable) else None,
          List.map (window_row date_text now)
            [(txt_rolling, Option.bind rate rl_short), (txt_monthly, Option.bind rate rl_long)]))"

section \<open>State\<close>

datatype quota_task =
    Q_workspace nat bool jsstr \<comment> \<open>number of the run, forced, key\<close>
  | Q_rows "jsstr list" \<comment> \<open>the eligible workspaces when it started\<close>

record quota_state =
  qs_quota :: "ai_usage_report option"
  qs_key :: jsstr
  qs_rows :: "ai_usage_report list option"
  qs_loading :: bool
  qs_rows_loading :: bool
  qs_open :: bool
  qs_error :: jsstr
  qs_revision :: nat
  qs_forced_at :: int
  qs_force_next :: bool
  qs_dep :: "(bool \<times> jsstr \<times> nat) option"
  qs_run :: nat
  qs_tasks :: "quota_task list"

definition initial_quota :: quota_state where
  "initial_quota = \<lparr>qs_quota = None, qs_key = [], qs_rows = None, qs_loading = False, qs_rows_loading = False,
     qs_open = False, qs_error = [], qs_revision = 0, qs_forced_at = 0, qs_force_next = False, qs_dep = None,
     qs_run = 0, qs_tasks = []\<rparr>"

definition QUOTA_FORCE_MIN_INTERVAL_MS :: int where "QUOTA_FORCE_MIN_INTERVAL_MS = 60000"

definition activeQuota :: "jsstr \<Rightarrow> quota_state \<Rightarrow> ai_usage_report option" where
  "activeQuota key s = (if key \<noteq> [] \<and> qs_key s = key then qs_quota s else None)"

definition primaryWindow :: "jsstr \<Rightarrow> quota_state \<Rightarrow> rate_limit_window option" where
  "primaryWindow key s =
     (let rate = Option.bind (Option.bind (activeQuota key s) ur_usage) us_rate_limit
      in nullish (Option.bind rate rl_short) (Option.bind rate rl_long))"

definition primaryPercent :: "jsstr \<Rightarrow> quota_state \<Rightarrow> int option" where
  "primaryPercent key s = quotaRemainingPercent (primaryWindow key s)"

section \<open>Operations\<close>

definition row_key :: "jsstr \<Rightarrow> jsstr \<Rightarrow> jsstr" where "row_key email workspace = email @ [58] @ workspace"

definition loadQuotaRows :: "chat_target list \<Rightarrow> quota_state \<Rightarrow> quota_state" where
  "loadQuotaRows targets s =
     s\<lparr>qs_rows_loading := True, qs_error := [],
       qs_tasks := qs_tasks s @ [Q_rows (List.map (\<lambda>t. row_key (ct_email t) (ct_workspace t)) targets)]\<rparr>"

definition refreshQuota :: "int \<Rightarrow> bool \<Rightarrow> bool \<Rightarrow> chat_target list \<Rightarrow> quota_state \<Rightarrow> quota_state" where
  "refreshQuota now effective is_open targets s =
     (if effective then
        (let s' = (if QUOTA_FORCE_MIN_INTERVAL_MS \<le> now - qs_forced_at s
                   then s\<lparr>qs_forced_at := now, qs_force_next := True\<rparr> else s)
         in s'\<lparr>qs_revision := qs_revision s' + 1\<rparr>)
      else if is_open then loadQuotaRows targets s else s)"

definition toggleQuota :: "bool \<Rightarrow> chat_target list \<Rightarrow> quota_state \<Rightarrow> quota_state" where
  "toggleQuota effective targets s =
     (let s' = s\<lparr>qs_open := \<not> qs_open s\<rparr>
      in if qs_open s' \<and> \<not> effective then loadQuotaRows targets s' else s')"

text \<open>\<open>const [email, workspace] = key.split('\0')\<close>\<close>

definition key_email :: "jsstr \<Rightarrow> jsstr" where "key_email key = hd (split_unit 0 key)"

definition run_quota_effect :: "bool \<Rightarrow> jsstr \<Rightarrow> quota_state \<Rightarrow> quota_state" where
  "run_quota_effect visible key s =
     (if \<not> visible \<or> key = [] then s\<lparr>qs_quota := None\<rparr>
      else if key_email key = [] then s\<lparr>qs_quota := None, qs_loading := False, qs_error := txt_quota_no_email\<rparr>
      else s\<lparr>qs_force_next := False, qs_loading := True, qs_error := [],
             qs_tasks := qs_tasks s @ [Q_workspace (qs_run s) (qs_force_next s) key]\<rparr>)"

definition quota_effect :: "bool \<Rightarrow> jsstr \<Rightarrow> quota_state \<Rightarrow> quota_state" where
  "quota_effect visible key s =
     (let dep = Some (visible, key, qs_revision s) in
      if qs_dep s = dep then s
      else run_quota_effect visible key (s\<lparr>qs_dep := dep, qs_run := qs_run s + 1\<rparr>))"

datatype quota_reply = Got_report ai_usage_report | Got_rows "ai_usage_report list" | Quota_failed failure

fun quota_resume :: "quota_task \<Rightarrow> quota_reply \<Rightarrow> quota_state \<Rightarrow> quota_state" where
  "quota_resume (Q_workspace run force key) (Got_report r) s =
     (if run \<noteq> qs_run s then s
      else (if force \<and> ur_cached r then s\<lparr>qs_forced_at := 0\<rparr> else s)
        \<lparr>qs_quota := Some r, qs_key := key, qs_loading := False\<rparr>)"
| "quota_resume (Q_workspace run force key) (Quota_failed e) s =
     (if run \<noteq> qs_run s then s
      else s\<lparr>qs_error := failure_text e txt_quota_read_failed, qs_loading := False\<rparr>)"
| "quota_resume (Q_rows eligible) (Got_rows rows) s =
     s\<lparr>qs_rows := Some (filter (\<lambda>row. truthy (ur_space_id row) \<and>
         row_key (ur_email row) (opt_str (ur_space_id row)) \<in> set eligible) rows), qs_rows_loading := False\<rparr>"
| "quota_resume (Q_rows eligible) (Quota_failed e) s =
     s\<lparr>qs_error := failure_text e txt_quota_read_failed, qs_rows_loading := False\<rparr>"
| "quota_resume _ _ s = s"

section \<open>Window percentages\<close>

text \<open>
  The used share of a window lies between 0 and 100 and, rounding included, grows with the use.\<close>

theorem used_percent_mono:
  assumes "0 < rw_limit w" and "rw_used w \<le> rw_used v" and "rw_limit v = rw_limit w"
  shows "\<exists>p q. usedPercent w = Some p \<and> usedPercent v = Some q \<and> 0 \<le> p \<and> p \<le> q \<and> q \<le> 100"
proof -
  define f where "f u = max 0 (min 100 (fl_div (of_int (math_round (fl_mul (fl_div u (rw_limit w)) 10000))) 100))" for u
  have "fl_div (rw_used w) (rw_limit w) \<le> fl_div (rw_used v) (rw_limit w)"
    unfolding fl_div_def using assms(1,2) by (intro double_of_mono divide_right_mono) auto
  then have "fl_mul (fl_div (rw_used w) (rw_limit w)) 10000 \<le> fl_mul (fl_div (rw_used v) (rw_limit w)) 10000"
    unfolding fl_mul_def by (intro double_of_mono) simp
  from math_round_mono [OF this]
  have "fl_div (of_int (math_round (fl_mul (fl_div (rw_used w) (rw_limit w)) 10000))) 100 \<le>
      fl_div (of_int (math_round (fl_mul (fl_div (rw_used v) (rw_limit w)) 10000))) 100"
    unfolding fl_div_def [of _ 100] by (intro double_of_mono divide_right_mono) auto
  then have "f (rw_used w) \<le> f (rw_used v)" by (auto simp: f_def)
  moreover have "usedPercent w = Some (f (rw_used w))" "usedPercent v = Some (f (rw_used v))"
    using assms by (simp_all add: usedPercent_def f_def)
  ultimately show ?thesis by (auto simp: f_def)
qed

lemma used_percent_mono_witness:
  "\<exists>p q. usedPercent (usage_window 100) = Some p \<and> usedPercent (usage_window 200) = Some q \<and> 0 \<le> p \<and> p \<le> q \<and> q \<le> 100"
  using used_percent_mono [of "usage_window 100" "usage_window 200"] by (simp add: usage_window_def)

section \<open>The latest run wins\<close>

lemma run_quota_effect_run [simp]: "qs_run (run_quota_effect visible key s) = qs_run s"
  by (simp add: run_quota_effect_def)

definition quota_deliver :: "nat \<Rightarrow> bool \<times> jsstr \<times> quota_reply \<Rightarrow> quota_state \<Rightarrow> quota_state" where
  "quota_deliver run r s = (case r of (force, key, reply) \<Rightarrow> quota_resume (Q_workspace run force key) reply s)"

definition quota_issue :: "bool \<times> jsstr \<Rightarrow> quota_state \<Rightarrow> quota_state" where
  "quota_issue q s = (case q of (visible, key) \<Rightarrow> quota_effect visible key s)"

interpretation quota_requests: latest_wins qs_run quota_issue quota_deliver
proof
  fix q s and n :: nat and r
  show "qs_run s \<le> qs_run (quota_issue q s)"
    by (auto simp: quota_issue_def quota_effect_def Let_def split: prod.splits)
  show "n \<noteq> qs_run s \<Longrightarrow> quota_deliver n r s = s"
    by (cases r; cases "snd (snd r)") (auto simp: quota_deliver_def)
  show "qs_run s \<le> qs_run (quota_deliver n r s)"
    by (cases r; cases "snd (snd r)") (auto simp: quota_deliver_def)
qed

lemma deliveries_eq:
  "(\<lambda>(run, force, k, reply). quota_resume (Q_workspace run force k) reply) = (\<lambda>(n, r). quota_deliver n r)"
  by (auto simp: fun_eq_iff quota_deliver_def)

lemma superseded_replies:
  assumes "qs_dep s \<noteq> Some (visible, key, qs_revision s)" and "\<forall>(run, r) \<in> set replies. run \<le> qs_run s"
  shows "fold (\<lambda>(run, force, k, reply). quota_resume (Q_workspace run force k) reply) replies (quota_effect visible key s) =
    quota_effect visible key s"
proof -
  have "qs_run s < qs_run (quota_issue (visible, key) s)"
    using assms(1) by (auto simp: quota_issue_def quota_effect_def Let_def)
  from quota_requests.superseded_ignored [OF this assms(2)]
  show ?thesis by (simp add: quota_requests.deliver_all_def quota_issue_def deliveries_eq)
qed

text \<open>
  C31. Switching workspaces never shows one workspace's numbers under another's name: once the effect
  has run for a new key, replies to any earlier reads, however many and in whatever order, change
  nothing, and a report is shown for a key only if it was read for that key.\<close>

theorem quota_of_other_workspace_dropped:
  assumes "qs_dep s \<noteq> Some (visible, key, qs_revision s)"
    and "\<forall>(run, r) \<in> set replies. run \<le> qs_run s"
  shows "fold (\<lambda>(run, force, k, reply). quota_resume (Q_workspace run force k) reply) replies (quota_effect visible key s) =
       quota_effect visible key s \<and>
     (\<forall>run force k r. activeQuota key (quota_resume (Q_workspace run force k) (Got_report r) (quota_effect visible key s)) = Some r \<longrightarrow>
       k = key \<or> activeQuota key (quota_effect visible key s) = Some r)"
proof
  show "fold (\<lambda>(run, force, k, reply). quota_resume (Q_workspace run force k) reply) replies (quota_effect visible key s) =
      quota_effect visible key s"
    by (rule superseded_replies [OF assms])
  show "\<forall>run force k r. activeQuota key (quota_resume (Q_workspace run force k) (Got_report r) (quota_effect visible key s)) = Some r \<longrightarrow>
      k = key \<or> activeQuota key (quota_effect visible key s) = Some r"
    by (auto simp: activeQuota_def)
qed

definition watching :: quota_state where
  "watching = quota_effect True (js ''a'' @ [0] @ js ''w'') initial_quota"

definition ok_report :: ai_usage_report where
  "ok_report = \<lparr>ur_email = js ''a'', ur_space_id = Some (js ''w''), ur_workspace_name = None, ur_status = js ''ok'',
     ur_detail = None, ur_cached = False, ur_fetched_at = None, ur_usage = None\<rparr>"

lemma quota_of_other_workspace_dropped_witness:
  "quota_resume (Q_workspace 1 False (js ''a'' @ [0] @ js ''w'')) (Got_report ok_report)
     (quota_effect True (js ''b'' @ [0] @ js ''w'') watching) = quota_effect True (js ''b'' @ [0] @ js ''w'') watching"
proof -
  have "qs_dep watching \<noteq> Some (True, js ''b'' @ [0] @ js ''w'', qs_revision watching)" "qs_run watching = 1"
    by code_simp+
  with quota_of_other_workspace_dropped [of watching True "js ''b'' @ [0] @ js ''w''"
      "[(1, False, js ''a'' @ [0] @ js ''w'', Got_report ok_report)]"]
  show ?thesis by simp
qed

section \<open>Forced reads\<close>



section \<open>A flag that stays set\<close>

text \<open>
  When the target is switched to Auto while a workspace read is in flight, the loading flag stays
  set: the effect cancels the read without resetting it, the cancelled reply does not reset it either,
  and no further event of the Auto mode does. The refresh button, disabled while the flag is set,
  cannot be used until a workspace is selected again.\<close>

theorem quota_loading_sticks:
  assumes "qs_loading s" and "qs_dep s \<noteq> Some (visible, [], qs_revision s)"
    and "\<forall>(run, force, key, reply) \<in> set replies. run \<le> qs_run s"
  shows "qs_loading (fold (\<lambda>(run, force, k, reply). quota_resume (Q_workspace run force k) reply) replies
       (quota_effect visible [] s)) \<and>
     qs_loading (refreshQuota now False p ts (quota_effect visible [] s)) \<and>
     qs_loading (toggleQuota False ts (quota_effect visible [] s))"
proof -
  have "\<forall>(run, r) \<in> set replies. run \<le> qs_run s" using assms(3) by auto
  then have "fold (\<lambda>(run, force, k, reply). quota_resume (Q_workspace run force k) reply) replies (quota_effect visible [] s) =
      quota_effect visible [] s"
    by (rule superseded_replies [OF assms(2)])
  then show ?thesis
    using assms(1) by (auto simp: quota_effect_def run_quota_effect_def refreshQuota_def toggleQuota_def
        loadQuotaRows_def Let_def)
qed

lemma quota_loading_sticks_witness:
  "qs_loading (quota_resume (Q_workspace 1 False (js ''a'' @ [0] @ js ''w'')) (Got_report ok_report) (quota_effect True [] watching))"
proof -
  have "qs_loading watching" "qs_dep watching \<noteq> Some (True, [], qs_revision watching)" "qs_run watching = 1"
    by code_simp+
  with quota_loading_sticks [of watching True "[(1, False, js ''a'' @ [0] @ js ''w'', Got_report ok_report)]"]
  show ?thesis by simp
qed

end
