(* ===== verification/Chat_Files.thy ===== *)
theory Chat_Files imports Chat_Text begin

text \<open>
  Attachments of a chat turn (\<open>components/admin/chat-workspace.tsx\<close>): the one function through
  which the picker, a drop and a paste add files, and the counter that keeps the drop overlay steady.
\<close>

section \<open>Adding files\<close>

definition file_budget :: int where
  "file_budget = MAX_REQUEST_BODY_BYTES - JSON_ENVELOPE_BYTES"

definition file_key :: "js_file \<Rightarrow> jsstr" where
  "file_key f = file_name f @ [0] @ nat_str (file_size f)"

definition encoded_total :: "js_file list \<Rightarrow> int" where
  "encoded_total fs = fold (\<lambda>f total. total + encodedAttachmentBytes f) fs 0"

text \<open>The variables of the loop in \<open>addFiles\<close>.\<close>

record file_scan =
  fs_accepted :: "js_file list"
  fs_rejected :: "jsstr list"
  fs_seen :: "jsstr list"
  fs_total :: int

definition too_large_notice :: "js_file \<Rightarrow> jsstr" where
  "too_large_notice f = file_name f @ txt_open_paren @ formatBytes (file_size f) @ txt_limit_about @
     formatBytes (nat (math_round (fl_div (of_int (file_budget * 3)) 4))) @ txt_close_paren"

definition scan_file :: "js_file \<Rightarrow> file_scan \<Rightarrow> file_scan" where
  "scan_file f s =
     (if file_size f = 0 then s\<lparr>fs_rejected := fs_rejected s @ [or_str (file_name f) txt_unnamed_file @ txt_empty_file]\<rparr>
      else if file_key f \<in> set (fs_seen s) then s
      else (let size = encodedAttachmentBytes f in
        if fs_total s + size > file_budget then s\<lparr>fs_rejected := fs_rejected s @ [too_large_notice f]\<rparr>
        else s\<lparr>fs_accepted := fs_accepted s @ [f], fs_seen := fs_seen s @ [file_key f],
               fs_total := fs_total s + size\<rparr>))"

definition start_scan :: "js_file list \<Rightarrow> file_scan" where
  "start_scan files = \<lparr>fs_accepted = [], fs_rejected = [], fs_seen = List.map file_key files,
     fs_total = encoded_total files\<rparr>"

text \<open>The files after the call, and the notices it shows.\<close>

definition addFiles :: "bool \<Rightarrow> js_file list \<Rightarrow> js_file list \<Rightarrow> js_file list \<times> toast list" where
  "addFiles running files incoming =
     (if incoming = [] then (files, [])
      else if running then (files, [Toast_info txt_busy_no_files])
      else (let s = fold scan_file incoming (start_scan files)
            in (files @ fs_accepted s,
                if fs_rejected s = [] then []
                else [Toast_error (txt_skipped @ nat_str (length (fs_rejected s)) @ txt_files_colon @
                        join txt_semicolon (fs_rejected s))])))"

section \<open>The drop overlay\<close>

record drag =
  dg_depth :: int
  dg_dragging :: bool

datatype drag_event = Drag_enter bool | Drag_over bool | Drag_leave | Drop bool \<comment> \<open>whether the transfer holds files\<close>

definition onDragEnter :: "bool \<Rightarrow> drag \<Rightarrow> drag" where
  "onDragEnter has_files d = (if \<not> has_files then d else d\<lparr>dg_depth := dg_depth d + 1, dg_dragging := True\<rparr>)"

definition onDragLeave :: "drag \<Rightarrow> drag" where
  "onDragLeave d = (let depth = max 0 (dg_depth d - 1)
     in d\<lparr>dg_depth := depth, dg_dragging := (if depth = 0 then False else dg_dragging d)\<rparr>)"

definition onDrop_overlay :: "bool \<Rightarrow> drag \<Rightarrow> drag" where
  "onDrop_overlay has_files d = (if \<not> has_files then d else d\<lparr>dg_depth := 0, dg_dragging := False\<rparr>)"

fun drag_step :: "drag_event \<Rightarrow> drag \<Rightarrow> drag" where
  "drag_step (Drag_enter h) d = onDragEnter h d"
| "drag_step (Drag_over h) d = d"
| "drag_step Drag_leave d = onDragLeave d"
| "drag_step (Drop h) d = onDrop_overlay h d"

definition no_drag :: drag where "no_drag = \<lparr>dg_depth = 0, dg_dragging = False\<rparr>"

section \<open>The size budget\<close>

lemma encoded_total_append: "encoded_total (fs @ [f]) = encoded_total fs + encodedAttachmentBytes f"
  by (simp add: encoded_total_def)

lemma encoded_pos: "0 \<le> encodedAttachmentBytes f"
proof -
  have "0 \<le> fl_div (of_nat (file_size f * 4)) 3" unfolding fl_div_def by (intro double_of_nonneg) simp
  then show ?thesis by (simp add: encodedAttachmentBytes_def math_ceil_def BASE64_PREFIX_BYTES_def)
qed

text \<open>What holds before every round of the loop; \<open>gs\<close> are the incoming files seen so far.\<close>

definition scan_ok :: "js_file list \<Rightarrow> js_file list \<Rightarrow> file_scan \<Rightarrow> bool" where
  "scan_ok files gs s \<longleftrightarrow>
     fs_total s = encoded_total (files @ fs_accepted s) \<and>
     (encoded_total files \<le> file_budget \<longrightarrow> fs_total s \<le> file_budget) \<and>
     fs_seen s = List.map file_key (files @ fs_accepted s) \<and>
     (distinct (List.map file_key files) \<longrightarrow> distinct (List.map file_key (files @ fs_accepted s))) \<and>
     (\<forall>f \<in> set (fs_accepted s). f \<in> set gs \<and> 0 < file_size f) \<and>
     (\<forall>g \<in> set gs. file_key g \<in> set (fs_seen s) \<or> fs_rejected s \<noteq> []) \<and>
     length (fs_rejected s) \<le> length gs"

lemma scan_ok_start: "scan_ok files [] (start_scan files)"
  by (simp add: scan_ok_def start_scan_def)

lemma scan_ok_step: "scan_ok files gs s \<Longrightarrow> scan_ok files (gs @ [g]) (scan_file g s)"
  using encoded_total_append [of "files @ fs_accepted s" g]
  by (auto simp: scan_ok_def scan_file_def Let_def)

lemma scan_ok_fold: "scan_ok files gs s \<Longrightarrow> scan_ok files (gs @ incoming) (fold scan_file incoming s)"
proof (induction incoming arbitrary: gs s)
  case Nil
  then show ?case by simp
next
  case (Cons g incoming)
  then have "scan_ok files ((gs @ [g]) @ incoming) (fold scan_file incoming (scan_file g s))"
    by (intro Cons.IH scan_ok_step)
  then show ?case by simp
qed

text \<open>
  C32. Adding files keeps the composer within what one request can carry: a list that fits the budget
  still fits, the files already chosen stay in front, no file is listed twice, every file added is one
  of the incoming ones and not empty, and if any incoming file is missing from the list a notice
  says so.\<close>

theorem add_files_ok:
  assumes "addFiles False files incoming = (files', notices)"
    and "encoded_total files \<le> file_budget" and "distinct (List.map file_key files)"
  shows "encoded_total files' \<le> file_budget \<and> distinct (List.map file_key files') \<and>
     (\<exists>added. files' = files @ added \<and> (\<forall>f \<in> set added. f \<in> set incoming \<and> 0 < file_size f)) \<and>
     ((\<exists>g \<in> set incoming. file_key g \<notin> file_key ` set files') \<longrightarrow> notices \<noteq> [])"
proof (cases "incoming = []")
  case True
  then show ?thesis using assms by (simp add: addFiles_def)
next
  case False
  let ?s = "fold scan_file incoming (start_scan files)"
  have ok: "scan_ok files incoming ?s" using scan_ok_fold [OF scan_ok_start, of files incoming] by simp
  have files': "files' = files @ fs_accepted ?s" and notices: "notices = [] \<longleftrightarrow> fs_rejected ?s = []"
    using assms(1) False by (auto simp: addFiles_def Let_def split: if_splits)
  have "encoded_total files' \<le> file_budget" "distinct (List.map file_key files')"
    using ok assms(2,3) by (simp_all add: scan_ok_def files')
  moreover have "\<exists>added. files' = files @ added \<and> (\<forall>f \<in> set added. f \<in> set incoming \<and> 0 < file_size f)"
    using ok by (auto simp: scan_ok_def files')
  moreover have "(\<exists>g \<in> set incoming. file_key g \<notin> file_key ` set files') \<longrightarrow> notices \<noteq> []"
    using ok unfolding scan_ok_def notices files' by (metis image_set)
  ultimately show ?thesis by blast
qed

definition small_file :: js_file where
  "small_file = \<lparr>file_name = js ''a.txt'', file_type = js ''text/plain'', file_size = 9\<rparr>"

definition void_file :: js_file where
  "void_file = \<lparr>file_name = js ''b.bin'', file_type = [], file_size = 0\<rparr>"

lemma small_and_void: "fst (addFiles False [] [small_file, void_file, small_file]) = [small_file]"
  by code_simp

lemma add_files_ok_witness:
  "encoded_total [small_file] \<le> file_budget \<and> snd (addFiles False [] [small_file, void_file, small_file]) \<noteq> []"
proof -
  obtain notices where run: "addFiles False [] [small_file, void_file, small_file] = ([small_file], notices)"
    using small_and_void by (metis prod.collapse)
  have "encoded_total [] \<le> file_budget" by code_simp
  moreover have "file_key void_file \<noteq> file_key small_file" by code_simp
  ultimately show ?thesis using add_files_ok [OF run] run by auto
qed

section \<open>The overlay follows the counter\<close>

lemma drag_step_ok:
  "0 \<le> dg_depth d \<and> (dg_dragging d \<longleftrightarrow> 0 < dg_depth d) \<Longrightarrow>
   0 \<le> dg_depth (drag_step e d) \<and> (dg_dragging (drag_step e d) \<longleftrightarrow> 0 < dg_depth (drag_step e d))"
  by (cases e) (auto simp: onDragEnter_def onDragLeave_def onDrop_overlay_def Let_def)

text \<open>
  After any sequence of drag events the drop overlay is shown exactly while the pointer is inside
  at least one element, and a drop of files always hides it.\<close>

theorem drag_overlay:
  "(dg_dragging (fold drag_step es no_drag) \<longleftrightarrow> 0 < dg_depth (fold drag_step es no_drag)) \<and>
   \<not> dg_dragging (drag_step (Drop True) (fold drag_step es no_drag))"
proof -
  have "0 \<le> dg_depth (fold drag_step es d) \<and> (dg_dragging (fold drag_step es d) \<longleftrightarrow> 0 < dg_depth (fold drag_step es d))"
    if "0 \<le> dg_depth d \<and> (dg_dragging d \<longleftrightarrow> 0 < dg_depth d)" for d
    using that
  proof (induction es arbitrary: d)
    case (Cons e es)
    show ?case using Cons.IH [OF drag_step_ok [OF Cons.prems]] by simp
  qed simp
  from this [of no_drag] show ?thesis by (simp add: no_drag_def onDrop_overlay_def)
qed

end
