(* ===== verification/Chat_Workspace.thy ===== *)
theory Chat_Workspace imports Chat_Quota Chat_Files begin

text \<open>
  The chat (\<open>ChatWorkspace\<close> in \<open>components/admin/chat-workspace.tsx\<close>): the state of the component
  with its refs, every handler, what each does after an \<open>await\<close>, and the effects.

  A handler runs to its next \<open>await\<close> and leaves a \<open>chat_task\<close>, which carries the values the
  handler's closure has captured; \<open>chat_resume\<close> continues it with the reply. \<open>chat_commit\<close> is the
  effects after a render. \<open>abortRef\<close> is \<open>Some aborted\<close> while a run is out. Identifiers from the
  random source, times and answers of \<open>window.confirm\<close> are arguments.
\<close>

section \<open>State\<close>

record chat_props =
  cp_models :: "model_item list"
  cp_conversations :: "conversation_summary list"
  cp_accounts :: "account_item list"
  cp_visible :: bool
  cp_initial :: "jsstr option"

text \<open>What the closure of \<open>performRun\<close> holds.\<close>

record chat_run =
  rn_prompt :: jsstr
  rn_files :: "js_file list"
  rn_id :: jsstr
  rn_answer :: jsstr
  rn_fresh :: bool
  rn_model :: jsstr
  rn_web :: bool
  rn_selected :: "chat_target option"
  rn_effective :: bool
  rn_quota_open :: bool
  rn_targets :: "chat_target list"

datatype chat_task =
    K_load nat jsstr jsstr bool "jsstr list" \<comment> \<open>revision, conversation, draft, target known, model ids\<close>
  | K_poll nat jsstr \<comment> \<open>run of the effect, conversation\<close>
  | K_rename jsstr jsstr jsstr \<comment> \<open>id, title, the conversation open at the call\<close>
  | K_rename_refresh jsstr jsstr jsstr
  | K_delete jsstr jsstr bool \<comment> \<open>id, the conversation open at the call, target known\<close>
  | K_export jsstr jsstr \<comment> \<open>id, label\<close>
  | K_remove_message jsstr jsstr
  | K_edit jsstr jsstr jsstr
  | K_message_refresh jsstr jsstr \<comment> \<open>the notice on success, the fallback on failure\<close>
  | K_read chat_run
  | K_run chat_run chat_run_input
  | K_run_load chat_run jsstr
  | K_run_failed chat_run

record chat =
  ch_props :: chat_props
  ch_prompt :: jsstr
  ch_model :: jsstr
  ch_web :: bool
  ch_conv :: jsstr
  ch_remote_only :: bool
  ch_messages :: "conversation_message list"
  ch_files :: "js_file list"
  ch_loading :: bool
  ch_load_failed :: bool
  ch_remote_running :: bool
  ch_running :: bool
  ch_error :: jsstr
  ch_target :: jsstr
  ch_owner :: jsstr
  ch_title :: jsstr
  ch_mobile_open :: bool
  ch_renaming :: jsstr
  ch_rename_value :: jsstr
  ch_editing :: jsstr
  ch_edit_value :: jsstr
  ch_busy :: jsstr
  ch_saving :: bool
  ch_quota :: quota_state
  ch_abort :: "bool option" \<comment> \<open>\<open>abortRef.current\<close> and whether its signal is aborted\<close>
  ch_mounted :: bool
  ch_revision :: nat
  ch_active :: jsstr
  ch_poll_dep :: "bool \<times> jsstr"
  ch_poll :: "(nat \<times> jsstr) option" \<comment> \<open>the interval that is set: run of the effect, conversation\<close>
  ch_poll_next :: nat
  ch_saved :: "jsstr option" \<comment> \<open>what both storages hold\<close>
  ch_tasks :: "(nat \<times> chat_task) list"
  ch_next :: nat
  ch_toasts :: "toast list"
  ch_downloads :: "(jsstr \<times> jsstr) list"
  ch_resumed :: nat \<comment> \<open>calls of \<open>onResumeHandled\<close>\<close>

definition initial_chat :: "chat_props \<Rightarrow> jsstr option \<Rightarrow> bool \<Rightarrow> chat" where
  "initial_chat p defaultModel defaultWebSearch =
     \<lparr>ch_props = p, ch_prompt = [],
      ch_model = or_str (opt_str defaultModel) (or_str (case cp_models p of [] \<Rightarrow> [] | m # _ \<Rightarrow> mi_id m) auto),
      ch_web = defaultWebSearch, ch_conv = [], ch_remote_only = False, ch_messages = [], ch_files = [],
      ch_loading = True, ch_load_failed = False, ch_remote_running = False, ch_running = False, ch_error = [],
      ch_target = auto, ch_owner = [], ch_title = txt_new_conversation, ch_mobile_open = False,
      ch_renaming = [], ch_rename_value = [], ch_editing = [], ch_edit_value = [], ch_busy = [],
      ch_saving = False, ch_quota = initial_quota, ch_abort = None, ch_mounted = False, ch_revision = 0,
      ch_active = [], ch_poll_dep = (False, []), ch_poll = None, ch_poll_next = 0, ch_saved = None,
      ch_tasks = [], ch_next = 0, ch_toasts = [], ch_downloads = [], ch_resumed = 0\<rparr>"

definition chat_spawn :: "chat_task \<Rightarrow> chat \<Rightarrow> chat" where
  "chat_spawn t s = s\<lparr>ch_tasks := ch_tasks s @ [(ch_next s, t)], ch_next := Suc (ch_next s)\<rparr>"

definition notify :: "toast \<Rightarrow> chat \<Rightarrow> chat" where
  "notify t s = s\<lparr>ch_toasts := ch_toasts s @ [t]\<rparr>"

definition accounts_of :: "chat \<Rightarrow> account_item list" where
  "accounts_of s = cp_accounts (ch_props s)"

definition target_known :: "chat \<Rightarrow> bool" where
  "target_known s = list_ex (\<lambda>item. ct_id item = ch_target s) (eligible_targets (accounts_of s))"

definition is_active_status :: "jsstr option \<Rightarrow> bool" where
  "is_active_status v \<longleftrightarrow> v = Some (js ''running'') \<or> v = Some (js ''queued'')"

definition set_quota_open :: "bool \<Rightarrow> chat \<Rightarrow> chat" where
  "set_quota_open b s = s\<lparr>ch_quota := (ch_quota s)\<lparr>qs_open := b\<rparr>\<rparr>"

section \<open>Opening and leaving a conversation\<close>

definition cancelRename :: "chat \<Rightarrow> chat" where
  "cancelRename s = s\<lparr>ch_renaming := [], ch_rename_value := []\<rparr>"

definition cancelEdit :: "chat \<Rightarrow> chat" where
  "cancelEdit s = s\<lparr>ch_editing := [], ch_edit_value := []\<rparr>"

definition openConversation :: "jsstr \<Rightarrow> jsstr \<Rightarrow> chat \<Rightarrow> chat" where
  "openConversation i draft s =
     (if ch_abort s \<noteq> None then notify (Toast_info txt_stop_before_switch) s
      else (let known = target_known s;
                s' = set_quota_open False (s\<lparr>ch_revision := ch_revision s + 1, ch_loading := True, ch_error := [],
                   ch_load_failed := False, ch_remote_running := False, ch_conv := i, ch_messages := [],
                   ch_files := [], ch_prompt := draft, ch_owner := [], ch_target := auto,
                   ch_title := txt_loading_conversation, ch_mobile_open := False\<rparr>)
            in chat_spawn (K_load (ch_revision s') i draft known (List.map mi_id (cp_models (ch_props s))))
                 (cancelEdit (cancelRename s'))))"

definition resetConversation :: "jsstr \<Rightarrow> bool \<Rightarrow> chat \<Rightarrow> chat" where
  "resetConversation draft known s =
     (if ch_abort s \<noteq> None then s
      else (let s' = cancelEdit (cancelRename (set_quota_open False
                  (s\<lparr>ch_revision := ch_revision s + 1, ch_active := [], ch_conv := [], ch_messages := [],
                     ch_owner := [], ch_title := txt_new_conversation, ch_error := [], ch_prompt := draft,
                     ch_files := [], ch_loading := False, ch_load_failed := False, ch_remote_running := False,
                     ch_mobile_open := False, ch_remote_only := False\<rparr>)))
            in if known then s' else s'\<lparr>ch_target := auto\<rparr>))"

definition startNew :: "chat \<Rightarrow> chat" where
  "startNew s = resetConversation [] (target_known s) s"

definition bind_target :: "conversation_detail \<Rightarrow> chat \<Rightarrow> chat" where
  "bind_target item s =
     (if truthy (cv_account_email item) \<and> truthy (cv_space_id item)
      then s\<lparr>ch_target := targetID (opt_str (cv_account_email item)) (opt_str (cv_space_id item))\<rparr> else s)"

definition loaded_title :: "conversation_detail \<Rightarrow> jsstr" where
  "loaded_title item = or_str (opt_str (cv_title item))
     (or_str (take 60 (opt_str (cv_request_prompt item))) txt_conversation)"

definition load_done :: "nat \<Rightarrow> jsstr list \<Rightarrow> conversation_detail \<Rightarrow> chat \<Rightarrow> chat" where
  "load_done revision models item s =
     (if \<not> ch_mounted s \<or> revision \<noteq> ch_revision s then s
      else (let s1 = bind_target item (s\<lparr>ch_messages := opt_list (cd_messages item),
                  ch_owner := opt_str (cv_account_email item), ch_title := loaded_title item,
                  ch_remote_only := opt_true (cv_remote_only item)\<rparr>);
                s2 = (if truthy (cv_model item) \<and> opt_str (cv_model item) \<in> set models
                      then s1\<lparr>ch_model := opt_str (cv_model item)\<rparr> else s1)
            in s2\<lparr>ch_remote_running := is_active_status (cv_status item), ch_loading := False\<rparr>))"

definition conversation_missing :: "failure \<Rightarrow> bool" where
  "conversation_missing e = (case e of Api_error _ st code \<Rightarrow> st = 404 \<and> code = Some (js ''conversation_not_found'') | _ \<Rightarrow> False)"

definition load_failed :: "nat \<Rightarrow> jsstr \<Rightarrow> bool \<Rightarrow> failure \<Rightarrow> chat \<Rightarrow> chat" where
  "load_failed revision draft known e s =
     (if \<not> ch_mounted s \<or> revision \<noteq> ch_revision s then s
      else (let s' = (if conversation_missing e
                then notify (Toast_info (txt_conversation_gone @ (if draft \<noteq> [] then txt_draft_kept else [])))
                       (resetConversation draft known s)
                else s\<lparr>ch_title := txt_load_failed_title, ch_load_failed := True,
                       ch_error := failure_text e txt_load_failed\<rparr>)
            in if revision = ch_revision s' then s'\<lparr>ch_loading := False\<rparr> else s'))"

section \<open>Renaming, deleting and exporting\<close>

definition startRename :: "conversation_summary \<Rightarrow> chat \<Rightarrow> chat" where
  "startRename item s =
     (if opt_true (cv_remote_only item) then notify (Toast_info txt_rename_remote) s
      else s\<lparr>ch_renaming := cv_id item, ch_rename_value := conversationLabel item\<rparr>)"

definition commitRename :: "jsstr \<Rightarrow> chat \<Rightarrow> chat" where
  "commitRename i s =
     (let nxt = trim (ch_rename_value s) in
      case List.find (\<lambda>entry. cv_id entry = i) (cp_conversations (ch_props s)) of
        None \<Rightarrow> cancelRename s
      | Some item \<Rightarrow>
          if nxt = [] \<or> nxt = conversationLabel item then cancelRename s
          else chat_spawn (K_rename i nxt (ch_conv s)) (s\<lparr>ch_busy := i\<rparr>))"

definition renamed :: "jsstr \<Rightarrow> jsstr \<Rightarrow> jsstr \<Rightarrow> chat \<Rightarrow> chat" where
  "renamed i nxt open_conv s =
     (let s' = (if i = open_conv then s\<lparr>ch_title := nxt\<rparr> else s)
      in (notify (Toast_success txt_renamed) (cancelRename s'))\<lparr>ch_busy := []\<rparr>)"

definition action_failed :: "jsstr \<Rightarrow> failure \<Rightarrow> chat \<Rightarrow> chat" where
  "action_failed fallback e s = (notify (Toast_error (failure_text e fallback)) s)\<lparr>ch_busy := []\<rparr>"

definition removeConversation :: "conversation_summary \<Rightarrow> bool \<Rightarrow> chat \<Rightarrow> chat" where
  "removeConversation item confirmed s =
     (if opt_true (cv_remote_only item) then notify (Toast_info txt_delete_remote) s
      else if \<not> confirmed then s
      else if is_active_status (cv_status item) then notify (Toast_info txt_delete_running) s
      else chat_spawn (K_delete (cv_id item) (ch_conv s) (target_known s)) (s\<lparr>ch_busy := cv_id item\<rparr>))"

definition removed :: "jsstr \<Rightarrow> jsstr \<Rightarrow> bool \<Rightarrow> chat \<Rightarrow> chat" where
  "removed i open_conv known s =
     (let s' = (if i = open_conv then resetConversation [] known s else s)
      in (notify (Toast_success txt_deleted) s')\<lparr>ch_busy := []\<rparr>)"

definition download :: "jsstr \<Rightarrow> jsstr \<Rightarrow> conversation_message list \<Rightarrow> export_meta \<Rightarrow> chat \<Rightarrow> chat" where
  "download now exportTitle items meta s =
     (notify (Toast_success txt_exported)
       (s\<lparr>ch_downloads := ch_downloads s @
          [(safeFileName exportTitle @ js ''.md'', conversationMarkdown now exportTitle items meta)]\<rparr>))\<lparr>ch_busy := []\<rparr>"

definition exportConversation :: "jsstr \<Rightarrow> jsstr \<Rightarrow> jsstr \<Rightarrow> chat \<Rightarrow> chat" where
  "exportConversation now i label s =
     (let s' = s\<lparr>ch_busy := i\<rparr> in
      if i = ch_conv s
      then download now label (ch_messages s) \<lparr>em_model = Some (ch_model s), em_account = Some (ch_owner s)\<rparr> s'
      else chat_spawn (K_export i label) s')"

definition exported :: "jsstr \<Rightarrow> jsstr \<Rightarrow> conversation_detail \<Rightarrow> chat \<Rightarrow> chat" where
  "exported now label item s =
     download now (or_str (opt_str (cv_title item)) label) (opt_list (cd_messages item))
       \<lparr>em_model = cv_model item, em_account = cv_account_email item\<rparr> s"

section \<open>Editing messages\<close>

definition startEdit :: "conversation_message \<Rightarrow> chat \<Rightarrow> chat" where
  "startEdit message s =
     (if \<not> truthy (cm_id message) then s
      else if ch_running s then notify (Toast_info txt_edit_running) s
      else s\<lparr>ch_editing := opt_str (cm_id message), ch_edit_value := opt_str (cm_content message)\<rparr>)"

definition removeMessage :: "conversation_message \<Rightarrow> bool \<Rightarrow> chat \<Rightarrow> chat" where
  "removeMessage message confirmed s =
     (if ch_running s \<or> ch_saving s \<or> ch_remote_only s \<or> ch_conv s = [] \<or> \<not> truthy (cm_id message) then s
      else if \<not> confirmed then s
      else chat_spawn (K_remove_message (ch_conv s) (opt_str (cm_id message))) (s\<lparr>ch_saving := True\<rparr>))"

definition message_removed :: "jsstr \<Rightarrow> conversation_detail \<Rightarrow> chat \<Rightarrow> chat" where
  "message_removed conv item s =
     (if \<not> ch_mounted s then s\<lparr>ch_saving := False\<rparr>
      else chat_spawn (K_message_refresh txt_message_deleted txt_delete_failed)
        (if ch_active s = conv then cancelEdit (s\<lparr>ch_messages := opt_list (cd_messages item)\<rparr>) else s))"

definition commitEdit :: "conversation_message \<Rightarrow> chat \<Rightarrow> chat" where
  "commitEdit message s =
     (let nxt = trim (ch_edit_value s) in
      if ch_conv s = [] \<or> \<not> truthy (cm_id message) then s
      else if nxt = trim (opt_str (cm_content message)) then cancelEdit s
      else if nxt = [] then notify (Toast_error txt_content_empty) s
      else chat_spawn (K_edit (ch_conv s) (opt_str (cm_id message)) nxt) (s\<lparr>ch_saving := True\<rparr>))"

definition message_edited :: "jsstr \<Rightarrow> conversation_detail \<Rightarrow> chat \<Rightarrow> chat" where
  "message_edited conv item s =
     (if \<not> ch_mounted s then s\<lparr>ch_saving := False\<rparr>
      else chat_spawn (K_message_refresh txt_saved txt_save_failed) (cancelEdit
        (if ch_active s \<noteq> conv then s
         else s\<lparr>ch_messages := opt_list (cd_messages item),
                ch_title := (if truthy (cv_title item) then opt_str (cv_title item) else ch_title s)\<rparr>)))"

definition edit_settled :: "toast \<Rightarrow> chat \<Rightarrow> chat" where
  "edit_settled t s = (notify t s)\<lparr>ch_saving := False\<rparr>"

section \<open>Running a turn\<close>

definition finish_run :: "chat \<Rightarrow> chat" where
  "finish_run s = s\<lparr>ch_abort := None, ch_running := (if ch_mounted s then False else ch_running s)\<rparr>"

definition run_blocked :: "chat \<Rightarrow> bool" where
  "run_blocked s \<longleftrightarrow> ch_abort s \<noteq> None \<or> ch_saving s \<or> ch_loading s \<or> ch_load_failed s \<or> ch_remote_running s \<or>
     (trim (ch_prompt s) = [] \<and> ch_files s = [])"

text \<open>\<open>newConv\<close> and \<open>newAnswer\<close> are the two results of \<open>newID()\<close>.\<close>

definition run_context :: "jsstr \<Rightarrow> jsstr \<Rightarrow> chat \<Rightarrow> chat_run" where
  "run_context newConv newAnswer s =
     \<lparr>rn_prompt = ch_prompt s, rn_files = ch_files s, rn_id = or_str (ch_conv s) (js ''conv_'' @ newConv),
      rn_answer = js ''answer_'' @ newAnswer, rn_fresh = (ch_conv s = []), rn_model = ch_model s, rn_web = ch_web s,
      rn_selected = selectedTarget (accounts_of s) (ch_target s),
      rn_effective = (effectiveWorkspace (accounts_of s) (ch_target s) \<noteq> None),
      rn_quota_open = qs_open (ch_quota s), rn_targets = eligible_targets (accounts_of s)\<rparr>"

definition performRun :: "jsstr \<Rightarrow> jsstr \<Rightarrow> chat \<Rightarrow> chat" where
  "performRun newConv newAnswer s =
     (if run_blocked s then s
      else if ch_conv s = [] \<and> ch_target s \<noteq> auto \<and> selectedTarget (accounts_of s) (ch_target s) = None
      then s\<lparr>ch_error := txt_target_unavailable\<rparr>
      else chat_spawn (K_read (run_context newConv newAnswer s))
             (s\<lparr>ch_abort := Some False, ch_running := True, ch_error := []\<rparr>))"

definition user_message :: "chat_run \<Rightarrow> conversation_message" where
  "user_message c = no_conversation_message\<lparr>cm_id := Some (js ''user_'' @ rn_answer c), cm_role := Some (js ''user''),
     cm_content := Some (rn_prompt c), cm_status := Some (js ''completed''),
     cm_attachments := Some (List.map (\<lambda>f. \<lparr>ma_name = Some (file_name f), ma_content_type = Some (file_type f),
       ma_contentType = None, ma_url = None, ma_source = None\<rparr>) (rn_files c))\<rparr>"

definition answer_message :: "chat_run \<Rightarrow> conversation_message" where
  "answer_message c = no_conversation_message\<lparr>cm_id := Some (rn_answer c), cm_role := Some (js ''assistant''),
     cm_content := Some [], cm_status := Some (js ''streaming'')\<rparr>"

definition run_payload :: "chat_run \<Rightarrow> attachment_input list \<Rightarrow> chat_run_input" where
  "run_payload c attachments =
     \<lparr>cri_account_email = map_option ct_email (rn_selected c), cri_workspace_id = map_option ct_workspace (rn_selected c),
      cri_prompt = rn_prompt c, cri_model = rn_model c, cri_use_web_search = rn_web c, cri_attachments = attachments,
      cri_conversation_id = Some (rn_id c)\<rparr>"

definition run_send :: "chat_run \<Rightarrow> attachment_input list \<Rightarrow> chat \<Rightarrow> chat" where
  "run_send c attachments s =
     (if ch_abort s = Some True then finish_run s
      else chat_spawn (K_run c (run_payload c attachments))
        (s\<lparr>ch_title := (if rn_fresh c then or_str (take 60 (rn_prompt c)) txt_attachment_conversation else ch_title s),
           ch_conv := rn_id c, ch_messages := ch_messages s @ [user_message c, answer_message c],
           ch_prompt := [], ch_files := []\<rparr>))"

definition update_answer :: "chat_run \<Rightarrow> (conversation_message \<Rightarrow> conversation_message) \<Rightarrow> chat \<Rightarrow> chat" where
  "update_answer c f s = s\<lparr>ch_messages := map_where (\<lambda>m. cm_id m = Some (rn_answer c)) f (ch_messages s)\<rparr>"

definition run_delta :: "chat_run \<Rightarrow> jsstr \<Rightarrow> chat \<Rightarrow> chat" where
  "run_delta c delta s =
     (if ch_mounted s then update_answer c (\<lambda>m. m\<lparr>cm_content := Some (opt_str (cm_content m) @ delta)\<rparr>) s else s)"

definition run_done :: "int \<Rightarrow> chat_run \<Rightarrow> chat_run_result \<Rightarrow> chat \<Rightarrow> chat" where
  "run_done now c result s =
     (if \<not> ch_mounted s then finish_run s
      else (let i = or_str (crr_conversation_id result) (rn_id c);
                s' = update_answer c (\<lambda>m. m\<lparr>cm_content := Some (crr_text result), cm_status := Some (js ''completed''),
                       cm_truncated := crr_truncated result\<rparr>) (s\<lparr>ch_conv := i, ch_remote_only := False\<rparr>)
            in chat_spawn (K_run_load c i)
                 (s'\<lparr>ch_quota := refreshQuota now (rn_effective c) (rn_quota_open c) (rn_targets c) (ch_quota s')\<rparr>)))"

definition run_loaded :: "conversation_detail \<Rightarrow> chat \<Rightarrow> chat" where
  "run_loaded item s = finish_run (if ch_mounted s
     then bind_target item (s\<lparr>ch_messages := opt_list (cd_messages item), ch_owner := opt_str (cv_account_email item)\<rparr>)
     else s)"

definition run_failed :: "chat_run \<Rightarrow> failure \<Rightarrow> chat \<Rightarrow> chat" where
  "run_failed c e s =
     (if \<not> ch_mounted s then finish_run s
      else (let aborted = (ch_abort s = Some True);
                s1 = update_answer c (\<lambda>m. m\<lparr>cm_status := Some (js ''failed'')\<rparr>)
                       (s\<lparr>ch_error := (if aborted then txt_stopped else failure_text e txt_generation_failed)\<rparr>);
                s2 = (if aborted then s1 else s1\<lparr>ch_prompt := or_str (ch_prompt s1) (rn_prompt c), ch_files := rn_files c\<rparr>)
            in chat_spawn (K_run_failed c) s2))"

text \<open>The snapshot of the server, with the partial answer where that is longer.\<close>

definition keep_partial :: "jsstr \<Rightarrow> conversation_message list \<Rightarrow> conversation_message list \<Rightarrow> conversation_message list" where
  "keep_partial answer current persisted =
     (case (current, rev persisted) of
        (_ # _, m # before) \<Rightarrow>
          (let optimistic = last current in
           if cm_role m = Some (js ''assistant'') \<and> cm_id optimistic = Some answer \<and>
              length (opt_str (cm_content m)) < length (opt_str (cm_content optimistic))
           then rev before @ [m\<lparr>cm_content := cm_content optimistic, cm_status := Some (js ''failed'')\<rparr>]
           else persisted)
      | _ \<Rightarrow> persisted)"

definition run_recovered :: "chat_run \<Rightarrow> conversation_detail \<Rightarrow> chat \<Rightarrow> chat" where
  "run_recovered c item s = finish_run (if \<not> ch_mounted s then s
     else (bind_target item (s\<lparr>
         ch_messages := keep_partial (rn_answer c) (ch_messages s) (opt_list (cd_messages item)),
         ch_remote_only := opt_true (cv_remote_only item), ch_owner := opt_str (cv_account_email item)\<rparr>))
       \<lparr>ch_remote_running := is_active_status (cv_status item)\<rparr>)"

definition stop_run :: "chat \<Rightarrow> chat" where
  "stop_run s = s\<lparr>ch_abort := map_option (\<lambda>_. True) (ch_abort s)\<rparr>"

section \<open>Polling\<close>

definition poll_tick :: "chat \<Rightarrow> chat" where
  "poll_tick s = (case ch_poll s of None \<Rightarrow> s | Some (n, i) \<Rightarrow> chat_spawn (K_poll n i) s)"

definition polled :: "nat \<Rightarrow> conversation_detail \<Rightarrow> chat \<Rightarrow> chat" where
  "polled n item s =
     (if map_option fst (ch_poll s) \<noteq> Some n then s
      else s\<lparr>ch_messages := opt_list (cd_messages item), ch_remote_running := is_active_status (cv_status item)\<rparr>)"

section \<open>Replies\<close>

datatype chat_reply =
    C_detail conversation_detail \<comment> \<open>\<open>{ item }\<close> of a load or a message operation\<close>
  | C_done
  | C_attachments "attachment_input list"
  | C_result chat_run_result
  | C_failed failure

fun chat_resume :: "jsstr \<Rightarrow> int \<Rightarrow> chat_task \<Rightarrow> chat_reply \<Rightarrow> chat \<Rightarrow> chat" where
  "chat_resume now ms (K_load revision i draft known models) (C_detail item) s = load_done revision models item s"
| "chat_resume now ms (K_load revision i draft known models) (C_failed e) s = load_failed revision draft known e s"
| "chat_resume now ms (K_poll n i) (C_detail item) s = polled n item s"
| "chat_resume now ms (K_poll n i) (C_failed e) s = s"
| "chat_resume now ms (K_rename i nxt conv) C_done s = chat_spawn (K_rename_refresh i nxt conv) s"
| "chat_resume now ms (K_rename i nxt conv) (C_failed e) s = action_failed txt_rename_failed e s"
| "chat_resume now ms (K_rename_refresh i nxt conv) C_done s = renamed i nxt conv s"
| "chat_resume now ms (K_rename_refresh i nxt conv) (C_failed e) s = action_failed txt_rename_failed e s"
| "chat_resume now ms (K_delete i conv known) C_done s = removed i conv known s"
| "chat_resume now ms (K_delete i conv known) (C_failed e) s = action_failed txt_delete_failed e s"
| "chat_resume now ms (K_export i label) (C_detail item) s = exported now label item s"
| "chat_resume now ms (K_export i label) (C_failed e) s = action_failed txt_export_failed e s"
| "chat_resume now ms (K_remove_message conv m) (C_detail item) s = message_removed conv item s"
| "chat_resume now ms (K_remove_message conv m) (C_failed e) s = edit_settled (Toast_error (failure_text e txt_delete_failed)) s"
| "chat_resume now ms (K_edit conv m content) (C_detail item) s = message_edited conv item s"
| "chat_resume now ms (K_edit conv m content) (C_failed e) s = edit_settled (Toast_error (failure_text e txt_save_failed)) s"
| "chat_resume now ms (K_message_refresh ok fallback) C_done s = edit_settled (Toast_success ok) s"
| "chat_resume now ms (K_message_refresh ok fallback) (C_failed e) s = edit_settled (Toast_error (failure_text e fallback)) s"
| "chat_resume now ms (K_read c) (C_attachments attachments) s = run_send c attachments s"
| "chat_resume now ms (K_read c) (C_failed e) s = run_failed c e s"
| "chat_resume now ms (K_run c payload) (C_result result) s = run_done ms c result s"
| "chat_resume now ms (K_run c payload) (C_failed e) s = run_failed c e s"
| "chat_resume now ms (K_run_load c i) (C_detail item) s = run_loaded item s"
| "chat_resume now ms (K_run_load c i) (C_failed e) s = finish_run s"
| "chat_resume now ms (K_run_failed c) (C_detail item) s = run_recovered c item s"
| "chat_resume now ms (K_run_failed c) (C_failed e) s = finish_run s"
| "chat_resume now ms _ _ s = s"

text \<open>Which replies a task can get.\<close>

definition chat_answers :: "chat_task \<Rightarrow> chat_reply \<Rightarrow> bool" where
  "chat_answers t r = (case r of C_failed _ \<Rightarrow> True
     | C_detail _ \<Rightarrow> (case t of K_load _ _ _ _ _ \<Rightarrow> True | K_poll _ _ \<Rightarrow> True | K_export _ _ \<Rightarrow> True
         | K_remove_message _ _ \<Rightarrow> True | K_edit _ _ _ \<Rightarrow> True | K_run_load _ _ \<Rightarrow> True | K_run_failed _ \<Rightarrow> True | _ \<Rightarrow> False)
     | C_done \<Rightarrow> (case t of K_rename _ _ _ \<Rightarrow> True | K_rename_refresh _ _ _ \<Rightarrow> True | K_delete _ _ _ \<Rightarrow> True
         | K_message_refresh _ _ \<Rightarrow> True | _ \<Rightarrow> False)
     | C_attachments _ \<Rightarrow> (case t of K_read _ \<Rightarrow> True | _ \<Rightarrow> False)
     | C_result _ \<Rightarrow> (case t of K_run _ _ \<Rightarrow> True | _ \<Rightarrow> False))"

definition drop_task :: "nat \<Rightarrow> chat \<Rightarrow> chat" where
  "drop_task n s = s\<lparr>ch_tasks := filter (\<lambda>(k, _). k \<noteq> n) (ch_tasks s)\<rparr>"

section \<open>Effects\<close>

definition model_choices :: "chat \<Rightarrow> model_item list" where
  "model_choices s = availableModels (cp_models (ch_props s)) (accounts_of s) (ch_target s)"

definition model_effect :: "chat \<Rightarrow> chat" where
  "model_effect s =
     (if \<not> ch_running s \<and> \<not> ch_loading s \<and> ch_model s \<notin> mi_id ` set (model_choices s)
      then s\<lparr>ch_model := auto\<rparr> else s)"

definition effective_key :: "chat \<Rightarrow> jsstr" where
  "effective_key s = workspace_key (effectiveWorkspace (accounts_of s) (ch_target s))"

definition chat_quota_effect :: "chat \<Rightarrow> chat" where
  "chat_quota_effect s =
     s\<lparr>ch_quota := quota_effect (cp_visible (ch_props s)) (effective_key s) (ch_quota s)\<rparr>"

definition session_json :: "chat \<Rightarrow> json" where
  "session_json s = obj [(''conversationID'', jstr (ch_conv s)), (''prompt'', jstr (ch_prompt s)),
     (''model'', jstr (ch_model s)), (''useWebSearch'', Some (JBool (ch_web s))), (''target'', jstr (ch_target s))]"

definition session_effect :: "chat \<Rightarrow> chat" where
  "session_effect s = (if ch_loading s then s else s\<lparr>ch_saved := Some (stringify (session_json s))\<rparr>)"

definition active_effect :: "chat \<Rightarrow> chat" where
  "active_effect s = s\<lparr>ch_active := ch_conv s\<rparr>"

definition poll_effect :: "chat \<Rightarrow> chat" where
  "poll_effect s =
     (let dep = (ch_remote_running s, ch_conv s) in
      if ch_poll_dep s = dep then s
      else s\<lparr>ch_poll_dep := dep, ch_poll_next := ch_poll_next s + 1,
             ch_poll := (if ch_remote_running s \<and> ch_conv s \<noteq> [] then Some (ch_poll_next s, ch_conv s) else None)\<rparr>)"

definition chat_commit :: "chat \<Rightarrow> chat" where
  "chat_commit s = poll_effect (active_effect (session_effect (chat_quota_effect (model_effect s))))"

text \<open>The effect on mount; \<open>session\<close> and \<open>local\<close> are what the two storages hold.\<close>

definition saved_session :: "jsstr option \<Rightarrow> jsstr option \<Rightarrow> json" where
  "saved_session session local =
     (case json_parse (or_str (opt_str (or_opt session local)) (js ''{}'')) of
        Some (JObj ms) \<Rightarrow> JObj ms | _ \<Rightarrow> JObj [])"

definition restore_session :: "json \<Rightarrow> chat \<Rightarrow> chat" where
  "restore_session saved s =
     (let s1 = s\<lparr>ch_mounted := True\<rparr>;
          s2 = (case jstring (jget (js ''model'') saved) of
                  Some m \<Rightarrow> if m \<in> mi_id ` set (cp_models (ch_props s)) then s1\<lparr>ch_model := m\<rparr> else s1 | None \<Rightarrow> s1);
          s3 = (case jbool (jget (js ''useWebSearch'') saved) of Some b \<Rightarrow> s2\<lparr>ch_web := b\<rparr> | None \<Rightarrow> s2)
      in case jstring (jget (js ''target'') saved) of Some t \<Rightarrow> s3\<lparr>ch_target := t\<rparr> | None \<Rightarrow> s3)"

definition mount_chat :: "jsstr option \<Rightarrow> jsstr option \<Rightarrow> chat \<Rightarrow> chat" where
  "mount_chat session local s =
     (let saved = saved_session session local;
          s' = restore_session saved s;
          draft = opt_str (jstring (jget (js ''prompt'') saved));
          i = opt_str (jstring (jget (js ''conversationID'') saved))
      in if i \<noteq> [] then openConversation i draft s' else s'\<lparr>ch_prompt := draft, ch_loading := False\<rparr>)"

definition unmount_chat :: "chat \<Rightarrow> chat" where
  "unmount_chat s = (stop_run s)\<lparr>ch_mounted := False, ch_revision := ch_revision s + 1, ch_poll := None\<rparr>"

text \<open>New properties: the effects on \<open>initialConversationID\<close> and \<open>visible\<close>. \<open>before\<close> is the dependency
  of the last run, \<open>conv\<close> the conversation of the render the effect belongs to.\<close>

definition resume_effect :: "jsstr option \<Rightarrow> jsstr \<Rightarrow> chat \<Rightarrow> chat" where
  "resume_effect before conv s =
     (let initial = cp_initial (ch_props s) in
      if initial = before \<or> \<not> truthy initial then s
      else (let s' = (if opt_str initial \<noteq> conv then openConversation (opt_str initial) [] s else s)
            in s'\<lparr>ch_resumed := ch_resumed s' + 1\<rparr>))"

definition set_props :: "chat_props \<Rightarrow> chat \<Rightarrow> chat" where
  "set_props p s =
     (let s' = s\<lparr>ch_props := p\<rparr>
      in resume_effect (cp_initial (ch_props s)) (ch_conv s)
           (if \<not> cp_visible p then s'\<lparr>ch_mobile_open := False\<rparr> else s'))"

section \<open>Steps\<close>

record note_text =
  nt_id :: jsstr
  nt_title :: jsstr
  nt_text :: jsstr
  nt_partial :: bool

definition note_citation :: "note_text \<Rightarrow> jsstr" where
  "note_citation note = [10, 10] @ txt_note_reference @ nt_title note @ [10] @ txt_note_source @
     filter (\<lambda>c. c \<noteq> 45) (nt_id note) @ [10] @ (if nt_partial note then txt_note_partial @ [10] else []) @ nt_text note"

definition reference_note :: "note_text \<Rightarrow> jsstr \<Rightarrow> chat \<Rightarrow> chat" where
  "reference_note note workspace s =
     (let s' = (if ch_conv s = [] \<and> list_ex (\<lambda>item. ct_id item = workspace) (eligible_targets (accounts_of s))
                then s\<lparr>ch_target := workspace\<rparr> else s)
      in s'\<lparr>ch_prompt := ch_prompt s' @ note_citation note\<rparr>)"

definition add_files_step :: "js_file list \<Rightarrow> chat \<Rightarrow> chat" where
  "add_files_step incoming s = (case addFiles (ch_running s) (ch_files s) incoming of
     (files, toasts) \<Rightarrow> s\<lparr>ch_files := files, ch_toasts := ch_toasts s @ toasts\<rparr>)"

datatype chat_event =
    E_props chat_props
  | E_prompt jsstr
  | E_model jsstr
  | E_target jsstr
  | E_web
  | E_open jsstr
  | E_reload
  | E_new
  | E_add_files "js_file list"
  | E_remove_file nat
  | E_submit jsstr jsstr
  | E_stop
  | E_start_rename conversation_summary
  | E_rename_value jsstr
  | E_cancel_rename
  | E_commit_rename jsstr
  | E_remove conversation_summary bool
  | E_export jsstr jsstr jsstr
  | E_start_edit conversation_message
  | E_edit_value jsstr
  | E_cancel_edit
  | E_commit_edit conversation_message
  | E_remove_message conversation_message bool
  | E_reference note_text jsstr
  | E_refresh_quota int
  | E_toggle_quota
  | E_mobile bool
  | E_tick
  | E_delta nat jsstr
  | E_reply nat chat_reply jsstr int
  | E_quota_reply quota_task quota_reply
  | E_unmount

text \<open>What the controls allow: their \<open>disabled\<close> attributes, and what is on screen at all.\<close>

definition conversations_of :: "chat \<Rightarrow> conversation_summary list" where
  "conversations_of s = cp_conversations (ch_props s)"

definition is_step :: "conversation_message \<Rightarrow> bool" where
  "is_step m \<longleftrightarrow> to_lower (opt_str (cm_role m)) = js ''step''"

definition starters :: "jsstr list" where
  "starters = [txt_starter_plan, txt_starter_document, txt_starter_text]"

text \<open>The row of the history and the message that are being edited.\<close>

definition rename_shown :: "chat \<Rightarrow> bool" where
  "rename_shown s \<longleftrightarrow> ch_renaming s \<in> cv_id ` set (conversations_of s) \<and> ch_busy s \<noteq> ch_renaming s"

definition in_edit :: "chat \<Rightarrow> conversation_message \<Rightarrow> bool" where
  "in_edit s m \<longleftrightarrow> truthy (cm_id m) \<and> opt_str (cm_id m) = ch_editing s"

definition edit_shown :: "chat \<Rightarrow> bool" where
  "edit_shown s \<longleftrightarrow> list_ex (\<lambda>m. \<not> is_step m \<and> in_edit s m) (ch_messages s) \<and> \<not> ch_saving s"

definition row_action :: "conversation_summary \<Rightarrow> chat \<Rightarrow> bool" where
  "row_action item s \<longleftrightarrow> item \<in> set (conversations_of s) \<and> cv_id item \<noteq> ch_renaming s \<and> \<not> opt_true (cv_remote_only item) \<and>
     \<not> ch_running s \<and> ch_busy s \<noteq> cv_id item"

definition message_action :: "conversation_message \<Rightarrow> chat \<Rightarrow> bool" where
  "message_action m s \<longleftrightarrow> m \<in> set (ch_messages s) \<and> \<not> is_step m \<and> truthy (cm_id m) \<and>
     \<not> ch_running s \<and> \<not> ch_saving s \<and> \<not> ch_remote_only s"

definition export_offered :: "jsstr \<Rightarrow> jsstr \<Rightarrow> chat \<Rightarrow> bool" where
  "export_offered i label s \<longleftrightarrow> ch_busy s \<noteq> i \<and>
     (i = ch_conv s \<and> i \<noteq> [] \<and> label = ch_title s \<and> \<not> ch_loading s \<or>
      i \<noteq> ch_renaming s \<and> (i, label) \<in> (\<lambda>c. (cv_id c, conversationLabel c)) ` set (conversations_of s))"

definition composer_on :: "chat \<Rightarrow> bool" where
  "composer_on s \<longleftrightarrow> \<not> ch_loading s \<and> \<not> ch_load_failed s \<and> \<not> ch_remote_running s"

definition chat_allowed :: "chat_event \<Rightarrow> chat \<Rightarrow> bool" where
  "chat_allowed e s = (case e of
     E_prompt v \<Rightarrow> composer_on s \<or> \<not> ch_loading s \<and> \<not> ch_load_failed s \<and> ch_messages s = [] \<and> v \<in> set starters
   | E_model m \<Rightarrow> \<not> ch_running s \<and> \<not> ch_remote_running s \<and> length (model_choices s) \<noteq> 1 \<and> m \<in> mi_id ` set (model_choices s)
   | E_target t \<Rightarrow> ch_conv s = [] \<and> \<not> ch_loading s \<and> \<not> ch_running s \<and> t \<in> insert auto (ct_id ` set (eligible_targets (accounts_of s)))
   | E_web \<Rightarrow> \<not> ch_running s
   | E_open i \<Rightarrow> \<not> ch_running s \<and> i \<in> cv_id ` set (conversations_of s) \<and> i \<noteq> ch_renaming s
   | E_reload \<Rightarrow> ch_load_failed s \<and> ch_error s \<noteq> []
   | E_new \<Rightarrow> \<not> ch_running s
   | E_remove_file i \<Rightarrow> \<not> ch_running s \<and> i < length (ch_files s)
   | E_submit _ _ \<Rightarrow> composer_on s
   | E_stop \<Rightarrow> ch_running s
   | E_start_rename item \<Rightarrow> row_action item s
   | E_rename_value v \<Rightarrow> rename_shown s \<and> length v \<le> 72
   | E_cancel_rename \<Rightarrow> rename_shown s
   | E_commit_rename i \<Rightarrow> rename_shown s \<and> i = ch_renaming s \<and> trim (ch_rename_value s) \<noteq> []
   | E_remove item _ \<Rightarrow> row_action item s
   | E_export i label _ \<Rightarrow> export_offered i label s
   | E_start_edit m \<Rightarrow> message_action m s
   | E_edit_value _ \<Rightarrow> edit_shown s
   | E_cancel_edit \<Rightarrow> edit_shown s
   | E_commit_edit m \<Rightarrow> m \<in> set (ch_messages s) \<and> \<not> is_step m \<and> in_edit s m \<and> \<not> ch_saving s \<and> trim (ch_edit_value s) \<noteq> []
   | E_remove_message m _ \<Rightarrow> message_action m s
   | E_reference _ _ \<Rightarrow> \<not> ch_running s \<and> composer_on s
   | E_refresh_quota _ \<Rightarrow> eligible_targets (accounts_of s) \<noteq> [] \<and> qs_open (ch_quota s) \<and> \<not> qs_loading (ch_quota s) \<and> \<not> qs_rows_loading (ch_quota s)
   | E_toggle_quota \<Rightarrow> eligible_targets (accounts_of s) \<noteq> []
   | _ \<Rightarrow> True)"

text \<open>What happens without the user; the rest needs the chat to be the tab on screen.\<close>

definition chat_enabled :: "chat_event \<Rightarrow> chat \<Rightarrow> bool" where
  "chat_enabled e s = (case e of
     E_props _ \<Rightarrow> True
   | E_tick \<Rightarrow> ch_poll s \<noteq> None
   | E_delta n _ \<Rightarrow> (\<exists>(k, t) \<in> set (ch_tasks s). k = n \<and> (case t of K_run _ _ \<Rightarrow> True | _ \<Rightarrow> False))
   | E_reply n r _ _ \<Rightarrow> (\<exists>(k, t) \<in> set (ch_tasks s). k = n \<and> chat_answers t r)
   | E_quota_reply t _ \<Rightarrow> t \<in> set (qs_tasks (ch_quota s))
   | E_unmount \<Rightarrow> True
   | _ \<Rightarrow> cp_visible (ch_props s) \<and> chat_allowed e s)"

fun chat_apply :: "chat_event \<Rightarrow> chat \<Rightarrow> chat" where
  "chat_apply (E_props p) s = set_props p s"
| "chat_apply (E_prompt v) s = s\<lparr>ch_prompt := v\<rparr>"
| "chat_apply (E_model m) s = s\<lparr>ch_model := m\<rparr>"
| "chat_apply (E_target t) s = s\<lparr>ch_target := t\<rparr>"
| "chat_apply E_web s = s\<lparr>ch_web := \<not> ch_web s\<rparr>"
| "chat_apply (E_open i) s = openConversation i [] s"
| "chat_apply E_reload s = openConversation (ch_conv s) (ch_prompt s) s"
| "chat_apply E_new s = startNew s"
| "chat_apply (E_add_files fs) s = add_files_step fs s"
| "chat_apply (E_remove_file i) s = s\<lparr>ch_files := take i (ch_files s) @ drop (Suc i) (ch_files s)\<rparr>"
| "chat_apply (E_submit a b) s = performRun a b s"
| "chat_apply E_stop s = stop_run s"
| "chat_apply (E_start_rename item) s = startRename item s"
| "chat_apply (E_rename_value v) s = s\<lparr>ch_rename_value := v\<rparr>"
| "chat_apply E_cancel_rename s = cancelRename s"
| "chat_apply (E_commit_rename i) s = commitRename i s"
| "chat_apply (E_remove item c) s = removeConversation item c s"
| "chat_apply (E_export i label now) s = exportConversation now i label s"
| "chat_apply (E_start_edit m) s = startEdit m s"
| "chat_apply (E_edit_value v) s = s\<lparr>ch_edit_value := v\<rparr>"
| "chat_apply E_cancel_edit s = cancelEdit s"
| "chat_apply (E_commit_edit m) s = commitEdit m s"
| "chat_apply (E_remove_message m c) s = removeMessage m c s"
| "chat_apply (E_reference note w) s = reference_note note w s"
| "chat_apply (E_refresh_quota now) s = s\<lparr>ch_quota := refreshQuota now
     (effectiveWorkspace (accounts_of s) (ch_target s) \<noteq> None) (qs_open (ch_quota s))
     (eligible_targets (accounts_of s)) (ch_quota s)\<rparr>"
| "chat_apply E_toggle_quota s = s\<lparr>ch_quota := toggleQuota
     (effectiveWorkspace (accounts_of s) (ch_target s) \<noteq> None) (eligible_targets (accounts_of s)) (ch_quota s)\<rparr>"
| "chat_apply (E_mobile b) s = s\<lparr>ch_mobile_open := b\<rparr>"
| "chat_apply E_tick s = poll_tick s"
| "chat_apply (E_delta n d) s = (case map_of (ch_tasks s) n of Some (K_run c p) \<Rightarrow> run_delta c d s | _ \<Rightarrow> s)"
| "chat_apply (E_reply n r now ms) s =
     (case map_of (ch_tasks s) n of Some t \<Rightarrow> chat_resume now ms t r (drop_task n s) | None \<Rightarrow> s)"
| "chat_apply (E_quota_reply t r) s = s\<lparr>ch_quota := quota_resume t r
     ((ch_quota s)\<lparr>qs_tasks := remove1 t (qs_tasks (ch_quota s))\<rparr>)\<rparr>"
| "chat_apply E_unmount s = unmount_chat s"

definition chat_step :: "chat_event \<Rightarrow> chat \<Rightarrow> chat" where
  "chat_step e s = chat_commit (chat_apply e s)"

inductive chat_reachable :: "chat \<Rightarrow> bool" where
  chat_mounted: "chat_reachable (chat_commit (resume_effect None [] (mount_chat session local (initial_chat p m w))))"
| chat_stepped: "chat_reachable s \<Longrightarrow> ch_mounted s \<Longrightarrow> chat_enabled e s \<Longrightarrow> chat_reachable (chat_step e s)"

end
