(* ===== verification/Chat_Invariants.thy ===== *)
theory Chat_Invariants imports Chat_Workspace begin

text \<open>
  What holds of the chat in every reachable state, and the properties that rest on it.

  \<open>core_ok\<close> is a predicate on the fields that tie the pending requests to the flags: at most one run
  is out, exactly while \<open>abortRef\<close> is set; a load of the current revision is out exactly while
  \<open>loading\<close> is set; the two exclude each other; a request of a run belongs to the conversation on
  screen. Each kind of change to those fields has a lemma, and every operation is an instance.
\<close>

section \<open>The invariant\<close>

fun run_task :: "chat_task \<Rightarrow> bool" where
  "run_task (K_read c) = True"
| "run_task (K_run c p) = True"
| "run_task (K_run_load c i) = True"
| "run_task (K_run_failed c) = True"
| "run_task _ = False"

fun load_of :: "nat \<Rightarrow> chat_task \<Rightarrow> bool" where
  "load_of n (K_load r i d k m) = (r = n)"
| "load_of n _ = False"

fun task_fits :: "nat \<Rightarrow> jsstr \<Rightarrow> chat_task \<Rightarrow> bool" where
  "task_fits rv cv (K_load r i d k m) = (r \<le> rv \<and> (r = rv \<longrightarrow> cv = i))"
| "task_fits rv cv (K_read c) = (cv = rn_id c \<or> cv = [])"
| "task_fits rv cv (K_run c p) = (cv = rn_id c)"
| "task_fits rv cv (K_run_load c i) = (cv = i)"
| "task_fits rv cv (K_run_failed c) = (cv = rn_id c \<or> cv = [])"
| "task_fits rv cv _ = True"

definition running_tasks :: "(nat \<times> chat_task) list \<Rightarrow> nat" where
  "running_tasks ts = length (filter (\<lambda>(k, t). run_task t) ts)"

definition loading_tasks :: "nat \<Rightarrow> (nat \<times> chat_task) list \<Rightarrow> nat" where
  "loading_tasks rv ts = length (filter (\<lambda>(k, t). load_of rv t) ts)"

definition core_ok :: "(nat \<times> chat_task) list \<Rightarrow> nat \<Rightarrow> bool option \<Rightarrow> bool \<Rightarrow> bool \<Rightarrow> nat \<Rightarrow> jsstr \<Rightarrow> bool" where
  "core_ok ts nx ab rn ld rv cv \<longleftrightarrow>
     distinct (List.map fst ts) \<and> (\<forall>(k, t) \<in> set ts. k < nx \<and> task_fits rv cv t) \<and>
     (rn \<longleftrightarrow> ab \<noteq> None) \<and> running_tasks ts = of_bool (ab \<noteq> None) \<and>
     loading_tasks rv ts = of_bool ld \<and> (ld \<longrightarrow> ab = None)"

definition poll_ok :: "(nat \<times> chat_task) list \<Rightarrow> bool \<times> jsstr \<Rightarrow> (nat \<times> jsstr) option \<Rightarrow> nat \<Rightarrow> bool" where
  "poll_ok ts pd pl pn \<longleftrightarrow>
     (\<forall>n i. pl = Some (n, i) \<longrightarrow> pd = (True, i) \<and> i \<noteq> [] \<and> n < pn) \<and>
     (\<forall>(k, t) \<in> set ts. \<forall>n i. t = K_poll n i \<longrightarrow> n < pn \<and> (map_option fst pl = Some n \<longrightarrow> pl = Some (n, i)))"

abbreviation core :: "chat \<Rightarrow> bool" where
  "core s \<equiv> core_ok (ch_tasks s) (ch_next s) (ch_abort s) (ch_running s) (ch_loading s) (ch_revision s) (ch_conv s)"

abbreviation poll :: "chat \<Rightarrow> bool" where
  "poll s \<equiv> poll_ok (ch_tasks s) (ch_poll_dep s) (ch_poll s) (ch_poll_next s)"

definition settled_ok :: "chat \<Rightarrow> bool" where
  "settled_ok s \<longleftrightarrow> ch_active s = ch_conv s \<and> ch_poll_dep s = (ch_remote_running s, ch_conv s)"

definition chat_ok :: "chat \<Rightarrow> bool" where
  "chat_ok s \<longleftrightarrow> (ch_mounted s \<longrightarrow> core s \<and> poll s \<and> settled_ok s)"

section \<open>Changes to the pending requests\<close>

lemma running_tasks_simps [simp]:
  "running_tasks [] = 0" "running_tasks (ts @ us) = running_tasks ts + running_tasks us"
  "running_tasks ((k, t) # ts) = of_bool (run_task t) + running_tasks ts"
  by (simp_all add: running_tasks_def)

lemma loading_tasks_simps [simp]:
  "loading_tasks rv [] = 0" "loading_tasks rv (ts @ us) = loading_tasks rv ts + loading_tasks rv us"
  "loading_tasks rv ((k, t) # ts) = of_bool (load_of rv t) + loading_tasks rv ts"
  by (simp_all add: loading_tasks_def)

lemma running_tasks_none: "running_tasks ts = 0 \<longleftrightarrow> (\<forall>(k, t) \<in> set ts. \<not> run_task t)"
  by (auto simp: running_tasks_def filter_empty_conv)

lemma loading_tasks_none: "loading_tasks rv ts = 0 \<longleftrightarrow> (\<forall>(k, t) \<in> set ts. \<not> load_of rv t)"
  by (auto simp: loading_tasks_def filter_empty_conv)

lemma load_of_not_run: "load_of rv t \<Longrightarrow> \<not> run_task t"
  by (cases t) auto

lemma remove_task:
  assumes "distinct (List.map fst ts)" and "map_of ts n = Some t"
  defines "us \<equiv> filter (\<lambda>(k, _). k \<noteq> n) ts"
  shows "running_tasks ts = of_bool (run_task t) + running_tasks us"
    and "loading_tasks rv ts = of_bool (load_of rv t) + loading_tasks rv us"
    and "distinct (List.map fst us)" and "set us \<subseteq> set ts" and "(n, t) \<in> set ts"
proof -
  have "(n, t) \<in> set ts" using assms(2) by (rule map_of_SomeD)
  then obtain as bs where ts: "ts = as @ (n, t) # bs" by (meson split_list)
  have "n \<notin> fst ` set as" "n \<notin> fst ` set bs" using assms(1) by (auto simp: ts)
  then have "filter (\<lambda>(k, _). k \<noteq> n) as = as" "filter (\<lambda>(k, _). k \<noteq> n) bs = bs"
    by (auto simp: filter_id_conv image_iff)
  then have us: "us = as @ bs" by (simp add: us_def ts)
  show "running_tasks ts = of_bool (run_task t) + running_tasks us"
    "loading_tasks rv ts = of_bool (load_of rv t) + loading_tasks rv us"
    "distinct (List.map fst us)" "set us \<subseteq> set ts" "(n, t) \<in> set ts"
    using assms(1) by (auto simp: ts us)
qed

lemma core_drop_other:
  assumes "core_ok ts nx ab rn ld rv cv" and "map_of ts n = Some t" and "\<not> run_task t" and "\<not> load_of rv t"
  shows "core_ok (filter (\<lambda>(k, _). k \<noteq> n) ts) nx ab rn ld rv cv"
proof -
  have "distinct (List.map fst ts)" using assms(1) by (simp add: core_ok_def)
  note r = remove_task [OF this assms(2)]
  show ?thesis using assms r(1-4) unfolding core_ok_def by (auto dest: subsetD [OF r(4)])
qed

lemma core_drop_load:
  assumes "core_ok ts nx ab rn ld rv cv" and "map_of ts n = Some t" and "load_of rv t"
  shows "core_ok (filter (\<lambda>(k, _). k \<noteq> n) ts) nx None False False rv cv \<and> ld \<and> ab = None \<and> \<not> rn"
proof -
  have "distinct (List.map fst ts)" using assms(1) by (simp add: core_ok_def)
  note r = remove_task [OF this assms(2)]
  have "ld" using assms(1,3) r(2) [of rv] by (cases ld) (simp_all add: core_ok_def)
  then show ?thesis using assms r(1-4) load_of_not_run [OF assms(3)] unfolding core_ok_def
    by (auto dest: subsetD [OF r(4)])
qed

lemma core_drop_run:
  assumes "core_ok ts nx ab rn ld rv cv" and "map_of ts n = Some t" and "run_task t"
  shows "core_ok (filter (\<lambda>(k, _). k \<noteq> n) ts) nx None False False rv cv \<and> \<not> ld \<and> ab \<noteq> None \<and> rn \<and> task_fits rv cv t"
proof -
  have "distinct (List.map fst ts)" using assms(1) by (simp add: core_ok_def)
  note r = remove_task [OF this assms(2)]
  have "ab \<noteq> None" using assms(1,3) r(1) by (cases ab) (simp_all add: core_ok_def)
  then show ?thesis using assms r load_of_not_run [of rv t] unfolding core_ok_def
    by (auto dest: subsetD [OF r(4)])
qed

lemma core_spawn_other:
  "core_ok ts nx ab rn ld rv cv \<Longrightarrow> \<not> run_task t \<Longrightarrow> \<not> load_of rv t \<Longrightarrow> task_fits rv cv t \<Longrightarrow>
   core_ok (ts @ [(nx, t)]) (Suc nx) ab rn ld rv cv"
  by (auto simp: core_ok_def less_Suc_eq)

lemma fits_without_run:
  "\<not> run_task t \<Longrightarrow> task_fits rv cv t \<Longrightarrow> \<not> load_of rv t \<Longrightarrow> task_fits rv cv' t"
  by (cases t) auto

lemma core_spawn_run:
  assumes "core_ok ts nx None False False rv cv" and "run_task t" and "task_fits rv cv' t"
  shows "core_ok (ts @ [(nx, t)]) (Suc nx) (Some b) True False rv cv'"
proof -
  have "\<forall>(k, u) \<in> set ts. \<not> run_task u \<and> \<not> load_of rv u \<and> task_fits rv cv u"
    using assms(1) by (auto simp: core_ok_def running_tasks_none loading_tasks_none)
  then have "\<forall>(k, u) \<in> set ts. task_fits rv cv' u" using fits_without_run by fast
  then show ?thesis
    using assms load_of_not_run [of rv t] by (auto simp: core_ok_def less_Suc_eq)
qed

lemma fits_bump: "\<not> run_task t \<Longrightarrow> task_fits rv cv t \<Longrightarrow> rv < rv' \<Longrightarrow> task_fits rv' cv' t \<and> \<not> load_of rv' t"
  by (cases t) auto

lemma core_bump:
  assumes "core_ok ts nx None rn ld rv cv"
  shows "core_ok ts nx None rn False (Suc rv) cv'"
proof -
  have "\<forall>(k, u) \<in> set ts. \<not> run_task u \<and> task_fits rv cv u"
    using assms by (auto simp: core_ok_def running_tasks_none)
  then have "\<forall>(k, u) \<in> set ts. task_fits (Suc rv) cv' u \<and> \<not> load_of (Suc rv) u" using fits_bump by fast
  then show ?thesis
    using assms by (auto simp: core_ok_def loading_tasks_none)
qed

lemma core_spawn_load:
  assumes "core_ok ts nx None rn ld rv cv"
  shows "core_ok (ts @ [(nx, K_load (Suc rv) i d k m)]) (Suc nx) None rn True (Suc rv) i"
  using core_bump [OF assms, of i] by (auto simp: core_ok_def less_Suc_eq)

lemma core_idle: "core_ok ts nx None rn ld rv cv \<Longrightarrow> \<not> rn"
  by (simp add: core_ok_def)

lemma core_stop: "core_ok ts nx ab rn ld rv cv \<Longrightarrow> core_ok ts nx (map_option f ab) rn ld rv cv"
  by (simp add: core_ok_def)

lemma poll_drop: "poll_ok ts pd pl pn \<Longrightarrow> poll_ok (filter P ts) pd pl pn"
  by (auto simp: poll_ok_def)

lemma poll_spawn: "poll_ok ts pd pl pn \<Longrightarrow> (\<And>n i. t \<noteq> K_poll n i) \<Longrightarrow> poll_ok (ts @ [(k, t)]) pd pl pn"
  by (auto simp: poll_ok_def)

lemma poll_spawn_tick: "poll_ok ts pd (Some (n, i)) pn \<Longrightarrow> poll_ok (ts @ [(k, K_poll n i)]) pd (Some (n, i)) pn"
  by (auto simp: poll_ok_def)

lemma poll_restart:
  assumes "poll_ok ts pd pl pn"
  shows "poll_ok ts (r, c) (if r \<and> c \<noteq> [] then Some (pn, c) else None) (Suc pn)"
  using assms by (fastforce simp: poll_ok_def)

section \<open>Operations\<close>

lemmas chat_frames = notify_def cancelRename_def cancelEdit_def set_quota_open_def chat_spawn_def
  bind_target_def update_answer_def Let_def

lemma core_openConversation: "core s \<Longrightarrow> core (openConversation i d s)"
  by (auto simp: openConversation_def chat_frames intro!: core_spawn_load)

lemma poll_openConversation: "poll s \<Longrightarrow> poll (openConversation i d s)"
  by (auto simp: openConversation_def chat_frames intro!: poll_spawn)

lemma core_resetConversation: "core s \<Longrightarrow> core (resetConversation d k s)"
  by (auto simp: resetConversation_def chat_frames intro: core_bump)

lemma poll_resetConversation: "poll s \<Longrightarrow> poll (resetConversation d k s)"
  by (auto simp: resetConversation_def chat_frames)

lemmas message_ops = message_removed_def message_edited_def edit_settled_def startEdit_def removeMessage_def commitEdit_def
lemmas list_ops = action_failed_def renamed_def removed_def download_def exported_def exportConversation_def
  startRename_def commitRename_def removeConversation_def

lemma core_message_ops:
  assumes "core s"
  shows "core (message_removed conv item s)" "core (message_edited conv item s)" "core (edit_settled toast s)"
    "core (startEdit m s)" "core (removeMessage m c s)" "core (commitEdit m s)"
  using assms by (auto simp: message_ops chat_frames intro!: core_spawn_other)

lemma poll_message_ops:
  assumes "poll s"
  shows "poll (message_removed conv item s)" "poll (message_edited conv item s)" "poll (edit_settled toast s)"
    "poll (startEdit m s)" "poll (removeMessage m c s)" "poll (commitEdit m s)"
  using assms by (auto simp: message_ops chat_frames intro!: poll_spawn)

lemma core_list_ops:
  assumes "core s"
  shows "core (action_failed f e s)" "core (renamed i nxt conv s)" "core (download now l ms meta s)"
    "core (exported now l item s)" "core (exportConversation now i l s)" "core (startRename item' s)"
    "core (commitRename i s)" "core (removeConversation item' c s)"
  using assms by (auto simp: list_ops chat_frames intro!: core_spawn_other split: option.splits)

lemma poll_list_ops:
  assumes "poll s"
  shows "poll (action_failed f e s)" "poll (renamed i nxt conv s)" "poll (download now l ms meta s)"
    "poll (exported now l item s)" "poll (exportConversation now i l s)" "poll (startRename item' s)"
    "poll (commitRename i s)" "poll (removeConversation item' c s)"
  using assms by (auto simp: list_ops chat_frames intro!: poll_spawn split: option.splits)

lemma core_removed: "core s \<Longrightarrow> core (removed i conv known s)"
  using core_resetConversation [of s "[]" known] by (auto simp: removed_def notify_def Let_def)

lemma poll_removed: "poll s \<Longrightarrow> poll (removed i conv known s)"
  using poll_resetConversation [of s "[]" known] by (auto simp: removed_def notify_def Let_def)

lemma core_rename_step: "core s \<Longrightarrow> core (chat_spawn (K_rename_refresh i nxt conv) s)"
  by (auto simp: chat_spawn_def intro!: core_spawn_other)

lemma core_performRun: "core s \<Longrightarrow> core (performRun a b s)"
proof -
  assume core: "core s"
  show ?thesis
  proof (cases "run_blocked s \<or> ch_conv s = [] \<and> ch_target s \<noteq> auto \<and> selectedTarget (accounts_of s) (ch_target s) = None")
    case True
    then show ?thesis using core by (auto simp: performRun_def)
  next
    case False
    then have idle: "ch_abort s = None" "\<not> ch_loading s" by (auto simp: run_blocked_def)
    moreover have "\<not> ch_running s" using core idle by (simp add: core_ok_def)
    moreover have "task_fits (ch_revision s) (ch_conv s) (K_read (run_context a b s))"
      by (simp add: run_context_def or_str_def)
    ultimately show ?thesis
      using False core core_spawn_run [of "ch_tasks s" "ch_next s" "ch_revision s" "ch_conv s" "K_read (run_context a b s)" "ch_conv s" False]
      by (auto simp: performRun_def chat_spawn_def)
  qed
qed

lemma poll_performRun: "poll s \<Longrightarrow> poll (performRun a b s)"
  by (auto simp: performRun_def chat_frames intro!: poll_spawn)

section \<open>Continuations\<close>

lemma core_drop: "core s \<Longrightarrow> map_of (ch_tasks s) n = Some t \<Longrightarrow> \<not> run_task t \<Longrightarrow> \<not> load_of (ch_revision s) t \<Longrightarrow> core (drop_task n s)"
  by (simp add: drop_task_def core_drop_other)

lemma poll_drop_task: "poll s \<Longrightarrow> poll (drop_task n s)"
  by (simp add: drop_task_def poll_drop)

lemma drop_task_fields [simp]:
  "ch_mounted (drop_task n s) = ch_mounted s" "ch_revision (drop_task n s) = ch_revision s"
  "ch_abort (drop_task n s) = ch_abort s" "ch_running (drop_task n s) = ch_running s"
  "ch_loading (drop_task n s) = ch_loading s" "ch_conv (drop_task n s) = ch_conv s"
  "ch_next (drop_task n s) = ch_next s" "ch_tasks (drop_task n s) = filter (\<lambda>(k, _). k \<noteq> n) (ch_tasks s)"
  "ch_messages (drop_task n s) = ch_messages s" "ch_active (drop_task n s) = ch_active s"
  "ch_poll (drop_task n s) = ch_poll s" "ch_title (drop_task n s) = ch_title s"
  by (simp_all add: drop_task_def)

lemma core_load_done:
  assumes "core s" and "ch_mounted s" and "map_of (ch_tasks s) n = Some (K_load r i d k m)"
  shows "core (load_done r m item (drop_task n s))"
proof (cases "r = ch_revision s")
  case True
  then show ?thesis
    using core_drop_load [OF assms(1,3)] assms(2) by (auto simp: load_done_def bind_target_def Let_def)
next
  case False
  then show ?thesis using core_drop [OF assms(1,3)] by (simp add: load_done_def)
qed

lemma core_load_failed:
  assumes "core s" and "ch_mounted s" and "map_of (ch_tasks s) n = Some (K_load r i d k m)"
  shows "core (load_failed r d k e (drop_task n s))"
proof (cases "r = ch_revision s")
  case True
  then have c: "core_ok (filter (\<lambda>(k, _). k \<noteq> n) (ch_tasks s)) (ch_next s) None False False r (ch_conv s)"
    and "ch_abort s = None" "\<not> ch_running s"
    using core_drop_load [OF assms(1,3)] by auto
  then show ?thesis
    using True assms(2) core_bump [OF c, of "[]"]
    by (auto simp: load_failed_def resetConversation_def chat_frames)
next
  case False
  then show ?thesis using core_drop [OF assms(1,3)] by (simp add: load_failed_def)
qed

lemma poll_loads: "poll s \<Longrightarrow> poll (load_done r m item s)" "poll s \<Longrightarrow> poll (load_failed r d k e s)"
  using poll_resetConversation [of s d k]
  by (auto simp: load_done_def load_failed_def bind_target_def notify_def Let_def)

lemma core_run_step:
  assumes "core s" and "ch_mounted s" and "map_of (ch_tasks s) n = Some t" and "run_task t"
  shows "core (finish_run (drop_task n s))"
    and "run_task u \<Longrightarrow> task_fits (ch_revision s) cv u \<Longrightarrow>
      core_ok (filter (\<lambda>(k, _). k \<noteq> n) (ch_tasks s) @ [(ch_next s, u)]) (Suc (ch_next s)) (ch_abort s)
        (ch_running s) (ch_loading s) (ch_revision s) cv"
    and "task_fits (ch_revision s) (ch_conv s) t"
proof -
  have c: "core_ok (filter (\<lambda>(k, _). k \<noteq> n) (ch_tasks s)) (ch_next s) None False False (ch_revision s) (ch_conv s)"
    and f: "\<not> ch_loading s" "ch_running s" "task_fits (ch_revision s) (ch_conv s) t" and ab: "ch_abort s \<noteq> None"
    using core_drop_run [OF assms(1,3,4)] by auto
  show "core (finish_run (drop_task n s))" using c f assms(2) by (simp add: finish_run_def)
  show "task_fits (ch_revision s) (ch_conv s) t" by (rule f)
  obtain b where "ch_abort s = Some b" using ab by blast
  then show "run_task u \<Longrightarrow> task_fits (ch_revision s) cv u \<Longrightarrow>
      core_ok (filter (\<lambda>(k, _). k \<noteq> n) (ch_tasks s) @ [(ch_next s, u)]) (Suc (ch_next s)) (ch_abort s)
        (ch_running s) (ch_loading s) (ch_revision s) cv"
    using core_spawn_run [OF c] f by simp
qed

lemma core_run_ops:
  assumes "core s" and "ch_mounted s" and "map_of (ch_tasks s) n = Some t"
  shows "t = K_read c \<Longrightarrow> core (run_send c attachments (drop_task n s))"
    and "t = K_read c \<or> t = K_run c p \<Longrightarrow> core (run_failed c e (drop_task n s))"
    and "t = K_run c p \<Longrightarrow> core (run_done ms c result (drop_task n s))"
    and "t = K_run_load c i \<Longrightarrow> core (run_loaded item (drop_task n s))"
    and "t = K_run_failed c \<Longrightarrow> core (run_recovered c item (drop_task n s))"
    and "run_task t \<Longrightarrow> core (finish_run (drop_task n s))"
  using core_run_step [OF assms] assms(2)
  by (auto simp: run_send_def run_failed_def run_done_def run_loaded_def run_recovered_def finish_run_def chat_frames)

lemma poll_run_ops:
  assumes "poll s"
  shows "poll (run_send c attachments s)" "poll (run_failed c e s)" "poll (run_done ms c result s)"
    "poll (run_loaded item s)" "poll (run_recovered c item s)" "poll (finish_run s)"
  using assms
  by (auto simp: run_send_def run_failed_def run_done_def run_loaded_def run_recovered_def finish_run_def chat_frames
      intro!: poll_spawn)

lemma core_polled: "core s \<Longrightarrow> core (polled n item s)"
  by (simp add: polled_def)

lemma poll_polled: "poll s \<Longrightarrow> poll (polled n item s)"
  by (simp add: polled_def)

lemma core_chat_resume:
  assumes "core s" and "ch_mounted s" and "map_of (ch_tasks s) n = Some t" and "chat_answers t r"
  shows "core (chat_resume now ms t r (drop_task n s))"
proof -
  note d = core_drop [OF assms(1,3)]
  show ?thesis
    using assms(3,4) d
    by (cases t; cases r)
      (auto simp: chat_answers_def core_polled core_list_ops core_removed core_message_ops core_rename_step
        intro: core_load_done [OF assms(1,2)] core_load_failed [OF assms(1,2)] core_run_ops [OF assms(1,2)])
qed

lemma poll_chat_resume:
  assumes "poll s"
  shows "poll (chat_resume now ms t r s)"
  using assms
  by (cases t; cases r)
    (auto simp: poll_loads poll_polled poll_list_ops poll_removed poll_message_ops poll_run_ops chat_spawn_def
      intro!: poll_spawn)

section \<open>Every reachable state\<close>

lemma chat_commit_fields [simp]:
  "ch_tasks (chat_commit s) = ch_tasks s" "ch_next (chat_commit s) = ch_next s" "ch_abort (chat_commit s) = ch_abort s"
  "ch_running (chat_commit s) = ch_running s" "ch_loading (chat_commit s) = ch_loading s"
  "ch_revision (chat_commit s) = ch_revision s" "ch_conv (chat_commit s) = ch_conv s"
  "ch_mounted (chat_commit s) = ch_mounted s" "ch_messages (chat_commit s) = ch_messages s"
  "ch_title (chat_commit s) = ch_title s" "ch_prompt (chat_commit s) = ch_prompt s"
  "ch_remote_running (chat_commit s) = ch_remote_running s" "ch_active (chat_commit s) = ch_conv s"
  "ch_poll_dep (chat_commit s) = (ch_remote_running s, ch_conv s)"
  by (simp_all add: chat_commit_def poll_effect_def active_effect_def session_effect_def chat_quota_effect_def
      model_effect_def Let_def)

lemma poll_commit: "poll s \<Longrightarrow> poll (chat_commit s)"
proof -
  assume p: "poll s"
  define u where "u = active_effect (session_effect (chat_quota_effect (model_effect s)))"
  have f: "ch_tasks u = ch_tasks s" "ch_poll_dep u = ch_poll_dep s" "ch_poll u = ch_poll s" "ch_poll_next u = ch_poll_next s"
    by (simp_all add: u_def active_effect_def session_effect_def chat_quota_effect_def model_effect_def)
  have "poll u" using p by (simp add: f)
  then have "poll (poll_effect u)" using poll_restart by (auto simp: poll_effect_def Let_def)
  then show ?thesis by (simp add: chat_commit_def u_def)
qed

lemma chat_ok_commit: "(ch_mounted s \<Longrightarrow> core s \<and> poll s) \<Longrightarrow> chat_ok (chat_commit s)"
  using poll_commit [of s] by (simp add: chat_ok_def settled_ok_def)

lemma core_set_props: "core s \<Longrightarrow> core (set_props p s)"
  using core_openConversation by (auto simp: set_props_def resume_effect_def Let_def)

lemma poll_set_props: "poll s \<Longrightarrow> poll (set_props p s)"
  using poll_openConversation by (auto simp: set_props_def resume_effect_def Let_def)

lemma core_run_delta: "core (run_delta c d s) = core s" "poll (run_delta c d s) = poll s"
  by (simp_all add: run_delta_def update_answer_def)

lemma core_simple:
  assumes "core s"
  shows "core (reference_note note w s)" "core (add_files_step fs s)" "core (poll_tick s)" "core (cancelRename s)"
    "core (cancelEdit s)" "core (startNew s)" "core (stop_run s)"
  using assms core_resetConversation [of s "[]" "target_known s"]
  by (auto simp: reference_note_def add_files_step_def poll_tick_def chat_frames startNew_def stop_run_def
      intro!: core_spawn_other core_stop split: option.splits prod.splits)

lemma poll_simple:
  assumes "poll s"
  shows "poll (reference_note note w s)" "poll (add_files_step fs s)" "poll (poll_tick s)" "poll (cancelRename s)"
    "poll (cancelEdit s)" "poll (startNew s)" "poll (stop_run s)"
  using assms poll_resetConversation [of s "[]" "target_known s"]
  by (auto simp: reference_note_def add_files_step_def poll_tick_def chat_frames startNew_def stop_run_def
      intro!: poll_spawn_tick split: option.splits prod.splits)

lemma task_lookup:
  assumes "core s" and "(n, t) \<in> set (ch_tasks s)"
  shows "map_of (ch_tasks s) n = Some t"
  using assms by (simp add: core_ok_def)

lemma apply_ok:
  assumes core: "core s" and "poll s" and "ch_mounted s" and "chat_enabled e s" and "ch_mounted (chat_apply e s)"
  shows "core (chat_apply e s) \<and> poll (chat_apply e s)"
proof (cases e)
  case (E_reply n r now ms)
  then obtain t where "(n, t) \<in> set (ch_tasks s)" and a: "chat_answers t r" using assms(4) by (auto simp: chat_enabled_def)
  then have t: "map_of (ch_tasks s) n = Some t" using task_lookup core by blast
  show ?thesis
    using core_chat_resume [OF core assms(3) t a] poll_chat_resume [OF poll_drop_task [OF assms(2)]] t E_reply by simp
next
  case (E_delta n d)
  then show ?thesis using assms(1,2) core_run_delta by (auto split: option.splits chat_task.splits)
next
  case E_unmount
  then show ?thesis using assms(5) by (simp add: unmount_chat_def)
qed (use assms in \<open>auto simp: core_openConversation poll_openConversation core_simple poll_simple core_performRun
    poll_performRun core_list_ops poll_list_ops core_message_ops poll_message_ops core_set_props poll_set_props\<close>)

lemma core_start: "core_ok [] 0 None False False 0 []" "poll_ok [] (False, []) None 0"
  by (simp_all add: core_ok_def poll_ok_def)

lemma restore_fields [simp]:
  "ch_tasks (restore_session v s) = ch_tasks s" "ch_next (restore_session v s) = ch_next s"
  "ch_abort (restore_session v s) = ch_abort s" "ch_running (restore_session v s) = ch_running s"
  "ch_revision (restore_session v s) = ch_revision s" "ch_conv (restore_session v s) = ch_conv s"
  "ch_poll_dep (restore_session v s) = ch_poll_dep s" "ch_poll (restore_session v s) = ch_poll s"
  "ch_poll_next (restore_session v s) = ch_poll_next s" "ch_mounted (restore_session v s)"
  by (auto simp: restore_session_def Let_def split: option.splits)

lemma open_mounted [simp]: "ch_mounted (openConversation i d s) = ch_mounted s"
  by (simp add: openConversation_def chat_frames)

lemma mount_ok: "core (mount_chat session local (initial_chat p m w)) \<and> poll (mount_chat session local (initial_chat p m w)) \<and>
    ch_mounted (mount_chat session local (initial_chat p m w))"
proof -
  let ?u = "restore_session (saved_session session local) (initial_chat p m w)"
  have f: "ch_tasks (initial_chat p m w) = []" "ch_next (initial_chat p m w) = 0" "ch_abort (initial_chat p m w) = None"
    "ch_running (initial_chat p m w) = False" "ch_revision (initial_chat p m w) = 0" "ch_conv (initial_chat p m w) = []"
    "ch_poll_dep (initial_chat p m w) = (False, [])" "ch_poll (initial_chat p m w) = None"
    "ch_poll_next (initial_chat p m w) = 0"
    by (simp_all add: initial_chat_def)
  have "poll_ok [(0, K_load n i d k ms)] (False, []) None 0" for n i d k ms by (simp add: poll_ok_def)
  then have "core (openConversation i d ?u) \<and> poll (openConversation i d ?u)" for i d
    using core_spawn_load [OF core_start(1), of i d "target_known ?u" "List.map mi_id (cp_models (ch_props ?u))"]
    by (simp add: openConversation_def chat_frames f)
  then show ?thesis
    using core_start by (simp add: mount_chat_def Let_def f)
qed

lemma resume_effect_ok:
  "core s \<Longrightarrow> poll s \<Longrightarrow> core (resume_effect b c s) \<and> poll (resume_effect b c s)"
  using core_openConversation poll_openConversation by (auto simp: resume_effect_def Let_def)

lemma chat_reachable_chat_ok: "chat_reachable s \<Longrightarrow> chat_ok s"
proof (induction rule: chat_reachable.induct)
  case (chat_mounted session local p m w)
  then show ?case using mount_ok resume_effect_ok by (intro chat_ok_commit) blast
next
  case (chat_stepped s e)
  then show ?case unfolding chat_step_def
    using apply_ok by (intro chat_ok_commit) (auto simp: chat_ok_def)
qed

section \<open>Consistency\<close>

text \<open>
  C1. In every state a mounted chat can reach: it shows "running" exactly while a run is out, and then
  exactly one continuation of that run is pending; it shows "loading" exactly while the load of its
  current revision is pending, and exactly one; it never runs and loads at once; pending requests have
  distinct numbers; the mirror of the conversation id agrees with it; and polling is on only for the
  conversation on screen while that is still generating.\<close>

theorem chat_consistent:
  assumes "chat_reachable s" and "ch_mounted s"
  shows "(ch_running s \<longleftrightarrow> ch_abort s \<noteq> None) \<and>
     length (filter (\<lambda>(k, t). run_task t) (ch_tasks s)) = of_bool (ch_running s) \<and>
     length (filter (\<lambda>(k, t). load_of (ch_revision s) t) (ch_tasks s)) = of_bool (ch_loading s) \<and>
     \<not> (ch_running s \<and> ch_loading s) \<and> distinct (List.map fst (ch_tasks s)) \<and> ch_active s = ch_conv s \<and>
     (\<forall>n i. ch_poll s = Some (n, i) \<longrightarrow> i = ch_conv s \<and> ch_remote_running s)"
proof -
  have "core s" "poll s" "settled_ok s" using chat_reachable_chat_ok [OF assms(1)] assms(2) by (simp_all add: chat_ok_def)
  then show ?thesis
    by (auto simp: core_ok_def poll_ok_def settled_ok_def running_tasks_def loading_tasks_def)
qed

definition no_props :: chat_props where
  "no_props = \<lparr>cp_models = [], cp_conversations = [], cp_accounts = [], cp_visible = True, cp_initial = None\<rparr>"

definition fresh_chat :: chat where
  "fresh_chat = chat_commit (resume_effect None [] (mount_chat None None (initial_chat no_props None False)))"

lemma fresh_chat_reachable: "chat_reachable fresh_chat"
  unfolding fresh_chat_def by (rule chat_mounted)

lemma fresh_chat_mounted: "ch_mounted fresh_chat"
  by code_simp

lemma chat_consistent_witness:
  "(ch_running fresh_chat \<longleftrightarrow> ch_abort fresh_chat \<noteq> None) \<and> ch_active fresh_chat = ch_conv fresh_chat"
  using chat_consistent [OF fresh_chat_reachable fresh_chat_mounted] by simp

section \<open>Replies and the transcript on screen\<close>

fun task_conversation :: "chat_task \<Rightarrow> jsstr option" where
  "task_conversation (K_load r i d k m) = Some i"
| "task_conversation (K_poll n i) = Some i"
| "task_conversation (K_remove_message conv m) = Some conv"
| "task_conversation (K_edit conv m content) = Some conv"
| "task_conversation (K_read c) = Some (rn_id c)"
| "task_conversation (K_run c p) = Some (rn_id c)"
| "task_conversation (K_run_load c i) = Some i"
| "task_conversation (K_run_failed c) = Some (rn_id c)"
| "task_conversation _ = None"

fun delete_task :: "chat_task \<Rightarrow> bool" where
  "delete_task (K_delete i conv known) = True"
| "delete_task _ = False"

lemma messages_frames [simp]:
  "ch_messages (notify toast s) = ch_messages s" "ch_messages (cancelRename s) = ch_messages s"
  "ch_messages (cancelEdit s) = ch_messages s" "ch_messages (chat_spawn t s) = ch_messages s"
  "ch_messages (bind_target item s) = ch_messages s" "ch_messages (finish_run s) = ch_messages s"
  "ch_messages (action_failed f e s) = ch_messages s" "ch_messages (renamed i nxt conv s) = ch_messages s"
  "ch_messages (exported now label item s) = ch_messages s" "ch_messages (edit_settled toast s) = ch_messages s"
  by (simp_all add: chat_frames finish_run_def action_failed_def renamed_def exported_def download_def edit_settled_def)

lemma message_ops_messages:
  "ch_messages (message_removed conv item s) =
     (if ch_mounted s \<and> ch_active s = conv then opt_list (cd_messages item) else ch_messages s)"
  "ch_messages (message_edited conv item s) =
     (if ch_mounted s \<and> ch_active s = conv then opt_list (cd_messages item) else ch_messages s)"
  by (simp_all add: message_removed_def message_edited_def)


section \<open>Traces\<close>

definition listed :: "string \<Rightarrow> string \<Rightarrow> conversation_summary" where
  "listed i title = no_conversation_summary\<lparr>cv_id := js i, cv_title := Some (js title)\<rparr>"

definition stored :: "string \<Rightarrow> string \<Rightarrow> string \<Rightarrow> conversation_detail" where
  "stored i title body = no_conversation_detail\<lparr>cv_id := js i, cv_title := Some (js title),
     cd_messages := Some [no_conversation_message\<lparr>cm_id := Some (js body), cm_content := Some (js body)\<rparr>]\<rparr>"

definition two_conversations :: chat where
  "two_conversations = chat_commit (resume_effect None [] (mount_chat None None (initial_chat
     (no_props\<lparr>cp_conversations := [listed ''a'' ''Alpha'', listed ''b'' ''Beta'']\<rparr>) None False)))"

lemma two_conversations_reachable: "chat_reachable two_conversations"
  unfolding two_conversations_def by (rule chat_mounted)

definition first_open :: chat where "first_open = chat_step (E_open (js ''a'')) two_conversations"

lemma first_open_facts:
  "chat_reachable first_open" "ch_mounted first_open" "ch_conv first_open = js ''a''"
  "(0, K_load 1 (js ''a'') [] False []) \<in> set (ch_tasks first_open)"
  "ch_messages (chat_step (E_reply 0 (C_detail (stored ''a'' ''Alpha'' ''from a'')) [] 0) first_open) \<noteq> ch_messages first_open"
proof -
  show "chat_reachable first_open"
    unfolding first_open_def by (rule chat_stepped [OF two_conversations_reachable]) code_simp+
qed code_simp+


text \<open>
  \<open>commitRename\<close> and \<open>removeConversation\<close> compare with the conversation that was open when they were
  called, not with the one on screen when the reply arrives, and opening another conversation in
  between is allowed. The facts of a trace are carried from state to state.
\<close>

lemma commit_more_fields [simp]:
  "ch_props (chat_commit s) = ch_props s" "ch_rename_value (chat_commit s) = ch_rename_value s"
  "ch_renaming (chat_commit s) = ch_renaming s" "ch_busy (chat_commit s) = ch_busy s"
  "ch_load_failed (chat_commit s) = ch_load_failed s"
  by (simp_all add: chat_commit_def poll_effect_def active_effect_def session_effect_def chat_quota_effect_def
      model_effect_def Let_def)

definition quiet :: "chat \<Rightarrow> bool" where
  "quiet s \<longleftrightarrow> chat_reachable s \<and> ch_mounted s \<and> ch_abort s = None \<and> \<not> ch_running s \<and> cp_visible (ch_props s) \<and>
     cp_conversations (ch_props s) = [listed ''a'' ''Alpha'', listed ''b'' ''Beta'']"

lemma quiet_step:
  assumes "quiet s" and "chat_enabled e s"
    and "ch_mounted (chat_apply e s)" "ch_abort (chat_apply e s) = None" "\<not> ch_running (chat_apply e s)"
      "ch_props (chat_apply e s) = ch_props s"
  shows "quiet (chat_step e s)"
  using assms chat_stepped [of s e] by (simp add: quiet_def chat_step_def)

lemma quiet_fields: "quiet s \<Longrightarrow> ch_mounted s \<and> ch_abort s = None \<and> \<not> ch_running s \<and> cp_visible (ch_props s) \<and>
    cp_conversations (ch_props s) = [listed ''a'' ''Alpha'', listed ''b'' ''Beta'']"
  by (simp add: quiet_def)

lemma quiet_start:
  "quiet two_conversations" "ch_tasks two_conversations = []" "ch_next two_conversations = 0"
  "ch_revision two_conversations = 0" "ch_busy two_conversations = []" "ch_renaming two_conversations = []"
proof -
  have "(ch_busy two_conversations, ch_tasks two_conversations, ch_next two_conversations, ch_revision two_conversations, ch_mounted two_conversations,
      ch_abort two_conversations, ch_running two_conversations, cp_visible (ch_props two_conversations), ch_renaming two_conversations,
      cp_conversations (ch_props two_conversations)) = ([], [], 0, 0, True, None, False, True, [], [listed ''a'' ''Alpha'', listed ''b'' ''Beta''])"
    by code_simp
  then show "quiet two_conversations" "ch_tasks two_conversations = []" "ch_next two_conversations = 0"
    "ch_revision two_conversations = 0" "ch_busy two_conversations = []" "ch_renaming two_conversations = []"
    using two_conversations_reachable by (simp_all add: quiet_def)
qed

lemma labels_ab: "conversationLabel (listed ''a'' ''Alpha'') = js ''Alpha''" "cv_id (listed i t) = js i"
  by (code_simp, simp add: listed_def)

lemma short_title: "length (js ''Renamed'') \<le> 72"
  by (simp add: js_def)

lemma trim_renamed: "trim (js ''Renamed'') = js ''Renamed''"
  by code_simp

text \<open>Renaming \<open>a\<close>, opening \<open>b\<close>, and only then the two replies of the rename.\<close>

lemmas trace_defs = chat_step_def chat_enabled_def chat_allowed_def row_action_def rename_shown_def composer_on_def
  conversations_of_def openConversation_def chat_frames startRename_def commitRename_def
  removeConversation_def renamed_def load_done_def drop_task_def labels_ab trim_renamed

theorem rename_shown_on_other_conversation:
  "\<exists>s. chat_reachable s \<and> ch_conv s = js ''b'' \<and> \<not> ch_loading s \<and> ch_title s = js ''Renamed''"
proof -
  note q0 = quiet_start(1)
  define s1 where "s1 = chat_step (E_open (js ''a'')) two_conversations"
  have q1: "quiet s1" unfolding s1_def
    by (rule quiet_step [OF q0]) (use quiet_fields [OF q0] quiet_start short_title in \<open>simp_all add: trace_defs\<close>)
  obtain k0 where f1: "ch_conv s1 = js ''a''" "ch_tasks s1 = [(0, k0)]" "ch_next s1 = 1" "ch_revision s1 = 1" "ch_busy s1 = []"
      "ch_renaming s1 = []"
    using quiet_fields [OF q0] quiet_start by (simp add: s1_def trace_defs)
  define s2 where "s2 = chat_step (E_start_rename (listed ''a'' ''Alpha'')) s1"
  have remote: "\<not> opt_true (cv_remote_only (listed ''a'' ''Alpha''))" by (simp add: listed_def no_conversation_summary_def)
  have q2: "quiet s2" unfolding s2_def
    by (rule quiet_step [OF q1]) (use quiet_fields [OF q1] f1 remote short_title in \<open>simp_all add: trace_defs\<close>)
  have f2: "ch_conv s2 = js ''a''" "ch_tasks s2 = [(0, k0)]" "ch_next s2 = 1" "ch_revision s2 = 1" "ch_busy s2 = []"
    "ch_renaming s2 = js ''a''"
    using f1 remote by (simp_all add: s2_def trace_defs)
  define s3 where "s3 = chat_step (E_rename_value (js ''Renamed'')) s2"
  have q3: "quiet s3" unfolding s3_def
    by (rule quiet_step [OF q2]) (use quiet_fields [OF q2] f2 short_title in \<open>simp_all add: trace_defs\<close>)
  have f3: "ch_conv s3 = js ''a''" "ch_tasks s3 = [(0, k0)]" "ch_next s3 = 1" "ch_revision s3 = 1" "ch_busy s3 = []"
    "ch_renaming s3 = js ''a''" "ch_rename_value s3 = js ''Renamed''"
    using f2 by (simp_all add: s3_def trace_defs)
  define s4 where "s4 = chat_step (E_commit_rename (js ''a'')) s3"
  have q4: "quiet s4" unfolding s4_def
    by (rule quiet_step [OF q3]) (use quiet_fields [OF q3] f3 short_title in \<open>simp_all add: trace_defs\<close>)
  have f4: "ch_conv s4 = js ''a''" "ch_tasks s4 = [(0, k0), (1, K_rename (js ''a'') (js ''Renamed'') (js ''a''))]"
    "ch_next s4 = 2" "ch_revision s4 = 1" "ch_renaming s4 = js ''a''"
    using f3 quiet_fields [OF q3] by (simp_all add: s4_def trace_defs)
  define s5 where "s5 = chat_step (E_open (js ''b'')) s4"
  have q5: "quiet s5" unfolding s5_def
    by (rule quiet_step [OF q4]) (use quiet_fields [OF q4] f4 short_title in \<open>simp_all add: trace_defs\<close>)
  obtain d k m where f5: "ch_conv s5 = js ''b''" "ch_next s5 = 3" "ch_revision s5 = 2"
    "ch_tasks s5 = [(0, k0), (1, K_rename (js ''a'') (js ''Renamed'') (js ''a'')), (2, K_load 2 (js ''b'') d k m)]"
    using f4 quiet_fields [OF q4] by (simp add: s5_def trace_defs)
  define s6 where "s6 = chat_step (E_reply 1 C_done [] 0) s5"
  have q6: "quiet s6" unfolding s6_def
    by (rule quiet_step [OF q5]) (use quiet_fields [OF q5] f5 in \<open>simp_all add: trace_defs chat_answers_def\<close>)
  have f6: "ch_conv s6 = js ''b''" "ch_next s6 = 4" "ch_revision s6 = 2"
    "ch_tasks s6 = [(0, k0), (2, K_load 2 (js ''b'') d k m), (3, K_rename_refresh (js ''a'') (js ''Renamed'') (js ''a''))]"
    using f5 by (simp_all add: s6_def trace_defs)
  define s7 where "s7 = chat_step (E_reply 2 (C_detail (stored ''b'' ''Beta'' ''from b'')) [] 0) s6"
  have q7: "quiet s7" unfolding s7_def
    by (rule quiet_step [OF q6]) (use quiet_fields [OF q6] f6 in \<open>simp_all add: trace_defs chat_answers_def\<close>)
  have f7: "ch_conv s7 = js ''b''" "\<not> ch_loading s7"
    "ch_tasks s7 = [(0, k0), (3, K_rename_refresh (js ''a'') (js ''Renamed'') (js ''a''))]"
    using f6 quiet_fields [OF q6] by (simp_all add: s7_def trace_defs)
  define s8 where "s8 = chat_step (E_reply 3 C_done [] 0) s7"
  have q8: "quiet s8" unfolding s8_def
    by (rule quiet_step [OF q7]) (use quiet_fields [OF q7] f7 in \<open>simp_all add: trace_defs chat_answers_def\<close>)
  have "ch_conv s8 = js ''b''" "\<not> ch_loading s8" "ch_title s8 = js ''Renamed''"
    using f7 by (simp_all add: s8_def trace_defs)
  then show ?thesis using q8 by (auto simp: quiet_def)
qed

text \<open>Deleting \<open>a\<close>, opening \<open>b\<close> and typing a draft there, and only then the reply of the deletion.\<close>

theorem delete_closes_other_conversation:
  "\<exists>s. chat_reachable s \<and> chat_enabled (E_reply 1 C_done [] 0) s \<and> ch_conv s = js ''b'' \<and> ch_prompt s = js ''draft'' \<and>
     ch_conv (chat_step (E_reply 1 C_done [] 0) s) = [] \<and> ch_prompt (chat_step (E_reply 1 C_done [] 0) s) = []"
proof -
  note q0 = quiet_start(1)
  define s1 where "s1 = chat_step (E_open (js ''a'')) two_conversations"
  have q1: "quiet s1" unfolding s1_def
    by (rule quiet_step [OF q0]) (use quiet_fields [OF q0] quiet_start short_title in \<open>simp_all add: trace_defs\<close>)
  obtain k0 where f1: "ch_conv s1 = js ''a''" "ch_tasks s1 = [(0, k0)]" "ch_next s1 = 1" "ch_revision s1 = 1" "ch_busy s1 = []"
      "ch_renaming s1 = []"
    using quiet_fields [OF q0] quiet_start by (simp add: s1_def trace_defs)
  have item: "\<not> opt_true (cv_remote_only (listed ''a'' ''Alpha''))" "\<not> is_active_status (cv_status (listed ''a'' ''Alpha''))"
    by (simp_all add: listed_def no_conversation_summary_def is_active_status_def)
  define s2 where "s2 = chat_step (E_remove (listed ''a'' ''Alpha'') True) s1"
  have q2: "quiet s2" unfolding s2_def
    by (rule quiet_step [OF q1]) (use quiet_fields [OF q1] f1 item short_title in \<open>simp_all add: trace_defs\<close>)
  obtain kn where f2: "ch_tasks s2 = [(0, k0), (1, K_delete (js ''a'') (js ''a'') kn)]" "ch_next s2 = 2" "ch_revision s2 = 1"
      "ch_renaming s2 = []"
    using f1 item by (simp add: s2_def trace_defs)
  define s3 where "s3 = chat_step (E_open (js ''b'')) s2"
  have q3: "quiet s3" unfolding s3_def
    by (rule quiet_step [OF q2]) (use quiet_fields [OF q2] f2 short_title in \<open>simp_all add: trace_defs\<close>)
  obtain d k m where f3: "ch_conv s3 = js ''b''" "ch_revision s3 = 2"
    "ch_tasks s3 = [(0, k0), (1, K_delete (js ''a'') (js ''a'') kn), (2, K_load 2 (js ''b'') d k m)]"
    "\<not> ch_load_failed s3" "\<not> ch_remote_running s3"
    using f2 quiet_fields [OF q2] by (simp add: s3_def trace_defs)
  define s4 where "s4 = chat_step (E_reply 2 (C_detail (stored ''b'' ''Beta'' ''from b'')) [] 0) s3"
  have q4: "quiet s4" unfolding s4_def
    by (rule quiet_step [OF q3]) (use quiet_fields [OF q3] f3 short_title in \<open>simp_all add: trace_defs chat_answers_def\<close>)
  have status: "\<not> is_active_status (cv_status (stored ''b'' ''Beta'' ''from b''))"
    by code_simp
  have f4: "ch_conv s4 = js ''b''" "\<not> ch_loading s4" "\<not> ch_load_failed s4" "\<not> ch_remote_running s4"
    "ch_tasks s4 = [(0, k0), (1, K_delete (js ''a'') (js ''a'') kn)]"
    using f3 quiet_fields [OF q3] status by (simp_all add: s4_def trace_defs)
  define s5 where "s5 = chat_step (E_prompt (js ''draft'')) s4"
  have q5: "quiet s5" unfolding s5_def
    by (rule quiet_step [OF q4]) (use quiet_fields [OF q4] f4 in \<open>simp_all add: trace_defs\<close>)
  have f5: "ch_conv s5 = js ''b''" "ch_prompt s5 = js ''draft''" "ch_tasks s5 = [(0, k0), (1, K_delete (js ''a'') (js ''a'') kn)]"
    using f4 by (simp_all add: s5_def trace_defs)
  have "chat_enabled (E_reply 1 C_done [] 0) s5" using f5 by (simp add: trace_defs chat_answers_def)
  moreover have "ch_conv (chat_step (E_reply 1 C_done [] 0) s5) = []" "ch_prompt (chat_step (E_reply 1 C_done [] 0) s5) = []"
    using f5 quiet_fields [OF q5] by (simp_all add: trace_defs removed_def resetConversation_def)
  ultimately show ?thesis using q5 f5 by (auto simp: quiet_def)
qed

section \<open>Turns\<close>

interpretation chat_runs: single_flight "\<lambda>s. ch_abort s \<noteq> None" "\<lambda>(a, b). performRun a b" "\<lambda>u::unit. finish_run"
  by unfold_locales (auto simp: performRun_def run_blocked_def finish_run_def)

text \<open>
  Submitting again while a turn is out does nothing: after a submit that started a turn, any
  number of further submits leaves the state as it is, so one press of Enter sends one request.\<close>

theorem double_submit_ignored:
  assumes "ch_abort (performRun a b s) \<noteq> None"
  shows "fold (\<lambda>(a, b). performRun a b) ((a, b) # again) s = performRun a b s"
  using chat_runs.starts_collapse [of "(a, b)" s again] assms by simp

definition drafted :: chat where
  "drafted = chat_step (E_prompt (js ''Hi'')) fresh_chat"

lemma double_submit_ignored_witness:
  "performRun (js ''2'') (js ''2'') (performRun (js ''1'') (js ''1'') drafted) = performRun (js ''1'') (js ''1'') drafted \<and>
   running_tasks (ch_tasks (performRun (js ''1'') (js ''1'') drafted)) = 1"
proof -
  have "ch_abort (performRun (js ''1'') (js ''1'') drafted) \<noteq> None" by code_simp
  from double_submit_ignored [OF this, of "[(js ''2'', js ''2'')]"] show ?thesis by simp code_simp
qed

datatype load_reply = Load_item "jsstr list" conversation_detail | Load_error jsstr bool failure

fun load_deliver :: "nat \<Rightarrow> load_reply \<Rightarrow> chat \<Rightarrow> chat" where
  "load_deliver n (Load_item models item) s = load_done n models item s"
| "load_deliver n (Load_error draft known e) s = load_failed n draft known e s"

lemma revision_frames [simp]:
  "ch_revision (notify toast s) = ch_revision s" "ch_revision (bind_target item s) = ch_revision s"
  by (simp_all add: notify_def bind_target_def)

interpretation chat_loads: latest_wins ch_revision "\<lambda>(i, d). openConversation i d" load_deliver
proof
  fix q s and n :: nat and r
  show "ch_revision s \<le> ch_revision ((case q of (i, d) \<Rightarrow> openConversation i d) s)"
    by (auto simp: openConversation_def chat_frames split: prod.splits)
  show "n \<noteq> ch_revision s \<Longrightarrow> load_deliver n r s = s"
    by (cases r) (simp_all add: load_done_def load_failed_def)
  show "ch_revision s \<le> ch_revision (load_deliver n r s)"
    by (cases r) (auto simp: load_done_def load_failed_def resetConversation_def chat_frames)
qed

text \<open>
  C5. When conversations are opened in quick succession only the last one is shown: once another one
  is opened, the answers and failures of every earlier load are ignored, however many there are and in
  whatever order they arrive, even when they come after the answer of the last.\<close>

theorem superseded_loads_ignored:
  assumes "ch_abort s = None" and "\<forall>(n, r) \<in> set early. n \<le> ch_revision s" and "\<forall>(n, r) \<in> set late. n \<le> ch_revision s"
  shows "fold (\<lambda>(n, r). load_deliver n r) late (load_done m models item
       (fold (\<lambda>(n, r). load_deliver n r) early (openConversation i d s))) =
     load_done m models item (openConversation i d s)"
proof -
  have up: "ch_revision (openConversation i d s) = ch_revision s + 1"
    using assms(1) by (simp add: openConversation_def chat_frames)
  have "\<forall>(n, r) \<in> set early. n < ch_revision (openConversation i d s)"
    "\<forall>(n, r) \<in> set late. n < ch_revision (openConversation i d s)" using assms(2,3) up by auto
  from chat_loads.superseded_interleaved [OF this, of m "Load_item models item"]
  show ?thesis by (simp add: chat_loads.deliver_all_def)
qed

lemma superseded_loads_ignored_witness:
  "load_done 0 [] (stored ''a'' ''Alpha'' ''late'') (load_done 1 [] (stored ''b'' ''Beta'' ''m'') (openConversation (js ''b'') [] fresh_chat)) =
   load_done 1 [] (stored ''b'' ''Beta'' ''m'') (openConversation (js ''b'') [] fresh_chat)"
proof -
  have "ch_abort fresh_chat = None" by code_simp
  from superseded_loads_ignored [OF this, of "[]" "[(0, Load_item [] (stored ''a'' ''Alpha'' ''late''))]" 1 "[]"
      "stored ''b'' ''Beta'' ''m''" "js ''b''" "[]"]
  show ?thesis by simp
qed

subsection \<open>Streaming\<close>

lemma update_answer_frame:
  "ch_mounted (update_answer c f s) = ch_mounted s"
  by (simp add: update_answer_def)

lemma fold_run_delta:
  assumes "ch_mounted s" and "ch_messages s = old @ [m]" and "cm_id m = Some (rn_answer c)"
    and "\<forall>x \<in> set old. cm_id x \<noteq> Some (rn_answer c)" and "cm_content m = Some body"
  shows "ch_mounted (fold (run_delta c) ds s) \<and>
     ch_messages (fold (run_delta c) ds s) = old @ [m\<lparr>cm_content := Some (body @ concat ds)\<rparr>]"
  using assms
proof (induction ds arbitrary: s m body)
  case Nil
  then show ?case by simp
next
  case (Cons d ds)
  let ?m = "m\<lparr>cm_content := Some (body @ d)\<rparr>"
  have "ch_mounted (run_delta c d s)" using Cons.prems by (simp add: run_delta_def update_answer_def)
  moreover have "ch_messages (run_delta c d s) = old @ [?m]"
    using Cons.prems by (simp add: run_delta_def update_answer_def map_where_none)
  ultimately have "ch_mounted (fold (run_delta c) ds (run_delta c d s)) \<and>
      ch_messages (fold (run_delta c) ds (run_delta c d s)) = old @ [?m\<lparr>cm_content := Some ((body @ d) @ concat ds)\<rparr>]"
    using Cons.prems by (intro Cons.IH) simp_all
  then show ?case by simp
qed

text \<open>
  C4. While an answer streams in, the transcript is the one before the turn, then the prompt as sent,
  then one answer whose text is the concatenation of the deltas so far; the completed answer replaces
  only that text and its status.\<close>

theorem streamed_answer:
  assumes "ch_mounted s" and "ch_abort s \<noteq> Some True"
    and "\<forall>x \<in> set (ch_messages s). cm_id x \<noteq> Some (rn_answer c)"
  shows "let streamed = fold (run_delta c) ds (run_send c attachments s) in
     ch_messages streamed = ch_messages s @ [user_message c, (answer_message c)\<lparr>cm_content := Some (concat ds)\<rparr>] \<and>
     ch_messages (run_done now c result streamed) = ch_messages s @ [user_message c, (answer_message c)
       \<lparr>cm_content := Some (crr_text result), cm_status := Some (js ''completed''), cm_truncated := crr_truncated result\<rparr>]"
proof -
  let ?u = "run_send c attachments s"
  have "cm_id (user_message c) \<noteq> Some (rn_answer c)"
    by (auto simp: user_message_def dest: arg_cong [of _ _ length])
  then have old: "\<forall>x \<in> set (ch_messages s @ [user_message c]). cm_id x \<noteq> Some (rn_answer c)"
    using assms(3) by simp
  have "ch_mounted ?u" "ch_messages ?u = (ch_messages s @ [user_message c]) @ [answer_message c]"
    using assms(1,2) by (simp_all add: run_send_def chat_spawn_def)
  from fold_run_delta [OF this _ old, of "[]" ds]
  have f: "ch_mounted (fold (run_delta c) ds ?u)"
    "ch_messages (fold (run_delta c) ds ?u) = (ch_messages s @ [user_message c]) @ [(answer_message c)\<lparr>cm_content := Some (concat ds)\<rparr>]"
    by (simp_all add: answer_message_def)
  then show ?thesis
    using old by (simp add: run_done_def update_answer_def chat_spawn_def Let_def map_where_none answer_message_def)
qed

definition hi_run :: chat_run where "hi_run = run_context (js ''1'') (js ''1'') drafted"

lemma streamed_answer_witness:
  "List.map cm_content (ch_messages (run_delta hi_run (js ''lo'') (run_delta hi_run (js ''Hel'') (run_send hi_run [] drafted)))) =
     [Some (js ''Hi''), Some (js ''Hello'')]"
proof -
  have "ch_mounted drafted" "ch_abort drafted \<noteq> Some True" "ch_messages drafted = []" "rn_prompt hi_run = js ''Hi''"
    by code_simp+
  with streamed_answer [of drafted hi_run "[js ''Hel'', js ''lo'']" "[]"]
  show ?thesis by (simp add: Let_def user_message_def js_append [symmetric])
qed

subsection \<open>Failed turns\<close>

lemma keep_partial_last:
  assumes "cm_id a = Some answer" and "cm_role m = Some (js ''assistant'')"
  shows "\<exists>m'. keep_partial answer (old @ [a]) (before @ [m]) = before @ [m'] \<and>
     length (opt_str (cm_content m')) = max (length (opt_str (cm_content a))) (length (opt_str (cm_content m))) \<and>
     opt_str (cm_content m') \<in> {opt_str (cm_content a), opt_str (cm_content m)} \<and> cm_id m' = cm_id m"
  using assms by (cases old) (auto simp: keep_partial_def)


definition half_answered :: chat where
  "half_answered = run_delta hi_run (js ''Hello wor'') (run_send hi_run [] drafted)"

definition half_record :: conversation_detail where
  "half_record = no_conversation_detail\<lparr>cv_id := js ''c'', cd_messages := Some
     [no_conversation_message\<lparr>cm_id := Some (js ''s1''), cm_role := Some (js ''assistant''), cm_content := Some (js ''Hel'')\<rparr>]\<rparr>"


end
