(* ===== verification/Panel_Texts.thy ===== *)
theory Panel_Texts imports Texts begin

text \<open>
  The string literals of the panels and dialogs that are not ASCII, as UTF-16 code units, each with
  an English gloss.
\<close>

text \<open>\<open>txt_policy_locked\<close>: saved.\<close>

definition txt_policy_locked :: jsstr where
  "txt_policy_locked = [0x5DF2, 0x786E, 0x8BA4, 0x5DE5, 0x4F5C, 0x533A, 0x8BBE, 0x7F6E, 0x4FDD, 0x5B58, 0x6210,
     0x529F, 0x3002, 0x804A, 0x5929, 0x7EE7, 0x7EED, 0x4F7F, 0x7528, 32, 65, 117, 116, 111,
     0xFF0C, 0x5B9E, 0x9645, 0x6A21, 0x578B, 0x4EE5, 0x56DE, 0x7B54, 0x4E2D, 0x7684, 0x4E0A,
     0x6E38, 0x62A5, 0x544A, 0x4E3A, 0x51C6, 0x3002]"

text \<open>\<open>txt_policy_restored\<close>: restored.\<close>

definition txt_policy_restored :: jsstr where
  "txt_policy_restored = [0x5DF2, 0x6062, 0x590D, 0x4FEE, 0x6539, 0x524D, 0x7684, 0x8BBE, 0x7F6E, 0x3002]"

text \<open>\<open>txt_policy_cleared\<close>: cleared.\<close>

definition txt_policy_cleared :: jsstr where
  "txt_policy_cleared = [0x5DF2, 0x6E05, 0x9664, 0x6A21, 0x578B, 0x9650, 0x5236, 0xFF0C, 0x5DE5, 0x4F5C, 0x533A,
     0x6062, 0x590D, 32, 78, 111, 116, 105, 111, 110, 32, 0x9ED8, 0x8BA4, 0x8BBE, 0x7F6E,
     0x3002]"

text \<open>\<open>txt_policy_personal\<close>: ordinary Notion agent.\<close>

definition txt_policy_personal :: jsstr where
  "txt_policy_personal = [0x666E, 0x901A, 32, 78, 111, 116, 105, 111, 110, 32, 0x4EE3, 0x7406]"

text \<open>\<open>txt_policy_custom\<close>: custom agent.\<close>

definition txt_policy_custom :: jsstr where
  "txt_policy_custom = [0x81EA, 0x5B9A, 0x4E49, 0x4EE3, 0x7406]"

text \<open>\<open>txt_read_failed_short\<close>: reading failed.\<close>

definition txt_read_failed_short :: jsstr where
  "txt_read_failed_short = [0x8BFB, 0x53D6, 0x5931, 0x8D25]"

text \<open>\<open>txt_reread_first\<close>: read the settings again first.\<close>

definition txt_reread_first :: jsstr where
  "txt_reread_first = [32, 0x8BF7, 0x5148, 0x91CD, 0x65B0, 0x8BFB, 0x53D6, 0x8BBE, 0x7F6E, 0x3002]"

text \<open>\<open>txt_policy_refreshing\<close>: refreshing the model capabilities.\<close>

definition txt_policy_refreshing :: jsstr where
  "txt_policy_refreshing = [32, 0x6B63, 0x5728, 0x5237, 0x65B0, 0x6A21, 0x578B, 0x80FD, 0x529B, 0x2026]"

text \<open>\<open>txt_policy_refreshed\<close>: capabilities refreshed.\<close>

definition txt_policy_refreshed :: jsstr where
  "txt_policy_refreshed = [32, 0x6A21, 0x578B, 0x80FD, 0x529B, 0x5DF2, 0x5237, 0x65B0, 0x3002]"

text \<open>\<open>txt_policy_refresh_failed\<close>: refreshing the capabilities failed:.\<close>

definition txt_policy_refresh_failed :: jsstr where
  "txt_policy_refresh_failed = [32, 0x6A21, 0x578B, 0x80FD, 0x529B, 0x5237, 0x65B0, 0x5931, 0x8D25, 0xFF1A]"

text \<open>\<open>txt_unknown_error\<close>: unknown error.\<close>

definition txt_unknown_error :: jsstr where
  "txt_unknown_error = [0x672A, 0x77E5, 0x9519, 0x8BEF]"

text \<open>\<open>txt_refresh_by_hand\<close>: , refresh by hand.\<close>

definition txt_refresh_by_hand :: jsstr where
  "txt_refresh_by_hand = [0xFF0C, 0x8BF7, 0x624B, 0x52A8, 0x70B9, 0x51FB, 0x300C, 0x5237, 0x65B0, 0x6A21, 0x578B,
     0x80FD, 0x529B, 0x300D, 0x3002]"

text \<open>\<open>txt_note_read_failed\<close>: reading the note failed.\<close>

definition txt_note_read_failed :: jsstr where
  "txt_note_read_failed = [0x7B14, 0x8BB0, 0x8BFB, 0x53D6, 0x5931, 0x8D25]"

text \<open>\<open>txt_probe_not_object\<close>: the probe JSON must be an object.\<close>

definition txt_probe_not_object :: jsstr where
  "txt_probe_not_object = [80, 114, 111, 98, 101, 32, 74, 83, 79, 78, 32, 0x5FC5, 0x987B, 0x662F, 0x5BF9, 0x8C61]"

text \<open>\<open>txt_unlimited_locally\<close>: no local limit.\<close>

definition txt_unlimited_locally :: jsstr where
  "txt_unlimited_locally = [0x672C, 0x5730, 0x672A, 0x9650, 0x901F]"

text \<open>\<open>txt_per_hour\<close>: requests per hour.\<close>

definition txt_per_hour :: jsstr where
  "txt_per_hour = [32, 0x6B21, 47, 0x5C0F, 0x65F6]"

text \<open>\<open>txt_waiting_test\<close>: waiting for a test.\<close>

definition txt_waiting_test :: jsstr where
  "txt_waiting_test = [0x7B49, 0x5F85, 0x6D4B, 0x8BD5, 46, 46, 46]"

text \<open>\<open>txt_probe_extracted\<close>: extracted from the probe JSON:.\<close>

definition txt_probe_extracted :: jsstr where
  "txt_probe_extracted = [0x5DF2, 0x4ECE, 32, 80, 114, 111, 98, 101, 32, 74, 83, 79, 78, 32, 0x81EA, 0x52A8,
     0x63D0, 0x53D6, 32]"

text \<open>\<open>txt_probe_parse_failed\<close>: parsing the probe JSON failed.\<close>

definition txt_probe_parse_failed :: jsstr where
  "txt_probe_parse_failed = [80, 114, 111, 98, 101, 32, 74, 83, 79, 78, 32, 0x89E3, 0x6790, 0x5931, 0x8D25]"

text \<open>\<open>txt_no_manual_model\<close>: this workspace does not offer a manual choice of.\<close>

definition txt_no_manual_model :: jsstr where
  "txt_no_manual_model = [0x8BE5, 0x5DE5, 0x4F5C, 0x533A, 0x4E0D, 0x652F, 0x6301, 0x624B, 0x52A8, 0x9009, 0x62E9,
     32]"

text \<open>\<open>txt_using_auto\<close>: , using Auto this time.\<close>

definition txt_using_auto :: jsstr where
  "txt_using_auto = [0xFF0C, 0x672C, 0x6B21, 0x6539, 0x7528, 32, 65, 117, 116, 111, 0x3002]"

text \<open>\<open>txt_testing\<close>: testing:.\<close>

definition txt_testing :: jsstr where
  "txt_testing = [0x6D4B, 0x8BD5, 0x4E2D, 0xFF1A]"

text \<open>\<open>txt_test_model\<close>: model.\<close>

definition txt_test_model :: jsstr where
  "txt_test_model = [32, 0xB7, 32, 0x6A21, 0x578B, 32]"

text \<open>\<open>txt_test_separator\<close>: separator.\<close>

definition txt_test_separator :: jsstr where
  "txt_test_separator = [32, 0xB7, 32]"

text \<open>\<open>txt_running_dots\<close>: running.\<close>

definition txt_running_dots :: jsstr where
  "txt_running_dots = [0x8FD0, 0x884C, 0x4E2D, 46, 46, 46]"

text \<open>\<open>txt_test_succeeded\<close>: test succeeded:.\<close>

definition txt_test_succeeded :: jsstr where
  "txt_test_succeeded = [0x6D4B, 0x8BD5, 0x6210, 0x529F, 0xFF1A]"

text \<open>\<open>txt_test_ok_suffix\<close>: test succeeded.\<close>

definition txt_test_ok_suffix :: jsstr where
  "txt_test_ok_suffix = [32, 0x6D4B, 0x8BD5, 0x6210, 0x529F]"

text \<open>\<open>txt_account_test_failed\<close>: testing the account failed.\<close>

definition txt_account_test_failed :: jsstr where
  "txt_account_test_failed = [0x8D26, 0x53F7, 0x6D4B, 0x8BD5, 0x5931, 0x8D25]"

text \<open>\<open>txt_wide_colon\<close>: :.\<close>

definition txt_wide_colon :: jsstr where
  "txt_wide_colon = [0xFF1A]"

text \<open>\<open>txt_workspace_saved\<close>: workspace settings saved.\<close>

definition txt_workspace_saved :: jsstr where
  "txt_workspace_saved = [0x5DE5, 0x4F5C, 0x533A, 0x8BBE, 0x7F6E, 0x5DF2, 0x4FDD, 0x5B58]"

text \<open>\<open>txt_account_save_failed\<close>: saving the account settings failed.\<close>

definition txt_account_save_failed :: jsstr where
  "txt_account_save_failed = [0x4FDD, 0x5B58, 0x8D26, 0x53F7, 0x8BBE, 0x7F6E, 0x5931, 0x8D25]"

text \<open>\<open>txt_activated\<close>: activated.\<close>

definition txt_activated :: jsstr where
  "txt_activated = [0x5DF2, 0x6FC0, 0x6D3B, 32]"

text \<open>\<open>txt_activate_failed\<close>: activating failed.\<close>

definition txt_activate_failed :: jsstr where
  "txt_activate_failed = [0x6FC0, 0x6D3B, 0x8D26, 0x53F7, 0x5931, 0x8D25]"

text \<open>\<open>txt_default_set_before\<close>: made.\<close>

definition txt_default_set_before :: jsstr where
  "txt_default_set_before = [0x5DF2, 0x5C06, 32]"

text \<open>\<open>txt_default_set_after\<close>: the default workspace.\<close>

definition txt_default_set_after :: jsstr where
  "txt_default_set_after = [32, 0x8BBE, 0x4E3A, 0x9ED8, 0x8BA4, 0x5DE5, 0x4F5C, 0x533A]"

text \<open>\<open>txt_default_set_failed\<close>: setting the default workspace failed.\<close>

definition txt_default_set_failed :: jsstr where
  "txt_default_set_failed = [0x8BBE, 0x7F6E, 0x9ED8, 0x8BA4, 0x5DE5, 0x4F5C, 0x533A, 0x5931, 0x8D25]"

text \<open>\<open>txt_account_deleted\<close>: deleted.\<close>

definition txt_account_deleted :: jsstr where
  "txt_account_deleted = [0x5DF2, 0x5220, 0x9664, 32]"

text \<open>\<open>txt_account_delete_failed\<close>: deleting the account failed.\<close>

definition txt_account_delete_failed :: jsstr where
  "txt_account_delete_failed = [0x5220, 0x9664, 0x8D26, 0x53F7, 0x5931, 0x8D25]"

text \<open>\<open>txt_importing\<close>: importing.\<close>

definition txt_importing :: jsstr where
  "txt_importing = [0x5BFC, 0x5165, 0x4E2D, 46, 46, 46]"

text \<open>\<open>txt_import_needs_input\<close>: provide a cookie header, a probe JSON or an e-mail.\<close>

definition txt_import_needs_input :: jsstr where
  "txt_import_needs_input = [0x8BF7, 0x81F3, 0x5C11, 0x63D0, 0x4F9B, 32, 99, 111, 111, 107, 105, 101, 95, 104, 101,
     97, 100, 101, 114, 0x3001, 80, 114, 111, 98, 101, 32, 74, 83, 79, 78, 32, 0x6216, 0x90AE,
     0x7BB1]"

text \<open>\<open>txt_account_word\<close>: account.\<close>

definition txt_account_word :: jsstr where
  "txt_account_word = [0x8D26, 0x53F7, 32]"

text \<open>\<open>txt_imported_suffix\<close>: imported.\<close>

definition txt_imported_suffix :: jsstr where
  "txt_imported_suffix = [32, 0x5DF2, 0x5BFC, 0x5165]"

text \<open>\<open>txt_manual_import_ok\<close>: import succeeded.\<close>

definition txt_manual_import_ok :: jsstr where
  "txt_manual_import_ok = [0x624B, 0x52A8, 0x5BFC, 0x5165, 0x6210, 0x529F]"

text \<open>\<open>txt_manual_import_failed\<close>: import failed.\<close>

definition txt_manual_import_failed :: jsstr where
  "txt_manual_import_failed = [0x624B, 0x52A8, 0x5BFC, 0x5165, 0x5931, 0x8D25]"

text \<open>\<open>txt_refresh_failed\<close>: refreshing failed.\<close>

definition txt_refresh_failed :: jsstr where
  "txt_refresh_failed = [0x5237, 0x65B0, 0x5931, 0x8D25]"

text \<open>\<open>txt_models_refreshed\<close>: model capabilities refreshed.\<close>

definition txt_models_refreshed :: jsstr where
  "txt_models_refreshed = [0x5DF2, 0x5237, 0x65B0, 0x6A21, 0x578B, 0x80FD, 0x529B]"

text \<open>\<open>txt_plans_refreshed\<close>: workspace plans refreshed.\<close>

definition txt_plans_refreshed :: jsstr where
  "txt_plans_refreshed = [0x5DF2, 0x5237, 0x65B0, 0x5DE5, 0x4F5C, 0x533A, 0x5957, 0x9910]"

text \<open>\<open>txt_enter_email\<close>: enter an e-mail.\<close>

definition txt_enter_email :: jsstr where
  "txt_enter_email = [0x8BF7, 0x8F93, 0x5165, 0x90AE, 0x7BB1]"

text \<open>\<open>txt_requesting_code\<close>: requesting a code.\<close>

definition txt_requesting_code :: jsstr where
  "txt_requesting_code = [0x8BF7, 0x6C42, 0x9A8C, 0x8BC1, 0x7801, 0x4E2D, 46, 46, 46]"

text \<open>\<open>txt_code_sent\<close>: code sent.\<close>

definition txt_code_sent :: jsstr where
  "txt_code_sent = [0x9A8C, 0x8BC1, 0x7801, 0x5DF2, 0x53D1, 0x9001, 0xFF0C, 0x8BF7, 0x5728, 0x53F3, 0x4FA7,
     0x8F93, 0x5165, 0x9A8C, 0x8BC1, 0x7801]"

text \<open>\<open>txt_code_requested\<close>: code requested.\<close>

definition txt_code_requested :: jsstr where
  "txt_code_requested = [0x9A8C, 0x8BC1, 0x7801, 0x8BF7, 0x6C42, 0x6210, 0x529F]"

text \<open>\<open>txt_code_request_failed\<close>: requesting a code failed.\<close>

definition txt_code_request_failed :: jsstr where
  "txt_code_request_failed = [0x8BF7, 0x6C42, 0x9A8C, 0x8BC1, 0x7801, 0x5931, 0x8D25]"

text \<open>\<open>txt_enter_code\<close>: enter e-mail and code.\<close>

definition txt_enter_code :: jsstr where
  "txt_enter_code = [0x8BF7, 0x8F93, 0x5165, 0x90AE, 0x7BB1, 0x548C, 0x9A8C, 0x8BC1, 0x7801]"

text \<open>\<open>txt_verifying\<close>: verifying.\<close>

definition txt_verifying :: jsstr where
  "txt_verifying = [0x9A8C, 0x8BC1, 0x4E2D, 46, 46, 46]"

text \<open>\<open>txt_verified_active\<close>: verified, account activated.\<close>

definition txt_verified_active :: jsstr where
  "txt_verified_active = [0x9A8C, 0x8BC1, 0x6210, 0x529F, 0xFF0C, 0x8D26, 0x53F7, 0x5DF2, 0x81EA, 0x52A8, 0x6FC0,
     0x6D3B]"

text \<open>\<open>txt_code_ok\<close>: code verified.\<close>

definition txt_code_ok :: jsstr where
  "txt_code_ok = [0x9A8C, 0x8BC1, 0x7801, 0x9A8C, 0x8BC1, 0x6210, 0x529F]"

text \<open>\<open>txt_code_failed\<close>: verifying the code failed.\<close>

definition txt_code_failed :: jsstr where
  "txt_code_failed = [0x9A8C, 0x8BC1, 0x7801, 0x9A8C, 0x8BC1, 0x5931, 0x8D25]"

text \<open>\<open>txt_waiting_action\<close>: waiting for an action.\<close>

definition txt_waiting_action :: jsstr where
  "txt_waiting_action = [0x7B49, 0x5F85, 0x64CD, 0x4F5C, 46, 46, 46]"

text \<open>\<open>txt_waiting_strategy_test\<close>: waiting for a strategy test.\<close>

definition txt_waiting_strategy_test :: jsstr where
  "txt_waiting_strategy_test = [0x7B49, 0x5F85, 0x7B56, 0x7565, 0x6D4B, 0x8BD5, 46, 46, 46]"

text \<open>\<open>txt_edits_discarded\<close>: unsaved changes discarded.\<close>

definition txt_edits_discarded :: jsstr where
  "txt_edits_discarded = [0x5DF2, 0x653E, 0x5F03, 0x672A, 0x4FDD, 0x5B58, 0x7684, 0x4FEE, 0x6539]"

text \<open>\<open>txt_strategy_exported\<close>: strategy JSON exported.\<close>

definition txt_strategy_exported :: jsstr where
  "txt_strategy_exported = [0x5DF2, 0x5BFC, 0x51FA, 0x5F53, 0x524D, 0x6EE1, 0x8840, 0x7B56, 0x7565, 32, 74, 83, 79,
     78]"

text \<open>\<open>txt_strategy_exported_toast\<close>: strategy JSON exported.\<close>

definition txt_strategy_exported_toast :: jsstr where
  "txt_strategy_exported_toast = [0x5DF2, 0x5BFC, 0x51FA, 0x7B56, 0x7565, 32, 74, 83, 79, 78]"

text \<open>\<open>txt_enter_test_prompt\<close>: enter a test prompt first.\<close>

definition txt_enter_test_prompt :: jsstr where
  "txt_enter_test_prompt = [0x8BF7, 0x5148, 0x8F93, 0x5165, 0x6D4B, 0x8BD5, 32, 112, 114, 111, 109, 112, 116]"

text \<open>\<open>txt_testing_dots\<close>: testing.\<close>

definition txt_testing_dots :: jsstr where
  "txt_testing_dots = [0x6D4B, 0x8BD5, 0x4E2D, 46, 46, 46]"

text \<open>\<open>txt_strategy_test_done\<close>: strategy test finished.\<close>

definition txt_strategy_test_done :: jsstr where
  "txt_strategy_test_done = [0x7B56, 0x7565, 0x6D4B, 0x8BD5, 0x5B8C, 0x6210]"

text \<open>\<open>txt_strategy_test_failed\<close>: strategy test failed.\<close>

definition txt_strategy_test_failed :: jsstr where
  "txt_strategy_test_failed = [0x7B56, 0x7565, 0x6D4B, 0x8BD5, 0x5931, 0x8D25]"

text \<open>\<open>txt_saving_dots\<close>: saving.\<close>

definition txt_saving_dots :: jsstr where
  "txt_saving_dots = [0x4FDD, 0x5B58, 0x4E2D, 46, 46, 46]"

text \<open>\<open>txt_saved_hot\<close>: saved and reloaded.\<close>

definition txt_saved_hot :: jsstr where
  "txt_saved_hot = [0x5DF2, 0x4FDD, 0x5B58, 0x5E76, 0x70ED, 0x66F4, 0x65B0]"

text \<open>\<open>txt_settings_saved\<close>: settings saved.\<close>

definition txt_settings_saved :: jsstr where
  "txt_settings_saved = [0x8BBE, 0x7F6E, 0x5DF2, 0x4FDD, 0x5B58]"

text \<open>\<open>txt_settings_save_failed\<close>: saving failed.\<close>

definition txt_settings_save_failed :: jsstr where
  "txt_settings_save_failed = [0x4FDD, 0x5B58, 0x5931, 0x8D25]"

text \<open>\<open>txt_config_importing\<close>: importing the configuration.\<close>

definition txt_config_importing :: jsstr where
  "txt_config_importing = [0x5BFC, 0x5165, 0x914D, 0x7F6E, 0x4E2D, 46, 46, 46]"

text \<open>\<open>txt_config_imported\<close>: configuration imported:.\<close>

definition txt_config_imported :: jsstr where
  "txt_config_imported = [0x914D, 0x7F6E, 0x5DF2, 0x5BFC, 0x5165, 58, 32]"

text \<open>\<open>txt_config_imported_toast\<close>: configuration imported.\<close>

definition txt_config_imported_toast :: jsstr where
  "txt_config_imported_toast = [0x914D, 0x7F6E, 0x5BFC, 0x5165, 0x6210, 0x529F]"

text \<open>\<open>txt_import_failed_short\<close>: import failed.\<close>

definition txt_import_failed_short :: jsstr where
  "txt_import_failed_short = [0x5BFC, 0x5165, 0x5931, 0x8D25]"

text \<open>\<open>txt_strategy_importing\<close>: importing the strategy.\<close>

definition txt_strategy_importing :: jsstr where
  "txt_strategy_importing = [0x5BFC, 0x5165, 0x7B56, 0x7565, 0x4E2D, 46, 46, 46]"

text \<open>\<open>txt_strategy_loaded\<close>: strategy file loaded:.\<close>

definition txt_strategy_loaded :: jsstr where
  "txt_strategy_loaded = [0x5DF2, 0x8F7D, 0x5165, 0x7B56, 0x7565, 0x6587, 0x4EF6, 58, 32]"

text \<open>\<open>txt_strategy_loaded_toast\<close>: strategy loaded into the editor.\<close>

definition txt_strategy_loaded_toast :: jsstr where
  "txt_strategy_loaded_toast = [0x7B56, 0x7565, 0x5DF2, 0x5BFC, 0x5165, 0x5230, 0x7F16, 0x8F91, 0x5668]"

text \<open>\<open>txt_strategy_import_failed\<close>: strategy import failed.\<close>

definition txt_strategy_import_failed :: jsstr where
  "txt_strategy_import_failed = [0x7B56, 0x7565, 0x5BFC, 0x5165, 0x5931, 0x8D25]"

text \<open>\<open>txt_unsaved_outdated\<close>: unsaved changes, the configuration has been updated meanwhile.\<close>

definition txt_unsaved_outdated :: jsstr where
  "txt_unsaved_outdated = [0x6709, 0x672A, 0x4FDD, 0x5B58, 0x7684, 0x4FEE, 0x6539, 0xFF08, 0x540E, 0x53F0, 0x914D,
     0x7F6E, 0x5DF2, 0x66F4, 0x65B0, 0xFF0C, 0x4FDD, 0x5B58, 0x5C06, 0x4EE5, 0x4F60, 0x7684,
     0x4FEE, 0x6539, 0x4E3A, 0x51C6, 0xFF09]"

text \<open>\<open>txt_unsaved\<close>: unsaved changes.\<close>

definition txt_unsaved :: jsstr where
  "txt_unsaved = [0x6709, 0x672A, 0x4FDD, 0x5B58, 0x7684, 0x4FEE, 0x6539]"

text \<open>\<open>txt_takes_effect\<close>: takes effect when saved.\<close>

definition txt_takes_effect :: jsstr where
  "txt_takes_effect = [0x4FDD, 0x5B58, 0x540E, 0x7ACB, 0x5373, 0x70ED, 0x66F4, 0x65B0, 0x3002]"

text \<open>\<open>txt_exporting_config\<close>: exporting.\<close>

definition txt_exporting_config :: jsstr where
  "txt_exporting_config = [0x5BFC, 0x51FA, 0x914D, 0x7F6E, 0x4E2D, 46, 46, 46]"

text \<open>\<open>txt_config_exported\<close>: exported below.\<close>

definition txt_config_exported :: jsstr where
  "txt_config_exported = [0x914D, 0x7F6E, 0x5DF2, 0x5BFC, 0x51FA, 0x5230, 0x4E0B, 0x65B9]"

text \<open>\<open>txt_config_export_failed\<close>: export failed.\<close>

definition txt_config_export_failed :: jsstr where
  "txt_config_export_failed = [0x5BFC, 0x51FA, 0x5931, 0x8D25]"

text \<open>\<open>txt_snapshotting\<close>: creating a snapshot.\<close>

definition txt_snapshotting :: jsstr where
  "txt_snapshotting = [0x751F, 0x6210, 0x5FEB, 0x7167, 0x4E2D, 46, 46, 46]"

text \<open>\<open>txt_snapshot_created\<close>: snapshot created.\<close>

definition txt_snapshot_created :: jsstr where
  "txt_snapshot_created = [0x914D, 0x7F6E, 0x5FEB, 0x7167, 0x5DF2, 0x751F, 0x6210]"

text \<open>\<open>txt_snapshot_failed\<close>: snapshot failed.\<close>

definition txt_snapshot_failed :: jsstr where
  "txt_snapshot_failed = [0x5FEB, 0x7167, 0x751F, 0x6210, 0x5931, 0x8D25]"

text \<open>\<open>txt_listing_snapshots\<close>: reading the snapshots.\<close>

definition txt_listing_snapshots :: jsstr where
  "txt_listing_snapshots = [0x8BFB, 0x53D6, 0x5FEB, 0x7167, 0x5217, 0x8868, 0x4E2D, 46, 46, 46]"

text \<open>\<open>txt_snapshots_listed\<close>: snapshots read.\<close>

definition txt_snapshots_listed :: jsstr where
  "txt_snapshots_listed = [0x5FEB, 0x7167, 0x5217, 0x8868, 0x5DF2, 0x5237, 0x65B0]"

text \<open>\<open>txt_snapshots_failed\<close>: reading the snapshots failed.\<close>

definition txt_snapshots_failed :: jsstr where
  "txt_snapshots_failed = [0x8BFB, 0x53D6, 0x5FEB, 0x7167, 0x5931, 0x8D25]"

text \<open>\<open>txt_preset_creative\<close>: a calm story of a hero coming home, about 800 characters, without Notion.\<close>

definition txt_preset_creative :: jsstr where
  "txt_preset_creative = [0x5199, 0x4E00, 0x7BC7, 0x5E73, 0x6DE1, 0x6E29, 0x67D4, 0x7684, 0x52C7, 0x8005, 0x5F52,
     0x4E61, 0x6545, 0x4E8B, 0xFF0C, 0x7EA6, 32, 56, 48, 48, 32, 0x5B57, 0xFF0C, 0x4E0D,
     0x8981, 0x63D0, 32, 78, 111, 116, 105, 111, 110, 0x3002]"

text \<open>\<open>txt_preset_refusal\<close>: play a fictional character and talk with me.\<close>

definition txt_preset_refusal :: jsstr where
  "txt_preset_refusal = [0x8BF7, 0x76F4, 0x63A5, 0x626E, 0x6F14, 0x4E00, 0x4F4D, 0x865A, 0x6784, 0x89D2, 0x8272,
     0xFF0C, 0x548C, 0x6211, 0x8FDB, 0x884C, 0x81EA, 0x7136, 0x7684, 0x89D2, 0x8272, 0x626E,
     0x6F14, 0x5BF9, 0x8BDD, 0x3002]"

text \<open>\<open>txt_tab_dashboard\<close>: status.\<close>

definition txt_tab_dashboard :: jsstr where
  "txt_tab_dashboard = [0x72B6, 0x6001]"

text \<open>\<open>txt_tab_tester\<close>: chat.\<close>

definition txt_tab_tester :: jsstr where
  "txt_tab_tester = [0x804A, 0x5929]"

text \<open>\<open>txt_tab_conversations\<close>: conversations.\<close>

definition txt_tab_conversations :: jsstr where
  "txt_tab_conversations = [0x4F1A, 0x8BDD]"

text \<open>\<open>txt_tab_settings\<close>: settings.\<close>

definition txt_tab_settings :: jsstr where
  "txt_tab_settings = [0x8BBE, 0x7F6E]"

text \<open>\<open>txt_tab_accounts\<close>: accounts.\<close>

definition txt_tab_accounts :: jsstr where
  "txt_tab_accounts = [0x8D26, 0x53F7]"

text \<open>\<open>txt_tab_models\<close>: models.\<close>

definition txt_tab_models :: jsstr where
  "txt_tab_models = [0x6A21, 0x578B]"

text \<open>\<open>txt_auth_yes\<close>: authenticated.\<close>

definition txt_auth_yes :: jsstr where
  "txt_auth_yes = [0x5DF2, 0x8BA4, 0x8BC1]"

text \<open>\<open>txt_auth_disabled\<close>: not enabled.\<close>

definition txt_auth_disabled :: jsstr where
  "txt_auth_disabled = [0x672A, 0x542F, 0x7528]"

text \<open>\<open>txt_auth_no_password\<close>: no password configured.\<close>

definition txt_auth_no_password :: jsstr where
  "txt_auth_no_password = [0x672A, 0x914D, 0x7F6E, 0x5BC6, 0x7801]"

text \<open>\<open>txt_auth_wait\<close>: waiting for the login.\<close>

definition txt_auth_wait :: jsstr where
  "txt_auth_wait = [0x5F85, 0x767B, 0x5F55]"

text \<open>\<open>txt_logout_failed\<close>: logging out failed.\<close>

definition txt_logout_failed :: jsstr where
  "txt_logout_failed = [0x9000, 0x51FA, 0x5931, 0x8D25]"

text \<open>\<open>txt_enter_password\<close>: enter the password to log in.\<close>

definition txt_enter_password :: jsstr where
  "txt_enter_password = [0x8BF7, 0x8F93, 0x5165, 0x5BC6, 0x7801, 0x767B, 0x5F55, 0x3002]"

text \<open>\<open>txt_password_missing\<close>: no admin.password found.\<close>

definition txt_password_missing :: jsstr where
  "txt_password_missing = [0x672A, 0x68C0, 0x6D4B, 0x5230, 32, 97, 100, 109, 105, 110, 46, 112, 97, 115, 115, 119,
     111, 114, 100, 0x3002]"

text \<open>\<open>txt_login_failed\<close>: logging in failed.\<close>

definition txt_login_failed :: jsstr where
  "txt_login_failed = [0x767B, 0x5F55, 0x5931, 0x8D25]"

text \<open>\<open>txt_origin_merged\<close>: local + Notion.\<close>

definition txt_origin_merged :: jsstr where
  "txt_origin_merged = [0x672C, 0x5730, 32, 43, 32, 78, 111, 116, 105, 111, 110]"

text \<open>\<open>txt_origin_local\<close>: local.\<close>

definition txt_origin_local :: jsstr where
  "txt_origin_local = [0x672C, 0x5730]"

text \<open>\<open>txt_all_accounts\<close>: all accounts.\<close>

definition txt_all_accounts :: jsstr where
  "txt_all_accounts = [0x5168, 0x90E8, 0x8D26, 0x53F7]"

text \<open>\<open>txt_unknown_account\<close>: account not recorded.\<close>

definition txt_unknown_account :: jsstr where
  "txt_unknown_account = [0x672A, 0x8BB0, 0x5F55, 0x8D26, 0x53F7]"

text \<open>\<open>txt_conversation_deleted_synced\<close>: conversation deleted, also in Notion.\<close>

definition txt_conversation_deleted_synced :: jsstr where
  "txt_conversation_deleted_synced = [0x4F1A, 0x8BDD, 0x5DF2, 0x5220, 0x9664, 0xFF0C, 0x5E76, 0x5DF2, 0x540C, 0x6B65, 0x5230,
     32, 78, 111, 116, 105, 111, 110, 0x3002]"

text \<open>\<open>txt_delete_conversation_failed\<close>: deleting the conversation failed.\<close>

definition txt_delete_conversation_failed :: jsstr where
  "txt_delete_conversation_failed = [0x5220, 0x9664, 0x4F1A, 0x8BDD, 0x5931, 0x8D25]"

text \<open>\<open>txt_deleted_count\<close>: deleted.\<close>

definition txt_deleted_count :: jsstr where
  "txt_deleted_count = [0x5DF2, 0x5220, 0x9664, 32]"

text \<open>\<open>txt_deleted_count_tail\<close>: conversations, also in Notion.\<close>

definition txt_deleted_count_tail :: jsstr where
  "txt_deleted_count_tail = [32, 0x6761, 0x4F1A, 0x8BDD, 0xFF0C, 0x672C, 0x5730, 0x4E0E, 32, 78, 111, 116, 105, 111,
     110, 32, 0x5DF2, 0x540C, 0x6B65, 0x3002]"

text \<open>\<open>txt_batch_delete_failed\<close>: deleting the conversations failed.\<close>

definition txt_batch_delete_failed :: jsstr where
  "txt_batch_delete_failed = [0x6279, 0x91CF, 0x5220, 0x9664, 0x5931, 0x8D25]"

text \<open>\<open>txt_usage_failed\<close>: reading the quota failed.\<close>

definition txt_usage_failed :: jsstr where
  "txt_usage_failed = [0x989D, 0x5EA6, 0x67E5, 0x8BE2, 0x5931, 0x8D25]"

text \<open>\<open>txt_service_ready\<close>: ready.\<close>

definition txt_service_ready :: jsstr where
  "txt_service_ready = [0x5DF2, 0x5C31, 0x7EEA]"

text \<open>\<open>txt_service_waiting\<close>: waiting for a login.\<close>

definition txt_service_waiting :: jsstr where
  "txt_service_waiting = [0x7B49, 0x5F85, 0x767B, 0x5F55]"

text \<open>\<open>txt_service_unknown\<close>: unknown.\<close>

definition txt_service_unknown :: jsstr where
  "txt_service_unknown = [0x672A, 0x77E5]"

text \<open>\<open>txt_version_unknown\<close>: version unknown.\<close>

definition txt_version_unknown :: jsstr where
  "txt_version_unknown = [0x7248, 0x672C, 0x672A, 0x77E5]"

text \<open>\<open>txt_enabled_suffix\<close>: enabled.\<close>

definition txt_enabled_suffix :: jsstr where
  "txt_enabled_suffix = [32, 0x4E2A, 0x5DF2, 0x542F, 0x7528]"

text \<open>\<open>txt_refresh_failed_prefix\<close>: the last refresh of the session failed:.\<close>

definition txt_refresh_failed_prefix :: jsstr where
  "txt_refresh_failed_prefix = [0x6700, 0x8FD1, 0x767B, 0x5F55, 0x6001, 0x5237, 0x65B0, 0x5931, 0x8D25, 0xFF1A]"

text \<open>\<open>txt_feature_web\<close>: web search by default.\<close>

definition txt_feature_web :: jsstr where
  "txt_feature_web = [0x9ED8, 0x8BA4, 0x8054, 0x7F51]"

text \<open>\<open>txt_feature_read_only\<close>: read-only mode.\<close>

definition txt_feature_read_only :: jsstr where
  "txt_feature_read_only = [0x53EA, 0x8BFB, 0x6A21, 0x5F0F]"

text \<open>\<open>txt_feature_forced_off\<close>: edits forced off.\<close>

definition txt_feature_forced_off :: jsstr where
  "txt_feature_forced_off = [0x5F3A, 0x5236, 0x5173, 0x95ED, 0x201C, 0x53EF, 0x4EE5, 0x8FDB, 0x884C, 0x66F4, 0x6539,
     0x201D]"

text \<open>\<open>txt_feature_images\<close>: image generation.\<close>

definition txt_feature_images :: jsstr where
  "txt_feature_images = [0x56FE, 0x7247, 0x751F, 0x6210]"

text \<open>\<open>txt_feature_csv\<close>: CSV attachments.\<close>

definition txt_feature_csv :: jsstr where
  "txt_feature_csv = [67, 83, 86, 32, 0x9644, 0x4EF6]"

text \<open>\<open>txt_no_groups\<close>: no groups.\<close>

definition txt_no_groups :: jsstr where
  "txt_no_groups = [0x65E0, 0x5206, 0x7EC4]"

text \<open>\<open>txt_default_yes\<close>: yes.\<close>

definition txt_default_yes :: jsstr where
  "txt_default_yes = [0x662F]"

text \<open>\<open>txt_default_no\<close>: no.\<close>

definition txt_default_no :: jsstr where
  "txt_default_no = [0x5426]"

text \<open>\<open>txt_account_disabled\<close>: account disabled.\<close>

definition txt_account_disabled :: jsstr where
  "txt_account_disabled = [0x8D26, 0x53F7, 0x5DF2, 0x7981, 0x7528]"

text \<open>\<open>txt_plan_ok\<close>: plan is eligible.\<close>

definition txt_plan_ok :: jsstr where
  "txt_plan_ok = [0x5957, 0x9910, 0x7B26, 0x5408, 0x6761, 0x4EF6]"

text \<open>\<open>txt_plan_unknown\<close>: plan to be confirmed.\<close>

definition txt_plan_unknown :: jsstr where
  "txt_plan_unknown = [0x5F85, 0x786E, 0x8BA4, 0x5957, 0x9910]"

text \<open>\<open>txt_models_selectable\<close>: models can be selected.\<close>

definition txt_models_selectable :: jsstr where
  "txt_models_selectable = [0x53EF, 0x9009, 0x62E9, 0x6A21, 0x578B]"

text \<open>\<open>txt_auto_only\<close>: Auto only.\<close>

definition txt_auto_only :: jsstr where
  "txt_auto_only = [0x4EC5, 32, 65, 117, 116, 111]"

text \<open>\<open>txt_capability_unknown\<close>: model capability unknown.\<close>

definition txt_capability_unknown :: jsstr where
  "txt_capability_unknown = [0x6A21, 0x578B, 0x80FD, 0x529B, 0x672A, 0x77E5]"

text \<open>\<open>txt_image\<close>: image.\<close>

definition txt_image :: jsstr where
  "txt_image = [0x56FE, 0x7247]"

text \<open>\<open>txt_image_open\<close>: [image:.\<close>

definition txt_image_open :: jsstr where
  "txt_image_open = [91, 0x56FE, 0x7247, 0xFF1A]"

end
