(* ===== verification/Model_Policy.thy ===== *)
theory Model_Policy imports Admin_Service Interfaces Panel_Texts begin

text \<open>
  The model settings of one workspace (\<open>components/admin/workspace-model-policy.tsx\<close>): reading the
  policy, the three writes, and what the panel keeps when one of them fails.

  \<open>inFlight\<close> is a ref, \<open>busy\<close> a state; the panel is mounted anew for another workspace. The writes
  and the reread of the account list are pending tasks; the environment replies to them.
\<close>

section \<open>State\<close>

record policy_props =
  pp_email :: jsstr
  pp_workspace :: jsstr
  pp_cooling :: bool
  pp_callback :: bool \<comment> \<open>whether \<open>onPolicyChanged\<close> is given\<close>

datatype policy_task = P_read policy_scope | P_apply policy_edit | P_refresh policy_action

record policy =
  mp_props :: policy_props
  mp_scope :: policy_scope
  mp_snapshot :: "policy_snapshot option"
  mp_model :: jsstr
  mp_busy :: bool
  mp_message :: jsstr
  mp_confirm :: bool
  mp_alive :: bool
  mp_in_flight :: bool
  mp_tasks :: "policy_task list"

definition initial_policy :: "policy_props \<Rightarrow> policy" where
  "initial_policy p = \<lparr>mp_props = p, mp_scope = Personal, mp_snapshot = None, mp_model = [], mp_busy = False,
     mp_message = [], mp_confirm = False, mp_alive = True, mp_in_flight = False, mp_tasks = []\<rparr>"

fun success_message :: "policy_action \<Rightarrow> jsstr" where
  "success_message Lock = txt_policy_locked"
| "success_message Restore = txt_policy_restored"
| "success_message Clear = txt_policy_cleared"

definition scopeLabel :: "policy \<Rightarrow> jsstr" where
  "scopeLabel s = (if mp_scope s = Personal then txt_policy_personal else txt_policy_custom)"

section \<open>Operations\<close>

definition allowed_models :: "policy_snapshot \<Rightarrow> policy_model list" where
  "allowed_models v = filter pm_allowed (ps_models v)"

definition adopt :: "policy_snapshot \<Rightarrow> policy \<Rightarrow> policy" where
  "adopt v s = s\<lparr>mp_snapshot := Some v,
     mp_model := (case allowed_models v of [m] \<Rightarrow> pm_id m | _ \<Rightarrow> [])\<rparr>"

definition finish_policy :: "policy \<Rightarrow> policy" where
  "finish_policy s = s\<lparr>mp_in_flight := False, mp_busy := (if mp_alive s then False else mp_busy s)\<rparr>"

definition await_policy :: "policy_task \<Rightarrow> policy \<Rightarrow> policy" where
  "await_policy t s = s\<lparr>mp_tasks := mp_tasks s @ [t]\<rparr>"

definition begin_policy :: "policy_task \<Rightarrow> policy \<Rightarrow> policy" where
  "begin_policy t s = await_policy t (s\<lparr>mp_in_flight := True, mp_busy := True, mp_message := []\<rparr>)"

definition read_policy :: "policy \<Rightarrow> policy" where
  "read_policy s =
     (if mp_in_flight s \<or> pp_cooling (mp_props s) then s else begin_policy (P_read (mp_scope s)) s)"

definition read_done :: "policy_snapshot \<Rightarrow> policy \<Rightarrow> policy" where
  "read_done v s = finish_policy (if mp_alive s then adopt v s else s)"

definition read_failed :: "failure \<Rightarrow> policy \<Rightarrow> policy" where
  "read_failed e s = finish_policy (if mp_alive s
     then s\<lparr>mp_snapshot := None, mp_message := failure_text e txt_read_failed_short\<rparr> else s)"

definition edit_of :: "policy_action \<Rightarrow> policy_snapshot \<Rightarrow> policy \<Rightarrow> policy_edit" where
  "edit_of action v s =
     \<lparr>pe_email = pp_email (mp_props s), pe_workspace_id = pp_workspace (mp_props s), pe_scope = mp_scope s,
      pe_revision = ps_revision v, pe_action = action,
      pe_model_id = (if action = Lock then Some (mp_model s) else None)\<rparr>"

definition apply_policy :: "policy_action \<Rightarrow> policy \<Rightarrow> policy" where
  "apply_policy action s = (case mp_snapshot s of
     None \<Rightarrow> s
   | Some v \<Rightarrow>
       if mp_in_flight s \<or> pp_cooling (mp_props s) \<or> \<not> ps_can_edit v then s
       else if action = Lock \<and> mp_model s = [] then s
       else if action = Restore \<and> ps_restore_point v = None then s
       else begin_policy (P_apply (edit_of action v s)) s)"

definition apply_done :: "policy_action \<Rightarrow> policy_snapshot \<Rightarrow> policy \<Rightarrow> policy" where
  "apply_done action v s =
     (if \<not> mp_alive s then finish_policy s
      else (let s' = adopt v s in
        if \<not> pp_callback (mp_props s) then finish_policy (s'\<lparr>mp_message := success_message action\<rparr>)
        else await_policy (P_refresh action) (s'\<lparr>mp_message := success_message action @ txt_policy_refreshing\<rparr>)))"

definition apply_failed :: "failure \<Rightarrow> policy \<Rightarrow> policy" where
  "apply_failed e s = finish_policy (if mp_alive s
     then s\<lparr>mp_snapshot := None, mp_message := failure_text e txt_save_failed @ txt_reread_first\<rparr> else s)"

definition refresh_done :: "policy_action \<Rightarrow> policy \<Rightarrow> policy" where
  "refresh_done action s = finish_policy (if mp_alive s
     then s\<lparr>mp_message := success_message action @ txt_policy_refreshed\<rparr> else s)"

definition refresh_failed :: "policy_action \<Rightarrow> failure \<Rightarrow> policy \<Rightarrow> policy" where
  "refresh_failed action e s = finish_policy (if mp_alive s
     then s\<lparr>mp_message := success_message action @ txt_policy_refresh_failed @ failure_text e txt_unknown_error @
       txt_refresh_by_hand\<rparr> else s)"

definition select_scope :: "policy_scope \<Rightarrow> policy \<Rightarrow> policy" where
  "select_scope v s = (if mp_in_flight s then s
     else s\<lparr>mp_scope := v, mp_snapshot := None, mp_model := [], mp_message := []\<rparr>)"

definition selected_model :: "policy \<Rightarrow> policy_model option" where
  "selected_model s = Option.bind (mp_snapshot s) (\<lambda>v. List.find (\<lambda>m. pm_id m = mp_model s) (ps_models v))"

definition editable :: "policy \<Rightarrow> bool" where
  "editable s \<longleftrightarrow> (case mp_snapshot s of None \<Rightarrow> False | Some v \<Rightarrow> ps_can_edit v) \<and> \<not> pp_cooling (mp_props s)"

definition noUsableModel :: "policy \<Rightarrow> bool" where
  "noUsableModel s \<longleftrightarrow> (case mp_snapshot s of None \<Rightarrow> False | Some v \<Rightarrow> ps_policy_present v \<and> allowed_models v = [])"

section \<open>Steps\<close>

datatype policy_reply = Got_snapshot policy_snapshot | Refreshed | Policy_failed failure

fun policy_resume :: "policy_task \<Rightarrow> policy_reply \<Rightarrow> policy \<Rightarrow> policy" where
  "policy_resume (P_read scope) (Got_snapshot v) s = read_done v s"
| "policy_resume (P_read scope) (Policy_failed e) s = read_failed e s"
| "policy_resume (P_apply edit) (Got_snapshot v) s = apply_done (pe_action edit) v s"
| "policy_resume (P_apply edit) (Policy_failed e) s = apply_failed e s"
| "policy_resume (P_refresh action) Refreshed s = refresh_done action s"
| "policy_resume (P_refresh action) (Policy_failed e) s = refresh_failed action e s"
| "policy_resume _ _ s = s"

definition policy_answers :: "policy_task \<Rightarrow> policy_reply \<Rightarrow> bool" where
  "policy_answers t r = (case r of Policy_failed _ \<Rightarrow> True
     | Got_snapshot _ \<Rightarrow> (case t of P_refresh _ \<Rightarrow> False | _ \<Rightarrow> True)
     | Refreshed \<Rightarrow> (case t of P_refresh _ \<Rightarrow> True | _ \<Rightarrow> False))"

text \<open>
  A control can be used when it is on screen, not disabled and not behind the dialog that asks before the limits are
  cleared.
\<close>

inductive policy_step :: "policy \<Rightarrow> policy \<Rightarrow> bool" where
  step_scope: "mp_alive s \<Longrightarrow> \<not> mp_confirm s \<Longrightarrow> \<not> mp_busy s \<Longrightarrow> policy_step s (select_scope v s)"
| step_model: "mp_alive s \<Longrightarrow> \<not> mp_confirm s \<Longrightarrow> \<not> mp_busy s \<Longrightarrow> editable s \<Longrightarrow> mp_snapshot s = Some v \<Longrightarrow>
    m \<in> set (ps_models v) \<Longrightarrow> pm_available m \<Longrightarrow> policy_step s (s\<lparr>mp_model := pm_id m\<rparr>)"
| step_read: "mp_alive s \<Longrightarrow> \<not> mp_confirm s \<Longrightarrow> \<not> mp_busy s \<Longrightarrow> \<not> pp_cooling (mp_props s) \<Longrightarrow> policy_step s (read_policy s)"
| step_lock: "mp_alive s \<Longrightarrow> \<not> mp_confirm s \<Longrightarrow> \<not> mp_busy s \<Longrightarrow> editable s \<Longrightarrow> selected_model s = Some m \<Longrightarrow>
    pm_available m \<Longrightarrow> policy_step s (apply_policy Lock s)"
| step_restore: "mp_alive s \<Longrightarrow> \<not> mp_confirm s \<Longrightarrow> \<not> mp_busy s \<Longrightarrow> editable s \<Longrightarrow> mp_snapshot s = Some v \<Longrightarrow>
    ps_restore_point v \<noteq> None \<Longrightarrow> policy_step s (apply_policy Restore s)"
| step_ask_clear: "mp_alive s \<Longrightarrow> \<not> mp_confirm s \<Longrightarrow> \<not> mp_busy s \<Longrightarrow> editable s \<Longrightarrow> mp_snapshot s = Some v \<Longrightarrow>
    ps_policy_present v \<Longrightarrow> policy_step s (s\<lparr>mp_confirm := True\<rparr>)"
| step_cancel_clear: "mp_alive s \<Longrightarrow> mp_confirm s \<Longrightarrow> policy_step s (s\<lparr>mp_confirm := False\<rparr>)"
| step_clear: "mp_alive s \<Longrightarrow> mp_confirm s \<Longrightarrow> \<not> mp_busy s \<Longrightarrow> policy_step s (apply_policy Clear (s\<lparr>mp_confirm := False\<rparr>))"
| step_reply: "t \<in> set (mp_tasks s) \<Longrightarrow> policy_answers t r \<Longrightarrow>
    policy_step s (policy_resume t r (s\<lparr>mp_tasks := remove1 t (mp_tasks s)\<rparr>))"
| step_cooling: "mp_alive s \<Longrightarrow> policy_step s (s\<lparr>mp_props := (mp_props s)\<lparr>pp_cooling := b\<rparr>\<rparr>)"
| step_unmount: "policy_step s (s\<lparr>mp_alive := False\<rparr>)"

inductive policy_reachable :: "policy \<Rightarrow> bool" where
  policy_initial: "policy_reachable (initial_policy p)"
| policy_stepped: "policy_reachable s \<Longrightarrow> policy_step s s' \<Longrightarrow> policy_reachable s'"

section \<open>One operation at a time, against the policy on screen\<close>

interpretation policy_ops: single_flight mp_in_flight
  "\<lambda>op. case op of None \<Rightarrow> read_policy | Some action \<Rightarrow> apply_policy action" "\<lambda>u::unit. finish_policy"
  by unfold_locales
    (auto simp: read_policy_def apply_policy_def finish_policy_def split: option.splits)

definition edit_fits :: "policy_edit \<Rightarrow> policy \<Rightarrow> bool" where
  "edit_fits e s \<longleftrightarrow> (\<exists>v. mp_snapshot s = Some v \<and> ps_can_edit v \<and> pe_revision e = ps_revision v \<and>
     pe_scope e = mp_scope s \<and> pe_email e = pp_email (mp_props s) \<and> pe_workspace_id e = pp_workspace (mp_props s) \<and>
     (pe_action e = Lock \<longrightarrow> (\<exists>m \<in> set (ps_models v). pe_model_id e = Some (pm_id m))) \<and>
     (pe_action e = Restore \<longrightarrow> ps_restore_point v \<noteq> None))"

definition task_fits_policy :: "policy_task \<Rightarrow> policy \<Rightarrow> bool" where
  "task_fits_policy t s = (case t of P_read scope \<Rightarrow> scope = mp_scope s | P_apply e \<Rightarrow> edit_fits e s | P_refresh _ \<Rightarrow> True)"

definition model_listed :: "policy \<Rightarrow> bool" where
  "model_listed s \<longleftrightarrow> (\<forall>v. mp_snapshot s = Some v \<longrightarrow> mp_model s = [] \<or> mp_model s \<in> pm_id ` set (ps_models v))"

definition policy_ok :: "policy \<Rightarrow> bool" where
  "policy_ok s \<longleftrightarrow> length (mp_tasks s) = of_bool (mp_in_flight s) \<and> (mp_alive s \<longrightarrow> mp_busy s = mp_in_flight s) \<and>
     (mp_alive s \<longrightarrow> model_listed s \<and> (\<forall>t \<in> set (mp_tasks s). task_fits_policy t s))"

lemma adopt_listed: "model_listed (adopt v s)"
  by (auto simp: adopt_def model_listed_def allowed_models_def filter_eq_Cons_iff split: list.splits)

lemma policy_ok_idle: "policy_ok s \<Longrightarrow> \<not> mp_in_flight s \<Longrightarrow> mp_tasks s = []"
  by (simp add: policy_ok_def)

lemma policy_ok_begin:
  assumes "policy_ok s" and "\<not> mp_in_flight s" and "task_fits_policy t s"
  shows "policy_ok (begin_policy t s)"
  using assms policy_ok_idle [OF assms(1,2)]
  by (auto simp: policy_ok_def begin_policy_def await_policy_def task_fits_policy_def edit_fits_def model_listed_def
      split: policy_task.splits)

lemma policy_ok_apply:
  assumes "policy_ok s" and "mp_alive s"
  shows "policy_ok (apply_policy action s)"
proof (cases "apply_policy action s = s")
  case True
  then show ?thesis using assms by simp
next
  case False
  then obtain v where v: "mp_snapshot s = Some v" "\<not> mp_in_flight s" "ps_can_edit v" "action = Lock \<longrightarrow> mp_model s \<noteq> []"
      "action = Restore \<longrightarrow> ps_restore_point v \<noteq> None"
    and eq: "apply_policy action s = begin_policy (P_apply (edit_of action v s)) s"
    by (auto simp: apply_policy_def split: option.splits if_splits)
  have "model_listed s" using assms by (simp add: policy_ok_def)
  then have "task_fits_policy (P_apply (edit_of action v s)) s"
    using v by (auto simp: task_fits_policy_def edit_fits_def edit_of_def model_listed_def)
  then show ?thesis unfolding eq by (rule policy_ok_begin [OF assms(1) v(2)])
qed

lemma finish_ok:
  "mp_tasks s = [] \<Longrightarrow> (mp_alive s \<Longrightarrow> model_listed s) \<Longrightarrow> policy_ok (finish_policy s)"
  by (auto simp: policy_ok_def finish_policy_def model_listed_def)

lemma read_done_ok: "mp_tasks s = [] \<Longrightarrow> (mp_alive s \<Longrightarrow> model_listed s) \<Longrightarrow> policy_ok (read_done v s)"
  unfolding read_done_def by (rule finish_ok) (auto simp: adopt_listed, simp add: adopt_def)

lemma read_failed_ok: "mp_tasks s = [] \<Longrightarrow> (mp_alive s \<Longrightarrow> model_listed s) \<Longrightarrow> policy_ok (read_failed e s)"
  unfolding read_failed_def by (rule finish_ok) (auto simp: model_listed_def)

lemma apply_failed_ok: "mp_tasks s = [] \<Longrightarrow> (mp_alive s \<Longrightarrow> model_listed s) \<Longrightarrow> policy_ok (apply_failed e s)"
  unfolding apply_failed_def by (rule finish_ok) (auto simp: model_listed_def)

lemma refresh_done_ok: "mp_tasks s = [] \<Longrightarrow> (mp_alive s \<Longrightarrow> model_listed s) \<Longrightarrow> policy_ok (refresh_done action s)"
  unfolding refresh_done_def by (rule finish_ok) (auto simp: model_listed_def)

lemma refresh_failed_ok: "mp_tasks s = [] \<Longrightarrow> (mp_alive s \<Longrightarrow> model_listed s) \<Longrightarrow> policy_ok (refresh_failed action e s)"
  unfolding refresh_failed_def by (rule finish_ok) (auto simp: model_listed_def)

lemma adopt_fields [simp]:
  "mp_tasks (adopt v s) = mp_tasks s" "mp_alive (adopt v s) = mp_alive s" "mp_busy (adopt v s) = mp_busy s"
  "mp_in_flight (adopt v s) = mp_in_flight s" "mp_props (adopt v s) = mp_props s" "mp_scope (adopt v s) = mp_scope s"
  "mp_snapshot (adopt v s) = Some v"
  by (simp_all add: adopt_def)

lemma apply_done_ok:
  assumes "mp_tasks s = []" and "mp_alive s \<Longrightarrow> model_listed s" and "mp_in_flight s" and "mp_alive s \<Longrightarrow> mp_busy s"
  shows "policy_ok (apply_done action v s)"
proof (cases "mp_alive s")
  case False
  have "policy_ok (finish_policy s)" by (rule finish_ok) (simp_all add: assms(1) False)
  then show ?thesis using False by (simp add: apply_done_def)
next
  case True
  have listed: "model_listed (t\<lparr>mp_message := x, mp_tasks := ts\<rparr>) = model_listed t"
    "model_listed (t\<lparr>mp_message := x\<rparr>) = model_listed t" for t x ts
    by (simp_all add: model_listed_def)
  show ?thesis
  proof (cases "pp_callback (mp_props s)")
    case False
    have "policy_ok (finish_policy ((adopt v s)\<lparr>mp_message := success_message action\<rparr>))"
      by (rule finish_ok) (simp_all add: assms(1) listed adopt_listed)
    then show ?thesis using True False by (simp add: apply_done_def)
  next
    case cb: True
    show ?thesis using True cb assms adopt_listed [of v s]
      by (simp add: apply_done_def Let_def await_policy_def policy_ok_def listed task_fits_policy_def)
  qed
qed

lemmas policy_replies_ok =
  read_done_ok read_failed_ok apply_done_ok apply_failed_ok refresh_done_ok refresh_failed_ok

lemma resume_ok:
  assumes ok: "policy_ok s" and t: "t \<in> set (mp_tasks s)" and r: "policy_answers t r"
  shows "policy_ok (policy_resume t r (s\<lparr>mp_tasks := remove1 t (mp_tasks s)\<rparr>))"
proof -
  have "length (mp_tasks s) = of_bool (mp_in_flight s)" using ok by (simp add: policy_ok_def)
  then have flying: "mp_in_flight s" and tasks: "mp_tasks s = [t]"
    using t by (cases "mp_in_flight s"; cases "mp_tasks s"; simp)+
  define s' where "s' = s\<lparr>mp_tasks := []\<rparr>"
  have "mp_tasks s' = []" "mp_alive s' \<Longrightarrow> model_listed s'" "mp_in_flight s'" "mp_alive s' \<Longrightarrow> mp_busy s'"
    using ok flying by (auto simp: s'_def policy_ok_def model_listed_def)
  note facts = this
  have "policy_ok (policy_resume t r s')"
    using r by (cases t; cases r) (simp_all add: policy_answers_def policy_replies_ok facts)
  then show ?thesis by (simp add: s'_def tasks)
qed

lemma policy_ok_frame:
  assumes "policy_ok s"
    and "mp_tasks s' = mp_tasks s" and "mp_in_flight s' = mp_in_flight s" and "mp_alive s' = mp_alive s"
    and "mp_busy s' = mp_busy s" and "mp_scope s' = mp_scope s" and "mp_snapshot s' = mp_snapshot s"
    and "mp_model s' = mp_model s" and "pp_email (mp_props s') = pp_email (mp_props s)"
    and "pp_workspace (mp_props s') = pp_workspace (mp_props s)"
  shows "policy_ok s'"
proof -
  have "edit_fits e s' = edit_fits e s" for e using assms by (simp add: edit_fits_def)
  then have "task_fits_policy t s' = task_fits_policy t s" for t
    using assms by (simp add: task_fits_policy_def split: policy_task.splits)
  then show ?thesis using assms by (simp add: policy_ok_def model_listed_def)
qed

lemma policy_ok_select:
  assumes "policy_ok s" and "mp_alive s" and "\<not> mp_busy s"
  shows "policy_ok (select_scope v s)" and "policy_ok (s\<lparr>mp_model := m\<rparr>) \<longleftrightarrow> model_listed (s\<lparr>mp_model := m\<rparr>)"
proof -
  have idle: "\<not> mp_in_flight s" using assms by (simp add: policy_ok_def)
  then have "mp_tasks s = []" using assms policy_ok_idle by blast
  with idle assms show "policy_ok (select_scope v s)"
    and "policy_ok (s\<lparr>mp_model := m\<rparr>) \<longleftrightarrow> model_listed (s\<lparr>mp_model := m\<rparr>)"
    by (simp_all add: select_scope_def policy_ok_def model_listed_def)
qed

lemma policy_ok_read: "policy_ok s \<Longrightarrow> policy_ok (read_policy s)"
  using policy_ok_begin [of s "P_read (mp_scope s)"] by (simp add: read_policy_def task_fits_policy_def)

lemma policy_ok_unmount: "policy_ok s \<Longrightarrow> policy_ok (s\<lparr>mp_alive := False\<rparr>)"
  by (simp add: policy_ok_def)

lemma policy_step_ok: "policy_step s s' \<Longrightarrow> policy_ok s \<Longrightarrow> policy_ok s'"
proof (induction rule: policy_step.induct)
  case (step_model s v m)
  then show ?case using policy_ok_select(2) by (simp add: model_listed_def)
next
  case (step_ask_clear s v)
  then show ?case using policy_ok_frame [of s "s\<lparr>mp_confirm := True\<rparr>"] by simp
next
  case (step_cancel_clear s)
  then show ?case using policy_ok_frame [of s "s\<lparr>mp_confirm := False\<rparr>"] by simp
next
  case (step_clear s)
  then have "policy_ok (s\<lparr>mp_confirm := False\<rparr>)" using policy_ok_frame [of s "s\<lparr>mp_confirm := False\<rparr>"] by simp
  then show ?case by (rule policy_ok_apply) (simp add: step_clear)
next
  case (step_cooling s b)
  then show ?case using policy_ok_frame [of s "s\<lparr>mp_props := (mp_props s)\<lparr>pp_cooling := b\<rparr>\<rparr>"] by simp
qed (simp_all add: policy_ok_select policy_ok_read policy_ok_apply policy_ok_unmount resume_ok)

lemma policy_reachable_ok: "policy_reachable s \<Longrightarrow> policy_ok s"
  by (induction rule: policy_reachable.induct)
    (simp add: policy_ok_def initial_policy_def model_listed_def, rule policy_step_ok)

text \<open>
  C35. In every state the panel reaches, a write waiting for its reply is the only request of the panel
  and is a write against the snapshot on screen: it carries that snapshot's revision, the selected
  agent kind and the panel's own account and workspace, the snapshot allows editing, a lock names a
  model the snapshot lists, and a restore is sent only when there is a restore point.\<close>

theorem policy_write_fits:
  assumes "policy_reachable s" and "P_apply e \<in> set (mp_tasks s)" and "mp_alive s"
  shows "mp_tasks s = [P_apply e] \<and> mp_in_flight s \<and> mp_busy s \<and>
     (\<exists>v. mp_snapshot s = Some v \<and> ps_can_edit v \<and> pe_revision e = ps_revision v \<and> pe_scope e = mp_scope s \<and>
       pe_email e = pp_email (mp_props s) \<and> pe_workspace_id e = pp_workspace (mp_props s) \<and>
       (pe_action e = Lock \<longrightarrow> (\<exists>m \<in> set (ps_models v). pe_model_id e = Some (pm_id m))) \<and>
       (pe_action e = Restore \<longrightarrow> ps_restore_point v \<noteq> None))"
proof -
  have ok: "policy_ok s" using assms(1) by (rule policy_reachable_ok)
  have fit: "edit_fits e s" using ok assms by (auto simp: policy_ok_def task_fits_policy_def)
  have "length (mp_tasks s) = of_bool (mp_in_flight s)" using ok by (simp add: policy_ok_def)
  then have "mp_tasks s = [P_apply e] \<and> mp_in_flight s"
    using assms(2) by (cases "mp_in_flight s"; cases "mp_tasks s"; simp)
  moreover from this have "mp_busy s" using ok assms(3) by (simp add: policy_ok_def)
  ultimately show ?thesis using fit by (simp add: edit_fits_def)
qed

text \<open>A concrete run: read the policy, ask to clear it, confirm.\<close>

definition sample_props :: policy_props where
  "sample_props = \<lparr>pp_email = js ''a'', pp_workspace = js ''w'', pp_cooling = False, pp_callback = False\<rparr>"

definition sample_snapshot :: policy_snapshot where
  "sample_snapshot = \<lparr>ps_email = js ''a'', ps_workspace_id = js ''w'', ps_scope = Personal, ps_membership_type = js ''owner'',
     ps_can_edit = True, ps_policy = \<lparr>wp_disabledModels = [], wp_disabledProviders = []\<rparr>, ps_policy_present = True,
     ps_revision = js ''r1'', ps_models = [], ps_restore_point = None\<rparr>"

definition sample_edit :: policy_edit where
  "sample_edit = \<lparr>pe_email = js ''a'', pe_workspace_id = js ''w'', pe_scope = Personal, pe_revision = js ''r1'',
     pe_action = Clear, pe_model_id = None\<rparr>"

definition sample_read :: policy where
  "sample_read = read_done sample_snapshot ((read_policy (initial_policy sample_props))\<lparr>mp_tasks := []\<rparr>)"

lemma sample_read_fields [simp]:
  "mp_alive sample_read" "\<not> mp_busy sample_read" "\<not> mp_in_flight sample_read" "mp_tasks sample_read = []"
  "mp_snapshot sample_read = Some sample_snapshot" "mp_scope sample_read = Personal" "mp_props sample_read = sample_props"
  "\<not> mp_confirm sample_read"
  by (simp_all add: sample_read_def read_done_def finish_policy_def adopt_def read_policy_def initial_policy_def
      sample_props_def begin_policy_def await_policy_def)

lemma sample_read_reachable: "policy_reachable sample_read"
proof -
  define s where "s = read_policy (initial_policy sample_props)"
  have s: "policy_reachable s" unfolding s_def
    by (rule policy_stepped [OF policy_initial], rule step_read) (simp_all add: initial_policy_def sample_props_def)
  have t: "mp_tasks s = [P_read Personal]"
    by (simp add: s_def read_policy_def initial_policy_def sample_props_def begin_policy_def await_policy_def)
  have "policy_step s sample_read"
    using step_reply [of "P_read Personal" s "Got_snapshot sample_snapshot"] t
    by (simp add: policy_answers_def sample_read_def flip: s_def)
  with s show ?thesis by (rule policy_stepped)
qed

definition sample_clearing :: policy where
  "sample_clearing = apply_policy Clear (sample_read\<lparr>mp_confirm := False\<rparr>)"

lemma sample_clearing_reachable: "policy_reachable sample_clearing"
proof -
  have ask: "policy_reachable (sample_read\<lparr>mp_confirm := True\<rparr>)"
    by (rule policy_stepped [OF sample_read_reachable], rule step_ask_clear)
      (simp_all add: editable_def, simp_all add: sample_snapshot_def sample_props_def)
  have "policy_step (sample_read\<lparr>mp_confirm := True\<rparr>)
      (apply_policy Clear ((sample_read\<lparr>mp_confirm := True\<rparr>)\<lparr>mp_confirm := False\<rparr>))"
    by (rule step_clear) simp_all
  with ask show ?thesis by (auto simp: sample_clearing_def intro: policy_stepped)
qed

lemma policy_write_fits_witness:
  "mp_tasks sample_clearing = [P_apply sample_edit] \<and> mp_in_flight sample_clearing \<and>
   pe_revision sample_edit = ps_revision sample_snapshot"
proof -
  have tasks: "mp_tasks sample_clearing = [P_apply sample_edit]" and alive: "mp_alive sample_clearing"
    and snap: "mp_snapshot sample_clearing = Some sample_snapshot"
    by (simp_all add: sample_clearing_def apply_policy_def begin_policy_def await_policy_def edit_of_def)
      (simp_all add: sample_props_def sample_snapshot_def sample_edit_def)
  show ?thesis
    using policy_write_fits [OF sample_clearing_reachable, of sample_edit] tasks alive snap by simp
qed

end
