(* ===== verification/Number_Text.thy ===== *)
theory Number_Text imports Js_Number Js_Date begin

text \<open>
  \<open>Number(text)\<close> and \<open>String(number)\<close>, as the settings form and the accounts panel use them.
  \<open>to_number\<close> reads a decimal literal or a literal with a radix prefix and rounds it to a double;
  it is \<open>None\<close> where the result is not a finite number (NaN, or an infinity). \<open>num_str\<close> prints the
  shortest decimal digits that read back as the same double (at most 17 are ever needed), in the
  notation that \<open>Number::toString\<close> prescribes for their exponent.
\<close>

section \<open>Reading\<close>

definition ten_to :: "int \<Rightarrow> rat" where
  "ten_to e = (if 0 \<le> e then 10 ^ nat e else 1 / 10 ^ nat (- e))"

definition digits_value :: "int \<Rightarrow> jsstr \<Rightarrow> int" where
  "digits_value radix s = foldl (\<lambda>n c. n * radix + (if c < 58 then uint c - 48 else if c < 71 then uint c - 55 else uint c - 87)) 0 s"

definition radix_digit :: "int \<Rightarrow> unit16 \<Rightarrow> bool" where
  "radix_digit radix c \<longleftrightarrow> 48 \<le> c \<and> uint c < 48 + min radix 10 \<or>
     16 \<le> radix \<and> (65 \<le> c \<and> c \<le> 70 \<or> 97 \<le> c \<and> c \<le> 102)"

definition all_digits :: "int \<Rightarrow> jsstr \<Rightarrow> bool" where
  "all_digits radix s \<longleftrightarrow> s \<noteq> [] \<and> list_all (radix_digit radix) s"

definition signed_int :: "jsstr \<Rightarrow> int option" where
  "signed_int s = (case s of [] \<Rightarrow> None | c # t \<Rightarrow>
     if c = 45 then (if all_digits 10 t then Some (- digits_value 10 t) else None)
     else if c = 43 then (if all_digits 10 t then Some (digits_value 10 t) else None)
     else if all_digits 10 s then Some (digits_value 10 s) else None)"

definition exponent_part :: "jsstr \<Rightarrow> int option" where
  "exponent_part s = (case s of [] \<Rightarrow> Some 0 | c # t \<Rightarrow> if c = 101 \<or> c = 69 then signed_int t else None)"

definition unsigned_decimal :: "jsstr \<Rightarrow> rat option" where
  "unsigned_decimal s =
     (let ip = takeWhile (radix_digit 10) s; r = dropWhile (radix_digit 10) s;
          fp = (case r of [] \<Rightarrow> [] | c # t \<Rightarrow> if c = 46 then takeWhile (radix_digit 10) t else []);
          r' = (case r of [] \<Rightarrow> [] | c # t \<Rightarrow> if c = 46 then dropWhile (radix_digit 10) t else r)
      in if ip = [] \<and> fp = [] then None
         else map_option (\<lambda>e. of_int (digits_value 10 (ip @ fp)) * ten_to (e - int (length fp))) (exponent_part r'))"

definition decimal_value :: "jsstr \<Rightarrow> rat option" where
  "decimal_value s = (case s of [] \<Rightarrow> None | c # t \<Rightarrow>
     if c = 45 then map_option uminus (unsigned_decimal t)
     else if c = 43 then unsigned_decimal t else unsigned_decimal s)"

definition radix_value :: "jsstr \<Rightarrow> rat option" where
  "radix_value s = (case s of c # d # t \<Rightarrow>
     if c \<noteq> 48 then None
     else if d = 120 \<or> d = 88 then (if all_digits 16 t then Some (of_int (digits_value 16 t)) else None)
     else if d = 111 \<or> d = 79 then (if all_digits 8 t then Some (of_int (digits_value 8 t)) else None)
     else if d = 98 \<or> d = 66 then (if all_digits 2 t then Some (of_int (digits_value 2 t)) else None)
     else None | _ \<Rightarrow> None)"

definition finite_double :: "rat \<Rightarrow> rat option" where
  "finite_double x = (let d = double_of x in if d = 0 \<or> binary_exponent \<bar>d\<bar> < 1024 then Some d else None)"

definition to_number :: "jsstr \<Rightarrow> rat option" where
  "to_number s = (let t = trim s in
     if t = [] then Some 0
     else case radix_value t of Some x \<Rightarrow> finite_double x
       | None \<Rightarrow> Option.bind (decimal_value t) finite_double)"

section \<open>Printing\<close>

function int_digits :: "int \<Rightarrow> jsstr" where
  "int_digits i = (if i < 10 then [48 + of_int i] else int_digits (i div 10) @ [48 + of_int (i mod 10)])"
  by pat_completeness auto

termination by (relation "measure nat") auto

declare int_digits.simps [simp del]

definition digit_count :: "int \<Rightarrow> nat" where
  "digit_count n = length (int_digits n)"

text \<open>The \<open>n\<close> with \<open>10 ^ (n - 1) \<le> x < 10 ^ n\<close>.\<close>

definition decimal_exponent :: "rat \<Rightarrow> int" where
  "decimal_exponent x = (case quotient_of x of (a, b) \<Rightarrow>
     (let e = int (digit_count a) - int (digit_count b) in if x < ten_to e then e else e + 1))"

text \<open>The closest \<open>k\<close>-digit decimals, nearest first; a carry to the next power of ten is kept in \<open>k\<close> digits.\<close>

definition candidates :: "rat \<Rightarrow> int \<Rightarrow> nat \<Rightarrow> (int \<times> int) list" where
  "candidates x n k =
     (let y = x * ten_to (int k - n); f = \<lfloor>y\<rfloor>;
          up = (if f + 1 = 10 ^ k then (10 ^ (k - 1), n + 1) else (f + 1, n))
      in if y - of_int f \<le> 1 / 2 then [(f, n), up] else [up, (f, n)])"

definition names_double :: "rat \<Rightarrow> nat \<Rightarrow> int \<times> int \<Rightarrow> bool" where
  "names_double x k c \<longleftrightarrow> double_of (of_int (fst c) * ten_to (snd c - int k)) = x"

fun shortest :: "nat \<Rightarrow> rat \<Rightarrow> int \<Rightarrow> nat \<Rightarrow> int \<times> int" where
  "shortest 0 x n k = hd (candidates x n k)"
| "shortest (Suc fuel) x n k = (case List.find (names_double x k) (candidates x n k) of
     Some c \<Rightarrow> c | None \<Rightarrow> shortest fuel x n (Suc k))"

definition zeros :: "nat \<Rightarrow> jsstr" where
  "zeros n = replicate n 48"

definition format_digits :: "jsstr \<Rightarrow> int \<Rightarrow> jsstr" where
  "format_digits ds n = (let k = int (length ds) in
     if k \<le> n \<and> n \<le> 21 then ds @ zeros (nat (n - k))
     else if 0 < n \<and> n \<le> 21 then take (nat n) ds @ 46 # drop (nat n) ds
     else if - 6 < n \<and> n \<le> 0 then [48, 46] @ zeros (nat (- n)) @ ds
     else (case ds of [] \<Rightarrow> [] | d # rest \<Rightarrow>
       d # (if rest = [] then [] else 46 # rest) @ 101 # (if n - 1 < 0 then 45 else 43) # int_digits \<bar>n - 1\<bar>))"

definition positive_str :: "rat \<Rightarrow> jsstr" where
  "positive_str x = (case shortest 16 x (decimal_exponent x) 1 of (s, n) \<Rightarrow> format_digits (int_digits s) n)"

definition num_str :: "rat \<Rightarrow> jsstr" where
  "num_str x = (if x = 0 then [48] else if x < 0 then 45 # positive_str (- x) else positive_str x)"

text \<open>A number that reads back from its own text. JavaScript guarantees it of every finite number;
  here it is computed where it is needed.\<close>

definition survives :: "rat \<Rightarrow> bool" where
  "survives x \<longleftrightarrow> num_str x \<noteq> [] \<and> to_number (num_str x) = Some x"

section \<open>Empty input\<close>

lemma to_number_Nil [simp]: "to_number [] = Some 0"
  by (simp add: to_number_def js_eval)

lemma survives_number: "survives x \<Longrightarrow> to_number (num_str x) = Some x"
  by (simp add: survives_def)

lemma survives_text: "survives x \<Longrightarrow> num_str x \<noteq> []"
  by (simp add: survives_def)

end
