(* ===== verification/Accounts_Edits.thy ===== *)
theory Accounts_Edits imports Chat_Targets Number_Text "HOL-Library.AList" begin

text \<open>
  The data of the accounts panel (\<open>components/admin/accounts-panel.tsx\<close>): the drafts of the
  scheduling limits, keyed by account and workspace, how they are built from the account list and
  how a reload merges the drafts with what the server now holds.

  A \<open>Record<string, T>\<close> is an association list with distinct keys; the order of its entries is
  never observed.
\<close>

section \<open>Limits of a workspace\<close>

record account_edit =
  ae_priority :: jsnum
  ae_hourly :: jsnum
  ae_concurrency :: jsnum

type_synonym edits = "(jsstr \<times> account_edit) list"
type_synonym disabled_edits = "(jsstr \<times> bool) list"

definition num_of :: "jsnum option \<Rightarrow> jsnum \<Rightarrow> jsnum" where
  "num_of v d = (case v of None \<Rightarrow> d | Some n \<Rightarrow> n)"

definition workspaceItems :: "account_item \<Rightarrow> workspace_item list" where
  "workspaceItems item =
     (if opt_list (acct_workspaces item) \<noteq> [] then opt_list (acct_workspaces item)
      else case acct_space_id item of None \<Rightarrow> []
        | Some i \<Rightarrow> if i = [] then [] else [no_workspace_item\<lparr>ws_id := i, ws_view_id := acct_space_view_id item,
            ws_name := acct_space_name item, ws_plan_type := acct_plan_type item, ws_priority := acct_priority item,
            ws_hourly_quota := acct_hourly_quota item, ws_max_concurrency := acct_max_concurrency item,
            ws_quota_limited := acct_quota_limited item, ws_remaining_quota := acct_remaining_quota item,
            ws_cooldown_active := acct_cooldown_active item,
            ws_cooldown_remaining_sec := acct_cooldown_remaining_sec item,
            ws_total_successes := acct_total_successes item, ws_total_failures := acct_total_failures item,
            ws_last_used_at := acct_last_used_at item\<rparr>])"

definition workspaceEditKey :: "jsstr \<Rightarrow> jsstr option \<Rightarrow> jsstr" where
  "workspaceEditKey email workspace = email @ 0 # or_str (opt_str workspace) (js ''account'')"

definition limits :: "jsnum option \<Rightarrow> jsnum option \<Rightarrow> jsnum option \<Rightarrow> account_edit" where
  "limits priority hourly concurrency =
     \<lparr>ae_priority = num_of priority 0, ae_hourly = num_of hourly 0, ae_concurrency = max 1 (num_of concurrency 1)\<rparr>"

definition workspace_limits :: "workspace_item \<Rightarrow> account_edit" where
  "workspace_limits w = limits (ws_priority w) (ws_hourly_quota w) (ws_max_concurrency w)"

definition add_account_edits :: "account_item \<Rightarrow> edits \<Rightarrow> edits" where
  "add_account_edits item acc = (let email = opt_str (acct_email item) in
     if email = [] then acc
     else if workspaceItems item = [] then
       AList.update (workspaceEditKey email None)
         (limits (acct_priority item) (acct_hourly_quota item) (acct_max_concurrency item)) acc
     else fold (\<lambda>w. AList.update (workspaceEditKey email (Some (ws_id w))) (workspace_limits w)) (workspaceItems item) acc)"

definition buildAccountEditMap :: "account_item list \<Rightarrow> edits" where
  "buildAccountEditMap items = fold add_account_edits items []"

definition buildDisabledEditMap :: "account_item list \<Rightarrow> disabled_edits" where
  "buildDisabledEditMap items =
     fold (\<lambda>item. AList.update (opt_str (acct_email item)) (opt_true (acct_disabled item)))
       (filter (\<lambda>item. truthy (acct_email item)) items) []"

text \<open>The models a workspace lets the caller pick; \<open>offered\<close> is the same test as in the chat.\<close>

definition manualModelOptions :: "account_item option \<Rightarrow> jsstr option \<Rightarrow> model_item list \<Rightarrow> model_item list" where
  "manualModelOptions account workspace models =
     (case Option.bind (Option.bind account (\<lambda>a. List.find (\<lambda>w. Some (ws_id w) = workspace) (opt_list (acct_workspaces a))))
         ws_model_capabilities of
       None \<Rightarrow> []
     | Some c \<Rightarrow> if mc_mode c \<noteq> Manual then [] else filter (offered models) (opt_list (mc_models c)))"

definition workspaceTitle :: "jsstr option \<Rightarrow> jsstr \<Rightarrow> jsstr" where
  "workspaceTitle name i = or_str (trim (opt_str name)) i"

section \<open>Merging a reload with the drafts\<close>

text \<open>The two \<open>set\<dots>Edits\<close> updaters of the effect: a draft that differs from what it was built from stays.\<close>

definition merge_edits :: "(jsstr \<times> 'v) list \<Rightarrow> (jsstr \<times> 'v) list \<Rightarrow> (jsstr \<times> 'v) list \<Rightarrow> (jsstr \<times> 'v) list" where
  "merge_edits nxt previous current =
     List.map (\<lambda>(key, v). (key, case map_of current key of
         Some c \<Rightarrow> if map_of previous key \<noteq> Some c then c else v | None \<Rightarrow> v)) nxt"

definition entries_dirty :: "(jsstr \<times> 'v) list \<Rightarrow> (jsstr \<times> 'v) list \<Rightarrow> bool" where
  "entries_dirty current baseline \<longleftrightarrow> list_ex (\<lambda>(key, v). map_of baseline key \<noteq> Some v) current"

section \<open>Lemmas\<close>

lemma distinct_add_account_edits: "distinct (List.map fst acc) \<Longrightarrow> distinct (List.map fst (add_account_edits item acc))"
proof -
  have *: "distinct (List.map fst acc) \<Longrightarrow>
      distinct (List.map fst (fold (\<lambda>w. AList.update (f w) (g w)) ws acc))" for f g and ws :: "workspace_item list" and acc :: edits
    by (induction ws arbitrary: acc) (auto simp: distinct_update)
  assume "distinct (List.map fst acc)"
  then show ?thesis by (auto simp: add_account_edits_def Let_def distinct_update *)
qed

lemma distinct_buildAccountEditMap: "distinct (List.map fst (buildAccountEditMap items))"
proof -
  have "distinct (List.map fst acc) \<Longrightarrow> distinct (List.map fst (fold add_account_edits items acc))" for acc
    by (induction items arbitrary: acc) (auto simp: distinct_add_account_edits)
  then show ?thesis by (simp add: buildAccountEditMap_def)
qed

lemma distinct_buildDisabledEditMap: "distinct (List.map fst (buildDisabledEditMap items))"
proof -
  have "distinct (List.map fst acc) \<Longrightarrow> distinct (List.map fst (fold (\<lambda>item. AList.update (f item) (g item)) xs acc))"
    for f g and xs :: "account_item list" and acc :: disabled_edits
    by (induction xs arbitrary: acc) (auto simp: distinct_update)
  then show ?thesis by (simp add: buildDisabledEditMap_def)
qed

lemma map_of_merge_edits:
  "map_of (merge_edits nxt previous current) key =
     map_option (\<lambda>v. case map_of current key of Some c \<Rightarrow> if map_of previous key \<noteq> Some c then c else v | None \<Rightarrow> v) (map_of nxt key)"
  by (induction nxt) (auto simp: merge_edits_def split: option.splits)

lemma keys_merge_edits: "List.map fst (merge_edits nxt previous current) = List.map fst nxt"
  by (simp add: merge_edits_def comp_def case_prod_beta)

lemma entries_dirty_iff:
  "distinct (List.map fst current) \<Longrightarrow>
   entries_dirty current baseline \<longleftrightarrow> (\<exists>key v. map_of current key = Some v \<and> map_of baseline key \<noteq> Some v)"
  by (auto simp: entries_dirty_def list_ex_iff)

lemma merge_edits_clean:
  assumes "\<And>key v. map_of current key = Some v \<Longrightarrow> map_of previous key = Some v"
  shows "merge_edits nxt previous current = nxt"
proof -
  have "(case map_of current k of Some c \<Rightarrow> if map_of previous k \<noteq> Some c then c else v | None \<Rightarrow> v) = v" for k v
    using assms by (auto split: option.splits)
  then show ?thesis by (simp add: merge_edits_def case_prod_beta)
qed

end
