(* ===== verification/Json_Pretty.thy ===== *)
theory Json_Pretty imports Json_Codec begin

text \<open>
  \<open>JSON.stringify(value, null, 2)\<close>: the text the panels show for a reply and the settings form edits
  for the model aliases. \<open>parse_pretty_strings\<close>: an object of strings reads back as itself.
\<close>

definition new_line :: "nat \<Rightarrow> jsstr" where
  "new_line d = 10 # replicate d 32"

fun pretty :: "nat \<Rightarrow> json \<Rightarrow> jsstr" where
  "pretty d (JArr xs) =
     (if xs = [] then [91, 93]
      else 91 # new_line (d + 2) @ join (44 # new_line (d + 2)) (List.map (pretty (d + 2)) xs) @ new_line d @ [93])"
| "pretty d (JObj ms) =
     (if ms = [] then [123, 125]
      else 123 # new_line (d + 2) @
        join (44 # new_line (d + 2)) (List.map (\<lambda>(k, v). quote k @ [58, 32] @ pretty (d + 2) v) ms) @ new_line d @ [125])"
| "pretty d v = stringify v"

definition stringify2 :: "json \<Rightarrow> jsstr" where
  "stringify2 v = pretty 0 v"

definition string_object :: "(jsstr \<times> jsstr) list \<Rightarrow> json" where
  "string_object kvs = JObj (List.map (\<lambda>(k, v). (k, JStr v)) kvs)"

section \<open>Reading an object of strings back\<close>

lemma skip_space_blanks [simp]: "skip_space (new_line d @ s) = skip_space s"
proof -
  have "dropWhile json_space (replicate n 32 @ s) = dropWhile json_space s" for n
    by (induction n) (simp_all add: json_space_def)
  then show ?thesis by (simp add: new_line_def skip_space_def json_space_def)
qed

lemma skip_space_blank [simp]: "skip_space (32 # s) = skip_space s"
  by (simp add: skip_space_def json_space_def)

abbreviation string_member :: "jsstr \<times> jsstr \<Rightarrow> jsstr" where
  "string_member \<equiv> \<lambda>(k, v). quote k @ [58, 32] @ quote v"

lemma join_string_members_start:
  "kvs \<noteq> [] \<Longrightarrow> \<exists>t. join sep (List.map string_member kvs) = 34 # t"
  by (cases kvs; cases "tl kvs") (auto simp: quote_def)

lemma parse_value_quote: "parse_value (Suc n) (quote w @ rest) = Some (JStr w, rest)"
  by (simp add: quote_def parse_string_escape js_def starts_with_def)

lemma skip_space_quote [simp]: "skip_space (quote v @ u) = quote v @ u"
  by (simp add: quote_def)

lemma parse_member_comma:
  assumes "parse_members (Suc i) s = Some (ms, rest)" and "skip_space s = s"
  shows "parse_members (Suc (Suc i)) (quote k @ [58, 32] @ quote v @ 44 # new_line d @ s) = Some ((k, JStr v) # ms, rest)"
  using assms parse_value_quote [of i v]
  by (subst parse_members.simps)
    (simp add: quote_def [of k] parse_string_escape del: parse_value.simps parse_members.simps)

lemma parse_member_last:
  "parse_members (Suc (Suc i)) (quote k @ [58, 32] @ quote v @ new_line e @ 125 # rest) = Some ([(k, JStr v)], rest)"
  using parse_value_quote [of i v]
  by (subst parse_members.simps)
    (simp add: quote_def [of k] parse_string_escape del: parse_value.simps parse_members.simps)

lemma parse_string_members:
  assumes "kvs \<noteq> []" and "length kvs < n"
  shows "parse_members n (join (44 # new_line d) (List.map string_member kvs) @ new_line e @ 125 # rest) =
    Some (List.map (\<lambda>(k, v). (k, JStr v)) kvs, rest)"
  using assms
proof (induction kvs arbitrary: n)
  case Nil
  then show ?case by simp
next
  case (Cons m kvs)
  obtain k v where m: "m = (k, v)" by fastforce
  obtain i where n: "n = Suc (Suc i)" using Cons.prems(2) by (cases n; cases "n - 1") auto
  show ?case
  proof (cases "kvs = []")
    case True
    then show ?thesis using parse_member_last [of i k v] by (simp add: m n del: parse_members.simps)
  next
    case False
    define s where "s = join (44 # new_line d) (List.map string_member kvs) @ new_line e @ 125 # rest"
    have "parse_members (Suc i) s = Some (List.map (\<lambda>(k, v). (k, JStr v)) kvs, rest)"
      unfolding s_def using Cons.IH [of "Suc i"] False Cons.prems(2) n by (simp del: parse_members.simps)
    moreover have "skip_space s = s"
      using join_string_members_start [OF False, of "44 # new_line d"] by (auto simp: s_def)
    ultimately have "parse_members n (quote k @ [58, 32] @ quote v @ 44 # new_line d @ s) =
        Some ((k, JStr v) # List.map (\<lambda>(k, v). (k, JStr v)) kvs, rest)"
      unfolding n by (rule parse_member_comma)
    then show ?thesis using False by (simp add: m s_def join_two del: parse_members.simps)
  qed
qed

lemma length_join_members: "length kvs \<le> length (join sep (List.map string_member kvs))"
proof (induction kvs)
  case (Cons m kvs)
  then show ?case by (cases kvs; cases m) (auto simp: quote_def)
qed simp

lemma parse_object_open:
  assumes "parse_members n (34 # t) = Some (ms, rest)"
  shows "parse_value (Suc n) (123 # new_line d @ 34 # t) = Some (JObj ms, rest)"
  using assms by (simp add: js_def starts_with_def del: parse_members.simps)

lemma parse_pretty_strings: "json_parse (stringify2 (string_object kvs)) = Some (string_object kvs)"
proof (cases "kvs = []")
  case True
  then show ?thesis
    by (simp add: stringify2_def string_object_def json_parse_def skip_space_def json_space_def js_def starts_with_def)
next
  case False
  let ?members = "join (44 # new_line 2) (List.map string_member kvs)"
  have "(\<lambda>x. case (case x of (k, v) \<Rightarrow> (k, JStr v)) of (k, v) \<Rightarrow> quote k @ [58, 32] @ pretty 2 v) = string_member"
    by (auto simp: fun_eq_iff)
  then have printed: "stringify2 (string_object kvs) = 123 # new_line 2 @ ?members @ new_line 0 @ [125]"
    using False by (simp add: stringify2_def string_object_def numeral_2_eq_2 comp_def)
  obtain t where t: "?members = 34 # t" using join_string_members_start [OF False] by blast
  let ?n = "length (stringify2 (string_object kvs))"
  have "length kvs < ?n" using length_join_members [of kvs "44 # new_line 2"] unfolding printed by simp
  then have "parse_members ?n (34 # t @ new_line 0 @ [125]) = Some (List.map (\<lambda>(k, v). (k, JStr v)) kvs, [])"
    using parse_string_members [OF False, of ?n 2 0 "[]"] unfolding t by simp
  then have "parse_value (Suc ?n) (123 # new_line 2 @ 34 # t @ new_line 0 @ [125]) = Some (string_object kvs, [])"
    unfolding string_object_def by (rule parse_object_open)
  then have "parse_value (Suc ?n) (stringify2 (string_object kvs)) = Some (string_object kvs, [])"
    unfolding printed t by simp
  moreover have "skip_space (stringify2 (string_object kvs)) = stringify2 (string_object kvs)"
    unfolding printed by (simp add: skip_space_def json_space_def)
  moreover have "skip_space [] = []" by (simp add: skip_space_def)
  ultimately show ?thesis by (simp add: json_parse_def del: parse_value.simps)
qed

end
