(* ===== verification/Accounts_Panel.thy ===== *)
theory Accounts_Panel imports Accounts_Edits Admin_Service Json_Pretty Interfaces Panel_Texts begin

text \<open>
  The accounts panel (\<open>components/admin/accounts-panel.tsx\<close>): its state, its effects, its handlers and
  what they do with a reply.

  The account list is a property; \<open>aq_version\<close> stands for the identity of the payload object and
  \<open>aq_models_version\<close> for the identity of the model list, so that an effect runs again exactly when
  React runs it again. \<open>accounts_round\<close> is one pass over the effects, each with the values of the render
  it belongs to; \<open>accounts_commit\<close> repeats it until nothing is due (three passes, \<open>accounts_settled\<close>).
  A handler that awaits leaves a task behind with the values its continuation has captured.
\<close>

section \<open>State\<close>

record accounts_props =
  aq_items :: "account_item list"
  aq_active :: jsstr
  aq_active_ws :: jsstr
  aq_version :: nat
  aq_models :: "model_item list"
  aq_default :: "jsstr option"
  aq_models_version :: nat

record manual_import =
  im_email :: jsstr
  im_user_id :: jsstr
  im_user_name :: jsstr
  im_space_id :: jsstr
  im_space_name :: jsstr
  im_client_version :: jsstr
  im_cookie :: jsstr
  im_probe :: jsstr
  im_active :: bool

record quick_request =
  qr_email :: jsstr
  qr_workspace :: jsstr
  qr_model :: jsstr
  qr_prompt :: jsstr

datatype accounts_task =
    A_quick quick_request jsstr jsstr
  | A_save jsstr "jsstr option" account_edit bool
  | A_activate "account_item list" jsstr "jsstr option"
  | A_default jsstr jsstr jsstr
  | A_delete jsstr
  | A_import "account_item list" manual_import jsstr
  | A_start jsstr
  | A_verify "account_item list" jsstr jsstr
  | A_refresh_models jsstr jsstr
  | A_refresh_workspaces jsstr
  | A_refresh

record accounts =
  an_props :: accounts_props
  an_edits :: edits
  an_disabled :: disabled_edits
  an_base :: edits
  an_disabled_base :: disabled_edits
  an_selected :: jsstr
  an_selected_ws :: jsstr
  an_start_email :: jsstr
  an_start_message :: jsstr
  an_starting :: bool
  an_verify_email :: jsstr
  an_verify_code :: jsstr
  an_verify_message :: jsstr
  an_verifying :: bool
  an_manual :: manual_import
  an_hint :: jsstr
  an_manual_busy :: bool
  an_quick_email :: jsstr
  an_quick_ws :: jsstr
  an_quick_model :: jsstr
  an_quick_prompt :: jsstr
  an_quick_message :: jsstr
  an_quick_output :: jsstr
  an_quick_testing :: bool
  an_quick_flight :: bool
  an_saving :: bool
  an_refreshing_ws :: bool
  an_refreshing_models :: bool
  an_add_open :: bool
  an_tools_open :: bool
  an_crashed :: bool
  an_dep_items :: "nat option"
  an_dep_quick :: "(nat \<times> jsstr) option"
  an_dep_selected :: "(nat \<times> jsstr) option"
  an_dep_default :: "nat option"
  an_dep_probe :: "jsstr option"
  an_tasks :: "accounts_task list"
  an_toasts :: "toast list"

definition defaultManualImportState :: manual_import where
  "defaultManualImportState = \<lparr>im_email = [], im_user_id = [], im_user_name = [], im_space_id = [], im_space_name = [],
     im_client_version = [], im_cookie = [], im_probe = [], im_active = True\<rparr>"

definition default_prompt :: jsstr where
  "default_prompt = js ''Reply with NOTION2API_ACCOUNT_OK only.''"

definition fallback_model :: "accounts_props \<Rightarrow> jsstr" where
  "fallback_model p = or_str (opt_str (aq_default p))
     (or_str (case aq_models p of [] \<Rightarrow> [] | m # _ \<Rightarrow> mi_id m) auto)"

definition initial_accounts :: "accounts_props \<Rightarrow> accounts" where
  "initial_accounts p = \<lparr>an_props = p, an_edits = [], an_disabled = [], an_base = [], an_disabled_base = [],
     an_selected = [], an_selected_ws = [], an_start_email = [], an_start_message = [], an_starting = False,
     an_verify_email = [], an_verify_code = [], an_verify_message = [], an_verifying = False,
     an_manual = defaultManualImportState, an_hint = [], an_manual_busy = False, an_quick_email = [], an_quick_ws = [],
     an_quick_model = fallback_model p, an_quick_prompt = default_prompt, an_quick_message = [],
     an_quick_output = txt_waiting_test, an_quick_testing = False, an_quick_flight = False, an_saving = False,
     an_refreshing_ws = False, an_refreshing_models = False, an_add_open = False, an_tools_open = False,
     an_crashed = False, an_dep_items = None, an_dep_quick = None, an_dep_selected = None, an_dep_default = None,
     an_dep_probe = None, an_tasks = [], an_toasts = []\<rparr>"

definition a_spawn :: "accounts_task \<Rightarrow> accounts \<Rightarrow> accounts" where
  "a_spawn t s = s\<lparr>an_tasks := an_tasks s @ [t]\<rparr>"

definition a_toast :: "toast \<Rightarrow> accounts \<Rightarrow> accounts" where
  "a_toast t s = s\<lparr>an_toasts := an_toasts s @ [t]\<rparr>"

section \<open>Derived values\<close>

definition accountOptions :: "account_item list \<Rightarrow> account_item list" where
  "accountOptions items = filter (\<lambda>item. truthy (acct_email item)) items"

definition options_of :: "accounts \<Rightarrow> account_item list" where
  "options_of s = accountOptions (aq_items (an_props s))"

definition account_by :: "jsstr \<Rightarrow> account_item list \<Rightarrow> account_item option" where
  "account_by email options = List.find (\<lambda>item. acct_email item = Some email) options"

definition workspaces_by :: "jsstr \<Rightarrow> account_item list \<Rightarrow> workspace_item list" where
  "workspaces_by email options = (case account_by email options of None \<Rightarrow> [] | Some item \<Rightarrow> workspaceItems item)"

definition found_id :: "(workspace_item \<Rightarrow> bool) \<Rightarrow> workspace_item list \<Rightarrow> jsstr" where
  "found_id p ws = (case List.find p ws of None \<Rightarrow> [] | Some w \<Rightarrow> ws_id w)"

definition selectedAccount :: "accounts \<Rightarrow> account_item option" where
  "selectedAccount s = account_by (an_selected s) (options_of s)"

definition selectedWorkspace :: "accounts \<Rightarrow> workspace_item option" where
  "selectedWorkspace s = Option.bind (selectedAccount s)
     (\<lambda>a. List.find (\<lambda>w. ws_id w = an_selected_ws s) (workspaceItems a))"

definition modelOptions :: "accounts \<Rightarrow> model_item list" where
  "modelOptions s = auto_model #
     manualModelOptions (account_by (an_quick_email s) (options_of s)) (Some (an_quick_ws s)) (aq_models (an_props s))"

definition selectedEditKey :: "accounts \<Rightarrow> jsstr" where
  "selectedEditKey s = (case selectedAccount s of None \<Rightarrow> []
     | Some a \<Rightarrow> workspaceEditKey (opt_str (acct_email a)) (map_option ws_id (selectedWorkspace s)))"

definition selectedEdit :: "accounts \<Rightarrow> account_edit" where
  "selectedEdit s = (case (if selectedEditKey s = [] then None else map_of (an_edits s) (selectedEditKey s)) of
     Some e \<Rightarrow> e
   | None \<Rightarrow> limits (nullish (Option.bind (selectedWorkspace s) ws_priority) (Option.bind (selectedAccount s) acct_priority))
        (nullish (Option.bind (selectedWorkspace s) ws_hourly_quota) (Option.bind (selectedAccount s) acct_hourly_quota))
        (nullish (Option.bind (selectedWorkspace s) ws_max_concurrency) (Option.bind (selectedAccount s) acct_max_concurrency)))"

definition selectedDisabled :: "accounts \<Rightarrow> bool" where
  "selectedDisabled s = (case selectedAccount s of None \<Rightarrow> False
     | Some a \<Rightarrow> (case map_of (an_disabled s) (opt_str (acct_email a)) of Some b \<Rightarrow> b | None \<Rightarrow> opt_true (acct_disabled a)))"

definition accounts_dirty :: "accounts \<Rightarrow> bool" where
  "accounts_dirty s \<longleftrightarrow> entries_dirty (an_edits s) (an_base s) \<or> entries_dirty (an_disabled s) (an_disabled_base s)"

section \<open>The probe text\<close>

definition safeParseProbeJSON :: "jsstr \<Rightarrow> failure + json option" where
  "safeParseProbeJSON raw = (let t = trim raw in
     if t = [] then Inr None
     else case json_parse t of
       None \<Rightarrow> Inl Engine_error
     | Some (JObj ms) \<Rightarrow> Inr (Some (JObj ms))
     | Some _ \<Rightarrow> Inl (Error_message txt_probe_not_object))"

text \<open>\<open>payload.f?.trim()\<close>: a value that is neither a string nor absent has no \<open>trim\<close> method.\<close>

definition probe_field :: "string \<Rightarrow> json \<Rightarrow> failure + jsstr" where
  "probe_field k payload = (case jget (js k) payload of
     None \<Rightarrow> Inr [] | Some JNull \<Rightarrow> Inr [] | Some (JStr v) \<Rightarrow> Inr (trim v) | Some _ \<Rightarrow> Inl Engine_error)"

definition probe_fill :: "json \<Rightarrow> manual_import \<Rightarrow> failure + manual_import" where
  "probe_fill payload m =
     (case (probe_field ''email'' payload, probe_field ''user_id'' payload, probe_field ''space_id'' payload,
            probe_field ''client_version'' payload) of
        (Inr e, Inr u, Inr w, Inr c) \<Rightarrow> Inr (m\<lparr>im_email := or_str e (im_email m), im_user_id := or_str u (im_user_id m),
           im_space_id := or_str w (im_space_id m), im_client_version := or_str c (im_client_version m)\<rparr>)
      | _ \<Rightarrow> Inl Engine_error)"

definition probe_labels :: "json \<Rightarrow> jsstr list" where
  "probe_labels payload =
     (if json_truthy (jget (js ''email'') payload) then [js ''Email''] else []) @
     (if json_truthy (jget (js ''user_id'') payload) then [js ''User ID''] else []) @
     (if json_truthy (jget (js ''space_id'') payload) then [js ''Space ID''] else []) @
     (if json_truthy (jget (js ''client_version'') payload) then [js ''Client Version''] else [])"

text \<open>
  The effect on the probe text. The updater given to \<open>setManual\<close> runs when the component renders, after
  the \<open>try\<close> block has been left: an exception in it ends the rendering.\<close>

definition probe_effect :: "accounts \<Rightarrow> accounts" where
  "probe_effect s = (let raw = im_probe (an_manual s) in
     if trim raw = [] then s\<lparr>an_hint := []\<rparr>
     else case safeParseProbeJSON raw of
       Inl e \<Rightarrow> s\<lparr>an_hint := failure_text e txt_probe_parse_failed\<rparr>
     | Inr None \<Rightarrow> s
     | Inr (Some payload) \<Rightarrow>
         (let hint = (if probe_labels payload = [] then [] else txt_probe_extracted @ join (js '' / '') (probe_labels payload))
          in case probe_fill payload (an_manual s) of
               Inl _ \<Rightarrow> s\<lparr>an_crashed := True\<rparr>
             | Inr m \<Rightarrow> s\<lparr>an_manual := m, an_hint := hint\<rparr>))"

section \<open>Effects\<close>

definition has_email :: "jsstr \<Rightarrow> account_item list \<Rightarrow> bool" where
  "has_email email items \<longleftrightarrow> list_ex (\<lambda>item. acct_email item = Some email) items"

definition preferred_email :: "accounts_props \<Rightarrow> jsstr" where
  "preferred_email p = or_str (aq_active p) (case aq_items p of [] \<Rightarrow> [] | item # _ \<Rightarrow> opt_str (acct_email item))"

definition keep_email :: "accounts_props \<Rightarrow> jsstr \<Rightarrow> jsstr" where
  "keep_email p email = (if email \<noteq> [] \<and> has_email email (aq_items p) then email else preferred_email p)"

definition items_effect :: "accounts \<Rightarrow> accounts" where
  "items_effect s = (let p = an_props s; nxt = buildAccountEditMap (aq_items p); next_disabled = buildDisabledEditMap (aq_items p) in
     s\<lparr>an_edits := merge_edits nxt (an_base s) (an_edits s),
       an_disabled := merge_edits next_disabled (an_disabled_base s) (an_disabled s),
       an_base := nxt, an_disabled_base := next_disabled,
       an_quick_email := keep_email p (an_quick_email s),
       an_start_email := or_str (an_start_email s) (preferred_email p),
       an_verify_email := or_str (an_verify_email s) (preferred_email p),
       an_selected := keep_email p (an_selected s)\<rparr>)"

definition quick_ws_for :: "account_item list \<Rightarrow> jsstr \<Rightarrow> jsstr \<Rightarrow> jsstr" where
  "quick_ws_for options email current = (let ws = workspaces_by email options in
     if current \<noteq> [] \<and> current \<in> ws_id ` set ws then current
     else or_str (found_id (\<lambda>w. opt_true (ws_active w)) ws)
       (or_str (found_id (\<lambda>w. opt_true (ws_default w)) ws) (found_id (\<lambda>w. True) ws)))"

definition selected_ws_for :: "accounts_props \<Rightarrow> jsstr \<Rightarrow> jsstr \<Rightarrow> jsstr" where
  "selected_ws_for p email current = (let ws = workspaces_by email (accountOptions (aq_items p)) in
     if current \<noteq> [] \<and> current \<in> ws_id ` set ws then current
     else or_str (found_id (\<lambda>w. ws_id w = aq_active_ws p) ws)
       (or_str (found_id (\<lambda>w. opt_true (ws_default w)) ws) (found_id (\<lambda>w. True) ws)))"

text \<open>One pass: \<open>r\<close> is the render whose values the effects see, \<open>s\<close> the state their updates act on.\<close>

definition run_items :: "accounts \<Rightarrow> accounts \<Rightarrow> accounts" where
  "run_items r s = (if an_dep_items r = Some (aq_version (an_props r)) then s
     else (items_effect s)\<lparr>an_dep_items := Some (aq_version (an_props r))\<rparr>)"

definition run_quick :: "accounts \<Rightarrow> accounts \<Rightarrow> accounts" where
  "run_quick r s = (let dep = (aq_version (an_props r), an_quick_email r) in
     if an_dep_quick r = Some dep then s
     else s\<lparr>an_quick_ws := quick_ws_for (options_of r) (an_quick_email r) (an_quick_ws s), an_dep_quick := Some dep\<rparr>)"

definition run_selected :: "accounts \<Rightarrow> accounts \<Rightarrow> accounts" where
  "run_selected r s = (let dep = (aq_version (an_props r), an_selected r) in
     if an_dep_selected r = Some dep then s
     else s\<lparr>an_selected_ws := selected_ws_for (an_props r) (an_selected r) (an_selected_ws s), an_dep_selected := Some dep\<rparr>)"

definition run_default :: "accounts \<Rightarrow> accounts \<Rightarrow> accounts" where
  "run_default r s = (let dep = aq_models_version (an_props r) in
     if an_dep_default r = Some dep then s
     else s\<lparr>an_quick_model := or_str (an_quick_model s) (fallback_model (an_props r)), an_dep_default := Some dep\<rparr>)"

definition run_probe :: "accounts \<Rightarrow> accounts \<Rightarrow> accounts" where
  "run_probe r s = (let dep = im_probe (an_manual r) in
     if an_dep_probe r = Some dep then s else (probe_effect s)\<lparr>an_dep_probe := Some dep\<rparr>)"

definition run_model_options :: "accounts \<Rightarrow> accounts \<Rightarrow> accounts" where
  "run_model_options r s =
     (if an_quick_model r \<in> mi_id ` set (modelOptions r) then s else s\<lparr>an_quick_model := auto\<rparr>)"

definition accounts_round :: "accounts \<Rightarrow> accounts" where
  "accounts_round r =
     run_model_options r (run_probe r (run_default r (run_selected r (run_quick r (run_items r r)))))"

definition accounts_commit :: "accounts \<Rightarrow> accounts" where
  "accounts_commit s = accounts_round (accounts_round (accounts_round s))"

section \<open>Selecting and editing\<close>

definition populateEmail :: "account_item list \<Rightarrow> jsstr \<Rightarrow> accounts \<Rightarrow> accounts" where
  "populateEmail options email s = (let ws = workspaces_by email options in
     s\<lparr>an_selected := email,
       an_selected_ws := or_str (found_id (\<lambda>w. opt_true (ws_active w)) ws) (found_id (\<lambda>w. True) ws),
       an_start_email := email, an_verify_email := email, an_quick_email := email,
       an_manual := (an_manual s)\<lparr>im_email := email\<rparr>\<rparr>)"

definition select_account :: "jsstr \<Rightarrow> accounts \<Rightarrow> accounts" where
  "select_account email s = s\<lparr>an_selected := email, an_quick_email := email\<rparr>"

text \<open>The value of a number input is empty or a decimal literal, so \<open>Number\<close> gives a number.\<close>

definition input_number :: "jsstr \<Rightarrow> jsnum \<Rightarrow> jsnum" where
  "input_number v blank = (if v = [] then blank else case to_number v of Some n \<Rightarrow> n | None \<Rightarrow> 0)"

datatype limit_input = Priority_input jsstr | Hourly_input jsstr | Concurrency_input jsstr

fun edit_patch :: "limit_input \<Rightarrow> account_edit \<Rightarrow> account_edit" where
  "edit_patch (Priority_input v) e = e\<lparr>ae_priority := input_number v 0\<rparr>"
| "edit_patch (Hourly_input v) e = e\<lparr>ae_hourly := max 0 (input_number v 0)\<rparr>"
| "edit_patch (Concurrency_input v) e = e\<lparr>ae_concurrency := max 1 (input_number v 1)\<rparr>"

definition updateWorkspaceEdit :: "jsstr \<Rightarrow> jsstr option \<Rightarrow> limit_input \<Rightarrow> accounts \<Rightarrow> accounts" where
  "updateWorkspaceEdit email workspace patch s = (let key = workspaceEditKey email workspace in
     s\<lparr>an_edits := AList.update key
        (edit_patch patch (case map_of (an_edits s) key of Some e \<Rightarrow> e | None \<Rightarrow> selectedEdit s)) (an_edits s)\<rparr>)"

definition set_disabled :: "jsstr \<Rightarrow> bool \<Rightarrow> accounts \<Rightarrow> accounts" where
  "set_disabled email b s = s\<lparr>an_disabled := AList.update email b (an_disabled s)\<rparr>"

definition discard_edits :: "accounts \<Rightarrow> accounts" where
  "discard_edits s = s\<lparr>an_edits := an_base s, an_disabled := an_disabled_base s\<rparr>"

section \<open>Testing a workspace\<close>

definition quick_model :: "accounts \<Rightarrow> jsstr \<Rightarrow> jsstr \<Rightarrow> jsstr" where
  "quick_model s email workspace =
     (if an_quick_model s = auto \<or> an_quick_model s \<in> mi_id ` set
           (manualModelOptions (account_by email (options_of s)) (Some workspace) (aq_models (an_props s)))
      then an_quick_model s else auto)"

definition quick_target :: "accounts \<Rightarrow> jsstr \<Rightarrow> jsstr \<Rightarrow> jsstr" where
  "quick_target s email workspace =
     email @ (case List.find (\<lambda>w. ws_id w = workspace) (workspaces_by email (options_of s)) of None \<Rightarrow> []
       | Some w \<Rightarrow> txt_test_separator @ workspaceTitle (ws_name w) (ws_id w))"

definition quick_note :: "accounts \<Rightarrow> jsstr \<Rightarrow> jsstr" where
  "quick_note s model = (if model \<noteq> an_quick_model s
     then txt_no_manual_model @ an_quick_model s @ txt_using_auto else [])"

definition quick_suffix :: "jsstr \<Rightarrow> jsstr \<Rightarrow> jsstr" where
  "quick_suffix model note = txt_test_model @ model @ (if note = [] then [] else txt_test_separator @ note)"

definition runQuickTest :: "jsstr \<Rightarrow> jsstr option \<Rightarrow> accounts \<Rightarrow> accounts" where
  "runQuickTest email chosen s =
     (if an_quick_flight s then s
      else (let workspace = (case chosen of None \<Rightarrow> an_quick_ws s | Some w \<Rightarrow> w);
                model = quick_model s email workspace; target = quick_target s email workspace;
                note = quick_note s model;
                s' = s\<lparr>an_quick_flight := True, an_tools_open := True, an_quick_email := email, an_quick_ws := workspace,
                   an_quick_model := model, an_quick_testing := True,
                   an_quick_message := txt_testing @ target @ quick_suffix model note,
                   an_quick_output := txt_running_dots\<rparr>
            in a_spawn (A_quick \<lparr>qr_email = email, qr_workspace = workspace, qr_model = model,
                   qr_prompt = or_str (trim (an_quick_prompt s)) default_prompt\<rparr> target note)
                 (if note = [] then s' else a_toast (Toast_warning note) s')))"

definition quick_finish :: "accounts \<Rightarrow> accounts" where
  "quick_finish s = s\<lparr>an_quick_flight := False, an_quick_testing := False\<rparr>"

definition quick_done :: "quick_request \<Rightarrow> jsstr \<Rightarrow> jsstr \<Rightarrow> json \<Rightarrow> accounts \<Rightarrow> accounts" where
  "quick_done req target note payload s = quick_finish (a_toast (Toast_success (target @ txt_test_ok_suffix))
     (s\<lparr>an_quick_output := stringify2 payload,
        an_quick_message := txt_test_succeeded @ target @ quick_suffix (qr_model req) note\<rparr>))"

definition quick_failed :: "jsstr \<Rightarrow> failure \<Rightarrow> accounts \<Rightarrow> accounts" where
  "quick_failed target e s = (let m = failure_text e txt_account_test_failed in
     quick_finish (a_toast (Toast_error m) (s\<lparr>an_quick_message := target @ txt_wide_colon @ m, an_quick_output := m\<rparr>)))"

section \<open>Saving, activating, deleting\<close>

definition saveAccount :: "jsstr \<Rightarrow> jsstr option \<Rightarrow> account_edit \<Rightarrow> bool \<Rightarrow> accounts \<Rightarrow> accounts" where
  "saveAccount email workspace edit disabled s =
     (if an_saving s then s else a_spawn (A_save email workspace edit disabled) (s\<lparr>an_saving := True\<rparr>))"

definition save_settled :: "jsstr \<Rightarrow> jsstr option \<Rightarrow> account_edit \<Rightarrow> bool \<Rightarrow> accounts \<Rightarrow> accounts" where
  "save_settled email workspace edit disabled s = (let key = workspaceEditKey email workspace in
     s\<lparr>an_edits := AList.update key (case map_of (an_base s) key of Some e \<Rightarrow> e | None \<Rightarrow> edit) (an_edits s),
       an_disabled := AList.update email (case map_of (an_disabled_base s) email of Some b \<Rightarrow> b | None \<Rightarrow> disabled)
         (an_disabled s)\<rparr>)"

definition save_done :: "jsstr \<Rightarrow> jsstr option \<Rightarrow> account_edit \<Rightarrow> bool \<Rightarrow> accounts \<Rightarrow> accounts" where
  "save_done email workspace edit disabled s =
     (a_toast (Toast_success txt_workspace_saved) (save_settled email workspace edit disabled s))\<lparr>an_saving := False\<rparr>"

definition save_account_failed :: "failure \<Rightarrow> accounts \<Rightarrow> accounts" where
  "save_account_failed e s =
     (a_toast (Toast_error (failure_text e txt_account_save_failed)) s)\<lparr>an_saving := False\<rparr>"

text \<open>The continuation calls the \<open>populateEmail\<close> of the render in which the button was pressed.\<close>

definition activateAccount :: "jsstr \<Rightarrow> jsstr option \<Rightarrow> accounts \<Rightarrow> accounts" where
  "activateAccount email workspace s =
     a_spawn (A_activate (options_of s) email
       (case workspace of None \<Rightarrow> map_option ws_id (selectedWorkspace s) | Some w \<Rightarrow> Some w)) s"

definition activate_done :: "account_item list \<Rightarrow> jsstr \<Rightarrow> jsstr option \<Rightarrow> accounts \<Rightarrow> accounts" where
  "activate_done options email workspace s = populateEmail options email
     (a_toast (Toast_success (txt_activated @ email @
        (if truthy workspace then txt_test_separator @ opt_str workspace else []))) s)"

definition setDefaultWorkspace :: "jsstr \<Rightarrow> jsstr \<Rightarrow> accounts \<Rightarrow> accounts" where
  "setDefaultWorkspace email workspace s =
     a_spawn (A_default email workspace (case selectedWorkspace s of Some w \<Rightarrow> workspaceTitle (ws_name w) (ws_id w)
       | None \<Rightarrow> workspaceTitle None workspace)) s"

definition deleteAccount_confirmed :: "jsstr \<Rightarrow> bool \<Rightarrow> accounts \<Rightarrow> accounts" where
  "deleteAccount_confirmed email confirmed s = (if confirmed then a_spawn (A_delete email) s else s)"

section \<open>Adding an account\<close>

definition import_email :: "manual_import \<Rightarrow> failure + jsstr" where
  "import_email m =
     (case (if trim (im_probe m) = [] then Inr None else safeParseProbeJSON (im_probe m)) of
        Inl e \<Rightarrow> Inl e
      | Inr probe \<Rightarrow>
          (case (if trim (im_email m) \<noteq> [] then Inr (trim (im_email m))
                 else case probe of None \<Rightarrow> Inr [] | Some p \<Rightarrow> probe_field ''email'' p) of
             Inl e \<Rightarrow> Inl e
           | Inr email \<Rightarrow>
               if email = [] \<and> trim (im_cookie m) = [] \<and> trim (im_probe m) = []
               then Inl (Error_message txt_import_needs_input) else Inr email))"

definition import_failed :: "failure \<Rightarrow> accounts \<Rightarrow> accounts" where
  "import_failed e s = (let m = failure_text e txt_manual_import_failed in
     (a_toast (Toast_error m) (s\<lparr>an_hint := m\<rparr>))\<lparr>an_manual_busy := False\<rparr>)"

definition import_request :: "manual_import \<Rightarrow> jsstr \<Rightarrow> manual_import" where
  "import_request m email = \<lparr>im_email = email, im_user_id = trim (im_user_id m), im_user_name = trim (im_user_name m),
     im_space_id = trim (im_space_id m), im_space_name = trim (im_space_name m),
     im_client_version = trim (im_client_version m), im_cookie = trim (im_cookie m), im_probe = trim (im_probe m),
     im_active = im_active m\<rparr>"

definition performManualImport :: "accounts \<Rightarrow> accounts" where
  "performManualImport s = (let s' = s\<lparr>an_manual_busy := True, an_hint := txt_importing\<rparr> in
     case import_email (an_manual s) of
       Inl e \<Rightarrow> import_failed e s'
     | Inr email \<Rightarrow> a_spawn (A_import (options_of s) (import_request (an_manual s) email) email) s')"

definition imported_email :: "json \<Rightarrow> jsstr \<Rightarrow> jsstr" where
  "imported_email payload email =
     (case jor (jor (opt_get ''email'' (opt_get ''account'' (Some payload)))
                    (opt_get ''email'' (opt_get ''status'' (Some payload)))) (Some (JStr email)) of
        Some v \<Rightarrow> to_js_string v | None \<Rightarrow> [])"

definition import_done :: "account_item list \<Rightarrow> jsstr \<Rightarrow> json \<Rightarrow> accounts \<Rightarrow> accounts" where
  "import_done options email payload s =
     (if payload = JNull then import_failed Engine_error s
      else (let found = imported_email payload email; s1 = populateEmail options found s in
        (a_toast (Toast_success txt_manual_import_ok)
          (s1\<lparr>an_manual := (an_manual s1)\<lparr>im_email := found\<rparr>, an_hint := txt_account_word @ found @ txt_imported_suffix\<rparr>))
        \<lparr>an_manual_busy := False\<rparr>))"

text \<open>\<open>String(payload?.status?.message || fallback)\<close>\<close>

definition status_message :: "json \<Rightarrow> jsstr \<Rightarrow> jsstr" where
  "status_message payload fallback =
     (let m = opt_get ''message'' (opt_get ''status'' (Some payload)) in
      if json_truthy m then to_js_string (the m) else fallback)"

definition start_login :: "accounts \<Rightarrow> accounts" where
  "start_login s = (let email = trim (an_start_email s) in
     if email = [] then s\<lparr>an_start_message := txt_enter_email\<rparr>
     else a_spawn (A_start email) (s\<lparr>an_starting := True, an_start_message := txt_requesting_code\<rparr>))"

definition start_done :: "jsstr \<Rightarrow> json \<Rightarrow> accounts \<Rightarrow> accounts" where
  "start_done email payload s = (a_toast (Toast_success txt_code_requested)
     (s\<lparr>an_verify_email := email, an_quick_email := email, an_selected := email,
        an_start_message := status_message payload txt_code_sent\<rparr>))\<lparr>an_starting := False\<rparr>"

definition start_failed :: "failure \<Rightarrow> accounts \<Rightarrow> accounts" where
  "start_failed e s = (let m = failure_text e txt_code_request_failed in
     (a_toast (Toast_error m) (s\<lparr>an_start_message := m\<rparr>))\<lparr>an_starting := False\<rparr>)"

definition verify_code :: "accounts \<Rightarrow> accounts" where
  "verify_code s = (let email = trim (an_verify_email s); code = trim (an_verify_code s) in
     if email = [] \<or> code = [] then s\<lparr>an_verify_message := txt_enter_code\<rparr>
     else a_spawn (A_verify (options_of s) email code) (s\<lparr>an_verifying := True, an_verify_message := txt_verifying\<rparr>))"

definition verify_done :: "account_item list \<Rightarrow> jsstr \<Rightarrow> json \<Rightarrow> accounts \<Rightarrow> accounts" where
  "verify_done options email payload s = (a_toast (Toast_success txt_code_ok)
     ((populateEmail options email s)\<lparr>an_verify_code := [],
        an_verify_message := status_message payload txt_verified_active\<rparr>))\<lparr>an_verifying := False\<rparr>"

definition verify_failed :: "failure \<Rightarrow> accounts \<Rightarrow> accounts" where
  "verify_failed e s = (let m = failure_text e txt_code_failed in
     (a_toast (Toast_error m) (s\<lparr>an_verify_message := m\<rparr>))\<lparr>an_verifying := False\<rparr>)"

definition selected_email :: "accounts \<Rightarrow> jsstr" where
  "selected_email s = (case selectedAccount s of None \<Rightarrow> [] | Some a \<Rightarrow> opt_str (acct_email a))"

definition refresh_models :: "accounts \<Rightarrow> accounts" where
  "refresh_models s = (case selectedWorkspace s of None \<Rightarrow> s
     | Some w \<Rightarrow> a_spawn (A_refresh_models (selected_email s) (ws_id w)) (s\<lparr>an_refreshing_models := True\<rparr>))"

definition refresh_models_settled :: "toast \<Rightarrow> accounts \<Rightarrow> accounts" where
  "refresh_models_settled t s = (a_toast t s)\<lparr>an_refreshing_models := False\<rparr>"

definition refresh_workspaces :: "accounts \<Rightarrow> accounts" where
  "refresh_workspaces s = a_spawn (A_refresh_workspaces (selected_email s)) (s\<lparr>an_refreshing_ws := True\<rparr>)"

definition refresh_workspaces_settled :: "toast \<Rightarrow> accounts \<Rightarrow> accounts" where
  "refresh_workspaces_settled t s = (a_toast t s)\<lparr>an_refreshing_ws := False\<rparr>"

section \<open>Replies\<close>

datatype accounts_reply = A_ok json | A_failed failure

fun accounts_resume :: "accounts_task \<Rightarrow> accounts_reply \<Rightarrow> accounts \<Rightarrow> accounts" where
  "accounts_resume (A_quick req target note) (A_ok v) s = quick_done req target note v s"
| "accounts_resume (A_quick req target note) (A_failed e) s = quick_failed target e s"
| "accounts_resume (A_save email w edit disabled) (A_ok v) s = save_done email w edit disabled s"
| "accounts_resume (A_save email w edit disabled) (A_failed e) s = save_account_failed e s"
| "accounts_resume (A_activate options email w) (A_ok v) s = activate_done options email w s"
| "accounts_resume (A_activate options email w) (A_failed e) s = a_toast (Toast_error (failure_text e txt_activate_failed)) s"
| "accounts_resume (A_default email w title) (A_ok v) s =
     a_toast (Toast_success (txt_default_set_before @ title @ txt_default_set_after)) s"
| "accounts_resume (A_default email w title) (A_failed e) s = a_toast (Toast_error (failure_text e txt_default_set_failed)) s"
| "accounts_resume (A_delete email) (A_ok v) s = a_toast (Toast_success (txt_account_deleted @ email)) s"
| "accounts_resume (A_delete email) (A_failed e) s = a_toast (Toast_error (failure_text e txt_account_delete_failed)) s"
| "accounts_resume (A_import options req email) (A_ok v) s = import_done options email v s"
| "accounts_resume (A_import options req email) (A_failed e) s = import_failed e s"
| "accounts_resume (A_start email) (A_ok v) s = start_done email v s"
| "accounts_resume (A_start email) (A_failed e) s = start_failed e s"
| "accounts_resume (A_verify options email code) (A_ok v) s = verify_done options email v s"
| "accounts_resume (A_verify options email code) (A_failed e) s = verify_failed e s"
| "accounts_resume (A_refresh_models email w) (A_ok v) s = refresh_models_settled (Toast_success txt_models_refreshed) s"
| "accounts_resume (A_refresh_models email w) (A_failed e) s = refresh_models_settled (Toast_error (failure_text e txt_refresh_failed)) s"
| "accounts_resume (A_refresh_workspaces email) (A_ok v) s = refresh_workspaces_settled (Toast_success txt_plans_refreshed) s"
| "accounts_resume (A_refresh_workspaces email) (A_failed e) s =
     refresh_workspaces_settled (Toast_error (failure_text e txt_refresh_failed)) s"
| "accounts_resume A_refresh (A_ok v) s = s"
| "accounts_resume A_refresh (A_failed e) s = a_toast (Toast_error (failure_text e txt_refresh_failed)) s"

section \<open>Events\<close>

text \<open>What the user and the environment can do, when the controls allow it, and the state that follows.\<close>

datatype accounts_event =
    E_reload accounts_props
  | E_select jsstr
  | E_select_ws jsstr
  | E_limit limit_input
  | E_disabled bool
  | E_discard
  | E_quick_email jsstr
  | E_quick_ws jsstr
  | E_quick_model jsstr
  | E_quick_prompt jsstr
  | E_test_selected
  | E_test
  | E_save
  | E_activate
  | E_default
  | E_delete bool
  | E_add_open bool
  | E_fill
  | E_tools bool
  | E_start_email jsstr
  | E_verify_email jsstr
  | E_verify_code jsstr
  | E_start
  | E_verify
  | E_manual manual_import
  | E_import
  | E_refresh
  | E_refresh_models
  | E_refresh_workspaces
  | E_reply accounts_task accounts_reply

definition on_selected :: "accounts \<Rightarrow> (jsstr \<Rightarrow> bool) \<Rightarrow> bool" where
  "on_selected s P \<longleftrightarrow> (case selectedAccount s of None \<Rightarrow> False | Some a \<Rightarrow> P (opt_str (acct_email a)))"

definition cooling_down :: "accounts \<Rightarrow> bool" where
  "cooling_down s \<longleftrightarrow> (case selectedAccount s of None \<Rightarrow> False | Some a \<Rightarrow> opt_true (acct_credential_cooldown_active a))"

fun accounts_enabled :: "accounts_event \<Rightarrow> accounts \<Rightarrow> bool" where
  "accounts_enabled (E_select email) s = (email \<in> (\<lambda>a. opt_str (acct_email a)) ` set (options_of s))"
| "accounts_enabled (E_select_ws w) s = on_selected s (\<lambda>email.
     w \<in> ws_id ` set (workspaces_by email (options_of s)) \<and> 2 \<le> length (workspaces_by email (options_of s)))"
| "accounts_enabled (E_limit v) s = (on_selected s (\<lambda>_. True) \<and> \<not> an_saving s)"
| "accounts_enabled (E_disabled b) s = (on_selected s (\<lambda>_. True) \<and> \<not> an_saving s)"
| "accounts_enabled E_discard s = accounts_dirty s"
| "accounts_enabled (E_quick_email email) s = (email \<in> (\<lambda>a. opt_str (acct_email a)) ` set (options_of s))"
| "accounts_enabled (E_quick_ws w) s = (w \<in> ws_id ` set (workspaces_by (an_quick_email s) (options_of s)) \<and>
     2 \<le> length (workspaces_by (an_quick_email s) (options_of s)))"
| "accounts_enabled (E_quick_model m) s = (m \<in> mi_id ` set (modelOptions s))"
| "accounts_enabled E_test_selected s = (on_selected s (\<lambda>_. True) \<and> \<not> an_quick_testing s)"
| "accounts_enabled E_test s = (\<not> an_quick_testing s \<and> an_quick_email s \<noteq> [])"
| "accounts_enabled E_save s = (on_selected s (\<lambda>_. True) \<and> \<not> an_saving s)"
| "accounts_enabled E_activate s = on_selected s (\<lambda>_. True)"
| "accounts_enabled E_default s = (case selectedWorkspace s of None \<Rightarrow> False | Some w \<Rightarrow> \<not> opt_true (ws_default w))"
| "accounts_enabled (E_delete b) s = on_selected s (\<lambda>_. True)"
| "accounts_enabled E_fill s = on_selected s (\<lambda>_. True)"
| "accounts_enabled E_start s = (\<not> an_starting s)"
| "accounts_enabled E_verify s = (\<not> an_verifying s)"
| "accounts_enabled E_import s = (\<not> an_manual_busy s)"
| "accounts_enabled E_refresh_models s = (\<not> an_refreshing_models s \<and> selectedWorkspace s \<noteq> None \<and> \<not> cooling_down s)"
| "accounts_enabled E_refresh_workspaces s = (on_selected s (\<lambda>_. True) \<and> \<not> an_refreshing_ws s \<and> \<not> cooling_down s)"
| "accounts_enabled (E_reply t r) s = (t \<in> set (an_tasks s))"
| "accounts_enabled _ s = True"

definition selected_ws_id :: "accounts \<Rightarrow> jsstr option" where
  "selected_ws_id s = map_option ws_id (selectedWorkspace s)"

fun accounts_apply :: "accounts_event \<Rightarrow> accounts \<Rightarrow> accounts" where
  "accounts_apply (E_reload p) s = s\<lparr>an_props := p\<rparr>"
| "accounts_apply (E_select email) s = select_account email s"
| "accounts_apply (E_select_ws w) s = s\<lparr>an_selected_ws := w\<rparr>"
| "accounts_apply (E_limit v) s = updateWorkspaceEdit (selected_email s) (selected_ws_id s) v s"
| "accounts_apply (E_disabled b) s = set_disabled (selected_email s) b s"
| "accounts_apply E_discard s = discard_edits s"
| "accounts_apply (E_quick_email email) s = s\<lparr>an_quick_email := email\<rparr>"
| "accounts_apply (E_quick_ws w) s = s\<lparr>an_quick_ws := w\<rparr>"
| "accounts_apply (E_quick_model m) s = s\<lparr>an_quick_model := m\<rparr>"
| "accounts_apply (E_quick_prompt t) s = s\<lparr>an_quick_prompt := t\<rparr>"
| "accounts_apply E_test_selected s = runQuickTest (selected_email s) (selected_ws_id s) s"
| "accounts_apply E_test s = runQuickTest (an_quick_email s) None s"
| "accounts_apply E_save s = saveAccount (selected_email s) (selected_ws_id s) (selectedEdit s) (selectedDisabled s) s"
| "accounts_apply E_activate s = activateAccount (selected_email s) (selected_ws_id s) s"
| "accounts_apply E_default s = (case selectedWorkspace s of None \<Rightarrow> s
     | Some w \<Rightarrow> setDefaultWorkspace (selected_email s) (ws_id w) s)"
| "accounts_apply (E_delete b) s = deleteAccount_confirmed (selected_email s) b s"
| "accounts_apply (E_add_open b) s = s\<lparr>an_add_open := b\<rparr>"
| "accounts_apply E_fill s = (populateEmail (options_of s) (selected_email s) s)\<lparr>an_add_open := True\<rparr>"
| "accounts_apply (E_tools b) s = s\<lparr>an_tools_open := b\<rparr>"
| "accounts_apply (E_start_email t) s = s\<lparr>an_start_email := t\<rparr>"
| "accounts_apply (E_verify_email t) s = s\<lparr>an_verify_email := t\<rparr>"
| "accounts_apply (E_verify_code t) s = s\<lparr>an_verify_code := t\<rparr>"
| "accounts_apply E_start s = start_login s"
| "accounts_apply E_verify s = verify_code s"
| "accounts_apply (E_manual m) s = s\<lparr>an_manual := m\<rparr>"
| "accounts_apply E_import s = performManualImport s"
| "accounts_apply E_refresh s = a_spawn A_refresh s"
| "accounts_apply E_refresh_models s = refresh_models s"
| "accounts_apply E_refresh_workspaces s = refresh_workspaces s"
| "accounts_apply (E_reply t r) s = accounts_resume t r (s\<lparr>an_tasks := remove1 t (an_tasks s)\<rparr>)"

inductive accounts_reachable :: "accounts \<Rightarrow> bool" where
  accounts_mounted: "accounts_reachable (accounts_commit (initial_accounts p))"
| accounts_event: "accounts_reachable s \<Longrightarrow> accounts_enabled e s \<Longrightarrow> accounts_reachable (accounts_commit (accounts_apply e s))"

end
