(* ===== verification/Accounts_Facts.thy ===== *)
theory Accounts_Facts imports Accounts_Panel begin

text \<open>
  What holds of the accounts panel: its effects settle, a reload keeps every unsaved draft, the two
  orders in which a save and the reload it causes can arrive agree, and a quick test asks only for a
  model the workspace offers.
\<close>

section \<open>The effects one by one\<close>

lemma probe_effect_fields [simp]:
  "an_props (probe_effect s) = an_props s" "an_edits (probe_effect s) = an_edits s"
  "an_disabled (probe_effect s) = an_disabled s" "an_base (probe_effect s) = an_base s"
  "an_disabled_base (probe_effect s) = an_disabled_base s" "an_selected (probe_effect s) = an_selected s"
  "an_selected_ws (probe_effect s) = an_selected_ws s" "an_quick_email (probe_effect s) = an_quick_email s"
  "an_quick_ws (probe_effect s) = an_quick_ws s" "an_quick_model (probe_effect s) = an_quick_model s"
  "an_dep_items (probe_effect s) = an_dep_items s" "an_dep_quick (probe_effect s) = an_dep_quick s"
  "an_dep_selected (probe_effect s) = an_dep_selected s" "an_dep_default (probe_effect s) = an_dep_default s"
  "im_probe (an_manual (probe_effect s)) = im_probe (an_manual s)"
  by (auto simp: probe_effect_def probe_fill_def Let_def split: sum.splits option.splits)

lemma run_items_fields [simp]:
  "an_props (run_items r s) = an_props s" "an_quick_ws (run_items r s) = an_quick_ws s"
  "an_selected_ws (run_items r s) = an_selected_ws s" "an_quick_model (run_items r s) = an_quick_model s"
  "an_manual (run_items r s) = an_manual s" "an_dep_quick (run_items r s) = an_dep_quick s"
  "an_dep_selected (run_items r s) = an_dep_selected s" "an_dep_default (run_items r s) = an_dep_default s"
  "an_dep_probe (run_items r s) = an_dep_probe s"
  by (simp_all add: run_items_def items_effect_def Let_def)

lemma later_effects [simp]:
  "an_props (run_model_options r s) = an_props s" "an_edits (run_model_options r s) = an_edits s"
  "an_disabled (run_model_options r s) = an_disabled s" "an_base (run_model_options r s) = an_base s"
  "an_disabled_base (run_model_options r s) = an_disabled_base s" "an_selected (run_model_options r s) = an_selected s"
  "an_selected_ws (run_model_options r s) = an_selected_ws s" "an_quick_email (run_model_options r s) = an_quick_email s"
  "an_quick_ws (run_model_options r s) = an_quick_ws s" "an_dep_items (run_model_options r s) = an_dep_items s"
  "an_dep_quick (run_model_options r s) = an_dep_quick s" "an_dep_selected (run_model_options r s) = an_dep_selected s"
  "an_dep_default (run_model_options r s) = an_dep_default s" "an_dep_probe (run_model_options r s) = an_dep_probe s"
  "an_manual (run_model_options r s) = an_manual s"
  "an_props (run_probe r s) = an_props s" "an_edits (run_probe r s) = an_edits s"
  "an_disabled (run_probe r s) = an_disabled s" "an_base (run_probe r s) = an_base s"
  "an_disabled_base (run_probe r s) = an_disabled_base s" "an_selected (run_probe r s) = an_selected s"
  "an_selected_ws (run_probe r s) = an_selected_ws s" "an_quick_email (run_probe r s) = an_quick_email s"
  "an_quick_ws (run_probe r s) = an_quick_ws s" "an_quick_model (run_probe r s) = an_quick_model s"
  "an_dep_items (run_probe r s) = an_dep_items s"
  "an_dep_quick (run_probe r s) = an_dep_quick s" "an_dep_selected (run_probe r s) = an_dep_selected s"
  "an_dep_default (run_probe r s) = an_dep_default s"
  "im_probe (an_manual (run_probe r s)) = im_probe (an_manual s)"
  by (simp_all add: run_model_options_def run_probe_def Let_def)

lemma middle_effects [simp]:
  "an_props (run_default r s) = an_props s" "an_edits (run_default r s) = an_edits s"
  "an_disabled (run_default r s) = an_disabled s" "an_base (run_default r s) = an_base s"
  "an_disabled_base (run_default r s) = an_disabled_base s" "an_selected (run_default r s) = an_selected s"
  "an_selected_ws (run_default r s) = an_selected_ws s" "an_quick_email (run_default r s) = an_quick_email s"
  "an_quick_ws (run_default r s) = an_quick_ws s" "an_dep_items (run_default r s) = an_dep_items s"
  "an_dep_quick (run_default r s) = an_dep_quick s" "an_dep_selected (run_default r s) = an_dep_selected s"
  "an_dep_probe (run_default r s) = an_dep_probe s" "an_manual (run_default r s) = an_manual s"
  "an_props (run_selected r s) = an_props s" "an_edits (run_selected r s) = an_edits s"
  "an_disabled (run_selected r s) = an_disabled s" "an_base (run_selected r s) = an_base s"
  "an_disabled_base (run_selected r s) = an_disabled_base s" "an_selected (run_selected r s) = an_selected s"
  "an_quick_email (run_selected r s) = an_quick_email s" "an_quick_ws (run_selected r s) = an_quick_ws s"
  "an_quick_model (run_selected r s) = an_quick_model s" "an_dep_items (run_selected r s) = an_dep_items s"
  "an_dep_quick (run_selected r s) = an_dep_quick s" "an_dep_default (run_selected r s) = an_dep_default s"
  "an_dep_probe (run_selected r s) = an_dep_probe s" "an_manual (run_selected r s) = an_manual s"
  "an_props (run_quick r s) = an_props s" "an_edits (run_quick r s) = an_edits s"
  "an_disabled (run_quick r s) = an_disabled s" "an_base (run_quick r s) = an_base s"
  "an_disabled_base (run_quick r s) = an_disabled_base s" "an_selected (run_quick r s) = an_selected s"
  "an_selected_ws (run_quick r s) = an_selected_ws s" "an_quick_email (run_quick r s) = an_quick_email s"
  "an_quick_model (run_quick r s) = an_quick_model s" "an_dep_items (run_quick r s) = an_dep_items s"
  "an_dep_selected (run_quick r s) = an_dep_selected s" "an_dep_default (run_quick r s) = an_dep_default s"
  "an_dep_probe (run_quick r s) = an_dep_probe s" "an_manual (run_quick r s) = an_manual s"
  by (simp_all add: run_default_def run_selected_def run_quick_def Let_def)

lemma round_props [simp]: "an_props (accounts_round s) = an_props s"
  by (simp add: accounts_round_def)

lemma commit_props [simp]: "an_props (accounts_commit s) = an_props s"
  by (simp add: accounts_commit_def)

section \<open>Settling\<close>

definition reads_done :: "accounts \<Rightarrow> bool" where
  "reads_done s \<longleftrightarrow> an_dep_items s = Some (aq_version (an_props s)) \<and>
     an_dep_default s = Some (aq_models_version (an_props s)) \<and> an_dep_probe s = Some (im_probe (an_manual s))"

definition choices_done :: "accounts \<Rightarrow> bool" where
  "choices_done s \<longleftrightarrow> an_dep_quick s = Some (aq_version (an_props s), an_quick_email s) \<and>
     an_dep_selected s = Some (aq_version (an_props s), an_selected s)"

definition model_done :: "accounts \<Rightarrow> bool" where
  "model_done s \<longleftrightarrow> an_quick_model s \<in> mi_id ` set (modelOptions s)"

lemma round_reads: "reads_done (accounts_round s)"
proof -
  have "an_dep_items (run_items s s) = Some (aq_version (an_props s))"
    by (simp add: run_items_def)
  moreover have "an_dep_default (run_default s t) = Some (aq_models_version (an_props s))"
    if "an_dep_default t = an_dep_default s" for t
    using that by (simp add: run_default_def Let_def)
  moreover have "an_dep_probe (run_probe s t) = Some (im_probe (an_manual s))" if "an_dep_probe t = an_dep_probe s" for t
    using that by (simp add: run_probe_def Let_def)
  ultimately show ?thesis by (simp add: reads_done_def accounts_round_def)
qed

lemma items_not_due: "an_dep_items r = Some (aq_version (an_props r)) \<Longrightarrow> run_items r s = s"
  by (simp add: run_items_def)

lemma round_choices: "reads_done s \<Longrightarrow> reads_done (accounts_round s) \<and> choices_done (accounts_round s)"
proof -
  assume "reads_done s"
  then have items: "run_items s s = s" by (simp add: reads_done_def items_not_due)
  have "an_dep_quick (run_quick s s) = Some (aq_version (an_props s), an_quick_email s)"
    by (simp add: run_quick_def Let_def)
  moreover have "an_dep_selected (run_selected s t) = Some (aq_version (an_props s), an_selected s)"
    if "an_dep_selected t = an_dep_selected s" for t
    using that by (simp add: run_selected_def Let_def)
  ultimately have "choices_done (accounts_round s)"
    unfolding choices_done_def accounts_round_def items by simp
  then show ?thesis using round_reads by simp
qed

lemma auto_offered: "auto \<in> mi_id ` set (modelOptions s)"
  by (simp add: modelOptions_def auto_model_def)

lemma settled_reads:
  assumes "reads_done s"
  shows "run_items s t = t" and "run_default s t = t" and "run_probe s t = t"
  using assms by (simp_all add: reads_done_def run_items_def run_default_def run_probe_def Let_def)

lemma settled_choices:
  assumes "choices_done s"
  shows "run_quick s t = t" and "run_selected s t = t"
  using assms by (simp_all add: choices_done_def run_quick_def run_selected_def Let_def)

lemma round_when_chosen:
  "reads_done s \<Longrightarrow> choices_done s \<Longrightarrow> accounts_round s = run_model_options s s"
  by (simp add: accounts_round_def settled_reads settled_choices)

lemma round_model:
  assumes "reads_done s" and "choices_done s"
  shows "reads_done (accounts_round s) \<and> choices_done (accounts_round s) \<and> model_done (accounts_round s)"
proof -
  have eq: "accounts_round s = run_model_options s s" by (rule round_when_chosen [OF assms])
  have same: "modelOptions (run_model_options s s) = modelOptions s" by (simp add: modelOptions_def options_of_def)
  have "model_done (accounts_round s)"
    using auto_offered [of s] unfolding eq model_done_def same by (simp add: run_model_options_def)
  moreover have "choices_done (accounts_round s)" using assms(2) unfolding eq choices_done_def by simp
  ultimately show ?thesis using round_reads by simp
qed

lemma commit_done:
  "reads_done (accounts_commit s) \<and> choices_done (accounts_commit s) \<and> model_done (accounts_commit s)"
  unfolding accounts_commit_def using round_reads round_choices round_model by blast

text \<open>
  The effects of the accounts panel settle: after three passes another pass changes nothing,
  whatever state the panel was in, so the effects cannot drive each other in a circle.\<close>

theorem accounts_settled: "accounts_round (accounts_commit s) = accounts_commit s"
proof -
  have "accounts_round (accounts_commit s) = run_model_options (accounts_commit s) (accounts_commit s)"
    using commit_done round_when_chosen by blast
  then show ?thesis using commit_done [of s] by (simp add: run_model_options_def model_done_def)
qed

section \<open>Drafts\<close>

lemma round_edits:
  "an_edits (accounts_round s) = an_edits (run_items s s)" "an_disabled (accounts_round s) = an_disabled (run_items s s)"
  "an_base (accounts_round s) = an_base (run_items s s)"
  "an_disabled_base (accounts_round s) = an_disabled_base (run_items s s)"
  by (simp_all add: accounts_round_def)

lemma commit_edits:
  "an_edits (accounts_commit s) = an_edits (run_items s s)" "an_disabled (accounts_commit s) = an_disabled (run_items s s)"
  "an_base (accounts_commit s) = an_base (run_items s s)"
  "an_disabled_base (accounts_commit s) = an_disabled_base (run_items s s)"
proof -
  have "run_items (accounts_round s) t = t" for t using round_reads settled_reads by blast
  moreover have "run_items (accounts_round (accounts_round s)) t = t" for t using round_reads settled_reads by blast
  ultimately show "an_edits (accounts_commit s) = an_edits (run_items s s)"
    "an_disabled (accounts_commit s) = an_disabled (run_items s s)"
    "an_base (accounts_commit s) = an_base (run_items s s)"
    "an_disabled_base (accounts_commit s) = an_disabled_base (run_items s s)"
    by (simp_all add: accounts_commit_def round_edits)
qed

definition reload :: "accounts_props \<Rightarrow> accounts \<Rightarrow> accounts" where
  "reload p s = accounts_commit (s\<lparr>an_props := p\<rparr>)"

definition new_to :: "accounts_props \<Rightarrow> accounts \<Rightarrow> bool" where
  "new_to p s \<longleftrightarrow> an_dep_items s \<noteq> Some (aq_version p)"

lemma reload_edits:
  assumes "new_to p s"
  shows "an_edits (reload p s) = merge_edits (buildAccountEditMap (aq_items p)) (an_base s) (an_edits s)"
    and "an_disabled (reload p s) = merge_edits (buildDisabledEditMap (aq_items p)) (an_disabled_base s) (an_disabled s)"
    and "an_base (reload p s) = buildAccountEditMap (aq_items p)"
    and "an_disabled_base (reload p s) = buildDisabledEditMap (aq_items p)"
  using assms by (simp_all add: reload_def commit_edits run_items_def items_effect_def Let_def new_to_def)

lemma merge_keeps_draft:
  "map_of current key = Some d \<Longrightarrow> map_of previous key \<noteq> Some d \<Longrightarrow> map_of nxt key \<noteq> None \<Longrightarrow>
   map_of (merge_edits nxt previous current) key = Some d"
  by (auto simp: map_of_merge_edits)

lemma merge_takes_new:
  "(\<And>d. map_of current key = Some d \<Longrightarrow> map_of previous key = Some d) \<Longrightarrow>
   map_of (merge_edits nxt previous current) key = map_of nxt key"
  by (cases "map_of nxt key") (auto simp: map_of_merge_edits split: option.splits)

lemma merge_not_dirty:
  assumes "distinct (List.map fst nxt)" and "distinct (List.map fst current)" and "\<not> entries_dirty current previous"
  shows "merge_edits nxt previous current = nxt" and "\<not> entries_dirty (merge_edits nxt previous current) nxt"
proof -
  show eq: "merge_edits nxt previous current = nxt"
    using assms(2,3) by (intro merge_edits_clean) (auto simp: entries_dirty_iff)
  show "\<not> entries_dirty (merge_edits nxt previous current) nxt"
    unfolding eq using assms(1) by (simp add: entries_dirty_iff)
qed

lemma reload_clean:
  assumes "new_to p s" and "distinct (List.map fst (an_edits s))" and "distinct (List.map fst (an_disabled s))"
    and "\<not> accounts_dirty s"
  shows "\<not> accounts_dirty (reload p s)"
  using assms(2-4) merge_not_dirty(2) [OF distinct_buildAccountEditMap [of "aq_items p"]]
    merge_not_dirty(2) [OF distinct_buildDisabledEditMap [of "aq_items p"]]
  by (simp add: accounts_dirty_def reload_edits [OF assms(1)])

section \<open>Saving\<close>

lemma save_done_fields [simp]:
  "an_edits (save_done email w d b s) = an_edits (save_settled email w d b s)"
  "an_disabled (save_done email w d b s) = an_disabled (save_settled email w d b s)"
  "an_base (save_done email w d b s) = an_base s" "an_disabled_base (save_done email w d b s) = an_disabled_base s"
  "an_props (save_done email w d b s) = an_props s" "an_dep_items (save_done email w d b s) = an_dep_items s"
  "an_saving (save_done email w d b s) = False"
  by (simp_all add: save_done_def a_toast_def save_settled_def Let_def)

lemma map_of_save_settled:
  "map_of (an_edits (save_settled email w d b s)) key =
     (if key = workspaceEditKey email w
      then Some (case map_of (an_base s) key of Some e \<Rightarrow> e | None \<Rightarrow> d) else map_of (an_edits s) key)"
  "map_of (an_disabled (save_settled email w d b s)) other =
     (if other = email
      then Some (case map_of (an_disabled_base s) other of Some e \<Rightarrow> e | None \<Rightarrow> b) else map_of (an_disabled s) other)"
  by (auto simp: save_settled_def Let_def update_conv')

text \<open>
  C37. A save causes a reload of the account list, and its continuation can run after the reload has been
  rendered or before. Both orders end in the same drafts and the same baselines: the saved workspace
  and the saved account show what the server reports, and every other draft is untouched by the save.\<close>

theorem save_order_irrelevant:
  assumes "new_to p s"
    and "map_of (an_base s) (workspaceEditKey email w) \<noteq> None"
    and "map_of (buildAccountEditMap (aq_items p)) (workspaceEditKey email w) = Some server"
    and "map_of (an_disabled_base s) email \<noteq> None"
    and "map_of (buildDisabledEditMap (aq_items p)) email = Some off"
  shows "map_of (an_edits (save_done email w d b (reload p s))) = map_of (an_edits (reload p (save_done email w d b s))) \<and>
     map_of (an_disabled (save_done email w d b (reload p s))) = map_of (an_disabled (reload p (save_done email w d b s))) \<and>
     an_base (save_done email w d b (reload p s)) = an_base (reload p (save_done email w d b s)) \<and>
     an_disabled_base (save_done email w d b (reload p s)) = an_disabled_base (reload p (save_done email w d b s)) \<and>
     map_of (an_edits (save_done email w d b (reload p s))) (workspaceEditKey email w) = Some server \<and>
     map_of (an_disabled (save_done email w d b (reload p s))) email = Some off \<and>
     (\<forall>key. key \<noteq> workspaceEditKey email w \<longrightarrow>
        map_of (an_edits (save_done email w d b (reload p s))) key = map_of (an_edits (reload p s)) key)"
proof -
  have new: "new_to p (save_done email w d b s)" using assms(1) by (simp add: new_to_def)
  have first: "map_of (an_edits (save_done email w d b (reload p s))) key =
      map_of (an_edits (reload p (save_done email w d b s))) key" for key
    using assms(2,3) by (cases "key = workspaceEditKey email w")
      (auto simp: reload_edits [OF assms(1)] reload_edits [OF new] map_of_save_settled map_of_merge_edits)
  have second: "map_of (an_disabled (save_done email w d b (reload p s))) key =
      map_of (an_disabled (reload p (save_done email w d b s))) key" for key
    using assms(4,5) by (cases "key = email")
      (auto simp: reload_edits [OF assms(1)] reload_edits [OF new] map_of_save_settled map_of_merge_edits)
  show ?thesis
    using first second assms(3,5)
    by (simp add: fun_eq_iff reload_edits [OF assms(1)] reload_edits [OF new] map_of_save_settled)
qed

section \<open>Reachable states\<close>

fun is_quick :: "accounts_task \<Rightarrow> bool" where
  "is_quick (A_quick _ _ _) = True" | "is_quick _ = False"

fun is_save :: "accounts_task \<Rightarrow> bool" where
  "is_save (A_save _ _ _ _) = True" | "is_save _ = False"

definition pending :: "(accounts_task \<Rightarrow> bool) \<Rightarrow> accounts \<Rightarrow> nat" where
  "pending P s = length (filter P (an_tasks s))"

definition accounts_ok :: "accounts \<Rightarrow> bool" where
  "accounts_ok s \<longleftrightarrow> distinct (List.map fst (an_edits s)) \<and> distinct (List.map fst (an_disabled s)) \<and>
     distinct (List.map fst (an_base s)) \<and> distinct (List.map fst (an_disabled_base s)) \<and>
     pending is_quick s = of_bool (an_quick_flight s) \<and> an_quick_testing s = an_quick_flight s \<and>
     pending is_save s = of_bool (an_saving s)"

lemma accounts_ok_frame:
  assumes "accounts_ok s" and "an_edits s' = an_edits s" and "an_disabled s' = an_disabled s" and "an_base s' = an_base s"
    and "an_disabled_base s' = an_disabled_base s" and "filter is_quick (an_tasks s') = filter is_quick (an_tasks s)"
    and "filter is_save (an_tasks s') = filter is_save (an_tasks s)" and "an_quick_flight s' = an_quick_flight s"
    and "an_quick_testing s' = an_quick_testing s" and "an_saving s' = an_saving s"
  shows "accounts_ok s'"
  using assms by (simp add: accounts_ok_def pending_def)

lemma flags_kept [simp]:
  "an_tasks (probe_effect s) = an_tasks s" "an_quick_flight (probe_effect s) = an_quick_flight s"
  "an_quick_testing (probe_effect s) = an_quick_testing s" "an_saving (probe_effect s) = an_saving s"
  by (auto simp: probe_effect_def Let_def split: sum.splits option.splits)

lemma round_flags [simp]:
  "an_tasks (accounts_round s) = an_tasks s" "an_quick_flight (accounts_round s) = an_quick_flight s"
  "an_quick_testing (accounts_round s) = an_quick_testing s" "an_saving (accounts_round s) = an_saving s"
  by (simp_all add: accounts_round_def run_model_options_def run_probe_def run_default_def run_selected_def run_quick_def
      run_items_def items_effect_def Let_def)

lemma accounts_commit_flags [simp]:
  "an_tasks (accounts_commit s) = an_tasks s" "an_quick_flight (accounts_commit s) = an_quick_flight s"
  "an_quick_testing (accounts_commit s) = an_quick_testing s" "an_saving (accounts_commit s) = an_saving s"
  by (simp_all add: accounts_commit_def)

lemma accounts_commit_ok: "accounts_ok s \<Longrightarrow> accounts_ok (accounts_commit s)"
  by (auto simp: accounts_ok_def pending_def commit_edits run_items_def items_effect_def Let_def keys_merge_edits
      distinct_buildAccountEditMap distinct_buildDisabledEditMap)

lemma pending_remove1:
  "t \<in> set (an_tasks s) \<Longrightarrow> pending P (s\<lparr>an_tasks := remove1 t (an_tasks s)\<rparr>) = pending P s - of_bool (P t)"
  by (simp add: pending_def filter_remove1 length_remove1)

lemma a_spawn_fields [simp]:
  "an_edits (a_spawn t s) = an_edits s" "an_disabled (a_spawn t s) = an_disabled s" "an_base (a_spawn t s) = an_base s"
  "an_disabled_base (a_spawn t s) = an_disabled_base s" "an_tasks (a_spawn t s) = an_tasks s @ [t]"
  "an_quick_flight (a_spawn t s) = an_quick_flight s" "an_quick_testing (a_spawn t s) = an_quick_testing s"
  "an_saving (a_spawn t s) = an_saving s"
  by (simp_all add: a_spawn_def)

lemma a_toast_fields [simp]:
  "an_edits (a_toast t s) = an_edits s" "an_disabled (a_toast t s) = an_disabled s" "an_base (a_toast t s) = an_base s"
  "an_disabled_base (a_toast t s) = an_disabled_base s" "an_tasks (a_toast t s) = an_tasks s"
  "an_quick_flight (a_toast t s) = an_quick_flight s" "an_quick_testing (a_toast t s) = an_quick_testing s"
  "an_saving (a_toast t s) = an_saving s"
  by (simp_all add: a_toast_def)

lemma spawn_ok:
  "accounts_ok s \<Longrightarrow> \<not> is_quick t \<Longrightarrow> \<not> is_save t \<Longrightarrow> accounts_ok (a_spawn t s)"
  by (rule accounts_ok_frame) auto

lemma toast_ok: "accounts_ok s \<Longrightarrow> accounts_ok (a_toast t s)"
  by (rule accounts_ok_frame) auto

lemma populate_ok: "accounts_ok s \<Longrightarrow> accounts_ok (populateEmail options email s)"
  by (erule accounts_ok_frame) (auto simp: populateEmail_def Let_def)

lemma quick_ok: "accounts_ok s \<Longrightarrow> accounts_ok (runQuickTest email w s)"
  by (auto simp: accounts_ok_def pending_def runQuickTest_def Let_def)

lemma save_ok: "accounts_ok s \<Longrightarrow> accounts_ok (saveAccount email w d b s)"
  by (auto simp: accounts_ok_def pending_def saveAccount_def)

lemma edit_ok: "accounts_ok s \<Longrightarrow> accounts_ok (updateWorkspaceEdit email w patch s)"
  by (auto simp: accounts_ok_def pending_def updateWorkspaceEdit_def Let_def distinct_update)

lemma disabled_ok: "accounts_ok s \<Longrightarrow> accounts_ok (set_disabled email b s)"
  by (auto simp: accounts_ok_def pending_def set_disabled_def distinct_update)

lemma discard_ok: "accounts_ok s \<Longrightarrow> accounts_ok (discard_edits s)"
  by (auto simp: accounts_ok_def pending_def discard_edits_def)

lemma import_failed_ok: "accounts_ok s \<Longrightarrow> accounts_ok (import_failed e s)"
  by (erule accounts_ok_frame) (auto simp: import_failed_def Let_def)

lemma import_ok: "accounts_ok s \<Longrightarrow> accounts_ok (performManualImport s)"
proof -
  assume "accounts_ok s"
  then have "accounts_ok (s\<lparr>an_manual_busy := True, an_hint := txt_importing\<rparr>)"
    by (rule accounts_ok_frame) auto
  then show ?thesis by (auto simp: performManualImport_def Let_def import_failed_ok spawn_ok split: sum.splits)
qed

lemma start_ok: "accounts_ok s \<Longrightarrow> accounts_ok (start_login s)"
  by (erule accounts_ok_frame) (auto simp: start_login_def Let_def)

lemma verify_ok: "accounts_ok s \<Longrightarrow> accounts_ok (verify_code s)"
  by (erule accounts_ok_frame) (auto simp: verify_code_def Let_def)

lemma refresh_ok: "accounts_ok s \<Longrightarrow> accounts_ok (refresh_models s)" "accounts_ok s \<Longrightarrow> accounts_ok (refresh_workspaces s)"
  by (erule accounts_ok_frame; auto simp: refresh_models_def refresh_workspaces_def split: option.splits)+

lemma quick_settled_ok:
  assumes "accounts_ok s" and "pending is_quick s = 1"
  shows "pending is_quick s' = 0 \<Longrightarrow> pending is_save s' = pending is_save s \<Longrightarrow> an_edits s' = an_edits s \<Longrightarrow>
    an_disabled s' = an_disabled s \<Longrightarrow> an_base s' = an_base s \<Longrightarrow> an_disabled_base s' = an_disabled_base s \<Longrightarrow>
    an_saving s' = an_saving s \<Longrightarrow> \<not> an_quick_flight s' \<Longrightarrow> \<not> an_quick_testing s' \<Longrightarrow> accounts_ok s'"
  using assms by (simp add: accounts_ok_def)

lemma reply_other_ok:
  assumes "accounts_ok s" and "t \<in> set (an_tasks s)" and "\<not> is_quick t" and "\<not> is_save t"
  shows "accounts_ok (accounts_resume t r (s\<lparr>an_tasks := remove1 t (an_tasks s)\<rparr>))"
proof -
  define s' where "s' = s\<lparr>an_tasks := remove1 t (an_tasks s)\<rparr>"
  have ok: "accounts_ok s'" unfolding s'_def
    by (rule accounts_ok_frame [OF assms(1)]) (use assms(3,4) in \<open>auto simp: filter_remove1 remove1_idem\<close>)
  have done_ok: "accounts_ok (import_done options email v s')" "accounts_ok (verify_done options email v s')"
    "accounts_ok (start_done email v s')" "accounts_ok (start_failed e s')" "accounts_ok (verify_failed e s')"
    "accounts_ok (activate_done options email w s')" "accounts_ok (refresh_models_settled n s')"
    "accounts_ok (refresh_workspaces_settled n s')" for options email v e w n
    by (rule accounts_ok_frame [OF ok]; auto simp: import_done_def import_failed_def verify_done_def start_done_def
        start_failed_def verify_failed_def activate_done_def refresh_models_settled_def refresh_workspaces_settled_def
        populateEmail_def Let_def)+
  show ?thesis unfolding s'_def [symmetric]
    using assms(3,4) by (cases t; cases r) (simp_all add: done_ok toast_ok import_failed_ok ok)
qed

lemma pending_mem: "t \<in> set (an_tasks s) \<Longrightarrow> P t \<Longrightarrow> 0 < pending P s"
  unfolding pending_def by (auto simp: filter_empty_conv)

lemma reply_quick_ok:
  assumes "accounts_ok s" and "A_quick req target note \<in> set (an_tasks s)"
  shows "accounts_ok (accounts_resume (A_quick req target note) r (s\<lparr>an_tasks := remove1 (A_quick req target note) (an_tasks s)\<rparr>))"
proof -
  let ?s = "s\<lparr>an_tasks := remove1 (A_quick req target note) (an_tasks s)\<rparr>"
  have "0 < pending is_quick s" using pending_mem [OF assms(2), of is_quick] by simp
  then have "pending is_quick s = 1" using assms(1) by (simp add: accounts_ok_def split: if_splits)
  moreover have "pending is_quick ?s = pending is_quick s - 1" "pending is_save ?s = pending is_save s"
    using pending_remove1 [OF assms(2)] by simp_all
  ultimately have one: "pending is_quick s = 1" and zero: "pending is_quick ?s = 0" "pending is_save ?s = pending is_save s"
    by simp_all
  have same: "pending P (quick_finish t) = pending P t" "pending P (a_toast n t) = pending P t" for P t n
    by (simp_all add: pending_def quick_finish_def)
  have upd: "pending P (t\<lparr>an_quick_output := x, an_quick_message := y\<rparr>) = pending P t"
    "pending P (t\<lparr>an_quick_message := y, an_quick_output := x\<rparr>) = pending P t" for P t x y
    by (simp_all add: pending_def)
  show ?thesis
    by (rule quick_settled_ok [OF assms(1) one]; cases r)
      (simp_all add: quick_done_def quick_failed_def Let_def same upd zero,
       simp_all add: quick_finish_def)
qed

lemma reply_save_ok:
  assumes "accounts_ok s" and "A_save email w d b \<in> set (an_tasks s)"
  shows "accounts_ok (accounts_resume (A_save email w d b) r (s\<lparr>an_tasks := remove1 (A_save email w d b) (an_tasks s)\<rparr>))"
proof -
  let ?s = "s\<lparr>an_tasks := remove1 (A_save email w d b) (an_tasks s)\<rparr>"
  have "0 < pending is_save s" using pending_mem [OF assms(2), of is_save] by simp
  then have "pending is_save s = 1" using assms(1) by (simp add: accounts_ok_def split: if_splits)
  then have zero: "pending is_save ?s = 0" "pending is_quick ?s = pending is_quick s"
    using pending_remove1 [OF assms(2)] by simp_all
  have tasks: "pending P (accounts_resume (A_save email w d b) r ?s) = pending P ?s" for P
    by (cases r) (simp_all add: pending_def save_done_def save_settled_def save_account_failed_def Let_def a_toast_def)
  show ?thesis using assms(1) unfolding accounts_ok_def tasks zero
    by (cases r) (auto simp: save_done_def save_settled_def save_account_failed_def Let_def a_toast_def distinct_update)
qed

lemma reply_ok:
  assumes "accounts_ok s" and "t \<in> set (an_tasks s)"
  shows "accounts_ok (accounts_resume t r (s\<lparr>an_tasks := remove1 t (an_tasks s)\<rparr>))"
  using assms reply_quick_ok reply_save_ok reply_other_ok by (cases t) simp_all

lemma accounts_apply_ok: "accounts_ok s \<Longrightarrow> accounts_enabled e s \<Longrightarrow> accounts_ok (accounts_apply e s)"
proof (cases e)
  case (E_reply t r)
  then show "accounts_ok s \<Longrightarrow> accounts_enabled e s \<Longrightarrow> accounts_ok (accounts_apply e s)"
    using reply_ok by simp
next
  case E_fill
  then show "accounts_ok s \<Longrightarrow> accounts_enabled e s \<Longrightarrow> accounts_ok (accounts_apply e s)"
    by (auto simp: populateEmail_def Let_def elim!: accounts_ok_frame split: option.splits)
qed (auto simp: quick_ok save_ok edit_ok disabled_ok discard_ok import_ok start_ok verify_ok refresh_ok spawn_ok
    activateAccount_def setDefaultWorkspace_def deleteAccount_confirmed_def select_account_def
    elim!: accounts_ok_frame split: option.splits)

lemma accounts_reachable_ok: "accounts_reachable s \<Longrightarrow> accounts_ok s"
proof (induction rule: accounts_reachable.induct)
  case (accounts_mounted p)
  show ?case by (rule accounts_commit_ok) (simp add: accounts_ok_def initial_accounts_def pending_def)
next
  case (accounts_event s e)
  then show ?case using accounts_apply_ok accounts_commit_ok by blast
qed

text \<open>
  C36. When the account list is reloaded, an unsaved draft of a workspace that is still listed stays as
  it is; every other field takes the value the server now reports, for the limits and for the
  disabled switches alike; entries of workspaces that are gone disappear; and a panel without drafts
  has none afterwards.\<close>

theorem reload_keeps_drafts:
  assumes "accounts_reachable s" and "new_to p s"
  shows "map_of (an_edits (reload p s)) key =
      (case map_of (buildAccountEditMap (aq_items p)) key of
         None \<Rightarrow> None
       | Some server \<Rightarrow> (case map_of (an_edits s) key of
           Some draft \<Rightarrow> Some (if map_of (an_base s) key \<noteq> Some draft then draft else server)
         | None \<Rightarrow> Some server))
    \<and> map_of (an_disabled (reload p s)) email =
      (case map_of (buildDisabledEditMap (aq_items p)) email of
         None \<Rightarrow> None
       | Some server \<Rightarrow> (case map_of (an_disabled s) email of
           Some draft \<Rightarrow> Some (if map_of (an_disabled_base s) email \<noteq> Some draft then draft else server)
         | None \<Rightarrow> Some server))
    \<and> (\<not> accounts_dirty s \<longrightarrow> \<not> accounts_dirty (reload p s))"
  using reload_clean [OF assms(2)] accounts_reachable_ok [OF assms(1)]
  by (auto simp: accounts_ok_def reload_edits [OF assms(2)] map_of_merge_edits split: option.splits)

text \<open>The panel as its host sees it: every changed entry that is still listed is kept.\<close>

definition keeps_entries :: "(jsstr \<times> 'v) list \<Rightarrow> (jsstr \<times> 'v) list \<Rightarrow> (jsstr \<times> 'v) list \<Rightarrow> (jsstr \<times> 'v) list \<Rightarrow> bool" where
  "keeps_entries base current base' current' \<longleftrightarrow> (\<forall>key v. map_of current key = Some v \<and> map_of base key \<noteq> Some v \<and>
     map_of base' key \<noteq> None \<longrightarrow> map_of current' key = Some v)"

definition entries_kept :: "accounts \<Rightarrow> accounts \<Rightarrow> bool" where
  "entries_kept s s' \<longleftrightarrow> keeps_entries (an_base s) (an_edits s) (an_base s') (an_edits s') \<and>
     keeps_entries (an_disabled_base s) (an_disabled s) (an_disabled_base s') (an_disabled s')"

lemma keeps_entries_same [simp]: "keeps_entries b e b' e"
  by (simp add: keeps_entries_def)

lemma reload_entries_kept: "entries_kept s (accounts_commit (accounts_apply (E_reload p) s))"
proof (cases "new_to p s")
  case True
  have "accounts_commit (accounts_apply (E_reload p) s) = reload p s" by (simp add: reload_def)
  then show ?thesis using reload_edits [OF True]
    by (auto simp: entries_kept_def keeps_entries_def map_of_merge_edits split: option.split)
next
  case False
  then show ?thesis by (simp add: entries_kept_def commit_edits run_items_def new_to_def)
qed

interpretation accounts_host: hosted_panel "\<lambda>p. accounts_commit (initial_accounts p)"
  "\<lambda>p s. accounts_commit (accounts_apply (E_reload p) s)" accounts_reachable an_props an_tasks entries_kept
proof
  show "accounts_reachable (accounts_commit (initial_accounts p))" for p by (rule accounts_mounted)
  show "accounts_reachable s \<Longrightarrow> accounts_reachable (accounts_commit (accounts_apply (E_reload p) s))" for s p
    by (erule accounts_event) simp
  show "entries_kept s (accounts_commit (accounts_apply (E_reload p) s))" for s p by (rule reload_entries_kept)
qed (simp_all add: initial_accounts_def)

text \<open>
  C38. However the user clicks and in whatever order replies arrive, the panel has at most one save and at
  most one workspace test outstanding, and the flags that disable the buttons say exactly whether
  there is one.\<close>

theorem accounts_one_at_a_time:
  assumes "accounts_reachable s"
  shows "length (filter is_save (an_tasks s)) = of_bool (an_saving s) \<and>
     length (filter is_quick (an_tasks s)) = of_bool (an_quick_flight s) \<and> an_quick_testing s = an_quick_flight s"
  using accounts_reachable_ok [OF assms] by (simp add: accounts_ok_def pending_def)

section \<open>Testing a workspace\<close>

interpretation quick_runs: single_flight an_quick_flight "\<lambda>(email, w). runQuickTest email w" "\<lambda>u::unit. quick_finish"
  by unfold_locales (auto simp: runQuickTest_def quick_finish_def)

lemma manualModelOptions_mem:
  assumes "m \<in> set (manualModelOptions account workspace models)"
  shows "\<exists>a w c. account = Some a \<and> w \<in> set (opt_list (acct_workspaces a)) \<and> Some (ws_id w) = workspace \<and>
     ws_model_capabilities w = Some c \<and> mc_mode c = Manual \<and> m \<in> set (opt_list (mc_models c)) \<and> mi_enabled m \<noteq> Some False"
proof -
  let ?found = "\<lambda>a. List.find (\<lambda>w. Some (ws_id w) = workspace) (opt_list (acct_workspaces a))"
  obtain c where c: "Option.bind (Option.bind account ?found) ws_model_capabilities = Some c"
    and m: "mc_mode c = Manual" "m \<in> set (opt_list (mc_models c))" "mi_enabled m \<noteq> Some False"
    using assms by (cases "Option.bind (Option.bind account ?found) ws_model_capabilities")
      (auto simp: manualModelOptions_def offered_def split: if_splits)
  obtain w where w: "Option.bind account ?found = Some w" "ws_model_capabilities w = Some c"
    using c by (auto simp: bind_eq_Some_conv)
  obtain a where a: "account = Some a" "?found a = Some w" using w(1) by (auto simp: bind_eq_Some_conv)
  from find_SomeD [OF a(2)] a(1) w(2) m show ?thesis by blast
qed

text \<open>
  A test sends one request for the workspace it names, with Auto or with a model that this
  workspace lists for manual choice and has not disabled; the chosen model is replaced by Auto
  otherwise, and then, and only then, a note says so. Further clicks while it runs do nothing.\<close>

theorem quick_test_offered:
  assumes "\<not> an_quick_flight s"
  shows "\<exists>req target note. an_tasks (runQuickTest email chosen s) = an_tasks s @ [A_quick req target note] \<and>
     qr_email req = email \<and> qr_workspace req = (case chosen of None \<Rightarrow> an_quick_ws s | Some w \<Rightarrow> w) \<and>
     qr_prompt req \<noteq> [] \<and> (note \<noteq> [] \<longleftrightarrow> qr_model req \<noteq> an_quick_model s) \<and>
     (qr_model req = auto \<or> (\<exists>a w c m. account_by email (options_of s) = Some a \<and> w \<in> set (opt_list (acct_workspaces a)) \<and>
        ws_id w = qr_workspace req \<and> ws_model_capabilities w = Some c \<and> mc_mode c = Manual \<and>
        m \<in> set (opt_list (mc_models c)) \<and> mi_id m = qr_model req \<and> mi_enabled m \<noteq> Some False)) \<and>
     fold (\<lambda>(e, w). runQuickTest e w) again (runQuickTest email chosen s) = runQuickTest email chosen s"
proof -
  define workspace where "workspace = (case chosen of None \<Rightarrow> an_quick_ws s | Some w \<Rightarrow> w)"
  define model where "model = quick_model s email workspace"
  define req where "req = \<lparr>qr_email = email, qr_workspace = workspace, qr_model = model,
     qr_prompt = or_str (trim (an_quick_prompt s)) default_prompt\<rparr>"
  have tasks: "an_tasks (runQuickTest email chosen s) =
      an_tasks s @ [A_quick req (quick_target s email workspace) (quick_note s model)]"
    and flight: "an_quick_flight (runQuickTest email chosen s)"
    using assms by (simp_all add: runQuickTest_def Let_def workspace_def model_def req_def a_spawn_def a_toast_def)
  have prompt: "qr_prompt req \<noteq> []" by (simp add: req_def default_prompt_def js_def)
  have noted: "quick_note s model \<noteq> [] \<longleftrightarrow> qr_model req \<noteq> an_quick_model s"
    by (simp add: quick_note_def req_def txt_no_manual_model_def)
  have offer: "model = auto \<or> (\<exists>a w c m. account_by email (options_of s) = Some a \<and>
      w \<in> set (opt_list (acct_workspaces a)) \<and> ws_id w = workspace \<and> ws_model_capabilities w = Some c \<and> mc_mode c = Manual \<and>
      m \<in> set (opt_list (mc_models c)) \<and> mi_id m = model \<and> mi_enabled m \<noteq> Some False)"
    unfolding model_def quick_model_def by (auto split: if_splits dest!: manualModelOptions_mem)
  have "fold (\<lambda>(e, w). runQuickTest e w) again (runQuickTest email chosen s) = runQuickTest email chosen s"
    using quick_runs.starts_all_busy [OF flight, of again] by simp
  with tasks prompt noted offer show ?thesis
    unfolding workspace_def [symmetric] by (intro exI conjI) (auto simp: req_def)
qed

section \<open>Two defects\<close>

lemma round_keeps_workspace:
  assumes "an_dep_items s = Some (aq_version (an_props s))" and "an_selected_ws s \<noteq> []"
    and "an_selected_ws s \<in> ws_id ` set (workspaces_by (an_selected s) (options_of s))"
  shows "an_selected (accounts_round s) = an_selected s" and "an_selected_ws (accounts_round s) = an_selected_ws s"
    and "an_dep_items (accounts_round s) = an_dep_items s" and "options_of (accounts_round s) = options_of s"
  using assms
  by (simp_all add: accounts_round_def items_not_due run_selected_def selected_ws_for_def options_of_def Let_def)

lemma commit_keeps_workspace:
  assumes "an_dep_items s = Some (aq_version (an_props s))" and "an_selected_ws s \<noteq> []"
    and "an_selected_ws s \<in> ws_id ` set (workspaces_by (an_selected s) (options_of s))"
  shows "an_selected (accounts_commit s) = an_selected s" and "an_selected_ws (accounts_commit s) = an_selected_ws s"
  using assms by (simp_all add: accounts_commit_def round_keeps_workspace)

text \<open>
  A workspace is activated and the account list that shows it active has been loaded; the continuation
  then calls the \<open>populateEmail\<close> of an earlier render, which selects the workspace that was active before.\<close>

theorem activation_shows_previous_workspace:
  assumes "found_id (\<lambda>w. opt_true (ws_active w)) (workspaces_by email options) = previous" and "previous \<noteq> []"
    and "previous \<in> ws_id ` set (workspaces_by email (options_of s))"
    and "an_dep_items s = Some (aq_version (an_props s))"
  shows "an_selected (accounts_commit (activate_done options email chosen s)) = email \<and>
     an_selected_ws (accounts_commit (activate_done options email chosen s)) = previous"
proof -
  let ?s = "activate_done options email chosen s"
  have fields: "an_selected ?s = email" "an_props ?s = an_props s" "an_dep_items ?s = an_dep_items s"
    "an_selected_ws ?s = previous"
    using assms(1,2) by (cases previous; simp add: activate_done_def populateEmail_def a_toast_def Let_def)+
  moreover from fields(2) have "options_of ?s = options_of s" by (simp add: options_of_def)
  ultimately show ?thesis using assms(2-4) commit_keeps_workspace [of ?s] by simp
qed

lemma crash_stays: "reads_done s \<Longrightarrow> an_crashed (accounts_round s) = an_crashed s"
  by (simp add: accounts_round_def settled_reads run_quick_def run_selected_def run_model_options_def Let_def)

text \<open>
  Probe text whose e-mail is a number ends the rendering of the panel: the \<open>try\<close> around \<open>setManual\<close> does
  not cover the updater.\<close>

theorem probe_number_crashes:
  assumes "safeParseProbeJSON (im_probe (an_manual s)) = Inr (Some payload)"
    and "jget (js ''email'') payload = Some (JNum n)" and "trim (im_probe (an_manual s)) \<noteq> []"
    and "an_dep_probe s \<noteq> Some (im_probe (an_manual s))"
  shows "an_crashed (accounts_commit s)"
proof -
  have "probe_field ''email'' payload = Inl Engine_error" using assms(2) by (simp add: probe_field_def)
  then have crash: "an_crashed (probe_effect t)" if "an_manual t = an_manual s" for t
    using that assms(1,3) by (simp add: probe_effect_def probe_fill_def Let_def)
  have "an_crashed (run_probe s t)" if "an_manual t = an_manual s" for t
    using crash [OF that] assms(4) by (simp add: run_probe_def Let_def)
  then have "an_crashed (accounts_round s)" by (simp add: accounts_round_def run_model_options_def)
  then show ?thesis by (simp add: accounts_commit_def crash_stays round_reads)
qed

section \<open>Concrete runs\<close>

definition sample_workspace :: "string \<Rightarrow> jsnum \<Rightarrow> bool \<Rightarrow> workspace_item" where
  "sample_workspace i priority active =
     no_workspace_item\<lparr>ws_id := js i, ws_priority := Some priority, ws_active := Some active\<rparr>"

text \<open>One account with the workspaces \<open>v\<close> and \<open>w\<close>, of which one is active.\<close>

definition sample_list :: "nat \<Rightarrow> jsnum \<Rightarrow> bool \<Rightarrow> accounts_props" where
  "sample_list version priority first = \<lparr>aq_items = [no_account_item\<lparr>acct_email := Some (js ''a''),
       acct_workspaces := Some [sample_workspace ''v'' priority first, sample_workspace ''w'' 0 (\<not> first)]\<rparr>],
     aq_active = js ''a'', aq_active_ws = (if first then js ''v'' else js ''w''), aq_version = version,
     aq_models = [], aq_default = None, aq_models_version = 0\<rparr>"

definition sample_panel :: accounts where
  "sample_panel = accounts_commit (initial_accounts (sample_list 0 1 True))"

definition sample_draft :: accounts where
  "sample_draft = accounts_commit (accounts_apply (E_limit (Priority_input (js ''7''))) sample_panel)"

abbreviation sample_key :: jsstr where
  "sample_key \<equiv> workspaceEditKey (js ''a'') (Some (js ''v''))"

abbreviation sample_limits :: "jsnum \<Rightarrow> account_edit" where
  "sample_limits n \<equiv> \<lparr>ae_priority = n, ae_hourly = 0, ae_concurrency = 1\<rparr>"

lemma sample_panel_reachable: "accounts_reachable sample_panel"
  unfolding sample_panel_def by (rule accounts_mounted)

lemma sample_draft_reachable: "accounts_reachable sample_draft"
proof -
  have "accounts_enabled (E_limit (Priority_input (js ''7''))) sample_panel" by code_simp
  then show ?thesis unfolding sample_draft_def by (rule accounts_event [OF sample_panel_reachable])
qed

lemma sample_draft_values:
  "map_of (an_edits sample_draft) sample_key = Some (sample_limits 7)"
  "map_of (an_base sample_draft) sample_key = Some (sample_limits 1)"
  "map_of (an_disabled_base sample_draft) (js ''a'') = Some False"
  by code_simp+

lemma sample_list_values:
  "map_of (buildAccountEditMap (aq_items (sample_list 2 7 True))) sample_key = Some (sample_limits 7)"
  "map_of (buildAccountEditMap (aq_items (sample_list 2 5 True))) sample_key = Some (sample_limits 5)"
  "map_of (buildDisabledEditMap (aq_items (sample_list 2 7 True))) (js ''a'') = Some False"
  by code_simp+

lemma sample_new: "new_to (sample_list 2 n b) sample_draft"
proof -
  have "an_dep_items sample_draft = Some 0" by code_simp
  then show ?thesis by (simp add: new_to_def sample_list_def)
qed

lemma reload_keeps_drafts_witness:
  "map_of (an_edits (reload (sample_list 2 5 True) sample_draft)) sample_key = Some (sample_limits 7)"
  using reload_keeps_drafts [OF sample_draft_reachable sample_new, of 5 True sample_key "[]"]
  by (simp add: sample_draft_values sample_list_values)

lemma save_order_irrelevant_witness:
  "map_of (an_edits (save_done (js ''a'') (Some (js ''v'')) (sample_limits 7) False (reload (sample_list 2 7 True) sample_draft))) =
   map_of (an_edits (reload (sample_list 2 7 True) (save_done (js ''a'') (Some (js ''v'')) (sample_limits 7) False sample_draft)))"
  using save_order_irrelevant [OF sample_new, of "js ''a''" "Some (js ''v'')" 7 True "sample_limits 7" False "sample_limits 7" False]
  by (simp add: sample_draft_values sample_list_values)

lemma accounts_one_at_a_time_witness: "length (filter is_save (an_tasks sample_panel)) = of_bool (an_saving sample_panel)"
  using accounts_one_at_a_time [OF sample_panel_reachable] by simp

lemma quick_test_offered_witness:
  "\<exists>req target note. an_tasks (runQuickTest (js ''a'') (Some (js ''v'')) sample_panel) =
     an_tasks sample_panel @ [A_quick req target note] \<and> qr_workspace req = js ''v''"
proof -
  have "\<not> an_quick_flight sample_panel" by code_simp
  from quick_test_offered [OF this, of "js ''a''" "Some (js ''v'')" "[]"] show ?thesis by auto
qed

definition sample_activating :: accounts where
  "sample_activating = accounts_commit (accounts_apply (E_reload (sample_list 2 1 False))
     (accounts_commit (accounts_apply E_activate (accounts_commit (accounts_apply (E_select_ws (js ''w'')) sample_panel)))))"

lemma activation_shows_previous_workspace_witness:
  "aq_active_ws (an_props sample_activating) = js ''w'' \<and> an_selected_ws sample_activating = js ''w'' \<and>
   (\<exists>options. an_tasks sample_activating = [A_activate options (js ''a'') (Some (js ''w''))] \<and>
     an_selected_ws (accounts_commit (activate_done options (js ''a'') (Some (js ''w'')) sample_activating)) = js ''v'')"
proof -
  let ?options = "options_of sample_panel"
  have run: "aq_active_ws (an_props sample_activating) = js ''w'' \<and> an_selected_ws sample_activating = js ''w''" by code_simp
  have task: "an_tasks sample_activating = [A_activate ?options (js ''a'') (Some (js ''w''))]" by code_simp
  have was: "found_id (\<lambda>w. opt_true (ws_active w)) (workspaces_by (js ''a'') ?options) = js ''v''" by code_simp
  have listed: "js ''v'' \<in> ws_id ` set (workspaces_by (js ''a'') (options_of sample_activating))" by code_simp
  have seen: "an_dep_items sample_activating = Some (aq_version (an_props sample_activating))" by code_simp
  have "js ''v'' \<noteq> []" by (simp add: js_def)
  with activation_shows_previous_workspace [OF was _ listed seen] run task show ?thesis by blast
qed

definition sample_probe :: json where
  "sample_probe = JObj [(js ''email'', JNum (js ''5''))]"

definition sample_pasted :: accounts where
  "sample_pasted = accounts_apply (E_manual (defaultManualImportState\<lparr>im_probe := stringify sample_probe\<rparr>)) sample_panel"

lemma probe_number_crashes_witness: "an_crashed (accounts_commit sample_pasted)"
proof (rule probe_number_crashes)
  show "safeParseProbeJSON (im_probe (an_manual sample_pasted)) = Inr (Some sample_probe)" by code_simp
  show "jget (js ''email'') sample_probe = Some (JNum (js ''5''))" by code_simp
  show "trim (im_probe (an_manual sample_pasted)) \<noteq> []" by code_simp
  show "an_dep_probe sample_pasted \<noteq> Some (im_probe (an_manual sample_pasted))" by code_simp
qed

end
