(* ===== verification/Text_Lists.thy ===== *)
theory Text_Lists imports Js_Prelude begin

text \<open>
  Lists that a form edits as one text: lines, joined with a line feed and split at \<open>\r?\n\<close>, and blocks,
  joined and split with a separator line. Both directions trim the entries and drop the empty ones;
  \<open>lines_round_trip\<close> and \<open>blocks_round_trip\<close> say when the list survives.
\<close>

fun split_lines :: "jsstr \<Rightarrow> jsstr list" where
  "split_lines [] = [[]]"
| "split_lines (c # s) =
     (if c = 10 then [] # split_lines s
      else if c = 13 \<and> s \<noteq> [] \<and> hd s = 10 then [] # split_lines (tl s)
      else (c # hd (split_lines s)) # tl (split_lines s))"

function split_str :: "jsstr \<Rightarrow> jsstr \<Rightarrow> jsstr list" where
  "split_str sep s =
     (if sep = [] then List.map (\<lambda>c. [c]) s
      else if starts_with sep s then [] # split_str sep (drop (length sep) s)
      else (case s of [] \<Rightarrow> [[]] | c # t \<Rightarrow> (c # hd (split_str sep t)) # tl (split_str sep t)))"
  by pat_completeness auto

termination
proof (relation "measure (\<lambda>(sep, s). length s)")
  fix sep s :: jsstr
  assume "sep \<noteq> []" and "starts_with sep s"
  then show "((sep, drop (length sep) s), sep, s) \<in> measure (\<lambda>(sep, s). length s)"
    by (auto simp: starts_with_iff)
qed auto

declare split_str.simps [simp del]

definition clean_entries :: "jsstr list \<Rightarrow> jsstr list" where
  "clean_entries xs = filter (\<lambda>x. x \<noteq> []) (List.map trim xs)"

definition lines_of :: "jsstr \<Rightarrow> jsstr list" where
  "lines_of s = clean_entries (split_lines s)"

definition blocks_of :: "jsstr \<Rightarrow> jsstr \<Rightarrow> jsstr list" where
  "blocks_of sep s = clean_entries (split_str sep s)"

text \<open>No separator starts inside the block, also not one that the following separator completes.\<close>

fun sep_free :: "jsstr \<Rightarrow> jsstr \<Rightarrow> bool" where
  "sep_free sep [] = True"
| "sep_free sep (c # x) = (\<not> starts_with sep ((c # x) @ sep) \<and> sep_free sep x)"

section \<open>Trimming\<close>

lemma trim_subset: "set (trim s) \<subseteq> set s"
  unfolding trim_def trim_start_def trim_end_def by (auto dest!: set_dropWhileD)

lemma trim_last: "trim s \<noteq> [] \<Longrightarrow> \<not> is_space (last (trim s))"
  unfolding trim_def trim_end_def by (metis hd_dropWhile hd_rev last_rev rev_is_Nil_conv)

lemma clean_entries_mem: "x \<in> set (clean_entries xs) \<Longrightarrow> trim x = x \<and> x \<noteq> [] \<and> (\<exists>y \<in> set xs. x = trim y)"
  by (auto simp: clean_entries_def)

lemma clean_entries_idem: "\<forall>x \<in> set xs. trim x = x \<and> x \<noteq> [] \<Longrightarrow> clean_entries xs = xs"
  by (induction xs) (auto simp: clean_entries_def)

section \<open>Lines\<close>

lemma split_lines_no_feed: "x \<in> set (split_lines s) \<Longrightarrow> 10 \<notin> set x"
proof (induction s arbitrary: x rule: split_lines.induct)
  case 1
  then show ?case by simp
next
  case (2 c s)
  have "split_lines s \<noteq> []" by (cases s) auto
  then show ?case using 2
    by (auto split: if_splits dest: list.set_sel)
qed

lemma split_lines_neq_Nil [simp]: "split_lines s \<noteq> []"
  by (cases s) auto

lemma split_lines_line:
  assumes "10 \<notin> set x" and "x = [] \<or> last x \<noteq> 13"
  shows "split_lines (x @ 10 # s) = x # split_lines s" and "split_lines x = [x]"
  using assms by (induction x) (auto split: if_splits dest: hd_in_set)

lemma split_lines_join:
  "xs \<noteq> [] \<Longrightarrow> \<forall>x \<in> set xs. 10 \<notin> set x \<and> (x = [] \<or> last x \<noteq> 13) \<Longrightarrow> split_lines (join [10] xs) = xs"
proof (induction xs)
  case (Cons x xs)
  then show ?case by (cases xs) (auto simp: split_lines_line)
qed simp

lemma carriage_space: "is_space 13"
  by (simp add: is_space_def)

lemma lines_round_trip: "lines_of (join [10] (lines_of s)) = lines_of s"
proof (cases "lines_of s = []")
  case True
  then show ?thesis by (simp add: lines_of_def clean_entries_def trim_def trim_start_def trim_end_def)
next
  case False
  have entry: "trim x = x \<and> x \<noteq> [] \<and> 10 \<notin> set x \<and> last x \<noteq> 13" if mem: "x \<in> set (lines_of s)" for x
  proof -
    obtain y where y: "y \<in> set (split_lines s)" "x = trim y" and x: "trim x = x" "x \<noteq> []"
      using mem by (auto simp: lines_of_def dest!: clean_entries_mem)
    have "10 \<notin> set x" using y split_lines_no_feed trim_subset by blast
    moreover have "last x \<noteq> 13" using x trim_last [of x] carriage_space by metis
    ultimately show ?thesis using x by simp
  qed
  then have "split_lines (join [10] (lines_of s)) = lines_of s"
    using False by (intro split_lines_join) auto
  then show ?thesis using entry clean_entries_idem [of "lines_of s"] by (simp add: lines_of_def)
qed

section \<open>Blocks\<close>

lemma split_str_neq_Nil: "sep \<noteq> [] \<Longrightarrow> split_str sep s \<noteq> []"
  by (subst split_str.simps) (auto split: list.splits)

lemma starts_with_more: "starts_with sep s \<Longrightarrow> starts_with sep (s @ t)"
  by (auto simp: starts_with_iff)

lemma starts_with_prefix: "starts_with sep (s @ t) \<Longrightarrow> length sep \<le> length s \<Longrightarrow> starts_with sep s"
  by (simp add: starts_with_def)

lemma split_str_block:
  assumes "sep \<noteq> []" and "sep_free sep x"
  shows "split_str sep (x @ sep @ s) = x # split_str sep s"
  using assms(2)
proof (induction x)
  case Nil
  have "starts_with sep (sep @ s)" by (simp add: starts_with_def)
  then show ?case using assms(1) by (subst split_str.simps) simp
next
  case (Cons c x)
  have "\<not> starts_with sep ((c # x) @ sep @ s)"
  proof
    assume "starts_with sep ((c # x) @ sep @ s)"
    then have "starts_with sep ((c # x) @ sep)"
      using starts_with_prefix [of sep "(c # x) @ sep" s] by simp
    then show False using Cons.prems by simp
  qed
  then show ?case using Cons assms(1) by (subst split_str.simps) simp
qed

lemma split_str_last:
  assumes "sep \<noteq> []" and "sep_free sep x"
  shows "split_str sep x = [x]"
  using assms(2)
proof (induction x)
  case Nil
  then show ?case using assms(1) by (subst split_str.simps) (simp add: starts_with_def)
next
  case (Cons c x)
  then have "\<not> starts_with sep (c # x)" using starts_with_more [of sep "c # x" sep] by auto
  then show ?case using Cons assms(1) by (subst split_str.simps) simp
qed

lemma split_str_join:
  "sep \<noteq> [] \<Longrightarrow> xs \<noteq> [] \<Longrightarrow> \<forall>x \<in> set xs. sep_free sep x \<Longrightarrow> split_str sep (join sep xs) = xs"
proof (induction xs)
  case (Cons x xs)
  then show ?case by (cases xs) (simp_all add: split_str_block split_str_last)
qed simp

lemma blocks_round_trip:
  assumes "sep \<noteq> []" and "\<forall>x \<in> set xs. trim x = x \<and> x \<noteq> [] \<and> sep_free sep x"
  shows "blocks_of sep (join sep xs) = xs"
proof (cases "xs = []")
  case True
  then show ?thesis using split_str_last [OF assms(1), of "[]"]
    by (simp add: blocks_of_def clean_entries_def trim_def trim_start_def trim_end_def)
next
  case False
  then show ?thesis using assms split_str_join clean_entries_idem by (simp add: blocks_of_def)
qed

end
