(* ===== verification/Settings_Panel.thy ===== *)
theory Settings_Panel imports Settings_Form Admin_Service Chat_Targets Interfaces Panel_Texts begin

text \<open>
  The settings panel (\<open>components/admin/settings-panel.tsx\<close>): the form next to the configuration it was
  last synchronised with, the effects that keep them together, and saving, importing and testing.

  The configuration is a property; \<open>sp_version\<close> stands for the identity of the object. \<open>settings_round\<close> is one pass
  over the effects with the values of one render; three passes always settle them. A strategy file is
  read as the \<open>PromptConfig\<close> it is cast to; one that has other types is not modelled.
\<close>

section \<open>State\<close>

record settings_props =
  sp_config :: server_config
  sp_version :: nat
  sp_models :: "model_item list"
  sp_models_version :: nat

datatype panel_action = Export_config | Create_snapshot | List_snapshots

datatype settings_task =
    S_save settings_form server_config json
  | S_import settings_form jsstr json
  | S_read_import settings_form jsstr
  | S_read_strategy jsstr
  | S_test jsstr jsstr bool
  | S_action panel_action

record settings =
  st_props :: settings_props
  st_form :: settings_form
  st_baseline :: settings_form
  st_synced :: nat
  st_output :: jsstr
  st_message :: jsstr
  st_saving :: bool
  st_test_prompt :: jsstr
  st_test_model :: jsstr
  st_test_search :: bool
  st_test_output :: jsstr
  st_testing :: bool
  st_forced_seen :: "bool option"
  st_test_seen :: "(jsstr option \<times> bool option \<times> jsstr option \<times> nat) option"
  st_reported :: "bool option"
  st_tasks :: "settings_task list"
  st_toasts :: "toast list"
  st_downloads :: "(jsstr \<times> jsstr) list"

definition test_model_for :: "settings_props \<Rightarrow> jsstr" where
  "test_model_for p = or_str (opt_str (cfg_default_model (sp_config p))) (or_str (opt_str (cfg_model_id (sp_config p)))
     (or_str (case sp_models p of [] \<Rightarrow> [] | m # _ \<Rightarrow> mi_id m) auto))"

definition initial_settings :: "settings_props \<Rightarrow> settings" where
  "initial_settings p = \<lparr>st_props = p, st_form = buildFormState (sp_config p), st_baseline = buildFormState (sp_config p),
     st_synced = sp_version p, st_output = txt_waiting_action, st_message = [], st_saving = False,
     st_test_prompt = txt_preset_creative, st_test_model = test_model_for p, st_test_search = feature_on fc_use_web_search (sp_config p),
     st_test_output = txt_waiting_strategy_test, st_testing = False, st_forced_seen = None, st_test_seen = None,
     st_reported = None, st_tasks = [], st_toasts = [], st_downloads = []\<rparr>"

definition sameFormState :: "settings_form \<Rightarrow> settings_form \<Rightarrow> bool" where
  "sameFormState left right \<longleftrightarrow> left = right"

definition settings_dirty :: "settings \<Rightarrow> bool" where
  "settings_dirty s \<longleftrightarrow> \<not> sameFormState (st_form s) (st_baseline s)"

definition config_version :: "settings \<Rightarrow> nat" where
  "config_version s = sp_version (st_props s)"

definition configChangedWhileDirty :: "settings \<Rightarrow> bool" where
  "configChangedWhileDirty s \<longleftrightarrow> settings_dirty s \<and> st_synced s \<noteq> config_version s"

definition status_text :: "settings \<Rightarrow> jsstr" where
  "status_text s = (if settings_dirty s \<and> \<not> st_saving s
     then (if configChangedWhileDirty s then txt_unsaved_outdated else txt_unsaved)
     else or_str (st_message s) txt_takes_effect)"

definition currentModel :: "settings \<Rightarrow> jsstr" where
  "currentModel s = or_str (sf_defaultModel (st_form s))
     (or_str (case sp_models (st_props s) of [] \<Rightarrow> [] | m # _ \<Rightarrow> mi_id m) auto)"

definition settings_model_options :: "settings \<Rightarrow> model_item list" where
  "settings_model_options s = (let m = currentModel s; models = sp_models (st_props s) in
     if m = [] then models else if m \<in> mi_id ` set models then models
     else no_model_item\<lparr>mi_id := m, mi_name := Some (m @ js '' (current)'')\<rparr> # models)"

definition persistenceEnabledCount :: "settings \<Rightarrow> nat" where
  "persistenceEnabledCount s = length (filter id [sf_persistConversationSnapshots (st_form s), sf_persistResponses (st_form s),
     sf_persistContinuationSessions (st_form s), sf_persistSillyTavernBindings (st_form s)])"

section \<open>Effects\<close>

definition sync_form :: "settings \<Rightarrow> settings" where
  "sync_form s = (let f = buildFormState (sp_config (st_props s)) in
     s\<lparr>st_synced := config_version s, st_form := f, st_baseline := f\<rparr>)"

definition run_sync :: "settings \<Rightarrow> settings \<Rightarrow> settings" where
  "run_sync r s = (if settings_dirty r \<or> st_synced r = config_version r then s else sync_form s)"

definition run_report :: "settings \<Rightarrow> settings \<Rightarrow> settings" where
  "run_report r s = s\<lparr>st_reported := Some (settings_dirty r)\<rparr>"

definition run_test_defaults :: "settings \<Rightarrow> settings \<Rightarrow> settings" where
  "run_test_defaults r s = (let p = st_props r;
       dep = (cfg_default_model (sp_config p), Option.bind (cfg_features (sp_config p)) fc_use_web_search,
              cfg_model_id (sp_config p), sp_models_version p) in
     if st_test_seen r = Some dep then s
     else s\<lparr>st_test_seen := Some dep, st_test_model := test_model_for p,
            st_test_search := feature_on fc_use_web_search (sp_config p)\<rparr>)"

definition lock_form :: "settings_form \<Rightarrow> settings_form" where
  "lock_form f = f\<lparr>sf_readOnly := True, sf_writerMode := False\<rparr>"

definition run_force :: "settings \<Rightarrow> settings \<Rightarrow> settings" where
  "run_force r s = (let force = sf_forceDisableUpstreamEdits (st_form r) in
     if st_forced_seen r = Some force then s
     else if force then s\<lparr>st_forced_seen := Some force, st_form := lock_form (st_form s)\<rparr>
     else s\<lparr>st_forced_seen := Some force\<rparr>)"

definition settings_round :: "settings \<Rightarrow> settings" where
  "settings_round r = run_force r (run_test_defaults r (run_report r (run_sync r r)))"

definition settings_commit :: "settings \<Rightarrow> settings" where
  "settings_commit s = settings_round (settings_round (settings_round s))"

section \<open>Handlers\<close>

definition s_toast :: "toast \<Rightarrow> settings \<Rightarrow> settings" where
  "s_toast t s = s\<lparr>st_toasts := st_toasts s @ [t]\<rparr>"

definition s_spawn :: "settings_task \<Rightarrow> settings \<Rightarrow> settings" where
  "s_spawn t s = s\<lparr>st_tasks := st_tasks s @ [t]\<rparr>"

definition s_failed :: "failure \<Rightarrow> jsstr \<Rightarrow> settings \<Rightarrow> settings" where
  "s_failed e fallback s = s_toast (Toast_error (failure_text e fallback)) (s\<lparr>st_message := failure_text e fallback\<rparr>)"

definition discardChanges :: "settings \<Rightarrow> settings" where
  "discardChanges s = (sync_form s)\<lparr>st_message := txt_edits_discarded\<rparr>"

definition saveConfig :: "settings \<Rightarrow> settings" where
  "saveConfig s = (let s' = s\<lparr>st_saving := True, st_message := txt_saving_dots\<rparr> in
     case save_payload (st_form s) (sp_config (st_props s)) of
       Inl e \<Rightarrow> (s_failed e txt_settings_save_failed s')\<lparr>st_saving := False\<rparr>
     | Inr (c, aliases) \<Rightarrow> s_spawn (S_save (st_form s) c aliases) s')"

definition settings_saved :: "settings_form \<Rightarrow> json \<Rightarrow> settings \<Rightarrow> settings" where
  "settings_saved saved payload s = (s_toast (Toast_success txt_settings_saved)
     (s\<lparr>st_baseline := saved, st_output := stringify2 payload, st_message := txt_saved_hot\<rparr>))\<lparr>st_saving := False\<rparr>"

definition save_settings_failed :: "failure \<Rightarrow> settings \<Rightarrow> settings" where
  "save_settings_failed e s = (s_failed e txt_settings_save_failed s)\<lparr>st_saving := False\<rparr>"

definition import_file :: "jsstr \<Rightarrow> settings \<Rightarrow> settings" where
  "import_file name s = s_spawn (S_read_import (st_form s) name) (s\<lparr>st_message := txt_config_importing\<rparr>)"

definition imported_value :: "json \<Rightarrow> json" where
  "imported_value parsed = (if json_truthy (opt_get ''config'' (Some parsed)) then the (opt_get ''config'' (Some parsed)) else parsed)"

definition import_read :: "settings_form \<Rightarrow> jsstr \<Rightarrow> jsstr \<Rightarrow> settings \<Rightarrow> settings" where
  "import_read f name raw s = (case json_parse raw of
     None \<Rightarrow> s_failed Engine_error txt_import_failed_short s
   | Some parsed \<Rightarrow> s_spawn (S_import f name (imported_value parsed)) s)"

definition config_imported :: "settings_form \<Rightarrow> jsstr \<Rightarrow> json \<Rightarrow> settings \<Rightarrow> settings" where
  "config_imported f name payload s = s_toast (Toast_success txt_config_imported_toast)
     (s\<lparr>st_baseline := f, st_output := stringify2 payload, st_message := txt_config_imported @ name\<rparr>)"

definition applyPromptStrategy :: "prompt_config \<Rightarrow> settings \<Rightarrow> settings" where
  "applyPromptStrategy p s = s\<lparr>st_form := with_prompt_strategy p (st_form s)\<rparr>"

definition strategy_file :: "jsstr \<Rightarrow> settings \<Rightarrow> settings" where
  "strategy_file name s = s_spawn (S_read_strategy name) (s\<lparr>st_message := txt_strategy_importing\<rparr>)"

definition strategy_loaded :: "jsstr \<Rightarrow> prompt_config \<Rightarrow> json \<Rightarrow> settings \<Rightarrow> settings" where
  "strategy_loaded name p parsed s = s_toast (Toast_success txt_strategy_loaded_toast)
     ((applyPromptStrategy p s)\<lparr>st_output := stringify2 parsed, st_message := txt_strategy_loaded @ name\<rparr>)"

definition prompt_json :: "prompt_config \<Rightarrow> json" where
  "prompt_json p = (let str = map_option JStr; num = map_option (\<lambda>n. JNum (num_str n));
       lst = map_option (\<lambda>xs. JArr (List.map JStr xs)) in
     JObj (List.map (\<lambda>(k, v). (k, the v)) (filter (\<lambda>(k, v). v \<noteq> None)
       [(js ''profile'', str (pc_profile p)), (js ''custom_prefix'', str (pc_custom_prefix p)),
        (js ''fallback_profiles'', lst (pc_fallback_profiles p)),
        (js ''max_escalation_steps'', num (pc_max_escalation_steps p)),
        (js ''max_refusal_retries'', num (pc_max_refusal_retries p)),
        (js ''cognitive_reframing_prefix'', str (pc_cognitive_reframing_prefix p)),
        (js ''toolbox_capability_expansion_prefix'', str (pc_toolbox_capability_expansion_prefix p)),
        (js ''coding_retry_prefixes'', lst (pc_coding_retry_prefixes p)),
        (js ''general_retry_prefixes'', lst (pc_general_retry_prefixes p)),
        (js ''direct_answer_retry_prefixes'', lst (pc_direct_answer_retry_prefixes p))])))"

text \<open>\<open>now\<close> is \<open>new Date().toISOString()\<close>.\<close>

definition downloadPromptStrategy :: "jsstr \<Rightarrow> settings \<Rightarrow> settings" where
  "downloadPromptStrategy now s = (let t = stringify2 (prompt_json (buildPromptStrategyPayload (st_form s)));
       stamp = List.map (\<lambda>c. if c = 58 \<or> c = 84 then 45 else c) (take 19 now) in
     s_toast (Toast_success txt_strategy_exported_toast)
       (s\<lparr>st_downloads := st_downloads s @ [(js ''notion2api-prompt-strategy-'' @ stamp @ js ''.json'', t)],
          st_output := t, st_message := txt_strategy_exported\<rparr>))"

definition runStrategyTest :: "settings \<Rightarrow> settings" where
  "runStrategyTest s = (if trim (st_test_prompt s) = [] then s_toast (Toast_error txt_enter_test_prompt) s
     else s_spawn (S_test (st_test_prompt s) (st_test_model s) (st_test_search s)) (s\<lparr>st_testing := True, st_test_output := txt_testing_dots\<rparr>))"

definition strategy_tested :: "json \<Rightarrow> settings \<Rightarrow> settings" where
  "strategy_tested result s = (s_toast (Toast_success txt_strategy_test_done)
     (s\<lparr>st_test_output := stringify2 result, st_output := stringify2 result, st_message := txt_strategy_test_done\<rparr>))\<lparr>st_testing := False\<rparr>"

definition strategy_test_failed :: "failure \<Rightarrow> settings \<Rightarrow> settings" where
  "strategy_test_failed e s = (let t = failure_text e txt_strategy_test_failed in
     (s_toast (Toast_error t) (s\<lparr>st_test_output := t, st_message := t\<rparr>))\<lparr>st_testing := False\<rparr>)"

fun action_started :: "panel_action \<Rightarrow> jsstr" where
  "action_started Export_config = txt_exporting_config"
| "action_started Create_snapshot = txt_snapshotting"
| "action_started List_snapshots = txt_listing_snapshots"

fun action_done :: "panel_action \<Rightarrow> jsstr" where
  "action_done Export_config = txt_config_exported"
| "action_done Create_snapshot = txt_snapshot_created"
| "action_done List_snapshots = txt_snapshots_listed"

fun action_fallback :: "panel_action \<Rightarrow> jsstr" where
  "action_fallback Export_config = txt_config_export_failed"
| "action_fallback Create_snapshot = txt_snapshot_failed"
| "action_fallback List_snapshots = txt_snapshots_failed"

definition start_action :: "panel_action \<Rightarrow> settings \<Rightarrow> settings" where
  "start_action a s = s_spawn (S_action a) (s\<lparr>st_message := action_started a\<rparr>)"

section \<open>Replies and events\<close>

datatype settings_reply = S_ok json | S_text jsstr | S_strategy prompt_config json | S_failed failure

fun settings_resume :: "settings_task \<Rightarrow> settings_reply \<Rightarrow> settings \<Rightarrow> settings" where
  "settings_resume (S_save saved c aliases) (S_ok v) s = settings_saved saved v s"
| "settings_resume (S_save saved c aliases) (S_failed e) s = save_settings_failed e s"
| "settings_resume (S_read_import f name) (S_text raw) s = import_read f name raw s"
| "settings_resume (S_read_import f name) (S_failed e) s = s_failed e txt_import_failed_short s"
| "settings_resume (S_import f name imported) (S_ok v) s = config_imported f name v s"
| "settings_resume (S_import f name imported) (S_failed e) s = s_failed e txt_import_failed_short s"
| "settings_resume (S_read_strategy name) (S_strategy p v) s = strategy_loaded name p v s"
| "settings_resume (S_read_strategy name) (S_failed e) s = s_failed e txt_strategy_import_failed s"
| "settings_resume (S_test prompt m search) (S_ok v) s = strategy_tested v s"
| "settings_resume (S_test prompt m search) (S_failed e) s = strategy_test_failed e s"
| "settings_resume (S_action a) (S_ok v) s = s\<lparr>st_output := stringify2 v, st_message := action_done a\<rparr>"
| "settings_resume (S_action a) (S_failed e) s = s_failed e (action_fallback a) s"
| "settings_resume _ _ s = s"

text \<open>Two of the switches are disabled while edits are forced off.\<close>

definition form_change_allowed :: "settings_form \<Rightarrow> settings_form \<Rightarrow> bool" where
  "form_change_allowed old new \<longleftrightarrow> (sf_forceDisableUpstreamEdits old \<longrightarrow>
     sf_readOnly new = sf_readOnly old \<and> sf_writerMode new = sf_writerMode old)"

datatype settings_event =
    V_config settings_props
  | V_edit settings_form
  | V_test_prompt jsstr
  | V_test_model jsstr
  | V_test_search bool
  | V_discard
  | V_save
  | V_import jsstr
  | V_strategy jsstr
  | V_default_strategy
  | V_download jsstr
  | V_test
  | V_action panel_action
  | V_reply settings_task settings_reply

fun settings_enabled :: "settings_event \<Rightarrow> settings \<Rightarrow> bool" where
  "settings_enabled (V_edit f) s = form_change_allowed (st_form s) f"
| "settings_enabled V_discard s = (settings_dirty s \<and> \<not> st_saving s)"
| "settings_enabled V_save s = (\<not> st_saving s)"
| "settings_enabled V_test s = (\<not> st_testing s \<and> trim (st_test_prompt s) \<noteq> [])"
| "settings_enabled (V_test_model m) s = (m \<in> mi_id ` set (settings_model_options s))"
| "settings_enabled (V_reply t r) s = (t \<in> set (st_tasks s))"
| "settings_enabled _ s = True"

fun settings_apply :: "settings_event \<Rightarrow> settings \<Rightarrow> settings" where
  "settings_apply (V_config p) s = s\<lparr>st_props := p\<rparr>"
| "settings_apply (V_edit f) s = s\<lparr>st_form := f\<rparr>"
| "settings_apply (V_test_prompt t) s = s\<lparr>st_test_prompt := t\<rparr>"
| "settings_apply (V_test_model m) s = s\<lparr>st_test_model := m\<rparr>"
| "settings_apply (V_test_search b) s = s\<lparr>st_test_search := b\<rparr>"
| "settings_apply V_discard s = discardChanges s"
| "settings_apply V_save s = saveConfig s"
| "settings_apply (V_import name) s = import_file name s"
| "settings_apply (V_strategy name) s = strategy_file name s"
| "settings_apply V_default_strategy s = applyPromptStrategy default_strategy s"
| "settings_apply (V_download now) s = downloadPromptStrategy now s"
| "settings_apply V_test s = runStrategyTest s"
| "settings_apply (V_action a) s = start_action a s"
| "settings_apply (V_reply t r) s = settings_resume t r (s\<lparr>st_tasks := remove1 t (st_tasks s)\<rparr>)"

inductive settings_reachable :: "settings \<Rightarrow> bool" where
  settings_mounted: "settings_reachable (settings_commit (initial_settings p))"
| settings_stepped: "settings_reachable s \<Longrightarrow> settings_enabled e s \<Longrightarrow> settings_reachable (settings_commit (settings_apply e s))"

end
