(* ===== verification/Settings_Facts.thy ===== *)
theory Settings_Facts imports Settings_Panel begin

text \<open>
  What holds of the settings panel: its effects settle, a refresh of the configuration never
  touches an edited form, and a save ends with the form showing the configuration it produced.
\<close>

section \<open>One pass over the effects\<close>

definition test_dependencies :: "settings \<Rightarrow> jsstr option \<times> bool option \<times> jsstr option \<times> nat" where
  "test_dependencies s = (let p = st_props s in
     (cfg_default_model (sp_config p), Option.bind (cfg_features (sp_config p)) fc_use_web_search,
      cfg_model_id (sp_config p), sp_models_version p))"

definition forced :: "settings \<Rightarrow> bool" where
  "forced s \<longleftrightarrow> sf_forceDisableUpstreamEdits (st_form s)"

definition locked_form :: "settings_form \<Rightarrow> bool" where
  "locked_form f \<longleftrightarrow> (sf_forceDisableUpstreamEdits f \<longrightarrow> sf_readOnly f \<and> \<not> sf_writerMode f)"

text \<open>Nothing is left for the effects to do.\<close>

definition settings_settled :: "settings \<Rightarrow> bool" where
  "settings_settled s \<longleftrightarrow> (settings_dirty s \<or> st_synced s = config_version s) \<and>
     st_reported s = Some (settings_dirty s) \<and> st_test_seen s = Some (test_dependencies s) \<and>
     st_forced_seen s = Some (forced s)"

lemma settled_round: "settings_settled s \<Longrightarrow> settings_round s = s"
  unfolding settings_round_def run_sync_def run_report_def run_test_defaults_def run_force_def
    settings_settled_def test_dependencies_def forced_def Let_def
  by auto

definition synced_form :: "settings \<Rightarrow> settings_form" where
  "synced_form s = (if settings_dirty s \<or> st_synced s = config_version s then st_form s
     else buildFormState (sp_config (st_props s)))"

lemma lock_form_fields [simp]:
  "sf_forceDisableUpstreamEdits (lock_form f) = sf_forceDisableUpstreamEdits f"
  "sf_readOnly (lock_form f)" "\<not> sf_writerMode (lock_form f)"
  by (simp_all add: lock_form_def)

lemma lock_form_same: "locked_form f \<Longrightarrow> sf_forceDisableUpstreamEdits f \<Longrightarrow> lock_form f = f"
  by (simp add: lock_form_def locked_form_def)

lemma locked_lock [simp]: "locked_form (lock_form f)"
  by (simp add: locked_form_def)

lemma locked_built [simp]: "locked_form (buildFormState c)"
  by (simp add: locked_form_def build_fields)

lemma round_fields [simp]:
  "st_props (settings_round s) = st_props s"
  "st_tasks (settings_round s) = st_tasks s"
  "st_saving (settings_round s) = st_saving s"
  "st_message (settings_round s) = st_message s"
  "st_output (settings_round s) = st_output s"
  "st_toasts (settings_round s) = st_toasts s"
  "st_testing (settings_round s) = st_testing s"
  "st_downloads (settings_round s) = st_downloads s"
  "st_test_prompt (settings_round s) = st_test_prompt s"
  unfolding settings_round_def run_sync_def run_report_def run_test_defaults_def run_force_def sync_form_def Let_def
  by simp_all

lemma round_form:
  "st_form (settings_round s) =
     (if forced s \<and> st_forced_seen s \<noteq> Some True then lock_form (synced_form s) else synced_form s)"
  unfolding settings_round_def run_sync_def run_report_def run_test_defaults_def run_force_def sync_form_def
    Let_def synced_form_def forced_def
  by auto

lemma round_seen:
  "st_forced_seen (settings_round s) = Some (forced s)"
  "st_test_seen (settings_round s) = Some (test_dependencies s)"
  "st_reported (settings_round s) = Some (settings_dirty s)"
  unfolding settings_round_def run_sync_def run_report_def run_test_defaults_def run_force_def sync_form_def
    Let_def forced_def test_dependencies_def
  by auto

lemma round_synced:
  "st_synced (settings_round s) = (if settings_dirty s then st_synced s else config_version s)"
  "st_baseline (settings_round s) =
     (if settings_dirty s \<or> st_synced s = config_version s then st_baseline s else buildFormState (sp_config (st_props s)))"
  unfolding settings_round_def run_sync_def run_report_def run_test_defaults_def run_force_def sync_form_def Let_def
  by auto

lemma round_version [simp]:
  "config_version (settings_round s) = config_version s"
  "test_dependencies (settings_round s) = test_dependencies s"
  by (simp_all add: config_version_def test_dependencies_def)

lemma dirty_iff: "settings_dirty s \<longleftrightarrow> st_form s \<noteq> st_baseline s"
  by (simp add: settings_dirty_def sameFormState_def)

section \<open>The effects settle\<close>

text \<open>What can still be open after one pass and after two.\<close>

lemma clean_round_synced:
  "\<not> settings_dirty (settings_round s) \<Longrightarrow> settings_dirty s \<or> st_synced (settings_round s) = config_version s"
  by (simp add: round_synced)

lemma forced_round:
  "forced (settings_round s) \<longleftrightarrow> sf_forceDisableUpstreamEdits (synced_form s)"
  by (simp add: forced_def round_form)

lemma synced_form_same: "settings_dirty s \<or> st_synced s = config_version s \<Longrightarrow> synced_form s = st_form s"
  by (auto simp: synced_form_def)

text \<open>Once the switch that locks the form has been seen, a pass leaves a form it does not replace alone.\<close>

lemma seen_round:
  assumes "st_forced_seen s = Some (forced s)" and "settings_dirty s \<or> st_synced s = config_version s"
  shows "settings_settled (settings_round s)"
  using assms by (auto simp: settings_settled_def round_seen round_form round_synced dirty_iff synced_form_same forced_def)

lemma clean_round:
  assumes "\<not> settings_dirty s" and "st_synced s = config_version s" and "locked_form (st_form s)"
  shows "settings_settled (settings_round s)"
  using assms
  by (auto simp: settings_settled_def round_seen round_form round_synced dirty_iff synced_form_same forced_def lock_form_same)

text \<open>A pass that has nothing to load keeps the switch; one that loads leaves a form of the configuration.\<close>

lemma quiet_round:
  assumes "settings_dirty s \<or> st_synced s = config_version s"
  shows "forced (settings_round s) \<longleftrightarrow> forced s"
  using assms by (simp add: forced_round synced_form_same) (simp add: forced_def)

lemma load_round:
  assumes "\<not> settings_dirty s" and "st_synced s \<noteq> config_version s"
  shows "st_synced (settings_round s) = config_version s"
    and "st_form (settings_round s) = (let f = buildFormState (sp_config (st_props s)) in
      if forced s \<and> st_forced_seen s \<noteq> Some True then lock_form f else f)"
    and "st_baseline (settings_round s) = buildFormState (sp_config (st_props s))"
  using assms by (simp_all add: round_synced round_form synced_form_def Let_def)

lemma loaded_round:
  assumes "\<not> settings_dirty s" and "st_synced s \<noteq> config_version s" and "st_forced_seen s = Some (forced s)"
  shows "settings_settled (settings_round (settings_round s))"
proof (rule clean_round)
  show "\<not> settings_dirty (settings_round s)" and "locked_form (st_form (settings_round s))"
    using assms by (auto simp: dirty_iff load_round)
  show "st_synced (settings_round s) = config_version (settings_round s)"
    using assms by (simp add: load_round)
qed

lemma commit_settled: "settings_settled (settings_commit s)"
proof (cases "settings_dirty s \<or> st_synced s = config_version s")
  case True
  define s1 where "s1 = settings_round s"
  have seen: "st_forced_seen s1 = Some (forced s1)"
    using True by (simp add: s1_def round_seen quiet_round)
  show ?thesis
  proof (cases "settings_dirty s1 \<or> st_synced s1 = config_version s1")
    case True
    then have "settings_settled (settings_round s1)" using seen by (rule seen_round [rotated])
    then show ?thesis by (simp add: settings_commit_def s1_def settled_round)
  next
    case False
    then show ?thesis using seen loaded_round by (simp add: settings_commit_def s1_def)
  qed
next
  case False
  define s1 where "s1 = settings_round s"
  have now: "st_synced s1 = config_version s1"
    using False by (simp add: s1_def load_round)
  then have "st_forced_seen (settings_round s1) = Some (forced (settings_round s1))"
    by (simp add: round_seen quiet_round)
  moreover have "st_synced (settings_round s1) = config_version (settings_round s1)"
    using now by (simp add: round_synced)
  ultimately have "settings_settled (settings_round (settings_round s1))"
    by (simp add: seen_round)
  then show ?thesis by (simp add: settings_commit_def s1_def)
qed

lemma commit_again: "settings_commit (settings_commit s) = settings_commit s"
  using commit_settled [of s] by (simp add: settings_commit_def [of "settings_commit s"] settled_round)

section \<open>Invariant\<close>

text \<open>A form that is forced read-only but not locked has not been seen by the effect that locks it.\<close>

definition lock_pending :: "settings \<Rightarrow> bool" where
  "lock_pending s \<longleftrightarrow> locked_form (st_form s) \<or> st_forced_seen s \<noteq> Some True"

definition settings_ok :: "settings \<Rightarrow> bool" where
  "settings_ok s \<longleftrightarrow> settings_settled s \<and> locked_form (st_form s)"

lemma locked_round: "lock_pending s \<Longrightarrow> locked_form (st_form (settings_round s))"
  by (auto simp: round_form synced_form_def lock_pending_def locked_form_def forced_def build_fields)

lemma locked_commit: "lock_pending s \<Longrightarrow> locked_form (st_form (settings_commit s))"
  unfolding settings_commit_def by (intro locked_round) (simp add: lock_pending_def locked_round)

lemma commit_ok: "lock_pending s \<Longrightarrow> settings_ok (settings_commit s)"
  by (simp add: settings_ok_def commit_settled locked_commit)

lemmas handler_defs = discardChanges_def sync_form_def saveConfig_def s_failed_def s_toast_def s_spawn_def
  settings_saved_def save_settings_failed_def import_file_def import_read_def config_imported_def applyPromptStrategy_def
  strategy_file_def strategy_loaded_def downloadPromptStrategy_def runStrategyTest_def strategy_tested_def
  strategy_test_failed_def start_action_def

lemma resume_seen [simp]: "st_forced_seen (settings_resume t r s) = st_forced_seen s"
  by (induction t r s rule: settings_resume.induct)
    (simp_all add: handler_defs Let_def split: option.split)

lemma apply_seen [simp]: "st_forced_seen (settings_apply e s) = st_forced_seen s"
  by (cases e) (auto simp: handler_defs Let_def split: sum.split prod.split)

lemma locked_strategy [simp]: "locked_form (with_prompt_strategy p f) = locked_form f"
  by (simp add: locked_form_def with_prompt_strategy_def)

lemma resume_locked: "locked_form (st_form s) \<Longrightarrow> locked_form (st_form (settings_resume t r s))"
  by (induction t r s rule: settings_resume.induct)
    (simp_all add: handler_defs Let_def split: option.split)

lemma locked_edit:
  "form_change_allowed f g \<Longrightarrow> locked_form f \<Longrightarrow> sf_forceDisableUpstreamEdits f \<Longrightarrow> locked_form g"
  by (simp add: form_change_allowed_def locked_form_def)

lemma apply_pending:
  assumes "settings_ok s" and "settings_enabled e s"
  shows "lock_pending (settings_apply e s)"
proof (cases "\<exists>f. e = V_edit f")
  case True
  then show ?thesis using assms locked_edit [of "st_form s"]
    by (auto simp: lock_pending_def settings_ok_def settings_settled_def forced_def)
next
  case False
  have "locked_form (st_form s)" using assms(1) by (simp add: settings_ok_def)
  then have "locked_form (st_form (settings_apply e s))" using False
    by (cases e) (simp_all add: handler_defs Let_def resume_locked split: sum.split prod.split)
  then show ?thesis by (simp add: lock_pending_def)
qed

lemma reachable_ok: "settings_reachable s \<Longrightarrow> settings_ok s"
proof (induction rule: settings_reachable.induct)
  case (settings_mounted p)
  show ?case by (rule commit_ok) (simp add: lock_pending_def initial_settings_def)
next
  case (settings_stepped s e)
  then show ?case by (intro commit_ok apply_pending)
qed

text \<open>
  C39. Whatever happens in the settings panel, its effects come to rest after at most three passes:
  then the parent has been told whether there are unsaved edits, a form without edits shows the
  current configuration, the test model follows it, and a form that forces upstream edits off is
  read-only and not in writer mode.
\<close>

theorem settings_reachable_ok:
  assumes "settings_reachable s"
  shows "settings_round s = s \<and> st_reported s = Some (settings_dirty s) \<and>
    (settings_dirty s \<or> st_synced s = config_version s) \<and>
    (sf_forceDisableUpstreamEdits (st_form s) \<longrightarrow> sf_readOnly (st_form s) \<and> \<not> sf_writerMode (st_form s))"
  using reachable_ok [OF assms] settled_round
  by (auto simp: settings_ok_def settings_settled_def locked_form_def)

section \<open>A refresh of the configuration\<close>

lemma dirty_round:
  assumes "settings_dirty s" and "st_forced_seen s = Some (forced s)"
  shows "st_form (settings_round s) = st_form s \<and> st_baseline (settings_round s) = st_baseline s \<and>
    st_synced (settings_round s) = st_synced s"
  using assms by (auto simp: round_form round_synced synced_form_def)

lemma dirty_commit:
  assumes "settings_dirty s" and "st_forced_seen s = Some (forced s)"
  shows "st_form (settings_commit s) = st_form s \<and> st_baseline (settings_commit s) = st_baseline s \<and>
    st_synced (settings_commit s) = st_synced s"
proof -
  define s1 where "s1 = settings_round s"
  have s1: "st_form s1 = st_form s" "st_baseline s1 = st_baseline s" "st_synced s1 = st_synced s"
    using dirty_round [OF assms] by (simp_all add: s1_def)
  have "settings_settled (settings_round s1)"
    using assms s1 by (intro seen_round) (simp_all add: s1_def round_seen forced_def dirty_iff)
  moreover have "st_form (settings_round s1) = st_form s1 \<and> st_baseline (settings_round s1) = st_baseline s1 \<and>
      st_synced (settings_round s1) = st_synced s1"
    using assms s1 by (intro dirty_round) (simp_all add: s1_def round_seen forced_def dirty_iff)
  ultimately show ?thesis using s1 by (simp add: settings_commit_def s1_def settled_round)
qed

lemma clean_commit:
  assumes "\<not> settings_dirty s" and "st_forced_seen s = Some (forced s)" and "locked_form (st_form s)"
  shows "st_form (settings_commit s) = synced_form s \<and> st_baseline (settings_commit s) = synced_form s \<and>
    st_synced (settings_commit s) = config_version s"
proof -
  define s1 where "s1 = settings_round s"
  have s1: "st_form s1 = synced_form s" "st_baseline s1 = synced_form s" "st_synced s1 = config_version s"
    using assms(1,2) by (auto simp: s1_def round_form round_synced synced_form_def dirty_iff)
  moreover from s1 have "\<not> settings_dirty s1" by (simp add: dirty_iff)
  moreover have "locked_form (st_form s1)" using s1 assms(3) by (simp add: synced_form_def)
  ultimately have settled: "settings_settled (settings_round s1)"
    by (intro clean_round) (simp_all add: s1_def)
  have "st_form (settings_round s1) = synced_form s \<and> st_baseline (settings_round s1) = synced_form s \<and>
      st_synced (settings_round s1) = config_version s"
    using s1 \<open>\<not> settings_dirty s1\<close> \<open>locked_form (st_form s1)\<close>
    by (auto simp: round_form round_synced synced_form_same forced_def s1_def [symmetric] lock_form_same)
      (simp_all add: s1_def)
  then show ?thesis using settled by (simp add: settings_commit_def s1_def settled_round)
qed

definition settings_step :: "settings_event \<Rightarrow> settings \<Rightarrow> settings" where
  "settings_step e s = settings_commit (settings_apply e s)"

lemma ok_seen:
  assumes "settings_ok s"
  shows "st_forced_seen s = Some (forced s)" and "locked_form (st_form s)"
  using assms by (simp_all add: settings_ok_def settings_settled_def)

lemma quiet_commit:
  assumes "\<not> settings_dirty s" and "st_synced s = config_version s" and "locked_form (st_form s)"
  shows "st_form (settings_commit s) = st_form s \<and> st_baseline (settings_commit s) = st_baseline s \<and>
    st_synced (settings_commit s) = config_version s"
  using assms clean_round [OF assms]
  by (auto simp: settings_commit_def settled_round round_form round_synced synced_form_same forced_def lock_form_same)

lemma commit_frame [simp]:
  "st_props (settings_commit s) = st_props s" "st_tasks (settings_commit s) = st_tasks s"
  "st_saving (settings_commit s) = st_saving s" "st_message (settings_commit s) = st_message s"
  "config_version (settings_commit s) = config_version s"
  by (simp_all add: settings_commit_def)

lemma config_step:
  assumes "settings_ok s"
  shows "settings_dirty s \<Longrightarrow> st_form (settings_step (V_config p) s) = st_form s \<and>
      st_baseline (settings_step (V_config p) s) = st_baseline s \<and> st_synced (settings_step (V_config p) s) = st_synced s"
    and "\<not> settings_dirty s \<Longrightarrow> sp_version p \<noteq> st_synced s \<Longrightarrow>
      st_form (settings_step (V_config p) s) = buildFormState (sp_config p) \<and>
      st_baseline (settings_step (V_config p) s) = buildFormState (sp_config p) \<and>
      st_synced (settings_step (V_config p) s) = sp_version p"
  using dirty_commit [of "s\<lparr>st_props := p\<rparr>"] clean_commit [of "s\<lparr>st_props := p\<rparr>"] ok_seen [OF assms]
  by (simp_all add: settings_step_def dirty_iff forced_def synced_form_def config_version_def)

lemma discard_fields [simp]:
  "st_form (discardChanges s) = buildFormState (sp_config (st_props s))"
  "st_baseline (discardChanges s) = buildFormState (sp_config (st_props s))"
  "st_synced (discardChanges s) = config_version s" "st_props (discardChanges s) = st_props s"
  "config_version (discardChanges s) = config_version s"
  by (simp_all add: discardChanges_def sync_form_def config_version_def Let_def)

lemma discard_step:
  "st_form (settings_step V_discard s) = buildFormState (sp_config (st_props s)) \<and>
   st_baseline (settings_step V_discard s) = buildFormState (sp_config (st_props s)) \<and>
   st_synced (settings_step V_discard s) = config_version s"
  using quiet_commit [of "discardChanges s"]
  by (simp add: settings_step_def dirty_iff)

lemma config_step_props [simp]:
  "st_props (settings_step (V_config p) s) = p" "config_version (settings_step (V_config p) s) = sp_version p"
  by (simp_all add: settings_step_def config_version_def)

lemma discard_step_props [simp]:
  "st_props (settings_step V_discard s) = st_props s" "config_version (settings_step V_discard s) = config_version s"
  by (simp_all add: settings_step_def)

text \<open>
  C21. A refresh of the configuration never touches unsaved edits: with edits the form and what it
  is compared with stay as they are, and discarding the edits then shows the new configuration;
  without edits the form shows the new configuration at once. Either way nothing is left unsaved.
\<close>

theorem refresh_keeps_edits:
  assumes "settings_reachable s" and "sp_version p \<noteq> st_synced s"
  shows "let s' = settings_step (V_config p) s; new = buildFormState (sp_config p);
             shown = (if settings_dirty s then settings_step V_discard s' else s') in
    (settings_dirty s \<longrightarrow> st_form s' = st_form s \<and> st_baseline s' = st_baseline s \<and> configChangedWhileDirty s') \<and>
    st_form shown = new \<and> st_baseline shown = new \<and> \<not> settings_dirty shown \<and> \<not> configChangedWhileDirty shown"
  using config_step [OF reachable_ok [OF assms(1)]] discard_step assms(2)
  by (cases "settings_dirty s") (auto simp: Let_def configChangedWhileDirty_def dirty_iff)

text \<open>The panel as its host sees it.\<close>

definition form_kept :: "settings \<Rightarrow> settings \<Rightarrow> bool" where
  "form_kept s s' \<longleftrightarrow> (settings_dirty s \<longrightarrow> st_form s' = st_form s \<and> st_baseline s' = st_baseline s)"

interpretation settings_host: hosted_panel "\<lambda>p. settings_commit (initial_settings p)"
  "\<lambda>p s. settings_commit (settings_apply (V_config p) s)" settings_reachable st_props st_tasks form_kept
proof
  show "settings_reachable (settings_commit (initial_settings p))" for p by (rule settings_mounted)
  show "settings_reachable s \<Longrightarrow> settings_reachable (settings_commit (settings_apply (V_config p) s))" for s p
    by (erule settings_stepped) simp
  show "settings_reachable s \<Longrightarrow> form_kept s (settings_commit (settings_apply (V_config p) s))" for s p
    using config_step(1) [OF reachable_ok, of s p] by (simp add: form_kept_def settings_step_def)
qed (simp_all add: initial_settings_def)

section \<open>Saving\<close>

lemma step_ok: "settings_ok s \<Longrightarrow> settings_enabled e s \<Longrightarrow> settings_ok (settings_step e s)"
  by (simp add: settings_step_def commit_ok apply_pending)

lemma save_started:
  assumes "save_payload (st_form s) (sp_config (st_props s)) = Inr (c, a)"
  shows "settings_apply V_save s = s\<lparr>st_saving := True, st_message := txt_saving_dots,
    st_tasks := st_tasks s @ [S_save (st_form s) c a]\<rparr>"
  using assms by (simp add: saveConfig_def s_spawn_def Let_def)

lemma save_step:
  assumes "settings_ok s" and "settings_dirty s" and "save_payload (st_form s) (sp_config (st_props s)) = Inr (c, a)"
  shows "st_form (settings_step V_save s) = st_form s \<and> st_baseline (settings_step V_save s) = st_baseline s \<and>
    st_synced (settings_step V_save s) = st_synced s \<and> st_saving (settings_step V_save s) \<and>
    st_props (settings_step V_save s) = st_props s \<and> S_save (st_form s) c a \<in> set (st_tasks (settings_step V_save s))"
  using dirty_commit [of "settings_apply V_save s"] ok_seen [OF assms(1)] assms(2)
  unfolding settings_step_def save_started [OF assms(3)]
  by (simp add: dirty_iff forced_def)

definition saved_reply :: "settings_form \<Rightarrow> server_config \<Rightarrow> json \<Rightarrow> json \<Rightarrow> settings_event" where
  "saved_reply f c a v = V_reply (S_save f c a) (S_ok v)"

lemma saved_fields_step [simp]:
  "st_form (settings_apply (saved_reply f c a v) s) = st_form s"
  "st_baseline (settings_apply (saved_reply f c a v) s) = f"
  "st_synced (settings_apply (saved_reply f c a v) s) = st_synced s"
  "st_props (settings_apply (saved_reply f c a v) s) = st_props s"
  "\<not> st_saving (settings_apply (saved_reply f c a v) s)"
  "st_message (settings_apply (saved_reply f c a v) s) = txt_saved_hot"
  "config_version (settings_apply (saved_reply f c a v) s) = config_version s"
  by (simp_all add: saved_reply_def settings_saved_def s_toast_def config_version_def)

lemma saved_seen [simp]: "st_forced_seen (settings_apply (saved_reply f c a v) s) = st_forced_seen s"
  by (rule apply_seen)

lemma saved_step:
  assumes "settings_ok s" and "f = st_form s"
  shows "\<not> settings_dirty (settings_step (saved_reply f c a v) s) \<and> \<not> st_saving (settings_step (saved_reply f c a v) s) \<and>
    st_synced (settings_step (saved_reply f c a v) s) = config_version s \<and>
    st_message (settings_step (saved_reply f c a v) s) = txt_saved_hot \<and>
    st_form (settings_step (saved_reply f c a v) s) =
      (if st_synced s = config_version s then f else buildFormState (sp_config (st_props s)))"
  using clean_commit [of "settings_apply (saved_reply f c a v) s"] ok_seen [OF assms(1)] assms(2)
  by (simp add: settings_step_def dirty_iff forced_def synced_form_def)

lemma saved_edited_step:
  assumes "settings_ok s" and "f \<noteq> st_form s"
  shows "st_form (settings_step (saved_reply f c a v) s) = st_form s \<and>
    st_baseline (settings_step (saved_reply f c a v) s) = f \<and> \<not> st_saving (settings_step (saved_reply f c a v) s)"
  using dirty_commit [of "settings_apply (saved_reply f c a v) s"] ok_seen [OF assms(1)] assms(2)
  by (auto simp: settings_step_def dirty_iff forced_def)

definition settings_run :: "settings_event list \<Rightarrow> settings \<Rightarrow> settings" where
  "settings_run es s = fold settings_step es s"

lemma config_step_saving [simp]:
  "st_saving (settings_step (V_config p) s) = st_saving s" "st_message (settings_step (V_config p) s) = st_message s"
  "st_tasks (settings_step (V_config p) s) = st_tasks s"
  by (simp_all add: settings_step_def)

lemma save_then_config:
  assumes "settings_ok s" and "settings_dirty s" and "sp_version p \<noteq> st_synced s"
  shows "let s' = settings_step (saved_reply (st_form s) c a v) (settings_step (V_config p) s) in
    st_form s' = buildFormState (sp_config p) \<and> \<not> settings_dirty s' \<and> \<not> st_saving s' \<and> st_message s' = txt_saved_hot"
  using config_step(1) [OF assms(1,2), of p]
    saved_step [OF step_ok [OF assms(1)], of "V_config p" "st_form s" c a v] assms(3)
  by (auto simp: Let_def)

lemma config_then_save:
  assumes "settings_ok s" and "S_save (st_form s) c a \<in> set (st_tasks s)" and "sp_version p \<noteq> config_version s"
  shows "let s' = settings_step (V_config p) (settings_step (saved_reply (st_form s) c a v) s) in
    st_form s' = buildFormState (sp_config p) \<and> \<not> settings_dirty s' \<and> \<not> st_saving s' \<and> st_message s' = txt_saved_hot"
proof -
  define s2 where "s2 = settings_step (saved_reply (st_form s) c a v) s"
  have "settings_enabled (saved_reply (st_form s) c a v) s"
    using assms(2) by (simp add: saved_reply_def)
  then have "settings_ok s2" using assms(1) by (simp add: s2_def step_ok)
  moreover have "\<not> settings_dirty s2" "\<not> st_saving s2" "st_synced s2 = config_version s" "st_message s2 = txt_saved_hot"
    using saved_step [OF assms(1) refl] by (simp_all add: s2_def)
  ultimately show ?thesis
    using config_step(2) [of s2 p] assms(3) by (simp add: s2_def [symmetric] Let_def dirty_iff)
qed

text \<open>
  A save of an edited form ends: once it was answered and the configuration was read again, in
  either order, nothing is being saved or left unsaved, and the form shows the configuration
  that was read (so the password and API key inputs are empty).
\<close>

theorem save_ends_clean:
  assumes "settings_reachable s" and "settings_dirty s" and "\<not> st_saving s"
    and "save_payload (st_form s) (sp_config (st_props s)) = Inr (c, a)"
    and "sp_version p \<noteq> st_synced s" and "sp_version p \<noteq> config_version s"
    and "answer = saved_reply (st_form s) c a v"
    and "es = [V_config p, answer] \<or> es = [answer, V_config p]"
  shows "let s' = settings_run (V_save # es) s in
    st_form s' = buildFormState (sp_config p) \<and> \<not> settings_dirty s' \<and> \<not> st_saving s' \<and>
    sf_apiKey (st_form s') = [] \<and> sf_adminPassword (st_form s') = [] \<and> status_text s' = txt_saved_hot"
proof -
  have ok: "settings_ok s" by (rule reachable_ok) fact
  define s1 where "s1 = settings_step V_save s"
  have "settings_ok s1" using ok assms(3) by (simp add: s1_def step_ok)
  moreover have s1: "st_form s1 = st_form s" "st_baseline s1 = st_baseline s" "st_synced s1 = st_synced s"
      "config_version s1 = config_version s" "S_save (st_form s) c a \<in> set (st_tasks s1)"
    using save_step [OF ok assms(2,4)] by (simp_all add: s1_def config_version_def)
  moreover from s1 have "settings_dirty s1" using assms(2) by (simp add: dirty_iff)
  moreover have "txt_saved_hot \<noteq> []" by (simp add: txt_saved_hot_def)
  ultimately show ?thesis
    using assms(5-8) save_then_config [of s1 p c a v] config_then_save [of s1 c a p v]
    by (auto simp: settings_run_def s1_def [symmetric] Let_def build_fields status_text_def or_str_def)
qed

text \<open>
  A save of a form without edits may end with the form marked as edited: the configuration that was
  read again is adopted before the form that was saved becomes what it is compared with.
\<close>

theorem unedited_save_left_dirty:
  assumes "settings_reachable s" and "\<not> settings_dirty s" and "\<not> st_saving s"
    and "save_payload (st_form s) (sp_config (st_props s)) = Inr (c, a)"
    and "sp_version p \<noteq> config_version s" and "buildFormState (sp_config p) \<noteq> st_form s"
  shows "settings_dirty (settings_run [V_save, V_config p, saved_reply (st_form s) c a v] s) \<and>
    st_form (settings_run [V_save, V_config p, saved_reply (st_form s) c a v] s) = buildFormState (sp_config p)"
proof -
  have ok: "settings_ok s" by (rule reachable_ok) fact
  define s1 where "s1 = settings_step V_save s"
  have ok1: "settings_ok s1" using ok assms(3) by (simp add: s1_def step_ok)
  have synced: "st_synced s = config_version s" using ok assms(2) by (simp add: settings_ok_def settings_settled_def)
  then have s1: "st_form s1 = st_form s" "st_baseline s1 = st_form s" "st_synced s1 = config_version s"
    using clean_commit [of "settings_apply V_save s"] ok_seen [OF ok] assms(2)
    unfolding s1_def settings_step_def save_started [OF assms(4)]
    by (simp_all add: dirty_iff forced_def synced_form_def config_version_def)
  define s2 where "s2 = settings_step (V_config p) s1"
  have "settings_ok s2" using ok1 by (simp add: s2_def step_ok)
  moreover have "st_form s2 = buildFormState (sp_config p)"
    using config_step(2) [OF ok1, of p] s1 assms(5) by (simp add: s2_def dirty_iff)
  ultimately show ?thesis
    using saved_edited_step [of s2 "st_form s" c a v] assms(6)
    by (simp add: settings_run_def s1_def [symmetric] s2_def [symmetric] dirty_iff)
qed

section \<open>Samples\<close>

definition sample_props :: settings_props where
  "sample_props = \<lparr>sp_config = sample_config, sp_version = 0, sp_models = [], sp_models_version = 0\<rparr>"

definition sample_mounted :: settings where
  "sample_mounted = settings_commit (initial_settings sample_props)"

definition sample_edit :: settings_form where
  "sample_edit = (buildFormState sample_config)\<lparr>sf_host := js ''localhost''\<rparr>"

definition sample_edited :: settings where
  "sample_edited = settings_step (V_edit sample_edit) sample_mounted"

lemma mounted_fields:
  "st_form sample_mounted = buildFormState sample_config" "st_baseline sample_mounted = buildFormState sample_config"
  "st_synced sample_mounted = 0" "st_props sample_mounted = sample_props" "\<not> st_saving sample_mounted"
  using quiet_commit [of "initial_settings sample_props"]
  by (simp_all add: sample_mounted_def initial_settings_def dirty_iff config_version_def sample_props_def)

lemma mounted_reachable: "settings_reachable sample_mounted"
  unfolding sample_mounted_def by (rule settings_mounted)

lemma edited_reachable: "settings_reachable sample_edited"
  unfolding sample_edited_def settings_step_def
  by (rule settings_stepped [OF mounted_reachable]) (simp add: form_change_allowed_def mounted_fields sample_edit_def)

lemma sample_edit_differs: "sample_edit \<noteq> buildFormState sample_config"
proof -
  have "sf_host sample_edit \<noteq> sf_host (buildFormState sample_config)"
    by (simp add: sample_edit_def buildFormState_def with_prompt_strategy_def sample_config_def js_def)
  then show ?thesis by auto
qed

lemma edited_fields:
  "st_form sample_edited = sample_edit" "st_baseline sample_edited = buildFormState sample_config"
  "st_synced sample_edited = 0" "st_props sample_edited = sample_props" "\<not> st_saving sample_edited"
  using dirty_commit [of "settings_apply (V_edit sample_edit) sample_mounted"] sample_edit_differs
    ok_seen [OF reachable_ok [OF mounted_reachable]]
  by (auto simp: sample_edited_def settings_step_def dirty_iff mounted_fields forced_def sample_edit_def)

definition sample_saved_props :: settings_props where
  "sample_saved_props = \<lparr>sp_config = saved_config sample_edit sample_config, sp_version = 2, sp_models = [],
     sp_models_version = 2\<rparr>"

lemma sample_payload:
  "save_payload sample_edit sample_config =
     Inr (saved_config sample_edit sample_config, string_object (opt_list (cfg_model_aliases sample_config)))"
  using aliases_read [of sample_config] by (simp add: save_payload_def sample_edit_def build_fields(44))

lemma settings_reachable_ok_witness:
  "settings_round sample_edited = sample_edited \<and> st_reported sample_edited = Some True"
  using settings_reachable_ok [OF edited_reachable] sample_edit_differs by (simp add: dirty_iff edited_fields)

lemma refresh_keeps_edits_witness:
  "st_form (settings_step (V_config sample_saved_props) sample_edited) = sample_edit \<and>
   configChangedWhileDirty (settings_step (V_config sample_saved_props) sample_edited) \<and>
   st_form (settings_step V_discard (settings_step (V_config sample_saved_props) sample_edited)) =
     buildFormState (saved_config sample_edit sample_config)"
  using refresh_keeps_edits [OF edited_reachable, of sample_saved_props] sample_edit_differs
  by (simp add: dirty_iff edited_fields Let_def) (simp add: sample_saved_props_def)

lemma save_ends_clean_witness:
  "\<exists>answer. st_form (settings_run [V_save, V_config sample_saved_props, answer] sample_edited) =
     buildFormState (saved_config sample_edit sample_config) \<and>
   \<not> settings_dirty (settings_run [V_save, V_config sample_saved_props, answer] sample_edited)"
proof -
  define answer where "answer = saved_reply (st_form sample_edited) (saved_config sample_edit sample_config)
    (string_object (opt_list (cfg_model_aliases sample_config))) JNull"
  have dirty: "settings_dirty sample_edited" using sample_edit_differs by (simp add: dirty_iff edited_fields)
  have payload: "save_payload (st_form sample_edited) (sp_config (st_props sample_edited)) =
      Inr (saved_config sample_edit sample_config, string_object (opt_list (cfg_model_aliases sample_config)))"
    using sample_payload by (simp add: edited_fields sample_props_def)
  have version: "sp_version sample_saved_props \<noteq> st_synced sample_edited"
      "sp_version sample_saved_props \<noteq> config_version sample_edited"
    by (simp_all add: edited_fields config_version_def sample_props_def sample_saved_props_def)
  show ?thesis
    using save_ends_clean [OF edited_reachable dirty edited_fields(5) payload version answer_def disjI1 [OF refl]]
    unfolding Let_def by (auto simp: sample_saved_props_def)
qed

definition trimmed_props :: settings_props where
  "trimmed_props = \<lparr>sp_config = saved_config (buildFormState sample_config) sample_config, sp_version = 2,
     sp_models = [], sp_models_version = 2\<rparr>"

lemma trimmed_host: "buildFormState (sp_config trimmed_props) \<noteq> buildFormState sample_config"
proof -
  have "trim (js '' h '') \<noteq> js '' h ''" by code_simp
  then have "sf_host (buildFormState (sp_config trimmed_props)) \<noteq> sf_host (buildFormState sample_config)"
    unfolding trimmed_props_def by (simp add: build_fields(1) saved_fields(2) opt_str_def) (simp add: sample_config_def)
  then show ?thesis by auto
qed

lemma unedited_save_left_dirty_witness:
  "settings_dirty (settings_run [V_save, V_config trimmed_props,
     saved_reply (buildFormState sample_config) (sp_config trimmed_props)
       (string_object (opt_list (cfg_model_aliases sample_config))) JNull] sample_mounted)"
proof -
  have "save_payload (st_form sample_mounted) (sp_config (st_props sample_mounted)) =
      Inr (sp_config trimmed_props, string_object (opt_list (cfg_model_aliases sample_config)))"
    using aliases_read [of sample_config]
    by (simp add: mounted_fields sample_props_def save_payload_def build_fields(44) trimmed_props_def)
  moreover have "sp_version trimmed_props \<noteq> config_version sample_mounted"
    by (simp add: mounted_fields config_version_def sample_props_def trimmed_props_def)
  moreover have "\<not> settings_dirty sample_mounted" by (simp add: dirty_iff mounted_fields)
  ultimately show ?thesis
    using unedited_save_left_dirty [OF mounted_reachable _ mounted_fields(5), of _ _ trimmed_props JNull] trimmed_host
    by (simp add: mounted_fields)
qed

end
