(* ===== verification/View_Texts.thy ===== *)
theory View_Texts imports Panel_Texts begin

text \<open>
  The string literals of the markup that are not ASCII, as UTF-16 code units, each with an English gloss.
\<close>

text \<open>\<open>txt_se_nav_runtime\<close>: listening address, default model and polling.\<close>

definition txt_se_nav_runtime :: jsstr where
  "txt_se_nav_runtime = [0x76D1, 0x542C, 0x5165, 0x53E3, 0x3001, 0x9ED8, 0x8BA4, 0x6A21, 0x578B, 0x4E0E, 0x8F6E,
     0x8BE2, 0x8282, 0x594F, 0x3002]"

text \<open>\<open>txt_se_upstream\<close>: upstream connection (advanced).\<close>

definition txt_se_upstream :: jsstr where
  "txt_se_upstream = [0x4E0A, 0x6E38, 0x8FDE, 0x63A5, 0xFF08, 0x9AD8, 0x7EA7, 0xFF09]"

text \<open>\<open>txt_se_nav_upstream\<close>: upstream address, TLS, origin, proxy.\<close>

definition txt_se_nav_upstream :: jsstr where
  "txt_se_nav_upstream = [0x4E0A, 0x6E38, 0x5730, 0x5740, 0x3001, 84, 76, 83, 0x3001, 79, 114, 105, 103, 105, 110,
     0x3001, 0x4EE3, 0x7406, 0x3002]"

text \<open>\<open>txt_se_behavior\<close>: chat and protocol.\<close>

definition txt_se_behavior :: jsstr where
  "txt_se_behavior = [0x804A, 0x5929, 0x4E0E, 0x534F, 0x8BAE]"

text \<open>\<open>txt_se_nav_behavior\<close>: guards, default capabilities, AI surface.\<close>

definition txt_se_nav_behavior :: jsstr where
  "txt_se_nav_behavior = [0x884C, 0x4E3A, 0x5B88, 0x62A4, 0x3001, 0x9ED8, 0x8BA4, 0x80FD, 0x529B, 0x4F4D, 0x3001,
     65, 73, 32, 83, 117, 114, 102, 97, 99, 101, 0x3002]"

text \<open>\<open>txt_se_prompt\<close>: prompt strategy.\<close>

definition txt_se_prompt :: jsstr where
  "txt_se_prompt = [0x63D0, 0x793A, 0x8BCD, 0x7B56, 0x7565]"

text \<open>\<open>txt_se_nav_prompt\<close>: profile routing, retries, immediate test.\<close>

definition txt_se_nav_prompt :: jsstr where
  "txt_se_nav_prompt = [0x8DEF, 0x7531, 32, 112, 114, 111, 102, 105, 108, 101, 0x3001, 0x91CD, 0x8BD5, 0x94FE,
     0x8DEF, 0x3001, 0x5373, 0x65F6, 0x6D4B, 0x8BD5, 0x3002]"

text \<open>\<open>txt_se_security\<close>: security and storage.\<close>

definition txt_se_security :: jsstr where
  "txt_se_security = [0x5B89, 0x5168, 0x4E0E, 0x5B58, 0x50A8]"

text \<open>\<open>txt_se_nav_security\<close>: admin password, login directory, SQLite.\<close>

definition txt_se_nav_security :: jsstr where
  "txt_se_nav_security = [0x7BA1, 0x7406, 0x9762, 0x5BC6, 0x7801, 0x3001, 0x767B, 0x5F55, 0x76EE, 0x5F55, 0x3001,
     83, 81, 76, 105, 116, 101, 32, 0x6301, 0x4E45, 0x5316, 0x3002]"

text \<open>\<open>txt_se_advanced\<close>: debugging and model mapping.\<close>

definition txt_se_advanced :: jsstr where
  "txt_se_advanced = [0x8C03, 0x8BD5, 0x4E0E, 0x6A21, 0x578B, 0x6620, 0x5C04]"

text \<open>\<open>txt_se_nav_advanced\<close>: debug switch, lists and structured settings.\<close>

definition txt_se_nav_advanced :: jsstr where
  "txt_se_nav_advanced = [0x8C03, 0x8BD5, 0x5F00, 0x5173, 0x3001, 0x5217, 0x8868, 0x578B, 0x4E0E, 0x7ED3, 0x6784,
     0x5316, 0x9AD8, 0x7EA7, 0x914D, 0x7F6E, 0x3002]"

text \<open>\<open>txt_se_files\<close>: configuration files.\<close>

definition txt_se_files :: jsstr where
  "txt_se_files = [0x914D, 0x7F6E, 0x6587, 0x4EF6]"

text \<open>\<open>txt_se_nav_files\<close>: import, export and snapshots.\<close>

definition txt_se_nav_files :: jsstr where
  "txt_se_nav_files = [0x5BFC, 0x5165, 0x3001, 0x5BFC, 0x51FA, 0x4E0E, 0x5FEB, 0x7167, 0x3002]"

text \<open>\<open>txt_se_categories\<close>: categories of the settings.\<close>

definition txt_se_categories :: jsstr where
  "txt_se_categories = [0x8BBE, 0x7F6E, 0x5206, 0x7C7B]"

text \<open>\<open>txt_se_forced_text\<close>: upstream edits are off by default.\<close>

definition txt_se_forced_text :: jsstr where
  "txt_se_forced_text = [0x9ED8, 0x8BA4, 0x5173, 0x95ED, 0x4E0A, 0x6E38, 0x7F16, 0x8F91, 0x6001, 0xFF0C, 0x907F,
     0x514D, 0x8FDB, 0x5165, 0x9875, 0x9762, 0x521B, 0x5EFA, 0x6216, 0x5199, 0x5165, 0x5206,
     0x652F, 0x3002]"

text \<open>\<open>txt_se_forced_hint\<close>: locks Read Only and turns Writer Mode off.\<close>

definition txt_se_forced_hint :: jsstr where
  "txt_se_forced_hint = [0x5F00, 0x542F, 0x540E, 0x4F1A, 0x81EA, 0x52A8, 0x9501, 0x5B9A, 32, 82, 101, 97, 100, 32,
     79, 110, 108, 121, 0xFF0C, 0x5E76, 0x540C, 0x6B65, 0x5173, 0x95ED, 32, 87, 114, 105, 116,
     101, 114, 32, 77, 111, 100, 101, 0x3002]"

text \<open>\<open>txt_se_fresh\<close>: a new thread for every request.\<close>

definition txt_se_fresh :: jsstr where
  "txt_se_fresh = [0x6BCF, 0x6B21, 0x8BF7, 0x6C42, 0x65B0, 0x5EFA, 32, 84, 104, 114, 101, 97, 100]"

text \<open>\<open>txt_se_fresh_text\<close>: ignore the continuation of the upstream thread.\<close>

definition txt_se_fresh_text :: jsstr where
  "txt_se_fresh_text = [0x5FFD, 0x7565, 0x4E0A, 0x6E38, 32, 99, 111, 110, 116, 105, 110, 117, 97, 116, 105, 111,
     110, 0xFF0C, 0x6240, 0x6709, 0x8BF7, 0x6C42, 0x90FD, 0x65B0, 0x5F00, 32, 116, 104, 114,
     101, 97, 100, 0xFF0C, 0x5E76, 0x5C3D, 0x91CF, 0x7528, 0x5B8C, 0x6574, 0x4E0A, 0x4E0B,
     0x6587, 0x91CD, 0x653E, 0x3002]"

text \<open>\<open>txt_se_fresh_hint\<close>: against repeated refusals in one thread.\<close>

definition txt_se_fresh_hint :: jsstr where
  "txt_se_fresh_hint = [0x9002, 0x5408, 0x89C4, 0x907F, 0x540C, 0x4E00, 0x4E0A, 0x6E38, 32, 116, 104, 114, 101,
     97, 100, 32, 0x5185, 0x8FDE, 0x7EED, 0x62D2, 0x7B54, 0x3001, 0x91CD, 0x590D, 0x9053,
     0x6B49, 0x6216, 32, 99, 111, 110, 116, 105, 110, 117, 97, 116, 105, 111, 110, 32, 0x534F,
     0x8BAE, 0x6F02, 0x79FB, 0x3002]"

text \<open>\<open>txt_se_read_only_text\<close>: blocks writes, keeps search, answers and summaries.\<close>

definition txt_se_read_only_text :: jsstr where
  "txt_se_read_only_text = [0x62E6, 0x622A, 0x534F, 0x8BAE, 0x5C42, 0x5199, 0x64CD, 0x4F5C, 0xFF0C, 0x4FDD, 0x7559,
     0x68C0, 0x7D22, 0x3001, 0x95EE, 0x7B54, 0x548C, 0x603B, 0x7ED3, 0x7C7B, 0x80FD, 0x529B,
     0x3002]"

text \<open>\<open>txt_se_read_only_forced\<close>: held by forcing edits off.\<close>

definition txt_se_read_only_forced :: jsstr where
  "txt_se_read_only_forced = [0x5F53, 0x524D, 0x7531, 0x201C, 0x5F3A, 0x5236, 0x5173, 0x95ED, 0x53EF, 0x4EE5, 0x8FDB,
     0x884C, 0x66F4, 0x6539, 0x201D, 0x6258, 0x7BA1, 0x3002]"

text \<open>\<open>txt_se_writer_text\<close>: whether the upstream leans to writing.\<close>

definition txt_se_writer_text :: jsstr where
  "txt_se_writer_text = [0x63A7, 0x5236, 0x4E0A, 0x6E38, 0x662F, 0x5426, 0x504F, 0x5411, 0x5185, 0x5BB9, 0x521B,
     0x4F5C, 0x4E0E, 0x5199, 0x5165, 0x573A, 0x666F, 0xFF1B, 0x751F, 0x4EA7, 0x9ED8, 0x8BA4,
     0x5EFA, 0x8BAE, 0x5173, 0x95ED, 0x3002]"

text \<open>\<open>txt_se_writer_forced\<close>: forced off.\<close>

definition txt_se_writer_forced :: jsstr where
  "txt_se_writer_forced = [0x5F53, 0x524D, 0x5DF2, 0x88AB, 0x5F3A, 0x5236, 0x5173, 0x95ED, 0x3002]"

text \<open>\<open>txt_se_web_text\<close>: web search as the default capability.\<close>

definition txt_se_web_text :: jsstr where
  "txt_se_web_text = [0x628A, 32, 87, 101, 98, 32, 83, 101, 97, 114, 99, 104, 32, 0x4F5C, 0x4E3A, 0x9ED8,
     0x8BA4, 0x80FD, 0x529B, 0x66B4, 0x9732, 0x7ED9, 0x4E0A, 0x5C42, 0x8BF7, 0x6C42, 0xFF0C,
     0x4ECD, 0x53EF, 0x5728, 0x5355, 0x6B21, 0x8BF7, 0x6C42, 0x4E2D, 0x8986, 0x5199, 0x3002]"

text \<open>\<open>txt_se_images\<close>: generate images.\<close>

definition txt_se_images :: jsstr where
  "txt_se_images = [0x751F, 0x6210, 0x56FE, 0x7247]"

text \<open>\<open>txt_se_images_text\<close>: allow the image capability.\<close>

definition txt_se_images_text :: jsstr where
  "txt_se_images_text = [0x5141, 0x8BB8, 0x8D70, 0x56FE, 0x7247, 0x751F, 0x6210, 0x80FD, 0x529B, 0x4F4D, 0xFF0C,
     0x9002, 0x5408, 0x9700, 0x8981, 0x56FE, 0x50CF, 0x56DE, 0x4F20, 0x7684, 0x524D, 0x7AEF,
     0x6216, 32, 65, 80, 73, 32, 0x573A, 0x666F, 0x3002]"

text \<open>\<open>txt_se_csv_text\<close>: CSV upload and attachments.\<close>

definition txt_se_csv_text :: jsstr where
  "txt_se_csv_text = [0x5F00, 0x542F, 32, 67, 83, 86, 32, 0x4E0A, 0x4F20, 0x4E0E, 0x9644, 0x4EF6, 0x4F20,
     0x9012, 0x80FD, 0x529B, 0xFF0C, 0x4FBF, 0x4E8E, 0x8868, 0x683C, 0x6570, 0x636E, 0x56DE,
     0x5F52, 0x6D4B, 0x8BD5, 0x3002]"

text \<open>\<open>txt_se_intro\<close>: change the settings by category, save them together.\<close>

definition txt_se_intro :: jsstr where
  "txt_se_intro = [0x6309, 0x5206, 0x7C7B, 0x8C03, 0x6574, 0x914D, 0x7F6E, 0xFF0C, 0x6240, 0x6709, 0x4FEE,
     0x6539, 0x7EDF, 0x4E00, 0x4FDD, 0x5B58, 0x3002]"

text \<open>\<open>txt_se_discard\<close>: discard changes.\<close>

definition txt_se_discard :: jsstr where
  "txt_se_discard = [0x653E, 0x5F03, 0x4FEE, 0x6539]"

text \<open>\<open>txt_se_save\<close>: save settings.\<close>

definition txt_se_save :: jsstr where
  "txt_se_save = [0x4FDD, 0x5B58, 0x8BBE, 0x7F6E]"

text \<open>\<open>txt_se_runtime\<close>: common settings.\<close>

definition txt_se_runtime :: jsstr where
  "txt_se_runtime = [0x5E38, 0x7528, 0x8BBE, 0x7F6E]"

text \<open>\<open>txt_se_runtime_text\<close>: listening address, default model, runtime parameters.\<close>

definition txt_se_runtime_text :: jsstr where
  "txt_se_runtime_text = [0x914D, 0x7F6E, 0x76D1, 0x542C, 0x5730, 0x5740, 0x3001, 0x9ED8, 0x8BA4, 0x6A21, 0x578B,
     0x548C, 0x8FD0, 0x884C, 0x53C2, 0x6570, 0x3002]"

text \<open>\<open>txt_se_listen\<close>: local listener.\<close>

definition txt_se_listen :: jsstr where
  "txt_se_listen = [0x672C, 0x5730, 0x76D1, 0x542C]"

text \<open>\<open>txt_se_listen_text\<close>: one entry for the admin pages and the API.\<close>

definition txt_se_listen_text :: jsstr where
  "txt_se_listen_text = [0x914D, 0x7F6E, 0x7BA1, 0x7406, 0x9762, 0x548C, 32, 65, 80, 73, 32, 0x7684, 0x7EDF,
     0x4E00, 0x76D1, 0x542C, 0x5165, 0x53E3, 0x3002]"

text \<open>\<open>txt_se_host\<close>: listening host.\<close>

definition txt_se_host :: jsstr where
  "txt_se_host = [0x76D1, 0x542C, 32, 72, 111, 115, 116]"

text \<open>\<open>txt_se_host_text\<close>: empty listens on all interfaces.\<close>

definition txt_se_host_text :: jsstr where
  "txt_se_host_text = [0x7559, 0x7A7A, 0x901A, 0x5E38, 0x7B49, 0x4EF7, 0x4E8E, 0x76D1, 0x542C, 0x6240, 0x6709,
     0x7F51, 0x5361, 0x3002]"

text \<open>\<open>txt_se_port\<close>: listening port.\<close>

definition txt_se_port :: jsstr where
  "txt_se_port = [0x76D1, 0x542C, 32, 80, 111, 114, 116]"

text \<open>\<open>txt_se_port_text\<close>: 8787 by default.\<close>

definition txt_se_port_text :: jsstr where
  "txt_se_port_text = [0x9ED8, 0x8BA4, 32, 56, 55, 56, 55, 0xFF0C, 0x5EFA, 0x8BAE, 0x914D, 0x5408, 0x53CD,
     0x4EE3, 0x7EDF, 0x4E00, 0x66B4, 0x9732, 0x3002]"

text \<open>\<open>txt_se_key_text\<close>: empty keeps the present key.\<close>

definition txt_se_key_text :: jsstr where
  "txt_se_key_text = [0x7559, 0x7A7A, 0x8868, 0x793A, 0x4FDD, 0x6301, 0x73B0, 0x72B6, 0xFF0C, 0x4E0D, 0x4E3B,
     0x52A8, 0x8986, 0x76D6, 0x5DF2, 0x6709, 0x5BC6, 0x94A5, 0x3002]"

text \<open>\<open>txt_se_keep_key\<close>: empty changes nothing.\<close>

definition txt_se_keep_key :: jsstr where
  "txt_se_keep_key = [0x7559, 0x7A7A, 0x8868, 0x793A, 0x4E0D, 0x4FEE, 0x6539]"

text \<open>\<open>txt_se_model\<close>: default model.\<close>

definition txt_se_model :: jsstr where
  "txt_se_model = [0x9ED8, 0x8BA4, 0x6A21, 0x578B]"

text \<open>\<open>txt_se_model_text\<close>: fallback of requests that name no model.\<close>

definition txt_se_model_text :: jsstr where
  "txt_se_model_text = [0x4F5C, 0x4E3A, 0x65E0, 0x663E, 0x5F0F, 0x6A21, 0x578B, 0x8BF7, 0x6C42, 0x65F6, 0x7684,
     0x515C, 0x5E95, 0x9009, 0x62E9, 0x3002]"

text \<open>\<open>txt_se_response\<close>: advanced response parameters.\<close>

definition txt_se_response :: jsstr where
  "txt_se_response = [0x9AD8, 0x7EA7, 0x54CD, 0x5E94, 0x53C2, 0x6570]"

text \<open>\<open>txt_se_rhythm\<close>: timeouts and polling.\<close>

definition txt_se_rhythm :: jsstr where
  "txt_se_rhythm = [0x8D85, 0x65F6, 0x4E0E, 0x8F6E, 0x8BE2, 0x8282, 0x594F]"

text \<open>\<open>txt_se_rhythm_text\<close>: timeout, polling, cache and chunk parameters.\<close>

definition txt_se_rhythm_text :: jsstr where
  "txt_se_rhythm_text = [0x914D, 0x7F6E, 0x8D85, 0x65F6, 0x3001, 0x8F6E, 0x8BE2, 0x95F4, 0x9694, 0x3001, 0x7F13,
     0x5B58, 0x4FDD, 0x7559, 0x548C, 0x6D41, 0x5F0F, 0x5206, 0x5757, 0x53C2, 0x6570, 0x3002]"

text \<open>\<open>txt_se_timeout_text\<close>: total timeout of an upstream request.\<close>

definition txt_se_timeout_text :: jsstr where
  "txt_se_timeout_text = [0x5355, 0x6B21, 0x4E0A, 0x6E38, 0x8BF7, 0x6C42, 0x7684, 0x603B, 0x8D85, 0x65F6, 0x3002]"

text \<open>\<open>txt_se_ttl_text\<close>: how long responses are kept.\<close>

definition txt_se_ttl_text :: jsstr where
  "txt_se_ttl_text = [47, 118, 49, 47, 114, 101, 115, 112, 111, 110, 115, 101, 115, 32, 0x7ED3, 0x679C, 0x5728,
     0x672C, 0x5730, 0x7F13, 0x5B58, 0x7684, 0x4FDD, 0x7559, 0x65F6, 0x95F4, 0x3002]"

text \<open>\<open>txt_se_poll_text\<close>: interval of polling.\<close>

definition txt_se_poll_text :: jsstr where
  "txt_se_poll_text = [0x8F6E, 0x8BE2, 0x54CD, 0x5E94, 0x72B6, 0x6001, 0x7684, 0x65F6, 0x95F4, 0x95F4, 0x9694,
     0x3002]"

text \<open>\<open>txt_se_rounds_text\<close>: most rounds of polling.\<close>

definition txt_se_rounds_text :: jsstr where
  "txt_se_rounds_text = [0x6700, 0x5927, 0x8F6E, 0x8BE2, 0x6B21, 0x6570, 0xFF0C, 0x51B3, 0x5B9A, 0x7B49, 0x5F85,
     0x4E0A, 0x9650, 0x3002]"

text \<open>\<open>txt_se_chunk_text\<close>: size of a streamed piece.\<close>

definition txt_se_chunk_text :: jsstr where
  "txt_se_chunk_text = [0x63A7, 0x5236, 0x6D41, 0x5F0F, 0x56DE, 0x4F20, 0x7684, 0x6587, 0x672C, 0x5207, 0x7247,
     0x9897, 0x7C92, 0x5EA6, 0x3002]"

text \<open>\<open>txt_se_upstream_text\<close>: upstream address, headers, TLS and proxy.\<close>

definition txt_se_upstream_text :: jsstr where
  "txt_se_upstream_text = [0x914D, 0x7F6E, 0x4E0A, 0x6E38, 0x5730, 0x5740, 0x3001, 0x8BF7, 0x6C42, 0x5934, 0x900F,
     0x4F20, 0x3001, 84, 76, 83, 32, 0x548C, 0x73AF, 0x5883, 0x4EE3, 0x7406, 0x3002]"

text \<open>\<open>txt_se_endpoint\<close>: upstream address and headers.\<close>

definition txt_se_endpoint :: jsstr where
  "txt_se_endpoint = [0x4E0A, 0x6E38, 0x5730, 0x5740, 0x4E0E, 0x8BF7, 0x6C42, 0x5934]"

text \<open>\<open>txt_se_endpoint_text\<close>: base URL, origin, host header, TLS name.\<close>

definition txt_se_endpoint_text :: jsstr where
  "txt_se_endpoint_text = [0x914D, 0x7F6E, 0x4E0A, 0x6E38, 32, 98, 97, 115, 101, 32, 85, 82, 76, 0x3001, 79, 114,
     105, 103, 105, 110, 0x3001, 72, 111, 115, 116, 32, 72, 101, 97, 100, 101, 114, 32,
     0x548C, 32, 84, 76, 83, 32, 0x540D, 0x79F0, 0x3002]"

text \<open>\<open>txt_se_base_text\<close>: base address of the requests.\<close>

definition txt_se_base_text :: jsstr where
  "txt_se_base_text = [0x771F, 0x5B9E, 0x8BF7, 0x6C42, 0x6295, 0x9012, 0x7684, 0x57FA, 0x7840, 0x5730, 0x5740,
     0x3002]"

text \<open>\<open>txt_se_origin_text\<close>: some upstreams check the origin.\<close>

definition txt_se_origin_text :: jsstr where
  "txt_se_origin_text = [0x90E8, 0x5206, 0x4E0A, 0x6E38, 0x4F1A, 0x6821, 0x9A8C, 32, 79, 114, 105, 103, 105, 110,
     0xFF1B, 0x9ED8, 0x8BA4, 0x8DDF, 0x968F, 32, 66, 97, 115, 101, 32, 85, 82, 76, 0x3002]"

text \<open>\<open>txt_se_host_header_text\<close>: for reverse proxies and virtual hosts.\<close>

definition txt_se_host_header_text :: jsstr where
  "txt_se_host_header_text = [0x53CD, 0x4EE3, 0x3001, 118, 104, 111, 115, 116, 32, 0x6216, 32, 83, 78, 73, 32, 0x524D,
     0x7F6E, 0x573A, 0x666F, 0x5E38, 0x7528, 0x3002]"

text \<open>\<open>txt_se_tls_text\<close>: overrides the TLS server name.\<close>

definition txt_se_tls_text :: jsstr where
  "txt_se_tls_text = [0x7528, 0x4E8E, 0x8986, 0x76D6, 32, 84, 76, 83, 32, 83, 78, 73, 0xFF0C, 0x6392, 0x67E5,
     32, 117, 110, 114, 101, 99, 111, 103, 110, 105, 122, 101, 100, 32, 110, 97, 109, 101, 32,
     0x5F88, 0x5173, 0x952E, 0x3002]"

text \<open>\<open>txt_se_proxy\<close>: environment proxy.\<close>

definition txt_se_proxy :: jsstr where
  "txt_se_proxy = [0x73AF, 0x5883, 0x4EE3, 0x7406, 0x900F, 0x4F20]"

text \<open>\<open>txt_se_proxy_text\<close>: when a system proxy is needed.\<close>

definition txt_se_proxy_text :: jsstr where
  "txt_se_proxy_text = [0x5F53, 0x670D, 0x52A1, 0x8FD0, 0x884C, 0x5728, 0x9700, 0x8981, 0x7CFB, 0x7EDF, 0x4EE3,
     0x7406, 0x3001, 0x5BB9, 0x5668, 0x4EE3, 0x7406, 0x6216, 0x7279, 0x5B9A, 0x51FA, 0x53E3,
     0x7F51, 0x7EDC, 0x7684, 0x73AF, 0x5883, 0x4E2D, 0x65F6, 0x542F, 0x7528, 0x3002]"

text \<open>\<open>txt_se_inherit\<close>: inherit HTTP_PROXY and HTTPS_PROXY.\<close>

definition txt_se_inherit :: jsstr where
  "txt_se_inherit = [0x7EE7, 0x627F, 32, 72, 84, 84, 80, 95, 80, 82, 79, 88, 89, 32, 47, 32, 72, 84, 84, 80,
     83, 95, 80, 82, 79, 88, 89]"

text \<open>\<open>txt_se_inherit_text\<close>: only when a system proxy is needed.\<close>

definition txt_se_inherit_text :: jsstr where
  "txt_se_inherit_text = [0x4EC5, 0x5728, 0x9700, 0x8981, 0x4F7F, 0x7528, 0x7CFB, 0x7EDF, 0x4EE3, 0x7406, 0x65F6,
     0x5F00, 0x542F, 0x3002]"

text \<open>\<open>txt_se_request_default\<close>: the default of the request.\<close>

definition txt_se_request_default :: jsstr where
  "txt_se_request_default = [0x4F7F, 0x7528, 0x8BF7, 0x6C42, 0x9ED8, 0x8BA4, 0x503C]"

text \<open>\<open>txt_se_behavior_text\<close>: guards and default capabilities.\<close>

definition txt_se_behavior_text :: jsstr where
  "txt_se_behavior_text = [0x914D, 0x7F6E, 0x534F, 0x8BAE, 0x884C, 0x4E3A, 0x5B88, 0x62A4, 0x548C, 0x9ED8, 0x8BA4,
     0x80FD, 0x529B, 0x5F00, 0x5173, 0x3002]"

text \<open>\<open>txt_se_guards\<close>: writing and guards.\<close>

definition txt_se_guards :: jsstr where
  "txt_se_guards = [0x5199, 0x5165, 0x4E0E, 0x884C, 0x4E3A, 0x5B88, 0x62A4]"

text \<open>\<open>txt_se_guards_text\<close>: whether the upstream may write.\<close>

definition txt_se_guards_text :: jsstr where
  "txt_se_guards_text = [0x63A7, 0x5236, 0x662F, 0x5426, 0x5141, 0x8BB8, 0x4E0A, 0x6E38, 0x8FDB, 0x5165, 0x53EF,
     0x5199, 0x8DEF, 0x5F84, 0x3002]"

text \<open>\<open>txt_se_flags\<close>: default capabilities.\<close>

definition txt_se_flags :: jsstr where
  "txt_se_flags = [0x9ED8, 0x8BA4, 0x80FD, 0x529B, 0x4F4D]"

text \<open>\<open>txt_se_flags_text\<close>: web, image and CSV capabilities.\<close>

definition txt_se_flags_text :: jsstr where
  "txt_se_flags_text = [0x914D, 0x7F6E, 0x9ED8, 0x8BA4, 0x8054, 0x7F51, 0x3001, 0x56FE, 0x7247, 0x548C, 32, 67,
     83, 86, 32, 0x7B49, 0x80FD, 0x529B, 0x3002]"

text \<open>\<open>txt_se_surface_text\<close>: name of the AI surface.\<close>

definition txt_se_surface_text :: jsstr where
  "txt_se_surface_text = [0x4E0A, 0x6E38, 0x8BF7, 0x6C42, 0x6240, 0x4F7F, 0x7528, 0x7684, 32, 65, 73, 32, 0x5165,
     0x53E3, 0x540D, 0x3002]"

text \<open>\<open>txt_se_thread_text\<close>: type of the thread.\<close>

definition txt_se_thread_text :: jsstr where
  "txt_se_thread_text = [0x5BF9, 0x8BDD, 0x7EBF, 0x7A0B, 0x7C7B, 0x578B, 0x3002]"

text \<open>\<open>txt_se_tools\<close>: tool policy.\<close>

definition txt_se_tools :: jsstr where
  "txt_se_tools = [0x5DE5, 0x5177, 0x8C03, 0x7528, 0x7B56, 0x7565]"

text \<open>\<open>txt_se_tools_text\<close>: tool switches are saved as off.\<close>

definition txt_se_tools_text :: jsstr where
  "txt_se_tools_text = [0x5F53, 0x524D, 0x4FDD, 0x5B58, 0x903B, 0x8F91, 0x4F1A, 0x6301, 0x7EED, 0x628A, 0x5B98,
     0x65B9, 0x5DE5, 0x5177, 0x8C03, 0x7528, 0x76F8, 0x5173, 0x5F00, 0x5173, 0x5199, 0x6B7B,
     0x4E3A, 0x5173, 0x95ED, 0xFF0C, 0x4F18, 0x5148, 0x4FDD, 0x8BC1, 0x804A, 0x5929, 0x56DE,
     0x590D, 0x8DEF, 0x5F84, 0x7A33, 0x5B9A, 0xFF0C, 0x4E0D, 0x628A, 0x9875, 0x9762, 0x521B,
     0x5EFA, 0x7C7B, 0x52A8, 0x4F5C, 0x6DF7, 0x5165, 0x666E, 0x901A, 0x5BF9, 0x8BDD, 0x3002]"

text \<open>\<open>txt_se_prompt_text\<close>: edit profile, retries and samples.\<close>

definition txt_se_prompt_text :: jsstr where
  "txt_se_prompt_text = [0x5728, 0x7EBF, 0x7F16, 0x8F91, 32, 112, 114, 111, 102, 105, 108, 101, 0x3001, 0x91CD,
     0x8BD5, 0x94FE, 0x8DEF, 0x4E0E, 0x6D4B, 0x8BD5, 0x6837, 0x672C, 0x3002]"

text \<open>\<open>txt_se_restore\<close>: restore the default.\<close>

definition txt_se_restore :: jsstr where
  "txt_se_restore = [0x6062, 0x590D, 0x9ED8, 0x8BA4]"

text \<open>\<open>txt_se_import_strategy\<close>: import a strategy.\<close>

definition txt_se_import_strategy :: jsstr where
  "txt_se_import_strategy = [0x5BFC, 0x5165, 0x7B56, 0x7565]"

text \<open>\<open>txt_se_export_strategy\<close>: export the strategy.\<close>

definition txt_se_export_strategy :: jsstr where
  "txt_se_export_strategy = [0x5BFC, 0x51FA, 0x7B56, 0x7565]"

text \<open>\<open>txt_se_profiles\<close>: routing.\<close>

definition txt_se_profiles :: jsstr where
  "txt_se_profiles = [0x7B56, 0x7565, 0x8DEF, 0x7531]"

text \<open>\<open>txt_se_profiles_text\<close>: default strategy and recovery budget.\<close>

definition txt_se_profiles_text :: jsstr where
  "txt_se_profiles_text = [0x533A, 0x5206, 0x9ED8, 0x8BA4, 0x804A, 0x5929, 0x7B56, 0x7565, 0x4E0E, 0x62D2, 0x7EDD,
     0x6062, 0x590D, 0x9884, 0x7B97, 0x3002]"

text \<open>\<open>txt_se_chat_profile_text\<close>: strategy of ordinary chats.\<close>

definition txt_se_chat_profile_text :: jsstr where
  "txt_se_chat_profile_text = [0x666E, 0x901A, 0x804A, 0x5929, 0x9ED8, 0x8BA4, 0x7B56, 0x7565, 0x3002]"

text \<open>\<open>txt_se_pick_profile\<close>: choose a chat profile.\<close>

definition txt_se_pick_profile :: jsstr where
  "txt_se_pick_profile = [0x9009, 0x62E9, 32, 99, 104, 97, 116, 32, 112, 114, 111, 102, 105, 108, 101]"

text \<open>\<open>txt_se_fallback_text\<close>: one fallback profile per line.\<close>

definition txt_se_fallback_text :: jsstr where
  "txt_se_fallback_text = [0x6BCF, 0x884C, 0x4E00, 0x4E2A, 32, 102, 97, 108, 108, 98, 97, 99, 107, 32, 112, 114,
     111, 102, 105, 108, 101, 0x3002]"

text \<open>\<open>txt_se_escalation_text\<close>: most escalations.\<close>

definition txt_se_escalation_text :: jsstr where
  "txt_se_escalation_text = [0x6700, 0x591A, 0x5347, 0x7EA7, 0x6B65, 0x6570, 0x3002]"

text \<open>\<open>txt_se_refusal_text\<close>: most retries after a refusal.\<close>

definition txt_se_refusal_text :: jsstr where
  "txt_se_refusal_text = [0x517C, 0x5BB9, 0x7B56, 0x7565, 0x7684, 0x91CD, 0x8BD5, 0x4E0A, 0x9650, 0xFF0C, 0x9ED8,
     0x8BA4, 32, 48, 0x3001, 0x6700, 0x591A, 32, 49, 0xFF1B, 0x5F53, 0x524D, 0x804A, 0x5929,
     0x63A5, 0x53E3, 0x4E0D, 0x4F1A, 0x6309, 0x6B64, 0x9879, 0x81EA, 0x52A8, 0x91CD, 0x53D1,
     0x3002]"

text \<open>\<open>txt_se_custom\<close>: custom prompt.\<close>

definition txt_se_custom :: jsstr where
  "txt_se_custom = [67, 117, 115, 116, 111, 109, 32, 0x603B, 0x63D0, 0x793A, 0x8BCD]"

text \<open>\<open>txt_se_custom_text\<close>: used with the custom profile only.\<close>

definition txt_se_custom_text :: jsstr where
  "txt_se_custom_text = [0x4EC5, 0x5728, 32, 112, 114, 111, 102, 105, 108, 101, 61, 96, 99, 117, 115, 116, 111,
     109, 96, 32, 0x65F6, 0x6CE8, 0x5165, 0x3002]"

text \<open>\<open>txt_se_custom_hint\<close>: write the whole prompt here.\<close>

definition txt_se_custom_hint :: jsstr where
  "txt_se_custom_hint = [0x76F4, 0x63A5, 0x586B, 0x5199, 0x5B8C, 0x6574, 0x81EA, 0x5B9A, 0x4E49, 0x7B56, 0x7565,
     0x63D0, 0x793A, 0x8BCD, 46, 46, 46]"

text \<open>\<open>txt_se_bodies\<close>: built-in texts.\<close>

definition txt_se_bodies :: jsstr where
  "txt_se_bodies = [0x5185, 0x7F6E, 0x6587, 0x672C]"

text \<open>\<open>txt_se_bodies_text\<close>: take effect when saved.\<close>

definition txt_se_bodies_text :: jsstr where
  "txt_se_bodies_text = [0x4FDD, 0x5B58, 0x540E, 0x5373, 0x65F6, 0x751F, 0x6548, 0x3002]"

text \<open>\<open>txt_se_reframing_text\<close>: prefix of ordinary chats.\<close>

definition txt_se_reframing_text :: jsstr where
  "txt_se_reframing_text = [0x666E, 0x901A, 0x804A, 0x5929, 0x9ED8, 0x8BA4, 0x524D, 0x7F00, 0x3002]"

text \<open>\<open>txt_se_toolbox_text\<close>: prefix of tools and fallbacks.\<close>

definition txt_se_toolbox_text :: jsstr where
  "txt_se_toolbox_text = [0x5DE5, 0x5177, 0x4E0E, 32, 102, 97, 108, 108, 98, 97, 99, 107, 32, 0x5E38, 0x7528,
     0x524D, 0x7F00, 0x3002]"

text \<open>\<open>txt_se_test\<close>: immediate test.\<close>

definition txt_se_test :: jsstr where
  "txt_se_test = [0x5373, 0x65F6, 0x6D4B, 0x8BD5]"

text \<open>\<open>txt_se_test_text\<close>: try the refusal samples.\<close>

definition txt_se_test_text :: jsstr where
  "txt_se_test_text = [0x6539, 0x5B8C, 0x540E, 0x76F4, 0x63A5, 0x56DE, 0x5F52, 0x62D2, 0x7EDD, 0x6837, 0x672C,
     0x3002]"

text \<open>\<open>txt_se_test_prompt\<close>: test prompt.\<close>

definition txt_se_test_prompt :: jsstr where
  "txt_se_test_prompt = [0x6D4B, 0x8BD5, 32, 80, 114, 111, 109, 112, 116]"

text \<open>\<open>txt_se_test_prompt_text\<close>: creative or role playing samples.\<close>

definition txt_se_test_prompt_text :: jsstr where
  "txt_se_test_prompt_text = [0x5EFA, 0x8BAE, 0x4F7F, 0x7528, 0x521B, 0x4F5C, 0x6216, 0x89D2, 0x8272, 0x626E, 0x6F14,
     0x6837, 0x672C, 0x3002]"

text \<open>\<open>txt_se_test_model\<close>: test model.\<close>

definition txt_se_test_model :: jsstr where
  "txt_se_test_model = [0x6D4B, 0x8BD5, 0x6A21, 0x578B]"

text \<open>\<open>txt_se_test_model_text\<close>: calls /admin/test.\<close>

definition txt_se_test_model_text :: jsstr where
  "txt_se_test_model_text = [0x76F4, 0x63A5, 0x8D70, 32, 96, 47, 97, 100, 109, 105, 110, 47, 116, 101, 115, 116, 96,
     0x3002]"

text \<open>\<open>txt_se_pick_model\<close>: choose a model.\<close>

definition txt_se_pick_model :: jsstr where
  "txt_se_pick_model = [0x9009, 0x62E9, 0x6A21, 0x578B]"

text \<open>\<open>txt_se_online\<close>: online.\<close>

definition txt_se_online :: jsstr where
  "txt_se_online = [0x8054, 0x7F51]"

text \<open>\<open>txt_se_online_text\<close>: for this test only.\<close>

definition txt_se_online_text :: jsstr where
  "txt_se_online_text = [0x4EC5, 0x8986, 0x76D6, 0x8FD9, 0x6B21, 0x6D4B, 0x8BD5, 0x3002]"

text \<open>\<open>txt_se_creative\<close>: creative sample.\<close>

definition txt_se_creative :: jsstr where
  "txt_se_creative = [0x521B, 0x4F5C, 0x6837, 0x672C]"

text \<open>\<open>txt_se_role\<close>: role sample.\<close>

definition txt_se_role :: jsstr where
  "txt_se_role = [0x89D2, 0x8272, 0x6837, 0x672C]"

text \<open>\<open>txt_se_run_test\<close>: test now.\<close>

definition txt_se_run_test :: jsstr where
  "txt_se_run_test = [0x7ACB, 0x5373, 0x6D4B, 0x8BD5]"

text \<open>\<open>txt_se_test_output\<close>: output of the test.\<close>

definition txt_se_test_output :: jsstr where
  "txt_se_test_output = [0x6D4B, 0x8BD5, 0x8F93, 0x51FA]"

text \<open>\<open>txt_se_strategy_copied\<close>: the strategy was copied.\<close>

definition txt_se_strategy_copied :: jsstr where
  "txt_se_strategy_copied = [0x5F53, 0x524D, 0x7B56, 0x7565, 32, 74, 83, 79, 78, 32, 0x5DF2, 0x590D, 0x5236]"

text \<open>\<open>txt_se_copy_strategy\<close>: copy the strategy as JSON.\<close>

definition txt_se_copy_strategy :: jsstr where
  "txt_se_copy_strategy = [0x590D, 0x5236, 0x5F53, 0x524D, 0x7B56, 0x7565, 32, 74, 83, 79, 78]"

text \<open>\<open>txt_se_retries\<close>: retry chain.\<close>

definition txt_se_retries :: jsstr where
  "txt_se_retries = [0x91CD, 0x8BD5, 0x94FE, 0x8DEF]"

text \<open>\<open>txt_se_retries_text\<close>: blocks are separated by a line of three dashes.\<close>

definition txt_se_retries_text :: jsstr where
  "txt_se_retries_text = [0x6BCF, 0x4E2A, 0x5757, 0x4E4B, 0x95F4, 0x7528, 0x5355, 0x72EC, 0x4E00, 0x884C, 32, 96,
     45, 45, 45, 96, 32, 0x5206, 0x9694, 0x3002]"

text \<open>\<open>txt_se_coding_text\<close>: programming requests.\<close>

definition txt_se_coding_text :: jsstr where
  "txt_se_coding_text = [0x5F00, 0x53D1, 0x7C7B, 0x8BF7, 0x6C42, 0x3002]"

text \<open>\<open>txt_se_general_text\<close>: ordinary requests.\<close>

definition txt_se_general_text :: jsstr where
  "txt_se_general_text = [0x666E, 0x901A, 0x8BF7, 0x6C42, 0x3002]"

text \<open>\<open>txt_se_direct_text\<close>: forced direct answers.\<close>

definition txt_se_direct_text :: jsstr where
  "txt_se_direct_text = [0x5F3A, 0x5236, 0x76F4, 0x7B54, 0x6062, 0x590D, 0x94FE, 0x3002]"

text \<open>\<open>txt_se_security_text\<close>: password, directory and login timeout.\<close>

definition txt_se_security_text :: jsstr where
  "txt_se_security_text = [0x96C6, 0x4E2D, 0x6838, 0x5BF9, 0x7BA1, 0x7406, 0x5BC6, 0x7801, 0x3001, 0x4F1A, 0x8BDD,
     0x76EE, 0x5F55, 0x4E0E, 0x767B, 0x5F55, 0x8D85, 0x65F6, 0x3002]"

text \<open>\<open>txt_se_admin\<close>: admin identity and login.\<close>

definition txt_se_admin :: jsstr where
  "txt_se_admin = [0x7BA1, 0x7406, 0x9762, 0x8EAB, 0x4EFD, 0x4E0E, 0x767B, 0x5F55]"

text \<open>\<open>txt_se_admin_text\<close>: password, token lifetime, directory, timeout.\<close>

definition txt_se_admin_text :: jsstr where
  "txt_se_admin_text = [0x7BA1, 0x7406, 0x9762, 0x5BC6, 0x7801, 0x3001, 84, 111, 107, 101, 110, 32, 84, 84, 76,
     0x3001, 0x767B, 0x5F55, 0x76EE, 0x5F55, 0x4E0E, 0x767B, 0x5F55, 0x8D85, 0x65F6, 0x3002]"

text \<open>\<open>txt_se_password\<close>: admin password.\<close>

definition txt_se_password :: jsstr where
  "txt_se_password = [65, 100, 109, 105, 110, 32, 0x5BC6, 0x7801]"

text \<open>\<open>txt_se_password_text\<close>: empty keeps the password.\<close>

definition txt_se_password_text :: jsstr where
  "txt_se_password_text = [0x7559, 0x7A7A, 0x8868, 0x793A, 0x4E0D, 0x4FEE, 0x6539, 0x73B0, 0x6709, 0x5BC6, 0x7801,
     0xFF0C, 0x4EC5, 0x5728, 0x9700, 0x8981, 0x66F4, 0x65B0, 0x65F6, 0x586B, 0x5199, 0x3002]"

text \<open>\<open>txt_se_password_set\<close>: empty keeps the password that is set.\<close>

definition txt_se_password_set :: jsstr where
  "txt_se_password_set = [0x5DF2, 0x8BBE, 0x7F6E, 0x65B0, 0x5BC6, 0x7801, 0x8BF7, 0x586B, 0x5199, 0xFF0C, 0x7559,
     0x7A7A, 0x8868, 0x793A, 0x4E0D, 0x4FEE, 0x6539]"

text \<open>\<open>txt_se_password_unset\<close>: enter an admin password.\<close>

definition txt_se_password_unset :: jsstr where
  "txt_se_password_unset = [0x8BF7, 0x8F93, 0x5165, 0x7BA1, 0x7406, 0x9762, 0x5BC6, 0x7801]"

text \<open>\<open>txt_se_token_text\<close>: lifetime of a login in hours.\<close>

definition txt_se_token_text :: jsstr where
  "txt_se_token_text = [0x7BA1, 0x7406, 0x9762, 0x767B, 0x5F55, 0x6001, 0x7684, 0x6709, 0x6548, 0x65F6, 0x957F,
     0xFF0C, 0x5355, 0x4F4D, 0x5C0F, 0x65F6, 0x3002]"

text \<open>\<open>txt_se_dir_text\<close>: directory of logins, probes and sessions.\<close>

definition txt_se_dir_text :: jsstr where
  "txt_se_dir_text = [0x767B, 0x5F55, 0x6001, 0x3001, 80, 114, 111, 98, 101, 32, 0x548C, 0x4F1A, 0x8BDD,
     0x6587, 0x4EF6, 0x7684, 0x6301, 0x4E45, 0x5316, 0x76EE, 0x5F55, 0x3002]"

text \<open>\<open>txt_se_login_text\<close>: timeout of logins and refreshes.\<close>

definition txt_se_login_text :: jsstr where
  "txt_se_login_text = [0x9A8C, 0x8BC1, 0x7801, 0x767B, 0x5F55, 0x3001, 0x5237, 0x65B0, 0x7B49, 0x6D41, 0x7A0B,
     0x7684, 0x7B49, 0x5F85, 0x8D85, 0x65F6, 0x3002]"

text \<open>\<open>txt_se_sqlite_text\<close>: database of accounts and sessions.\<close>

definition txt_se_sqlite_text :: jsstr where
  "txt_se_sqlite_text = [0x8D26, 0x53F7, 0x72B6, 0x6001, 0x548C, 0x672C, 0x5730, 0x4F1A, 0x8BDD, 0x7F13, 0x5B58,
     0x5171, 0x7528, 0x6B64, 0x5E93, 0x6587, 0x4EF6, 0x8DEF, 0x5F84, 0x3002]"

text \<open>\<open>txt_se_persist\<close>: persistence.\<close>

definition txt_se_persist :: jsstr where
  "txt_se_persist = [0x4F1A, 0x8BDD, 0x4E0E, 0x7F13, 0x5B58, 0x843D, 0x76D8]"

text \<open>\<open>txt_se_persist_text\<close>: turn on what is to be kept.\<close>

definition txt_se_persist_text :: jsstr where
  "txt_se_persist_text = [0x6309, 0x9700, 0x5F00, 0x542F, 0x5BF9, 0x5E94, 0x7684, 0x672C, 0x5730, 0x6301, 0x4E45,
     0x5316, 0x80FD, 0x529B, 0x3002]"

text \<open>\<open>txt_se_snapshots\<close>: conversation snapshots.\<close>

definition txt_se_snapshots :: jsstr where
  "txt_se_snapshots = [0x672C, 0x5730, 0x4F1A, 0x8BDD, 0x5FEB, 0x7167]"

text \<open>\<open>txt_se_snapshots_text\<close>: conversations and messages are kept.\<close>

definition txt_se_snapshots_text :: jsstr where
  "txt_se_snapshots_text = [0x4FDD, 0x5B58, 0x4F1A, 0x8BDD, 0x5217, 0x8868, 0x3001, 0x6D88, 0x606F, 0x5185, 0x5BB9,
     0x548C, 0x672C, 0x5730, 0x5BF9, 0x8BDD, 0x5FEB, 0x7167, 0xFF0C, 0x91CD, 0x542F, 0x540E,
     0x53EF, 0x6062, 0x590D, 0x5230, 0x7BA1, 0x7406, 0x9762, 0x3002]"

text \<open>\<open>txt_se_snapshots_on\<close>: restored after a restart.\<close>

definition txt_se_snapshots_on :: jsstr where
  "txt_se_snapshots_on = [0x91CD, 0x542F, 0x540E, 0x4F1A, 0x6062, 0x590D, 0x672C, 0x5730, 0x4F1A, 0x8BDD, 0x5217,
     0x8868, 0x3002]"

text \<open>\<open>txt_se_snapshots_off\<close>: kept by the process only.\<close>

definition txt_se_snapshots_off :: jsstr where
  "txt_se_snapshots_off = [0x5173, 0x95ED, 0x540E, 0x4EC5, 0x4FDD, 0x7559, 0x5F53, 0x524D, 0x8FDB, 0x7A0B, 0x5185,
     0x7684, 0x4F1A, 0x8BDD, 0x5FEB, 0x7167, 0x3002]"

text \<open>\<open>txt_se_responses\<close>: cached responses.\<close>

definition txt_se_responses :: jsstr where
  "txt_se_responses = [82, 101, 115, 112, 111, 110, 115, 101, 115, 32, 0x7F13, 0x5B58]"

text \<open>\<open>txt_se_responses_text\<close>: the cache behind /v1/responses.\<close>

definition txt_se_responses_text :: jsstr where
  "txt_se_responses_text = [0x4FDD, 0x5B58, 32, 96, 47, 118, 49, 47, 114, 101, 115, 112, 111, 110, 115, 101, 115, 47,
     123, 105, 100, 125, 96, 32, 0x4F9D, 0x8D56, 0x7684, 32, 114, 101, 115, 112, 111, 110,
     115, 101, 32, 0x7F13, 0x5B58, 0x4E0E, 0x5143, 0x6570, 0x636E, 0x3002]"

text \<open>\<open>txt_se_responses_on\<close>: readable after a restart.\<close>

definition txt_se_responses_on :: jsstr where
  "txt_se_responses_on = [0x91CD, 0x542F, 0x540E, 0x4ECD, 0x53EF, 0x6309, 32, 114, 101, 115, 112, 111, 110, 115,
     101, 95, 105, 100, 32, 0x8BFB, 0x53D6, 0x7F13, 0x5B58, 0x3002]"

text \<open>\<open>txt_se_responses_off\<close>: in memory only.\<close>

definition txt_se_responses_off :: jsstr where
  "txt_se_responses_off = [0x5173, 0x95ED, 0x540E, 32, 114, 101, 115, 112, 111, 110, 115, 101, 32, 0x7F13, 0x5B58,
     0x53EA, 0x5B58, 0x5728, 0x5185, 0x5B58, 0x3002]"

text \<open>\<open>txt_se_sessions\<close>: continuation sessions.\<close>

definition txt_se_sessions :: jsstr where
  "txt_se_sessions = [0x7EED, 0x804A, 32, 83, 101, 115, 115, 105, 111, 110]"

text \<open>\<open>txt_se_sessions_text\<close>: anchors of continuations.\<close>

definition txt_se_sessions_text :: jsstr where
  "txt_se_sessions_text = [0x4FDD, 0x5B58, 32, 116, 104, 114, 101, 97, 100, 47, 99, 111, 110, 102, 105, 103, 47, 99,
     111, 110, 116, 101, 120, 116, 32, 0x951A, 0x70B9, 0xFF0C, 0x4F9B, 32, 99, 111, 110, 116,
     105, 110, 117, 97, 116, 105, 111, 110, 32, 0x548C, 32, 116, 104, 114, 101, 97, 100, 32,
     0x7EED, 0x804A, 0x590D, 0x7528, 0x3002]"

text \<open>\<open>txt_se_sessions_on\<close>: kept after a restart.\<close>

definition txt_se_sessions_on :: jsstr where
  "txt_se_sessions_on = [0x91CD, 0x542F, 0x540E, 0x4ECD, 0x53EF, 0x6CBF, 0x7528, 0x4E0A, 0x6E38, 0x7EED, 0x804A,
     0x951A, 0x70B9, 0x3002]"

text \<open>\<open>txt_se_sessions_off\<close>: not written.\<close>

definition txt_se_sessions_off :: jsstr where
  "txt_se_sessions_off = [0x5173, 0x95ED, 0x540E, 0x7EED, 0x804A, 0x951A, 0x70B9, 0x4E0D, 0x4F1A, 0x843D, 0x76D8,
     0x3002]"

text \<open>\<open>txt_se_bindings_text\<close>: bindings of SillyTavern characters.\<close>

definition txt_se_bindings_text :: jsstr where
  "txt_se_bindings_text = [0x4FDD, 0x5B58, 32, 83, 105, 108, 108, 121, 84, 97, 118, 101, 114, 110, 32, 0x89D2,
     0x8272, 0x6863, 0x6848, 0x5230, 32, 99, 111, 110, 118, 101, 114, 115, 97, 116, 105, 111,
     110, 32, 0x7684, 0x7ED1, 0x5B9A, 0x5173, 0x7CFB, 0x3002]"

text \<open>\<open>txt_se_bindings_on\<close>: kept after a restart.\<close>

definition txt_se_bindings_on :: jsstr where
  "txt_se_bindings_on = [0x91CD, 0x542F, 0x540E, 0x4ECD, 0x53EF, 0x547D, 0x4E2D, 32, 83, 84, 32, 0x7ED1, 0x5B9A,
     0x7EED, 0x804A, 0x3002]"

text \<open>\<open>txt_se_bindings_off\<close>: kept by the process only.\<close>

definition txt_se_bindings_off :: jsstr where
  "txt_se_bindings_off = [0x5173, 0x95ED, 0x540E, 32, 83, 84, 32, 0x7ED1, 0x5B9A, 0x53EA, 0x5B58, 0x5728, 0x5F53,
     0x524D, 0x8FDB, 0x7A0B, 0x3002]"

text \<open>\<open>txt_se_checklist\<close>: deployment checklist.\<close>

definition txt_se_checklist :: jsstr where
  "txt_se_checklist = [0x90E8, 0x7F72, 0x6838, 0x5BF9, 0x9879]"

text \<open>\<open>txt_se_checklist_text\<close>: password, directory and persistence.\<close>

definition txt_se_checklist_text :: jsstr where
  "txt_se_checklist_text = [0x5FEB, 0x901F, 0x6838, 0x5BF9, 0x7BA1, 0x7406, 0x9762, 0x5BC6, 0x7801, 0x3001, 0x767B,
     0x5F55, 0x76EE, 0x5F55, 0x4E0E, 0x6301, 0x4E45, 0x5316, 0x8986, 0x76D6, 0x8303, 0x56F4,
     0x3002]"

text \<open>\<open>txt_se_password_state\<close>: state of the password.\<close>

definition txt_se_password_state :: jsstr where
  "txt_se_password_state = [0x5BC6, 0x7801, 0x72B6, 0x6001]"

text \<open>\<open>txt_se_has_password\<close>: there is a password.\<close>

definition txt_se_has_password :: jsstr where
  "txt_se_has_password = [0x5DF2, 0x5B58, 0x5728, 0x7BA1, 0x7406, 0x9762, 0x5BC6, 0x7801]"

text \<open>\<open>txt_se_no_password\<close>: there is no password.\<close>

definition txt_se_no_password :: jsstr where
  "txt_se_no_password = [0x5C1A, 0x672A, 0x914D, 0x7F6E, 0x7BA1, 0x7406, 0x9762, 0x5BC6, 0x7801]"

text \<open>\<open>txt_se_session_dir\<close>: session directory.\<close>

definition txt_se_session_dir :: jsstr where
  "txt_se_session_dir = [0x4F1A, 0x8BDD, 0x76EE, 0x5F55]"

text \<open>\<open>txt_se_default_dir\<close>: the default path.\<close>

definition txt_se_default_dir :: jsstr where
  "txt_se_default_dir = [0x4F7F, 0x7528, 0x7A0B, 0x5E8F, 0x9ED8, 0x8BA4, 0x8DEF, 0x5F84]"

text \<open>\<open>txt_se_advice\<close>: advice on persistence.\<close>

definition txt_se_advice :: jsstr where
  "txt_se_advice = [0x6301, 0x4E45, 0x5316, 0x5EFA, 0x8BAE]"

text \<open>\<open>txt_se_advice_none\<close>: only accounts are kept.\<close>

definition txt_se_advice_none :: jsstr where
  "txt_se_advice_none = [0x5F53, 0x524D, 0x53EA, 0x4F1A, 0x6301, 0x4E45, 0x5316, 0x8D26, 0x53F7, 0x72B6, 0x6001,
     0xFF1B, 83, 81, 76, 105, 116, 101, 32, 0x4E0D, 0x6062, 0x590D, 0x672C, 0x5730, 0x4F1A,
     0x8BDD, 0x3001, 114, 101, 115, 112, 111, 110, 115, 101, 32, 0x7F13, 0x5B58, 0x6216,
     0x7EED, 0x804A, 0x951A, 0x70B9, 0x3002]"

text \<open>\<open>txt_se_advanced_text\<close>: debug switch, lists and JSON.\<close>

definition txt_se_advanced_text :: jsstr where
  "txt_se_advanced_text = [0x7EF4, 0x62A4, 0x8C03, 0x8BD5, 0x5F00, 0x5173, 0x3001, 0x5217, 0x8868, 0x9879, 0x548C,
     0x7ED3, 0x6784, 0x5316, 32, 74, 83, 79, 78, 0x3002]"

text \<open>\<open>txt_se_debug\<close>: debug output.\<close>

definition txt_se_debug :: jsstr where
  "txt_se_debug = [0x8C03, 0x8BD5, 0x8F93, 0x51FA]"

text \<open>\<open>txt_se_debug_text\<close>: only while looking for a fault.\<close>

definition txt_se_debug_text :: jsstr where
  "txt_se_debug_text = [0x4EC5, 0x5728, 0x6392, 0x969C, 0x65F6, 0x5F00, 0x542F, 0xFF0C, 0x65B9, 0x4FBF, 0x5B9A,
     0x4F4D, 32, 72, 111, 115, 116, 32, 72, 101, 97, 100, 101, 114, 0x3001, 84, 76, 83,
     0x3001, 0x8BF7, 0x6C42, 0x4F53, 0x548C, 0x4E0A, 0x6E38, 0x8FD4, 0x56DE, 0x5F02, 0x5E38,
     0x3002]"

text \<open>\<open>txt_se_debug_hint\<close>: more detail of upstream requests.\<close>

definition txt_se_debug_hint :: jsstr where
  "txt_se_debug_hint = [0x8BB0, 0x5F55, 0x66F4, 0x8BE6, 0x7EC6, 0x7684, 0x4E0A, 0x6E38, 0x8BF7, 0x6C42, 0x4E0E,
     0x54CD, 0x5E94, 0x7EBF, 0x7D22, 0xFF0C, 0x9002, 0x5408, 0x6392, 0x67E5, 32, 53, 48, 50,
     32, 47, 32, 53, 48, 52, 0x3001, 84, 76, 83, 0x3001, 72, 111, 115, 116, 32, 72, 101, 97,
     100, 101, 114, 32, 0x548C, 0x54CD, 0x5E94, 0x4F53, 0x683C, 0x5F0F, 0x95EE, 0x9898,
     0x3002]"

text \<open>\<open>txt_se_lists\<close>: lists.\<close>

definition txt_se_lists :: jsstr where
  "txt_se_lists = [0x5217, 0x8868, 0x578B, 0x9AD8, 0x7EA7, 0x914D, 0x7F6E]"

text \<open>\<open>txt_se_lists_text\<close>: one entry per line.\<close>

definition txt_se_lists_text :: jsstr where
  "txt_se_lists_text = [0x6BCF, 0x884C, 0x4E00, 0x4E2A, 0x6761, 0x76EE, 0xFF1B, 0x4FDD, 0x5B58, 0x540E, 0x7ACB,
     0x5373, 0x751F, 0x6548, 0x3002]"

text \<open>\<open>txt_se_scopes_text\<close>: default search scopes.\<close>

definition txt_se_scopes_text :: jsstr where
  "txt_se_scopes_text = [0x9ED8, 0x8BA4, 0x641C, 0x7D22, 0x8303, 0x56F4, 0xFF0C, 0x9002, 0x7528, 0x4E8E, 0x8054,
     0x7F51, 0x6216, 0x77E5, 0x8BC6, 0x57DF, 0x9650, 0x5236, 0x3002]"

text \<open>\<open>txt_se_json\<close>: structured settings.\<close>

definition txt_se_json :: jsstr where
  "txt_se_json = [0x7ED3, 0x6784, 0x5316, 0x9AD8, 0x7EA7, 0x914D, 0x7F6E]"

text \<open>\<open>txt_se_json_text\<close>: an editor for JSON.\<close>

definition txt_se_json_text :: jsstr where
  "txt_se_json_text = [0x7EDF, 0x4E00, 0x6DF1, 0x8272, 32, 43, 32, 109, 111, 110, 111, 115, 112, 97, 99, 101,
     32, 0x7F16, 0x8F91, 0x533A, 0xFF0C, 0x4FBF, 0x4E8E, 0x76F4, 0x63A5, 0x8D34, 32, 74, 83,
     79, 78, 0x3002]"

text \<open>\<open>txt_se_aliases_text\<close>: public model names to upstream identifiers.\<close>

definition txt_se_aliases_text :: jsstr where
  "txt_se_aliases_text = [0x516C, 0x5171, 0x6A21, 0x578B, 0x540D, 0x5230, 0x4E0A, 0x6E38, 0x6A21, 0x578B, 32, 73,
     68, 32, 0x7684, 0x6620, 0x5C04, 0x3002]"

text \<open>\<open>txt_se_snapshot_card\<close>: configuration files and snapshots.\<close>

definition txt_se_snapshot_card :: jsstr where
  "txt_se_snapshot_card = [0x914D, 0x7F6E, 0x6587, 0x4EF6, 32, 47, 32, 0x5FEB, 0x7167]"

text \<open>\<open>txt_se_snapshot_card_text\<close>: import, export, create and read.\<close>

definition txt_se_snapshot_card_text :: jsstr where
  "txt_se_snapshot_card_text = [0x5BFC, 0x5165, 0x3001, 0x5BFC, 0x51FA, 0x3001, 0x751F, 0x6210, 0x4E0E, 0x8BFB, 0x53D6,
     0x914D, 0x7F6E, 0x5FEB, 0x7167, 0x3002]"

text \<open>\<open>txt_se_import\<close>: import a configuration.\<close>

definition txt_se_import :: jsstr where
  "txt_se_import = [0x5BFC, 0x5165, 0x914D, 0x7F6E]"

text \<open>\<open>txt_se_export\<close>: export the configuration.\<close>

definition txt_se_export :: jsstr where
  "txt_se_export = [0x5BFC, 0x51FA, 0x914D, 0x7F6E]"

text \<open>\<open>txt_se_create\<close>: create a snapshot.\<close>

definition txt_se_create :: jsstr where
  "txt_se_create = [0x751F, 0x6210, 0x5FEB, 0x7167]"

text \<open>\<open>txt_se_list\<close>: show the snapshots.\<close>

definition txt_se_list :: jsstr where
  "txt_se_list = [0x67E5, 0x770B, 0x5FEB, 0x7167]"

text \<open>\<open>txt_se_output\<close>: output.\<close>

definition txt_se_output :: jsstr where
  "txt_se_output = [0x914D, 0x7F6E, 0x8F93, 0x51FA]"

text \<open>\<open>txt_se_advice_some\<close>: mount both directories; of the persistent parts are on:.\<close>

definition txt_se_advice_some :: jsstr where
  "txt_se_advice_some = [0x5EFA, 0x8BAE, 0x540C, 0x65F6, 0x6302, 0x8F7D, 0x4F1A, 0x8BDD, 0x76EE, 0x5F55, 0x548C,
     32, 83, 81, 76, 105, 116, 101, 32, 0x6570, 0x636E, 0x76EE, 0x5F55, 0xFF1B, 0x5F53,
     0x524D, 0x5DF2, 0x542F, 0x7528, 32]"

text \<open>\<open>txt_se_advice_of\<close>: of 4.\<close>

definition txt_se_advice_of :: jsstr where
  "txt_se_advice_of = [32, 47, 32, 52, 32, 0x9879, 0x672C, 0x5730, 0x4F1A, 0x8BDD, 0x6301, 0x4E45, 0x5316,
     0x3002]"

text \<open>\<open>txt_copy\<close>: copy.\<close>

definition txt_copy :: jsstr where
  "txt_copy = [0x590D, 0x5236]"

text \<open>\<open>txt_se_profile_reframing\<close>: the steady default.\<close>

definition txt_se_profile_reframing :: jsstr where
  "txt_se_profile_reframing = [0x9ED8, 0x8BA4, 0x7A33, 0x6001, 0xFF0C, 0x504F, 0x901A, 0x7528, 0x52A9, 0x624B, 0x53E3,
     0x5F84, 0x3002]"

text \<open>\<open>txt_se_profile_toolbox\<close>: for tools and refusals.\<close>

definition txt_se_profile_toolbox :: jsstr where
  "txt_se_profile_toolbox = [0x66F4, 0x5F3A, 0x7684, 0x901A, 0x7528, 0x80FD, 0x529B, 0x5C55, 0x5F00, 0xFF0C, 0x9002,
     0x5408, 0x5DE5, 0x5177, 0x6216, 0x6613, 0x62D2, 0x7EDD, 0x573A, 0x666F, 0x3002]"

text \<open>\<open>txt_se_profile_custom\<close>: the custom prompt.\<close>

definition txt_se_profile_custom :: jsstr where
  "txt_se_profile_custom = [0x76F4, 0x63A5, 0x4F7F, 0x7528, 0x81EA, 0x5B9A, 0x4E49, 0x603B, 0x63D0, 0x793A, 0x8BCD,
     0x3002]"

text \<open>\<open>txt_se_profile_none\<close>: no prefix.\<close>

definition txt_se_profile_none :: jsstr where
  "txt_se_profile_none = [0x4E0D, 0x6CE8, 0x5165, 32, 112, 114, 111, 102, 105, 108, 101, 32, 0x524D, 0x7F00,
     0x3002]"

text \<open>\<open>txt_ac_active\<close>: active account.\<close>

definition txt_ac_active :: jsstr where
  "txt_ac_active = [0x6D3B, 0x8DC3, 0x8D26, 0x53F7]"

text \<open>\<open>txt_ac_state\<close>: state of the session.\<close>

definition txt_ac_state :: jsstr where
  "txt_ac_state = [0x4F1A, 0x8BDD, 0x72B6, 0x6001]"

text \<open>\<open>txt_ac_space\<close>: current space.\<close>

definition txt_ac_space :: jsstr where
  "txt_ac_space = [0x5F53, 0x524D, 0x7A7A, 0x95F4]"

text \<open>\<open>txt_ac_refreshed\<close>: last refreshed.\<close>

definition txt_ac_refreshed :: jsstr where
  "txt_ac_refreshed = [0x6700, 0x8FD1, 0x5237, 0x65B0]"

text \<open>\<open>txt_ac_title\<close>: accounts and workspaces.\<close>

definition txt_ac_title :: jsstr where
  "txt_ac_title = [0x8D26, 0x53F7, 0x4E0E, 0x5DE5, 0x4F5C, 0x533A]"

text \<open>\<open>txt_ac_intro\<close>: choose an account, manage its workspaces.\<close>

definition txt_ac_intro :: jsstr where
  "txt_ac_intro = [0x9009, 0x62E9, 0x8D26, 0x53F7, 0xFF0C, 0x7BA1, 0x7406, 0x5DE5, 0x4F5C, 0x533A, 0x3001,
     0x6A21, 0x578B, 0x80FD, 0x529B, 0x4E0E, 0x8BF7, 0x6C42, 0x8C03, 0x5EA6, 0x3002]"

text \<open>\<open>txt_ac_add\<close>: add an account.\<close>

definition txt_ac_add :: jsstr where
  "txt_ac_add = [0x6DFB, 0x52A0, 0x8D26, 0x53F7]"

text \<open>\<open>txt_ac_refresh\<close>: refresh the accounts.\<close>

definition txt_ac_refresh :: jsstr where
  "txt_ac_refresh = [0x5237, 0x65B0, 0x8D26, 0x53F7]"

text \<open>\<open>txt_ac_drafts\<close>: unsaved settings are kept when refreshing.\<close>

definition txt_ac_drafts :: jsstr where
  "txt_ac_drafts = [0x6709, 0x672A, 0x4FDD, 0x5B58, 0x7684, 0x8D26, 0x53F7, 0x8BBE, 0x7F6E, 0xFF0C, 0x5237,
     0x65B0, 0x65F6, 0x4F1A, 0x4FDD, 0x7559, 0x3002]"

text \<open>\<open>txt_ac_pool\<close>: accounts.\<close>

definition txt_ac_pool :: jsstr where
  "txt_ac_pool = [0x8D26, 0x53F7, 0x6C60]"

text \<open>\<open>txt_ac_none\<close>: there is no account yet.\<close>

definition txt_ac_none :: jsstr where
  "txt_ac_none = [0x5F53, 0x524D, 0x8FD8, 0x6CA1, 0x6709, 0x8D26, 0x53F7]"

text \<open>\<open>txt_ac_none_text\<close>: request a code or import probe JSON.\<close>

definition txt_ac_none_text :: jsstr where
  "txt_ac_none_text = [0x53EF, 0x5148, 0x8BF7, 0x6C42, 0x9A8C, 0x8BC1, 0x7801, 0xFF0C, 0x6216, 0x76F4, 0x63A5,
     0x5BFC, 0x5165, 32, 80, 114, 111, 98, 101, 32, 74, 83, 79, 78, 0x3002]"

text \<open>\<open>txt_ac_detail\<close>: details and operations.\<close>

definition txt_ac_detail :: jsstr where
  "txt_ac_detail = [0x8D26, 0x53F7, 0x8BE6, 0x60C5, 0x4E0E, 0x64CD, 0x4F5C]"

text \<open>\<open>txt_ac_detail_text\<close>: of the account that is selected.\<close>

definition txt_ac_detail_text :: jsstr where
  "txt_ac_detail_text = [0x5F53, 0x524D, 0x8D26, 0x53F7, 0x7684, 0x8FD0, 0x884C, 0x4FE1, 0x606F, 0x4E0E, 0x64CD,
     0x4F5C, 0x5165, 0x53E3, 0x3002]"

text \<open>\<open>txt_ac_workspace\<close>: workspace.\<close>

definition txt_ac_workspace :: jsstr where
  "txt_ac_workspace = [0x5DE5, 0x4F5C, 0x533A]"

text \<open>\<open>txt_ac_workspace_text\<close>: limits are those of this workspace.\<close>

definition txt_ac_workspace_text :: jsstr where
  "txt_ac_workspace_text = [0x989D, 0x5EA6, 0x3001, 0x5E76, 0x53D1, 0x548C, 0x4F1A, 0x8BDD, 0x76EE, 0x6807, 0x90FD,
     0x6309, 0x8FD9, 0x91CC, 0x9009, 0x62E9, 0x7684, 0x5DE5, 0x4F5C, 0x533A, 0x8BA1, 0x7B97,
     0x3002]"

text \<open>\<open>txt_ac_pick_workspace\<close>: choose a workspace.\<close>

definition txt_ac_pick_workspace :: jsstr where
  "txt_ac_pick_workspace = [0x9009, 0x62E9, 0x5DE5, 0x4F5C, 0x533A]"

text \<open>\<open>txt_ac_default\<close>: the default one.\<close>

definition txt_ac_default :: jsstr where
  "txt_ac_default = [32, 0xB7, 32, 0x9ED8, 0x8BA4]"

text \<open>\<open>txt_ac_current\<close>: the current one.\<close>

definition txt_ac_current :: jsstr where
  "txt_ac_current = [32, 0xB7, 32, 0x5F53, 0x524D]"

text \<open>\<open>txt_ac_tabs\<close>: categories of a workspace.\<close>

definition txt_ac_tabs :: jsstr where
  "txt_ac_tabs = [0x5DE5, 0x4F5C, 0x533A, 0x8BE6, 0x60C5, 0x5206, 0x7C7B]"

text \<open>\<open>txt_ac_tab_scheduling\<close>: scheduling.\<close>

definition txt_ac_tab_scheduling :: jsstr where
  "txt_ac_tab_scheduling = [0x8C03, 0x5EA6, 0x8BBE, 0x7F6E]"

text \<open>\<open>txt_ac_tab_models\<close>: models and plan.\<close>

definition txt_ac_tab_models :: jsstr where
  "txt_ac_tab_models = [0x6A21, 0x578B, 0x4E0E, 0x5957, 0x9910]"

text \<open>\<open>txt_ac_tab_details\<close>: account.\<close>

definition txt_ac_tab_details :: jsstr where
  "txt_ac_tab_details = [0x8D26, 0x53F7, 0x4FE1, 0x606F]"

text \<open>\<open>txt_ac_limits\<close>: scheduling and limits.\<close>

definition txt_ac_limits :: jsstr where
  "txt_ac_limits = [0x8C03, 0x5EA6, 0x4E0E, 0x9650, 0x989D]"

text \<open>\<open>txt_ac_limits_text\<close>: written to the pool when saved.\<close>

definition txt_ac_limits_text :: jsstr where
  "txt_ac_limits_text = [0x4FDD, 0x5B58, 0x540E, 0x76F4, 0x63A5, 0x5199, 0x56DE, 0x8D26, 0x53F7, 0x6C60, 0x3002]"

text \<open>\<open>txt_ac_priority\<close>: priority.\<close>

definition txt_ac_priority :: jsstr where
  "txt_ac_priority = [0x4F18, 0x5148, 0x7EA7]"

text \<open>\<open>txt_ac_hourly\<close>: local requests per hour.\<close>

definition txt_ac_hourly :: jsstr where
  "txt_ac_hourly = [0x672C, 0x5730, 0x6BCF, 0x5C0F, 0x65F6, 0x8BF7, 0x6C42, 0x4E0A, 0x9650]"

text \<open>\<open>txt_ac_hourly_text\<close>: 0 means no limit.\<close>

definition txt_ac_hourly_text :: jsstr where
  "txt_ac_hourly_text = [48, 32, 0x8868, 0x793A, 0x4E0D, 0x9650, 0x5236, 0x3002]"

text \<open>\<open>txt_ac_concurrency\<close>: concurrency of the workspace.\<close>

definition txt_ac_concurrency :: jsstr where
  "txt_ac_concurrency = [0x5DE5, 0x4F5C, 0x533A, 0x5E76, 0x53D1, 0x4E0A, 0x9650]"

text \<open>\<open>txt_ac_concurrency_text\<close>: at least 1.\<close>

definition txt_ac_concurrency_text :: jsstr where
  "txt_ac_concurrency_text = [0x5F53, 0x524D, 0x5DE5, 0x4F5C, 0x533A, 0x7684, 0x5E76, 0x53D1, 0x8BF7, 0x6C42, 0x6570,
     0xFF0C, 0x6700, 0x5C0F, 0x503C, 32, 49, 0x3002]"

text \<open>\<open>txt_ac_disable\<close>: disable the account.\<close>

definition txt_ac_disable :: jsstr where
  "txt_ac_disable = [0x7981, 0x7528, 0x8D26, 0x53F7]"

text \<open>\<open>txt_ac_disable_text\<close>: for all its workspaces.\<close>

definition txt_ac_disable_text :: jsstr where
  "txt_ac_disable_text = [0x4F5C, 0x7528, 0x4E8E, 0x6574, 0x4E2A, 0x8D26, 0x53F7, 0xFF08, 0x6240, 0x6709, 0x5DE5,
     0x4F5C, 0x533A, 0xFF09, 0xFF1B, 0x7981, 0x7528, 0x540E, 0x4ECD, 0x4FDD, 0x7559, 0x8D26,
     0x53F7, 0x6570, 0x636E, 0xFF0C, 0x4F46, 0x4E0D, 0x53C2, 0x4E0E, 0x8C03, 0x5EA6, 0x3002]"

text \<open>\<open>txt_ac_runtime\<close>: runtime.\<close>

definition txt_ac_runtime :: jsstr where
  "txt_ac_runtime = [0x8FD0, 0x884C, 0x6001, 0x6458, 0x8981]"

text \<open>\<open>txt_ac_runtime_text\<close>: logins, uses and failures.\<close>

definition txt_ac_runtime_text :: jsstr where
  "txt_ac_runtime_text = [0x6700, 0x8FD1, 0x767B, 0x5F55, 0x3001, 0x4F7F, 0x7528, 0x4E0E, 0x5931, 0x8D25, 0x8BB0,
     0x5F55, 0x3002]"

text \<open>\<open>txt_ac_quota\<close>: local rate limit.\<close>

definition txt_ac_quota :: jsstr where
  "txt_ac_quota = [0x672C, 0x5730, 0x8BF7, 0x6C42, 0x9650, 0x901F]"

text \<open>\<open>txt_ac_total\<close>: concurrency of the account.\<close>

definition txt_ac_total :: jsstr where
  "txt_ac_total = [0x8D26, 0x53F7, 0x603B, 0x5E76, 0x53D1, 0x4E0A, 0x9650]"

text \<open>\<open>txt_ac_paused\<close>: paused until.\<close>

definition txt_ac_paused :: jsstr where
  "txt_ac_paused = [0x8D26, 0x53F7, 0x6682, 0x505C, 0x81F3]"

text \<open>\<open>txt_ac_refreshing\<close>: refreshing.\<close>

definition txt_ac_refreshing :: jsstr where
  "txt_ac_refreshing = [0x6B63, 0x5728, 0x5237, 0x65B0, 0x2026]"

text \<open>\<open>txt_ac_refresh_models\<close>: refresh the models.\<close>

definition txt_ac_refresh_models :: jsstr where
  "txt_ac_refresh_models = [0x5237, 0x65B0, 0x6A21, 0x578B, 0x80FD, 0x529B]"

text \<open>\<open>txt_ac_auto_only\<close>: Auto only, assigned by Notion.\<close>

definition txt_ac_auto_only :: jsstr where
  "txt_ac_auto_only = [0x4EC5, 32, 65, 117, 116, 111, 0xFF0C, 0x7531, 32, 78, 111, 116, 105, 111, 110, 32,
     0x5206, 0x914D]"

text \<open>\<open>txt_ac_manual\<close>: models can be chosen.\<close>

definition txt_ac_manual :: jsstr where
  "txt_ac_manual = [0x652F, 0x6301, 0x624B, 0x52A8, 0x9009, 0x62E9]"

text \<open>\<open>txt_ac_unknown\<close>: unknown, Auto can be used.\<close>

definition txt_ac_unknown :: jsstr where
  "txt_ac_unknown = [0x672A, 0x77E5, 0xFF0C, 0x8BF7, 0x5237, 0x65B0, 0x6A21, 0x578B, 0x80FD, 0x529B, 0xFF1B,
     0x5F53, 0x524D, 0x53EF, 0x4F7F, 0x7528, 32, 65, 117, 116, 111]"

text \<open>\<open>txt_ac_catalog\<close>: catalog and default effort.\<close>

definition txt_ac_catalog :: jsstr where
  "txt_ac_catalog = [0x6A21, 0x578B, 0x76EE, 0x5F55, 0x4E0E, 0x9ED8, 0x8BA4, 0x601D, 0x8003, 0x5F3A, 0x5EA6]"

text \<open>\<open>txt_ac_catalog_text\<close>: the catalog is a description only.\<close>

definition txt_ac_catalog_text :: jsstr where
  "txt_ac_catalog_text = [0x76EE, 0x5F55, 0x4EC5, 0x63D0, 0x4F9B, 0x8BF4, 0x660E, 0xFF0C, 0x4E0D, 0x4EE3, 0x8868,
     0x5F53, 0x524D, 0x5DE5, 0x4F5C, 0x533A, 0x53EF, 0x624B, 0x52A8, 0x9009, 0x62E9, 0x3002,
     0x9ED8, 0x8BA4, 0x5F3A, 0x5EA6, 0x4E0D, 0x4EE3, 0x8868, 0x672C, 0x8F6E, 0x5B9E, 0x9645,
     0x5F3A, 0x5EA6, 0x3002]"

text \<open>\<open>txt_ac_refresh_plans\<close>: refresh the plans.\<close>

definition txt_ac_refresh_plans :: jsstr where
  "txt_ac_refresh_plans = [0x5237, 0x65B0, 0x5DE5, 0x4F5C, 0x533A, 0x5957, 0x9910]"

text \<open>\<open>txt_ac_eligible\<close>: a business workspace.\<close>

definition txt_ac_eligible :: jsstr where
  "txt_ac_eligible = [0x5546, 0x4E1A, 0x5DE5, 0x4F5C, 0x533A, 32, 0xB7, 32, 0x5DF2, 0x901A, 0x8FC7, 0x5957,
     0x9910, 0x51C6, 0x5165]"

text \<open>\<open>txt_ac_ai_off\<close>: AI is turned off here.\<close>

definition txt_ac_ai_off :: jsstr where
  "txt_ac_ai_off = [0x6B64, 0x5DE5, 0x4F5C, 0x533A, 0x5DF2, 0x5173, 0x95ED, 32, 65, 73, 32, 0x529F, 0x80FD,
     0x3002]"

text \<open>\<open>txt_ac_excluded\<close>: the plan has no chat.\<close>

definition txt_ac_excluded :: jsstr where
  "txt_ac_excluded = [0x6B64, 0x5957, 0x9910, 0x4E0D, 0x652F, 0x6301, 0x804A, 0x5929, 0xFF0C, 0x8BF7, 0x9009,
     0x62E9, 0x5546, 0x4E1A, 0x8BD5, 0x7528, 0x3001, 66, 117, 115, 105, 110, 101, 115, 115,
     32, 0x6216, 32, 69, 110, 116, 101, 114, 112, 114, 105, 115, 101, 32, 0x5DE5, 0x4F5C,
     0x533A, 0x3002]"

text \<open>\<open>txt_ac_unconfirmed\<close>: the plan is not confirmed.\<close>

definition txt_ac_unconfirmed :: jsstr where
  "txt_ac_unconfirmed = [0x5957, 0x9910, 0x5C1A, 0x672A, 0x786E, 0x8BA4, 0xFF0C, 0x8BF7, 0x5237, 0x65B0, 0x5DE5,
     0x4F5C, 0x533A, 0x5957, 0x9910, 0x3002]"

text \<open>\<open>txt_ac_save\<close>: save the workspace settings.\<close>

definition txt_ac_save :: jsstr where
  "txt_ac_save = [0x4FDD, 0x5B58, 0x5DE5, 0x4F5C, 0x533A, 0x8BBE, 0x7F6E]"

text \<open>\<open>txt_ac_make_default\<close>: make it the default workspace.\<close>

definition txt_ac_make_default :: jsstr where
  "txt_ac_make_default = [0x8BBE, 0x4E3A, 0x9ED8, 0x8BA4, 0x5DE5, 0x4F5C, 0x533A]"

text \<open>\<open>txt_ac_fill\<close>: fill the form.\<close>

definition txt_ac_fill :: jsstr where
  "txt_ac_fill = [0x586B, 0x5145, 0x5230, 0x8868, 0x5355]"

text \<open>\<open>txt_ac_activate\<close>: activate the workspace.\<close>

definition txt_ac_activate :: jsstr where
  "txt_ac_activate = [0x6FC0, 0x6D3B, 0x5DE5, 0x4F5C, 0x533A]"

text \<open>\<open>txt_ac_test_workspace\<close>: test the workspace.\<close>

definition txt_ac_test_workspace :: jsstr where
  "txt_ac_test_workspace = [0x6D4B, 0x8BD5, 0x5DE5, 0x4F5C, 0x533A]"

text \<open>\<open>txt_ac_delete\<close>: delete the account.\<close>

definition txt_ac_delete :: jsstr where
  "txt_ac_delete = [0x5220, 0x9664, 0x8D26, 0x53F7]"

text \<open>\<open>txt_ac_choose\<close>: choose an account.\<close>

definition txt_ac_choose :: jsstr where
  "txt_ac_choose = [0x8BF7, 0x9009, 0x62E9, 0x4E00, 0x4E2A, 0x8D26, 0x53F7]"

text \<open>\<open>txt_ac_choose_text\<close>: to see its details.\<close>

definition txt_ac_choose_text :: jsstr where
  "txt_ac_choose_text = [0x9009, 0x62E9, 0x540E, 0x67E5, 0x770B, 0x8BE6, 0x60C5, 0x4E0E, 0x64CD, 0x4F5C, 0x3002]"

text \<open>\<open>txt_ac_tools\<close>: test and runtime.\<close>

definition txt_ac_tools :: jsstr where
  "txt_ac_tools = [0x8FDE, 0x63A5, 0x6D4B, 0x8BD5, 0x4E0E, 0x8FD0, 0x884C, 0x8BE6, 0x60C5]"

text \<open>\<open>txt_ac_overview\<close>: runtime overview.\<close>

definition txt_ac_overview :: jsstr where
  "txt_ac_overview = [82, 117, 110, 116, 105, 109, 101, 32, 0x6982, 0x89C8]"

text \<open>\<open>txt_ac_overview_text\<close>: pool and session.\<close>

definition txt_ac_overview_text :: jsstr where
  "txt_ac_overview_text = [0x8D26, 0x53F7, 0x6C60, 0x4E0E, 0x4F1A, 0x8BDD, 0x6458, 0x8981, 0x3002]"

text \<open>\<open>txt_ac_quick\<close>: test an account.\<close>

definition txt_ac_quick :: jsstr where
  "txt_ac_quick = [0x5FEB, 0x901F, 0x6D4B, 0x8BD5, 0x6307, 0x5B9A, 0x8D26, 0x53F7]"

text \<open>\<open>txt_ac_quick_text\<close>: is the account usable.\<close>

definition txt_ac_quick_text :: jsstr where
  "txt_ac_quick_text = [0x9A8C, 0x8BC1, 0x8D26, 0x53F7, 0x4E0E, 0x6A21, 0x578B, 0x662F, 0x5426, 0x53EF, 0x7528,
     0x3002]"

text \<open>\<open>txt_ac_pick_account\<close>: choose an account.\<close>

definition txt_ac_pick_account :: jsstr where
  "txt_ac_pick_account = [0x9009, 0x62E9, 0x8D26, 0x53F7]"

text \<open>\<open>txt_ac_prompt_text\<close>: a short prompt first.\<close>

definition txt_ac_prompt_text :: jsstr where
  "txt_ac_prompt_text = [0x5EFA, 0x8BAE, 0x5148, 0x7528, 0x77ED, 32, 112, 114, 111, 109, 112, 116, 32, 0x63A2,
     0x6D4B, 32, 82, 69, 65, 68, 89, 0xFF0C, 0x518D, 0x6362, 0x957F, 0x5185, 0x5BB9, 0x56DE,
     0x5F52, 0x3002]"

text \<open>\<open>txt_ac_run_test\<close>: test the account.\<close>

definition txt_ac_run_test :: jsstr where
  "txt_ac_run_test = [0x6D4B, 0x8BD5, 0x8D26, 0x53F7]"

text \<open>\<open>txt_ac_test_hint\<close>: is the account ready.\<close>

definition txt_ac_test_hint :: jsstr where
  "txt_ac_test_hint = [0x5EFA, 0x8BAE, 0x5148, 0x7528, 0x77ED, 32, 112, 114, 111, 109, 112, 116, 32, 0x9A8C,
     0x8BC1, 0x8D26, 0x53F7, 0x662F, 0x5426, 32, 82, 69, 65, 68, 89, 0x3002]"

text \<open>\<open>txt_ac_test_output\<close>: output of the test.\<close>

definition txt_ac_test_output :: jsstr where
  "txt_ac_test_output = [0x8D26, 0x53F7, 0x6D4B, 0x8BD5, 0x8F93, 0x51FA]"

text \<open>\<open>txt_ac_usage\<close>: quota of all accounts.\<close>

definition txt_ac_usage :: jsstr where
  "txt_ac_usage = [0x6240, 0x6709, 0x8D26, 0x53F7, 0x7684, 32, 78, 111, 116, 105, 111, 110, 32, 0x989D,
     0x5EA6]"

text \<open>\<open>txt_ac_pipeline\<close>: login with a code.\<close>

definition txt_ac_pipeline :: jsstr where
  "txt_ac_pipeline = [0x9A8C, 0x8BC1, 0x7801, 0x767B, 0x5F55, 0x7BA1, 0x7EBF]"

text \<open>\<open>txt_ac_pipeline_text\<close>: request a code and submit it.\<close>

definition txt_ac_pipeline_text :: jsstr where
  "txt_ac_pipeline_text = [0x53D1, 0x8D77, 0x9A8C, 0x8BC1, 0x7801, 0x8BF7, 0x6C42, 0x3001, 0x63D0, 0x4EA4, 0x9A8C,
     0x8BC1, 0x7801, 0xFF0C, 0x540C, 0x6B65, 0x52A8, 0x4F5C, 0x4F1A, 0x81EA, 0x52A8, 0x586B,
     0x5145, 0x5230, 0x5176, 0x4ED6, 0x533A, 0x57DF, 0x3002]"

text \<open>\<open>txt_ac_request\<close>: request a code.\<close>

definition txt_ac_request :: jsstr where
  "txt_ac_request = [0x8BF7, 0x6C42, 0x9A8C, 0x8BC1, 0x7801]"

text \<open>\<open>txt_ac_request_text\<close>: starts a login.\<close>

definition txt_ac_request_text :: jsstr where
  "txt_ac_request_text = [0x53D1, 0x8D77, 0x767B, 0x5F55, 0xFF0C, 0x540C, 0x6B65, 0x5230, 0x9A8C, 0x8BC1, 0x7801,
     0x533A, 0x4E0E, 0x6D4B, 0x8BD5, 0x533A, 0x3002]"

text \<open>\<open>txt_ac_email_text\<close>: the address to add.\<close>

definition txt_ac_email_text :: jsstr where
  "txt_ac_email_text = [0x5EFA, 0x8BAE, 0x4F7F, 0x7528, 0x4F60, 0x51C6, 0x5907, 0x52A0, 0x5165, 0x8D26, 0x53F7,
     0x6C60, 0x7684, 0x90AE, 0x7BB1, 0x3002]"

text \<open>\<open>txt_ac_requesting\<close>: requesting.\<close>

definition txt_ac_requesting :: jsstr where
  "txt_ac_requesting = [0x8BF7, 0x6C42, 0x4E2D, 46, 46, 46]"

text \<open>\<open>txt_ac_submit_hint\<close>: submit the code when it has come.\<close>

definition txt_ac_submit_hint :: jsstr where
  "txt_ac_submit_hint = [0x6536, 0x5230, 0x9A8C, 0x8BC1, 0x7801, 0x540E, 0x76F4, 0x63A5, 0x63D0, 0x4EA4, 0x3002]"

text \<open>\<open>txt_ac_code\<close>: enter the code.\<close>

definition txt_ac_code :: jsstr where
  "txt_ac_code = [0x586B, 0x5199, 0x9A8C, 0x8BC1, 0x7801]"

text \<open>\<open>txt_ac_code_text\<close>: stored and made the default.\<close>

definition txt_ac_code_text :: jsstr where
  "txt_ac_code_text = [0x9A8C, 0x8BC1, 0x6210, 0x529F, 0x540E, 0x4F1A, 0x81EA, 0x52A8, 0x843D, 0x76D8, 0x5E76,
     0x5207, 0x4E3A, 0x9ED8, 0x8BA4, 0x8D26, 0x53F7, 0x3002]"

text \<open>\<open>txt_ac_verify_text\<close>: usually the address on the left.\<close>

definition txt_ac_verify_text :: jsstr where
  "txt_ac_verify_text = [0x901A, 0x5E38, 0x4E0E, 0x5DE6, 0x4FA7, 0x8BF7, 0x6C42, 0x9A8C, 0x8BC1, 0x7801, 0x6240,
     0x7528, 0x90AE, 0x7BB1, 0x4FDD, 0x6301, 0x4E00, 0x81F4, 0x3002]"

text \<open>\<open>txt_ac_verify_hint\<close>: the address on the left.\<close>

definition txt_ac_verify_hint :: jsstr where
  "txt_ac_verify_hint = [0x4E0E, 0x5DE6, 0x4FA7, 0x90AE, 0x7BB1, 0x4E00, 0x81F4]"

text \<open>\<open>txt_ac_code_hint\<close>: six digits, goes to the pool.\<close>

definition txt_ac_code_hint :: jsstr where
  "txt_ac_code_hint = [0x516D, 0x4F4D, 0x9A8C, 0x8BC1, 0x7801, 0xFF0C, 0x63D0, 0x4EA4, 0x540E, 0x4F1A, 0x7ACB,
     0x523B, 0x8FDB, 0x5165, 0x8D26, 0x53F7, 0x6C60, 0x3002]"

text \<open>\<open>txt_ac_six\<close>: six digits.\<close>

definition txt_ac_six :: jsstr where
  "txt_ac_six = [0x516D, 0x4F4D, 0x9A8C, 0x8BC1, 0x7801]"

text \<open>\<open>txt_ac_submit\<close>: submit the code.\<close>

definition txt_ac_submit :: jsstr where
  "txt_ac_submit = [0x63D0, 0x4EA4, 0x9A8C, 0x8BC1, 0x7801]"

text \<open>\<open>txt_ac_error_hint\<close>: errors of the server are shown.\<close>

definition txt_ac_error_hint :: jsstr where
  "txt_ac_error_hint = [0x9519, 0x8BEF, 0x65F6, 0x4F1A, 0x663E, 0x793A, 0x670D, 0x52A1, 0x7AEF, 0x8FD4, 0x56DE,
     0x4FE1, 0x606F, 0x3002]"

text \<open>\<open>txt_ac_import\<close>: import an account.\<close>

definition txt_ac_import :: jsstr where
  "txt_ac_import = [0x624B, 0x52A8, 0x5BFC, 0x5165, 0x8D26, 0x53F7]"

text \<open>\<open>txt_ac_import_text\<close>: a cookie is enough.\<close>

definition txt_ac_import_text :: jsstr where
  "txt_ac_import_text = [0x53EA, 0x8D34, 32, 99, 111, 111, 107, 105, 101, 32, 47, 32, 116, 111, 107, 101, 110, 95,
     118, 50, 32, 0x4E5F, 0x80FD, 0x81EA, 0x52A8, 0x8865, 0x9F50, 0xFF0C, 0x4E5F, 0x53EF,
     0x76F4, 0x63A5, 0x5BFC, 0x5165, 0x5B8C, 0x6574, 32, 80, 114, 111, 98, 101, 32, 74, 83,
     79, 78, 0x3002]"

text \<open>\<open>txt_ac_token_hint\<close>: token_v2 alone tries to complete the rest.\<close>

definition txt_ac_token_hint :: jsstr where
  "txt_ac_token_hint = [0x53EA, 0x586B, 32, 116, 111, 107, 101, 110, 95, 118, 50, 32, 0x4F1A, 0x5C1D, 0x8BD5,
     0x8865, 0x9F50, 0x5176, 0x4ED6, 0x5B57, 0x6BB5, 0x3002]"

text \<open>\<open>txt_ac_identity\<close>: identity.\<close>

definition txt_ac_identity :: jsstr where
  "txt_ac_identity = [0x8D26, 0x53F7, 0x8EAB, 0x4EFD]"

text \<open>\<open>txt_ac_identity_text\<close>: six fields, or from probe JSON.\<close>

definition txt_ac_identity_text :: jsstr where
  "txt_ac_identity_text = [54, 32, 0x4E2A, 0x5E38, 0x7528, 0x5B57, 0x6BB5, 0x53EF, 0x4EE5, 0x624B, 0x52A8, 0x586B,
     0x5199, 0xFF0C, 0x4E5F, 0x4F1A, 0x4ECE, 0x53F3, 0x4FA7, 32, 80, 114, 111, 98, 101, 32,
     74, 83, 79, 78, 32, 0x81EA, 0x52A8, 0x63D0, 0x53D6, 0x3002]"

text \<open>\<open>txt_ac_blank_text\<close>: may be left blank.\<close>

definition txt_ac_blank_text :: jsstr where
  "txt_ac_blank_text = [0x53EF, 0x7559, 0x7A7A, 0xFF1B, 0x82E5, 32, 99, 111, 111, 107, 105, 101, 32, 0x6216, 32,
     80, 114, 111, 98, 101, 32, 74, 83, 79, 78, 32, 0x8DB3, 0x591F, 0x5B8C, 0x6574, 0xFF0C,
     0x4F1A, 0x81EA, 0x52A8, 0x8BC6, 0x522B, 0x3002]"

text \<open>\<open>txt_ac_cookie_text\<close>: a full header or token_v2.\<close>

definition txt_ac_cookie_text :: jsstr where
  "txt_ac_cookie_text = [0x652F, 0x6301, 0x5B8C, 0x6574, 32, 67, 111, 111, 107, 105, 101, 32, 104, 101, 97, 100,
     101, 114, 0xFF0C, 0x4E5F, 0x652F, 0x6301, 0x53EA, 0x586B, 32, 116, 111, 107, 101, 110,
     95, 118, 50, 61, 46, 46, 46, 0x3002]"

text \<open>\<open>txt_ac_activate_now\<close>: activate after the import.\<close>

definition txt_ac_activate_now :: jsstr where
  "txt_ac_activate_now = [0x5BFC, 0x5165, 0x540E, 0x7ACB, 0x5373, 0x6FC0, 0x6D3B]"

text \<open>\<open>txt_ac_activate_text\<close>: makes it the default account.\<close>

definition txt_ac_activate_text :: jsstr where
  "txt_ac_activate_text = [0x9002, 0x5408, 0x76F4, 0x63A5, 0x628A, 0x73B0, 0x6210, 0x4F1A, 0x8BDD, 0x5207, 0x4E3A,
     0x5F53, 0x524D, 0x9ED8, 0x8BA4, 0x8D26, 0x53F7, 0x3002]"

text \<open>\<open>txt_ac_probe\<close>: identity JSON.\<close>

definition txt_ac_probe :: jsstr where
  "txt_ac_probe = [0x5B8C, 0x6574, 0x8EAB, 0x4EFD, 32, 74, 83, 79, 78]"

text \<open>\<open>txt_ac_probe_text\<close>: completes the fields.\<close>

definition txt_ac_probe_text :: jsstr where
  "txt_ac_probe_text = [0x957F, 32, 74, 83, 79, 78, 32, 0x7EDF, 0x4E00, 0x5728, 0x6DF1, 0x8272, 0x4EE3, 0x7801,
     0x533A, 0x7F16, 0x8F91, 0xFF0C, 0x53EF, 0x8865, 0x9F50, 0x4E0A, 0x9762, 32, 73, 100, 101,
     110, 116, 105, 116, 121, 32, 0x5B57, 0x6BB5, 0x3002]"

text \<open>\<open>txt_ac_probe_hint\<close>: the fields above go first.\<close>

definition txt_ac_probe_hint :: jsstr where
  "txt_ac_probe_hint = [0x5728, 0x4E0A, 0x65B9, 0x8868, 0x5355, 0x5DF2, 0x586B, 0x7684, 0x5B57, 0x6BB5, 0x4F18,
     0x5148, 0xFF1B, 80, 114, 111, 98, 101, 32, 74, 83, 79, 78, 32, 0x4EC5, 0x8865, 0x9F50,
     0x672A, 0x586B, 0x5B57, 0x6BB5, 0x3002]"

text \<open>\<open>txt_ac_per_hour\<close>: times per hour.\<close>

definition txt_ac_per_hour :: jsstr where
  "txt_ac_per_hour = [32, 0x6B21, 47, 0x5C0F, 0x65F6]"

text \<open>\<open>txt_ac_count_before\<close>: in all.\<close>

definition txt_ac_count_before :: jsstr where
  "txt_ac_count_before = [0x5171, 32]"

text \<open>\<open>txt_ac_count_after\<close>: accounts, click for details.\<close>

definition txt_ac_count_after :: jsstr where
  "txt_ac_count_after = [32, 0x4E2A, 0x8D26, 0x53F7, 0xFF0C, 0x70B9, 0x51FB, 0x67E5, 0x770B, 0x8BE6, 0x60C5,
     0x3002]"

text \<open>\<open>txt_ac_mode\<close>: choice of models:.\<close>

definition txt_ac_mode :: jsstr where
  "txt_ac_mode = [0x6A21, 0x578B, 0x9009, 0x62E9, 0xFF1A]"

text \<open>\<open>txt_ac_stop\<close>: full stop.\<close>

definition txt_ac_stop :: jsstr where
  "txt_ac_stop = [0x3002]"

text \<open>\<open>txt_ac_checked\<close>: last confirmed:.\<close>

definition txt_ac_checked :: jsstr where
  "txt_ac_checked = [32, 0x4E0A, 0x6B21, 0x786E, 0x8BA4, 0xFF1A]"

text \<open>\<open>txt_ac_effort\<close>: by default.\<close>

definition txt_ac_effort :: jsstr where
  "txt_ac_effort = [32, 0xB7, 32, 0x9ED8, 0x8BA4, 32]"

text \<open>\<open>txt_ac_unavailable\<close>: not available:.\<close>

definition txt_ac_unavailable :: jsstr where
  "txt_ac_unavailable = [32, 0xB7, 32, 0x4E0D, 0x53EF, 0x7528, 0xFF1A]"

text \<open>\<open>txt_ac_not_all\<close>: a plan is no quota for every model.\<close>

definition txt_ac_not_all :: jsstr where
  "txt_ac_not_all = [32, 0xB7, 32, 0x5957, 0x9910, 0x51C6, 0x5165, 0x4E0D, 0x4EE3, 0x8868, 0x6240, 0x6709,
     0x6A21, 0x578B, 0x5747, 0x6709, 0x989D, 0x5EA6, 0x3002]"

text \<open>\<open>txt_ac_spaces\<close>: workspaces.\<close>

definition txt_ac_spaces :: jsstr where
  "txt_ac_spaces = [0x5DE5, 0x4F5C, 0x533A, 32, 0xB7, 32]"

text \<open>\<open>txt_ac_default_space\<close>: default.\<close>

definition txt_ac_default_space :: jsstr where
  "txt_ac_default_space = [0x9ED8, 0x8BA4, 32, 0xB7, 32]"

text \<open>\<open>txt_ac_rate\<close>: rate limit.\<close>

definition txt_ac_rate :: jsstr where
  "txt_ac_rate = [0x5F53, 0x524D, 0x9650, 0x901F, 32, 0xB7, 32]"

text \<open>\<open>txt_cv_total\<close>: conversations.\<close>

definition txt_cv_total :: jsstr where
  "txt_cv_total = [0x4F1A, 0x8BDD, 0x603B, 0x6570]"

text \<open>\<open>txt_cv_origins\<close>: where they come from.\<close>

definition txt_cv_origins :: jsstr where
  "txt_cv_origins = [0x6765, 0x6E90, 0x5206, 0x5E03]"

text \<open>\<open>txt_cv_origins_hint\<close>: local, merged, Notion.\<close>

definition txt_cv_origins_hint :: jsstr where
  "txt_cv_origins_hint = [0x672C, 0x5730, 32, 47, 32, 0x5408, 0x5E76, 32, 47, 32, 78, 111, 116, 105, 111, 110]"

text \<open>\<open>txt_cv_state\<close>: present state.\<close>

definition txt_cv_state :: jsstr where
  "txt_cv_state = [0x5F53, 0x524D, 0x72B6, 0x6001]"

text \<open>\<open>txt_cv_count\<close>: messages.\<close>

definition txt_cv_count :: jsstr where
  "txt_cv_count = [0x6D88, 0x606F, 0x6570]"

text \<open>\<open>txt_cv_count_hint\<close>: of the conversation that is selected.\<close>

definition txt_cv_count_hint :: jsstr where
  "txt_cv_count_hint = [0x5F53, 0x524D, 0x9009, 0x4E2D, 0x4F1A, 0x8BDD]"

text \<open>\<open>txt_cv_heading\<close>: conversations and live stream.\<close>

definition txt_cv_heading :: jsstr where
  "txt_cv_heading = [0x4F1A, 0x8BDD, 0x7BA1, 0x7406, 0x4E0E, 0x5B9E, 0x65F6, 0x6D41]"

text \<open>\<open>txt_cv_intro\<close>: recent threads by account.\<close>

definition txt_cv_intro :: jsstr where
  "txt_cv_intro = [0x67E5, 0x770B, 0x6700, 0x8FD1, 0x7EBF, 0x7A0B, 0xFF0C, 0x6309, 0x8D26, 0x53F7, 0x7B5B,
     0x9009, 0xFF0C, 0x5E76, 0x540C, 0x6B65, 0x5220, 0x9664, 0x8FDC, 0x7AEF, 0x4F1A, 0x8BDD,
     0x3002]"

text \<open>\<open>txt_cv_refresh\<close>: refresh the conversations.\<close>

definition txt_cv_refresh :: jsstr where
  "txt_cv_refresh = [0x5237, 0x65B0, 0x4F1A, 0x8BDD]"

text \<open>\<open>txt_cv_recent\<close>: recent conversations.\<close>

definition txt_cv_recent :: jsstr where
  "txt_cv_recent = [0x6700, 0x8FD1, 0x4F1A, 0x8BDD]"

text \<open>\<open>txt_cv_recent_text\<close>: by time of change.\<close>

definition txt_cv_recent_text :: jsstr where
  "txt_cv_recent_text = [0x6309, 0x66F4, 0x65B0, 0x65F6, 0x95F4, 0x6392, 0x5E8F, 0xFF0C, 0x652F, 0x6301, 0x8D26,
     0x53F7, 0x7B5B, 0x9009, 0x3001, 0x6279, 0x91CF, 0x5220, 0x9664, 0x548C, 0x8FDC, 0x7AEF,
     0x540C, 0x6B65, 0x3002]"

text \<open>\<open>txt_cv_pick\<close>: filter by account.\<close>

definition txt_cv_pick :: jsstr where
  "txt_cv_pick = [0x7B5B, 0x9009, 0x8D26, 0x53F7]"

text \<open>\<open>txt_cv_unselect\<close>: select none.\<close>

definition txt_cv_unselect :: jsstr where
  "txt_cv_unselect = [0x53D6, 0x6D88, 0x5168, 0x9009]"

text \<open>\<open>txt_cv_select\<close>: select all.\<close>

definition txt_cv_select :: jsstr where
  "txt_cv_select = [0x5168, 0x9009]"

text \<open>\<open>txt_cv_no_running\<close>: running ones cannot be deleted.\<close>

definition txt_cv_no_running :: jsstr where
  "txt_cv_no_running = [0xFF1B, 0x8FD0, 0x884C, 0x4E2D, 0x7684, 0x4F1A, 0x8BDD, 0x4E0D, 0x80FD, 0x5220, 0x9664,
     0x3002]"

text \<open>\<open>txt_cv_synced\<close>: deletes the Notion conversations too.\<close>

definition txt_cv_synced :: jsstr where
  "txt_cv_synced = [0xFF1B, 0x5220, 0x9664, 0x4F1A, 0x540C, 0x6B65, 0x5220, 0x9664, 32, 78, 111, 116, 105,
     111, 110, 32, 0x5BF9, 0x8BDD, 0x3002]"

text \<open>\<open>txt_cv_no_preview\<close>: no preview.\<close>

definition txt_cv_no_preview :: jsstr where
  "txt_cv_no_preview = [0x6682, 0x65E0, 0x9884, 0x89C8]"

text \<open>\<open>txt_cv_no_match\<close>: no conversation matches.\<close>

definition txt_cv_no_match :: jsstr where
  "txt_cv_no_match = [0x6CA1, 0x6709, 0x5339, 0x914D, 0x4F1A, 0x8BDD]"

text \<open>\<open>txt_cv_no_result\<close>: nothing under this filter.\<close>

definition txt_cv_no_result :: jsstr where
  "txt_cv_no_result = [0x5F53, 0x524D, 0x7B5B, 0x9009, 0x4E0B, 0x6CA1, 0x6709, 0x7ED3, 0x679C, 0x3002]"

text \<open>\<open>txt_cv_send_first\<close>: threads appear after a message.\<close>

definition txt_cv_send_first :: jsstr where
  "txt_cv_send_first = [0x53D1, 0x9001, 0x6D88, 0x606F, 0x540E, 0x4F1A, 0x81EA, 0x52A8, 0x540C, 0x6B65, 0x6700,
     0x8FD1, 0x7EBF, 0x7A0B, 0x3002]"

text \<open>\<open>txt_cv_continue\<close>: continue.\<close>

definition txt_cv_continue :: jsstr where
  "txt_cv_continue = [0x7EE7, 0x7EED, 0x5BF9, 0x8BDD]"

text \<open>\<open>txt_cv_delete\<close>: delete and synchronise.\<close>

definition txt_cv_delete :: jsstr where
  "txt_cv_delete = [0x5220, 0x9664, 0x5E76, 0x540C, 0x6B65]"

text \<open>\<open>txt_cv_source\<close>: source.\<close>

definition txt_cv_source :: jsstr where
  "txt_cv_source = [0x6765, 0x6E90]"

text \<open>\<open>txt_cv_creator\<close>: creator.\<close>

definition txt_cv_creator :: jsstr where
  "txt_cv_creator = [0x521B, 0x5EFA, 0x8005]"

text \<open>\<open>txt_cv_requested\<close>: requested model.\<close>

definition txt_cv_requested :: jsstr where
  "txt_cv_requested = [0x8BF7, 0x6C42, 0x6A21, 0x578B]"

text \<open>\<open>txt_cv_created\<close>: created.\<close>

definition txt_cv_created :: jsstr where
  "txt_cv_created = [0x521B, 0x5EFA, 0x65F6, 0x95F4]"

text \<open>\<open>txt_cv_updated\<close>: updated.\<close>

definition txt_cv_updated :: jsstr where
  "txt_cv_updated = [0x66F4, 0x65B0, 0x65F6, 0x95F4]"

text \<open>\<open>txt_cv_current\<close>: this conversation.\<close>

definition txt_cv_current :: jsstr where
  "txt_cv_current = [0x5F53, 0x524D, 0x4F1A, 0x8BDD]"

text \<open>\<open>txt_cv_origin\<close>: its source.\<close>

definition txt_cv_origin :: jsstr where
  "txt_cv_origin = [0x4F1A, 0x8BDD, 0x6765, 0x6E90]"

text \<open>\<open>txt_cv_messages\<close>: number of messages.\<close>

definition txt_cv_messages :: jsstr where
  "txt_cv_messages = [0x6D88, 0x606F, 0x6761, 0x6570]"

text \<open>\<open>txt_cv_timeline\<close>: messages.\<close>

definition txt_cv_timeline :: jsstr where
  "txt_cv_timeline = [0x6D88, 0x606F, 0x65F6, 0x95F4, 0x7EBF]"

text \<open>\<open>txt_cv_streaming\<close>: streaming.\<close>

definition txt_cv_streaming :: jsstr where
  "txt_cv_streaming = [0x5B9E, 0x65F6, 0x6D41, 0x8FDB, 0x884C, 0x4E2D]"

text \<open>\<open>txt_cv_failed\<close>: the conversation failed.\<close>

definition txt_cv_failed :: jsstr where
  "txt_cv_failed = [0x4F1A, 0x8BDD, 0x5931, 0x8D25]"

text \<open>\<open>txt_cv_done\<close>: done.\<close>

definition txt_cv_done :: jsstr where
  "txt_cv_done = [0x5DF2, 0x5B8C, 0x6210]"

text \<open>\<open>txt_cv_no_text\<close>: no text.\<close>

definition txt_cv_no_text :: jsstr where
  "txt_cv_no_text = [91, 0x65E0, 0x6587, 0x672C, 0x5185, 0x5BB9, 93]"

text \<open>\<open>txt_cv_no_messages\<close>: no messages.\<close>

definition txt_cv_no_messages :: jsstr where
  "txt_cv_no_messages = [0x6682, 0x65E0, 0x6D88, 0x606F]"

text \<open>\<open>txt_cv_no_detail\<close>: not loaded yet, or a summary only.\<close>

definition txt_cv_no_detail :: jsstr where
  "txt_cv_no_detail = [0x8BE5, 0x4F1A, 0x8BDD, 0x8BE6, 0x60C5, 0x8FD8, 0x6CA1, 0x88AB, 0x52A0, 0x8F7D, 0xFF0C,
     0x6216, 0x76EE, 0x524D, 0x53EA, 0x6709, 0x6458, 0x8981, 0x4FE1, 0x606F, 0x3002]"

text \<open>\<open>txt_cv_choose\<close>: choose a conversation.\<close>

definition txt_cv_choose :: jsstr where
  "txt_cv_choose = [0x8BF7, 0x9009, 0x62E9, 0x4E00, 0x6761, 0x4F1A, 0x8BDD]"

text \<open>\<open>txt_cv_choose_text\<close>: to see its messages.\<close>

definition txt_cv_choose_text :: jsstr where
  "txt_cv_choose_text = [0x9009, 0x4E2D, 0x540E, 0x67E5, 0x770B, 0x5143, 0x6570, 0x636E, 0x4E0E, 0x6D88, 0x606F,
     0x65F6, 0x95F4, 0x7EBF, 0x3002]"

text \<open>\<open>txt_cv_status\<close>: status.\<close>

definition txt_cv_status :: jsstr where
  "txt_cv_status = [0x72B6, 0x6001]"

text \<open>\<open>txt_cv_account\<close>: account.\<close>

definition txt_cv_account :: jsstr where
  "txt_cv_account = [0x8D26, 0x53F7]"

text \<open>\<open>txt_cv_batch\<close>: delete several.\<close>

definition txt_cv_batch :: jsstr where
  "txt_cv_batch = [0x6279, 0x91CF, 0x5220, 0x9664, 32]"

text \<open>\<open>txt_cv_chosen\<close>: selected.\<close>

definition txt_cv_chosen :: jsstr where
  "txt_cv_chosen = [0x5DF2, 0x9009, 32]"

text \<open>\<open>txt_cv_chosen_local\<close>: of them local.\<close>

definition txt_cv_chosen_local :: jsstr where
  "txt_cv_chosen_local = [32, 0x6761, 32, 0xB7, 32, 0x672C, 0x5730, 32]"

text \<open>\<open>txt_cv_chosen_remote\<close>: of them in Notion.\<close>

definition txt_cv_chosen_remote :: jsstr where
  "txt_cv_chosen_remote = [32, 0xB7, 32, 0x6D89, 0x53CA, 32, 78, 111, 116, 105, 111, 110, 32]"

text \<open>\<open>txt_cv_updated_at\<close>: updated at.\<close>

definition txt_cv_updated_at :: jsstr where
  "txt_cv_updated_at = [0x66F4, 0x65B0, 0x4E8E, 32]"

text \<open>\<open>txt_me_actual\<close>: actual model:.\<close>

definition txt_me_actual :: jsstr where
  "txt_me_actual = [0x5B9E, 0x9645, 0x6A21, 0x578B, 0xFF1A]"

text \<open>\<open>txt_me_code\<close>: code upstream:.\<close>

definition txt_me_code :: jsstr where
  "txt_me_code = [0x4E0A, 0x6E38, 0x4EE3, 0x53F7, 0xFF1A]"

text \<open>\<open>txt_me_source\<close>: source:.\<close>

definition txt_me_source :: jsstr where
  "txt_me_source = [32, 0xB7, 32, 0x6765, 0x6E90, 0xFF1A]"

text \<open>\<open>txt_me_requested\<close>: requested model:.\<close>

definition txt_me_requested :: jsstr where
  "txt_me_requested = [0x8BF7, 0x6C42, 0x6A21, 0x578B, 0xFF1A]"

text \<open>\<open>txt_me_executed\<close>: run as Auto.\<close>

definition txt_me_executed :: jsstr where
  "txt_me_executed = [0xFF0C, 0x5DF2, 0x6309, 32, 65, 117, 116, 111, 32, 0x517C, 0x5BB9, 0x6267, 0x884C]"

text \<open>\<open>txt_me_nothing\<close>: nothing reported upstream.\<close>

definition txt_me_nothing :: jsstr where
  "txt_me_nothing = [0x4E0A, 0x6E38, 0x672A, 0x8FD4, 0x56DE, 0x5B9E, 0x9645, 0x6A21, 0x578B, 0x4FE1, 0x606F,
     0x3002]"

text \<open>\<open>txt_po_title\<close>: model settings of the workspace.\<close>

definition txt_po_title :: jsstr where
  "txt_po_title = [0x5DE5, 0x4F5C, 0x533A, 0x6A21, 0x578B, 0x8BBE, 0x7F6E]"

text \<open>\<open>txt_po_intro\<close>: what a change affects and who may make it.\<close>

definition txt_po_intro :: jsstr where
  "txt_po_intro = [0x4EC5, 0x5728, 0x70B9, 0x51FB, 0x5E94, 0x7528, 0x3001, 0x6062, 0x590D, 0x6216, 0x6E05,
     0x9664, 0x65F6, 0x4FEE, 0x6539, 32, 78, 111, 116, 105, 111, 110, 32, 0x8BBE, 0x7F6E,
     0x3002, 0x4FEE, 0x6539, 0x5F71, 0x54CD, 0x6574, 0x4E2A, 0x5DE5, 0x4F5C, 0x533A, 0x4E2D,
     0x6B64, 0x7C7B, 0x4EE3, 0x7406, 0x7684, 0x6240, 0x6709, 0x4F1A, 0x8BDD, 0x548C, 0x6210,
     0x5458, 0xFF1B, 0x53EA, 0x6709, 0x5DE5, 0x4F5C, 0x533A, 0x6240, 0x6709, 0x8005, 0x53EF,
     0x64CD, 0x4F5C, 0x3002]"

text \<open>\<open>txt_po_busy\<close>: working.\<close>

definition txt_po_busy :: jsstr where
  "txt_po_busy = [0x6B63, 0x5728, 0x5904, 0x7406, 0x2026]"

text \<open>\<open>txt_po_read\<close>: read the model settings.\<close>

definition txt_po_read :: jsstr where
  "txt_po_read = [0x8BFB, 0x53D6, 0x6A21, 0x578B, 0x8BBE, 0x7F6E]"

text \<open>\<open>txt_po_cooling\<close>: no reading or changing while the account cools down.\<close>

definition txt_po_cooling :: jsstr where
  "txt_po_cooling = [0x8D26, 0x53F7, 0x51B7, 0x5374, 0x671F, 0x95F4, 0x6682, 0x505C, 0x8BFB, 0x53D6, 0x548C,
     0x4FEE, 0x6539, 0x3002]"

text \<open>\<open>txt_po_right\<close>: current permission.\<close>

definition txt_po_right :: jsstr where
  "txt_po_right = [0x5F53, 0x524D, 0x6743, 0x9650, 0xFF1A]"

text \<open>\<open>txt_po_owner\<close>: owner of the workspace.\<close>

definition txt_po_owner :: jsstr where
  "txt_po_owner = [0x5DE5, 0x4F5C, 0x533A, 0x6240, 0x6709, 0x8005]"

text \<open>\<open>txt_po_unknown\<close>: not confirmed.\<close>

definition txt_po_unknown :: jsstr where
  "txt_po_unknown = [0x672A, 0x786E, 0x8BA4]"

text \<open>\<open>txt_full_stop\<close>: full stop.\<close>

definition txt_full_stop :: jsstr where
  "txt_full_stop = [0x3002]"

text \<open>\<open>txt_po_view_only\<close>: only to be looked at.\<close>

definition txt_po_view_only :: jsstr where
  "txt_po_view_only = [0x5F53, 0x524D, 0x4EC5, 0x53EF, 0x67E5, 0x770B, 0xFF0C, 0x65E0, 0x6CD5, 0x4FEE, 0x6539,
     0x3002]"

text \<open>\<open>txt_po_none_before\<close>: no model of the catalogue is allowed, so in this workspace the.\<close>

definition txt_po_none_before :: jsstr where
  "txt_po_none_before = [0x5F53, 0x524D, 0x9650, 0x5236, 0x4E0B, 0x76EE, 0x5F55, 0x5185, 0x6CA1, 0x6709, 0x4EFB,
     0x4F55, 0x5141, 0x8BB8, 0x7684, 0x6A21, 0x578B, 0xFF0C, 0x6B64, 0x5DE5, 0x4F5C, 0x533A,
     0x7684]"

text \<open>\<open>txt_po_none_after\<close>: has no model; choose one, restore or clear.\<close>

definition txt_po_none_after :: jsstr where
  "txt_po_none_after = [0x5C06, 0x65E0, 0x53EF, 0x7528, 0x6A21, 0x578B, 0x3002, 0x8BF7, 0x9009, 0x62E9, 0x4E00,
     0x4E2A, 0x53EF, 0x7528, 0x6A21, 0x578B, 0x5E94, 0x7528, 0xFF0C, 0x6216, 0x6062, 0x590D,
     0x4FEE, 0x6539, 0x524D, 0x8BBE, 0x7F6E, 0x3001, 0x6E05, 0x9664, 0x9650, 0x5236, 0x3002]"

text \<open>\<open>txt_po_allowed\<close>: allowed in the catalogue.\<close>

definition txt_po_allowed :: jsstr where
  "txt_po_allowed = [0x5F53, 0x524D, 0x76EE, 0x5F55, 0x5185, 0x5141, 0x8BB8, 0xFF1A]"

text \<open>\<open>txt_po_comma\<close>: enumeration comma.\<close>

definition txt_po_comma :: jsstr where
  "txt_po_comma = [0x3001]"

text \<open>\<open>txt_po_none\<close>: no model.\<close>

definition txt_po_none :: jsstr where
  "txt_po_none = [0x6CA1, 0x6709, 0x53EF, 0x7528, 0x6A21, 0x578B]"

text \<open>\<open>txt_po_no_limits\<close>: no limits are set.\<close>

definition txt_po_no_limits :: jsstr where
  "txt_po_no_limits = [0x5C1A, 0x672A, 0x8BBE, 0x7F6E, 0x989D, 0x5916, 0x6A21, 0x578B, 0x9650, 0x5236, 0x3002]"

text \<open>\<open>txt_po_unavailable\<close>: not available.\<close>

definition txt_po_unavailable :: jsstr where
  "txt_po_unavailable = [0xFF08, 0x4E0D, 0x53EF, 0x7528]"

text \<open>\<open>txt_po_official\<close>: official name.\<close>

definition txt_po_official :: jsstr where
  "txt_po_official = [0x5B98, 0x65B9, 0x540D, 0x79F0, 0xFF1A]"

text \<open>\<open>txt_po_provider\<close>: provider.\<close>

definition txt_po_provider :: jsstr where
  "txt_po_provider = [0x4F9B, 0x5E94, 0x5546, 0xFF1A]"

text \<open>\<open>txt_po_id\<close>: id of the setting.\<close>

definition txt_po_id :: jsstr where
  "txt_po_id = [0x8BBE, 0x7F6E, 32, 73, 68, 0xFF1A]"

text \<open>\<open>txt_po_alias\<close>: alias the agent infers with.\<close>

definition txt_po_alias :: jsstr where
  "txt_po_alias = [0x6B64, 0x4EE3, 0x7406, 0x63A8, 0x7406, 0x522B, 0x540D, 0xFF1A]"

text \<open>\<open>txt_po_no_alias\<close>: not reported, cannot be confirmed.\<close>

definition txt_po_no_alias :: jsstr where
  "txt_po_no_alias = [0x4E0A, 0x6E38, 0x672A, 0x8FD4, 0x56DE, 0xFF0C, 0x65E0, 0x6CD5, 0x786E, 0x8BA4]"

text \<open>\<open>txt_po_source\<close>: from the catalogue; not what is really called.\<close>

definition txt_po_source :: jsstr where
  "txt_po_source = [0x4EE5, 0x4E0A, 0x5BF9, 0x5E94, 0x5173, 0x7CFB, 0x6765, 0x81EA, 0x672C, 0x6B21, 32, 78,
     111, 116, 105, 111, 110, 32, 0x76EE, 0x5F55, 0x54CD, 0x5E94, 0xFF1B, 0x4E0D, 0x4EE3,
     0x8868, 0x5DF2, 0x7ECF, 0x9A8C, 0x8BC1, 0x5B9E, 0x9645, 0x8C03, 0x7528, 0x6A21, 0x578B,
     0x3002]"

text \<open>\<open>txt_po_effect\<close>: what applying the policy does.\<close>

definition txt_po_effect :: jsstr where
  "txt_po_effect = [0x5E94, 0x7528, 0x540E, 0x5C06, 0x5141, 0x8BB8, 0x76EE, 0x6807, 0x6A21, 0x578B, 0xFF0C,
     0x5E76, 0x6392, 0x9664, 0x5F53, 0x524D, 0x76EE, 0x5F55, 0x5185, 0x7684, 0x5176, 0x4ED6,
     0x6A21, 0x578B, 0x4E0E, 0x4F9B, 0x5E94, 0x5546, 0x3002, 0x76EE, 0x5F55, 0x65B0, 0x589E,
     0x6A21, 0x578B, 0x540E, 0x9700, 0x91CD, 0x65B0, 0x786E, 0x8BA4, 0xFF1B, 0x6B64, 0x8BBE,
     0x7F6E, 0x4E0D, 0x4F1A, 0x89E3, 0x9664, 0x8BD5, 0x7528, 0x6216, 0x5957, 0x9910, 0x9650,
     0x5236, 0x3002]"

text \<open>\<open>txt_po_apply_to\<close>: will be applied to.\<close>

definition txt_po_apply_to :: jsstr where
  "txt_po_apply_to = [0x5C06, 0x5E94, 0x7528, 0x5230, 0x300C]"

text \<open>\<open>txt_po_apply_of\<close>: of.\<close>

definition txt_po_apply_of :: jsstr where
  "txt_po_apply_of = [0x300D, 0x7684]"

text \<open>\<open>txt_po_apply\<close>: apply to the whole workspace.\<close>

definition txt_po_apply :: jsstr where
  "txt_po_apply = [0x5E94, 0x7528, 0x5230, 0x6574, 0x4E2A, 0x5DE5, 0x4F5C, 0x533A]"

text \<open>\<open>txt_po_restore\<close>: restore the settings before the change.\<close>

definition txt_po_restore :: jsstr where
  "txt_po_restore = [0x6062, 0x590D, 0x4FEE, 0x6539, 0x524D, 0x8BBE, 0x7F6E]"

text \<open>\<open>txt_po_clear\<close>: clear the limits.\<close>

definition txt_po_clear :: jsstr where
  "txt_po_clear = [0x6E05, 0x9664, 0x9650, 0x5236]"

text \<open>\<open>txt_po_saved\<close>: the server has kept the settings before the change (.\<close>

definition txt_po_saved :: jsstr where
  "txt_po_saved = [0x670D, 0x52A1, 0x5668, 0x5DF2, 0x4FDD, 0x5B58, 0x4FEE, 0x6539, 0x524D, 0x8BBE, 0x7F6E,
     0xFF08]"

text \<open>\<open>txt_po_saved_close\<close>: closing parenthesis and colon.\<close>

definition txt_po_saved_close :: jsstr where
  "txt_po_saved_close = [0xFF09, 0xFF1A]"

text \<open>\<open>txt_po_excludes\<close>: excludes.\<close>

definition txt_po_excludes :: jsstr where
  "txt_po_excludes = [0x6392, 0x9664, 32]"

text \<open>\<open>txt_po_excludes_models\<close>: models and.\<close>

definition txt_po_excludes_models :: jsstr where
  "txt_po_excludes_models = [32, 0x4E2A, 0x6A21, 0x578B, 0x3001]"

text \<open>\<open>txt_po_excludes_providers\<close>: providers.\<close>

definition txt_po_excludes_providers :: jsstr where
  "txt_po_excludes_providers = [32, 0x4E2A, 0x4F9B, 0x5E94, 0x5546]"

text \<open>\<open>txt_po_no_limits_then\<close>: no limits were set then.\<close>

definition txt_po_no_limits_then :: jsstr where
  "txt_po_no_limits_then = [0x5F53, 0x65F6, 0x672A, 0x8BBE, 0x7F6E, 0x989D, 0x5916, 0x9650, 0x5236]"

text \<open>\<open>txt_po_restore_once\<close>: restoring or clearing removes it.\<close>

definition txt_po_restore_once :: jsstr where
  "txt_po_restore_once = [0x3002, 0x6062, 0x590D, 0x6216, 0x6E05, 0x9664, 0x6210, 0x529F, 0x540E, 0x6B64, 0x6062,
     0x590D, 0x70B9, 0x4F1A, 0x88AB, 0x5220, 0x9664, 0x3002]"

text \<open>\<open>txt_po_no_restore\<close>: nothing to restore yet.\<close>

definition txt_po_no_restore :: jsstr where
  "txt_po_no_restore = [0x6682, 0x65E0, 0x6062, 0x590D, 0x70B9, 0xFF1B, 0x9996, 0x6B21, 0x6210, 0x529F, 0x5E94,
     0x7528, 0x6A21, 0x578B, 0x65F6, 0xFF0C, 0x670D, 0x52A1, 0x5668, 0x4F1A, 0x4FDD, 0x5B58,
     0x5F53, 0x65F6, 0x7684, 0x8BBE, 0x7F6E, 0x3002]"

text \<open>\<open>txt_po_third_party\<close>: other clients use the model auto.\<close>

definition txt_po_third_party :: jsstr where
  "txt_po_third_party = [0x7B2C, 0x4E09, 0x65B9, 0x5BA2, 0x6237, 0x7AEF, 0x8BF7, 0x4F7F, 0x7528, 0x6A21, 0x578B,
     32, 97, 117, 116, 111, 0x3002, 0x540C, 0x4E00, 0x5DE5, 0x4F5C, 0x533A, 0x7684, 0x4F1A,
     0x8BDD, 0x5171, 0x4EAB, 0x6B64, 0x8BBE, 0x7F6E, 0xFF0C, 0x5E94, 0x7528, 0x5185, 0x4E0D,
     0x4F1A, 0x968F, 0x6BCF, 0x6761, 0x6D88, 0x606F, 0x81EA, 0x52A8, 0x5207, 0x6362, 0x3002]"

text \<open>\<open>txt_po_clear_title\<close>: clear the limits of the workspace?.\<close>

definition txt_po_clear_title :: jsstr where
  "txt_po_clear_title = [0x6E05, 0x9664, 0x5DE5, 0x4F5C, 0x533A, 0x6A21, 0x578B, 0x9650, 0x5236, 0xFF1F]"

text \<open>\<open>txt_po_clear_before\<close>: will delete for.\<close>

definition txt_po_clear_before :: jsstr where
  "txt_po_clear_before = [0x5C06, 0x5220, 0x9664, 0x300C]"

text \<open>\<open>txt_po_clear_quote\<close>: closing quote.\<close>

definition txt_po_clear_quote :: jsstr where
  "txt_po_clear_quote = [0x300D]"

text \<open>\<open>txt_po_clear_after\<close>: the limits on models, and the restore point.\<close>

definition txt_po_clear_after :: jsstr where
  "txt_po_clear_after = [0x7684, 0x6A21, 0x578B, 0x9650, 0x5236, 0xFF0C, 0x6062, 0x590D, 32, 78, 111, 116, 105,
     111, 110, 32, 0x9ED8, 0x8BA4, 0x8BBE, 0x7F6E, 0xFF08, 0x76EE, 0x5F55, 0x5185, 0x6240,
     0x6709, 0x6A21, 0x578B, 0x5747, 0x5141, 0x8BB8, 0xFF09, 0x3002, 0x6B64, 0x64CD, 0x4F5C,
     0x5F71, 0x54CD, 0x6574, 0x4E2A, 0x5DE5, 0x4F5C, 0x533A, 0x4E2D, 0x6B64, 0x7C7B, 0x4EE3,
     0x7406, 0x7684, 0x6240, 0x6709, 0x4F1A, 0x8BDD, 0x548C, 0x6210, 0x5458, 0xFF0C, 0x5E76,
     0x4F1A, 0x5220, 0x9664, 0x670D, 0x52A1, 0x5668, 0x4FDD, 0x5B58, 0x7684, 0x6062, 0x590D,
     0x70B9, 0x3002]"

text \<open>\<open>txt_po_cancel\<close>: cancel.\<close>

definition txt_po_cancel :: jsstr where
  "txt_po_cancel = [0x53D6, 0x6D88]"

text \<open>\<open>txt_po_confirm\<close>: clear them.\<close>

definition txt_po_confirm :: jsstr where
  "txt_po_confirm = [0x786E, 0x8BA4, 0x6E05, 0x9664]"

text \<open>\<open>txt_nb_title\<close>: notes of the workspace.\<close>

definition txt_nb_title :: jsstr where
  "txt_nb_title = [0x5DE5, 0x4F5C, 0x533A, 0x7B14, 0x8BB0]"

text \<open>\<open>txt_nb_intro\<close>: browse pages and refer to one in the prompt.\<close>

definition txt_nb_intro :: jsstr where
  "txt_nb_intro = [0x6D4F, 0x89C8, 0x6240, 0x9009, 0x5DE5, 0x4F5C, 0x533A, 0x7684, 0x5171, 0x4EAB, 0x6216,
     0x79C1, 0x4EBA, 0x9875, 0x9762, 0xFF0C, 0x5C06, 0x5185, 0x5BB9, 0x5FEB, 0x7167, 0x5F15,
     0x7528, 0x5230, 0x8F93, 0x5165, 0x6846, 0x3002, 0x5F15, 0x7528, 0x4E0D, 0x4F1A, 0x4FEE,
     0x6539, 0x7B14, 0x8BB0, 0xFF0C, 0x4E5F, 0x4E0D, 0x4F1A, 0x81EA, 0x52A8, 0x53D1, 0x9001,
     0x6D88, 0x606F, 0x3002]"

text \<open>\<open>txt_nb_shared\<close>: shared pages.\<close>

definition txt_nb_shared :: jsstr where
  "txt_nb_shared = [0x5171, 0x4EAB, 0x9875, 0x9762]"

text \<open>\<open>txt_nb_private\<close>: private pages.\<close>

definition txt_nb_private :: jsstr where
  "txt_nb_private = [0x79C1, 0x4EBA, 0x9875, 0x9762]"

text \<open>\<open>txt_nb_reading\<close>: reading.\<close>

definition txt_nb_reading :: jsstr where
  "txt_nb_reading = [0x8BFB, 0x53D6, 0x4E2D, 0x2026]"

text \<open>\<open>txt_nb_read\<close>: read the notes.\<close>

definition txt_nb_read :: jsstr where
  "txt_nb_read = [0x8BFB, 0x53D6, 0x7B14, 0x8BB0]"

text \<open>\<open>txt_nb_again\<close>: refresh the notes.\<close>

definition txt_nb_again :: jsstr where
  "txt_nb_again = [0x5237, 0x65B0, 0x7B14, 0x8BB0, 0x5217, 0x8868]"

text \<open>\<open>txt_nb_search\<close>: search what was read.\<close>

definition txt_nb_search :: jsstr where
  "txt_nb_search = [0x641C, 0x7D22, 0x5DF2, 0x8BFB, 0x53D6, 0x7684, 0x7B14, 0x8BB0]"

text \<open>\<open>txt_nb_empty\<close>: no pages; this is not a full search.\<close>

definition txt_nb_empty :: jsstr where
  "txt_nb_empty = [0x6B64, 0x8303, 0x56F4, 0x6CA1, 0x6709, 0x8FD4, 0x56DE, 0x9875, 0x9762, 0xFF0C, 0x53EF,
     0x5207, 0x6362, 0x5171, 0x4EAB, 0xFF0F, 0x79C1, 0x4EBA, 0x9875, 0x9762, 0x3002, 0x8FD9,
     0x4E0D, 0x662F, 0x6574, 0x4E2A, 0x5DE5, 0x4F5C, 0x533A, 0x7684, 0x5B8C, 0x6574, 0x641C,
     0x7D22, 0x3002]"

text \<open>\<open>txt_nb_partial\<close>: a part of the text only.\<close>

definition txt_nb_partial :: jsstr where
  "txt_nb_partial = [0x8FD9, 0x662F, 0x90E8, 0x5206, 0x6587, 0x672C, 0x9884, 0x89C8, 0xFF0C, 0x590D, 0x6742,
     0x5185, 0x5BB9, 0x3001, 0x5B50, 0x9875, 0x9762, 0x6216, 0x540E, 0x7EED, 0x5206, 0x9875,
     0x8BF7, 0x5728, 32, 78, 111, 116, 105, 111, 110, 32, 0x67E5, 0x770B, 0x3002]"

text \<open>\<open>txt_nb_no_text\<close>: no text to preview.\<close>

definition txt_nb_no_text :: jsstr where
  "txt_nb_no_text = [0x6B64, 0x9875, 0x9762, 0x6CA1, 0x6709, 0x53EF, 0x9884, 0x89C8, 0x7684, 0x6587, 0x672C,
     0x3002]"

text \<open>\<open>txt_nb_refer\<close>: refer to it in the prompt.\<close>

definition txt_nb_refer :: jsstr where
  "txt_nb_refer = [0x5F15, 0x7528, 0x5230, 0x8F93, 0x5165, 0x6846]"

text \<open>\<open>txt_nb_edit\<close>: edit in Notion.\<close>

definition txt_nb_edit :: jsstr where
  "txt_nb_edit = [0x5728, 32, 78, 111, 116, 105, 111, 110, 32, 0x4E2D, 0x7F16, 0x8F91]"

text \<open>\<open>txt_nb_choose\<close>: choose a note.\<close>

definition txt_nb_choose :: jsstr where
  "txt_nb_choose = [0x9009, 0x62E9, 0x4E00, 0x7BC7, 0x7B14, 0x8BB0, 0x4EE5, 0x9884, 0x89C8, 0x5185, 0x5BB9,
     0x3002]"

text \<open>\<open>txt_on\<close>: on.\<close>

definition txt_on :: jsstr where
  "txt_on = [0x5F00, 0x542F]"

text \<open>\<open>txt_off\<close>: off.\<close>

definition txt_off :: jsstr where
  "txt_off = [0x5173, 0x95ED]"

text \<open>\<open>txt_db_title\<close>: state of the service.\<close>

definition txt_db_title :: jsstr where
  "txt_db_title = [0x8FD0, 0x884C, 0x72B6, 0x6001]"

text \<open>\<open>txt_db_intro\<close>: the last known state.\<close>

definition txt_db_intro :: jsstr where
  "txt_db_intro = [0x67E5, 0x770B, 0x670D, 0x52A1, 0x3001, 0x8D26, 0x53F7, 0x4E0E, 0x5DE5, 0x4F5C, 0x533A,
     0x7684, 0x6700, 0x8FD1, 0x72B6, 0x6001, 0x3002, 0x70B9, 0x51FB, 0x53F3, 0x4E0A, 0x89D2,
     0x540C, 0x6B65, 0x53EF, 0x66F4, 0x65B0, 0x6570, 0x636E, 0x3002]"

text \<open>\<open>txt_db_service\<close>: service.\<close>

definition txt_db_service :: jsstr where
  "txt_db_service = [0x670D, 0x52A1, 0x72B6, 0x6001]"

text \<open>\<open>txt_db_eligible\<close>: workspaces with an eligible plan.\<close>

definition txt_db_eligible :: jsstr where
  "txt_db_eligible = [0x5957, 0x9910, 0x51C6, 0x5165, 0x5DE5, 0x4F5C, 0x533A]"

text \<open>\<open>txt_db_eligible_hint\<close>: limits are up to Notion.\<close>

definition txt_db_eligible_hint :: jsstr where
  "txt_db_eligible_hint = [0x989D, 0x5EA6, 0x4E0E, 0x6A21, 0x578B, 0x9650, 0x5236, 0x4ECD, 0x7531, 32, 78, 111, 116,
     105, 111, 110, 32, 0x51B3, 0x5B9A]"

text \<open>\<open>txt_db_failures\<close>: accounts with an error on record.\<close>

definition txt_db_failures :: jsstr where
  "txt_db_failures = [0x8BB0, 0x5F55, 0x4E86, 0x9519, 0x8BEF, 0x7684, 0x8D26, 0x53F7]"

text \<open>\<open>txt_db_failures_hint\<close>: the last error may be over.\<close>

definition txt_db_failures_hint :: jsstr where
  "txt_db_failures_hint = [0x6700, 0x8FD1, 0x9519, 0x8BEF, 0x4E0D, 0x4E00, 0x5B9A, 0x4EE3, 0x8868, 0x5F53, 0x524D,
     0x6545, 0x969C]"

text \<open>\<open>txt_db_workspaces\<close>: workspaces.\<close>

definition txt_db_workspaces :: jsstr where
  "txt_db_workspaces = [0x5DE5, 0x4F5C, 0x533A, 0x6982, 0x89C8]"

text \<open>\<open>txt_db_workspaces_text\<close>: accounts, plans and models.\<close>

definition txt_db_workspaces_text :: jsstr where
  "txt_db_workspaces_text = [0x8D26, 0x53F7, 0x5F00, 0x5173, 0x3001, 0x5957, 0x9910, 0x51C6, 0x5165, 0x4E0E, 0x6A21,
     0x578B, 0x9009, 0x62E9, 0x80FD, 0x529B, 0x3002]"

text \<open>\<open>txt_db_none\<close>: no workspace yet.\<close>

definition txt_db_none :: jsstr where
  "txt_db_none = [0x8FD8, 0x6CA1, 0x6709, 0x5DE5, 0x4F5C, 0x533A, 0x3002, 0x8BF7, 0x5728, 0x8D26, 0x53F7,
     0x9875, 0x6DFB, 0x52A0, 0x8D26, 0x53F7, 0x5E76, 0x5237, 0x65B0, 0x5DE5, 0x4F5C, 0x533A,
     0x4FE1, 0x606F, 0x3002]"

text \<open>\<open>txt_db_errors\<close>: last errors of accounts.\<close>

definition txt_db_errors :: jsstr where
  "txt_db_errors = [0x6700, 0x8FD1, 0x8D26, 0x53F7, 0x9519, 0x8BEF]"

text \<open>\<open>txt_db_details\<close>: protocol and configuration.\<close>

definition txt_db_details :: jsstr where
  "txt_db_details = [0x534F, 0x8BAE, 0x4E0E, 0x914D, 0x7F6E, 0x8BE6, 0x60C5]"

text \<open>\<open>txt_db_user\<close>: user.\<close>

definition txt_db_user :: jsstr where
  "txt_db_user = [0x7528, 0x6237]"

text \<open>\<open>txt_db_version\<close>: client version.\<close>

definition txt_db_version :: jsstr where
  "txt_db_version = [0x5BA2, 0x6237, 0x7AEF, 0x7248, 0x672C]"

text \<open>\<open>txt_db_catalog\<close>: size of the model directory.\<close>

definition txt_db_catalog :: jsstr where
  "txt_db_catalog = [0x6A21, 0x578B, 0x76EE, 0x5F55, 0x6570, 0x91CF]"

text \<open>\<open>txt_md_title\<close>: model directory.\<close>

definition txt_md_title :: jsstr where
  "txt_md_title = [0x6A21, 0x578B, 0x76EE, 0x5F55]"

text \<open>\<open>txt_md_intro\<close>: the registered models.\<close>

definition txt_md_intro :: jsstr where
  "txt_md_intro = [0x67E5, 0x770B, 0x670D, 0x52A1, 0x6CE8, 0x518C, 0x7684, 0x6A21, 0x578B, 0x53CA, 0x6620,
     0x5C04, 0x3002, 0x5B9E, 0x9645, 0x53EF, 0x7528, 0x6A21, 0x578B, 0x53D6, 0x51B3, 0x4E8E,
     0x5DE5, 0x4F5C, 0x533A, 0x6743, 0x9650, 0x4E0E, 0x989D, 0x5EA6, 0x3002]"

text \<open>\<open>txt_md_accounts\<close>: manage the models of workspaces.\<close>

definition txt_md_accounts :: jsstr where
  "txt_md_accounts = [0x7BA1, 0x7406, 0x5DE5, 0x4F5C, 0x533A, 0x6A21, 0x578B]"

text \<open>\<open>txt_md_total\<close>: number of models.\<close>

definition txt_md_total :: jsstr where
  "txt_md_total = [0x6A21, 0x578B, 0x603B, 0x6570]"

text \<open>\<open>txt_md_default\<close>: default model.\<close>

definition txt_md_default :: jsstr where
  "txt_md_default = [0x9ED8, 0x8BA4, 0x6A21, 0x578B]"

text \<open>\<open>txt_md_current\<close>: current configuration.\<close>

definition txt_md_current :: jsstr where
  "txt_md_current = [0x5F53, 0x524D, 0x914D, 0x7F6E]"

text \<open>\<open>txt_md_families\<close>: number of families.\<close>

definition txt_md_families :: jsstr where
  "txt_md_families = [70, 97, 109, 105, 108, 121, 32, 0x6570]"

text \<open>\<open>txt_md_list\<close>: models.\<close>

definition txt_md_list :: jsstr where
  "txt_md_list = [0x6A21, 0x578B, 0x5217, 0x8868]"

text \<open>\<open>txt_md_count_before\<close>: in all.\<close>

definition txt_md_count_before :: jsstr where
  "txt_md_count_before = [0x5171, 32]"

text \<open>\<open>txt_md_count_after\<close>: models, choose one.\<close>

definition txt_md_count_after :: jsstr where
  "txt_md_count_after = [32, 0x4E2A, 0x6A21, 0x578B, 0xFF0C, 0x9009, 0x62E9, 0x540E, 0x67E5, 0x770B, 0x6620,
     0x5C04, 0x8BE6, 0x60C5, 0x3002]"

text \<open>\<open>txt_md_unnamed\<close>: without a name.\<close>

definition txt_md_unnamed :: jsstr where
  "txt_md_unnamed = [0x672A, 0x547D, 0x540D, 0x6A21, 0x578B]"

text \<open>\<open>txt_md_none\<close>: no model yet.\<close>

definition txt_md_none :: jsstr where
  "txt_md_none = [0x8FD8, 0x6CA1, 0x6709, 0x6A21, 0x578B]"

text \<open>\<open>txt_md_none_text\<close>: check the configuration.\<close>

definition txt_md_none_text :: jsstr where
  "txt_md_none_text = [0x8BF7, 0x5148, 0x786E, 0x8BA4, 32, 96, 47, 97, 100, 109, 105, 110, 47, 99, 111, 110,
     102, 105, 103, 96, 32, 0x662F, 0x5426, 0x8FD4, 0x56DE, 0x4E86, 32, 96, 109, 111, 100,
     101, 108, 115, 96, 32, 0x5B57, 0x6BB5, 0x3002]"

text \<open>\<open>txt_md_routed\<close>: how the model is mapped.\<close>

definition txt_md_routed :: jsstr where
  "txt_md_routed = [0x5F53, 0x524D, 0x8DEF, 0x7531, 0x6A21, 0x578B, 0x7684, 0x6620, 0x5C04, 0x4FE1, 0x606F,
     0x3002]"

text \<open>\<open>txt_md_name\<close>: display name.\<close>

definition txt_md_name :: jsstr where
  "txt_md_name = [0x663E, 0x793A, 0x540D, 0x79F0]"

text \<open>\<open>txt_md_mapping\<close>: mapping.\<close>

definition txt_md_mapping :: jsstr where
  "txt_md_mapping = [0x6620, 0x5C04, 0x8BE6, 0x60C5]"

text \<open>\<open>txt_md_mapping_text\<close>: for debugging.\<close>

definition txt_md_mapping_text :: jsstr where
  "txt_md_mapping_text = [0x7528, 0x4E8E, 0x8C03, 0x8BD5, 0x4E0E, 0x6388, 0x6743, 0x8DEF, 0x7531, 0x7684, 0x8BE6,
     0x7EC6, 0x72B6, 0x6001, 0x3002]"

text \<open>\<open>txt_md_route\<close>: id of the route.\<close>

definition txt_md_route :: jsstr where
  "txt_md_route = [0x8DEF, 0x7531, 32, 73, 68]"

text \<open>\<open>txt_md_internal\<close>: internal model.\<close>

definition txt_md_internal :: jsstr where
  "txt_md_internal = [0x5185, 0x90E8, 0x6A21, 0x578B]"

text \<open>\<open>txt_md_class\<close>: class.\<close>

definition txt_md_class :: jsstr where
  "txt_md_class = [0x5F52, 0x7C7B]"

text \<open>\<open>txt_md_choose\<close>: choose a model.\<close>

definition txt_md_choose :: jsstr where
  "txt_md_choose = [0x8BF7, 0x9009, 0x62E9, 0x4E00, 0x4E2A, 0x6A21, 0x578B]"

text \<open>\<open>txt_md_choose_text\<close>: to see its mapping.\<close>

definition txt_md_choose_text :: jsstr where
  "txt_md_choose_text = [0x9009, 0x62E9, 0x540E, 0x67E5, 0x770B, 0x6620, 0x5C04, 0x8BE6, 0x60C5, 0x3002]"

text \<open>\<open>txt_us_title\<close>: quota of Notion.\<close>

definition txt_us_title :: jsstr where
  "txt_us_title = [78, 111, 116, 105, 111, 110, 32, 0x989D, 0x5EA6]"

text \<open>\<open>txt_us_refresh\<close>: refresh the quota.\<close>

definition txt_us_refresh :: jsstr where
  "txt_us_refresh = [0x5237, 0x65B0, 32, 78, 111, 116, 105, 111, 110, 32, 0x989D, 0x5EA6]"

text \<open>\<open>txt_us_loading\<close>: asking.\<close>

definition txt_us_loading :: jsstr where
  "txt_us_loading = [0x67E5, 0x8BE2, 0x4E2D, 46, 46, 46]"

text \<open>\<open>txt_us_workspace\<close>: workspace.\<close>

definition txt_us_workspace :: jsstr where
  "txt_us_workspace = [0x5DE5, 0x4F5C, 0x533A]"

text \<open>\<open>txt_us_other\<close>: other usage.\<close>

definition txt_us_other :: jsstr where
  "txt_us_other = [0x5176, 0x4ED6, 0x7528, 0x91CF]"

text \<open>\<open>txt_us_basic\<close>: basic usage in all.\<close>

definition txt_us_basic :: jsstr where
  "txt_us_basic = [0x7D2F, 0x8BA1, 0x57FA, 0x7840, 0x7528, 0x91CF, 0xFF1A]"

text \<open>\<open>txt_us_premium\<close>: balance of credits.\<close>

definition txt_us_premium :: jsstr where
  "txt_us_premium = [32, 0xB7, 32, 0x989D, 0x5916, 0x79EF, 0x5206, 0x4F59, 0x989D, 0xFF1A]"

text \<open>\<open>txt_qw_unknown\<close>: usage unknown.\<close>

definition txt_qw_unknown :: jsstr where
  "txt_qw_unknown = [0x4F7F, 0x7528, 0x91CF, 0x672A, 0x77E5]"

text \<open>\<open>txt_qw_used\<close>: used.\<close>

definition txt_qw_used :: jsstr where
  "txt_qw_used = [0x5DF2, 0x4F7F, 0x7528, 32]"

text \<open>\<open>txt_qw_updated\<close>: as of.\<close>

definition txt_qw_updated :: jsstr where
  "txt_qw_updated = [0x66F4, 0x65B0, 0x4E8E, 32]"

text \<open>\<open>txt_qw_cached\<close>: cached.\<close>

definition txt_qw_cached :: jsstr where
  "txt_qw_cached = [32, 0xB7, 32, 0x7F13, 0x5B58]"

text \<open>\<open>txt_qw_local\<close>: the countdown runs here.\<close>

definition txt_qw_local :: jsstr where
  "txt_qw_local = [32, 0xB7, 32, 0x91CD, 0x7F6E, 0x5012, 0x8BA1, 0x65F6, 0x5728, 0x672C, 0x5730, 0x66F4,
     0x65B0]"

text \<open>\<open>txt_sb_product\<close>: workspace of the product.\<close>

definition txt_sb_product :: jsstr where
  "txt_sb_product = [0x5DE5, 0x4F5C, 0x7A7A, 0x95F4]"

text \<open>\<open>txt_sb_workspace\<close>: current workspace.\<close>

definition txt_sb_workspace :: jsstr where
  "txt_sb_workspace = [0x5F53, 0x524D, 0x5DE5, 0x4F5C, 0x533A]"

text \<open>\<open>txt_sb_no_workspace\<close>: no workspace chosen.\<close>

definition txt_sb_no_workspace :: jsstr where
  "txt_sb_no_workspace = [0x5C1A, 0x672A, 0x9009, 0x62E9, 0x5DE5, 0x4F5C, 0x533A]"

text \<open>\<open>txt_sb_no_account\<close>: add an account first.\<close>

definition txt_sb_no_account :: jsstr where
  "txt_sb_no_account = [0x6DFB, 0x52A0, 0x8D26, 0x53F7, 0x540E, 0x5F00, 0x59CB, 0x4F7F, 0x7528]"

text \<open>\<open>txt_sb_model\<close>: default model.\<close>

definition txt_sb_model :: jsstr where
  "txt_sb_model = [0x9ED8, 0x8BA4, 0x6A21, 0x578B, 32, 0xB7, 32]"

text \<open>\<open>txt_sb_logout\<close>: log out.\<close>

definition txt_sb_logout :: jsstr where
  "txt_sb_logout = [0x9000, 0x51FA]"

text \<open>\<open>txt_sb_menu\<close>: menu.\<close>

definition txt_sb_menu :: jsstr where
  "txt_sb_menu = [0x5BFC, 0x822A, 0x83DC, 0x5355]"

text \<open>\<open>txt_lo_product\<close>: your AI workspace.\<close>

definition txt_lo_product :: jsstr where
  "txt_lo_product = [0x4F60, 0x7684, 32, 65, 73, 32, 0x5DE5, 0x4F5C, 0x7A7A, 0x95F4]"

text \<open>\<open>txt_lo_welcome\<close>: welcome back.\<close>

definition txt_lo_welcome :: jsstr where
  "txt_lo_welcome = [0x6B22, 0x8FCE, 0x56DE, 0x6765]"

text \<open>\<open>txt_lo_set_password\<close>: set the admin password.\<close>

definition txt_lo_set_password :: jsstr where
  "txt_lo_set_password = [0x8BBE, 0x7F6E, 0x7BA1, 0x7406, 0x5BC6, 0x7801]"

text \<open>\<open>txt_lo_welcome_text\<close>: log in to go on.\<close>

definition txt_lo_welcome_text :: jsstr where
  "txt_lo_welcome_text = [0x767B, 0x5F55, 0x540E, 0x7EE7, 0x7EED, 0x804A, 0x5929, 0xFF0C, 0x6216, 0x7BA1, 0x7406,
     0x8D26, 0x53F7, 0x4E0E, 0x5DE5, 0x4F5C, 0x533A, 0x3002]"

text \<open>\<open>txt_lo_set_text\<close>: set admin.password first.\<close>

definition txt_lo_set_text :: jsstr where
  "txt_lo_set_text = [0x8BF7, 0x5148, 0x5728, 0x670D, 0x52A1, 0x914D, 0x7F6E, 0x4E2D, 0x8BBE, 0x7F6E, 32, 97,
     100, 109, 105, 110, 46, 112, 97, 115, 115, 119, 111, 114, 100, 0xFF0C, 0x518D, 0x91CD,
     0x65B0, 0x52A0, 0x8F7D, 0x9875, 0x9762, 0x3002]"

text \<open>\<open>txt_lo_password\<close>: admin password.\<close>

definition txt_lo_password :: jsstr where
  "txt_lo_password = [0x7BA1, 0x7406, 0x5BC6, 0x7801]"

text \<open>\<open>txt_lo_enter\<close>: enter the password.\<close>

definition txt_lo_enter :: jsstr where
  "txt_lo_enter = [0x8BF7, 0x8F93, 0x5165, 0x7BA1, 0x7406, 0x5BC6, 0x7801]"

text \<open>\<open>txt_lo_busy\<close>: logging in.\<close>

definition txt_lo_busy :: jsstr where
  "txt_lo_busy = [0x767B, 0x5F55, 0x4E2D, 0x2026]"

text \<open>\<open>txt_lo_login\<close>: log in.\<close>

definition txt_lo_login :: jsstr where
  "txt_lo_login = [0x767B, 0x5F55, 0x63A7, 0x5236, 0x53F0]"

text \<open>\<open>txt_lo_reload\<close>: load again.\<close>

definition txt_lo_reload :: jsstr where
  "txt_lo_reload = [0x91CD, 0x65B0, 0x52A0, 0x8F7D]"

text \<open>\<open>txt_lo_footer\<close>: chat, workspace, API.\<close>

definition txt_lo_footer :: jsstr where
  "txt_lo_footer = [0x804A, 0x5929, 32, 0xB7, 32, 0x5DE5, 0x4F5C, 0x533A, 32, 0xB7, 32, 65, 80, 73]"

text \<open>\<open>txt_co_booting\<close>: loading the workspace.\<close>

definition txt_co_booting :: jsstr where
  "txt_co_booting = [0x6B63, 0x5728, 0x52A0, 0x8F7D, 0x5DE5, 0x4F5C, 0x7A7A, 0x95F4, 0x2026]"

text \<open>\<open>txt_co_menu\<close>: open the menu.\<close>

definition txt_co_menu :: jsstr where
  "txt_co_menu = [0x6253, 0x5F00, 0x5BFC, 0x822A, 0x83DC, 0x5355]"

text \<open>\<open>txt_co_system\<close>: as the system.\<close>

definition txt_co_system :: jsstr where
  "txt_co_system = [0x8DDF, 0x968F, 0x7CFB, 0x7EDF]"

text \<open>\<open>txt_co_light\<close>: light.\<close>

definition txt_co_light :: jsstr where
  "txt_co_light = [0x6D45, 0x8272]"

text \<open>\<open>txt_co_dark\<close>: dark.\<close>

definition txt_co_dark :: jsstr where
  "txt_co_dark = [0x6DF1, 0x8272]"

text \<open>\<open>txt_co_resync\<close>: synchronise.\<close>

definition txt_co_resync :: jsstr where
  "txt_co_resync = [0x91CD, 0x65B0, 0x540C, 0x6B65]"

text \<open>\<open>txt_co_config\<close>: loading the configuration.\<close>

definition txt_co_config :: jsstr where
  "txt_co_config = [0x6B63, 0x5728, 0x52A0, 0x8F7D, 0x914D, 0x7F6E, 0x2026]"

text \<open>\<open>txt_ch_quota\<close>: quota of the workspace.\<close>

definition txt_ch_quota :: jsstr where
  "txt_ch_quota = [0x5DE5, 0x4F5C, 0x533A, 0x989D, 0x5EA6]"

text \<open>\<open>txt_ch_quota_refresh\<close>: refresh the quota.\<close>

definition txt_ch_quota_refresh :: jsstr where
  "txt_ch_quota_refresh = [0x5237, 0x65B0, 0x989D, 0x5EA6]"

text \<open>\<open>txt_ch_quota_reading\<close>: reading.\<close>

definition txt_ch_quota_reading :: jsstr where
  "txt_ch_quota_reading = [0x6B63, 0x5728, 0x8BFB, 0x53D6, 0x2026]"

text \<open>\<open>txt_ch_quota_none\<close>: no workspace with a quota.\<close>

definition txt_ch_quota_none :: jsstr where
  "txt_ch_quota_none = [0x6682, 0x65E0, 0x53EF, 0x8BFB, 0x53D6, 0x989D, 0x5EA6, 0x7684, 0x5546, 0x4E1A, 0x5DE5,
     0x4F5C, 0x533A, 0x3002]"

text \<open>\<open>txt_ch_records\<close>: conversations.\<close>

definition txt_ch_records :: jsstr where
  "txt_ch_records = [0x5BF9, 0x8BDD, 0x8BB0, 0x5F55]"

text \<open>\<open>txt_ch_fold\<close>: fold the side bar.\<close>

definition txt_ch_fold :: jsstr where
  "txt_ch_fold = [0x6536, 0x8D77, 0x4FA7, 0x680F]"

text \<open>\<open>txt_ch_search\<close>: search the conversations.\<close>

definition txt_ch_search :: jsstr where
  "txt_ch_search = [0x641C, 0x7D22, 0x5BF9, 0x8BDD]"

text \<open>\<open>txt_ch_recent\<close>: recent conversations.\<close>

definition txt_ch_recent :: jsstr where
  "txt_ch_recent = [0x6700, 0x8FD1, 0x5BF9, 0x8BDD]"

text \<open>\<open>txt_ch_rename_save\<close>: save the title.\<close>

definition txt_ch_rename_save :: jsstr where
  "txt_ch_rename_save = [0x4FDD, 0x5B58, 0x6807, 0x9898]"

text \<open>\<open>txt_ch_rename_cancel\<close>: cancel the renaming.\<close>

definition txt_ch_rename_cancel :: jsstr where
  "txt_ch_rename_cancel = [0x53D6, 0x6D88, 0x91CD, 0x547D, 0x540D]"

text \<open>\<open>txt_ch_rename\<close>: rename.\<close>

definition txt_ch_rename :: jsstr where
  "txt_ch_rename = [0x91CD, 0x547D, 0x540D, 32]"

text \<open>\<open>txt_ch_export\<close>: export.\<close>

definition txt_ch_export :: jsstr where
  "txt_ch_export = [0x5BFC, 0x51FA, 32]"

text \<open>\<open>txt_ch_delete\<close>: delete.\<close>

definition txt_ch_delete :: jsstr where
  "txt_ch_delete = [0x5220, 0x9664, 32]"

text \<open>\<open>txt_ch_no_match\<close>: no match.\<close>

definition txt_ch_no_match :: jsstr where
  "txt_ch_no_match = [0x6CA1, 0x6709, 0x5339, 0x914D, 0x7684, 0x5BF9, 0x8BDD]"

text \<open>\<open>txt_ch_empty\<close>: conversations are kept here.\<close>

definition txt_ch_empty :: jsstr where
  "txt_ch_empty = [0x5BF9, 0x8BDD, 0x4F1A, 0x4FDD, 0x5B58, 0x5728, 0x8FD9, 0x91CC, 0xFF0C, 0x968F, 0x65F6,
     0x7EE7, 0x7EED, 0x3002]"

text \<open>\<open>txt_ch_admin\<close>: admin console.\<close>

definition txt_ch_admin :: jsstr where
  "txt_ch_admin = [0x7BA1, 0x7406, 0x63A7, 0x5236, 0x53F0]"

text \<open>\<open>txt_ch_policy\<close>: models of the workspace.\<close>

definition txt_ch_policy :: jsstr where
  "txt_ch_policy = [0x5DE5, 0x4F5C, 0x533A, 0x6A21, 0x578B]"

text \<open>\<open>txt_ch_policy_text\<close>: what the setting does.\<close>

definition txt_ch_policy_text :: jsstr where
  "txt_ch_policy_text = [0x8BD5, 0x7528, 0x5DE5, 0x4F5C, 0x533A, 0x804A, 0x5929, 0x4ECD, 0x4F7F, 0x7528, 32, 65,
     117, 116, 111, 0x3002, 0x8FD9, 0x91CC, 0x53EF, 0x624B, 0x52A8, 0x53EA, 0x4FDD, 0x7559,
     0x4E00, 0x4E2A, 0x6A21, 0x578B, 0xFF1B, 0x4FEE, 0x6539, 0x5F71, 0x54CD, 0x6574, 0x4E2A,
     0x5DE5, 0x4F5C, 0x533A, 0xFF0C, 0x4E0D, 0x4F1A, 0x4E3A, 0x6BCF, 0x6761, 0x6D88, 0x606F,
     0x81EA, 0x52A8, 0x5207, 0x6362, 0x3002]"

text \<open>\<open>txt_ch_nav_title\<close>: history and navigation.\<close>

definition txt_ch_nav_title :: jsstr where
  "txt_ch_nav_title = [0x5386, 0x53F2, 0x4F1A, 0x8BDD, 0x4E0E, 0x5BFC, 0x822A]"

text \<open>\<open>txt_ch_nav_open\<close>: open the navigation.\<close>

definition txt_ch_nav_open :: jsstr where
  "txt_ch_nav_open = [0x6253, 0x5F00, 0x5BFC, 0x822A]"

text \<open>\<open>txt_ch_unfold\<close>: unfold the side bar.\<close>

definition txt_ch_unfold :: jsstr where
  "txt_ch_unfold = [0x5C55, 0x5F00, 0x4FA7, 0x680F]"

text \<open>\<open>txt_ch_generating\<close>: generating.\<close>

definition txt_ch_generating :: jsstr where
  "txt_ch_generating = [0x751F, 0x6210, 0x4E2D]"

text \<open>\<open>txt_ch_notes\<close>: notes of the workspace.\<close>

definition txt_ch_notes :: jsstr where
  "txt_ch_notes = [0x5DE5, 0x4F5C, 0x533A, 0x7B14, 0x8BB0]"

text \<open>\<open>txt_ch_quota_failed\<close>: quota not available.\<close>

definition txt_ch_quota_failed :: jsstr where
  "txt_ch_quota_failed = [0x989D, 0x5EA6, 0x4E0D, 0x53EF, 0x7528]"

text \<open>\<open>txt_ch_quota_short\<close>: quota.\<close>

definition txt_ch_quota_short :: jsstr where
  "txt_ch_quota_short = [0x989D, 0x5EA6]"

text \<open>\<open>txt_ch_quota_left\<close>: left.\<close>

definition txt_ch_quota_left :: jsstr where
  "txt_ch_quota_left = [0x5269, 0x4F59, 32]"

text \<open>\<open>txt_ch_markdown\<close>: export Markdown.\<close>

definition txt_ch_markdown :: jsstr where
  "txt_ch_markdown = [0x5BFC, 0x51FA, 32, 77, 97, 114, 107, 100, 111, 119, 110]"

text \<open>\<open>txt_ch_theme\<close>: switch light and dark.\<close>

definition txt_ch_theme :: jsstr where
  "txt_ch_theme = [0x5207, 0x6362, 0x660E, 0x6697, 0x4E3B, 0x9898]"

text \<open>\<open>txt_ch_loading\<close>: loading.\<close>

definition txt_ch_loading :: jsstr where
  "txt_ch_loading = [0x52A0, 0x8F7D, 0x4E2D]"

text \<open>\<open>txt_ch_question\<close>: what to move forward today?.\<close>

definition txt_ch_question :: jsstr where
  "txt_ch_question = [0x4ECA, 0x5929, 0x60F3, 0x63A8, 0x8FDB, 0x4EC0, 0x4E48, 0xFF1F]"

text \<open>\<open>txt_ch_question_text\<close>: start with a question, a document or an idea.\<close>

definition txt_ch_question_text :: jsstr where
  "txt_ch_question_text = [0x4ECE, 0x4E00, 0x4E2A, 0x95EE, 0x9898, 0x3001, 0x4E00, 0x4EFD, 0x6587, 0x6863, 0xFF0C,
     0x6216, 0x4E00, 0x4E2A, 0x60F3, 0x6CD5, 0x5F00, 0x59CB, 0x3002]"

text \<open>\<open>txt_ch_process\<close>: process.\<close>

definition txt_ch_process :: jsstr where
  "txt_ch_process = [0x5904, 0x7406, 0x8FC7, 0x7A0B, 32, 0xB7, 32]"

text \<open>\<open>txt_ch_process_count\<close>: entries.\<close>

definition txt_ch_process_count :: jsstr where
  "txt_ch_process_count = [32, 0x6761, 0x8BB0, 0x5F55]"

text \<open>\<open>txt_ch_no_detail\<close>: no detail given.\<close>

definition txt_ch_no_detail :: jsstr where
  "txt_ch_no_detail = [0x4E0A, 0x6E38, 0x672A, 0x63D0, 0x4F9B, 0x66F4, 0x591A, 0x8BE6, 0x60C5]"

text \<open>\<open>txt_ch_edit_save\<close>: save the change.\<close>

definition txt_ch_edit_save :: jsstr where
  "txt_ch_edit_save = [0x4FDD, 0x5B58, 0x4FEE, 0x6539]"

text \<open>\<open>txt_ch_edit_cancel\<close>: cancel the change.\<close>

definition txt_ch_edit_cancel :: jsstr where
  "txt_ch_edit_cancel = [0x53D6, 0x6D88, 0x4FEE, 0x6539]"

text \<open>\<open>txt_ch_thinking\<close>: generating.\<close>

definition txt_ch_thinking :: jsstr where
  "txt_ch_thinking = [0x6B63, 0x5728, 0x751F, 0x6210]"

text \<open>\<open>txt_ch_attachment\<close>: attachment.\<close>

definition txt_ch_attachment :: jsstr where
  "txt_ch_attachment = [0x9644, 0x4EF6, 32]"

text \<open>\<open>txt_ch_edited\<close>: edited.\<close>

definition txt_ch_edited :: jsstr where
  "txt_ch_edited = [0x5DF2, 0x7F16, 0x8F91]"

text \<open>\<open>txt_ch_failed\<close>: not finished.\<close>

definition txt_ch_failed :: jsstr where
  "txt_ch_failed = [0x672A, 0x5B8C, 0x6210]"

text \<open>\<open>txt_ch_truncated\<close>: cut off.\<close>

definition txt_ch_truncated :: jsstr where
  "txt_ch_truncated = [0x5DF2, 0x622A, 0x65AD]"

text \<open>\<open>txt_ch_about\<close>: about.\<close>

definition txt_ch_about :: jsstr where
  "txt_ch_about = [0x2248, 32]"

text \<open>\<open>txt_ch_edit\<close>: edit the message.\<close>

definition txt_ch_edit :: jsstr where
  "txt_ch_edit = [0x7F16, 0x8F91, 0x6D88, 0x606F]"

text \<open>\<open>txt_ch_remove\<close>: delete the message.\<close>

definition txt_ch_remove :: jsstr where
  "txt_ch_remove = [0x5220, 0x9664, 0x6D88, 0x606F]"

text \<open>\<open>txt_ch_copy\<close>: copy the message.\<close>

definition txt_ch_copy :: jsstr where
  "txt_ch_copy = [0x590D, 0x5236, 0x6D88, 0x606F]"

text \<open>\<open>txt_ch_latest\<close>: back to the latest.\<close>

definition txt_ch_latest :: jsstr where
  "txt_ch_latest = [0x56DE, 0x5230, 0x6700, 0x65B0]"

text \<open>\<open>txt_ch_remote\<close>: generating elsewhere.\<close>

definition txt_ch_remote :: jsstr where
  "txt_ch_remote = [0x6B64, 0x5BF9, 0x8BDD, 0x6B63, 0x5728, 0x751F, 0x6210, 0xFF0C, 0x5B8C, 0x6210, 0x540E,
     0x4F1A, 0x81EA, 0x52A8, 0x66F4, 0x65B0, 0x3002]"

text \<open>\<open>txt_ch_drop\<close>: drop to add the files.\<close>

definition txt_ch_drop :: jsstr where
  "txt_ch_drop = [0x677E, 0x5F00, 0x5373, 0x53EF, 0x6DFB, 0x52A0, 0x6587, 0x4EF6]"

text \<open>\<open>txt_ch_file_remove\<close>: remove.\<close>

definition txt_ch_file_remove :: jsstr where
  "txt_ch_file_remove = [0x79FB, 0x9664, 32]"

text \<open>\<open>txt_ch_send_hint\<close>: send a message.\<close>

definition txt_ch_send_hint :: jsstr where
  "txt_ch_send_hint = [0x53D1, 0x9001, 0x6D88, 0x606F, 0x2026]"

text \<open>\<open>txt_ch_attach\<close>: add a file.\<close>

definition txt_ch_attach :: jsstr where
  "txt_ch_attach = [0x6DFB, 0x52A0, 0x9644, 0x4EF6]"

text \<open>\<open>txt_ch_web\<close>: web.\<close>

definition txt_ch_web :: jsstr where
  "txt_ch_web = [0x8054, 0x7F51]"

text \<open>\<open>txt_ch_stop\<close>: stop.\<close>

definition txt_ch_stop :: jsstr where
  "txt_ch_stop = [0x505C, 0x6B62]"

text \<open>\<open>txt_ch_send\<close>: send.\<close>

definition txt_ch_send :: jsstr where
  "txt_ch_send = [0x53D1, 0x9001]"

text \<open>\<open>txt_ch_auto_only\<close>: Auto only.\<close>

definition txt_ch_auto_only :: jsstr where
  "txt_ch_auto_only = [0x6B64, 0x5DE5, 0x4F5C, 0x533A, 0x4EC5, 0x652F, 0x6301, 32, 65, 117, 116, 111, 0xFF0C,
     0x7531, 32, 78, 111, 116, 105, 111, 110, 32, 0x5206, 0x914D, 0x6A21, 0x578B, 0x3002]"

text \<open>\<open>txt_ch_no_choice\<close>: no model to choose.\<close>

definition txt_ch_no_choice :: jsstr where
  "txt_ch_no_choice = [0x6A21, 0x578B, 0x9009, 0x62E9, 0x80FD, 0x529B, 0x5C1A, 0x672A, 0x786E, 0x8BA4, 0x6216,
     0x6CA1, 0x6709, 0x53EF, 0x9009, 0x6A21, 0x578B, 0xFF0C, 0x53EF, 0x5148, 0x4F7F, 0x7528,
     32, 65, 117, 116, 111, 0xFF1B, 0x5728, 0x8D26, 0x53F7, 0x9875, 0x5237, 0x65B0, 0x6A21,
     0x578B, 0x80FD, 0x529B, 0x3002]"

text \<open>\<open>txt_ch_by_hand\<close>: only workspaces that have the model.\<close>

definition txt_ch_by_hand :: jsstr where
  "txt_ch_by_hand = [0x624B, 0x52A8, 0x9009, 0x62E9, 0x6A21, 0x578B, 0x65F6, 0xFF0C, 0x4EC5, 0x4F7F, 0x7528,
     0x652F, 0x6301, 0x8BE5, 0x6A21, 0x578B, 0x7684, 0x5DE5, 0x4F5C, 0x533A, 0x3002]"

text \<open>\<open>txt_ch_bound\<close>: the workspace of the conversation.\<close>

definition txt_ch_bound :: jsstr where
  "txt_ch_bound = [0x4F1A, 0x8BDD, 0x7ED1, 0x5B9A, 0x5DE5, 0x4F5C, 0x533A]"

text \<open>\<open>txt_ch_any\<close>: choose a workspace.\<close>

definition txt_ch_any :: jsstr where
  "txt_ch_any = [0x81EA, 0x52A8, 0x9009, 0x62E9, 0x5546, 0x4E1A, 0x5DE5, 0x4F5C, 0x533A]"

text \<open>\<open>txt_ch_former\<close>: the former workspace.\<close>

definition txt_ch_former :: jsstr where
  "txt_ch_former = [0x539F, 0x5DE5, 0x4F5C, 0x533A]"

text \<open>\<open>txt_ch_gone\<close>: not available.\<close>

definition txt_ch_gone :: jsstr where
  "txt_ch_gone = [32, 0xB7, 32, 0x5F53, 0x524D, 0x4E0D, 0x53EF, 0x7528]"

text \<open>\<open>txt_ch_input\<close>: about, input.\<close>

definition txt_ch_input :: jsstr where
  "txt_ch_input = [0x2248, 32, 0x8F93, 0x5165, 32]"

text \<open>\<open>txt_ch_output\<close>: output.\<close>

definition txt_ch_output :: jsstr where
  "txt_ch_output = [32, 0xB7, 32, 0x8F93, 0x51FA, 32]"

text \<open>\<open>txt_ch_estimated\<close>: tokens, estimated.\<close>

definition txt_ch_estimated :: jsstr where
  "txt_ch_estimated = [32, 116, 111, 107, 101, 110, 115, 0xFF08, 0x4F30, 0x7B97, 0xFF09]"

text \<open>\<open>txt_ch_enter\<close>: Enter sends.\<close>

definition txt_ch_enter :: jsstr where
  "txt_ch_enter = [69, 110, 116, 101, 114, 32, 0x53D1, 0x9001]"

text \<open>\<open>txt_ch_shift_enter\<close>: Shift and Enter for a new line.\<close>

definition txt_ch_shift_enter :: jsstr where
  "txt_ch_shift_enter = [83, 104, 105, 102, 116, 32, 43, 32, 69, 110, 116, 101, 114, 32, 0x6362, 0x884C]"

text \<open>\<open>txt_tp_running\<close>: this conversation is still being answered, open it again later.\<close>

definition txt_tp_running :: jsstr where
  "txt_tp_running = [0x8FD9, 0x4E2A, 0x4F1A, 0x8BDD, 0x4ECD, 0x5728, 0x751F, 0x6210, 0xFF0C, 0x8BF7, 0x7A0D,
     0x540E, 0x91CD, 0x65B0, 0x6253, 0x5F00, 0x3002]"

text \<open>\<open>txt_tp_refresh_later\<close>: this conversation is still being answered, refresh it later.\<close>

definition txt_tp_refresh_later :: jsstr where
  "txt_tp_refresh_later = [0x8FD9, 0x4E2A, 0x4F1A, 0x8BDD, 0x4ECD, 0x5728, 0x751F, 0x6210, 0xFF0C, 0x8BF7, 0x7A0D,
     0x540E, 0x5237, 0x65B0, 0x3002]"

text \<open>\<open>txt_tp_refresh\<close>: refresh the conversation.\<close>

definition txt_tp_refresh :: jsstr where
  "txt_tp_refresh = [0x5237, 0x65B0, 0x4F1A, 0x8BDD]"

text \<open>\<open>txt_tp_message\<close>: send a message.\<close>

definition txt_tp_message :: jsstr where
  "txt_tp_message = [0x53D1, 0x9001, 0x6D88, 0x606F]"

text \<open>\<open>txt_tp_copied\<close>: copied.\<close>

definition txt_tp_copied :: jsstr where
  "txt_tp_copied = [0x5DF2, 0x590D, 0x5236]"

text \<open>\<open>txt_tp_you\<close>: you.\<close>

definition txt_tp_you :: jsstr where
  "txt_tp_you = [0x4F60]"

end
