(* ===== verification/Conversations_Panel.thy ===== *)
theory Conversations_Panel imports Console_Store Chat_Targets View_Texts begin

text \<open>
  The conversations panel (\<open>components/admin/conversations-panel.tsx\<close>) on top of the console hook whose list
  it shows: the account filter, the checked conversations, deleting, and the effects that keep the
  checked and the open conversation within the filtered list.

  The panel's effects run before those of the hook, both with the values of one render, so
  \<open>panel_round\<close> is one pass over both; \<open>names\<close> in \<open>accountOptions\<close> stands for sorting with \<open>localeCompare\<close>.
\<close>

section \<open>State\<close>

datatype delete_task = Delete_one jsstr | Delete_many "jsstr list"

record conversations_panel =
  cp_console :: console
  cp_ids :: "jsstr list" \<comment> \<open>\<open>selectedIDs\<close>\<close>
  cp_busy :: bool
  cp_filter :: jsstr
  cp_tasks :: "delete_task list"
  cp_toasts :: "toast list"

definition account_filter_all :: jsstr where "account_filter_all = js ''__all__''"
definition account_filter_unknown :: jsstr where "account_filter_unknown = js ''__unknown__''"

definition conversationOriginLabel :: "jsstr option \<Rightarrow> jsstr" where
  "conversationOriginLabel origin = (if origin = Some (js ''merged'') then txt_origin_merged
     else if origin = Some (js ''notion'') then js ''Notion'' else txt_origin_local)"

definition initial_panel :: "console \<Rightarrow> conversations_panel" where
  "initial_panel c = \<lparr>cp_console = c, cp_ids = [], cp_busy = False, cp_filter = account_filter_all, cp_tasks = [],
     cp_toasts = []\<rparr>"

section \<open>Derived values\<close>

definition account_of :: "conversation_summary \<Rightarrow> jsstr" where
  "account_of c = trim (opt_str (cv_account_email c))"

definition matches_filter :: "jsstr \<Rightarrow> conversation_summary \<Rightarrow> bool" where
  "matches_filter f c = (if f = account_filter_all then True else if f = account_filter_unknown then account_of c = []
     else cv_account_email c \<noteq> None \<and> account_of c = f)"

definition filteredConversations :: "conversations_panel \<Rightarrow> conversation_summary list" where
  "filteredConversations s = filter (matches_filter (cp_filter s)) (uc_conversations (cp_console s))"

definition accountOptions :: "(jsstr list \<Rightarrow> jsstr list) \<Rightarrow> conversations_panel \<Rightarrow> jsstr list" where
  "accountOptions names s =
     names (rev (remdups (rev (filter (\<lambda>e. e \<noteq> []) (List.map account_of (uc_conversations (cp_console s)))))))"

definition panel_selected :: "conversations_panel \<Rightarrow> jsstr" where
  "panel_selected s = uc_selected (cp_console s)"

definition activeConversation :: "conversations_panel \<Rightarrow> (conversation_detail + conversation_summary) option" where
  "activeConversation s = (case selectedConversation (cp_console s) of
     Some (Inl d) \<Rightarrow> if has_conversation (cv_id d) (filteredConversations s) then Some (Inl d) else None
   | Some (Inr c) \<Rightarrow> if has_conversation (cv_id c) (filteredConversations s) then Some (Inr c) else None
   | None \<Rightarrow> None)"

definition conversationMessages :: "conversations_panel \<Rightarrow> conversation_message list" where
  "conversationMessages s = (case activeConversation s of Some (Inl d) \<Rightarrow> opt_list (cd_messages d) | _ \<Rightarrow> [])"

definition active_field :: "(conversation_summary \<Rightarrow> 'a) \<Rightarrow> (conversation_detail \<Rightarrow> 'a) \<Rightarrow> conversations_panel \<Rightarrow> 'a option" where
  "active_field f g s = (case activeConversation s of Some (Inl d) \<Rightarrow> Some (g d) | Some (Inr c) \<Rightarrow> Some (f c) | None \<Rightarrow> None)"

definition active_id :: "conversations_panel \<Rightarrow> jsstr option" where
  "active_id s = active_field cv_id cv_id s"

definition active_running :: "conversations_panel \<Rightarrow> bool" where
  "active_running s \<longleftrightarrow> active_field cv_status cv_status s = Some (Some (js ''running''))"

definition selectedItems :: "conversations_panel \<Rightarrow> conversation_summary list" where
  "selectedItems s = filter (\<lambda>c. cv_id c \<in> set (cp_ids s)) (filteredConversations s)"

definition count_if :: "('a \<Rightarrow> bool) \<Rightarrow> 'a list \<Rightarrow> nat" where
  "count_if p xs = length (filter p xs)"

definition selectedLocalCount :: "conversations_panel \<Rightarrow> nat" where
  "selectedLocalCount s = count_if (\<lambda>c. cv_origin c \<noteq> Some (js ''notion'')) (selectedItems s)"

definition selectedRemoteCount :: "conversations_panel \<Rightarrow> nat" where
  "selectedRemoteCount s = count_if (\<lambda>c. cv_origin c \<noteq> Some (js ''local'')) (selectedItems s)"

definition hasRunningSelection :: "conversations_panel \<Rightarrow> bool" where
  "hasRunningSelection s \<longleftrightarrow> (\<exists>c \<in> set (selectedItems s). cv_status c = Some (js ''running''))"

definition origin_count :: "jsstr \<Rightarrow> conversations_panel \<Rightarrow> nat" where
  "origin_count origin s = count_if (\<lambda>c. cv_origin c = Some origin) (filteredConversations s)"

definition allSelected :: "conversations_panel \<Rightarrow> bool" where
  "allSelected s \<longleftrightarrow> filteredConversations s \<noteq> [] \<and> length (cp_ids s) = length (filteredConversations s)"

definition activeFilterLabel :: "conversations_panel \<Rightarrow> jsstr" where
  "activeFilterLabel s = (if cp_filter s = account_filter_all then txt_all_accounts
     else if cp_filter s = account_filter_unknown then txt_unknown_account else cp_filter s)"

definition summaryCards :: "conversations_panel \<Rightarrow> (jsstr \<times> jsstr \<times> jsstr) list" where
  "summaryCards s = [(txt_cv_total, nat_str (length (filteredConversations s)), activeFilterLabel s),
     (txt_cv_origins, nat_str (origin_count (js ''local'') s) @ js '' / '' @ nat_str (origin_count (js ''merged'') s) @ js '' / '' @
        nat_str (origin_count (js ''notion'') s), txt_cv_origins_hint),
     (txt_cv_state, or_str (opt_str (Option.bind (active_field cv_status cv_status s) id)) (js ''-''),
      conversationOriginLabel (Option.bind (active_field cv_origin cv_origin s) id)),
     (txt_cv_count, nat_str (length (conversationMessages s)), txt_cv_count_hint)]"

section \<open>Effects\<close>

definition run_prune :: "conversation_summary list \<Rightarrow> conversations_panel \<Rightarrow> conversations_panel" where
  "run_prune items s = s\<lparr>cp_ids := filter (\<lambda>i. has_conversation i items) (cp_ids s)\<rparr>"

definition onSelect :: "jsstr \<Rightarrow> conversations_panel \<Rightarrow> conversations_panel" where
  "onSelect i s = s\<lparr>cp_console := loadConversationDetail i False Detail_only (selectConversation i (cp_console s))\<rparr>"

definition run_select :: "conversations_panel \<Rightarrow> conversations_panel \<Rightarrow> conversations_panel" where
  "run_select r s = (case filteredConversations r of [] \<Rightarrow> s
     | c # _ \<Rightarrow> if has_conversation (panel_selected r) (filteredConversations r) then s else onSelect (cv_id c) s)"

text \<open>The effects of the hook with the values of the render \<open>r\<close>.\<close>

definition run_hook :: "console \<Rightarrow> console \<Rightarrow> console" where
  "run_hook r c = (let c1 = c\<lparr>uc_selected_ref := uc_selected r, uc_details_ref := uc_details r\<rparr>; c2 = stream_effect c1 in
     if uc_selected r \<noteq> [] \<and> \<not> has_conversation (uc_selected r) (uc_conversations r)
     then c2\<lparr>uc_selected := first_conversation (uc_conversations r)\<rparr> else c2)"

definition panel_round :: "conversations_panel \<Rightarrow> conversations_panel" where
  "panel_round r = (let s = run_select r (run_prune (filteredConversations r) (run_prune (uc_conversations (cp_console r)) r)) in
     s\<lparr>cp_console := run_hook (cp_console r) (cp_console s)\<rparr>)"

definition panel_commit :: "conversations_panel \<Rightarrow> conversations_panel" where
  "panel_commit s = panel_round (panel_round (panel_round s))"

section \<open>Handlers\<close>

definition toggleConversation :: "jsstr \<Rightarrow> conversations_panel \<Rightarrow> conversations_panel" where
  "toggleConversation i s = s\<lparr>cp_ids := (if i \<in> set (cp_ids s) then filter (\<lambda>j. j \<noteq> i) (cp_ids s) else cp_ids s @ [i])\<rparr>"

definition toggleSelectAll :: "conversations_panel \<Rightarrow> conversations_panel" where
  "toggleSelectAll s = s\<lparr>cp_ids := (if length (cp_ids s) = length (filteredConversations s) then []
     else List.map cv_id (filteredConversations s))\<rparr>"

definition p_toast :: "toast \<Rightarrow> conversations_panel \<Rightarrow> conversations_panel" where
  "p_toast t s = s\<lparr>cp_toasts := cp_toasts s @ [t]\<rparr>"

definition handleSingleDelete :: "bool \<Rightarrow> jsstr \<Rightarrow> conversations_panel \<Rightarrow> conversations_panel" where
  "handleSingleDelete confirmed i s = (if \<not> confirmed then s
     else s\<lparr>cp_busy := True, cp_tasks := cp_tasks s @ [Delete_one i], cp_console := deleteConversation i (cp_console s)\<rparr>)"

definition handleBatchDelete :: "bool \<Rightarrow> conversations_panel \<Rightarrow> conversations_panel" where
  "handleBatchDelete confirmed s = (if cp_ids s = [] \<or> \<not> confirmed then s
     else s\<lparr>cp_busy := True, cp_tasks := cp_tasks s @ [Delete_many (cp_ids s)],
            cp_console := batchDeleteConversations (cp_ids s) (cp_console s)\<rparr>)"

fun delete_done :: "delete_task \<Rightarrow> conversations_panel \<Rightarrow> conversations_panel" where
  "delete_done (Delete_one i) s = p_toast (Toast_success txt_conversation_deleted_synced)
     (s\<lparr>cp_ids := filter (\<lambda>j. j \<noteq> i) (cp_ids s), cp_busy := False\<rparr>)"
| "delete_done (Delete_many ids) s = p_toast (Toast_success (txt_deleted_count @ nat_str (length ids) @ txt_deleted_count_tail))
     (s\<lparr>cp_ids := [], cp_busy := False\<rparr>)"

fun delete_fallback :: "delete_task \<Rightarrow> jsstr" where
  "delete_fallback (Delete_one i) = txt_delete_conversation_failed"
| "delete_fallback (Delete_many ids) = txt_batch_delete_failed"

definition delete_failed :: "delete_task \<Rightarrow> failure \<Rightarrow> conversations_panel \<Rightarrow> conversations_panel" where
  "delete_failed t e s = p_toast (Toast_error (failure_text e (delete_fallback t))) (s\<lparr>cp_busy := False\<rparr>)"

definition panel_refresh :: "conversations_panel \<Rightarrow> conversations_panel" where
  "panel_refresh s = s\<lparr>cp_console := refreshConversations (cp_console s)\<rparr>"

section \<open>Events\<close>

datatype panel_event =
    Filter_chosen jsstr
  | Toggled jsstr
  | Toggled_all
  | Opened jsstr
  | Refreshed
  | Delete_clicked bool
  | Batch_clicked bool
  | Delete_done delete_task
  | Delete_failed delete_task failure

definition continue_offered :: "conversations_panel \<Rightarrow> bool" where
  "continue_offered s \<longleftrightarrow> active_id s \<noteq> None \<and> \<not> cp_busy s \<and> \<not> active_running s \<and>
     \<not> opt_true (Option.bind (active_field cv_remote_only cv_remote_only s) id)"

fun panel_enabled :: "panel_event \<Rightarrow> conversations_panel \<Rightarrow> bool" where
  "panel_enabled (Filter_chosen f) s = (uc_conversations (cp_console s) \<noteq> [] \<and>
     f \<in> {account_filter_all, account_filter_unknown} \<union> set (accountOptions id s))"
| "panel_enabled (Toggled i) s = has_conversation i (filteredConversations s)"
| "panel_enabled Toggled_all s = (uc_conversations (cp_console s) \<noteq> [] \<and> \<not> cp_busy s)"
| "panel_enabled (Opened i) s = has_conversation i (filteredConversations s)"
| "panel_enabled Refreshed s = (\<not> cp_busy s)"
| "panel_enabled (Delete_clicked a) s = (active_id s \<noteq> None \<and> \<not> cp_busy s \<and> \<not> active_running s)"
| "panel_enabled (Batch_clicked a) s = (\<not> cp_busy s \<and> cp_ids s \<noteq> [] \<and> \<not> hasRunningSelection s)"
| "panel_enabled (Delete_done t) s = (t \<in> set (cp_tasks s))"
| "panel_enabled (Delete_failed t e) s = (t \<in> set (cp_tasks s))"

fun panel_apply :: "panel_event \<Rightarrow> conversations_panel \<Rightarrow> conversations_panel" where
  "panel_apply (Filter_chosen f) s = s\<lparr>cp_filter := f\<rparr>"
| "panel_apply (Toggled i) s = toggleConversation i s"
| "panel_apply Toggled_all s = toggleSelectAll s"
| "panel_apply (Opened i) s = onSelect i s"
| "panel_apply Refreshed s = panel_refresh s"
| "panel_apply (Delete_clicked a) s = (case active_id s of Some i \<Rightarrow> handleSingleDelete a i s | None \<Rightarrow> s)"
| "panel_apply (Batch_clicked a) s = handleBatchDelete a s"
| "panel_apply (Delete_done t) s = delete_done t (s\<lparr>cp_tasks := remove1 t (cp_tasks s)\<rparr>)"
| "panel_apply (Delete_failed t e) s = delete_failed t e (s\<lparr>cp_tasks := remove1 t (cp_tasks s)\<rparr>)"

text \<open>
  The console also changes by a command of the shell, a reply or an event of the stream; the server lists a
  conversation once.
\<close>

definition listed_once :: "console \<Rightarrow> bool" where
  "listed_once c \<longleftrightarrow> distinct (List.map cv_id (uc_conversations c))"

inductive panel_step :: "conversations_panel \<Rightarrow> conversations_panel \<Rightarrow> bool" where
  panel_event: "panel_enabled e s \<Longrightarrow> panel_step s (panel_commit (panel_apply e s))"
| panel_command: "panel_step s (panel_commit (s\<lparr>cp_console := run_command k (cp_console s)\<rparr>))"
| panel_reply: "(n, t) \<in> set (uc_tasks (cp_console s)) \<Longrightarrow> answers t r \<Longrightarrow> c = resume t r (finish_task n (cp_console s)) \<Longrightarrow>
     listed_once c \<Longrightarrow> panel_step s (panel_commit (s\<lparr>cp_console := c\<rparr>))"
| panel_stream: "uc_source (cp_console s) \<Longrightarrow> c = stream_step e (cp_console s) \<Longrightarrow>
     listed_once c \<Longrightarrow> panel_step s (panel_commit (s\<lparr>cp_console := c\<rparr>))"

inductive panel_reachable :: "conversations_panel \<Rightarrow> bool" where
  panel_mounted: "listed_once c \<Longrightarrow> panel_reachable (panel_commit (initial_panel c))"
| panel_stepped: "panel_reachable s \<Longrightarrow> panel_step s t \<Longrightarrow> panel_reachable t"

section \<open>The effects settle\<close>

lemma load_fields [simp]:
  "uc_conversations (loadConversationDetail i f a c) = uc_conversations c"
  "uc_details (loadConversationDetail i f a c) = uc_details c"
  "uc_verify (loadConversationDetail i f a c) = uc_verify c"
  "uc_selected (loadConversationDetail i f a c) = i"
  by (simp_all add: loadConversationDetail_def selectConversation_def spawn_def Let_def)

lemma select_conversation_fields [simp]:
  "uc_conversations (selectConversation i c) = uc_conversations c"
  "uc_details (selectConversation i c) = uc_details c" "uc_verify (selectConversation i c) = uc_verify c"
  by (simp_all add: selectConversation_def)

lemma stream_effect_fields [simp]:
  "uc_conversations (stream_effect c) = uc_conversations c" "uc_details (stream_effect c) = uc_details c"
  "uc_verify (stream_effect c) = uc_verify c" "uc_selected (stream_effect c) = uc_selected c"
  "uc_selected_ref (stream_effect c) = uc_selected_ref c" "uc_details_ref (stream_effect c) = uc_details_ref c"
  by (simp_all add: stream_effect_def ensureStream_def closeStream_def)

lemma run_hook_fields [simp]:
  "uc_conversations (run_hook r c) = uc_conversations c" "uc_details (run_hook r c) = uc_details c"
  "uc_verify (run_hook r c) = uc_verify c" "uc_selected_ref (run_hook r c) = uc_selected r"
  "uc_details_ref (run_hook r c) = uc_details r"
  by (simp_all add: run_hook_def Let_def)

lemma run_hook_selected:
  "uc_selected (run_hook r c) = (if uc_selected r \<noteq> [] \<and> \<not> has_conversation (uc_selected r) (uc_conversations r)
     then first_conversation (uc_conversations r) else uc_selected c)"
  by (simp add: run_hook_def Let_def)

abbreviation listed :: "conversations_panel \<Rightarrow> conversation_summary list" where
  "listed s \<equiv> uc_conversations (cp_console s)"

lemma round_frame [simp]:
  "listed (panel_round s) = listed s" "uc_details (cp_console (panel_round s)) = uc_details (cp_console s)"
  "uc_verify (cp_console (panel_round s)) = uc_verify (cp_console s)"
  "cp_filter (panel_round s) = cp_filter s" "cp_busy (panel_round s) = cp_busy s" "cp_tasks (panel_round s) = cp_tasks s"
  by (auto simp: panel_round_def run_select_def run_prune_def onSelect_def Let_def split: list.split)

lemma filtered_round [simp]: "filteredConversations (panel_round s) = filteredConversations s"
  by (simp add: filteredConversations_def)

lemma round_refs [simp]:
  "uc_selected_ref (cp_console (panel_round s)) = panel_selected s"
  "uc_details_ref (cp_console (panel_round s)) = uc_details (cp_console s)"
  by (simp_all add: panel_round_def panel_selected_def Let_def)

definition selection_listed :: "conversations_panel \<Rightarrow> bool" where
  "selection_listed s \<longleftrightarrow> panel_selected s = [] \<or> has_conversation (panel_selected s) (listed s)"

definition selection_filtered :: "conversations_panel \<Rightarrow> bool" where
  "selection_filtered s \<longleftrightarrow> filteredConversations s = [] \<or> has_conversation (panel_selected s) (filteredConversations s)"

lemma round_selected:
  "panel_selected (panel_round s) =
     (if \<not> selection_listed s then first_conversation (listed s)
      else if selection_filtered s then panel_selected s else first_conversation (filteredConversations s))"
  by (auto simp: panel_round_def run_select_def run_prune_def onSelect_def panel_selected_def selection_listed_def
      selection_filtered_def run_hook_selected first_conversation_def Let_def split: list.split)

lemma round_ids: "cp_ids (panel_round s) = filter (\<lambda>i. has_conversation i (filteredConversations s)) (cp_ids s)"
proof -
  have "has_conversation i (filteredConversations s) \<Longrightarrow> has_conversation i (listed s)" for i
    by (auto simp: has_conversation_def filteredConversations_def list_ex_iff)
  then have "filter (\<lambda>i. has_conversation i (filteredConversations s)) (filter (\<lambda>i. has_conversation i (listed s)) (cp_ids s)) =
      filter (\<lambda>i. has_conversation i (filteredConversations s)) (cp_ids s)"
    by (auto intro: filter_cong)
  then show ?thesis
    by (simp add: panel_round_def run_select_def run_prune_def onSelect_def Let_def split: list.split)
qed

definition panel_settled :: "conversations_panel \<Rightarrow> bool" where
  "panel_settled s \<longleftrightarrow> selection_listed s \<and> selection_filtered s \<and>
     (\<forall>i \<in> set (cp_ids s). has_conversation i (filteredConversations s)) \<and>
     uc_selected_ref (cp_console s) = panel_selected s \<and> uc_details_ref (cp_console s) = uc_details (cp_console s) \<and>
     uc_auth_dep (cp_console s) = authenticated (cp_console s)"

lemma first_has: "xs \<noteq> [] \<Longrightarrow> has_conversation (first_conversation xs) xs"
  by (rule has_first_conversation)

lemma filtered_listed: "has_conversation i (filteredConversations s) \<Longrightarrow> has_conversation i (listed s)"
  by (auto simp: has_conversation_def filteredConversations_def list_ex_iff)

lemma no_list_no_filter: "listed s = [] \<Longrightarrow> filteredConversations s = []"
  by (simp add: filteredConversations_def)

lemma round_listed: "selection_listed (panel_round s)"
  using first_has [of "listed s"] filtered_listed [OF first_has, of s]
  by (cases "listed s = []")
    (auto simp: selection_listed_def [of "panel_round s"] round_selected selection_filtered_def no_list_no_filter, simp_all add: selection_listed_def)

lemma round_filtered: "selection_listed s \<Longrightarrow> selection_filtered (panel_round s)"
  using first_has [of "filteredConversations s"]
  by (auto simp: selection_filtered_def [of "panel_round s"] round_selected, simp_all add: selection_filtered_def)

lemma round_auth: "uc_auth_dep (cp_console (panel_round s)) = authenticated (cp_console (panel_round s))"
proof -
  have "authenticated (cp_console (panel_round s)) = authenticated (cp_console s)"
    by (simp add: authenticated_def)
  moreover have "uc_auth_dep (run_hook r c) = authenticated c" for r c
    by (simp add: run_hook_def Let_def stream_effect_def ensureStream_def closeStream_def authenticated_def)
  ultimately show ?thesis
    by (simp add: panel_round_def run_select_def run_prune_def onSelect_def Let_def authenticated_def split: list.split)
qed

lemma panel_commit_settled: "panel_settled (panel_commit s)"
proof -
  define s2 where "s2 = panel_round (panel_round s)"
  have s2: "selection_listed s2" "selection_filtered s2"
    by (simp_all add: s2_def round_listed round_filtered)
  then have "panel_selected (panel_round s2) = panel_selected s2" by (simp add: round_selected)
  then show ?thesis
    using s2 unfolding panel_settled_def panel_commit_def s2_def [symmetric]
    by (simp add: round_listed round_filtered round_auth round_ids)
qed

lemma run_select_idle: "selection_filtered r \<Longrightarrow> run_select r s = s"
  by (auto simp: run_select_def selection_filtered_def split: list.split)

lemma settled_panel_round:
  assumes "panel_settled s"
  shows "panel_round s = s"
proof -
  have "filter (\<lambda>i. has_conversation i (filteredConversations s)) (cp_ids s) = cp_ids s"
    using assms by (auto simp: panel_settled_def filter_id_conv)
  then have "run_prune (filteredConversations s) (run_prune (listed s) s) = s"
    using assms filtered_listed [of _ s]
    by (simp add: run_prune_def panel_settled_def filter_id_conv)
  moreover have "run_hook (cp_console s) (cp_console s) = cp_console s"
    using assms
    by (auto simp: run_hook_def Let_def panel_settled_def panel_selected_def stream_effect_def selection_listed_def authenticated_def)
  ultimately show ?thesis
    using assms by (simp add: panel_round_def run_select_idle panel_settled_def Let_def)
qed

section \<open>Invariant\<close>

definition panel_pre :: "conversations_panel \<Rightarrow> bool" where
  "panel_pre s \<longleftrightarrow> distinct (cp_ids s) \<and> listed_once (cp_console s) \<and>
     length (cp_tasks s) = (if cp_busy s then 1 else 0)"

definition panel_ok :: "conversations_panel \<Rightarrow> bool" where
  "panel_ok s \<longleftrightarrow> panel_settled s \<and> panel_pre s"

lemma pre_round: "panel_pre s \<Longrightarrow> panel_pre (panel_round s)"
  by (simp add: panel_pre_def round_ids listed_once_def)

lemma panel_ok_commit: "panel_pre s \<Longrightarrow> panel_ok (panel_commit s)"
  by (simp add: panel_ok_def panel_commit_settled) (simp add: panel_commit_def pre_round)

lemma delete_toasts [simp]:
  "cp_ids (p_toast t s) = cp_ids s" "cp_console (p_toast t s) = cp_console s" "cp_busy (p_toast t s) = cp_busy s"
  "cp_tasks (p_toast t s) = cp_tasks s" "cp_filter (p_toast t s) = cp_filter s"
  by (simp_all add: p_toast_def)

lemma listed_once_filtered: "listed_once (cp_console s) \<Longrightarrow> distinct (List.map cv_id (filteredConversations s))"
  by (simp add: listed_once_def filteredConversations_def distinct_map_filter)

lemma spawn_listed [simp]: "uc_conversations (spawn t c) = uc_conversations c"
  by (simp add: spawn_def)

lemma command_listed: "uc_conversations (run_command k c) = uc_conversations c"
  by (cases k) (simp_all add: refreshAll_def refreshConversations_def loadConversations_def login_def logout_def
      deleteConversation_def batchDeleteConversations_def refreshAccounts_def refreshConfigBundle_def closeStream_def)

lemma one_task:
  assumes "panel_pre s" and "t \<in> set (cp_tasks s)"
  shows "cp_tasks s = [t]"
  using assms by (cases "cp_tasks s") (auto simp: panel_pre_def split: if_splits)

lemma settled_task_pre:
  assumes "panel_pre s" and "t \<in> set (cp_tasks s)"
  shows "panel_pre (delete_done t (s\<lparr>cp_tasks := remove1 t (cp_tasks s)\<rparr>))"
    and "panel_pre (delete_failed t e (s\<lparr>cp_tasks := remove1 t (cp_tasks s)\<rparr>))"
proof -
  have "cp_tasks s = [t]" by (rule one_task [OF assms])
  then show "panel_pre (delete_done t (s\<lparr>cp_tasks := remove1 t (cp_tasks s)\<rparr>))"
    using assms by (cases t) (simp_all add: panel_pre_def)
  show "panel_pre (delete_failed t e (s\<lparr>cp_tasks := remove1 t (cp_tasks s)\<rparr>))"
    using \<open>cp_tasks s = [t]\<close> assms by (simp add: delete_failed_def panel_pre_def)
qed

lemma panel_pre_apply:
  assumes "panel_pre s" and "panel_enabled e s"
  shows "panel_pre (panel_apply e s)"
proof (cases e)
  case Toggled_all
  then show ?thesis using assms listed_once_filtered [of s]
    by (simp add: panel_pre_def toggleSelectAll_def)
next
  case (Toggled i)
  then show ?thesis using assms by (simp add: panel_pre_def toggleConversation_def)
next
  case (Opened i)
  then show ?thesis using assms by (simp add: panel_pre_def onSelect_def listed_once_def)
next
  case Refreshed
  then show ?thesis using assms
    by (simp add: panel_pre_def panel_refresh_def refreshConversations_def loadConversations_def listed_once_def)
next
  case (Delete_clicked a)
  then show ?thesis using assms
    by (auto simp: panel_pre_def handleSingleDelete_def deleteConversation_def listed_once_def split: option.split)
next
  case (Batch_clicked a)
  then show ?thesis using assms
    by (auto simp: panel_pre_def handleBatchDelete_def batchDeleteConversations_def listed_once_def)
qed (use assms settled_task_pre in \<open>simp_all add: panel_pre_def\<close>)

lemma panel_ok_reachable: "panel_reachable s \<Longrightarrow> panel_ok s"
proof (induction rule: panel_reachable.induct)
  case (panel_mounted c)
  then show ?case by (intro panel_ok_commit) (simp add: panel_pre_def initial_panel_def)
next
  case (panel_stepped s t)
  then have pre: "panel_pre s" by (simp add: panel_ok_def)
  have console: "panel_pre (s\<lparr>cp_console := c\<rparr>)" if "listed_once c" for c
    using pre \<open>listed_once c\<close> by (simp add: panel_pre_def)
  from panel_stepped.hyps(2) show ?case
  proof (cases rule: panel_step.cases)
    case (panel_event e)
    then show ?thesis using pre by (simp add: panel_ok_commit panel_pre_apply)
  next
    case (panel_command k)
    have "listed_once (run_command k (cp_console s))"
      using pre by (simp add: listed_once_def command_listed panel_pre_def)
    then show ?thesis using panel_command console by (simp add: panel_ok_commit)
  qed (use console in \<open>simp_all add: panel_ok_commit\<close>)
qed

section \<open>Properties\<close>

lemma ids_in_filtered:
  "panel_ok s \<Longrightarrow> set (cp_ids s) \<subseteq> set (List.map cv_id (filteredConversations s))"
  by (auto simp: panel_ok_def panel_settled_def has_conversation_def list_ex_iff)

lemma all_selected_iff:
  assumes "panel_ok s"
  shows "allSelected s \<longleftrightarrow> filteredConversations s \<noteq> [] \<and> (\<forall>c \<in> set (filteredConversations s). cv_id c \<in> set (cp_ids s))"
proof -
  let ?F = "List.map cv_id (filteredConversations s)"
  have ids: "set (cp_ids s) \<subseteq> set ?F" "card (set (cp_ids s)) = length (cp_ids s)" "card (set ?F) = length (filteredConversations s)"
    using assms ids_in_filtered [OF assms] listed_once_filtered [of s] distinct_card [of "cp_ids s"] distinct_card [of ?F]
    by (simp_all add: panel_ok_def panel_pre_def)
  then have "length (cp_ids s) = length (filteredConversations s) \<longleftrightarrow> set (cp_ids s) = set ?F"
    using card_subset_eq [of "set ?F" "set (cp_ids s)"] by auto
  also have "\<dots> \<longleftrightarrow> (\<forall>c \<in> set (filteredConversations s). cv_id c \<in> set (cp_ids s))"
    using ids(1) by auto
  finally show ?thesis by (simp add: allSelected_def)
qed

lemma has_image: "has_conversation i xs \<longleftrightarrow> i \<in> cv_id ` set xs"
  unfolding has_conversation_def list_ex_iff image_iff by metis

text \<open>
  C40. Whatever happens to the list and to the filter, the effects of the conversations panel and of the
  hook come to rest together: what is checked is in the filtered list and checked once, the open
  conversation is in the filtered list unless that is empty, the select-all button reads as a cancel
  exactly when every listed conversation is checked, and at most one deletion is under way, while the panel is busy.
\<close>

theorem panel_reachable_ok:
  assumes "panel_reachable s"
  shows "panel_round s = s \<and> distinct (cp_ids s) \<and> set (cp_ids s) \<subseteq> cv_id ` set (filteredConversations s) \<and>
    (filteredConversations s = [] \<or> panel_selected s \<in> cv_id ` set (filteredConversations s)) \<and>
    (allSelected s \<longleftrightarrow> filteredConversations s \<noteq> [] \<and> (\<forall>c \<in> set (filteredConversations s). cv_id c \<in> set (cp_ids s))) \<and>
    length (cp_tasks s) = (if cp_busy s then 1 else 0)"
proof -
  have ok: "panel_ok s" by (rule panel_ok_reachable) fact
  then have "length (cp_tasks s) = (if cp_busy s then 1 else 0)" by (simp add: panel_ok_def panel_pre_def)
  moreover have "filteredConversations s = [] \<or> panel_selected s \<in> cv_id ` set (filteredConversations s)"
    using ok by (auto simp: panel_ok_def panel_settled_def selection_filtered_def has_image)
  ultimately show ?thesis
    using ok all_selected_iff [OF ok] ids_in_filtered [OF ok] settled_panel_round
    by (simp add: panel_ok_def panel_pre_def)
qed

lemma selected_items_ids:
  assumes "panel_ok s"
  shows "cv_id ` set (selectedItems s) = set (cp_ids s)" and "length (selectedItems s) = length (cp_ids s)"
proof -
  show ids: "cv_id ` set (selectedItems s) = set (cp_ids s)"
    using ids_in_filtered [OF assms] by (auto simp: selectedItems_def)
  have "distinct (List.map cv_id (selectedItems s))"
    using assms listed_once_filtered [of s]
    by (simp add: selectedItems_def panel_ok_def panel_pre_def distinct_map_filter)
  then have "card (cv_id ` set (selectedItems s)) = length (selectedItems s)"
    using distinct_card [of "List.map cv_id (selectedItems s)"] by simp
  moreover have "card (set (cp_ids s)) = length (cp_ids s)"
    using assms by (simp add: panel_ok_def panel_pre_def distinct_card)
  ultimately show "length (selectedItems s) = length (cp_ids s)" using ids by simp
qed

text \<open>
  C24. A batch deletion deletes what the operator sees: when its button is enabled, the request names exactly
  the checked conversations of the filtered list, each once and as many as the count shown, none of them
  running; a no to the question sends nothing.
\<close>

theorem batch_delete_as_shown:
  assumes "panel_reachable s" and "panel_enabled (Batch_clicked confirmed) s"
  shows "let t = panel_apply (Batch_clicked confirmed) s in
    uc_tasks (cp_console t) = uc_tasks (cp_console s) @
      (if confirmed then [(uc_next (cp_console s), T_batch_delete (cp_ids s))] else []) \<and>
    cv_id ` set (selectedItems s) = set (cp_ids s) \<and> length (cp_ids s) = length (selectedItems s) \<and> distinct (cp_ids s) \<and>
    (\<forall>c \<in> set (uc_conversations (cp_console s)). cv_id c \<in> set (cp_ids s) \<longrightarrow>
       matches_filter (cp_filter s) c \<and> cv_status c \<noteq> Some (js ''running''))"
proof -
  have ok: "panel_ok s" by (rule panel_ok_reachable) fact
  have shown: "c \<in> set (selectedItems s)"
    if "c \<in> set (uc_conversations (cp_console s))" "cv_id c \<in> set (cp_ids s)" for c
  proof -
    obtain d where d: "d \<in> set (filteredConversations s)" "cv_id d = cv_id c"
      using ids_in_filtered [OF ok] \<open>cv_id c \<in> set (cp_ids s)\<close> by auto
    have "d \<in> set (uc_conversations (cp_console s))" using d(1) by (simp add: filteredConversations_def)
    moreover have "inj_on cv_id (set (uc_conversations (cp_console s)))"
      using ok by (simp add: panel_ok_def panel_pre_def listed_once_def distinct_map)
    ultimately have "d = c" using d(2) \<open>c \<in> set (uc_conversations (cp_console s))\<close> by (auto dest: inj_onD)
    then show ?thesis using d(1) \<open>cv_id c \<in> set (cp_ids s)\<close> by (simp add: selectedItems_def)
  qed
  then have "matches_filter (cp_filter s) c \<and> cv_status c \<noteq> Some (js ''running'')"
    if "c \<in> set (uc_conversations (cp_console s))" "cv_id c \<in> set (cp_ids s)" for c
    using shown [OF \<open>c \<in> set _\<close> \<open>cv_id c \<in> _\<close>] assms(2)
    by (auto simp: selectedItems_def filteredConversations_def hasRunningSelection_def)
  moreover have "distinct (cp_ids s)" using ok by (simp add: panel_ok_def panel_pre_def)
  ultimately show ?thesis
    using selected_items_ids [OF ok] assms(2)
    by (auto simp: handleBatchDelete_def batchDeleteConversations_def spawn_def Let_def)
qed

definition demo_list :: "conversation_summary list" where
  "demo_list = [no_conversation_summary\<lparr>cv_id := js ''a'', cv_account_email := Some (js ''x'')\<rparr>,
     no_conversation_summary\<lparr>cv_id := js ''b'', cv_origin := Some (js ''notion'')\<rparr>]"

definition demo_panel :: conversations_panel where
  "demo_panel = panel_commit (initial_panel (mounted_console\<lparr>uc_conversations := demo_list\<rparr>))"

definition demo_checked :: conversations_panel where
  "demo_checked = panel_commit (panel_apply Toggled_all demo_panel)"

lemma demo_panel_reachable: "panel_reachable demo_panel"
  unfolding demo_panel_def
  by (rule panel_mounted) (simp add: listed_once_def demo_list_def js_def no_conversation_summary_def)

lemma panel_commit_frame [simp]:
  "listed (panel_commit s) = listed s" "cp_filter (panel_commit s) = cp_filter s" "cp_busy (panel_commit s) = cp_busy s"
  "filteredConversations (panel_commit s) = filteredConversations s"
  by (simp_all add: panel_commit_def)

lemma commit_ids: "cp_ids (panel_commit s) = filter (\<lambda>i. has_conversation i (filteredConversations s)) (cp_ids s)"
  by (simp add: panel_commit_def round_ids)

lemma demo_filtered: "filteredConversations demo_panel = demo_list" "listed demo_panel = demo_list" "\<not> cp_busy demo_panel"
  by (simp_all add: demo_panel_def initial_panel_def filteredConversations_def matches_filter_def)

lemma demo_ids: "cp_ids demo_panel = []"
  by (simp add: demo_panel_def commit_ids initial_panel_def)

lemma demo_checked_reachable: "panel_reachable demo_checked"
  unfolding demo_checked_def
  by (rule panel_stepped [OF demo_panel_reachable panel_event]) (simp add: demo_filtered demo_list_def)

lemma demo_checked_fields:
  "cp_ids demo_checked = [js ''a'', js ''b'']" "filteredConversations demo_checked = demo_list" "\<not> cp_busy demo_checked"
proof -
  have "filteredConversations (demo_panel\<lparr>cp_ids := ids\<rparr>) = demo_list" for ids
    using demo_filtered(1) by (simp add: filteredConversations_def)
  then show "cp_ids demo_checked = [js ''a'', js ''b'']" "filteredConversations demo_checked = demo_list" "\<not> cp_busy demo_checked"
    by (simp_all add: demo_checked_def toggleSelectAll_def demo_filtered demo_ids commit_ids)
      (simp_all add: demo_list_def has_conversation_def no_conversation_summary_def)
qed

lemma panel_reachable_ok_witness: "allSelected demo_checked \<and> panel_selected demo_checked \<in> {js ''a'', js ''b''}"
  using panel_reachable_ok [OF demo_checked_reachable]
  by (simp add: demo_checked_fields) (simp add: demo_list_def no_conversation_summary_def)

lemma batch_delete_as_shown_witness:
  "uc_tasks (cp_console (handleBatchDelete True demo_checked)) =
     uc_tasks (cp_console demo_checked) @ [(uc_next (cp_console demo_checked), T_batch_delete [js ''a'', js ''b''])]"
proof -
  have "panel_enabled (Batch_clicked True) demo_checked"
    by (simp add: demo_checked_fields hasRunningSelection_def selectedItems_def)
      (simp add: demo_list_def no_conversation_summary_def js_def)
  from batch_delete_as_shown [OF demo_checked_reachable this] show ?thesis
    by (simp add: Let_def demo_checked_fields)
qed

end
