(* ===== verification/Notebook.thy ===== *)
theory Notebook imports Admin_Service Chat_Targets Interfaces Panel_Texts begin

text \<open>
  The notebook dialog (\<open>components/admin/notebook-dialog.tsx\<close>): reading the notes of a workspace and
  referring to one in the prompt.

  The properties of the dialog (whether it is open, the workspaces offered, the one of the conversation) change by an event;
  a request carries the revision it was made under, and \<open>notebook_commit\<close> runs the effect that resets the
  dialog when it opens or the conversation's workspace changes.
\<close>

section \<open>State\<close>

record notebook_item =
  ni_id :: jsstr
  ni_title :: jsstr

record notebook_note = notebook_item +
  nn_text :: jsstr
  nn_partial :: bool

datatype note_source = Shared | Private

fun source_name :: "note_source \<Rightarrow> jsstr" where
  "source_name Shared = js ''shared''"
| "source_name Private = js ''private''"

text \<open>What a read asks for: the list, afresh when one is on screen, or one page.\<close>

datatype note_request = Read_list bool | Read_page jsstr

datatype note_task = Note_task nat chat_target note_source note_request

record notebook =
  nb_open :: bool
  nb_targets :: "chat_target list"
  nb_current :: "chat_target option"
  nb_disabled :: bool \<comment> \<open>\<open>referenceDisabled\<close>\<close>
  nb_target :: jsstr
  nb_items :: "notebook_item list option"
  nb_note :: "notebook_note option"
  nb_filter :: jsstr
  nb_source :: note_source
  nb_busy :: bool
  nb_error :: jsstr
  nb_revision :: nat
  nb_seen :: "(bool \<times> jsstr option) option"
  nb_tasks :: "note_task list"
  nb_referred :: "(notebook_note \<times> chat_target) list" \<comment> \<open>calls of \<open>onReference\<close>\<close>

definition initial_notebook :: "bool \<Rightarrow> chat_target list \<Rightarrow> chat_target option \<Rightarrow> bool \<Rightarrow> notebook" where
  "initial_notebook opened targets current disabled = \<lparr>nb_open = opened, nb_targets = targets, nb_current = current,
     nb_disabled = disabled, nb_target = [], nb_items = None, nb_note = None, nb_filter = [], nb_source = Shared,
     nb_busy = False, nb_error = [], nb_revision = 0, nb_seen = None, nb_tasks = [], nb_referred = []\<rparr>"

definition notebook_workspace :: "notebook \<Rightarrow> chat_target option" where
  "notebook_workspace s = List.find (\<lambda>t. ct_id t = nb_target s) (nb_targets s)"

text \<open>What a task sends, as a call of the admin service.\<close>

fun note_call :: "note_task \<Rightarrow> api_call" where
  "note_call (Note_task n w src (Read_list refresh)) = getNotes (ct_email w) (ct_workspace w) refresh (source_name src)"
| "note_call (Note_task n w src (Read_page page)) = getNote (ct_email w) (ct_workspace w) page"

section \<open>Operations\<close>

definition clear_read :: "notebook \<Rightarrow> notebook" where
  "clear_read s = s\<lparr>nb_revision := Suc (nb_revision s), nb_items := None, nb_note := None, nb_error := [], nb_filter := []\<rparr>"

definition initial_target :: "notebook \<Rightarrow> jsstr" where
  "initial_target s = (case nb_current s of
     Some c \<Rightarrow> if list_ex (\<lambda>t. ct_id t = ct_id c) (nb_targets s) then ct_id c
       else (case nb_targets s of [] \<Rightarrow> [] | t # _ \<Rightarrow> ct_id t)
   | None \<Rightarrow> (case nb_targets s of [] \<Rightarrow> [] | t # _ \<Rightarrow> ct_id t))"

definition notebook_dep :: "notebook \<Rightarrow> bool \<times> jsstr option" where
  "notebook_dep s = (nb_open s, map_option ct_id (nb_current s))"

definition notebook_commit :: "notebook \<Rightarrow> notebook" where
  "notebook_commit s = (if nb_seen s = Some (notebook_dep s) then s
     else (clear_read s)\<lparr>nb_seen := Some (notebook_dep s), nb_target := initial_target s, nb_busy := False\<rparr>)"

definition read_notes :: "jsstr option \<Rightarrow> notebook \<Rightarrow> notebook" where
  "read_notes pageID s = (case notebook_workspace s of None \<Rightarrow> s
   | Some w \<Rightarrow> if nb_busy s then s
     else (let n = Suc (nb_revision s); page = (case pageID of Some p \<Rightarrow> p \<noteq> [] | None \<Rightarrow> False);
               request = (if page then Read_page (the pageID) else Read_list (nb_items s \<noteq> None)) in
       s\<lparr>nb_revision := n, nb_busy := True, nb_error := [], nb_note := (if page then None else nb_note s),
         nb_tasks := nb_tasks s @ [Note_task n w (nb_source s) request]\<rparr>))"

datatype note_reply = Note_items "notebook_item list" | Note_page notebook_note | Note_failed failure

definition note_deliver :: "nat \<Rightarrow> note_reply \<Rightarrow> notebook \<Rightarrow> notebook" where
  "note_deliver n r s = (if n \<noteq> nb_revision s then s
     else (case r of Note_items items \<Rightarrow> s\<lparr>nb_items := Some items\<rparr>
       | Note_page p \<Rightarrow> s\<lparr>nb_note := Some p\<rparr>
       | Note_failed e \<Rightarrow> s\<lparr>nb_error := failure_text e txt_note_read_failed\<rparr>)\<lparr>nb_busy := False\<rparr>)"

definition choose_target :: "jsstr \<Rightarrow> notebook \<Rightarrow> notebook" where
  "choose_target i s = (clear_read s)\<lparr>nb_target := i\<rparr>"

definition choose_source :: "note_source \<Rightarrow> notebook \<Rightarrow> notebook" where
  "choose_source src s = (clear_read s)\<lparr>nb_source := src\<rparr>"

definition shown_items :: "(jsstr \<Rightarrow> jsstr) \<Rightarrow> notebook \<Rightarrow> notebook_item list" where
  "shown_items lower s = filter (\<lambda>i. str_includes (lower (nb_filter s)) (lower (ni_title i))) (opt_list (nb_items s))"

definition refer :: "notebook \<Rightarrow> notebook" where
  "refer s = (case (nb_note s, notebook_workspace s) of
     (Some p, Some w) \<Rightarrow> s\<lparr>nb_referred := nb_referred s @ [(p, w)], nb_open := False\<rparr> | _ \<Rightarrow> s)"

text \<open>\<open>'https://www.notion.so/' + encodeURIComponent(note.id.replaceAll('-', ''))\<close>\<close>

definition note_link :: "notebook_note \<Rightarrow> jsstr option" where
  "note_link p = map_option (\<lambda>i. js ''https://www.notion.so/'' @ i) (encodeURIComponent (filter (\<lambda>c. c \<noteq> 45) (ni_id p)))"

section \<open>Events\<close>

datatype notebook_event =
    Note_props bool "chat_target list" "chat_target option" bool
  | Note_target jsstr
  | Note_source note_source
  | Note_read "jsstr option"
  | Note_filter jsstr
  | Note_refer
  | Note_closed
  | Note_answered note_task note_reply

definition note_answers :: "note_task \<Rightarrow> note_reply \<Rightarrow> bool" where
  "note_answers t r = (case r of Note_failed e \<Rightarrow> True
     | Note_items items \<Rightarrow> (case t of Note_task n w src (Read_list b) \<Rightarrow> True | _ \<Rightarrow> False)
     | Note_page p \<Rightarrow> (case t of Note_task n w src (Read_page i) \<Rightarrow> True | _ \<Rightarrow> False))"

fun task_revision :: "note_task \<Rightarrow> nat" where "task_revision (Note_task n w src r) = n"
fun task_workspace :: "note_task \<Rightarrow> chat_target" where "task_workspace (Note_task n w src r) = w"
fun task_source :: "note_task \<Rightarrow> note_source" where "task_source (Note_task n w src r) = src"

fun notebook_enabled :: "notebook_event \<Rightarrow> notebook \<Rightarrow> bool" where
  "notebook_enabled (Note_target i) s = (nb_open s \<and> \<not> nb_busy s \<and> i \<in> ct_id ` set (nb_targets s))"
| "notebook_enabled (Note_source src) s = (nb_open s \<and> \<not> nb_busy s)"
| "notebook_enabled (Note_read None) s = (nb_open s \<and> \<not> nb_busy s \<and> notebook_workspace s \<noteq> None)"
| "notebook_enabled (Note_read (Some i)) s = (nb_open s \<and> \<not> nb_busy s \<and> i \<in> ni_id ` set (opt_list (nb_items s)))"
| "notebook_enabled (Note_filter f) s = (nb_open s \<and> nb_items s \<noteq> None)"
| "notebook_enabled Note_refer s = (nb_open s \<and> \<not> nb_busy s \<and> \<not> nb_disabled s \<and> notebook_workspace s \<noteq> None \<and>
     (case nb_note s of Some p \<Rightarrow> nn_text p \<noteq> [] | None \<Rightarrow> False))"
| "notebook_enabled Note_closed s = nb_open s"
| "notebook_enabled (Note_answered t r) s = (t \<in> set (nb_tasks s) \<and> note_answers t r)"
| "notebook_enabled _ s = True"

fun notebook_apply :: "notebook_event \<Rightarrow> notebook \<Rightarrow> notebook" where
  "notebook_apply (Note_props opened targets current disabled) s =
     s\<lparr>nb_open := opened, nb_targets := targets, nb_current := current, nb_disabled := disabled\<rparr>"
| "notebook_apply (Note_target i) s = choose_target i s"
| "notebook_apply (Note_source src) s = choose_source src s"
| "notebook_apply (Note_read p) s = read_notes p s"
| "notebook_apply (Note_filter f) s = s\<lparr>nb_filter := f\<rparr>"
| "notebook_apply Note_refer s = refer s"
| "notebook_apply Note_closed s = s\<lparr>nb_open := False\<rparr>"
| "notebook_apply (Note_answered t r) s = note_deliver (task_revision t) r (s\<lparr>nb_tasks := remove1 t (nb_tasks s)\<rparr>)"

inductive notebook_reachable :: "notebook \<Rightarrow> bool" where
  notebook_mounted: "notebook_reachable (notebook_commit (initial_notebook opened targets current disabled))"
| notebook_stepped: "notebook_reachable s \<Longrightarrow> notebook_enabled e s \<Longrightarrow>
     notebook_reachable (notebook_commit (notebook_apply e s))"

section \<open>The latest read wins\<close>

lemma deliver_stale: "n \<noteq> nb_revision s \<Longrightarrow> note_deliver n r s = s"
  by (simp add: note_deliver_def)

lemma deliver_fields [simp]:
  "nb_revision (note_deliver n r s) = nb_revision s" "nb_target (note_deliver n r s) = nb_target s"
  "nb_source (note_deliver n r s) = nb_source s" "nb_tasks (note_deliver n r s) = nb_tasks s"
  "notebook_dep (note_deliver n r s) = notebook_dep s" "nb_seen (note_deliver n r s) = nb_seen s"
  "nb_open (note_deliver n r s) = nb_open s" "nb_busy (note_deliver n r s) = (n \<noteq> nb_revision s \<and> nb_busy s)"
  by (simp_all add: note_deliver_def notebook_dep_def split: note_reply.split)

interpretation note_reads: latest_wins nb_revision read_notes note_deliver
  by unfold_locales (auto simp: read_notes_def deliver_stale Let_def split: option.split)

section \<open>Invariant\<close>

definition task_ok :: "notebook \<Rightarrow> note_task \<Rightarrow> bool" where
  "task_ok s t \<longleftrightarrow> task_revision t \<le> nb_revision s \<and> (task_revision t = nb_revision s \<longrightarrow>
     ct_id (task_workspace t) = nb_target s \<and> task_source t = nb_source s \<and> nb_busy s)"

definition notebook_ok :: "notebook \<Rightarrow> bool" where
  "notebook_ok s \<longleftrightarrow> (\<forall>t \<in> set (nb_tasks s). task_ok s t) \<and> distinct (List.map task_revision (nb_tasks s)) \<and>
     (nb_busy s \<longrightarrow> nb_revision s \<in> task_revision ` set (nb_tasks s))"

lemma later_ok:
  assumes "notebook_ok s" and "nb_revision s' = Suc (nb_revision s)" and "nb_tasks s' = nb_tasks s" and "\<not> nb_busy s'"
  shows "notebook_ok s'"
  using assms unfolding notebook_ok_def task_ok_def by fastforce

lemma commit_notebook_ok: "notebook_ok s \<Longrightarrow> notebook_ok (notebook_commit s)"
  by (auto simp: notebook_commit_def clear_read_def intro: later_ok)

lemma read_ok:
  assumes "notebook_ok s"
  shows "notebook_ok (read_notes p s)"
proof (cases "notebook_workspace s")
  case None
  then show ?thesis using assms by (simp add: read_notes_def)
next
  case (Some w)
  have "ct_id w = nb_target s" using Some by (auto simp: notebook_workspace_def find_Some_iff)
  moreover have "task_revision t < Suc (nb_revision s)" if "t \<in> set (nb_tasks s)" for t
    using assms \<open>t \<in> set (nb_tasks s)\<close> by (auto simp: notebook_ok_def task_ok_def)
  ultimately show ?thesis using assms Some
    by (auto simp: read_notes_def notebook_ok_def task_ok_def Let_def)
qed

lemma answer_ok:
  assumes "notebook_ok s" and "t \<in> set (nb_tasks s)"
  shows "notebook_ok (note_deliver (task_revision t) r (s\<lparr>nb_tasks := remove1 t (nb_tasks s)\<rparr>))"
proof -
  have "task_revision u \<noteq> task_revision t" if "u \<in> set (remove1 t (nb_tasks s))" for u
    using assms that by (auto simp: notebook_ok_def distinct_map dest: inj_onD)
  moreover have "distinct (List.map task_revision (remove1 t (nb_tasks s)))"
    using assms(1) by (auto simp: notebook_ok_def distinct_map inj_on_def dest: notin_set_remove1)
  ultimately show ?thesis using assms
    by (auto simp: notebook_ok_def task_ok_def image_iff) (metis in_set_remove1)
qed

lemma apply_notebook_ok:
  assumes "notebook_ok s" and "notebook_enabled e s"
  shows "notebook_ok (notebook_apply e s)"
proof (cases e)
  case (Note_target i)
  then show ?thesis using assms by (auto simp: choose_target_def clear_read_def intro: later_ok)
next
  case (Note_source src)
  then show ?thesis using assms by (auto simp: choose_source_def clear_read_def intro: later_ok)
next
  case Note_refer
  then show ?thesis using assms
    by (auto simp: refer_def notebook_ok_def task_ok_def split: option.split)
qed (use assms in \<open>auto simp: read_ok answer_ok\<close>, auto simp: notebook_ok_def task_ok_def)

lemma notebook_seen: "nb_seen (notebook_commit s) = Some (notebook_dep (notebook_commit s))"
  by (simp add: notebook_commit_def clear_read_def notebook_dep_def)

lemma reachable_notebook: "notebook_reachable s \<Longrightarrow> notebook_ok s \<and> nb_seen s = Some (notebook_dep s)"
proof (induction rule: notebook_reachable.induct)
  case (notebook_mounted opened targets current disabled)
  have "notebook_ok (initial_notebook opened targets current disabled)" by (simp add: notebook_ok_def initial_notebook_def)
  then show ?case by (simp add: notebook_seen commit_notebook_ok)
next
  case (notebook_stepped s e)
  then show ?case by (simp add: notebook_seen commit_notebook_ok apply_notebook_ok)
qed

lemma answered_commit:
  assumes "nb_seen s = Some (notebook_dep s)"
  shows "notebook_commit (notebook_apply (Note_answered t r) s) = notebook_apply (Note_answered t r) s"
  using assms by (simp add: notebook_commit_def) (simp add: notebook_dep_def)

lemma cleared_commit:
  assumes "nb_seen s = Some (notebook_dep s)" and "notebook_dep t \<noteq> notebook_dep s" and "nb_seen t = nb_seen s"
  shows "nb_items (notebook_commit t) = None \<and> nb_note (notebook_commit t) = None \<and> \<not> nb_busy (notebook_commit t)"
  using assms by (simp add: notebook_commit_def clear_read_def)

lemma notebook_apply_seen [simp]: "nb_seen (notebook_apply e s) = nb_seen s"
  by (cases e) (simp_all add: choose_target_def choose_source_def clear_read_def read_notes_def refer_def Let_def split: option.split)

lemma apply_moved:
  assumes "notebook_enabled e s" and "nb_target (notebook_apply e s) \<noteq> nb_target s \<or> nb_source (notebook_apply e s) \<noteq> nb_source s"
  shows "nb_items (notebook_apply e s) = None \<and> nb_note (notebook_apply e s) = None \<and> \<not> nb_busy (notebook_apply e s)"
  using assms
  by (cases e) (auto simp: choose_target_def choose_source_def clear_read_def read_notes_def refer_def Let_def split: option.splits)

text \<open>
  C26. What the notebook dialog shows was read for the workspace and the scope selected in it: an answer to a
  read made for another workspace or scope, however late, changes nothing; every move to another workspace or
  scope, and every opening and closing, starts empty; and the dialog is busy exactly while an answer is
  outstanding that will be accepted, so it cannot stay busy for ever.
\<close>

theorem notebook_shows_selected:
  assumes "notebook_reachable s" and "notebook_enabled e s"
  shows "let s' = notebook_commit (notebook_apply e s) in
    (\<forall>t r. e = Note_answered t r \<and> (ct_id (task_workspace t) \<noteq> nb_target s \<or> task_source t \<noteq> nb_source s) \<longrightarrow>
       s' = s\<lparr>nb_tasks := remove1 t (nb_tasks s)\<rparr>) \<and>
    (nb_target s' \<noteq> nb_target s \<or> nb_source s' \<noteq> nb_source s \<or> nb_open s' \<noteq> nb_open s \<longrightarrow>
       nb_items s' = None \<and> nb_note s' = None \<and> \<not> nb_busy s') \<and>
    (nb_busy s' \<longleftrightarrow> nb_revision s' \<in> task_revision ` set (nb_tasks s'))"
proof -
  define s' where "s' = notebook_commit (notebook_apply e s)"
  have ok: "notebook_ok s" and seen: "nb_seen s = Some (notebook_dep s)"
    using reachable_notebook [OF assms(1)] by simp_all
  have "notebook_ok s'" using reachable_notebook notebook_stepped [OF assms] by (simp add: s'_def)
  then have busy: "nb_busy s' \<longleftrightarrow> nb_revision s' \<in> task_revision ` set (nb_tasks s')"
    by (auto simp: notebook_ok_def task_ok_def)
  have foreign: "s' = s\<lparr>nb_tasks := remove1 t (nb_tasks s)\<rparr>"
    if "e = Note_answered t r" "ct_id (task_workspace t) \<noteq> nb_target s \<or> task_source t \<noteq> nb_source s" for t r
  proof -
    have "task_revision t \<noteq> nb_revision s"
      using ok assms(2) that by (auto simp: notebook_ok_def task_ok_def)
    then show ?thesis using that(1) seen
      by (simp add: s'_def answered_commit [OF seen] deliver_stale del: notebook_apply.simps) (simp add: deliver_stale)
  qed
  have moved: "nb_items s' = None \<and> nb_note s' = None \<and> \<not> nb_busy s'"
    if "nb_target s' \<noteq> nb_target s \<or> nb_source s' \<noteq> nb_source s \<or> nb_open s' \<noteq> nb_open s"
  proof (cases "notebook_dep (notebook_apply e s) = notebook_dep s")
    case True
    then have "s' = notebook_apply e s" using seen by (simp add: s'_def notebook_commit_def)
    moreover from this True have "nb_open s' = nb_open s" by (simp add: notebook_dep_def)
    ultimately show ?thesis using that apply_moved [OF assms(2)] by simp
  next
    case False
    then show ?thesis using cleared_commit [OF seen] by (simp add: s'_def)
  qed
  show ?thesis using busy foreign moved by (auto simp: s'_def [symmetric] Let_def)
qed

definition demo_target :: "jsstr \<Rightarrow> chat_target" where
  "demo_target i = \<lparr>ct_id = i, ct_email = js ''e'', ct_workspace = i, ct_name = i, ct_tier = [], ct_capability = None,
     ct_disabled = False, ct_eligible = True\<rparr>"

text \<open>A dialog whose read of the first workspace is cut off by closing and opening it with another one.\<close>

definition demo_notebook :: notebook where
  "demo_notebook = notebook_commit (notebook_apply
     (Note_props False [demo_target (js ''w''), demo_target (js ''v'')] (Some (demo_target (js ''v''))) False)
     (notebook_commit (notebook_apply (Note_read None)
       (notebook_commit (initial_notebook True [demo_target (js ''w''), demo_target (js ''v'')] None False)))))"

lemma demo_notebook_reachable: "notebook_reachable demo_notebook"
  unfolding demo_notebook_def
  by (intro notebook_stepped notebook_mounted) code_simp+

lemma demo_notebook_task:
  "nb_tasks demo_notebook = [Note_task 2 (demo_target (js ''w'')) Shared (Read_list False)]" "nb_target demo_notebook = js ''v''"
  by code_simp+

lemma notebook_shows_selected_witness:
  "notebook_commit (notebook_apply (Note_answered (Note_task 2 (demo_target (js ''w'')) Shared (Read_list False))
     (Note_items [])) demo_notebook) = demo_notebook\<lparr>nb_tasks := []\<rparr>"
proof -
  have "notebook_enabled (Note_answered (Note_task 2 (demo_target (js ''w'')) Shared (Read_list False)) (Note_items [])) demo_notebook"
    by (simp add: demo_notebook_task note_answers_def)
  from notebook_shows_selected [OF demo_notebook_reachable this] show ?thesis
    by (simp add: Let_def demo_notebook_task del: notebook_apply.simps) (simp add: demo_target_def)
qed

end
