(* ===== verification/Admin_Shell.thy ===== *)
theory Admin_Shell imports Console_Store Chat_Targets Interfaces Panel_Texts begin

text \<open>
  The shell of the admin frontend (\<open>components/admin/admin-console.tsx\<close>, \<open>components/admin/login-overlay.tsx\<close>):
  which panel is shown, the guard of unsaved edits, the \<open>tab\<close> parameter of the address and the login.

  The shell holds the console of \<open>useAdminConsole\<close>. Of the session history of the browser the model keeps the \<open>tab\<close> parameter
  of every entry and the position; \<open>window.confirm\<close> is the answer an event carries. The two dirty flags are
  references that only a mounted panel writes; \<open>shell_commit\<close> runs the cleanups of the panels that are gone.
\<close>

section \<open>State\<close>

record shell =
  sh_console :: console
  sh_tab :: tab_key
  sh_ref_tab :: tab_key
  sh_settings_dirty :: bool
  sh_accounts_dirty :: bool
  sh_history :: "jsstr option list"
  sh_position :: nat
  sh_resume :: jsstr
  sh_login_busy :: bool
  sh_login_message :: jsstr
  sh_mobile_nav :: bool
  sh_theme :: "jsstr option"
  sh_password :: jsstr \<comment> \<open>\<open>password\<close> of the login overlay\<close>
  sh_local_message :: jsstr
  sh_message_seen :: "jsstr option"
  sh_toasts :: "toast list"

text \<open>The members of \<open>TAB_LABEL\<close>.\<close>

fun tab_name :: "tab_key \<Rightarrow> jsstr" where
  "tab_name Dashboard = js ''dashboard''"
| "tab_name Tester = js ''tester''"
| "tab_name Conversations = js ''conversations''"
| "tab_name Settings = js ''settings''"
| "tab_name Accounts = js ''accounts''"
| "tab_name Models = js ''models''"

fun tab_label :: "tab_key \<Rightarrow> jsstr" where
  "tab_label Dashboard = txt_tab_dashboard"
| "tab_label Tester = txt_tab_tester"
| "tab_label Conversations = txt_tab_conversations"
| "tab_label Settings = txt_tab_settings"
| "tab_label Accounts = txt_tab_accounts"
| "tab_label Models = txt_tab_models"

definition all_tabs :: "tab_key list" where
  "all_tabs = [Dashboard, Tester, Conversations, Settings, Accounts, Models]"

text \<open>\<open>value && hasOwnProperty.call(TAB_LABEL, value) ? value : 'tester'\<close>\<close>

definition tab_of :: "jsstr option \<Rightarrow> tab_key" where
  "tab_of v = (case v of None \<Rightarrow> Tester | Some n \<Rightarrow>
     (case List.find (\<lambda>t. tab_name t = n) all_tabs of Some t \<Rightarrow> t | None \<Rightarrow> Tester))"

definition initial_shell :: "jsstr option list \<Rightarrow> nat \<Rightarrow> jsstr option \<Rightarrow> shell" where
  "initial_shell entries position theme = \<lparr>sh_console = mounted_console, sh_tab = Tester, sh_ref_tab = Tester,
     sh_settings_dirty = False, sh_accounts_dirty = False, sh_history = entries, sh_position = position,
     sh_resume = [], sh_login_busy = False, sh_login_message = [], sh_mobile_nav = False, sh_theme = theme,
     sh_password = [], sh_local_message = [], sh_message_seen = None, sh_toasts = []\<rparr>"

section \<open>Derived values\<close>

definition verified :: "(admin_verify_payload \<Rightarrow> bool option) \<Rightarrow> shell \<Rightarrow> bool" where
  "verified f s = opt_true (Option.bind (uc_verify (sh_console s)) f)"

definition shell_authenticated :: "shell \<Rightarrow> bool" where
  "shell_authenticated s = verified av_authenticated s"

definition passwordConfigured :: "shell \<Rightarrow> bool" where
  "passwordConfigured s = verified av_password_configured s"

definition shouldShowOverlay :: "shell \<Rightarrow> bool" where
  "shouldShowOverlay s \<longleftrightarrow> uc_verify (sh_console s) \<noteq> None \<and> \<not> shell_authenticated s"

definition shell_models :: "shell \<Rightarrow> model_item list" where
  "shell_models s = opt_list (Option.bind (uc_config (sh_console s)) acp_models)"

definition shell_config :: "shell \<Rightarrow> app_config option" where
  "shell_config s = map_option acp_config (uc_config (sh_console s))"

definition shell_default_model :: "shell \<Rightarrow> jsstr option" where
  "shell_default_model s = (let c = shell_config s; m = opt_str (Option.bind c cfg_default_model); i = opt_str (Option.bind c cfg_model_id) in
     if m \<noteq> [] then Some m else if i \<noteq> [] then Some i
     else Option.bind (uc_version (sh_console s)) vp_default_model)"

definition shell_web_search :: "shell \<Rightarrow> bool" where
  "shell_web_search s = opt_true (Option.bind (Option.bind (shell_config s) cfg_features) fc_use_web_search)"

definition authState :: "shell \<Rightarrow> jsstr" where
  "authState s = (if shell_authenticated s then txt_auth_yes
     else if \<not> verified av_admin_enabled s then txt_auth_disabled
     else if \<not> passwordConfigured s then txt_auth_no_password else txt_auth_wait)"

definition themeMode :: "shell \<Rightarrow> jsstr" where
  "themeMode s = (case sh_theme s of None \<Rightarrow> js ''system'' | Some t \<Rightarrow>
     if t \<in> {js ''light'', js ''dark'', js ''system''} then t else js ''system'')"

definition overlay_message :: "shell \<Rightarrow> jsstr" where
  "overlay_message s = or_str (sh_login_message s) (or_str (uc_boot_error (sh_console s))
     (if passwordConfigured s then txt_enter_password else txt_password_missing))"

section \<open>What is mounted\<close>

definition boot_screen :: "shell \<Rightarrow> bool" where
  "boot_screen s \<longleftrightarrow> uc_boot_loading (sh_console s) \<and> uc_verify (sh_console s) = None"

definition chat_mounted :: "shell \<Rightarrow> bool" where
  "chat_mounted s \<longleftrightarrow> \<not> boot_screen s \<and> shell_authenticated s \<and> uc_config (sh_console s) \<noteq> None"

definition chat_visible :: "shell \<Rightarrow> bool" where
  "chat_visible s \<longleftrightarrow> chat_mounted s \<and> sh_tab s = Tester"

definition mounted_panel :: "shell \<Rightarrow> tab_key option" where
  "mounted_panel s = (if boot_screen s \<or> \<not> shell_authenticated s \<or> sh_tab s = Tester then None
     else if sh_tab s = Settings \<and> uc_config (sh_console s) = None then None
     else Some (sh_tab s))"

definition overlay_mounted :: "shell \<Rightarrow> bool" where
  "overlay_mounted s \<longleftrightarrow> \<not> boot_screen s \<and> shouldShowOverlay s"

section \<open>Leaving a panel\<close>

definition unsaved_edits :: "shell \<Rightarrow> bool" where
  "unsaved_edits s \<longleftrightarrow> sh_settings_dirty s \<or> sh_accounts_dirty s"

definition canLeave :: "bool \<Rightarrow> tab_key \<Rightarrow> shell \<Rightarrow> bool" where
  "canLeave confirmed tab s \<longleftrightarrow> (if tab = sh_ref_tab s then True else \<not> unsaved_edits s \<or> confirmed)"

definition setActiveTab :: "bool \<Rightarrow> tab_key \<Rightarrow> shell \<Rightarrow> shell" where
  "setActiveTab confirmed tab s = (if \<not> canLeave confirmed tab s then s
     else s\<lparr>sh_ref_tab := tab, sh_tab := tab,
            sh_history := take (Suc (sh_position s)) (sh_history s) @ [Some (tab_name tab)],
            sh_position := Suc (sh_position s)\<rparr>)"

text \<open>The \<open>popstate\<close> handler, which also runs at mount.\<close>

definition sync_tab :: "bool \<Rightarrow> shell \<Rightarrow> shell" where
  "sync_tab confirmed s = (let tab = tab_of (sh_history s ! sh_position s) in
     if \<not> canLeave confirmed tab s
     then s\<lparr>sh_history := (sh_history s)[sh_position s := Some (tab_name (sh_ref_tab s))]\<rparr>
     else s\<lparr>sh_ref_tab := tab, sh_tab := tab\<rparr>)"

definition navigate :: "bool \<Rightarrow> nat \<Rightarrow> shell \<Rightarrow> shell" where
  "navigate confirmed n s = sync_tab confirmed (s\<lparr>sh_position := n\<rparr>)"

definition continue_conversation :: "bool \<Rightarrow> jsstr \<Rightarrow> shell \<Rightarrow> shell" where
  "continue_conversation confirmed i s = setActiveTab confirmed Tester (s\<lparr>sh_resume := i\<rparr>)"

definition on_console :: "command \<Rightarrow> shell \<Rightarrow> shell" where
  "on_console c s = s\<lparr>sh_console := commit (run_command c (sh_console s))\<rparr>"

definition logout_clicked :: "bool \<Rightarrow> shell \<Rightarrow> shell" where
  "logout_clicked confirmed s = (if unsaved_edits s \<and> \<not> confirmed then s else on_console Log_out s)"

definition logout_failed :: "failure \<Rightarrow> shell \<Rightarrow> shell" where
  "logout_failed e s = s\<lparr>sh_toasts := sh_toasts s @ [Toast_error (failure_text e txt_logout_failed)]\<rparr>"

section \<open>Login\<close>

definition login_submit :: "shell \<Rightarrow> shell" where
  "login_submit s = on_console Log_in (s\<lparr>sh_local_message := [], sh_login_busy := True, sh_login_message := []\<rparr>)"

definition login_done :: "shell \<Rightarrow> shell" where
  "login_done s = s\<lparr>sh_login_busy := False, sh_password := []\<rparr>"

definition login_failed :: "failure \<Rightarrow> shell \<Rightarrow> shell" where
  "login_failed e s = (let t = failure_text e txt_login_failed in
     s\<lparr>sh_login_message := t, sh_login_busy := False, sh_local_message := t\<rparr>)"

section \<open>Effects\<close>

text \<open>A panel that is gone has reported that it has no unsaved edits; an overlay that is gone has lost its state.\<close>

definition run_cleanups :: "shell \<Rightarrow> shell" where
  "run_cleanups s = s\<lparr>sh_settings_dirty := sh_settings_dirty s \<and> mounted_panel s = Some Settings,
     sh_accounts_dirty := sh_accounts_dirty s \<and> mounted_panel s = Some Accounts\<rparr>"

definition run_overlay :: "shell \<Rightarrow> shell" where
  "run_overlay s = (if \<not> overlay_mounted s then s\<lparr>sh_password := [], sh_local_message := [], sh_message_seen := None\<rparr>
     else if sh_message_seen s = Some (overlay_message s) then s
     else s\<lparr>sh_message_seen := Some (overlay_message s), sh_local_message := overlay_message s\<rparr>)"

definition shell_commit :: "shell \<Rightarrow> shell" where
  "shell_commit s = run_overlay (run_cleanups s)"

section \<open>Events\<close>

text \<open>The first component of an event is the answer to \<open>window.confirm\<close>, were it asked.\<close>

datatype shell_event =
    Tab_clicked bool tab_key
  | Went_to bool nat
  | Continue bool jsstr
  | Resume_handled
  | Logout_clicked bool
  | Logout_failed failure
  | Resync
  | Settings_report bool
  | Accounts_report bool
  | Password_typed jsstr
  | Login_submitted
  | Login_done
  | Login_failed failure
  | Mobile_nav bool
  | Theme jsstr

definition config_missing :: "shell \<Rightarrow> bool" where
  "config_missing s \<longleftrightarrow> shell_authenticated s \<and> uc_config (sh_console s) = None"

fun shell_enabled :: "shell_event \<Rightarrow> shell \<Rightarrow> bool" where
  "shell_enabled (Tab_clicked a t) s = (\<not> boot_screen s)"
| "shell_enabled (Went_to a n) s = (n < length (sh_history s))"
| "shell_enabled (Continue a i) s = (mounted_panel s = Some Conversations)"
| "shell_enabled (Logout_clicked a) s = (\<not> boot_screen s)"
| "shell_enabled Resync s = (\<not> boot_screen s \<and> (\<not> uc_boot_loading (sh_console s) \<or> config_missing s))"
| "shell_enabled (Settings_report d) s = (mounted_panel s = Some Settings)"
| "shell_enabled (Accounts_report d) s = (mounted_panel s = Some Accounts)"
| "shell_enabled (Password_typed p) s = (overlay_mounted s \<and> passwordConfigured s \<and> \<not> sh_login_busy s)"
| "shell_enabled Login_submitted s = (overlay_mounted s \<and> passwordConfigured s \<and> \<not> sh_login_busy s \<and> trim (sh_password s) \<noteq> [])"
| "shell_enabled Login_done s = sh_login_busy s"
| "shell_enabled (Login_failed e) s = sh_login_busy s"
| "shell_enabled (Mobile_nav b) s = (\<not> boot_screen s)"
| "shell_enabled (Theme t) s = (\<not> boot_screen s \<and> t \<in> {js ''system'', js ''light'', js ''dark''})"
| "shell_enabled _ s = True"

fun shell_apply :: "shell_event \<Rightarrow> shell \<Rightarrow> shell" where
  "shell_apply (Tab_clicked a t) s = setActiveTab a t s"
| "shell_apply (Went_to a n) s = navigate a n s"
| "shell_apply (Continue a i) s = continue_conversation a i s"
| "shell_apply Resume_handled s = s\<lparr>sh_resume := []\<rparr>"
| "shell_apply (Logout_clicked a) s = logout_clicked a s"
| "shell_apply (Logout_failed e) s = logout_failed e s"
| "shell_apply Resync s = on_console Refresh_all s"
| "shell_apply (Settings_report d) s = s\<lparr>sh_settings_dirty := d\<rparr>"
| "shell_apply (Accounts_report d) s = s\<lparr>sh_accounts_dirty := d\<rparr>"
| "shell_apply (Password_typed p) s = s\<lparr>sh_password := p\<rparr>"
| "shell_apply Login_submitted s = login_submit s"
| "shell_apply Login_done s = login_done s"
| "shell_apply (Login_failed e) s = login_failed e s"
| "shell_apply (Mobile_nav b) s = s\<lparr>sh_mobile_nav := b\<rparr>"
| "shell_apply (Theme t) s = s\<lparr>sh_theme := Some t\<rparr>"

definition mounted_shell :: "jsstr option list \<Rightarrow> nat \<Rightarrow> jsstr option \<Rightarrow> shell" where
  "mounted_shell entries position theme = shell_commit (sync_tab False (initial_shell entries position theme))"

inductive shell_step :: "shell \<Rightarrow> shell \<Rightarrow> bool" where
  shell_event: "shell_enabled e s \<Longrightarrow> shell_step s (shell_commit (shell_apply e s))"
| shell_hook: "console_step (sh_console s) c \<Longrightarrow> shell_step s (shell_commit (s\<lparr>sh_console := c\<rparr>))"

inductive shell_reachable :: "shell \<Rightarrow> bool" where
  shell_mounted: "position < length entries \<Longrightarrow> shell_reachable (mounted_shell entries position theme)"
| shell_stepped: "shell_reachable s \<Longrightarrow> shell_step s t \<Longrightarrow> shell_reachable t"

section \<open>Invariant\<close>

lemma tab_of_name [simp]: "tab_of (Some (tab_name t)) = t"
  by (cases t) (simp_all add: tab_of_def all_tabs_def js_def)

definition tabs_agree :: "shell \<Rightarrow> bool" where
  "tabs_agree s \<longleftrightarrow> sh_tab s = sh_ref_tab s \<and> sh_position s < length (sh_history s) \<and>
     tab_of (sh_history s ! sh_position s) = sh_tab s"

definition flags_mounted :: "shell \<Rightarrow> bool" where
  "flags_mounted s \<longleftrightarrow> (sh_settings_dirty s \<longrightarrow> mounted_panel s = Some Settings) \<and>
     (sh_accounts_dirty s \<longrightarrow> mounted_panel s = Some Accounts)"

lemma commit_shell_fields [simp]:
  "sh_tab (shell_commit s) = sh_tab s" "sh_ref_tab (shell_commit s) = sh_ref_tab s"
  "sh_history (shell_commit s) = sh_history s" "sh_position (shell_commit s) = sh_position s"
  "sh_console (shell_commit s) = sh_console s"
  by (simp_all add: shell_commit_def run_overlay_def run_cleanups_def)

lemmas mounted_defs = mounted_panel_def boot_screen_def shell_authenticated_def verified_def

lemma mounted_panel_commit [simp]: "mounted_panel (shell_commit s) = mounted_panel s"
  by (simp add: mounted_defs)

lemma commit_flags: "flags_mounted (shell_commit s)"
  unfolding flags_mounted_def mounted_panel_commit
  by (simp add: shell_commit_def run_overlay_def run_cleanups_def)

lemma commit_keeps_flags:
  "flags_mounted s \<Longrightarrow> sh_settings_dirty (shell_commit s) = sh_settings_dirty s \<and>
     sh_accounts_dirty (shell_commit s) = sh_accounts_dirty s"
  by (auto simp: flags_mounted_def shell_commit_def run_overlay_def run_cleanups_def)

lemma tabs_commit [simp]: "tabs_agree (shell_commit s) = tabs_agree s"
  by (simp add: tabs_agree_def)

lemma tabs_setActiveTab: "tabs_agree s \<Longrightarrow> tabs_agree (setActiveTab a t s)"
  by (simp add: tabs_agree_def setActiveTab_def nth_append)

lemma tabs_sync:
  "sh_tab s = sh_ref_tab s \<Longrightarrow> sh_position s < length (sh_history s) \<Longrightarrow> tabs_agree (sync_tab a s)"
  by (simp add: tabs_agree_def sync_tab_def Let_def)

lemma tabs_navigate: "tabs_agree s \<Longrightarrow> n < length (sh_history s) \<Longrightarrow> tabs_agree (navigate a n s)"
  unfolding navigate_def by (rule tabs_sync) (simp_all add: tabs_agree_def)

lemma tabs_resume [simp]: "tabs_agree (s\<lparr>sh_resume := i\<rparr>) = tabs_agree s"
  by (simp add: tabs_agree_def)

lemma tabs_apply: "tabs_agree s \<Longrightarrow> shell_enabled e s \<Longrightarrow> tabs_agree (shell_apply e s)"
  by (cases e) (auto simp: tabs_setActiveTab tabs_navigate continue_conversation_def, auto simp: logout_clicked_def on_console_def
    logout_failed_def login_submit_def login_done_def login_failed_def Let_def tabs_agree_def)

definition shell_ok :: "shell \<Rightarrow> bool" where
  "shell_ok s \<longleftrightarrow> tabs_agree s \<and> flags_mounted s \<and> console_reachable (sh_console s)"

lemma console_apply:
  "sh_console (shell_apply e s) = sh_console s \<or> (\<exists>c. sh_console (shell_apply e s) = commit (run_command c (sh_console s)))"
  by (cases e) (auto simp: setActiveTab_def navigate_def sync_tab_def Let_def continue_conversation_def logout_clicked_def on_console_def
    logout_failed_def login_submit_def login_done_def login_failed_def simp del: run_command.simps)

lemma reachable_shell_ok: "shell_reachable s \<Longrightarrow> shell_ok s"
proof (induction rule: shell_reachable.induct)
  case (shell_mounted position entries theme)
  then show ?case
    by (simp add: shell_ok_def mounted_shell_def commit_flags tabs_sync initial_shell_def)
      (simp add: sync_tab_def Let_def console_reachable.mount)
next
  case (shell_stepped s t)
  from shell_stepped.hyps(2) shell_stepped.IH show ?case
  proof (cases rule: shell_step.cases)
    case (shell_event e)
    then show ?thesis using shell_stepped.IH console_apply [of e s] console_step.command console_reachable.step
      by (auto simp: shell_ok_def commit_flags tabs_apply)
  next
    case (shell_hook c)
    then show ?thesis using shell_stepped.IH
      by (auto simp: shell_ok_def commit_flags intro: console_reachable.step) (simp add: tabs_agree_def)
  qed
qed

text \<open>
  In every state of the shell the panel on screen, the reference the guard reads and the \<open>tab\<close>
  parameter of the address name the same tab, also after a refused departure; and a panel can count as having
  unsaved edits only while it is on screen, so the guard never asks for a panel that is gone.
\<close>

theorem shell_reachable_ok:
  assumes "shell_reachable s"
  shows "sh_tab s = sh_ref_tab s \<and> tab_of (sh_history s ! sh_position s) = sh_tab s \<and>
    (sh_settings_dirty s \<longrightarrow> mounted_panel s = Some Settings) \<and>
    (sh_accounts_dirty s \<longrightarrow> mounted_panel s = Some Accounts) \<and> \<not> (sh_settings_dirty s \<and> sh_accounts_dirty s)"
  using reachable_shell_ok [OF assms] by (auto simp: shell_ok_def tabs_agree_def flags_mounted_def)

section \<open>Unsaved edits\<close>

text \<open>What the operator does with the answer no to the question.\<close>

definition refused :: "shell_event \<Rightarrow> bool" where
  "refused e \<longleftrightarrow> (case e of Tab_clicked a t \<Rightarrow> \<not> a | Went_to a n \<Rightarrow> \<not> a | Continue a i \<Rightarrow> \<not> a |
     Logout_clicked a \<Rightarrow> \<not> a | _ \<Rightarrow> False)"

lemma refused_tab: "unsaved_edits s \<Longrightarrow> tabs_agree s \<Longrightarrow> sh_tab (setActiveTab False t s) = sh_tab s"
  by (simp add: setActiveTab_def canLeave_def tabs_agree_def)

lemma refused_sync:
  "unsaved_edits s \<Longrightarrow> sh_tab s = sh_ref_tab s \<Longrightarrow> sh_tab (sync_tab False s) = sh_tab s"
  by (simp add: sync_tab_def canLeave_def Let_def)

lemma sync_frame [simp]:
  "sh_console (sync_tab a s) = sh_console s" "sh_console (setActiveTab a t s) = sh_console s"
  "sh_settings_dirty (sync_tab a s) = sh_settings_dirty s" "sh_settings_dirty (setActiveTab a t s) = sh_settings_dirty s"
  "sh_accounts_dirty (sync_tab a s) = sh_accounts_dirty s" "sh_accounts_dirty (setActiveTab a t s) = sh_accounts_dirty s"
  by (simp_all add: sync_tab_def setActiveTab_def Let_def)

lemma unsaved_frame [simp]: "unsaved_edits (s\<lparr>sh_position := n\<rparr>) = unsaved_edits s" "unsaved_edits (s\<lparr>sh_resume := i\<rparr>) = unsaved_edits s"
  by (simp_all add: unsaved_edits_def)

lemma refused_apply:
  assumes "unsaved_edits s" and "tabs_agree s" and "refused e"
  shows "sh_tab (shell_apply e s) = sh_tab s \<and> sh_console (shell_apply e s) = sh_console s \<and>
    sh_settings_dirty (shell_apply e s) = sh_settings_dirty s \<and> sh_accounts_dirty (shell_apply e s) = sh_accounts_dirty s"
proof -
  have "sh_tab s = sh_ref_tab s" using assms(2) by (simp add: tabs_agree_def)
  then show ?thesis using assms
    by (cases e) (auto simp: refused_def refused_tab continue_conversation_def navigate_def refused_sync logout_clicked_def)
qed

text \<open>
  C23. Unsaved edits are never left without the operator's consent: while a panel has some, a click on
  another tab, the browser's back and forward, continuing a conversation and logging out change
  nothing when the question is answered with no: the same panel stays mounted with its edits, no
  request is sent, and the address still names the panel.
\<close>

theorem unsaved_edits_guarded:
  assumes "shell_reachable s" and "unsaved_edits s" and "refused e" and "shell_enabled e s"
  shows "let t = shell_commit (shell_apply e s) in
    mounted_panel t = mounted_panel s \<and> mounted_panel t \<noteq> None \<and> sh_console t = sh_console s \<and>
    sh_settings_dirty t = sh_settings_dirty s \<and> sh_accounts_dirty t = sh_accounts_dirty s \<and>
    tab_of (sh_history t ! sh_position t) = sh_tab s"
proof -
  have ok: "tabs_agree s" "flags_mounted s" using reachable_shell_ok [OF assms(1)] by (simp_all add: shell_ok_def)
  define u where "u = shell_apply e s"
  have u: "sh_tab u = sh_tab s" "sh_console u = sh_console s" "sh_settings_dirty u = sh_settings_dirty s"
      "sh_accounts_dirty u = sh_accounts_dirty s"
    using refused_apply [OF assms(2) ok(1) assms(3)] by (simp_all add: u_def)
  then have panel: "mounted_panel u = mounted_panel s" by (simp add: mounted_defs)
  then have "flags_mounted u" using u ok(2) by (simp add: flags_mounted_def)
  moreover have "tabs_agree u" using tabs_apply [OF ok(1) assms(4)] by (simp add: u_def)
  moreover have "mounted_panel s \<noteq> None" using ok(2) assms(2) by (auto simp: flags_mounted_def unsaved_edits_def)
  ultimately show ?thesis
    using u panel commit_keeps_flags [of u] by (simp add: u_def [symmetric] Let_def tabs_agree_def)
qed

definition demo_shell :: shell where
  "demo_shell = mounted_shell [None, Some (tab_name Accounts)] 1 None"

definition demo_signed_in :: shell where
  "demo_signed_in = shell_commit (demo_shell\<lparr>sh_console := demo_console\<rparr>)"

definition demo_unsaved :: shell where
  "demo_unsaved = shell_commit (shell_apply (Accounts_report True) demo_signed_in)"

lemma demo_shell_fields: "sh_tab demo_shell = Accounts" "sh_console demo_shell = mounted_console"
  using tab_of_name [of Accounts]
  by (simp_all add: demo_shell_def mounted_shell_def sync_tab_def initial_shell_def canLeave_def unsaved_edits_def Let_def
      del: tab_name.simps)

lemma demo_reachable: "shell_reachable demo_shell"
  unfolding demo_shell_def by (rule shell_mounted) simp

lemma demo_hook: "console_step mounted_console demo_console"
  unfolding demo_console_def
  by (rule console_step.reply) (simp_all add: answers_def mounted_console_def refreshAll_def initial_console_def spawn_def)

lemma demo_signed_in_reachable: "shell_reachable demo_signed_in"
  unfolding demo_signed_in_def
  by (rule shell_stepped [OF demo_reachable shell_hook]) (simp add: demo_shell_fields demo_hook)

lemma demo_panel: "mounted_panel demo_signed_in = Some Accounts"
proof -
  have "uc_verify demo_console = Some demo_verify"
    by (simp add: demo_console_def after_verify_def Let_def signed_out_def demo_verify_def commit_def sync_refs_def
        selection_effect_def stream_effect_def ensureStream_def closeStream_def authenticated_def spawn_def)
  then show ?thesis
    by (simp add: demo_signed_in_def mounted_defs demo_shell_fields demo_verify_def opt_true_def)
qed

lemma demo_unsaved_reachable: "shell_reachable demo_unsaved"
  unfolding demo_unsaved_def
  by (rule shell_stepped [OF demo_signed_in_reachable shell_event]) (simp add: demo_panel)

lemma demo_unsaved_edits: "unsaved_edits demo_unsaved" "mounted_panel demo_unsaved = Some Accounts"
proof -
  define u where "u = shell_apply (Accounts_report True) demo_signed_in"
  have "mounted_panel u = mounted_panel demo_signed_in" by (simp add: u_def mounted_defs)
  then have panel: "mounted_panel u = Some Accounts" using demo_panel by simp
  moreover have "sh_accounts_dirty u" by (simp add: u_def)
  ultimately have "sh_accounts_dirty (shell_commit u)"
    by (simp add: shell_commit_def run_overlay_def run_cleanups_def)
  then show "unsaved_edits demo_unsaved" and "mounted_panel demo_unsaved = Some Accounts"
    using panel unfolding demo_unsaved_def u_def [symmetric] by (simp_all add: unsaved_edits_def)
qed

lemma shell_reachable_ok_witness: "sh_tab demo_unsaved = sh_ref_tab demo_unsaved \<and> mounted_panel demo_unsaved = Some Accounts"
  using shell_reachable_ok [OF demo_unsaved_reachable] demo_unsaved_edits by simp

lemma unsaved_edits_guarded_witness:
  "mounted_panel (shell_commit (setActiveTab False Tester demo_unsaved)) = Some Accounts \<and>
   mounted_panel (shell_commit (navigate False 0 demo_unsaved)) = Some Accounts"
proof -
  have "0 < length (sh_history demo_unsaved)"
    using reachable_shell_ok [OF demo_unsaved_reachable] by (auto simp: shell_ok_def tabs_agree_def)
  moreover have "\<not> boot_screen demo_unsaved" using demo_unsaved_edits(2) by (auto simp: mounted_panel_def split: if_splits)
  ultimately show ?thesis
    using unsaved_edits_guarded [OF demo_unsaved_reachable demo_unsaved_edits(1), of "Tab_clicked False Tester"]
      unsaved_edits_guarded [OF demo_unsaved_reachable demo_unsaved_edits(1), of "Went_to False 0"] demo_unsaved_edits(2)
    by (simp add: refused_def Let_def)
qed

end
