(* ===== verification/Panel_Calls.thy ===== *)
theory Panel_Calls imports Console_Store Settings_Panel Accounts_Panel begin

text \<open>
  The callbacks that \<open>components/admin/admin-console.tsx\<close> hands to the settings and accounts panels: each asks the admin
  service for something and then has the hook read again what may have changed, one request after the other.

  A \<open>panel_call\<close> is the promise a panel waits for. It is \<open>Asked\<close> until the service answers, then \<open>Awaiting\<close> the
  task of the hook it follows with the commands still to come and the answer it will resolve to, and at last
  \<open>Settled\<close>. The member order of a configuration object is not kept by its record: \<open>encode\<close> stands for its JSON.
\<close>

section \<open>What a panel asks for\<close>

datatype panel_task = Settings_task settings_task | Accounts_task accounts_task

definition strategy_run :: "jsstr \<Rightarrow> jsstr \<Rightarrow> bool \<Rightarrow> chat_run_input" where
  "strategy_run prompt model search = \<lparr>cri_account_email = None, cri_workspace_id = None, cri_prompt = prompt, cri_model = model,
     cri_use_web_search = search, cri_attachments = [], cri_conversation_id = None\<rparr>"

fun settings_request :: "(server_config \<Rightarrow> json \<Rightarrow> json) \<Rightarrow> settings_task \<Rightarrow> api_call option" where
  "settings_request encode (S_save f c aliases) = Some (updateSettings (encode c aliases))"
| "settings_request encode (S_import f name imported) = Some (importConfig imported)"
| "settings_request encode (S_test prompt model search) = Some (testPrompt (strategy_run prompt model search))"
| "settings_request encode (S_action Export_config) = Some exportConfig"
| "settings_request encode (S_action Create_snapshot) = Some createConfigSnapshot"
| "settings_request encode (S_action List_snapshots) = Some listConfigSnapshots"
| "settings_request encode (S_read_import f name) = None"
| "settings_request encode (S_read_strategy name) = None"

definition jnum :: "jsnum \<Rightarrow> json option" where "jnum n = Some (JNum (num_str n))"

definition quick_test_json :: "quick_request \<Rightarrow> json" where
  "quick_test_json r = obj [(''email'', jstr (qr_email r)), (''workspace_id'', jstr (qr_workspace r)),
     (''model'', jstr (qr_model r)), (''prompt'', jstr (qr_prompt r))]"

definition account_settings_json :: "jsstr \<Rightarrow> jsstr option \<Rightarrow> account_edit \<Rightarrow> bool \<Rightarrow> json" where
  "account_settings_json email w edit disabled = obj [(''email'', jstr email), (''workspace_id'', map_option JStr w),
     (''priority'', jnum (ae_priority edit)), (''hourly_quota'', jnum (ae_hourly edit)),
     (''max_concurrency'', jnum (ae_concurrency edit)), (''disabled'', Some (JBool disabled))]"

definition default_workspace_json :: "jsstr \<Rightarrow> jsstr \<Rightarrow> json" where
  "default_workspace_json email w =
     obj [(''email'', jstr email), (''workspace_id'', jstr w), (''default_workspace_id'', jstr w)]"

definition import_json :: "manual_import \<Rightarrow> json" where
  "import_json m = obj [(''email'', jstr (im_email m)), (''user_id'', jstr (im_user_id m)), (''user_name'', jstr (im_user_name m)),
     (''space_id'', jstr (im_space_id m)), (''space_name'', jstr (im_space_name m)),
     (''client_version'', jstr (im_client_version m)), (''cookie_header'', jstr (im_cookie m)),
     (''probe_json_text'', jstr (im_probe m)), (''active'', Some (JBool (im_active m)))]"

fun accounts_request :: "accounts_task \<Rightarrow> (failure + api_call) option" where
  "accounts_request (A_quick r target note) = Some (Inr (quickTestAccount (quick_test_json r)))"
| "accounts_request (A_save email w edit disabled) = Some (Inr (saveAccountSettings (account_settings_json email w edit disabled)))"
| "accounts_request (A_activate options email w) = Some (Inr (Admin_Service.activateAccount email w))"
| "accounts_request (A_default email w title) = Some (Inr (saveAccountSettings (default_workspace_json email w)))"
| "accounts_request (A_delete email) = Some (Admin_Service.deleteAccount email)"
| "accounts_request (A_import options m email) = Some (Inr (importAccount (import_json m)))"
| "accounts_request (A_start email) = Some (Inr (startAccountLogin email))"
| "accounts_request (A_verify options email code) = Some (Inr (verifyAccountCode email code))"
| "accounts_request (A_refresh_models email w) = Some (Inr (refreshModels email w))"
| "accounts_request (A_refresh_workspaces email) = Some (Inr (refreshWorkspaces email))"
| "accounts_request A_refresh = None"

section \<open>What the hook reads again\<close>

definition reread_all :: "command list" where "reread_all = [Refresh_all]"
definition reread_accounts :: "command list" where "reread_accounts = [Refresh_accounts, Refresh_config_bundle]"

fun settings_follow :: "settings_task \<Rightarrow> command list" where
  "settings_follow (S_save f c aliases) = reread_all"
| "settings_follow (S_import f name imported) = reread_all"
| "settings_follow (S_test prompt model search) = [Load_conversations]"
| "settings_follow _ = []"

fun accounts_follow :: "accounts_task \<Rightarrow> command list" where
  "accounts_follow (A_quick r target note) = [Load_conversations]"
| "accounts_follow (A_save email w edit disabled) = reread_accounts"
| "accounts_follow (A_activate options email w) = reread_all"
| "accounts_follow (A_default email w title) = reread_accounts"
| "accounts_follow (A_delete email) = reread_all"
| "accounts_follow (A_import options m email) = reread_all"
| "accounts_follow (A_start email) = reread_accounts"
| "accounts_follow (A_verify options email code) = reread_all"
| "accounts_follow (A_refresh_models email w) = reread_accounts"
| "accounts_follow (A_refresh_workspaces email) = reread_accounts"
| "accounts_follow A_refresh = [Refresh_accounts]"

fun follow_up :: "panel_task \<Rightarrow> command list" where
  "follow_up (Settings_task t) = settings_follow t"
| "follow_up (Accounts_task t) = accounts_follow t"

text \<open>A file that is read and the refresh button of the accounts panel involve no request of the service.\<close>

fun reads_file :: "settings_task \<Rightarrow> bool" where
  "reads_file (S_read_import f name) = True"
| "reads_file (S_read_strategy name) = True"
| "reads_file _ = False"

definition asks_service :: "panel_task \<Rightarrow> bool" where
  "asks_service t \<longleftrightarrow> t \<noteq> Accounts_task A_refresh"

text \<open>A request that cannot be built (the path of a deletion) is the failure of the operation.\<close>

definition service_answers :: "panel_task \<Rightarrow> failure + json \<Rightarrow> bool" where
  "service_answers t r \<longleftrightarrow> (case t of
     Accounts_task a \<Rightarrow> (case accounts_request a of Some (Inl e) \<Rightarrow> r = Inl e | _ \<Rightarrow> True) | _ \<Rightarrow> True)"

section \<open>The promise of a call\<close>

type_synonym answer = "failure + json"

datatype call_stage = Asked | Awaiting nat "command list" json | Settled answer

record panel_call =
  pcl_id :: nat
  pcl_instance :: nat \<comment> \<open>which mounting of the panel made the call\<close>
  pcl_task :: panel_task
  pcl_stage :: call_stage

text \<open>
  The call goes on with the commands \<open>cs\<close>; what it awaits is the task the command leaves in the hook, whose
  number is \<open>next\<close>. \<open>hook_step\<close> runs a command of the hook on the surrounding state.
\<close>

fun continue_call :: "nat \<Rightarrow> command list \<Rightarrow> json \<Rightarrow> call_stage \<times> command option" where
  "continue_call next [] v = (Settled (Inr v), None)"
| "continue_call next (c # cs) v = (Awaiting next cs v, Some c)"

definition service_answered :: "nat \<Rightarrow> panel_task \<Rightarrow> answer \<Rightarrow> call_stage \<times> command option" where
  "service_answered next t r = (case r of Inl e \<Rightarrow> (Settled (Inl e), None) | Inr v \<Rightarrow> continue_call next (follow_up t) v)"

text \<open>
  The task that was awaited has been answered. A handler of the hook that goes on to another request has left a new
  task; otherwise its promise is settled: \<open>refreshAll\<close> catches its failures, the other reads do not.
\<close>

definition awaited_answered ::
    "nat \<Rightarrow> nat \<Rightarrow> task \<Rightarrow> reply \<Rightarrow> command list \<Rightarrow> json \<Rightarrow> call_stage \<times> command option" where
  "awaited_answered before after t r cs v =
     (if before < after then (Awaiting before cs v, None)
      else case r of R_failed e \<Rightarrow> if boot_task t then continue_call after cs v else (Settled (Inl e), None)
        | _ \<Rightarrow> continue_call after cs v)"

end
