(* ===== verification/Desk.thy ===== *)
theory Desk imports Panel_Calls Admin_Shell begin

text \<open>
  The admin console as a whole (\<open>components/admin/admin-console.tsx\<close>): the shell with the hook, the settings or the
  accounts panel while it is on screen, and the calls the panels have made and not yet been answered.

  A panel is mounted and unmounted as the shell says, gets its properties from what the hook holds at every render
  of the shell, and reports to the shell whether it holds unsaved edits. The other panels and the chat hold nothing the
  guard of unsaved edits looks at; what they ask the hook for is any command (\<open>D_command\<close>).

  Objects are compared by identity: \<open>dk_tick\<close> counts the renders of the shell, and the ticks of the configuration and
  of the account list say at which render they were set. A list that \<open>|| []\<close> makes up is a new one at every render.
  \<open>dk_extra\<close> holds the properties of the configuration object that \<open>AppConfigShape\<close> does not declare.
\<close>

section \<open>State\<close>

datatype open_panel = No_panel | Open_settings settings | Open_accounts accounts

type_synonym extra = "json option \<times> (jsstr \<times> json) list"

record desk =
  dk_shell :: shell
  dk_panel :: open_panel
  dk_instance :: nat
  dk_calls :: "panel_call list"
  dk_next :: nat
  dk_tick :: nat
  dk_config_tick :: nat
  dk_accounts_tick :: nat
  dk_extra :: extra

abbreviation dk_console :: "desk \<Rightarrow> console" where "dk_console d \<equiv> sh_console (dk_shell d)"

section \<open>The properties of the panels\<close>

definition full_config :: "app_config \<Rightarrow> extra \<Rightarrow> server_config" where
  "full_config c x = app_config.extend c (server_config.fields (fst x) (snd x))"

text \<open>\<open>configPayload?.models || []\<close>\<close>

definition models_tick :: "desk \<Rightarrow> nat" where
  "models_tick d = (if Option.bind (uc_config (dk_console d)) acp_models = None then dk_tick d else dk_config_tick d)"

definition settings_props_of :: "desk \<Rightarrow> settings_props option" where
  "settings_props_of d = map_option (\<lambda>c. \<lparr>sp_config = full_config (acp_config c) (dk_extra d), sp_version = dk_config_tick d,
     sp_models = shell_models (dk_shell d), sp_models_version = models_tick d\<rparr>) (uc_config (dk_console d))"

definition accounts_props_of :: "desk \<Rightarrow> accounts_props" where
  "accounts_props_of d = (let p = uc_accounts (dk_console d) in
     \<lparr>aq_items = opt_list (Option.bind p ap_items), aq_active = opt_str (Option.bind p ap_active_account),
      aq_active_ws = opt_str (Option.bind p ap_active_workspace_id), aq_version = dk_accounts_tick d,
      aq_models = shell_models (dk_shell d), aq_default = shell_default_model (dk_shell d), aq_models_version = models_tick d\<rparr>)"

section \<open>Rendering\<close>

definition show_settings :: "settings_props \<Rightarrow> desk \<Rightarrow> desk" where
  "show_settings p d = (case dk_panel d of
     Open_settings s \<Rightarrow> d\<lparr>dk_panel := Open_settings (settings_commit (settings_apply (V_config p) s))\<rparr>
   | _ \<Rightarrow> d\<lparr>dk_panel := Open_settings (settings_commit (initial_settings p)), dk_instance := Suc (dk_instance d)\<rparr>)"

definition show_accounts :: "accounts_props \<Rightarrow> desk \<Rightarrow> desk" where
  "show_accounts p d = (case dk_panel d of
     Open_accounts s \<Rightarrow> d\<lparr>dk_panel := Open_accounts (accounts_commit (accounts_apply (E_reload p) s))\<rparr>
   | _ \<Rightarrow> d\<lparr>dk_panel := Open_accounts (accounts_commit (initial_accounts p)), dk_instance := Suc (dk_instance d)\<rparr>)"

definition show_panel :: "desk \<Rightarrow> desk" where
  "show_panel d = (case mounted_panel (dk_shell d) of
     Some Settings \<Rightarrow> (case settings_props_of d of Some p \<Rightarrow> show_settings p d | None \<Rightarrow> d\<lparr>dk_panel := No_panel\<rparr>)
   | Some Accounts \<Rightarrow> show_accounts (accounts_props_of d) d
   | _ \<Rightarrow> d\<lparr>dk_panel := No_panel\<rparr>)"

text \<open>The effect of a panel that tells the shell whether it holds unsaved edits.\<close>

definition report_edits :: "desk \<Rightarrow> desk" where
  "report_edits d = (case dk_panel d of
     No_panel \<Rightarrow> d
   | Open_settings s \<Rightarrow> d\<lparr>dk_shell := shell_commit (shell_apply (Settings_report (settings_dirty s)) (dk_shell d))\<rparr>
   | Open_accounts s \<Rightarrow> d\<lparr>dk_shell := shell_commit (shell_apply (Accounts_report (accounts_dirty s)) (dk_shell d))\<rparr>)"

text \<open>The shell changes to \<open>sh\<close> and is rendered.\<close>

definition render_shell :: "shell \<Rightarrow> desk \<Rightarrow> desk" where
  "render_shell sh d = report_edits (show_panel (d\<lparr>dk_shell := sh, dk_tick := Suc (dk_tick d)\<rparr>))"

definition set_console :: "console \<Rightarrow> desk \<Rightarrow> desk" where
  "set_console c d = render_shell (shell_commit ((dk_shell d)\<lparr>sh_console := c\<rparr>)) d"

definition desk_command :: "command \<Rightarrow> desk \<Rightarrow> desk" where
  "desk_command c d = set_console (commit (run_command c (dk_console d))) d"

section \<open>Calls\<close>

definition add_call :: "panel_task \<Rightarrow> call_stage \<Rightarrow> desk \<Rightarrow> desk" where
  "add_call t g d = d\<lparr>dk_calls := dk_calls d @ [\<lparr>pcl_id = dk_next d, pcl_instance = dk_instance d, pcl_task = t, pcl_stage = g\<rparr>],
     dk_next := Suc (dk_next d)\<rparr>"

definition set_stage :: "nat \<Rightarrow> call_stage \<Rightarrow> desk \<Rightarrow> desk" where
  "set_stage i g d = d\<lparr>dk_calls := List.map (\<lambda>c. if pcl_id c = i then c\<lparr>pcl_stage := g\<rparr> else c) (dk_calls d)\<rparr>"

definition drop_call :: "nat \<Rightarrow> desk \<Rightarrow> desk" where
  "drop_call i d = d\<lparr>dk_calls := filter (\<lambda>c. pcl_id c \<noteq> i) (dk_calls d)\<rparr>"

definition run_option :: "command option \<Rightarrow> desk \<Rightarrow> desk" where
  "run_option c d = (case c of None \<Rightarrow> d | Some c \<Rightarrow> desk_command c d)"

definition go_on :: "nat \<Rightarrow> call_stage \<times> command option \<Rightarrow> desk \<Rightarrow> desk" where
  "go_on i p d = run_option (snd p) (set_stage i (fst p) d)"

text \<open>A panel calls its callback; the refresh button of the accounts panel goes to the hook directly.\<close>

definition make_call :: "panel_task \<Rightarrow> desk \<Rightarrow> desk" where
  "make_call t d = (if asks_service t then add_call t Asked d
     else let p = continue_call (uc_next (dk_console d)) (follow_up t) JNull in run_option (snd p) (add_call t (fst p) d))"

definition awaits :: "nat \<Rightarrow> panel_call \<Rightarrow> bool" where
  "awaits n c \<longleftrightarrow> (case pcl_stage c of Awaiting m cs v \<Rightarrow> m = n | _ \<Rightarrow> False)"

definition wake :: "nat \<Rightarrow> nat \<Rightarrow> nat \<Rightarrow> task \<Rightarrow> reply \<Rightarrow> desk \<Rightarrow> desk" where
  "wake n before after t r d = (case List.find (awaits n) (dk_calls d) of None \<Rightarrow> d
     | Some c \<Rightarrow> (case pcl_stage c of
         Awaiting m cs v \<Rightarrow> go_on (pcl_id c) (awaited_answered before after t r cs v) d | _ \<Rightarrow> d))"

section \<open>Events\<close>

text \<open>What a reply of the hook brings: the objects it sets are new. Signing out sets the account list to \<open>null\<close>.\<close>

fun brings_config :: "task \<Rightarrow> reply \<Rightarrow> bool" where
  "brings_config T_bundle (R_bundle c v h a) = True"
| "brings_config T_config_bundle (R_config_bundle c v h) = True"
| "brings_config _ _ = False"

fun brings_accounts :: "task \<Rightarrow> reply \<Rightarrow> bool" where
  "brings_accounts T_bundle (R_bundle c v h a) = True"
| "brings_accounts T_accounts (R_accounts a) = True"
| "brings_accounts T_verify (R_verify v) = signed_out v"
| "brings_accounts _ _ = False"

definition note_objects :: "extra \<Rightarrow> task \<Rightarrow> reply \<Rightarrow> desk \<Rightarrow> desk" where
  "note_objects x t r d = (let fresh = Suc (dk_tick d) in
     d\<lparr>dk_config_tick := if brings_config t r then fresh else dk_config_tick d,
       dk_extra := if brings_config t r then x else dk_extra d,
       dk_accounts_tick := if brings_accounts t r then fresh else dk_accounts_tick d\<rparr>)"

definition hook_reply :: "extra \<Rightarrow> nat \<Rightarrow> task \<Rightarrow> reply \<Rightarrow> desk \<Rightarrow> desk" where
  "hook_reply x n t r d = (let c = commit (resume t r (finish_task n (dk_console d))) in
     wake n (uc_next (dk_console d)) (uc_next c) t r (set_console c (note_objects x t r d)))"

text \<open>The tasks that a step of a panel has left behind are the callbacks it has called, but for the files it reads.\<close>

definition settings_calls :: "settings_task list \<Rightarrow> settings_task list \<Rightarrow> panel_task list" where
  "settings_calls old new = List.map Settings_task (filter (\<lambda>t. \<not> reads_file t) (drop (length old) new))"

definition accounts_calls :: "accounts_task list \<Rightarrow> accounts_task list \<Rightarrow> panel_task list" where
  "accounts_calls old new = List.map Accounts_task (drop (length old) new)"

definition settings_left :: "settings_event \<Rightarrow> settings_task list \<Rightarrow> settings_task list" where
  "settings_left e ts = (case e of V_reply t r \<Rightarrow> remove1 t ts | _ \<Rightarrow> ts)"

definition accounts_left :: "accounts_event \<Rightarrow> accounts_task list \<Rightarrow> accounts_task list" where
  "accounts_left e ts = (case e of E_reply t r \<Rightarrow> remove1 t ts | _ \<Rightarrow> ts)"

definition settings_does :: "settings_event \<Rightarrow> settings \<Rightarrow> desk \<Rightarrow> desk" where
  "settings_does e s d = (let s' = settings_commit (settings_apply e s) in
     fold make_call (settings_calls (settings_left e (st_tasks s)) (st_tasks s')) (report_edits (d\<lparr>dk_panel := Open_settings s'\<rparr>)))"

definition accounts_does :: "accounts_event \<Rightarrow> accounts \<Rightarrow> desk \<Rightarrow> desk" where
  "accounts_does e s d = (let s' = accounts_commit (accounts_apply e s) in
     fold make_call (accounts_calls (accounts_left e (an_tasks s)) (an_tasks s')) (report_edits (d\<lparr>dk_panel := Open_accounts s'\<rparr>)))"

fun settings_answer :: "answer \<Rightarrow> settings_reply" where
  "settings_answer (Inl e) = S_failed e"
| "settings_answer (Inr v) = S_ok v"

fun accounts_answer :: "answer \<Rightarrow> accounts_reply" where
  "accounts_answer (Inl e) = A_failed e"
| "accounts_answer (Inr v) = A_ok v"

text \<open>The continuation of a call runs in the panel that made it; nothing of it is seen once that panel is gone.\<close>

definition deliver :: "panel_call \<Rightarrow> answer \<Rightarrow> desk \<Rightarrow> desk" where
  "deliver c r d = (let d' = drop_call (pcl_id c) d in
     if pcl_instance c \<noteq> dk_instance d then d'
     else case (pcl_task c, dk_panel d) of
       (Settings_task t, Open_settings s) \<Rightarrow> settings_does (V_reply t (settings_answer r)) s d'
     | (Accounts_task t, Open_accounts s) \<Rightarrow> accounts_does (E_reply t (accounts_answer r)) s d'
     | _ \<Rightarrow> d')"

datatype desk_event =
    D_shell shell_event
  | D_command command
  | D_reply nat task reply extra
  | D_stream stream_event
  | D_settings settings_event
  | D_accounts accounts_event
  | D_service nat answer
  | D_deliver nat

definition find_call :: "nat \<Rightarrow> desk \<Rightarrow> panel_call option" where
  "find_call i d = List.find (\<lambda>c. pcl_id c = i) (dk_calls d)"

text \<open>The panels' own reports, properties and replies are not events of their own here.\<close>

fun is_report :: "shell_event \<Rightarrow> bool" where
  "is_report (Settings_report b) = True"
| "is_report (Accounts_report b) = True"
| "is_report _ = False"

fun settings_own :: "settings_event \<Rightarrow> bool" where
  "settings_own (V_config p) = False"
| "settings_own (V_reply t r) = reads_file t"
| "settings_own _ = True"

fun accounts_own :: "accounts_event \<Rightarrow> bool" where
  "accounts_own (E_reload p) = False"
| "accounts_own (E_reply t r) = False"
| "accounts_own _ = True"

fun desk_enabled :: "desk_event \<Rightarrow> desk \<Rightarrow> bool" where
  "desk_enabled (D_shell e) d = (shell_enabled e (dk_shell d) \<and> \<not> is_report e)"
| "desk_enabled (D_command c) d = True"
| "desk_enabled (D_reply n t r x) d = ((n, t) \<in> set (uc_tasks (dk_console d)) \<and> answers t r)"
| "desk_enabled (D_stream e) d = uc_source (dk_console d)"
| "desk_enabled (D_settings e) d = (case dk_panel d of Open_settings s \<Rightarrow> settings_enabled e s \<and> settings_own e | _ \<Rightarrow> False)"
| "desk_enabled (D_accounts e) d = (case dk_panel d of Open_accounts s \<Rightarrow> accounts_enabled e s \<and> accounts_own e | _ \<Rightarrow> False)"
| "desk_enabled (D_service i r) d = (case find_call i d of
     Some c \<Rightarrow> pcl_stage c = Asked \<and> service_answers (pcl_task c) r | None \<Rightarrow> False)"
| "desk_enabled (D_deliver i) d = (case find_call i d of
     Some c \<Rightarrow> (case pcl_stage c of Settled r \<Rightarrow> True | _ \<Rightarrow> False) | None \<Rightarrow> False)"

fun desk_apply :: "desk_event \<Rightarrow> desk \<Rightarrow> desk" where
  "desk_apply (D_shell e) d = render_shell (shell_commit (shell_apply e (dk_shell d))) d"
| "desk_apply (D_command c) d = desk_command c d"
| "desk_apply (D_reply n t r x) d = hook_reply x n t r d"
| "desk_apply (D_stream e) d = set_console (commit (stream_step e (dk_console d))) d"
| "desk_apply (D_settings e) d = (case dk_panel d of Open_settings s \<Rightarrow> settings_does e s d | _ \<Rightarrow> d)"
| "desk_apply (D_accounts e) d = (case dk_panel d of Open_accounts s \<Rightarrow> accounts_does e s d | _ \<Rightarrow> d)"
| "desk_apply (D_service i r) d = (case find_call i d of
     Some c \<Rightarrow> go_on i (service_answered (uc_next (dk_console d)) (pcl_task c) r) d | None \<Rightarrow> d)"
| "desk_apply (D_deliver i) d = (case find_call i d of
     Some c \<Rightarrow> (case pcl_stage c of Settled r \<Rightarrow> deliver c r d | _ \<Rightarrow> d) | None \<Rightarrow> d)"

definition initial_desk :: "jsstr option list \<Rightarrow> nat \<Rightarrow> jsstr option \<Rightarrow> desk" where
  "initial_desk entries position theme = \<lparr>dk_shell = mounted_shell entries position theme, dk_panel = No_panel, dk_instance = 0,
     dk_calls = [], dk_next = 0, dk_tick = 0, dk_config_tick = 0, dk_accounts_tick = 0, dk_extra = (None, [])\<rparr>"

inductive desk_step :: "desk \<Rightarrow> desk_event \<Rightarrow> desk \<Rightarrow> bool" where
  desk_event: "desk_enabled e d \<Longrightarrow> desk_step d e (desk_apply e d)"

inductive_cases desk_step_cases: "desk_step d e d'"

inductive desk_reachable :: "desk \<Rightarrow> bool" where
  desk_opened: "position < length entries \<Longrightarrow> desk_reachable (initial_desk entries position theme)"
| desk_stepped: "desk_reachable d \<Longrightarrow> desk_step d e d' \<Longrightarrow> desk_reachable d'"

end
