(* ===== verification/Desk_Facts.thy ===== *)
theory Desk_Facts imports Desk Settings_Facts Accounts_Facts begin

text \<open>
  What holds of the console as a whole: panel, shell and hook fit together in every reachable state, drafts survive what
  the panels do not do themselves, every call of a panel can end, and what a call reports.
\<close>

section \<open>Tasks of the hook\<close>

definition quiet :: "console \<Rightarrow> console \<Rightarrow> bool" where
  "quiet s s' \<longleftrightarrow> uc_tasks s' = uc_tasks s \<and> uc_next s' = uc_next s"

definition leaves :: "console \<Rightarrow> task \<Rightarrow> console \<Rightarrow> bool" where
  "leaves s t s' \<longleftrightarrow> uc_tasks s' = uc_tasks s @ [(uc_next s, t)] \<and> uc_next s' = Suc (uc_next s)"

lemma quiet_refl [simp]: "quiet s s"
  by (simp add: quiet_def)

lemma leaves_spawn [simp]: "leaves s t (spawn t s)"
  by (simp add: leaves_def spawn_def)

lemma commit_tasks [simp]: "quiet s (commit s') = quiet s s'" "leaves s t (commit s') = leaves s t s'"
  by (simp_all add: quiet_def leaves_def)

lemma detail_spawns:
  "quiet s (loadConversationDetail i f a s) \<or> leaves s (T_detail i a) (loadConversationDetail i f a s)"
  by (simp add: loadConversationDetail_def selectConversation_def quiet_def leaves_def spawn_def Let_def)

text \<open>A command of a follow-up leaves exactly one task behind.\<close>

fun follow_task :: "command \<Rightarrow> task option" where
  "follow_task Refresh_all = Some T_verify"
| "follow_task Refresh_accounts = Some T_accounts"
| "follow_task Refresh_config_bundle = Some T_config_bundle"
| "follow_task Load_conversations = Some (T_list List_only)"
| "follow_task _ = None"

lemma follow_leaves: "follow_task c = Some t \<Longrightarrow> leaves s t (run_command c s)"
  by (cases c) (auto simp: leaves_def refreshAll_def refreshAccounts_def refreshConfigBundle_def loadConversations_def spawn_def)

lemma command_spawns: "quiet s (run_command c s) \<or> (\<exists>t. leaves s t (run_command c s))"
proof (cases c)
  case (Load_detail i f)
  then show ?thesis using detail_spawns [of s i f Detail_only] by auto
qed (auto simp: quiet_def leaves_def console_defs)

lemma stream_quiet: "quiet s (stream_step e s)"
proof -
  have "quiet s (handleEvent p s)" for p
    by (simp add: quiet_def console_defs split: option.split)
  then show ?thesis by (cases "(e, s)" rule: stream_step.cases) (auto simp: quiet_def)
qed

lemma list_spawns:
  assumes "uc_tasks s' = uc_tasks s" and "uc_next s' = uc_next s"
  shows "quiet s (loadConversationDetail i f a s') \<or> leaves s (T_detail i a) (loadConversationDetail i f a s')"
  using detail_spawns [of s' i f a] assms by (simp add: quiet_def leaves_def)

text \<open>The task that goes on a run of \<open>refreshAll\<close> belongs to it too.\<close>

lemma resume_spawns: "quiet s (resume t r s) \<or> (\<exists>u. leaves s u (resume t r s) \<and> (boot_task t \<longrightarrow> boot_task u))"
proof (cases "\<exists>a p. t = T_list a \<and> r = R_list p")
  case True
  then obtain a p where t: "t = T_list a" "r = R_list p" by blast
  define s' where "s' = set_conversations p s"
  have s': "uc_tasks s' = uc_tasks s" "uc_next s' = uc_next s"
    by (simp_all add: s'_def set_conversations_def Let_def)
  have "quiet s s'" "quiet s (boot_done s')"
    using s' by (simp_all add: quiet_def boot_done_def)
  then show ?thesis
    using list_spawns [OF s', of "refresh_target s'" True Detail_refresh] list_spawns [OF s', of "refresh_target s'" True Detail_boot]
    by (cases a) (auto simp: t s'_def [symmetric] Let_def)
next
  case False
  have "t = T_list a \<Longrightarrow> r \<noteq> R_list p" for a p using False by blast
  then show ?thesis
  proof (induction t r s rule: resume.induct)
    case (1 t e s)
    then show ?case by (simp add: quiet_def boot_failed_def)
  next
    case (5 i a p s)
    then show ?case by (cases a) (simp_all add: quiet_def console_defs)
  qed (auto simp: quiet_def leaves_def console_defs)
qed

section \<open>Panel, shell and hook\<close>

lemma shell_commit_console [simp]: "sh_console (shell_commit (shell_apply (Settings_report b) sh)) = sh_console sh"
  "sh_console (shell_commit (shell_apply (Accounts_report b) sh)) = sh_console sh"
  by simp_all

lemma report_fields [simp]:
  "dk_console (report_edits d) = dk_console d" "dk_panel (report_edits d) = dk_panel d" "dk_calls (report_edits d) = dk_calls d"
  "dk_next (report_edits d) = dk_next d" "dk_instance (report_edits d) = dk_instance d" "dk_tick (report_edits d) = dk_tick d"
  "dk_config_tick (report_edits d) = dk_config_tick d" "dk_accounts_tick (report_edits d) = dk_accounts_tick d"
  "dk_extra (report_edits d) = dk_extra d" "sh_tab (dk_shell (report_edits d)) = sh_tab (dk_shell d)"
  by (simp_all add: report_edits_def split: open_panel.split)

lemma report_mounted [simp]: "mounted_panel (dk_shell (report_edits d)) = mounted_panel (dk_shell d)"
  by (simp add: mounted_panel_def boot_screen_def shell_authenticated_def verified_def)

lemma props_cong:
  assumes "dk_console d' = dk_console d" and "dk_tick d' = dk_tick d" and "dk_config_tick d' = dk_config_tick d"
    and "dk_accounts_tick d' = dk_accounts_tick d" and "dk_extra d' = dk_extra d"
  shows "settings_props_of d' = settings_props_of d" and "accounts_props_of d' = accounts_props_of d"
  using assms by (simp_all add: settings_props_of_def accounts_props_of_def models_tick_def shell_models_def
      shell_default_model_def shell_config_def Let_def)

definition panel_live :: "desk \<Rightarrow> bool" where
  "panel_live d \<longleftrightarrow> (case dk_panel d of No_panel \<Rightarrow> True | Open_settings s \<Rightarrow> settings_reachable s | Open_accounts s \<Rightarrow> accounts_reachable s)"

definition panel_shown :: "desk \<Rightarrow> bool" where
  "panel_shown d \<longleftrightarrow> (case dk_panel d of
     No_panel \<Rightarrow> mounted_panel (dk_shell d) \<noteq> Some Settings \<and> mounted_panel (dk_shell d) \<noteq> Some Accounts
   | Open_settings s \<Rightarrow> mounted_panel (dk_shell d) = Some Settings \<and> settings_props_of d = Some (st_props s)
   | Open_accounts s \<Rightarrow> mounted_panel (dk_shell d) = Some Accounts \<and> accounts_props_of d = an_props s)"

definition flags_right :: "desk \<Rightarrow> bool" where
  "flags_right d \<longleftrightarrow>
     sh_settings_dirty (dk_shell d) = (case dk_panel d of Open_settings s \<Rightarrow> settings_dirty s | _ \<Rightarrow> False) \<and>
     sh_accounts_dirty (dk_shell d) = (case dk_panel d of Open_accounts s \<Rightarrow> accounts_dirty s | _ \<Rightarrow> False)"

lemma report_cong [simp]:
  "panel_live (report_edits d) = panel_live d" "panel_shown (report_edits d) = panel_shown d"
  using props_cong [of "report_edits d" d] by (simp_all add: panel_live_def panel_shown_def split: open_panel.split)

lemma reported_flags:
  "mounted_panel sh = Some Settings \<Longrightarrow> sh_settings_dirty (shell_commit (shell_apply (Settings_report b) sh)) = b \<and>
     \<not> sh_accounts_dirty (shell_commit (shell_apply (Settings_report b) sh))"
  "mounted_panel sh = Some Accounts \<Longrightarrow> sh_accounts_dirty (shell_commit (shell_apply (Accounts_report b) sh)) = b \<and>
     \<not> sh_settings_dirty (shell_commit (shell_apply (Accounts_report b) sh))"
  by (auto simp: shell_commit_def run_overlay_def run_cleanups_def mounted_panel_def boot_screen_def shell_authenticated_def
      verified_def split: if_splits)

lemma report_reachable:
  assumes "shell_reachable (dk_shell d)" and "panel_shown d"
  shows "shell_reachable (dk_shell (report_edits d))"
proof (cases "dk_panel d")
  case (Open_settings s)
  then have "shell_enabled (Settings_report (settings_dirty s)) (dk_shell d)" using assms(2) by (simp add: panel_shown_def)
  then show ?thesis using shell_stepped [OF assms(1) shell_step.shell_event [of "Settings_report (settings_dirty s)"]]
    by (simp add: report_edits_def Open_settings)
next
  case (Open_accounts s)
  then have "shell_enabled (Accounts_report (accounts_dirty s)) (dk_shell d)" using assms(2) by (simp add: panel_shown_def)
  then show ?thesis using shell_stepped [OF assms(1) shell_step.shell_event [of "Accounts_report (accounts_dirty s)"]]
    by (simp add: report_edits_def Open_accounts)
qed (simp add: report_edits_def assms(1))

lemma report_flags: "shell_reachable (dk_shell d) \<Longrightarrow> panel_shown d \<Longrightarrow> flags_right (report_edits d)"
  using shell_reachable_ok [of "dk_shell d"]
  by (auto simp: flags_right_def panel_shown_def report_edits_def reported_flags simp del: shell_apply.simps split: open_panel.split)

lemma show_panel_fields [simp]:
  "dk_shell (show_panel d) = dk_shell d" "dk_calls (show_panel d) = dk_calls d" "dk_next (show_panel d) = dk_next d"
  "dk_tick (show_panel d) = dk_tick d" "dk_config_tick (show_panel d) = dk_config_tick d"
  "dk_accounts_tick (show_panel d) = dk_accounts_tick d" "dk_extra (show_panel d) = dk_extra d"
  by (simp_all add: show_panel_def show_settings_def show_accounts_def split: option.split tab_key.split open_panel.split)

lemma show_settings_live: "panel_live d \<Longrightarrow> panel_live (show_settings p d)"
  using settings_host.alive_mounted settings_host.alive_reloaded
  by (simp add: panel_live_def show_settings_def split: open_panel.splits)

lemma show_accounts_live: "panel_live d \<Longrightarrow> panel_live (show_accounts p d)"
  using accounts_host.alive_mounted accounts_host.alive_reloaded
  by (simp add: panel_live_def show_accounts_def split: open_panel.splits)

lemma show_panel_live: "panel_live d \<Longrightarrow> panel_live (show_panel d)"
  by (auto simp: show_panel_def show_settings_live show_accounts_live split: option.split tab_key.split)
    (simp_all add: panel_live_def)

lemma mounted_has_config: "mounted_panel sh = Some Settings \<Longrightarrow> uc_config (sh_console sh) \<noteq> None"
  by (auto simp: mounted_panel_def split: if_splits)

lemma show_panel_panel:
  "dk_panel (show_panel d) = (case mounted_panel (dk_shell d) of
     Some Settings \<Rightarrow> (case settings_props_of d of
        Some p \<Rightarrow> Open_settings (case dk_panel d of Open_settings s \<Rightarrow> settings_commit (settings_apply (V_config p) s)
          | _ \<Rightarrow> settings_commit (initial_settings p))
      | None \<Rightarrow> No_panel)
   | Some Accounts \<Rightarrow> Open_accounts (case dk_panel d of
        Open_accounts s \<Rightarrow> accounts_commit (accounts_apply (E_reload (accounts_props_of d)) s)
      | _ \<Rightarrow> accounts_commit (initial_accounts (accounts_props_of d)))
   | _ \<Rightarrow> No_panel)"
  by (simp add: show_panel_def show_settings_def show_accounts_def split: option.split tab_key.split open_panel.split)

lemma show_panel_shown: "panel_shown (show_panel d)"
proof -
  have "settings_props_of (show_panel d) = settings_props_of d" "accounts_props_of (show_panel d) = accounts_props_of d"
    by (rule props_cong; simp)+
  then show ?thesis
    using mounted_has_config [of "dk_shell d"] settings_host.props_mounted settings_host.props_reloaded
      accounts_host.props_mounted accounts_host.props_reloaded
    by (auto simp: panel_shown_def show_panel_panel settings_props_of_def split: option.split tab_key.split open_panel.split)
qed

definition desk_whole :: "desk \<Rightarrow> bool" where
  "desk_whole d \<longleftrightarrow> shell_reachable (dk_shell d) \<and> panel_live d \<and> panel_shown d \<and> flags_right d"

lemma render_whole: "shell_reachable sh \<Longrightarrow> panel_live d \<Longrightarrow> desk_whole (render_shell sh d)"
  unfolding desk_whole_def render_shell_def
proof -
  assume "shell_reachable sh" and "panel_live d"
  then have "panel_live (show_panel (d\<lparr>dk_shell := sh, dk_tick := Suc (dk_tick d)\<rparr>))"
    by (intro show_panel_live) (simp add: panel_live_def)
  then show "shell_reachable (dk_shell (report_edits (show_panel (d\<lparr>dk_shell := sh, dk_tick := Suc (dk_tick d)\<rparr>)))) \<and>
      panel_live (report_edits (show_panel (d\<lparr>dk_shell := sh, dk_tick := Suc (dk_tick d)\<rparr>))) \<and>
      panel_shown (report_edits (show_panel (d\<lparr>dk_shell := sh, dk_tick := Suc (dk_tick d)\<rparr>))) \<and>
      flags_right (report_edits (show_panel (d\<lparr>dk_shell := sh, dk_tick := Suc (dk_tick d)\<rparr>)))"
    using \<open>shell_reachable sh\<close> by (simp add: report_reachable report_flags show_panel_shown)
qed

section \<open>Properties and tasks of the panels\<close>

lemma settings_resume_props: "st_props (settings_resume t r s) = st_props s \<and> (\<exists>ts. st_tasks (settings_resume t r s) = st_tasks s @ ts)"
  by (induction t r s rule: settings_resume.induct) (simp_all add: handler_defs Let_def split: option.split)

lemma settings_apply_props: "(\<forall>p. e \<noteq> V_config p) \<Longrightarrow> st_props (settings_apply e s) = st_props s"
  using settings_resume_props by (cases e) (auto simp: handler_defs Let_def split: sum.split prod.split)

lemma settings_apply_tasks: "\<exists>ts. st_tasks (settings_apply e s) = settings_left e (st_tasks s) @ ts"
proof (cases e)
  case (V_reply t r)
  then show ?thesis using settings_resume_props [of t r "s\<lparr>st_tasks := remove1 t (st_tasks s)\<rparr>"] by (simp add: settings_left_def)
qed (auto simp: settings_left_def handler_defs Let_def split: sum.split prod.split)

lemmas accounts_handler_defs = select_account_def updateWorkspaceEdit_def set_disabled_def discard_edits_def runQuickTest_def
  saveAccount_def Accounts_Panel.activateAccount_def setDefaultWorkspace_def deleteAccount_confirmed_def start_login_def
  verify_code_def refresh_models_def refresh_workspaces_def populateEmail_def import_failed_def

lemmas accounts_reply_defs = quick_done_def quick_failed_def quick_finish_def save_done_def save_settled_def
  save_account_failed_def activate_done_def import_done_def import_failed_def start_done_def start_failed_def verify_done_def
  verify_failed_def refresh_models_settled_def refresh_workspaces_settled_def populateEmail_def

lemma spawn_props [simp]: "an_props (a_spawn t s) = an_props s" "an_props (a_toast n s) = an_props s"
  by (simp_all add: a_spawn_def a_toast_def)

lemma import_props: "an_props (performManualImport s) = an_props s \<and> (\<exists>ts. an_tasks (performManualImport s) = an_tasks s @ ts)"
  by (simp add: performManualImport_def import_failed_def Let_def split: sum.split)

lemma accounts_resume_props: "an_props (accounts_resume t r s) = an_props s \<and> an_tasks (accounts_resume t r s) = an_tasks s"
  by (induction t r s rule: accounts_resume.induct) (simp_all add: accounts_reply_defs Let_def)

lemma accounts_apply_props: "(\<forall>p. e \<noteq> E_reload p) \<Longrightarrow> an_props (accounts_apply e s) = an_props s"
  using accounts_resume_props import_props
  by (cases e) (auto simp: accounts_handler_defs Let_def split: option.split)

lemma accounts_apply_tasks: "\<exists>ts. an_tasks (accounts_apply e s) = accounts_left e (an_tasks s) @ ts"
proof (cases e)
  case (E_reply t r)
  then show ?thesis
    using accounts_resume_props [of t r "s\<lparr>an_tasks := remove1 t (an_tasks s)\<rparr>"] by (simp add: accounts_left_def)
next
  case E_import
  then show ?thesis using import_props by (simp add: accounts_left_def)
qed (auto simp: accounts_left_def accounts_handler_defs Let_def split: option.split)

end
