(* ===== verification/Desk_Invariant.thy ===== *)
theory Desk_Invariant imports Desk_Facts "HOL-Library.Multiset" begin

text \<open>
  The invariant of the console as a whole: shell, panel and hook fit together, and the calls that are out are exactly
  the tasks the panel waits for, each asking the service, awaiting a task the hook still has, or settled.
\<close>

section \<open>Panel, shell and hook under each step\<close>

lemma whole_cong:
  assumes "dk_shell d' = dk_shell d" and "dk_panel d' = dk_panel d" and "dk_tick d' = dk_tick d"
    and "dk_config_tick d' = dk_config_tick d" and "dk_accounts_tick d' = dk_accounts_tick d" and "dk_extra d' = dk_extra d"
  shows "desk_whole d' = desk_whole d"
  using assms props_cong [of d' d]
  by (simp add: desk_whole_def panel_live_def panel_shown_def flags_right_def split: open_panel.split)

lemma calls_whole [simp]:
  "desk_whole (add_call t g d) = desk_whole d" "desk_whole (set_stage i g d) = desk_whole d"
  "desk_whole (drop_call i d) = desk_whole d"
  by (rule whole_cong; simp add: add_call_def set_stage_def drop_call_def)+

lemma set_console_whole:
  assumes "shell_reachable (dk_shell d)" and "panel_live d" and "console_step (dk_console d) c"
  shows "desk_whole (set_console c d)"
  unfolding set_console_def
  by (rule render_whole [OF shell_stepped [OF assms(1) shell_step.shell_hook [OF assms(3)]] assms(2)])

lemma desk_command_whole: "desk_whole d \<Longrightarrow> desk_whole (desk_command c d)"
  unfolding desk_command_def
  by (rule set_console_whole) (simp_all add: desk_whole_def console_step.command)

lemma run_option_whole: "desk_whole d \<Longrightarrow> desk_whole (run_option c d)"
  by (simp add: run_option_def desk_command_whole split: option.split)

lemma go_on_whole: "desk_whole d \<Longrightarrow> desk_whole (go_on i p d)"
  by (simp add: go_on_def run_option_whole)

lemma make_call_whole: "desk_whole d \<Longrightarrow> desk_whole (make_call t d)"
  by (simp add: make_call_def run_option_whole Let_def)

lemma make_calls_whole: "desk_whole d \<Longrightarrow> desk_whole (fold make_call ts d)"
  by (induction ts arbitrary: d) (simp_all add: make_call_whole)

lemma report_whole:
  assumes "shell_reachable (dk_shell d)" and "panel_live d" and "panel_shown d"
  shows "desk_whole (report_edits d)"
  using assms by (simp add: desk_whole_def report_reachable report_flags)

lemma settings_does_whole:
  assumes "desk_whole d" and "dk_panel d = Open_settings s" and "settings_enabled e s" and "\<forall>p. e \<noteq> V_config p"
  shows "desk_whole (settings_does e s d)"
proof -
  let ?d = "d\<lparr>dk_panel := Open_settings (settings_commit (settings_apply e s))\<rparr>"
  have "settings_reachable s" and shown: "panel_shown d"
    using assms(1,2) by (simp_all add: desk_whole_def panel_live_def)
  then have "panel_live ?d" using assms(3) by (simp add: panel_live_def settings_stepped)
  moreover have "panel_shown ?d"
    using shown settings_apply_props [OF assms(4)] props_cong(1) [of ?d d] by (simp add: panel_shown_def assms(2))
  moreover have "shell_reachable (dk_shell ?d)" using assms(1) by (simp add: desk_whole_def)
  ultimately show ?thesis by (simp add: settings_does_def Let_def make_calls_whole report_whole)
qed

lemma accounts_does_whole:
  assumes "desk_whole d" and "dk_panel d = Open_accounts s" and "accounts_enabled e s" and "\<forall>p. e \<noteq> E_reload p"
  shows "desk_whole (accounts_does e s d)"
proof -
  let ?d = "d\<lparr>dk_panel := Open_accounts (accounts_commit (accounts_apply e s))\<rparr>"
  have "accounts_reachable s" and shown: "panel_shown d"
    using assms(1,2) by (simp_all add: desk_whole_def panel_live_def)
  then have "panel_live ?d" using assms(3) by (simp add: panel_live_def accounts_event)
  moreover have "panel_shown ?d"
    using shown accounts_apply_props [OF assms(4)] props_cong(2) [of ?d d] by (simp add: panel_shown_def assms(2))
  moreover have "shell_reachable (dk_shell ?d)" using assms(1) by (simp add: desk_whole_def)
  ultimately show ?thesis by (simp add: accounts_does_def Let_def make_calls_whole report_whole)
qed

lemma wake_whole: "desk_whole d \<Longrightarrow> desk_whole (wake n b a t r d)"
  by (simp add: wake_def go_on_whole split: option.split call_stage.split)

lemma note_objects_fields [simp]:
  "dk_shell (note_objects x t r d) = dk_shell d" "dk_panel (note_objects x t r d) = dk_panel d"
  "dk_calls (note_objects x t r d) = dk_calls d" "dk_next (note_objects x t r d) = dk_next d"
  "dk_instance (note_objects x t r d) = dk_instance d" "dk_tick (note_objects x t r d) = dk_tick d"
  "panel_live (note_objects x t r d) = panel_live d"
  by (simp_all add: note_objects_def Let_def panel_live_def)

lemma hook_reply_whole:
  assumes "desk_whole d" and "(n, t) \<in> set (uc_tasks (dk_console d))" and "answers t r"
  shows "desk_whole (hook_reply x n t r d)"
  unfolding hook_reply_def Let_def
  by (rule wake_whole, rule set_console_whole) (use assms in \<open>simp_all add: desk_whole_def console_step.reply\<close>)

section \<open>Calls\<close>

definition panel_waits :: "desk \<Rightarrow> panel_task multiset" where
  "panel_waits d = (case dk_panel d of No_panel \<Rightarrow> {#}
     | Open_settings s \<Rightarrow> mset (List.map Settings_task (filter (\<lambda>t. \<not> reads_file t) (st_tasks s)))
     | Open_accounts s \<Rightarrow> mset (List.map Accounts_task (an_tasks s)))"

definition own_calls :: "desk \<Rightarrow> panel_call list" where
  "own_calls d = filter (\<lambda>c. pcl_instance c = dk_instance d) (dk_calls d)"

text \<open>With \<open>M\<close> the tasks whose callbacks are just about to be called.\<close>

definition waits_fit :: "panel_task multiset \<Rightarrow> desk \<Rightarrow> bool" where
  "waits_fit M d \<longleftrightarrow> dk_panel d \<noteq> No_panel \<longrightarrow> panel_waits d = mset (List.map pcl_task (own_calls d)) + M"

text \<open>The follow-up that rereads everything is one run of \<open>refreshAll\<close>; the other reads are single requests.\<close>

definition plain_task :: "task \<Rightarrow> bool" where
  "plain_task t \<longleftrightarrow> t \<in> {T_accounts, T_config_bundle, T_list List_only}"

definition awaited_kind :: "panel_task \<Rightarrow> command list \<Rightarrow> task \<Rightarrow> bool" where
  "awaited_kind p cs t \<longleftrightarrow> (if follow_up p = reread_all then cs = [] \<and> boot_task t else plain_task t)"

text \<open>What the follow-ups are made of: the one that rereads everything is a single command.\<close>

lemma follow_up_cases:
  "follow_up t \<in> {[], [Load_conversations], [Refresh_accounts], reread_all, reread_accounts}"
proof (cases t)
  case (Settings_task u)
  then show ?thesis by (cases u) simp_all
next
  case (Accounts_task u)
  then show ?thesis by (cases u) simp_all
qed

text \<open>What is left of a follow-up.\<close>

definition rest_of :: "panel_task \<Rightarrow> command list \<Rightarrow> bool" where
  "rest_of p cs \<longleftrightarrow> (if follow_up p = reread_all then cs = [] \<or> cs = reread_all
     else list_all (\<lambda>c. c \<in> {Refresh_accounts, Refresh_config_bundle, Load_conversations}) cs)"

lemma rest_of_follow_up: "rest_of p (follow_up p)"
  using follow_up_cases [of p] by (auto simp: rest_of_def reread_accounts_def)

lemma rest_of_commands: "rest_of p cs \<Longrightarrow> list_all (\<lambda>c. follow_task c \<noteq> None) cs"
  by (auto simp: rest_of_def reread_all_def list_all_iff split: if_splits)

lemma rest_of_kind: "rest_of p (c # cs) \<Longrightarrow> follow_task c = Some t \<Longrightarrow> awaited_kind p cs t"
  by (auto simp: rest_of_def awaited_kind_def plain_task_def reread_all_def split: if_splits)

lemma rest_of_tl: "rest_of p (c # cs) \<Longrightarrow> rest_of p cs"
  by (auto simp: rest_of_def reread_all_def split: if_splits)

definition stage_ok :: "console \<Rightarrow> panel_call \<Rightarrow> bool" where
  "stage_ok s c \<longleftrightarrow> (case pcl_stage c of
     Awaiting n cs v \<Rightarrow> rest_of (pcl_task c) cs \<and>
       (\<exists>t. (n, t) \<in> set (uc_tasks s) \<and> awaited_kind (pcl_task c) cs t)
   | _ \<Rightarrow> True)"

definition calls_fit :: "desk \<Rightarrow> bool" where
  "calls_fit d \<longleftrightarrow> distinct (List.map pcl_id (dk_calls d)) \<and>
     (\<forall>c\<in>set (dk_calls d). pcl_id c < dk_next d \<and> pcl_instance c \<le> dk_instance d \<and> stage_ok (dk_console d) c) \<and>
     (\<forall>c\<in>set (dk_calls d). \<forall>c'\<in>set (dk_calls d). \<forall>n. awaits n c \<longrightarrow> awaits n c' \<longrightarrow> c = c')"

definition desk_ok :: "desk \<Rightarrow> bool" where
  "desk_ok d \<longleftrightarrow> desk_whole d \<and> calls_fit d \<and> waits_fit {#} d"

lemma desk_tasks_ok: "desk_whole d \<Longrightarrow> tasks_ok (uc_tasks (dk_console d)) (uc_next (dk_console d))"
  using reachable_shell_ok console_inv_reachable
  by (fastforce simp: desk_whole_def shell_ok_def console_inv_def pre_commit_def base_ok_def)

lemma awaits_iff: "awaits n c \<longleftrightarrow> (\<exists>cs v. pcl_stage c = Awaiting n cs v)"
  by (simp add: awaits_def split: call_stage.split)

lemma awaits_pending: "stage_ok s c \<Longrightarrow> awaits n c \<Longrightarrow> n \<in> fst ` set (uc_tasks s)"
  by (force simp: stage_ok_def awaits_iff)

lemma not_awaiting_next: "stage_ok s c \<Longrightarrow> tasks_ok (uc_tasks s) (uc_next s) \<Longrightarrow> \<not> awaits (uc_next s) c"
  using awaits_pending by (fastforce simp: tasks_ok_def)

lemma stage_ok_grow: "stage_ok s c \<Longrightarrow> set (uc_tasks s) \<subseteq> set (uc_tasks s') \<Longrightarrow> stage_ok s' c"
  by (auto simp: stage_ok_def split: call_stage.splits)

definition same_calls :: "desk \<Rightarrow> desk \<Rightarrow> bool" where
  "same_calls d d' \<longleftrightarrow> dk_calls d' = dk_calls d \<and> dk_next d' = dk_next d \<and> dk_instance d \<le> dk_instance d'"

lemma calls_fit_grow:
  assumes "calls_fit d" and "same_calls d d'" and "set (uc_tasks (dk_console d)) \<subseteq> set (uc_tasks (dk_console d'))"
  shows "calls_fit d'"
  using assms stage_ok_grow [OF _ assms(3)] unfolding calls_fit_def same_calls_def by fastforce

section \<open>Rendering keeps the calls\<close>

lemma show_panel_kept:
  "dk_panel (show_panel d) = No_panel \<and> dk_instance (show_panel d) = dk_instance d \<or>
   dk_panel d \<noteq> No_panel \<and> dk_instance (show_panel d) = dk_instance d \<and> panel_waits (show_panel d) = panel_waits d \<or>
   dk_instance (show_panel d) = Suc (dk_instance d) \<and> panel_waits (show_panel d) = {#}"
  using settings_host.waits_mounted settings_host.waits_reloaded accounts_host.waits_mounted accounts_host.waits_reloaded
  by (simp add: show_panel_def show_settings_def show_accounts_def panel_waits_def split: option.split tab_key.split open_panel.split)

lemma show_panel_stays:
  assumes "panel_shown d0" and "mounted_panel (dk_shell d) = mounted_panel (dk_shell d0)" and "dk_panel d = dk_panel d0"
    and "uc_config (dk_console d) = uc_config (dk_console d0)"
  shows "dk_instance (show_panel d) = dk_instance d \<and> (panel_waits (show_panel d) = panel_waits d) \<and>
    (dk_panel (show_panel d) = No_panel \<longleftrightarrow> dk_panel d = No_panel)"
  using assms mounted_has_config [of "dk_shell d0"]
  by (auto simp: show_panel_def show_settings_def show_accounts_def panel_waits_def panel_shown_def settings_props_of_def
      split: option.split tab_key.split open_panel.splits)

lemma render_fields [simp]:
  "dk_calls (render_shell sh d) = dk_calls d" "dk_next (render_shell sh d) = dk_next d"
  "dk_console (render_shell sh d) = sh_console sh"
  by (simp_all add: render_shell_def)

lemma panel_waits_report [simp]: "panel_waits (report_edits d) = panel_waits d"
  by (simp add: panel_waits_def)

lemma render_same_calls: "same_calls d (render_shell sh d)"
  using show_panel_kept [of "d\<lparr>dk_shell := sh, dk_tick := Suc (dk_tick d)\<rparr>"]
  by (auto simp: same_calls_def render_shell_def)

lemma render_waits:
  assumes "waits_fit {#} d" and "calls_fit d"
  shows "waits_fit {#} (render_shell sh d)"
proof -
  let ?d = "d\<lparr>dk_shell := sh, dk_tick := Suc (dk_tick d)\<rparr>"
  have "\<forall>c\<in>set (dk_calls d). pcl_instance c \<noteq> Suc (dk_instance d)"
    using assms(2) by (fastforce simp: calls_fit_def)
  moreover have "panel_waits ?d = panel_waits d" by (simp add: panel_waits_def)
  ultimately show ?thesis
    using show_panel_kept [of ?d] assms(1) by (auto simp: waits_fit_def own_calls_def render_shell_def)
qed

lemma set_console_fields [simp]:
  "dk_calls (set_console c d) = dk_calls d" "dk_next (set_console c d) = dk_next d" "dk_console (set_console c d) = c"
  by (simp_all add: set_console_def)

lemma command_mounted:
  "uc_verify (run_command c s) = uc_verify s" "uc_config (run_command c s) = uc_config s"
  by (cases c; simp add: console_defs)+

lemma mounted_cong:
  "sh_tab sh' = sh_tab sh \<Longrightarrow> uc_verify (sh_console sh') = uc_verify (sh_console sh) \<Longrightarrow>
   uc_config (sh_console sh') = uc_config (sh_console sh) \<Longrightarrow> mounted_panel sh' = mounted_panel sh"
  by (cases "uc_verify (sh_console sh)")
    (simp_all add: mounted_panel_def boot_screen_def shell_authenticated_def verified_def opt_true_def)

lemma desk_command_stays:
  assumes "desk_whole d"
  shows "same_calls d (desk_command c d)" and "waits_fit M d \<Longrightarrow> waits_fit M (desk_command c d)"
    and "dk_instance (desk_command c d) = dk_instance d"
proof -
  define sh where "sh = shell_commit ((dk_shell d)\<lparr>sh_console := commit (run_command c (dk_console d))\<rparr>)"
  define d' where "d' = d\<lparr>dk_shell := sh, dk_tick := Suc (dk_tick d)\<rparr>"
  have eq: "desk_command c d = report_edits (show_panel d')"
    by (simp add: desk_command_def set_console_def render_shell_def d'_def sh_def)
  have "mounted_panel (dk_shell d') = mounted_panel (dk_shell d)"
    by (rule mounted_cong) (simp_all add: d'_def sh_def command_mounted)
  moreover have "panel_shown d" using assms by (simp add: desk_whole_def)
  moreover have "uc_config (dk_console d') = uc_config (dk_console d)" by (simp add: d'_def sh_def command_mounted)
  ultimately have stays: "dk_instance (show_panel d') = dk_instance d'" "panel_waits (show_panel d') = panel_waits d'"
      "dk_panel (show_panel d') = No_panel \<longleftrightarrow> dk_panel d' = No_panel"
    using show_panel_stays [of d d'] by (simp_all add: d'_def)
  then show "dk_instance (desk_command c d) = dk_instance d" by (simp add: eq d'_def)
  with stays show "same_calls d (desk_command c d)" by (simp add: eq same_calls_def d'_def)
  have "panel_waits d' = panel_waits d" "dk_panel d' = dk_panel d" by (simp_all add: d'_def panel_waits_def)
  then show "waits_fit M d \<Longrightarrow> waits_fit M (desk_command c d)"
    using stays by (simp add: eq waits_fit_def own_calls_def) (simp add: d'_def)
qed

section \<open>One call goes on\<close>

text \<open>All calls but one fit the hook.\<close>

definition fit_but :: "nat \<Rightarrow> console \<Rightarrow> desk \<Rightarrow> bool" where
  "fit_but i s d \<longleftrightarrow> distinct (List.map pcl_id (dk_calls d)) \<and>
     (\<forall>c\<in>set (dk_calls d). pcl_id c < dk_next d \<and> pcl_instance c \<le> dk_instance d \<and> (pcl_id c \<noteq> i \<longrightarrow> stage_ok s c)) \<and>
     (\<forall>c\<in>set (dk_calls d). \<forall>c'\<in>set (dk_calls d). \<forall>n. awaits n c \<longrightarrow> awaits n c' \<longrightarrow> c = c')"

lemma fit_but_fit: "calls_fit d \<Longrightarrow> fit_but i (dk_console d) d"
  by (simp add: calls_fit_def fit_but_def)

lemma set_stage_fields [simp]:
  "dk_next (set_stage i g d) = dk_next d" "dk_instance (set_stage i g d) = dk_instance d" "dk_panel (set_stage i g d) = dk_panel d"
  "dk_shell (set_stage i g d) = dk_shell d" "List.map pcl_id (dk_calls (set_stage i g d)) = List.map pcl_id (dk_calls d)"
  by (auto simp: set_stage_def)

lemma set_stage_waits [simp]: "waits_fit M (set_stage i g d) = waits_fit M d"
proof -
  have "List.map pcl_task (filter P (List.map f cs)) = List.map pcl_task (filter P cs)"
    if "\<And>c. pcl_task (f c) = pcl_task c" and "\<And>c. P (f c) = P c" for P f and cs :: "panel_call list"
    using that by (induction cs) simp_all
  then have "List.map pcl_task (own_calls (set_stage i g d)) = List.map pcl_task (own_calls d)"
    by (simp add: own_calls_def set_stage_def)
  then show ?thesis
    by (simp add: waits_fit_def panel_waits_def split: open_panel.split)
qed

lemma set_stage_fit:
  assumes "fit_but i s d" and "\<And>c. c \<in> set (dk_calls d) \<Longrightarrow> pcl_id c = i \<Longrightarrow> stage_ok s (c\<lparr>pcl_stage := g\<rparr>)"
    and "\<And>n cs v c. g = Awaiting n cs v \<Longrightarrow> c \<in> set (dk_calls d) \<Longrightarrow> pcl_id c \<noteq> i \<Longrightarrow> \<not> awaits n c"
    and "dk_console d = s"
  shows "calls_fit (set_stage i g d)"
proof -
  let ?f = "\<lambda>c. if pcl_id c = i then c\<lparr>pcl_stage := g\<rparr> else c"
  have ids: "pcl_id c = pcl_id c' \<Longrightarrow> c \<in> set (dk_calls d) \<Longrightarrow> c' \<in> set (dk_calls d) \<Longrightarrow> c = c'" for c c'
    using assms(1) by (auto simp: fit_but_def distinct_map dest: inj_onD)
  have uniq: "?f c = ?f c'" if "c \<in> set (dk_calls d)" "c' \<in> set (dk_calls d)" "awaits n (?f c)" "awaits n (?f c')" for c c' n
  proof (cases "pcl_id c = i"; cases "pcl_id c' = i")
    assume "pcl_id c \<noteq> i" "pcl_id c' \<noteq> i"
    then show ?thesis using that assms(1) by (auto simp: fit_but_def)
  qed (use that ids [of c c'] assms(3) in \<open>auto simp: awaits_iff\<close>)
  have stage: "pcl_id (?f c) < dk_next d \<and> pcl_instance (?f c) \<le> dk_instance d \<and> stage_ok s (?f c)"
    if "c \<in> set (dk_calls d)" for c
    using that assms(1,2) by (auto simp: fit_but_def)
  have set_eq: "set (dk_calls (set_stage i g d)) = ?f ` set (dk_calls d)" by (simp add: set_stage_def)
  have "\<forall>c\<in>set (dk_calls (set_stage i g d)). pcl_id c < dk_next d \<and> pcl_instance c \<le> dk_instance d \<and> stage_ok s c"
    unfolding set_eq using stage by blast
  moreover have "\<forall>c\<in>set (dk_calls (set_stage i g d)). \<forall>c'\<in>set (dk_calls (set_stage i g d)). \<forall>n.
      awaits n c \<longrightarrow> awaits n c' \<longrightarrow> c = c'"
    unfolding set_eq using uniq by blast
  ultimately show ?thesis using assms(1,4) by (simp add: calls_fit_def fit_but_def)
qed

lemma stage_ok_settled [simp]: "stage_ok s (c\<lparr>pcl_stage := Settled r\<rparr>)" "stage_ok s (c\<lparr>pcl_stage := Asked\<rparr>)"
  by (simp_all add: stage_ok_def)

lemma settle_fit: "fit_but i (dk_console d) d \<Longrightarrow> calls_fit (set_stage i (Settled r) d)"
  by (rule set_stage_fit) auto

lemma calls_fit_cong:
  "dk_calls d' = dk_calls d \<Longrightarrow> dk_console d' = dk_console d \<Longrightarrow> dk_next d' = dk_next d \<Longrightarrow> dk_instance d' = dk_instance d \<Longrightarrow>
   calls_fit d' = calls_fit d"
  by (simp add: calls_fit_def)

lemma desk_command_fields [simp]:
  "dk_calls (desk_command c d) = dk_calls d" "dk_next (desk_command c d) = dk_next d"
  "dk_console (desk_command c d) = commit (run_command c (dk_console d))"
  by (simp_all add: desk_command_def)

lemma command_grows: "set (uc_tasks s) \<subseteq> set (uc_tasks (run_command c s))"
  using command_spawns [of s c] by (auto simp: quiet_def leaves_def)

lemma desk_command_fit: "desk_whole d \<Longrightarrow> calls_fit d \<Longrightarrow> calls_fit (desk_command c d)"
  by (erule calls_fit_grow [OF _ desk_command_stays(1)]) (simp_all add: command_grows)

lemma go_on_settled: "fit_but i (dk_console d) d \<Longrightarrow> calls_fit (go_on i (Settled r, None) d)"
  by (simp add: go_on_def run_option_def settle_fit)

lemma go_on_command:
  assumes "desk_whole d" and "fit_but i (dk_console d) d" and "follow_task c = Some t"
    and "\<And>pc. pc \<in> set (dk_calls d) \<Longrightarrow> pcl_id pc = i \<Longrightarrow> rest_of (pcl_task pc) cs \<and> awaited_kind (pcl_task pc) cs t"
  shows "calls_fit (go_on i (Awaiting (uc_next (dk_console d)) cs v, Some c) d)"
proof -
  let ?s = "dk_console d" and ?g = "Awaiting (uc_next (dk_console d)) cs v"
  define d1 where "d1 = desk_command c d"
  have whole: "desk_whole (set_stage i ?g d)" using assms(1) by simp
  have inst: "dk_instance d1 = dk_instance d" using desk_command_stays(3) [OF assms(1)] by (simp add: d1_def)
  have left: "leaves ?s t (run_command c ?s)" by (rule follow_leaves [OF assms(3)])
  have grow: "set (uc_tasks ?s) \<subseteq> set (uc_tasks (dk_console d1))"
    using command_grows by (simp add: d1_def)
  have "fit_but i (dk_console d1) d1"
    using assms(2) inst stage_ok_grow [OF _ grow] by (fastforce simp: fit_but_def d1_def)
  moreover have "stage_ok (dk_console d1) (pc\<lparr>pcl_stage := ?g\<rparr>)" if "pc \<in> set (dk_calls d)" "pcl_id pc = i" for pc
    using assms(4) [OF that] left by (auto simp: stage_ok_def d1_def leaves_def)
  moreover have "\<not> awaits (uc_next ?s) pc" if "pc \<in> set (dk_calls d)" "pcl_id pc \<noteq> i" for pc
    using assms(2) that not_awaiting_next [OF _ desk_tasks_ok [OF assms(1)]] by (simp add: fit_but_def)
  ultimately have "calls_fit (set_stage i ?g d1)"
    by (intro set_stage_fit) (auto simp: d1_def)
  moreover have "calls_fit (go_on i (?g, Some c) d) = calls_fit (set_stage i ?g d1)"
    unfolding go_on_def run_option_def
    using inst desk_command_stays(3) [OF whole, of c] by (intro calls_fit_cong) (simp_all add: d1_def set_stage_def)
  ultimately show ?thesis by simp
qed

lemma go_on_continue:
  assumes "desk_whole d" and "fit_but i (dk_console d) d" and c: "c \<in> set (dk_calls d)" "pcl_id c = i"
    and rest: "rest_of (pcl_task c) cs"
  shows "calls_fit (go_on i (continue_call (uc_next (dk_console d)) cs v) d)"
proof (cases cs)
  case Nil
  then show ?thesis using go_on_settled [OF assms(2)] by simp
next
  case (Cons a cs')
  then obtain t where t: "follow_task a = Some t" using rest_of_commands [OF rest] by auto
  have "pc = c" if "pc \<in> set (dk_calls d)" "pcl_id pc = i" for pc
    using assms(2) that c by (auto simp: fit_but_def distinct_map dest: inj_onD)
  then have "rest_of (pcl_task pc) cs' \<and> awaited_kind (pcl_task pc) cs' t" if "pc \<in> set (dk_calls d)" "pcl_id pc = i" for pc
    using that rest rest_of_tl rest_of_kind [OF _ t] by (auto simp: Cons)
  then show ?thesis using go_on_command [OF assms(1,2) t, of cs' v] by (simp add: Cons)
qed

section \<open>Replies of the service and of the hook\<close>

lemma go_on_waits: "desk_whole d \<Longrightarrow> waits_fit M d \<Longrightarrow> waits_fit M (go_on i p d)"
  by (simp add: go_on_def run_option_def desk_command_stays(2) split: option.split)

lemma service_fit:
  assumes "desk_ok d" and "find_call i d = Some c"
  shows "desk_ok (go_on i (service_answered (uc_next (dk_console d)) (pcl_task c) r) d)"
proof -
  have ok: "desk_whole d" "fit_but i (dk_console d) d" "waits_fit {#} d" "calls_fit d"
    using assms(1) by (simp_all add: desk_ok_def fit_but_fit)
  have c: "c \<in> set (dk_calls d)" "pcl_id c = i"
    using assms(2) by (auto simp: find_call_def find_Some_iff)
  have "calls_fit (go_on i (service_answered (uc_next (dk_console d)) (pcl_task c) r) d)"
  proof (cases r)
    case (Inl e)
    then show ?thesis by (simp add: service_answered_def go_on_settled [OF ok(2)])
  next
    case (Inr v)
    then show ?thesis
      using go_on_continue [OF ok(1,2) c rest_of_follow_up] by (simp add: service_answered_def)
  qed
  then show ?thesis using ok by (simp add: desk_ok_def go_on_whole go_on_waits)
qed

lemma finish_keeps: "stage_ok s c \<Longrightarrow> \<not> awaits n c \<Longrightarrow> stage_ok (finish_task n s) c"
  by (fastforce simp: stage_ok_def finish_task_def awaits_iff split: call_stage.splits)

lemma resume_grows: "set (uc_tasks s) \<subseteq> set (uc_tasks (resume t r s))"
  using resume_spawns [of s t r] by (auto simp: quiet_def leaves_def)

lemma awaited_task:
  assumes "desk_ok d" and "(n, t) \<in> set (uc_tasks (dk_console d))" and "c \<in> set (dk_calls d)"
    and "pcl_stage c = Awaiting n cs v"
  shows "rest_of (pcl_task c) cs" and "awaited_kind (pcl_task c) cs t"
proof -
  have "distinct (List.map fst (uc_tasks (dk_console d)))"
    using assms(1) desk_tasks_ok by (auto simp: desk_ok_def tasks_ok_def)
  then have "(n, t') \<in> set (uc_tasks (dk_console d)) \<Longrightarrow> t' = t" for t'
    using assms(2) eq_key_imp_eq_value by metis
  moreover have "stage_ok (dk_console d) c" using assms(1,3) by (simp add: desk_ok_def calls_fit_def)
  ultimately show "rest_of (pcl_task c) cs" and "awaited_kind (pcl_task c) cs t"
    using assms(4) by (auto simp: stage_ok_def)
qed

lemma awaited_boot_settles:
  "(case r of R_failed e \<Rightarrow> if b then continue_call k cs v else (Settled (Inl e), None) | _ \<Rightarrow> continue_call k cs v) \<in>
   {continue_call k cs v} \<union> {(Settled (Inl e), None) | e. True}"
  by (auto split: reply.split)

lemma plain_quiet: "plain_task t \<Longrightarrow> quiet s (resume t r s)"
  by (cases r) (auto simp: plain_task_def quiet_def boot_failed_def set_conversations_def Let_def)

lemma awaited_fit:
  fixes s r t n defines "s' \<equiv> commit (resume t r (finish_task n s))"
  assumes whole: "desk_whole d1" and con: "dk_console d1 = s'" and fit: "fit_but (pcl_id c) s' d1"
    and c: "c \<in> set (dk_calls d1)" and fresh: "\<And>pc. pc \<in> set (dk_calls d1) \<Longrightarrow> \<not> awaits (uc_next s) pc"
    and cs: "rest_of (pcl_task c) cs" "awaited_kind (pcl_task c) cs t"
  shows "calls_fit (go_on (pcl_id c) (awaited_answered (uc_next s) (uc_next s') t r cs v) d1)"
proof -
  have same: "pc = c" if "pc \<in> set (dk_calls d1)" "pcl_id pc = pcl_id c" for pc
    using fit that c by (auto simp: fit_but_def distinct_map dest: inj_onD)
  have eqs: "uc_next (finish_task n s) = uc_next s" by (simp add: finish_task_def)
  have plain_stays: "\<not> (plain_task t \<and> uc_next s < uc_next s')"
    using plain_quiet [of t "finish_task n s" r] by (auto simp: quiet_def s'_def eqs)
  show ?thesis
  proof (cases "uc_next s < uc_next s'")
    case True
    then obtain u where u: "leaves (finish_task n s) u (resume t r (finish_task n s))" "boot_task t \<longrightarrow> boot_task u"
      using resume_spawns [of "finish_task n s" t r] by (auto simp: quiet_def s'_def eqs)
    have "stage_ok s' (pc\<lparr>pcl_stage := Awaiting (uc_next s) cs v\<rparr>)" if "pc \<in> set (dk_calls d1)" "pcl_id pc = pcl_id c" for pc
      using u cs same [OF that] plain_stays by (auto simp: stage_ok_def awaited_kind_def s'_def leaves_def eqs split: if_splits)
    then have "calls_fit (set_stage (pcl_id c) (Awaiting (uc_next s) cs v) d1)"
      using fresh by (intro set_stage_fit [OF fit]) (auto simp: con)
    then show ?thesis using True by (simp add: awaited_answered_def go_on_def run_option_def)
  next
    case False
    then have "calls_fit (go_on (pcl_id c) (continue_call (uc_next s') cs v) d1)"
      using go_on_continue [OF whole _ c refl cs(1)] fit by (simp add: con)
    then show ?thesis
      using False go_on_settled [of "pcl_id c" d1] fit
        awaited_boot_settles [where r = r and b = "boot_task t" and k = "uc_next s'" and cs = cs and v = v]
      by (auto simp: awaited_answered_def con)
  qed
qed

lemma hook_reply_fit:
  assumes "desk_ok d" and task: "(n, t) \<in> set (uc_tasks (dk_console d))" and "answers t r"
  shows "desk_ok (hook_reply x n t r d)"
proof -
  define s where "s = dk_console d"
  define s' where "s' = commit (resume t r (finish_task n s))"
  define d1 where "d1 = set_console s' (note_objects x t r d)"
  have ok: "desk_whole d" "calls_fit d" "waits_fit {#} d" using assms(1) by (simp_all add: desk_ok_def)
  have whole: "desk_whole d1" unfolding d1_def s'_def s_def
    by (rule set_console_whole) (use ok assms in \<open>simp_all add: desk_whole_def console_step.reply\<close>)
  have calls: "dk_calls d1 = dk_calls d" "dk_next d1 = dk_next d" "dk_console d1 = s'" by (simp_all add: d1_def)
  have inst: "dk_instance d \<le> dk_instance d1"
    using render_same_calls [of "note_objects x t r d"] by (simp add: d1_def set_console_def same_calls_def)
  have fit_note: "calls_fit (note_objects x t r d)" using ok(2) calls_fit_cong [of "note_objects x t r d" d] by simp
  have "waits_fit {#} (note_objects x t r d)"
    using ok(3) by (simp add: waits_fit_def own_calls_def panel_waits_def)
  then have waits: "waits_fit {#} d1" unfolding d1_def set_console_def by (rule render_waits [OF _ fit_note])
  have others: "stage_ok s' c" if "c \<in> set (dk_calls d)" "\<not> awaits n c" for c
    using finish_keeps [OF _ that(2), of s] ok(2) that(1) stage_ok_grow resume_grows
    by (fastforce simp: s_def s'_def calls_fit_def)
  have "calls_fit (wake n (uc_next s) (uc_next s') t r d1)"
  proof (cases "List.find (awaits n) (dk_calls d)")
    case None
    then have "\<forall>c\<in>set (dk_calls d). stage_ok s' c" using others by (auto simp: find_None_iff)
    then show ?thesis using None ok(2) inst by (fastforce simp: wake_def calls calls_fit_def)
  next
    case (Some c)
    then have c: "c \<in> set (dk_calls d)" "awaits n c" by (auto simp: find_Some_iff)
    then obtain cs v where stage: "pcl_stage c = Awaiting n cs v" by (auto simp: awaits_iff)
    have "\<not> awaits n pc" if "pc \<in> set (dk_calls d)" "pcl_id pc \<noteq> pcl_id c" for pc
      using that ok(2) c by (auto simp: calls_fit_def)
    then have "fit_but (pcl_id c) s' d1"
      using ok(2) inst others by (fastforce simp: fit_but_def calls_fit_def calls)
    moreover have "\<not> awaits (uc_next s) pc" if "pc \<in> set (dk_calls d)" for pc
      using not_awaiting_next [of s pc] desk_tasks_ok [OF ok(1)] ok(2) that by (simp add: s_def calls_fit_def)
    ultimately have "calls_fit (go_on (pcl_id c) (awaited_answered (uc_next s) (uc_next s') t r cs v) d1)"
      using awaited_fit [OF whole, of t r n s c cs v] c(1) awaited_task [OF assms(1) task c(1) stage]
      by (simp add: calls s'_def)
    then show ?thesis using Some stage by (simp add: wake_def calls)
  qed
  moreover have "desk_whole (hook_reply x n t r d)" by (rule hook_reply_whole [OF ok(1) assms(2,3)])
  moreover have "waits_fit {#} (wake n (uc_next s) (uc_next s') t r d1)"
    using waits whole go_on_waits by (simp add: wake_def split: option.split call_stage.split)
  ultimately show ?thesis
    unfolding desk_ok_def hook_reply_def Let_def s_def [symmetric] s'_def [symmetric] d1_def [symmetric] by simp
qed

section \<open>Panels making calls\<close>

lemma add_call_fields [simp]:
  "dk_shell (add_call t g d) = dk_shell d" "dk_panel (add_call t g d) = dk_panel d" "dk_instance (add_call t g d) = dk_instance d"
  by (simp_all add: add_call_def)

lemma add_asked_fit: "calls_fit d \<Longrightarrow> calls_fit (add_call t Asked d)"
  by (fastforce simp: calls_fit_def add_call_def awaits_iff stage_ok_def)

lemma add_call_waits: "waits_fit (add_mset t M) d \<Longrightarrow> waits_fit M (add_call t g d)"
  by (simp add: waits_fit_def own_calls_def panel_waits_def add_call_def split: open_panel.split)

lemma add_then_stage:
  assumes "calls_fit d"
  shows "set_stage (dk_next d) g (add_call t g' d) = add_call t g d"
proof -
  have "List.map (\<lambda>c. if pcl_id c = dk_next d then c\<lparr>pcl_stage := g\<rparr> else c) (dk_calls d) = dk_calls d"
    using assms by (fastforce simp: calls_fit_def intro: map_idI)
  then show ?thesis by (simp add: set_stage_def add_call_def)
qed

lemma make_call_fit:
  assumes "desk_whole d" and "calls_fit d" and "waits_fit (add_mset t M) d"
  shows "calls_fit (make_call t d) \<and> waits_fit M (make_call t d)"
proof (cases "asks_service t")
  case True
  then show ?thesis using assms by (simp add: make_call_def add_asked_fit add_call_waits)
next
  case False
  then have t: "t = Accounts_task A_refresh" by (simp add: asks_service_def)
  let ?g = "Awaiting (uc_next (dk_console d)) [] JNull" and ?d = "add_call t Asked d"
  have "pcl_task pc = t" if "pc \<in> set (dk_calls ?d)" "pcl_id pc = dk_next d" for pc
    using that assms(2) by (auto simp: add_call_def calls_fit_def)
  then have "calls_fit (go_on (dk_next d) (Awaiting (uc_next (dk_console ?d)) [] JNull, Some Refresh_accounts) ?d)"
    by (intro go_on_command fit_but_fit add_asked_fit) (use assms in \<open>auto simp: t reread_all_def rest_of_def awaited_kind_def plain_task_def\<close>)
  then have "calls_fit (go_on (dk_next d) (?g, Some Refresh_accounts) ?d)" by simp
  moreover have "make_call t d = go_on (dk_next d) (?g, Some Refresh_accounts) ?d"
    using False add_then_stage [OF assms(2)] by (simp add: make_call_def go_on_def t Let_def)
  moreover have "waits_fit M (go_on (dk_next d) (?g, Some Refresh_accounts) ?d)"
    by (rule go_on_waits) (simp_all add: assms(1) add_call_waits [OF assms(3)])
  ultimately show ?thesis by simp
qed

lemma make_calls_fit:
  "desk_whole d \<Longrightarrow> calls_fit d \<Longrightarrow> waits_fit (mset ts) d \<Longrightarrow> desk_ok (fold make_call ts d)"
proof (induction ts arbitrary: d)
  case (Cons t ts)
  then show ?case using make_call_fit [of d t "mset ts"] make_call_whole by simp
qed (simp add: desk_ok_def)

lemma report_calls: "calls_fit (report_edits d) = calls_fit d" "waits_fit M (report_edits d) = waits_fit M d"
  by (simp_all add: calls_fit_def waits_fit_def own_calls_def)

lemma settings_does_fit:
  assumes "desk_whole d" and "dk_panel d = Open_settings s" and "settings_enabled e s" and "\<forall>p. e \<noteq> V_config p"
    and "calls_fit d"
    and "mset (List.map pcl_task (own_calls d)) = mset (List.map Settings_task (filter (\<lambda>t. \<not> reads_file t) (settings_left e (st_tasks s))))"
  shows "desk_ok (settings_does e s d)"
proof -
  obtain ts where ts: "st_tasks (settings_apply e s) = settings_left e (st_tasks s) @ ts"
    using settings_apply_tasks by blast
  let ?d = "report_edits (d\<lparr>dk_panel := Open_settings (settings_commit (settings_apply e s))\<rparr>)"
  have new: "settings_calls (settings_left e (st_tasks s)) (st_tasks (settings_commit (settings_apply e s))) =
      List.map Settings_task (filter (\<lambda>t. \<not> reads_file t) ts)"
    by (simp add: settings_calls_def ts)
  have "desk_whole ?d"
    using settings_does_whole [OF assms(1-4)] assms(1-4) settings_apply_props [OF assms(4)]
      props_cong(1) [of "d\<lparr>dk_panel := Open_settings (settings_commit (settings_apply e s))\<rparr>" d]
    by (intro report_whole) (auto simp: desk_whole_def panel_live_def panel_shown_def settings_stepped)
  moreover have "calls_fit ?d" using assms(5) by (simp add: report_calls calls_fit_def)
  moreover have "waits_fit (mset (List.map Settings_task (filter (\<lambda>t. \<not> reads_file t) ts))) ?d"
    using assms(6) by (simp add: report_calls waits_fit_def panel_waits_def ts) (simp add: own_calls_def)
  ultimately show ?thesis unfolding settings_does_def Let_def new by (rule make_calls_fit)
qed

lemma accounts_does_fit:
  assumes "desk_whole d" and "dk_panel d = Open_accounts s" and "accounts_enabled e s" and "\<forall>p. e \<noteq> E_reload p"
    and "calls_fit d"
    and "mset (List.map pcl_task (own_calls d)) = mset (List.map Accounts_task (accounts_left e (an_tasks s)))"
  shows "desk_ok (accounts_does e s d)"
proof -
  obtain ts where ts: "an_tasks (accounts_apply e s) = accounts_left e (an_tasks s) @ ts"
    using accounts_apply_tasks by blast
  let ?d = "report_edits (d\<lparr>dk_panel := Open_accounts (accounts_commit (accounts_apply e s))\<rparr>)"
  have new: "accounts_calls (accounts_left e (an_tasks s)) (an_tasks (accounts_commit (accounts_apply e s))) =
      List.map Accounts_task ts"
    by (simp add: accounts_calls_def ts)
  have "desk_whole ?d"
    using assms(1-4) accounts_apply_props [OF assms(4)]
      props_cong(2) [of "d\<lparr>dk_panel := Open_accounts (accounts_commit (accounts_apply e s))\<rparr>" d]
    by (intro report_whole) (auto simp: desk_whole_def panel_live_def panel_shown_def accounts_event)
  moreover have "calls_fit ?d" using assms(5) by (simp add: report_calls calls_fit_def)
  moreover have "waits_fit (mset (List.map Accounts_task ts)) ?d"
    using assms(6) by (simp add: report_calls waits_fit_def panel_waits_def ts) (simp add: own_calls_def)
  ultimately show ?thesis unfolding accounts_does_def Let_def new by (rule make_calls_fit)
qed

section \<open>The invariant\<close>

lemma drop_fit: "calls_fit d \<Longrightarrow> calls_fit (drop_call i d)"
  by (fastforce simp: calls_fit_def drop_call_def distinct_map_filter)

lemma drop_fields [simp]:
  "dk_shell (drop_call i d) = dk_shell d" "dk_panel (drop_call i d) = dk_panel d" "dk_instance (drop_call i d) = dk_instance d"
  by (simp_all add: drop_call_def)

lemma drop_one:
  "distinct (List.map pcl_id cs) \<Longrightarrow> c \<in> set cs \<Longrightarrow>
   mset (filter P cs) = mset (filter P (filter (\<lambda>x. pcl_id x \<noteq> pcl_id c) cs)) + (if P c then {#c#} else {#})"
proof (induction cs)
  case (Cons a cs)
  show ?case
  proof (cases "a = c")
    case True
    then have "filter (\<lambda>x. pcl_id x \<noteq> pcl_id c) cs = cs" using Cons.prems by (fastforce simp: image_iff intro!: filter_True)
    then show ?thesis by (simp add: True)
  next
    case False
    then have "pcl_id a \<noteq> pcl_id c" using Cons.prems by auto
    then show ?thesis using Cons False by auto
  qed
qed simp

lemma drop_own:
  assumes "calls_fit d" and "c \<in> set (dk_calls d)"
  shows "mset (own_calls d) = mset (own_calls (drop_call (pcl_id c) d)) + (if pcl_instance c = dk_instance d then {#c#} else {#})"
  using drop_one [of "dk_calls d" c "\<lambda>c. pcl_instance c = dk_instance d"] assms
  by (simp add: own_calls_def drop_call_def calls_fit_def)

lemma filter_remove1_no [simp]: "\<not> P t \<Longrightarrow> filter P (remove1 t xs) = filter P xs"
  by (induction xs) auto

lemma own_tasks:
  assumes "calls_fit d" and "waits_fit {#} d" and "c \<in> set (dk_calls d)" and "pcl_instance c = dk_instance d"
    and "dk_panel d \<noteq> No_panel"
  shows "panel_waits d = mset (List.map pcl_task (own_calls (drop_call (pcl_id c) d))) + {#pcl_task c#}"
proof -
  have "mset (List.map pcl_task (own_calls d)) = image_mset pcl_task (mset (own_calls d))" by simp
  then show ?thesis using assms(2,4,5) unfolding drop_own [OF assms(1,3)] by (simp add: waits_fit_def)
qed

lemma mset_remove1_filter: "\<not> P t \<Longrightarrow> mset (filter (\<lambda>x. \<not> P x) (remove1 t xs)) = mset (filter (\<lambda>x. \<not> P x) xs) - {#t#}"
  by (simp add: filter_remove1)

lemma deliver_fit:
  assumes "desk_ok d" and "c \<in> set (dk_calls d)"
  shows "desk_ok (deliver c r d)"
proof -
  let ?d = "drop_call (pcl_id c) d"
  have ok: "desk_whole d" "calls_fit d" "waits_fit {#} d" using assms(1) by (simp_all add: desk_ok_def)
  have drop: "desk_whole ?d" "calls_fit ?d" using ok by (simp_all add: drop_fit)
  have waits: "panel_waits ?d = panel_waits d" by (simp add: panel_waits_def)
  show ?thesis
  proof (cases "pcl_instance c = dk_instance d \<and> dk_panel d \<noteq> No_panel")
    case False
    then have "waits_fit {#} ?d"
      using ok(3) drop_own [OF ok(2) assms(2)] by (auto simp: waits_fit_def waits)
    moreover have "deliver c r d = ?d" using False by (auto simp: deliver_def Let_def split: panel_task.split)
    ultimately show ?thesis using drop by (simp add: desk_ok_def)
  next
    case True
    then have own: "panel_waits d = mset (List.map pcl_task (own_calls ?d)) + {#pcl_task c#}"
      using own_tasks [OF ok(2,3) assms(2)] by simp
    show ?thesis
    proof (cases "dk_panel d")
      case (Open_settings s)
      then have "pcl_task c \<in># panel_waits d" using own by simp
      then obtain t where t: "pcl_task c = Settings_task t" "t \<in> set (st_tasks s)" "\<not> reads_file t"
        by (auto simp: panel_waits_def Open_settings)
      have "mset (List.map pcl_task (own_calls ?d)) = panel_waits d - {#Settings_task t#}" using own t by simp
      also have "\<dots> = mset (List.map Settings_task (filter (\<lambda>t. \<not> reads_file t) (remove1 t (st_tasks s))))"
        using t by (simp add: panel_waits_def Open_settings mset_remove1_filter image_mset_Diff)
      finally have "desk_ok (settings_does (V_reply t (settings_answer r)) s ?d)"
        using drop t Open_settings by (intro settings_does_fit) (simp_all add: settings_left_def)
      then show ?thesis using True t Open_settings by (simp add: deliver_def)
    next
      case (Open_accounts s)
      then have "pcl_task c \<in># panel_waits d" using own by simp
      then obtain t where t: "pcl_task c = Accounts_task t" "t \<in> set (an_tasks s)"
        by (auto simp: panel_waits_def Open_accounts)
      have "mset (List.map pcl_task (own_calls ?d)) = panel_waits d - {#Accounts_task t#}" using own t by simp
      also have "\<dots> = mset (List.map Accounts_task (remove1 t (an_tasks s)))"
        using t by (simp add: panel_waits_def Open_accounts image_mset_Diff)
      finally have "desk_ok (accounts_does (E_reply t (accounts_answer r)) s ?d)"
        using drop t Open_accounts by (intro accounts_does_fit) (simp_all add: accounts_left_def)
      then show ?thesis using True t Open_accounts by (simp add: deliver_def)
    qed (use True in simp)
  qed
qed

lemma render_ok: "desk_ok d \<Longrightarrow> shell_reachable sh \<Longrightarrow> set (uc_tasks (dk_console d)) \<subseteq> set (uc_tasks (sh_console sh)) \<Longrightarrow>
   desk_ok (render_shell sh d)"
  using calls_fit_grow [OF _ render_same_calls, of d sh] render_waits [of d sh] render_whole [of sh d]
  by (simp add: desk_ok_def desk_whole_def)

lemma shell_grows: "set (uc_tasks (sh_console sh)) \<subseteq> set (uc_tasks (sh_console (shell_apply e sh)))"
  using console_apply [of e sh] command_grows by fastforce

lemma settings_own_left: "settings_own e \<Longrightarrow> filter (\<lambda>t. \<not> reads_file t) (settings_left e ts) = filter (\<lambda>t. \<not> reads_file t) ts"
  by (cases e) (simp_all add: settings_left_def)

lemma accounts_own_left: "accounts_own e \<Longrightarrow> accounts_left e ts = ts"
  by (cases e) (simp_all add: accounts_left_def)

lemma step_desk_ok:
  assumes "desk_step d e d'" and "desk_ok d"
  shows "desk_ok d'"
proof -
  have d': "d' = desk_apply e d" and en: "desk_enabled e d" using assms(1) by (auto elim: desk_step_cases)
  have ok: "desk_whole d" "calls_fit d" "waits_fit {#} d" using assms(2) by (simp_all add: desk_ok_def)
  then have sh: "shell_reachable (dk_shell d)" by (simp add: desk_whole_def)
  show ?thesis
  proof (cases e)
    case (D_shell v)
    then have "shell_reachable (shell_commit (shell_apply v (dk_shell d)))"
      using en shell_stepped [OF sh shell_step.shell_event] by simp
    then show ?thesis using D_shell render_ok [OF assms(2)] shell_grows by (simp add: d')
  next
    case (D_command c)
    then show ?thesis using ok desk_command_whole desk_command_fit desk_command_stays(2) by (simp add: d' desk_ok_def)
  next
    case (D_reply n t r x)
    then show ?thesis using en hook_reply_fit [OF assms(2)] by (simp add: d')
  next
    case (D_stream v)
    then have "console_step (dk_console d) (commit (stream_step v (dk_console d)))"
      using en by (auto intro: console_step.stream)
    then have "shell_reachable (shell_commit ((dk_shell d)\<lparr>sh_console := commit (stream_step v (dk_console d))\<rparr>))"
      by (rule shell_stepped [OF sh shell_step.shell_hook])
    then show ?thesis
      using D_stream render_ok [OF assms(2)] stream_quiet [of "dk_console d" v] by (simp add: d' set_console_def quiet_def)
  next
    case (D_settings v)
    then obtain s where "dk_panel d = Open_settings s" "settings_enabled v s" "settings_own v"
      using en by (auto split: open_panel.splits)
    moreover from this have "\<forall>p. v \<noteq> V_config p" by auto
    ultimately show ?thesis
      using ok D_settings settings_does_fit [OF ok(1), of s v]
      by (simp add: d' settings_own_left waits_fit_def panel_waits_def)
  next
    case (D_accounts v)
    then obtain s where "dk_panel d = Open_accounts s" "accounts_enabled v s" "accounts_own v"
      using en by (auto split: open_panel.splits)
    moreover from this have "\<forall>p. v \<noteq> E_reload p" by auto
    ultimately show ?thesis
      using ok D_accounts accounts_does_fit [OF ok(1), of s v]
      by (simp add: d' accounts_own_left waits_fit_def panel_waits_def)
  next
    case (D_service i r)
    then show ?thesis using en service_fit [OF assms(2)] by (auto simp: d' split: option.splits)
  next
    case (D_deliver i)
    then obtain c where c: "find_call i d = Some c" using en by (auto split: option.splits)
    then have "c \<in> set (dk_calls d)" by (auto simp: find_call_def find_Some_iff)
    then show ?thesis
      using D_deliver c deliver_fit [OF assms(2), of c] assms(2) by (simp add: d' split: call_stage.split)
  qed
qed

end
