(* ===== verification/Desk_Drafts.thy ===== *)
theory Desk_Drafts imports Desk_Invariant begin

text \<open>
  The invariant of the console as a whole over all its reachable states, and what becomes of unsaved edits when something
  happens outside the panel that holds them.
\<close>

section \<open>Reachable states\<close>

lemma initial_desk_ok:
  assumes "position < length entries"
  shows "desk_ok (initial_desk entries position theme)"
proof -
  let ?sh = "mounted_shell entries position theme"
  have sh: "shell_reachable ?sh" by (rule shell_mounted [OF assms])
  have "uc_verify (sh_console ?sh) = None"
    by (simp add: mounted_shell_def initial_shell_def mounted_console_def initial_console_def refreshAll_def spawn_def)
  then have closed: "mounted_panel ?sh = None"
    by (simp add: mounted_panel_def shell_authenticated_def verified_def opt_true_def)
  then have "\<not> sh_settings_dirty ?sh \<and> \<not> sh_accounts_dirty ?sh" using shell_reachable_ok [OF sh] by simp
  then show ?thesis using sh closed
    by (simp add: desk_ok_def desk_whole_def panel_live_def panel_shown_def flags_right_def initial_desk_def calls_fit_def waits_fit_def)
qed

lemma reachable_desk_ok: "desk_reachable d \<Longrightarrow> desk_ok d"
  by (induction rule: desk_reachable.induct) (simp_all add: initial_desk_ok step_desk_ok)

text \<open>
  C9. In every state of the console, whatever the user does and however replies arrive, the panel that holds drafts is the one the
  shell has mounted; it has exactly the configuration, models and accounts the hook holds; the flag the guard
  of unsaved edits reads says whether the panel on screen has drafts; and the panel waits for exactly the calls that
  are out for it, each of which asks the service, awaits a request the hook still has pending, or is settled.
\<close>

theorem desk_reachable_ok:
  assumes "desk_reachable d"
  shows "(case dk_panel d of
      No_panel \<Rightarrow> mounted_panel (dk_shell d) \<noteq> Some Settings \<and> mounted_panel (dk_shell d) \<noteq> Some Accounts \<and> \<not> unsaved_edits (dk_shell d)
    | Open_settings s \<Rightarrow> mounted_panel (dk_shell d) = Some Settings \<and> settings_reachable s \<and>
        settings_props_of d = Some (st_props s) \<and> (unsaved_edits (dk_shell d) \<longleftrightarrow> settings_dirty s)
    | Open_accounts s \<Rightarrow> mounted_panel (dk_shell d) = Some Accounts \<and> accounts_reachable s \<and>
        accounts_props_of d = an_props s \<and> (unsaved_edits (dk_shell d) \<longleftrightarrow> accounts_dirty s)) \<and>
    (dk_panel d \<noteq> No_panel \<longrightarrow> panel_waits d = mset (List.map pcl_task (own_calls d))) \<and>
    list_all (\<lambda>c. case pcl_stage c of Awaiting n cs v \<Rightarrow> n \<in> fst ` set (uc_tasks (dk_console d)) | _ \<Rightarrow> True) (dk_calls d)"
proof -
  have ok: "panel_live d" "panel_shown d" "flags_right d" "calls_fit d" "waits_fit {#} d"
    using reachable_desk_ok [OF assms] by (simp_all add: desk_ok_def desk_whole_def)
  have "n \<in> fst ` set (uc_tasks (dk_console d))" if "c \<in> set (dk_calls d)" "pcl_stage c = Awaiting n cs v" for c n cs v
    using ok(4) that awaits_pending [of "dk_console d" c n] by (simp add: calls_fit_def awaits_iff)
  then have "list_all (\<lambda>c. case pcl_stage c of Awaiting n cs v \<Rightarrow> n \<in> fst ` set (uc_tasks (dk_console d)) | _ \<Rightarrow> True) (dk_calls d)"
    by (auto simp: list_all_iff split: call_stage.split)
  then show ?thesis
    using ok by (cases "dk_panel d")
      (simp_all add: panel_live_def panel_shown_def flags_right_def waits_fit_def unsaved_edits_def)
qed

section \<open>Drafts\<close>

text \<open>What a panel holds that the server does not know: the form with what it is compared with, or the changed entries.\<close>

definition keeps_drafts :: "open_panel \<Rightarrow> open_panel \<Rightarrow> bool" where
  "keeps_drafts p p' \<longleftrightarrow> (case (p, p') of
     (Open_settings s, Open_settings s') \<Rightarrow> form_kept s s'
   | (Open_accounts s, Open_accounts s') \<Rightarrow> entries_kept s s'
   | _ \<Rightarrow> False)"

lemma kept_refl [simp]: "form_kept s s" "entries_kept u u"
  by (simp_all add: form_kept_def entries_kept_def)

lemma keeps_drafts_refl: "p \<noteq> No_panel \<Longrightarrow> keeps_drafts p p"
  by (cases p) (simp_all add: keeps_drafts_def)

text \<open>What does not touch the drafts at all.\<close>

definition same_drafts :: "open_panel \<Rightarrow> open_panel \<Rightarrow> bool" where
  "same_drafts p p' \<longleftrightarrow> (case (p, p') of
     (Open_settings s, Open_settings s') \<Rightarrow> form_kept s s'
   | (Open_accounts s, Open_accounts s') \<Rightarrow> an_edits s' = an_edits s \<and> an_base s' = an_base s \<and>
       an_disabled s' = an_disabled s \<and> an_disabled_base s' = an_disabled_base s
   | _ \<Rightarrow> False)"

lemma keeps_then_same: "keeps_drafts p p' \<Longrightarrow> same_drafts p' p'' \<Longrightarrow> keeps_drafts p p''"
  by (auto simp: keeps_drafts_def same_drafts_def form_kept_def entries_kept_def dirty_iff split: open_panel.splits)

lemma accounts_seen: "accounts_reachable s \<Longrightarrow> an_dep_items s = Some (aq_version (an_props s))"
  by (cases rule: accounts_reachable.cases) (use commit_done in \<open>auto simp: reads_done_def\<close>)

lemma accounts_same_drafts:
  assumes "accounts_reachable s" and "aq_version p = aq_version (an_props s)"
  shows "same_drafts (Open_accounts s) (Open_accounts (accounts_commit (accounts_apply (E_reload p) s)))"
  using accounts_seen [OF assms(1)] assms(2) by (simp add: same_drafts_def commit_edits run_items_def)

text \<open>A render that leaves the panel mounted.\<close>

lemma render_panel:
  assumes "panel_shown d0" and "dk_panel d = dk_panel d0" and "dk_panel d \<noteq> No_panel"
    and "mounted_panel sh = mounted_panel (dk_shell d0)"
  shows "dk_instance (render_shell sh d) = dk_instance d \<and>
    (case (dk_panel d, dk_panel (render_shell sh d)) of
       (Open_settings s, Open_settings s') \<Rightarrow> \<exists>p. s' = settings_commit (settings_apply (V_config p) s)
     | (Open_accounts s, Open_accounts s') \<Rightarrow> \<exists>p. s' = accounts_commit (accounts_apply (E_reload p) s) \<and> aq_version p = dk_accounts_tick d
     | _ \<Rightarrow> False)"
proof (cases "dk_panel d")
  case (Open_settings s)
  then have panel: "mounted_panel sh = Some Settings" using assms(1,2,4) by (simp add: panel_shown_def)
  then show ?thesis using mounted_has_config [OF panel] Open_settings
    by (auto simp: render_shell_def show_panel_def show_settings_def settings_props_of_def)
next
  case (Open_accounts s)
  then have "mounted_panel sh = Some Accounts" using assms(1,2,4) by (simp add: panel_shown_def)
  then show ?thesis using Open_accounts
    by (auto simp: render_shell_def show_panel_def show_accounts_def accounts_props_of_def Let_def)
qed (use assms(3) in simp)

lemma render_keeps:
  assumes "desk_whole d0" and "dk_panel d = dk_panel d0" and "dk_panel d \<noteq> No_panel"
    and "mounted_panel sh = mounted_panel (dk_shell d0)"
  shows "dk_instance (render_shell sh d) = dk_instance d \<and> keeps_drafts (dk_panel d) (dk_panel (render_shell sh d))"
  using render_panel [OF _ assms(2-4)] assms(1,2) settings_host.kept_reloaded accounts_host.kept_reloaded
  by (fastforce simp: desk_whole_def panel_live_def keeps_drafts_def split: open_panel.splits)

lemma render_same:
  assumes "desk_whole d" and "dk_panel d \<noteq> No_panel" and "mounted_panel sh = mounted_panel (dk_shell d)"
  shows "same_drafts (dk_panel d) (dk_panel (render_shell sh d))"
proof -
  have ok: "panel_shown d" "panel_live d" using assms(1) by (simp_all add: desk_whole_def)
  note panel = render_panel [OF ok(1) refl assms(2,3)]
  show ?thesis
  proof (cases "dk_panel d")
    case (Open_settings s)
    then obtain p where "dk_panel (render_shell sh d) = Open_settings (settings_commit (settings_apply (V_config p) s))"
      using panel by (auto split: open_panel.splits)
    then show ?thesis using settings_host.kept_reloaded [of s p] ok(2) Open_settings
      by (simp add: same_drafts_def panel_live_def)
  next
    case (Open_accounts s)
    then obtain p where p: "dk_panel (render_shell sh d) = Open_accounts (accounts_commit (accounts_apply (E_reload p) s))"
        "aq_version p = dk_accounts_tick d"
      using panel by (auto split: open_panel.splits)
    moreover have "an_props s = accounts_props_of d" "accounts_reachable s"
      using ok Open_accounts by (simp_all add: panel_shown_def panel_live_def)
    ultimately show ?thesis
      using accounts_same_drafts [of s p] Open_accounts by (simp add: accounts_props_of_def Let_def del: accounts_apply.simps)
  qed (use assms(2) in simp)
qed

lemma same_drafts_refl: "p \<noteq> No_panel \<Longrightarrow> same_drafts p p"
  by (cases p) (simp_all add: same_drafts_def)

lemma command_keeps_mounted [simp]:
  "mounted_panel (sh\<lparr>sh_console := commit (run_command c (sh_console sh))\<rparr>) = mounted_panel sh"
  by (rule mounted_cong) (simp_all add: command_mounted)

lemma go_on_same: "desk_whole d \<Longrightarrow> dk_panel d \<noteq> No_panel \<Longrightarrow>
  same_drafts (dk_panel d) (dk_panel (go_on i p d)) \<and> dk_instance (go_on i p d) = dk_instance d"
  using render_same [of "set_stage i (fst p) d"] desk_command_stays(3) [of "set_stage i (fst p) d"]
  by (auto simp: go_on_def run_option_def desk_command_def set_console_def same_drafts_refl command_keeps_mounted split: option.split)

text \<open>Everything but what the panel does itself, its replies, and a departure the operator has agreed to.\<close>

fun agreed :: "shell_event \<Rightarrow> bool" where
  "agreed (Tab_clicked a t) = a"
| "agreed (Went_to a n) = a"
| "agreed (Continue a i) = a"
| "agreed (Logout_clicked a) = a"
| "agreed _ = False"

fun outside :: "desk_event \<Rightarrow> bool" where
  "outside (D_shell v) = (\<not> agreed v)"
| "outside (D_settings v) = False"
| "outside (D_accounts v) = False"
| "outside (D_deliver i) = False"
| "outside _ = True"

lemma shell_tab_kept:
  assumes "unsaved_edits sh" and "tabs_agree sh" and "\<not> agreed v"
  shows "sh_tab (shell_apply v sh) = sh_tab sh"
proof (cases "refused v")
  case True
  then show ?thesis using refused_apply [OF assms(1,2)] by simp
next
  case False
  then show ?thesis using assms(3)
    by (cases v) (auto simp: refused_def on_console_def logout_failed_def login_submit_def login_done_def login_failed_def Let_def)
qed

lemma shell_keeps_mounted:
  assumes "sh_tab (shell_apply v sh) = sh_tab sh"
  shows "mounted_panel (shell_apply v sh) = mounted_panel sh"
  using console_apply [of v sh] assms by (intro mounted_cong) (auto simp: command_mounted)

lemma stream_keeps:
  "uc_verify (stream_step v c) = uc_verify c" "uc_config (stream_step v c) = uc_config c"
  by (cases "(v, c)" rule: stream_step.cases; simp add: console_defs split: option.split)+

lemma drafted_panel:
  assumes "desk_ok d" and "unsaved_edits (dk_shell d)"
  shows "dk_panel d \<noteq> No_panel" and "mounted_panel (dk_shell d) = Some (sh_tab (dk_shell d))"
  using assms by (auto simp: desk_ok_def desk_whole_def flags_right_def unsaved_edits_def panel_shown_def mounted_panel_def
      split: open_panel.splits if_splits)

lemma still_mounted:
  assumes "mounted_panel sh = Some (sh_tab sh)" and "sh_tab sh' = sh_tab sh" and "shell_authenticated sh'"
    and "uc_config (sh_console sh') \<noteq> None"
  shows "mounted_panel sh' = mounted_panel sh"
  using assms by (cases "uc_verify (sh_console sh')")
    (auto simp: mounted_panel_def boot_screen_def shell_authenticated_def verified_def opt_true_def split: if_splits)

lemma wake_same: "desk_whole d \<Longrightarrow> dk_panel d \<noteq> No_panel \<Longrightarrow>
  same_drafts (dk_panel d) (dk_panel (wake n b a t r d)) \<and> dk_instance (wake n b a t r d) = dk_instance d"
  using go_on_same [of d] by (auto simp: wake_def same_drafts_refl split: option.split call_stage.split)

lemma go_on_frame [simp]:
  "sh_tab (dk_shell (render_shell sh d)) = sh_tab sh" "uc_verify (dk_console (go_on i p d)) = uc_verify (dk_console d)"
  "uc_config (dk_console (go_on i p d)) = uc_config (dk_console d)"
  by (simp_all add: render_shell_def go_on_def run_option_def command_mounted split: option.split)

lemma wake_frame [simp]:
  "uc_verify (dk_console (wake n b a t r d)) = uc_verify (dk_console d)"
  "uc_config (dk_console (wake n b a t r d)) = uc_config (dk_console d)"
  by (simp_all add: wake_def split: option.split call_stage.split)

lemma reply_keeps_drafts:
  fixes x :: extra
  assumes "desk_ok d" and "unsaved_edits (dk_shell d)" and "(n, t) \<in> set (uc_tasks (dk_console d))" and "answers t r"
  defines "d' \<equiv> hook_reply x n t r d"
  assumes "shell_authenticated (dk_shell d')" and "uc_config (dk_console d') \<noteq> None"
  shows "keeps_drafts (dk_panel d) (dk_panel d') \<and> dk_instance d' = dk_instance d"
proof -
  define c where "c = commit (resume t r (finish_task n (dk_console d)))"
  define sh where "sh = shell_commit ((dk_shell d)\<lparr>sh_console := c\<rparr>)"
  define d1 where "d1 = set_console c (note_objects x t r d)"
  have d': "d' = wake n (uc_next (dk_console d)) (uc_next c) t r d1"
    by (simp add: d'_def hook_reply_def c_def d1_def Let_def)
  have whole: "desk_whole d" using assms(1) by (simp add: desk_ok_def)
  have d1: "d1 = render_shell sh (note_objects x t r d)" by (simp add: d1_def set_console_def sh_def)
  have "desk_whole d1" unfolding d1_def c_def
    by (rule set_console_whole) (use whole assms(3,4) in \<open>simp_all add: desk_whole_def console_step.reply\<close>)
  moreover have "mounted_panel sh = mounted_panel (dk_shell d)"
    using drafted_panel(2) [OF assms(1,2)] assms(6,7)
    by (intro still_mounted) (simp_all add: d' d1 sh_def shell_authenticated_def verified_def)
  then have kept: "dk_instance d1 = dk_instance d \<and> keeps_drafts (dk_panel d) (dk_panel d1)"
    using render_keeps [OF whole, of "note_objects x t r d" sh] drafted_panel(1) [OF assms(1,2)] by (simp add: d1)
  then have "dk_panel d1 \<noteq> No_panel" by (auto simp: keeps_drafts_def split: open_panel.splits)
  ultimately show ?thesis using wake_same [of d1] kept keeps_then_same by (auto simp: d')
qed

text \<open>
  C10. Unsaved edits survive everything but their panel and the operator. A refused departure, any command
  and reply of the hook, the event stream and the service's answers leave the panel with the unsaved edits on screen
  and keep every one of them: the whole form of the settings, and of the accounts every changed entry whose workspace
  is still listed. They go only with the session: when a reply says that the operator is no longer signed in.
\<close>

theorem drafts_survive:
  assumes "desk_reachable d" and "unsaved_edits (dk_shell d)" and "desk_step d e d'" and "outside e"
  shows "keeps_drafts (dk_panel d) (dk_panel d') \<and> dk_instance d' = dk_instance d \<or>
    (\<exists>n t r x. e = D_reply n t r x \<and> (\<not> shell_authenticated (dk_shell d') \<or> uc_config (dk_console d') = None))"
proof -
  have ok: "desk_ok d" by (rule reachable_desk_ok) fact
  then have whole: "desk_whole d" by (simp add: desk_ok_def)
  have sh: "shell_reachable (dk_shell d)" using whole by (simp add: desk_whole_def)
  have panel: "dk_panel d \<noteq> No_panel" using drafted_panel(1) [OF ok assms(2)] .
  have d': "d' = desk_apply e d" and en: "desk_enabled e d" using assms(3) by (auto elim: desk_step_cases)
  show ?thesis
  proof (cases e)
    case (D_shell v)
    have "tabs_agree (dk_shell d)" using reachable_shell_ok [OF sh] by (simp add: shell_ok_def)
    then have "mounted_panel (shell_commit (shell_apply v (dk_shell d))) = mounted_panel (dk_shell d)"
      using shell_keeps_mounted [OF shell_tab_kept [OF assms(2)]] assms(4) D_shell by simp
    then show ?thesis using render_keeps [OF whole refl panel] D_shell by (simp add: d')
  next
    case (D_command c)
    then show ?thesis
      using render_keeps [OF whole refl panel] by (simp add: d' desk_command_def set_console_def)
  next
    case (D_stream v)
    have "mounted_panel (shell_commit ((dk_shell d)\<lparr>sh_console := commit (stream_step v (dk_console d))\<rparr>)) = mounted_panel (dk_shell d)"
      by (rule mounted_cong) (simp_all add: stream_keeps)
    then show ?thesis using render_keeps [OF whole refl panel] D_stream by (simp add: d' set_console_def)
  next
    case (D_reply n t r x)
    then show ?thesis using reply_keeps_drafts [OF ok assms(2), of n t r x] en by (auto simp: d')
  next
    case (D_service i r)
    then show ?thesis
      using go_on_same [OF whole panel] keeps_then_same [OF keeps_drafts_refl [OF panel]] en
      by (auto simp: d' split: option.splits)
  qed (use assms(4) in simp_all)
qed

section \<open>A signed-in console with the settings open\<close>

definition demo_payload :: admin_config_payload where
  "demo_payload = \<lparr>acp_success = True, acp_config = app_config.truncate sample_config, acp_secrets = None, acp_session = None,
     acp_session_refresh_runtime = None, acp_models = Some []\<rparr>"

definition demo_version :: version_payload where
  "demo_version = \<lparr>vp_success = None, vp_version = None, vp_name = None, vp_default_model = None, vp_model_count = None,
     vp_user_email = None, vp_space_id = None, vp_features = None, vp_responses = None, vp_storage = None\<rparr>"

definition demo_health :: health_payload where
  "demo_health = \<lparr>hp_ok = None, hp_session_ready = None, hp_version = None, hp_model = None, hp_user_email = None, hp_space_id = None\<rparr>"

definition demo_accounts :: accounts_payload where
  "demo_accounts = \<lparr>ap_items = Some [], ap_active_account = None, ap_active_workspace_id = None, ap_session_ready = None,
     ap_session = None, ap_login_helper = None, ap_session_refresh = None, ap_session_refresh_runtime = None\<rparr>"

definition demo_extra :: extra where "demo_extra = (xc_accounts sample_config, xc_rest sample_config)"

definition demo_bundle :: reply where
  "demo_bundle = R_bundle demo_payload demo_version demo_health demo_accounts"

definition desk_0 :: desk where "desk_0 = initial_desk [Some (tab_name Settings)] 0 None"
definition desk_1 :: desk where "desk_1 = desk_apply (D_reply 0 T_verify (R_verify demo_verify) demo_extra) desk_0"
definition desk_2 :: desk where "desk_2 = desk_apply (D_reply 1 T_bundle demo_bundle demo_extra) desk_1"
definition desk_3 :: desk where "desk_3 = desk_apply (D_settings (V_edit sample_edit)) desk_2"

text \<open>A reply of the hook while no call is out.\<close>

lemma reply_no_calls:
  "dk_calls d = [] \<Longrightarrow> desk_apply (D_reply n t r x) d =
     set_console (commit (resume t r (finish_task n (dk_console d)))) (note_objects x t r d)"
  by (simp add: hook_reply_def wake_def Let_def)

lemma desk_0_fields:
  "sh_tab (dk_shell desk_0) = Settings" "dk_console desk_0 = mounted_console" "dk_calls desk_0 = []" "dk_tick desk_0 = 0"
  "dk_panel desk_0 = No_panel" "dk_instance desk_0 = 0" "dk_next desk_0 = 0"
  using tab_of_name [of Settings]
  by (simp_all add: desk_0_def initial_desk_def mounted_shell_def sync_tab_def initial_shell_def canLeave_def unsaved_edits_def
      Let_def del: tab_name.simps)

lemma desk_0_reachable: "desk_reachable desk_0"
  unfolding desk_0_def by (rule desk_opened) simp

lemma demo_console_fields:
  "uc_verify demo_console = Some demo_verify" "uc_tasks demo_console = [(1, T_bundle)]" "uc_next demo_console = 2"
  "uc_config demo_console = None"
  by (simp_all add: demo_console_def after_verify_def Let_def signed_out_def demo_verify_def mounted_console_def
      refreshAll_def spawn_def initial_console_def finish_task_def)

lemma desk_1_fields:
  "dk_console desk_1 = demo_console" "sh_tab (dk_shell desk_1) = Settings" "dk_calls desk_1 = []"
  "dk_next desk_1 = 0"
  unfolding desk_1_def reply_no_calls [OF desk_0_fields(3)]
  by (simp_all add: desk_0_fields demo_console_def set_console_def render_shell_def)

lemma desk_1_reachable: "desk_reachable desk_1"
proof -
  have "desk_enabled (D_reply 0 T_verify (R_verify demo_verify) demo_extra) desk_0"
    by (simp add: desk_0_fields answers_def mounted_console_def refreshAll_def spawn_def initial_console_def)
  then show ?thesis unfolding desk_1_def by (rule desk_stepped [OF desk_0_reachable desk_event])
qed

definition demo_console_2 :: console where
  "demo_console_2 = commit (after_bundle demo_payload demo_version demo_health demo_accounts (finish_task 1 demo_console))"

lemma demo_console_2_fields:
  "uc_verify demo_console_2 = Some demo_verify" "uc_tasks demo_console_2 = [(2, T_list List_boot)]" "uc_next demo_console_2 = 3"
  "uc_config demo_console_2 = Some demo_payload"
  by (simp_all add: demo_console_2_def after_bundle_def loadConversations_def spawn_def finish_task_def demo_console_fields)

definition demo_props :: settings_props where
  "demo_props = \<lparr>sp_config = sample_config, sp_version = 2, sp_models = [], sp_models_version = 2\<rparr>"

lemma mounted_any:
  "st_form (settings_commit (initial_settings p)) = buildFormState (sp_config p)"
  "st_baseline (settings_commit (initial_settings p)) = buildFormState (sp_config p)"
  "st_synced (settings_commit (initial_settings p)) = sp_version p"
  using quiet_commit [of "initial_settings p"] by (simp_all add: initial_settings_def dirty_iff config_version_def)

lemma demo_console_eq: "commit (after_verify demo_verify (finish_task 0 mounted_console)) = demo_console"
  by (simp add: demo_console_def)

lemma desk_1_panel: "dk_tick desk_1 = 1" "dk_panel desk_1 = No_panel" "dk_instance desk_1 = 0"
  unfolding desk_1_def reply_no_calls [OF desk_0_fields(3)]
  by (simp_all add: desk_0_fields set_console_def render_shell_def show_panel_def mounted_panel_def demo_console_eq demo_console_fields)

lemma demo_full_config: "full_config (acp_config demo_payload) demo_extra = sample_config"
  by (simp add: full_config_def demo_payload_def demo_extra_def sample_config_def app_config.defs server_config.defs)

lemma desk_2_eq: "desk_2 = set_console demo_console_2 (note_objects demo_extra T_bundle demo_bundle desk_1)"
  unfolding desk_2_def reply_no_calls [OF desk_1_fields(3)]
  by (simp add: desk_1_fields demo_bundle_def demo_console_2_def)

definition demo_rendered :: desk where
  "demo_rendered = (note_objects demo_extra T_bundle demo_bundle desk_1)\<lparr>dk_shell := shell_commit ((dk_shell desk_1)\<lparr>sh_console := demo_console_2\<rparr>),
     dk_tick := 2\<rparr>"

lemma demo_rendered_fields:
  "mounted_panel (dk_shell demo_rendered) = Some Settings" "settings_props_of demo_rendered = Some demo_props"
  "dk_panel demo_rendered = No_panel" "dk_calls demo_rendered = []" "dk_instance demo_rendered = 0" "dk_console demo_rendered = demo_console_2"
  "dk_next demo_rendered = 0"
  by (simp_all add: demo_rendered_def desk_1_fields desk_1_panel mounted_panel_def boot_screen_def shell_authenticated_def verified_def
      demo_console_2_fields demo_verify_def opt_true_def)
    (simp add: settings_props_of_def demo_console_2_fields models_tick_def shell_models_def note_objects_def demo_bundle_def desk_1_panel
      demo_props_def demo_full_config, simp add: demo_payload_def)

lemma desk_2_fields:
  "dk_console desk_2 = demo_console_2" "dk_calls desk_2 = []" "dk_panel desk_2 = Open_settings (settings_commit (initial_settings demo_props))"
  "dk_instance desk_2 = 1" "dk_next desk_2 = 0"
proof -
  have eq: "desk_2 = report_edits (show_panel demo_rendered)"
    by (simp add: desk_2_eq set_console_def render_shell_def demo_rendered_def desk_1_panel numeral_2_eq_2)
  show "dk_console desk_2 = demo_console_2" "dk_calls desk_2 = []"
      "dk_panel desk_2 = Open_settings (settings_commit (initial_settings demo_props))" "dk_instance desk_2 = 1" "dk_next desk_2 = 0"
    unfolding eq by (simp_all add: demo_rendered_fields show_panel_def show_settings_def)
qed

lemma desk_2_reachable: "desk_reachable desk_2"
proof -
  have "desk_enabled (D_reply 1 T_bundle demo_bundle demo_extra) desk_1"
    by (simp add: desk_1_fields answers_def demo_console_fields demo_bundle_def)
  then show ?thesis unfolding desk_2_def by (rule desk_stepped [OF desk_1_reachable desk_event])
qed

definition demo_edited :: settings where
  "demo_edited = settings_commit (settings_apply (V_edit sample_edit) (settings_commit (initial_settings demo_props)))"

lemma demo_edited_fields:
  "st_form demo_edited = sample_edit" "st_baseline demo_edited = buildFormState sample_config" "st_tasks demo_edited = []"
  "st_props demo_edited = demo_props" "st_synced demo_edited = 2" "\<not> st_saving demo_edited"
proof -
  let ?s = "settings_commit (initial_settings demo_props)"
  have seen: "st_forced_seen ?s = Some (forced ?s)" by (rule ok_seen [OF reachable_ok [OF settings_mounted]])
  have form: "st_form ?s = buildFormState sample_config" "st_baseline ?s = buildFormState sample_config" "st_synced ?s = 2"
    using mounted_any [of demo_props] by (simp_all add: demo_props_def)
  have "settings_dirty (settings_apply (V_edit sample_edit) ?s)"
    using sample_edit_differs by (simp add: dirty_iff form)
  then show "st_form demo_edited = sample_edit" "st_baseline demo_edited = buildFormState sample_config" "st_tasks demo_edited = []"
      "st_props demo_edited = demo_props" "st_synced demo_edited = 2" "\<not> st_saving demo_edited"
    using dirty_commit [of "settings_apply (V_edit sample_edit) ?s"] seen form
    by (simp_all add: demo_edited_def forced_def sample_edit_def initial_settings_def)
qed

lemma desk_3_fields:
  "dk_panel desk_3 = Open_settings demo_edited" "dk_console desk_3 = demo_console_2" "dk_calls desk_3 = []" "dk_instance desk_3 = 1"
  "dk_next desk_3 = 0"
proof -
  have eq: "desk_3 = report_edits (desk_2\<lparr>dk_panel := Open_settings demo_edited\<rparr>)"
    by (simp add: desk_3_def desk_2_fields settings_does_def settings_calls_def settings_left_def demo_edited_def initial_settings_def)
  show "dk_panel desk_3 = Open_settings demo_edited" "dk_console desk_3 = demo_console_2" "dk_calls desk_3 = []" "dk_instance desk_3 = 1"
      "dk_next desk_3 = 0"
    unfolding eq by (simp_all add: desk_2_fields)
qed

lemma desk_3_reachable: "desk_reachable desk_3"
proof -
  have "form_change_allowed (st_form (settings_commit (initial_settings demo_props))) sample_edit"
    by (simp add: form_change_allowed_def mounted_any demo_props_def sample_edit_def)
  then have "desk_enabled (D_settings (V_edit sample_edit)) desk_2" by (simp add: desk_2_fields)
  then show ?thesis unfolding desk_3_def by (rule desk_stepped [OF desk_2_reachable desk_event])
qed

lemma desk_3_unsaved: "settings_dirty demo_edited" "unsaved_edits (dk_shell desk_3)"
proof -
  show "settings_dirty demo_edited" using sample_edit_differs by (simp add: dirty_iff demo_edited_fields)
  then show "unsaved_edits (dk_shell desk_3)"
    using reachable_desk_ok [OF desk_3_reachable]
    by (simp add: desk_ok_def desk_whole_def flags_right_def unsaved_edits_def desk_3_fields)
qed

lemma desk_reachable_ok_witness:
  "mounted_panel (dk_shell desk_3) = Some Settings \<and> unsaved_edits (dk_shell desk_3) \<and> settings_props_of desk_3 = Some demo_props"
  using desk_reachable_ok [OF desk_3_reachable] desk_3_unsaved by (simp add: desk_3_fields demo_edited_fields)

lemma drafts_survive_witness:
  "keeps_drafts (Open_settings demo_edited) (dk_panel (desk_apply (D_shell (Tab_clicked False Tester)) desk_3)) \<and>
   keeps_drafts (Open_settings demo_edited) (dk_panel (desk_apply (D_command Refresh_all) desk_3)) \<and> settings_dirty demo_edited"
proof -
  have "\<not> boot_screen (dk_shell desk_3)" using desk_3_fields(2) by (simp add: boot_screen_def demo_console_2_fields)
  then have "desk_step desk_3 (D_shell (Tab_clicked False Tester)) (desk_apply (D_shell (Tab_clicked False Tester)) desk_3)"
      "desk_step desk_3 (D_command Refresh_all) (desk_apply (D_command Refresh_all) desk_3)"
    by (auto intro!: desk_event simp del: desk_apply.simps)
  then show ?thesis
    using drafts_survive [OF desk_3_reachable desk_3_unsaved(2)] desk_3_unsaved(1)
    by (metis desk_3_fields(1) desk_event.distinct(3) desk_event.distinct(15) outside.simps(1,5) agreed.simps(1))
qed

end
