(* ===== verification/Desk_Outcomes.thy ===== *)
theory Desk_Outcomes imports Desk_Drafts begin

text \<open>
  What becomes of the calls of the panels: what a call reports to the panel that made it, what the settings panel shows when
  its save is over, and that every call can end.
\<close>

section \<open>What becomes of a call\<close>

lemma find_call_render [simp]: "find_call i (render_shell sh d) = find_call i d" "find_call i (set_console c d) = find_call i d"
  "find_call i (desk_command co d) = find_call i d" "find_call i (note_objects x t r d) = find_call i d"
  "find_call i (report_edits d) = find_call i d" "find_call i (d\<lparr>dk_panel := p\<rparr>) = find_call i d"
  by (simp_all add: find_call_def)

lemma find_call_option [simp]: "find_call i (run_option c d) = find_call i d"
  by (simp add: run_option_def split: option.split)

lemma find_call_stage:
  "find_call i (set_stage j g d) = map_option (\<lambda>c. if i = j then c\<lparr>pcl_stage := g\<rparr> else c) (find_call i d)"
proof -
  have "List.find (\<lambda>c. pcl_id c = i) (List.map (\<lambda>c. if pcl_id c = j then c\<lparr>pcl_stage := g\<rparr> else c) cs) =
      map_option (\<lambda>c. if i = j then c\<lparr>pcl_stage := g\<rparr> else c) (List.find (\<lambda>c. pcl_id c = i) cs)" for cs
    by (induction cs) auto
  then show ?thesis by (simp add: find_call_def set_stage_def)
qed

lemma find_call_go_on: "find_call i (go_on j p d) = map_option (\<lambda>c. if i = j then c\<lparr>pcl_stage := fst p\<rparr> else c) (find_call i d)"
  by (simp add: go_on_def find_call_stage)

lemma find_call_add: "find_call i d = Some c \<Longrightarrow> find_call i (add_call t g d) = Some c"
  by (simp add: find_call_def add_call_def find_append)

lemma find_call_make: "find_call i d = Some c \<Longrightarrow> find_call i (fold make_call ts d) = Some c"
  by (induction ts arbitrary: d) (simp_all add: make_call_def find_call_add Let_def)

lemma find_call_new: "find_call i d = None \<Longrightarrow> i \<noteq> dk_next d \<Longrightarrow> find_call i (make_call t d) = None"
proof -
  assume none: "find_call i d = None" and new: "i \<noteq> dk_next d"
  have "find_call i (add_call t g d) = None" for g
    using none new by (simp add: add_call_def find_call_def find_append)
  then show ?thesis by (simp add: make_call_def Let_def)
qed

lemma make_call_next: "dk_next (make_call t d) = Suc (dk_next d)"
  by (simp add: make_call_def add_call_def run_option_def Let_def split: option.split)

lemma find_call_gone: "find_call i d = None \<Longrightarrow> i < dk_next d \<Longrightarrow> find_call i (fold make_call ts d) = None"
  by (induction ts arbitrary: d) (simp_all add: find_call_new make_call_next)

lemma find_call_drop: "find_call i (drop_call j d) = (if i = j then None else find_call i d)"
proof -
  have "List.find (\<lambda>c. pcl_id c = i) (filter (\<lambda>c. pcl_id c \<noteq> j) cs) = (if i = j then None else List.find (\<lambda>c. pcl_id c = i) cs)" for cs
    by (induction cs) auto
  from this [of "dk_calls d"] show ?thesis by (auto simp: find_call_def drop_call_def)
qed

lemma find_call_mem: "find_call i d = Some c \<Longrightarrow> c \<in> set (dk_calls d) \<and> pcl_id c = i"
  by (auto simp: find_call_def find_Some_iff)

lemma find_call_deliver:
  "find_call i d = Some c \<Longrightarrow> i \<noteq> pcl_id c' \<Longrightarrow> find_call i (deliver c' r d) = Some c"
  by (auto simp: deliver_def settings_does_def accounts_does_def find_call_drop Let_def intro!: find_call_make
      split: panel_task.split open_panel.split)

lemma find_call_delivered:
  assumes "pcl_id c < dk_next d"
  shows "find_call (pcl_id c) (deliver c r d) = None"
proof -
  have "dk_next (drop_call i d) = dk_next d" for i by (simp add: drop_call_def)
  then show ?thesis using assms
    by (auto simp: deliver_def settings_does_def accounts_does_def find_call_drop Let_def intro!: find_call_gone
        split: panel_task.split open_panel.split)
qed

lemma find_call_wake:
  assumes "calls_fit d" and "find_call i d = Some c" and "dk_calls d' = dk_calls d"
  shows "find_call i (wake n b a t r d') = Some (case pcl_stage c of
     Awaiting m cs v \<Rightarrow> if m = n then c\<lparr>pcl_stage := fst (awaited_answered b a t r cs v)\<rparr> else c | _ \<Rightarrow> c)"
proof (cases "List.find (awaits n) (dk_calls d)")
  case None
  then have "\<not> awaits n c" using find_call_mem [OF assms(2)] by (auto simp: find_None_iff)
  then have "(case pcl_stage c of Awaiting m cs v \<Rightarrow> if m = n then c\<lparr>pcl_stage := fst (awaited_answered b a t r cs v)\<rparr> else c | _ \<Rightarrow> c) = c"
    by (auto simp: awaits_iff split: call_stage.split)
  then show ?thesis using None assms(2,3) by (simp add: wake_def find_call_def)
next
  case (Some c0)
  have mem: "c \<in> set (dk_calls d)" "pcl_id c = i" using find_call_mem [OF assms(2)] by simp_all
  have c0: "c0 \<in> set (dk_calls d)" "awaits n c0" using Some by (auto simp: find_Some_iff)
  then obtain cs v where stage: "pcl_stage c0 = Awaiting n cs v" by (auto simp: awaits_iff)
  have find: "find_call i d' = Some c" using assms(2,3) by (simp add: find_call_def)
  have wake: "wake n b a t r d' = go_on (pcl_id c0) (awaited_answered b a t r cs v) d'"
    using Some stage assms(3) by (simp add: wake_def)
  show ?thesis
  proof (cases "pcl_id c0 = i")
    case True
    then have "c = c0" using assms(1) mem c0(1) by (auto simp: calls_fit_def distinct_map dest: inj_onD)
    then show ?thesis using True stage find by (simp add: wake find_call_go_on)
  next
    case False
    then have "\<not> awaits n c" using assms(1) mem c0 by (auto simp: calls_fit_def)
    then show ?thesis using False find
      by (auto simp: wake find_call_go_on awaits_iff split: call_stage.split)
  qed
qed

section \<open>What a call reports\<close>

definition accepted :: "panel_call \<Rightarrow> json \<Rightarrow> bool" where
  "accepted c v \<longleftrightarrow> (case pcl_stage c of Asked \<Rightarrow> False | Awaiting n cs w \<Rightarrow> w = v | Settled r \<Rightarrow> r = Inr v)"

lemma desk_fits: "desk_reachable d \<Longrightarrow> calls_fit d"
  using reachable_desk_ok by (simp add: desk_ok_def)


text \<open>The promise of every other operation fails when a read after it does.\<close>

lemma accepted_call_fails:
  assumes "desk_reachable d" and "find_call i d = Some c" and "follow_up (pcl_task c) \<noteq> reread_all"
    and stage: "pcl_stage c = Awaiting n cs v" and en: "desk_enabled (D_reply n t (R_failed e) x) d"
  shows "find_call i (desk_apply (D_reply n t (R_failed e) x) d) = Some (c\<lparr>pcl_stage := Settled (Inl e)\<rparr>)"
proof -
  have mem: "c \<in> set (dk_calls d)" "pcl_id c = i" using find_call_mem [OF assms(2)] by simp_all
  have "plain_task t"
    using awaited_task(2) [OF reachable_desk_ok [OF assms(1)] _ mem(1) stage, of t] en assms(3) by (simp add: awaited_kind_def)
  then have "\<not> boot_task t" by (auto simp: plain_task_def)
  then show ?thesis
    using find_call_wake [OF desk_fits [OF assms(1)] assms(2), of "set_console c'' (note_objects x t r d)" for c'' x t r] stage
    by (simp add: hook_reply_def Let_def awaited_answered_def finish_task_def)
qed

text \<open>What the panel does with a settled call, when it is still the one that made it.\<close>

lemma deliver_settings:
  assumes "desk_reachable d" and "find_call i d = Some c" and "pcl_task c = Settings_task t" and "pcl_stage c = Settled r"
    and "pcl_instance c = dk_instance d" and "dk_panel d = Open_settings s"
  shows "t \<in> set (st_tasks s)"
    and "settings_calls (remove1 t (st_tasks s)) (st_tasks (settings_apply (V_reply t (settings_answer r)) s)) = [] \<Longrightarrow>
      desk_apply (D_deliver i) d =
        report_edits ((drop_call i d)\<lparr>dk_panel := Open_settings (settings_commit (settings_apply (V_reply t (settings_answer r)) s))\<rparr>)"
proof -
  have ok: "desk_ok d" by (rule reachable_desk_ok) fact
  have mem: "c \<in> set (dk_calls d)" "pcl_id c = i" using find_call_mem [OF assms(2)] by simp_all
  have "pcl_task c \<in># panel_waits d"
    using own_tasks [of d c] ok mem(1) assms(5,6) by (simp add: desk_ok_def)
  then show "t \<in> set (st_tasks s)" using assms(3,6) by (auto simp: panel_waits_def)
  show "settings_calls (remove1 t (st_tasks s)) (st_tasks (settings_apply (V_reply t (settings_answer r)) s)) = [] \<Longrightarrow>
      desk_apply (D_deliver i) d =
        report_edits ((drop_call i d)\<lparr>dk_panel := Open_settings (settings_commit (settings_apply (V_reply t (settings_answer r)) s))\<rparr>)"
    using assms(2-6) mem(2) by (simp add: deliver_def settings_does_def settings_left_def Let_def)
qed

lemma deliver_accounts:
  assumes "find_call i d = Some c" and "pcl_task c = Accounts_task t" and "pcl_stage c = Settled r"
    and "pcl_instance c = dk_instance d" and "dk_panel d = Open_accounts s"
  shows "desk_apply (D_deliver i) d =
    report_edits ((drop_call i d)\<lparr>dk_panel := Open_accounts (accounts_commit (accounts_apply (E_reply t (accounts_answer r)) s))\<rparr>)"
proof -
  have "pcl_id c = i" using find_call_mem [OF assms(1)] by simp
  moreover have "accounts_calls (remove1 t (an_tasks s)) (an_tasks (accounts_apply (E_reply t (accounts_answer r)) s)) = []"
    using accounts_resume_props [of t "accounts_answer r" "s\<lparr>an_tasks := remove1 t (an_tasks s)\<rparr>"]
    by (simp add: accounts_calls_def)
  ultimately show ?thesis using assms by (simp add: deliver_def accounts_does_def accounts_left_def Let_def)
qed

lemma accounts_commit_toasts [simp]: "an_toasts (accounts_commit s) = an_toasts s"
proof -
  have "an_toasts (probe_effect u) = an_toasts u" for u
    by (simp add: probe_effect_def Let_def split: sum.split option.split)
  then have "an_toasts (accounts_round u) = an_toasts u" for u
    by (simp add: accounts_round_def run_model_options_def run_probe_def run_default_def run_selected_def run_quick_def
        run_items_def items_effect_def Let_def)
  then show ?thesis by (simp add: accounts_commit_def)
qed

text \<open>
  An account that was saved is reported as not saved when reading the accounts again fails: the service has accepted
  the limits, the operator reads the message of the failed read, or that saving failed.
\<close>

theorem accepted_save_reported_failed:
  assumes "desk_reachable d" and "find_call i d = Some c" and "pcl_task c = Accounts_task (A_save email w draft off)"
    and "pcl_stage c = Awaiting n cs v" and "desk_enabled (D_reply n t (R_failed e) x) d"
    and "d' = desk_apply (D_reply n t (R_failed e) x) d"
    and "pcl_instance c = dk_instance d'" and "dk_panel d' = Open_accounts s"
  shows "\<exists>s'. dk_panel (desk_apply (D_deliver i) d') = Open_accounts s' \<and>
    an_toasts s' = an_toasts s @ [Toast_error (failure_text e txt_account_save_failed)] \<and> an_edits s' = an_edits s"
proof -
  have settled: "find_call i d' = Some (c\<lparr>pcl_stage := Settled (Inl e)\<rparr>)"
    using accepted_call_fails [OF assms(1,2) _ assms(4,5)] assms(3)
    by (simp add: assms(6) reread_all_def reread_accounts_def)
  have "desk_step d (D_reply n t (R_failed e) x) d'" unfolding assms(6) by (rule desk_event) (rule assms(5))
  then have "desk_ok d'" using step_desk_ok reachable_desk_ok [OF assms(1)] by blast
  then have "accounts_reachable s" using assms(8) by (simp add: desk_ok_def desk_whole_def panel_live_def)
  then have "an_dep_items s = Some (aq_version (an_props s))" by (rule accounts_seen)
  then show ?thesis
    using deliver_accounts [OF settled] assms(3,7,8)
    by (simp add: save_account_failed_def a_toast_def commit_edits run_items_def)
qed

lemma settings_props_fields:
  "settings_props_of d = Some (st_props s) \<Longrightarrow> \<exists>p. uc_config (dk_console d) = Some p \<and>
     sp_config (st_props s) = full_config (acp_config p) (dk_extra d) \<and> config_version s = dk_config_tick d"
  by (cases "st_props s") (auto simp: settings_props_of_def config_version_def)

lemma refused_save:
  assumes "settings_ok s"
  shows "st_form (settings_step (V_reply (S_save f config aliases) (S_failed e)) s) = st_form s \<and>
    st_baseline (settings_step (V_reply (S_save f config aliases) (S_failed e)) s) = st_baseline s \<and>
    \<not> st_saving (settings_step (V_reply (S_save f config aliases) (S_failed e)) s)"
proof -
  define u where "u = settings_apply (V_reply (S_save f config aliases) (S_failed e)) s"
  have u: "st_form u = st_form s" "st_baseline u = st_baseline s" "st_synced u = st_synced s" "config_version u = config_version s"
      "\<not> st_saving u" "st_forced_seen u = st_forced_seen s"
    by (simp_all add: u_def save_settings_failed_def s_failed_def s_toast_def config_version_def)
  have "settings_dirty u \<or> st_synced u = config_version u"
    using assms u by (auto simp: settings_ok_def settings_settled_def dirty_iff)
  then show ?thesis
    using dirty_commit [of u] quiet_commit [of u] ok_seen [OF assms] u
    unfolding settings_step_def u_def [symmetric] by (cases "settings_dirty u") (auto simp: forced_def)
qed

text \<open>
  C12. What the settings panel shows when its save is over, whatever happened in between. Accepted and not edited meanwhile:
  nothing is being saved or unsaved any more, the guard lets the operator leave, and the form shows the configuration the hook
  holds now, or what was saved if none was read since. Accepted and edited meanwhile: the newer edits stay and are
  still guarded. Refused: the form and its edits are as before.
\<close>

theorem save_delivered:
  assumes "desk_reachable d" and "find_call i d = Some c" and "pcl_task c = Settings_task (S_save f config aliases)"
    and "pcl_stage c = Settled r" and "pcl_instance c = dk_instance d" and "dk_panel d = Open_settings s"
  shows "\<exists>s' p. dk_panel (desk_apply (D_deliver i) d) = Open_settings s' \<and> \<not> st_saving s' \<and> uc_config (dk_console d) = Some p \<and>
    unsaved_edits (dk_shell (desk_apply (D_deliver i) d)) = settings_dirty s' \<and>
    (case r of
       Inl e \<Rightarrow> st_form s' = st_form s \<and> st_baseline s' = st_baseline s
     | Inr v \<Rightarrow> if st_form s = f
         then \<not> settings_dirty s' \<and> st_form s' =
           (if st_synced s = dk_config_tick d then f else buildFormState (full_config (acp_config p) (dk_extra d)))
         else settings_dirty s' \<and> st_form s' = st_form s)"
proof -
  have ok: "desk_ok d" by (rule reachable_desk_ok) fact
  then have live: "settings_ok s" and props: "settings_props_of d = Some (st_props s)"
    using assms(6) reachable_ok by (simp_all add: desk_ok_def desk_whole_def panel_live_def panel_shown_def)
  then obtain p where p: "uc_config (dk_console d) = Some p" "sp_config (st_props s) = full_config (acp_config p) (dk_extra d)"
      "config_version s = dk_config_tick d"
    using settings_props_fields by blast
  define t where "t = S_save f config aliases"
  define s' where "s' = settings_step (V_reply t (settings_answer r)) s"
  have task: "t \<in> set (st_tasks s)" using deliver_settings(1) [OF assms] by (simp add: t_def)
  have none: "settings_calls (remove1 t (st_tasks s)) (st_tasks (settings_apply (V_reply t (settings_answer r)) s)) = []"
    by (cases r) (simp_all add: t_def settings_calls_def settings_saved_def save_settings_failed_def s_failed_def s_toast_def)
  have d': "desk_apply (D_deliver i) d = report_edits ((drop_call i d)\<lparr>dk_panel := Open_settings s'\<rparr>)"
    using deliver_settings(2) [OF assms] none by (simp add: t_def s'_def settings_step_def)
  have "desk_step d (D_deliver i) (desk_apply (D_deliver i) d)"
    by (rule desk_event) (simp add: assms(2,4))
  then have "flags_right (desk_apply (D_deliver i) d)"
    using step_desk_ok [OF _ ok] by (simp add: desk_ok_def desk_whole_def)
  then have "unsaved_edits (dk_shell (desk_apply (D_deliver i) d)) = settings_dirty s'"
    unfolding d' by (simp add: flags_right_def unsaved_edits_def)
  moreover have "\<not> st_saving s' \<and> (case r of
       Inl e \<Rightarrow> st_form s' = st_form s \<and> st_baseline s' = st_baseline s
     | Inr v \<Rightarrow> if st_form s = f
         then \<not> settings_dirty s' \<and> st_form s' =
           (if st_synced s = dk_config_tick d then f else buildFormState (full_config (acp_config p) (dk_extra d)))
         else settings_dirty s' \<and> st_form s' = st_form s)"
  proof (cases r)
    case (Inl e)
    then show ?thesis using refused_save [OF live] by (simp add: s'_def t_def)
  next
    case (Inr v)
    then have "s' = settings_step (saved_reply f config aliases v) s" by (simp add: s'_def t_def saved_reply_def)
    then show ?thesis using saved_step [OF live, of f config aliases v] saved_edited_step [OF live, of f config aliases v] Inr p
      by (auto simp: dirty_iff)
  qed
  moreover have "dk_panel (desk_apply (D_deliver i) d) = Open_settings s'" unfolding d' by simp
  ultimately show ?thesis using p(1) by blast
qed

section \<open>Every call can end\<close>

lemma refusable: "\<exists>e. service_answers t (Inl e)"
proof (cases t)
  case (Accounts_task a)
  show ?thesis
  proof (cases "\<exists>e. accounts_request a = Some (Inl e)")
    case False
    then show ?thesis by (auto simp: service_answers_def Accounts_task split: option.split sum.split)
  qed (auto simp: service_answers_def Accounts_task)
qed (simp add: service_answers_def)


section \<open>A save, step by step\<close>

definition demo_save :: settings_task where
  "demo_save = S_save sample_edit (saved_config sample_edit sample_config) (string_object (opt_list (cfg_model_aliases sample_config)))"

definition demo_call :: "call_stage \<Rightarrow> panel_call" where
  "demo_call g = \<lparr>pcl_id = 0, pcl_instance = 1, pcl_task = Settings_task demo_save, pcl_stage = g\<rparr>"

definition desk_4 :: desk where "desk_4 = desk_apply (D_settings V_save) desk_3"
definition desk_5 :: desk where "desk_5 = desk_apply (D_service 0 (Inr JNull)) desk_4"
definition demo_reply :: desk_event where "demo_reply = D_reply 3 T_verify (R_failed Engine_error) (None, [])"
definition desk_6 :: desk where "desk_6 = desk_apply demo_reply desk_5"

lemma demo_saving:
  "settings_apply V_save demo_edited = demo_edited\<lparr>st_saving := True, st_message := txt_saving_dots, st_tasks := [demo_save]\<rparr>"
proof -
  have "save_payload (st_form demo_edited) (sp_config (st_props demo_edited)) =
      Inr (saved_config sample_edit sample_config, string_object (opt_list (cfg_model_aliases sample_config)))"
    using sample_payload by (simp add: demo_edited_fields demo_props_def)
  from save_started [OF this] show ?thesis by (simp add: demo_edited_fields demo_save_def)
qed

lemma desk_4_eq: "desk_4 = add_call (Settings_task demo_save) Asked
  (report_edits (desk_3\<lparr>dk_panel := Open_settings (settings_commit (settings_apply V_save demo_edited))\<rparr>))"
proof -
  have "settings_calls (settings_left V_save (st_tasks demo_edited)) (st_tasks (settings_commit (settings_apply V_save demo_edited))) =
      [Settings_task demo_save]"
    unfolding demo_saving by (simp add: settings_calls_def settings_left_def demo_edited_fields demo_save_def)
  then show ?thesis
    unfolding desk_4_def desk_apply.simps desk_3_fields open_panel.case settings_does_def Let_def
    by (simp add: make_call_def asks_service_def)
qed

lemma desk_4_fields:
  "find_call 0 desk_4 = Some (demo_call Asked)" "dk_console desk_4 = demo_console_2" "dk_instance desk_4 = 1"
  "dk_panel desk_4 = Open_settings (settings_commit (settings_apply V_save demo_edited))"
  unfolding desk_4_eq
  by (simp_all add: desk_3_fields find_call_def add_call_def demo_call_def)

lemma desk_4_step: "desk_step desk_3 (D_settings V_save) desk_4"
  unfolding desk_4_def by (rule desk_event) (simp add: desk_3_fields demo_edited_fields)

lemma desk_4_reachable: "desk_reachable desk_4"
  by (rule desk_stepped [OF desk_3_reachable desk_4_step])


lemma desk_5_step: "desk_step desk_4 (D_service 0 (Inr JNull)) desk_5"
  unfolding desk_5_def by (rule desk_event) (simp add: desk_4_fields demo_call_def service_answers_def)

lemma desk_5_reachable: "desk_reachable desk_5"
  by (rule desk_stepped [OF desk_4_reachable desk_5_step])

lemma desk_5_eq: "desk_5 = go_on 0 (Awaiting 3 [] JNull, Some Refresh_all) desk_4"
  by (simp add: desk_5_def desk_4_fields demo_call_def service_answered_def demo_save_def reread_all_def demo_console_2_fields)

lemma desk_5_fields:
  "find_call 0 desk_5 = Some (demo_call (Awaiting 3 [] JNull))" "dk_console desk_5 = commit (refreshAll demo_console_2)"
  unfolding desk_5_eq
  by (simp_all add: find_call_go_on desk_4_fields demo_call_def) (simp add: go_on_def run_option_def desk_4_fields)

lemma demo_reply_step: "desk_step desk_5 demo_reply desk_6"
  unfolding desk_6_def
  by (rule desk_event) (simp add: demo_reply_def answers_def desk_5_fields refreshAll_def spawn_def demo_console_2_fields)

lemma desk_6_reachable: "desk_reachable desk_6"
  by (rule desk_stepped [OF desk_5_reachable demo_reply_step])


lemma desk_6_call: "find_call 0 desk_6 = Some (demo_call (Settled (Inr JNull)))"
proof -
  define d where "d = set_console (commit (resume T_verify (R_failed Engine_error) (finish_task 3 (dk_console desk_5))))
    (note_objects (None, []) T_verify (R_failed Engine_error) desk_5)"
  have calls: "dk_calls d = dk_calls desk_5" by (simp add: d_def)
  have eq: "desk_6 = wake 3 (uc_next (dk_console desk_5)) (uc_next (dk_console desk_5)) T_verify (R_failed Engine_error) d"
    by (simp add: desk_6_def demo_reply_def hook_reply_def Let_def d_def finish_task_def boot_failed_def)
  show ?thesis
    unfolding eq find_call_wake [OF desk_fits [OF desk_5_reachable] desk_5_fields(1) calls]
    by (simp add: demo_call_def awaited_answered_def)
qed

lemma desk_4_panel: "\<exists>s. dk_panel desk_4 = Open_settings s \<and> st_form s = sample_edit \<and> settings_dirty s"
proof -
  have live: "settings_ok demo_edited"
    using reachable_desk_ok [OF desk_3_reachable] reachable_ok
    by (simp add: desk_ok_def desk_whole_def panel_live_def desk_3_fields)
  have "save_payload (st_form demo_edited) (sp_config (st_props demo_edited)) =
      Inr (saved_config sample_edit sample_config, string_object (opt_list (cfg_model_aliases sample_config)))"
    using sample_payload by (simp add: demo_edited_fields demo_props_def)
  from save_step [OF live desk_3_unsaved(1) this] show ?thesis
    using desk_3_unsaved(1) by (simp add: desk_4_fields settings_step_def dirty_iff demo_edited_fields)
qed

lemma same_drafts_form:
  "same_drafts (Open_settings s) p \<Longrightarrow> settings_dirty s \<Longrightarrow> \<exists>s'. p = Open_settings s' \<and> st_form s' = st_form s \<and> settings_dirty s'"
  "keeps_drafts (Open_settings s) p \<Longrightarrow> settings_dirty s \<Longrightarrow> \<exists>s'. p = Open_settings s' \<and> st_form s' = st_form s \<and> settings_dirty s'"
  by (auto simp: same_drafts_def keeps_drafts_def form_kept_def dirty_iff split: open_panel.splits)

lemma desk_5_panel: "\<exists>s. dk_panel desk_5 = Open_settings s \<and> st_form s = sample_edit \<and> settings_dirty s" "dk_instance desk_5 = 1"
proof -
  obtain s where s: "dk_panel desk_4 = Open_settings s" "st_form s = sample_edit" "settings_dirty s" using desk_4_panel by blast
  have "desk_whole desk_4" using reachable_desk_ok [OF desk_4_reachable] by (simp add: desk_ok_def)
  then have "same_drafts (Open_settings s) (dk_panel desk_5)" "dk_instance desk_5 = 1"
    using go_on_same [of desk_4] s(1) by (simp_all add: desk_5_eq desk_4_fields(3))
  then show "\<exists>s. dk_panel desk_5 = Open_settings s \<and> st_form s = sample_edit \<and> settings_dirty s" "dk_instance desk_5 = 1"
    using same_drafts_form(1) [of s "dk_panel desk_5"] s by auto
qed

lemma desk_6_panel: "\<exists>s. dk_panel desk_6 = Open_settings s \<and> st_form s = sample_edit \<and> settings_dirty s" "dk_instance desk_6 = 1"
proof -
  obtain s where s: "dk_panel desk_5 = Open_settings s" "st_form s = sample_edit" "settings_dirty s" using desk_5_panel by blast
  have ok: "desk_ok desk_5" by (rule reachable_desk_ok [OF desk_5_reachable])
  then have "unsaved_edits (dk_shell desk_5)"
    using s by (simp add: desk_ok_def desk_whole_def flags_right_def unsaved_edits_def)
  moreover have "(3, T_verify) \<in> set (uc_tasks (dk_console desk_5))"
    by (simp add: desk_5_fields refreshAll_def spawn_def demo_console_2_fields)
  moreover have "uc_verify (dk_console desk_6) = Some demo_verify" "uc_config (dk_console desk_6) = Some demo_payload"
    by (simp_all add: desk_6_def demo_reply_def hook_reply_def Let_def desk_5_fields boot_failed_def finish_task_def refreshAll_def
        spawn_def demo_console_2_fields)
  ultimately have "keeps_drafts (dk_panel desk_5) (dk_panel desk_6) \<and> dk_instance desk_6 = dk_instance desk_5"
    using reply_keeps_drafts [OF ok, of 3 T_verify "R_failed Engine_error" "(None, [])"]
    by (simp add: desk_6_def demo_reply_def answers_def shell_authenticated_def verified_def opt_true_def demo_verify_def)
  then show "\<exists>s. dk_panel desk_6 = Open_settings s \<and> st_form s = sample_edit \<and> settings_dirty s" "dk_instance desk_6 = 1"
    using same_drafts_form(2) [of s "dk_panel desk_6"] s desk_5_panel(2) by auto
qed

lemma save_delivered_witness:
  "\<exists>s. dk_panel (desk_apply (D_deliver 0) desk_6) = Open_settings s \<and> \<not> settings_dirty s \<and> \<not> st_saving s \<and>
     \<not> unsaved_edits (dk_shell (desk_apply (D_deliver 0) desk_6))"
proof -
  obtain s where s: "dk_panel desk_6 = Open_settings s" "st_form s = sample_edit" using desk_6_panel by blast
  have "pcl_instance (demo_call g) = dk_instance desk_6" for g by (simp add: demo_call_def desk_6_panel)
  then show ?thesis
    using save_delivered [OF desk_6_reachable desk_6_call, of sample_edit _ _ "Inr JNull" s] s
    unfolding demo_call_def demo_save_def by fastforce
qed

end
