(* ===== verification/Views.thy ===== *)
theory Views imports View_Texts Api_Types begin

text \<open>
  What is on the screen, as data: a view lists in their order the texts that are shown and the controls with
  what they show, whether they are disabled, and the event that using them brings about. Tags, class names
  and icons are left out; a part that is hidden or not rendered is left out as well. \<open>events\<close> are the
  events a user can bring about on a view.

  Below, the layout components of \<open>components/admin/shared.tsx\<close>. An optional text that is absent is the empty one.
\<close>

section \<open>Views\<close>

datatype input_kind = Plain_input | Number_input | Multi_line

datatype 'e view =
    Shown jsstr
  | Group "'e view list"
  | Button jsstr bool 'e \<comment> \<open>label, disabled, onClick\<close>
  | Input input_kind jsstr jsstr bool "jsstr \<Rightarrow> 'e" \<comment> \<open>value, placeholder, disabled, onChange\<close>
  | Switch bool bool "bool \<Rightarrow> 'e" \<comment> \<open>checked, disabled, onCheckedChange\<close>
  | Choice jsstr "(jsstr \<times> jsstr) list" bool "jsstr \<Rightarrow> 'e" \<comment> \<open>value, options with labels, disabled, onValueChange\<close>
  | File_choice jsstr bool "jsstr \<Rightarrow> 'e" \<comment> \<open>a button that opens a hidden file input: label, disabled, onChange\<close>
  | Inert "'e view" \<comment> \<open>shown, but behind a dialog\<close>
  | Copy_button jsstr jsstr \<comment> \<open>label, the text it puts on the clipboard\<close>
  | Key jsstr bool 'e \<comment> \<open>a key in the input before it, disabled, onKeyDown\<close>

fun events :: "'e view \<Rightarrow> 'e set" where
  "events (Shown t) = {}"
| "events (Group vs) = (\<Union>v\<in>set vs. events v)"
| "events (Button l d e) = (if d then {} else {e})"
| "events (Input k v p d f) = (if d then {} else range f)"
| "events (Switch c d f) = (if d then {} else {f (\<not> c)})"
| "events (Choice v os d f) = (if d then {} else f ` fst ` set os)"
| "events (File_choice l d f) = (if d then {} else range f)"
| "events (Inert v) = {}"
| "events (Copy_button l t) = {}"
| "events (Key k d e) = (if d then {} else {e})"

text \<open>The controls that hold a value, in their order, and what they hold.\<close>

fun controls :: "'e view \<Rightarrow> 'e view list" where
  "controls (Group vs) = concat (List.map controls vs)"
| "controls (Input k v p d f) = [Input k v p d f]"
| "controls (Switch c d f) = [Switch c d f]"
| "controls (Choice v os d f) = [Choice v os d f]"
| "controls _ = []"

datatype field_value = Text_value jsstr | Flag_value bool

fun held :: "'e view \<Rightarrow> field_value" where
  "held (Input k v p d f) = Text_value v"
| "held (Switch c d f) = Flag_value c"
| "held (Choice v os d f) = Text_value v"
| "held _ = Text_value []"

definition values_shown :: "'e view \<Rightarrow> field_value list" where
  "values_shown v = List.map held (controls v)"

text \<open>\<open>enters c x e\<close>: the user makes the control \<open>c\<close> hold \<open>x\<close>, which is the event \<open>e\<close>.\<close>

fun enters :: "'e view \<Rightarrow> field_value \<Rightarrow> 'e \<Rightarrow> bool" where
  "enters (Input k v p d f) x e = (case x of Text_value t \<Rightarrow> \<not> d \<and> e = f t | Flag_value b \<Rightarrow> False)"
| "enters (Switch c d f) x e = (case x of Flag_value b \<Rightarrow> \<not> d \<and> b = (\<not> c) \<and> e = f b | Text_value t \<Rightarrow> False)"
| "enters (Choice v os d f) x e = (case x of Text_value t \<Rightarrow> \<not> d \<and> t \<in> fst ` set os \<and> e = f t | Flag_value b \<Rightarrow> False)"
| "enters _ x e = False"

datatype 'e screen_event = Jump jsstr | Act 'e \<comment> \<open>turn to another section, or something the panel answers to\<close>

section \<open>Shared helpers\<close>

datatype pill = Pill_destructive | Pill_soft | Pill_success | Pill_secondary

definition mentions :: "jsstr list \<Rightarrow> jsstr \<Rightarrow> bool" where
  "mentions ws s \<longleftrightarrow> list_ex (\<lambda>w. str_includes w s) ws"

definition pill_of :: "jsstr option \<Rightarrow> pill" where
  "pill_of status = (let normalized = to_lower (or_str (opt_str status) (js ''unknown'')) in
     if mentions [js ''fail'', js ''error''] normalized then Pill_destructive
     else if mentions [js ''pending'', js ''start'', js ''new'', js ''running''] normalized then Pill_soft
     else if mentions [js ''ok'', js ''ready'', js ''success'', js ''complete''] normalized then Pill_success
     else Pill_secondary)"

definition middle_dot :: jsstr where "middle_dot = [32, 0xB7, 32]"

definition file_chip :: "message_attachment \<Rightarrow> jsstr" where
  "file_chip a = join middle_dot (filter (\<lambda>x. x \<noteq> []) [or_str (opt_str (ma_name a)) (js ''attachment''),
     or_str (opt_str (ma_content_type a)) (opt_str (ma_contentType a))])"

text \<open>\<open>show\<close> is \<open>formatDateTime\<close>, whose \<open>toLocaleString\<close> is not modelled.\<close>

definition formatMaybeDate :: "(jsstr \<Rightarrow> jsstr) \<Rightarrow> jsstr option \<Rightarrow> jsstr" where
  "formatMaybeDate show v = (if opt_str v = [] then [0x2014] else show (opt_str v))"

section \<open>Layout components\<close>

definition optional_text :: "jsstr \<Rightarrow> 'e view list" where
  "optional_text t = (if t = [] then [] else [Shown t])"

definition dash :: jsstr where "dash = [0x2014]"

definition PanelHeader :: "jsstr \<Rightarrow> jsstr \<Rightarrow> 'e view list \<Rightarrow> 'e view" where
  "PanelHeader title description actions = Group ([Shown title] @ optional_text description @ actions)"

definition StatCard :: "jsstr \<Rightarrow> jsstr \<Rightarrow> jsstr \<Rightarrow> 'e view" where
  "StatCard label value hint = Group ([Shown label, Shown (or_str value dash)] @ optional_text hint)"

definition InfoCard :: "'e view list \<Rightarrow> jsstr \<Rightarrow> 'e view list \<Rightarrow> 'e view list \<Rightarrow> 'e view" where
  "InfoCard title description actions children = Group (title @ optional_text description @ actions @ children)"

definition KeyValueGrid :: "(jsstr \<times> jsstr option) list \<Rightarrow> 'e view" where
  "KeyValueGrid items = Group (List.map (\<lambda>(label, v). Group [Shown label, Shown (case v of None \<Rightarrow> dash | Some t \<Rightarrow> t)]) items)"

definition JsonPreview :: "jsstr \<Rightarrow> jsstr \<Rightarrow> jsstr option \<Rightarrow> 'e view" where
  "JsonPreview title value copied = InfoCard [Shown title] []
     (case copied of None \<Rightarrow> [] | Some t \<Rightarrow> [Copy_button txt_copy t]) [Shown value]"

definition EmptyHint :: "jsstr \<Rightarrow> jsstr \<Rightarrow> 'e view" where
  "EmptyHint title description = Group [Shown title, Shown description]"

definition Subsection :: "jsstr \<Rightarrow> jsstr \<Rightarrow> 'e view list \<Rightarrow> 'e view list \<Rightarrow> 'e view" where
  "Subsection title description actions children =
     Group ([Shown title] @ optional_text description @ actions @ [Group children])"

definition MetaTile :: "jsstr \<Rightarrow> jsstr \<Rightarrow> 'e view" where
  "MetaTile label value = Group [Shown label, Shown value]"

definition StatusPill :: "jsstr option \<Rightarrow> 'e view" where
  "StatusPill status = Shown (or_str (opt_str status) (js ''unknown''))"

definition FileChips :: "message_attachment list \<Rightarrow> 'e view" where
  "FileChips items = Group (List.map (\<lambda>a. Shown (file_chip a)) items)"

section \<open>Lemmas\<close>

named_theorems layout \<open>the layout components\<close>

declare PanelHeader_def [layout] StatCard_def [layout] InfoCard_def [layout] KeyValueGrid_def [layout]
  JsonPreview_def [layout] EmptyHint_def [layout] Subsection_def [layout] MetaTile_def [layout]

lemma optional_text_plain [simp]: "v \<in> set (optional_text t) \<Longrightarrow> events v = {}" "concat (List.map controls (optional_text t)) = []"
  by (auto simp: optional_text_def split: if_splits)

lemma optional_text_events [simp]: "(\<Union>v\<in>set (optional_text t). events v) = {}"
  by auto

lemma KeyValueGrid_plain [simp]: "events (KeyValueGrid items) = {}" "controls (KeyValueGrid items) = []"
  by (auto simp: KeyValueGrid_def)

text \<open>What a user can enter is an event of the view.\<close>

lemma enters_event: "enters c x e \<Longrightarrow> e \<in> events c"
  by (cases c) (auto split: field_value.splits)

lemma controls_events: "c \<in> set (controls v) \<Longrightarrow> events c \<subseteq> events v"
proof (induction v rule: controls.induct)
  case (1 vs)
  then show ?case by fastforce
qed simp_all

lemma entered_in_view: "c \<in> set (controls v) \<Longrightarrow> enters c x e \<Longrightarrow> e \<in> events v"
  using enters_event controls_events by fastforce

text \<open>
  \<open>W e\<close> are the values after the event \<open>e\<close>, with the values \<open>pre\<close> before the controls in reverse: what is
  entered in a control of the list becomes its value and nothing else changes.
\<close>

inductive holds_own :: "('e \<Rightarrow> field_value list) \<Rightarrow> field_value list \<Rightarrow> 'e view list \<Rightarrow> field_value list \<Rightarrow> bool" for W where
  holds_none: "holds_own W pre [] []"
| holds_next: "(\<And>x e. enters c x e \<Longrightarrow> W e = rev pre @ x # vs) \<Longrightarrow> holds_own W (v # pre) cs vs \<Longrightarrow> holds_own W pre (c # cs) (v # vs)"

lemma holds_own_nth: "holds_own W pre cs vs \<Longrightarrow> i < length cs \<Longrightarrow> enters (cs ! i) x e \<Longrightarrow> W e = rev pre @ vs[i := x]"
proof (induction arbitrary: i rule: holds_own.induct)
  case (holds_next c vs v cs)
  then show ?case by (cases i) auto
qed simp

text \<open>A status that mentions a failure is shown as one, whatever else it mentions.\<close>

lemma failure_pill: "str_includes (js ''fail'') (to_lower st) \<Longrightarrow> pill_of (Some st) = Pill_destructive"
proof -
  assume failed: "str_includes (js ''fail'') (to_lower st)"
  have "\<not> str_includes (js ''fail'') []" by code_simp
  then have "st \<noteq> []" using failed by auto
  then show ?thesis using failed by (simp add: pill_of_def mentions_def or_str_def)
qed

lemma chip_neq_Nil: "file_chip a \<noteq> []"
proof -
  have "or_str (opt_str (ma_name a)) (js ''attachment'') \<noteq> []" by (simp add: or_str_def)
  then show ?thesis by (auto simp: file_chip_def)
qed

end
