(* ===== verification/Settings_View.thy ===== *)
theory Settings_View imports Settings_Panel Views begin

text \<open>
  What the settings panel shows (\<open>components/admin/settings-panel.tsx\<close>, the markup): the header, the
  navigation, the section that is active with its fields, and the files. Every control stands with its label, its
  description, the field of the form it shows and the change it makes.

  \<open>now\<close> is the time a download would carry, \<open>host_of\<close> is \<open>new URL(text).host\<close>, \<open>None\<close> where it throws, and
  \<open>password_set\<close> is a property. The placeholder of an empty choice is left out, and the toast of a copied strategy.
\<close>

section \<open>Sections\<close>

record section_meta =
  sm_id :: jsstr
  sm_eyebrow :: jsstr
  sm_title :: jsstr
  sm_description :: jsstr

definition section_of :: "char list \<Rightarrow> char list \<Rightarrow> jsstr \<Rightarrow> jsstr \<Rightarrow> section_meta" where
  "section_of i eyebrow title description = \<lparr>sm_id = js i, sm_eyebrow = js eyebrow, sm_title = title, sm_description = description\<rparr>"

definition SECTIONS :: "section_meta list" where
  "SECTIONS = [
     section_of ''service-runtime'' ''Runtime'' txt_se_runtime txt_se_nav_runtime,
     section_of ''upstream-connection'' ''Upstream'' txt_se_upstream txt_se_nav_upstream,
     section_of ''behavior-capabilities'' ''Behavior'' txt_se_behavior txt_se_nav_behavior,
     section_of ''prompt-strategy'' ''Prompt'' txt_se_prompt txt_se_nav_prompt,
     section_of ''security-admin'' ''Security'' txt_se_security txt_se_nav_security,
     section_of ''advanced-json'' ''Advanced'' txt_se_advanced txt_se_nav_advanced,
     section_of ''configuration-files'' ''Config'' txt_se_files txt_se_nav_files]"

definition initial_section :: jsstr where "initial_section = js ''service-runtime''"

type_synonym settings_act = "settings_event screen_event"
type_synonym screen = "settings_act view"

definition edit :: "settings_form \<Rightarrow> settings_act" where "edit f = Act (V_edit f)"

definition SectionNav :: screen where
  "SectionNav = Group (List.map (\<lambda>m. Button (sm_title m) False (Jump (sm_id m))) SECTIONS)"

definition SectionShell :: "jsstr \<Rightarrow> char list \<Rightarrow> char list \<Rightarrow> jsstr \<Rightarrow> jsstr \<Rightarrow> screen list \<Rightarrow> screen list \<Rightarrow> screen" where
  "SectionShell active i eyebrow title description actions children = (if active \<noteq> js i then Group []
     else InfoCard [Shown (js eyebrow), Shown title] description actions children)"

section \<open>Fields and switches\<close>

definition FieldBlock :: "jsstr \<Rightarrow> jsstr \<Rightarrow> screen list \<Rightarrow> screen" where
  "FieldBlock label description children = Group ([Shown label] @ optional_text description @ children)"

definition text_input :: "input_kind \<Rightarrow> jsstr \<Rightarrow> (jsstr \<Rightarrow> settings_form) \<Rightarrow> screen" where
  "text_input kind v change = Input kind v [] False (\<lambda>t. edit (change t))"

definition input_hint :: "jsstr \<Rightarrow> jsstr \<Rightarrow> (jsstr \<Rightarrow> settings_form) \<Rightarrow> screen" where
  "input_hint v placeholder change = Input Plain_input v placeholder False (\<lambda>t. edit (change t))"

record toggle_card =
  tg_label :: jsstr
  tg_description :: jsstr
  tg_value :: bool
  tg_onChange :: "bool \<Rightarrow> settings_form"
  tg_disabled :: bool
  tg_hint :: jsstr

definition ToggleTile :: "toggle_card \<Rightarrow> screen" where
  "ToggleTile c = Group ([Shown (tg_label c), Shown (tg_description c),
     Switch (tg_value c) (tg_disabled c) (\<lambda>b. edit (tg_onChange c b))] @ optional_text (tg_hint c))"

definition plain_toggle :: "jsstr \<Rightarrow> jsstr \<Rightarrow> bool \<Rightarrow> (bool \<Rightarrow> settings_form) \<Rightarrow> jsstr \<Rightarrow> toggle_card" where
  "plain_toggle label description v change hint = \<lparr>tg_label = label, tg_description = description, tg_value = v,
     tg_onChange = change, tg_disabled = False, tg_hint = hint\<rparr>"

definition guardToggles :: "settings_form \<Rightarrow> toggle_card list" where
  "guardToggles f = [
     plain_toggle txt_feature_forced_off txt_se_forced_text (sf_forceDisableUpstreamEdits f)
       (\<lambda>b. f\<lparr>sf_forceDisableUpstreamEdits := b\<rparr>) txt_se_forced_hint,
     plain_toggle txt_se_fresh txt_se_fresh_text (sf_forceFreshThreadPerRequest f)
       (\<lambda>b. f\<lparr>sf_forceFreshThreadPerRequest := b\<rparr>) txt_se_fresh_hint,
     \<lparr>tg_label = js ''Read Only'', tg_description = txt_se_read_only_text, tg_value = sf_readOnly f,
      tg_onChange = (\<lambda>b. f\<lparr>sf_readOnly := b\<rparr>), tg_disabled = sf_forceDisableUpstreamEdits f,
      tg_hint = (if sf_forceDisableUpstreamEdits f then txt_se_read_only_forced else [])\<rparr>,
     \<lparr>tg_label = js ''Writer Mode'', tg_description = txt_se_writer_text, tg_value = sf_writerMode f,
      tg_onChange = (\<lambda>b. f\<lparr>sf_writerMode := b\<rparr>), tg_disabled = sf_forceDisableUpstreamEdits f,
      tg_hint = (if sf_forceDisableUpstreamEdits f then txt_se_writer_forced else [])\<rparr>]"

definition capabilityToggles :: "settings_form \<Rightarrow> toggle_card list" where
  "capabilityToggles f = [
     plain_toggle txt_feature_web txt_se_web_text (sf_useWebSearch f) (\<lambda>b. f\<lparr>sf_useWebSearch := b\<rparr>) [],
     plain_toggle txt_se_images txt_se_images_text (sf_generateImage f) (\<lambda>b. f\<lparr>sf_generateImage := b\<rparr>) [],
     plain_toggle txt_feature_csv txt_se_csv_text (sf_enableCsv f) (\<lambda>b. f\<lparr>sf_enableCsv := b\<rparr>) []]"

definition model_choices :: "settings \<Rightarrow> (jsstr \<times> jsstr) list" where
  "model_choices s = List.map (\<lambda>m. (mi_id m, or_str (opt_str (mi_name m)) (mi_id m))) (settings_model_options s)"

section \<open>The sections\<close>

definition gateway_entry :: "settings \<Rightarrow> screen" where
  "gateway_entry s = (let f = st_form s in Subsection txt_se_listen txt_se_listen_text [] [
     FieldBlock txt_se_host txt_se_host_text [text_input Plain_input (sf_host f) (\<lambda>t. f\<lparr>sf_host := t\<rparr>)],
     FieldBlock txt_se_port txt_se_port_text [text_input Number_input (sf_port f) (\<lambda>t. f\<lparr>sf_port := t\<rparr>)],
     FieldBlock (js ''API Key'') txt_se_key_text [input_hint (sf_apiKey f) txt_se_keep_key (\<lambda>t. f\<lparr>sf_apiKey := t\<rparr>)],
     FieldBlock txt_se_model txt_se_model_text
       [Choice (currentModel s) (model_choices s) False (\<lambda>t. edit (f\<lparr>sf_defaultModel := t\<rparr>))]])"

definition runtime_rhythm :: "settings_form \<Rightarrow> screen" where
  "runtime_rhythm f = Subsection txt_se_rhythm txt_se_rhythm_text [] [
     FieldBlock (js ''Timeout (sec)'') txt_se_timeout_text
       [text_input Number_input (sf_timeoutSec f) (\<lambda>t. f\<lparr>sf_timeoutSec := t\<rparr>)],
     FieldBlock (js ''Responses TTL (sec)'') txt_se_ttl_text
       [text_input Number_input (sf_responsesTTL f) (\<lambda>t. f\<lparr>sf_responsesTTL := t\<rparr>)],
     FieldBlock (js ''Poll Interval'') txt_se_poll_text
       [text_input Number_input (sf_pollInterval f) (\<lambda>t. f\<lparr>sf_pollInterval := t\<rparr>)],
     FieldBlock (js ''Poll Max Rounds'') txt_se_rounds_text
       [text_input Number_input (sf_pollRounds f) (\<lambda>t. f\<lparr>sf_pollRounds := t\<rparr>)],
     FieldBlock (js ''Stream Chunk Runes'') txt_se_chunk_text
       [text_input Number_input (sf_chunkRunes f) (\<lambda>t. f\<lparr>sf_chunkRunes := t\<rparr>)]]"

definition runtime_section :: "jsstr \<Rightarrow> settings \<Rightarrow> screen" where
  "runtime_section active s = SectionShell active ''service-runtime'' ''Runtime'' txt_se_runtime txt_se_runtime_text []
     [gateway_entry s, Shown txt_se_response, runtime_rhythm (st_form s)]"

definition parseHostLabel :: "(jsstr \<Rightarrow> jsstr option) \<Rightarrow> jsstr \<Rightarrow> jsstr" where
  "parseHostLabel host_of v = (if trim v = [] then js ''-''
     else case host_of v of Some h \<Rightarrow> or_str h v | None \<Rightarrow> v)"

definition upstream_endpoint :: "settings_form \<Rightarrow> screen" where
  "upstream_endpoint f = Subsection txt_se_endpoint txt_se_endpoint_text [] [
     FieldBlock (js ''Upstream Base URL'') txt_se_base_text
       [text_input Plain_input (sf_upstreamBaseURL f) (\<lambda>t. f\<lparr>sf_upstreamBaseURL := t\<rparr>)],
     FieldBlock (js ''Upstream Origin'') txt_se_origin_text
       [text_input Plain_input (sf_upstreamOrigin f) (\<lambda>t. f\<lparr>sf_upstreamOrigin := t\<rparr>)],
     FieldBlock (js ''Upstream Host Header'') txt_se_host_header_text
       [text_input Plain_input (sf_upstreamHost f) (\<lambda>t. f\<lparr>sf_upstreamHost := t\<rparr>)],
     FieldBlock (js ''Upstream TLS Server Name'') txt_se_tls_text
       [text_input Plain_input (sf_upstreamTLSServerName f) (\<lambda>t. f\<lparr>sf_upstreamTLSServerName := t\<rparr>)]]"

definition proxy_inheritance :: "(jsstr \<Rightarrow> jsstr option) \<Rightarrow> settings_form \<Rightarrow> screen" where
  "proxy_inheritance host_of f = Subsection txt_se_proxy txt_se_proxy_text [] [
     Shown txt_se_inherit, Shown txt_se_inherit_text,
     Switch (sf_upstreamUseEnvProxy f) False (\<lambda>b. edit (f\<lparr>sf_upstreamUseEnvProxy := b\<rparr>)),
     MetaTile (js ''Target Host'') (parseHostLabel host_of (sf_upstreamBaseURL f)),
     MetaTile (js ''TLS / Host'') (or_str (trim (sf_upstreamTLSServerName f)) (or_str (trim (sf_upstreamHost f)) txt_se_request_default))]"

definition upstream_section :: "(jsstr \<Rightarrow> jsstr option) \<Rightarrow> jsstr \<Rightarrow> settings_form \<Rightarrow> screen" where
  "upstream_section host_of active f = SectionShell active ''upstream-connection'' ''Upstream'' txt_se_upstream txt_se_upstream_text []
     [upstream_endpoint f, proxy_inheritance host_of f]"

definition behavior_section :: "jsstr \<Rightarrow> settings_form \<Rightarrow> screen" where
  "behavior_section active f = SectionShell active ''behavior-capabilities'' ''Behavior'' txt_se_behavior txt_se_behavior_text [] [
     Subsection txt_se_guards txt_se_guards_text [] (List.map ToggleTile (guardToggles f)),
     Subsection txt_se_flags txt_se_flags_text [] (List.map ToggleTile (capabilityToggles f)),
     FieldBlock (js ''AI Surface'') txt_se_surface_text [text_input Plain_input (sf_aiSurface f) (\<lambda>t. f\<lparr>sf_aiSurface := t\<rparr>)],
     FieldBlock (js ''Thread Type'') txt_se_thread_text [text_input Plain_input (sf_threadType f) (\<lambda>t. f\<lparr>sf_threadType := t\<rparr>)],
     Group [Shown (js ''Tool Policy''), Shown txt_se_tools, Shown txt_se_tools_text]]"

section \<open>The prompt strategy\<close>

definition PROMPT_PROFILE_OPTIONS :: "(jsstr \<times> jsstr \<times> jsstr) list" where
  "PROMPT_PROFILE_OPTIONS = [
     (profile_reframing, js ''Cognitive Reframing'', txt_se_profile_reframing),
     (profile_toolbox, js ''Toolbox Capability Expansion'', txt_se_profile_toolbox),
     (js ''custom'', js ''Custom'', txt_se_profile_custom),
     (js ''none'', js ''None'', txt_se_profile_none)]"

definition profile_choices :: "(jsstr \<times> jsstr) list" where
  "profile_choices = List.map (\<lambda>(v, label, description). (v, label)) PROMPT_PROFILE_OPTIONS"

definition strategy_actions :: "jsstr \<Rightarrow> screen list" where
  "strategy_actions now = [Button txt_se_restore False (Act V_default_strategy),
     File_choice txt_se_import_strategy False (\<lambda>name. Act (V_strategy name)),
     Button txt_se_export_strategy False (Act (V_download now))]"

definition strategy_routing :: "settings_form \<Rightarrow> screen" where
  "strategy_routing f = Subsection txt_se_profiles txt_se_profiles_text [] ([
     FieldBlock (js ''Chat Profile'') txt_se_chat_profile_text
       [Choice (sf_promptProfile f) profile_choices False (\<lambda>t. edit (f\<lparr>sf_promptProfile := t\<rparr>))],
     FieldBlock (js ''Fallback Profiles'') txt_se_fallback_text
       [text_input Multi_line (sf_fallbackProfiles f) (\<lambda>t. f\<lparr>sf_fallbackProfiles := t\<rparr>)],
     FieldBlock (js ''Max Escalation Steps'') txt_se_escalation_text
       [text_input Number_input (sf_maxEscalationSteps f) (\<lambda>t. f\<lparr>sf_maxEscalationSteps := t\<rparr>)],
     FieldBlock (js ''Max Refusal Retries'') txt_se_refusal_text
       [text_input Number_input (sf_maxRefusalRetries f) (\<lambda>t. f\<lparr>sf_maxRefusalRetries := t\<rparr>)]] @
     List.map (\<lambda>(v, label, description). MetaTile label description) PROMPT_PROFILE_OPTIONS)"

definition root_prompt :: "settings_form \<Rightarrow> screen" where
  "root_prompt f = Subsection txt_se_custom txt_se_custom_text []
     [Input Multi_line (sf_customPromptPrefix f) txt_se_custom_hint False (\<lambda>t. edit (f\<lparr>sf_customPromptPrefix := t\<rparr>))]"

definition profile_bodies :: "settings_form \<Rightarrow> screen" where
  "profile_bodies f = Subsection txt_se_bodies txt_se_bodies_text [] [
     FieldBlock (js ''Cognitive Reframing Prefix'') txt_se_reframing_text
       [text_input Multi_line (sf_cognitiveReframingPrefix f) (\<lambda>t. f\<lparr>sf_cognitiveReframingPrefix := t\<rparr>)],
     FieldBlock (js ''Toolbox Capability Expansion Prefix'') txt_se_toolbox_text
       [text_input Multi_line (sf_toolboxCapabilityExpansionPrefix f) (\<lambda>t. f\<lparr>sf_toolboxCapabilityExpansionPrefix := t\<rparr>)]]"

definition strategy_test_inputs :: "settings \<Rightarrow> screen list" where
  "strategy_test_inputs s = [
     FieldBlock txt_se_test_prompt txt_se_test_prompt_text
       [Input Multi_line (st_test_prompt s) [] False (\<lambda>t. Act (V_test_prompt t))],
     FieldBlock txt_se_test_model txt_se_test_model_text
       [Choice (st_test_model s) (model_choices s) False (\<lambda>t. Act (V_test_model t))],
     Shown txt_se_online, Shown txt_se_online_text,
     Switch (st_test_search s) False (\<lambda>b. Act (V_test_search b)),
     Button txt_se_creative False (Act (V_test_prompt txt_preset_creative)),
     Button txt_se_role False (Act (V_test_prompt txt_preset_refusal)),
     Button (if st_testing s then txt_testing_dots else txt_se_run_test) (st_testing s \<or> trim (st_test_prompt s) = []) (Act V_test)]"

definition strategy_test :: "settings \<Rightarrow> screen" where
  "strategy_test s = Subsection txt_se_test txt_se_test_text [] (strategy_test_inputs s @
     [Shown txt_se_test_output,
      Copy_button txt_se_copy_strategy (stringify2 (prompt_json (buildPromptStrategyPayload (st_form s)))),
      Shown (st_test_output s)])"

definition retry_blocks :: "settings_form \<Rightarrow> screen" where
  "retry_blocks f = Subsection txt_se_retries txt_se_retries_text [] [
     FieldBlock (js ''Coding Retry Prefixes'') txt_se_coding_text
       [text_input Multi_line (sf_codingRetryPrefixes f) (\<lambda>t. f\<lparr>sf_codingRetryPrefixes := t\<rparr>)],
     FieldBlock (js ''General Retry Prefixes'') txt_se_general_text
       [text_input Multi_line (sf_generalRetryPrefixes f) (\<lambda>t. f\<lparr>sf_generalRetryPrefixes := t\<rparr>)],
     FieldBlock (js ''Direct Answer Retry Prefixes'') txt_se_direct_text
       [text_input Multi_line (sf_directAnswerRetryPrefixes f) (\<lambda>t. f\<lparr>sf_directAnswerRetryPrefixes := t\<rparr>)]]"

definition prompt_section :: "jsstr \<Rightarrow> jsstr \<Rightarrow> settings \<Rightarrow> screen" where
  "prompt_section now active s = (let f = st_form s in
     SectionShell active ''prompt-strategy'' ''Prompt'' txt_se_prompt txt_se_prompt_text (strategy_actions now)
       [strategy_routing f, root_prompt f, profile_bodies f, strategy_test s, retry_blocks f])"

section \<open>Security, storage and the advanced fields\<close>

definition admin_login :: "bool \<Rightarrow> settings_form \<Rightarrow> screen" where
  "admin_login password_set f = Subsection txt_se_admin txt_se_admin_text [] [
     FieldBlock txt_se_password txt_se_password_text [input_hint (sf_adminPassword f)
       (if password_set then txt_se_password_set else txt_se_password_unset) (\<lambda>t. f\<lparr>sf_adminPassword := t\<rparr>)],
     FieldBlock (js ''Admin Token TTL'') txt_se_token_text
       [text_input Number_input (sf_adminTTL f) (\<lambda>t. f\<lparr>sf_adminTTL := t\<rparr>)],
     FieldBlock (js ''Login Sessions Dir'') txt_se_dir_text
       [text_input Plain_input (sf_loginSessionsDir f) (\<lambda>t. f\<lparr>sf_loginSessionsDir := t\<rparr>)],
     FieldBlock (js ''Login Timeout (sec)'') txt_se_login_text
       [text_input Number_input (sf_loginTimeoutSec f) (\<lambda>t. f\<lparr>sf_loginTimeoutSec := t\<rparr>)],
     FieldBlock (js ''SQLite Path'') txt_se_sqlite_text
       [text_input Plain_input (sf_sqlitePath f) (\<lambda>t. f\<lparr>sf_sqlitePath := t\<rparr>)]]"

definition persistence_toggles :: "settings_form \<Rightarrow> screen" where
  "persistence_toggles f = Subsection txt_se_persist txt_se_persist_text [] (List.map ToggleTile [
     plain_toggle txt_se_snapshots txt_se_snapshots_text (sf_persistConversationSnapshots f)
       (\<lambda>b. f\<lparr>sf_persistConversationSnapshots := b\<rparr>)
       (if sf_persistConversationSnapshots f then txt_se_snapshots_on else txt_se_snapshots_off),
     plain_toggle txt_se_responses txt_se_responses_text (sf_persistResponses f) (\<lambda>b. f\<lparr>sf_persistResponses := b\<rparr>)
       (if sf_persistResponses f then txt_se_responses_on else txt_se_responses_off),
     plain_toggle txt_se_sessions txt_se_sessions_text (sf_persistContinuationSessions f)
       (\<lambda>b. f\<lparr>sf_persistContinuationSessions := b\<rparr>)
       (if sf_persistContinuationSessions f then txt_se_sessions_on else txt_se_sessions_off),
     plain_toggle (js ''ST Binding'') txt_se_bindings_text (sf_persistSillyTavernBindings f)
       (\<lambda>b. f\<lparr>sf_persistSillyTavernBindings := b\<rparr>)
       (if sf_persistSillyTavernBindings f then txt_se_bindings_on else txt_se_bindings_off)])"

definition operational_notes :: "bool \<Rightarrow> settings \<Rightarrow> screen" where
  "operational_notes password_set s = Subsection txt_se_checklist txt_se_checklist_text [] [
     MetaTile txt_se_password_state (if password_set then txt_se_has_password else txt_se_no_password),
     MetaTile txt_se_session_dir (or_str (trim (sf_loginSessionsDir (st_form s))) txt_se_default_dir),
     MetaTile txt_se_advice (if persistenceEnabledCount s > 0
       then txt_se_advice_some @ nat_str (persistenceEnabledCount s) @ txt_se_advice_of else txt_se_advice_none)]"

definition security_section :: "bool \<Rightarrow> jsstr \<Rightarrow> settings \<Rightarrow> screen" where
  "security_section password_set active s =
     SectionShell active ''security-admin'' ''Security'' txt_se_security txt_se_security_text []
       [admin_login password_set (st_form s), persistence_toggles (st_form s), operational_notes password_set s]"

definition advanced_section :: "jsstr \<Rightarrow> settings_form \<Rightarrow> screen" where
  "advanced_section active f = SectionShell active ''advanced-json'' ''Advanced'' txt_se_advanced txt_se_advanced_text [] [
     Subsection txt_se_debug txt_se_debug_text [] [ToggleTile (plain_toggle (js ''Debug Upstream'') txt_se_debug_hint
       (sf_debugUpstream f) (\<lambda>b. f\<lparr>sf_debugUpstream := b\<rparr>) [])],
     Subsection txt_se_lists txt_se_lists_text [] [FieldBlock (js ''Search Scopes'') txt_se_scopes_text
       [text_input Multi_line (sf_searchScopes f) (\<lambda>t. f\<lparr>sf_searchScopes := t\<rparr>)]],
     Subsection txt_se_json txt_se_json_text [] [FieldBlock (js ''Model Aliases (JSON)'') txt_se_aliases_text
       [text_input Multi_line (sf_modelAliases f) (\<lambda>t. f\<lparr>sf_modelAliases := t\<rparr>)]]]"

section \<open>The panel\<close>

definition settings_utilities :: "jsstr \<Rightarrow> settings \<Rightarrow> screen" where
  "settings_utilities active s = (if active \<noteq> js ''configuration-files'' then Group [] else Group [
     InfoCard [Shown txt_se_snapshot_card] txt_se_snapshot_card_text [] [
       Shown (js ''Config File''), File_choice txt_se_import False (\<lambda>name. Act (V_import name)),
       Button txt_se_export False (Act (V_action Export_config)),
       Shown (js ''Snapshots''), Button txt_se_create False (Act (V_action Create_snapshot)),
       Button txt_se_list False (Act (V_action List_snapshots))],
     JsonPreview txt_se_output (st_output s) (Some (st_output s))])"

definition settings_header :: "settings \<Rightarrow> screen" where
  "settings_header s = PanelHeader txt_tab_settings txt_se_intro ([Shown (status_text s)] @
     (if settings_dirty s then [Button txt_se_discard (st_saving s) (Act V_discard)] else []) @
     [Button (if st_saving s then txt_saving_dots else txt_se_save) (st_saving s) (Act V_save)])"

definition settings_sections :: "jsstr \<Rightarrow> (jsstr \<Rightarrow> jsstr option) \<Rightarrow> bool \<Rightarrow> jsstr \<Rightarrow> settings \<Rightarrow> screen list" where
  "settings_sections now host_of password_set active s = [
     runtime_section active s, upstream_section host_of active (st_form s), behavior_section active (st_form s),
     prompt_section now active s, security_section password_set active s, advanced_section active (st_form s)]"

definition settings_view :: "jsstr \<Rightarrow> (jsstr \<Rightarrow> jsstr option) \<Rightarrow> bool \<Rightarrow> jsstr \<Rightarrow> settings \<Rightarrow> screen" where
  "settings_view now host_of password_set active s = Group ([settings_header s, SectionNav] @
     settings_sections now host_of password_set active s @ [settings_utilities active s])"

end
