(* ===== verification/Settings_Screen.thy ===== *)
theory Settings_Screen imports Settings_View Settings_Facts begin

text \<open>
  What the settings panel offers is what its transitions allow: the events of the view against \<open>settings_enabled\<close>, every
  control against the field it shows, and every form against the controls that lead to it.
\<close>

section \<open>The events of the view\<close>

lemmas field_defs = FieldBlock_def text_input_def input_hint_def ToggleTile_def plain_toggle_def edit_def
lemmas section_defs = gateway_entry_def runtime_rhythm_def runtime_section_def upstream_endpoint_def proxy_inheritance_def
  upstream_section_def guardToggles_def capabilityToggles_def behavior_section_def strategy_actions_def strategy_routing_def
  root_prompt_def profile_bodies_def strategy_test_inputs_def strategy_test_def retry_blocks_def prompt_section_def admin_login_def
  persistence_toggles_def operational_notes_def security_section_def advanced_section_def

lemma section_events [simp]:
  "events (SectionShell active i eyebrow title d actions children) =
     (if active = js i then (\<Union>v\<in>set actions. events v) \<union> (\<Union>v\<in>set children. events v) else {})"
  by (auto simp: SectionShell_def InfoCard_def)

lemma subsection_events [simp]:
  "events (Subsection title d actions children) = (\<Union>v\<in>set actions. events v) \<union> (\<Union>v\<in>set children. events v)"
  by (auto simp: Subsection_def)

lemma block_events [simp]: "events (FieldBlock label d children) = (\<Union>v\<in>set children. events v)"
  by (auto simp: FieldBlock_def)

lemma tile_events [simp]: "events (MetaTile label v) = {}"
  by (auto simp: MetaTile_def)

lemma toggle_events [simp]: "events (ToggleTile c) = (if tg_disabled c then {} else {edit (tg_onChange c (\<not> tg_value c))})"
  by (auto simp: ToggleTile_def)

lemma input_events [simp]: "events (text_input k v f) = range (\<lambda>t. edit (f t))" "events (input_hint v p f) = range (\<lambda>t. edit (f t))"
  by (simp_all add: text_input_def input_hint_def)

text \<open>The events that change the form, one field of it.\<close>

definition edits_form :: "settings_form \<Rightarrow> settings_act \<Rightarrow> bool" where
  "edits_form f e \<longleftrightarrow> (\<exists>g. e = edit g \<and> form_change_allowed f g)"

definition edits_of :: "settings_form \<Rightarrow> settings_act set \<Rightarrow> bool" where
  "edits_of f es \<longleftrightarrow> (\<forall>e\<in>es. edits_form f e)"

lemma edits_of_sets [simp]:
  "edits_of f {}" "edits_of f (A \<union> B) \<longleftrightarrow> edits_of f A \<and> edits_of f B" "edits_of f (insert e A) \<longleftrightarrow> edits_form f e \<and> edits_of f A"
  "edits_of f (\<Union>v\<in>set vs. events v) \<longleftrightarrow> (\<forall>v\<in>set vs. edits_of f (events v))"
  by (auto simp: edits_of_def)

lemma edits_form_edit [simp]: "edits_form f (edit g) \<longleftrightarrow> form_change_allowed f g"
  by (simp add: edits_form_def edit_def)

lemma edits_of_images [simp]: "edits_of f (range (\<lambda>t. edit (h t))) \<longleftrightarrow> (\<forall>t. form_change_allowed f (h t))"
  "edits_of f ((\<lambda>t. edit (h t)) ` A) \<longleftrightarrow> (\<forall>t\<in>A. form_change_allowed f (h t))"
  by (simp_all add: edits_of_def)

lemma runtime_edits: "edits_of (st_form s) (events (runtime_section active s))"
  by (simp add: runtime_section_def gateway_entry_def runtime_rhythm_def Let_def form_change_allowed_def)

lemma upstream_edits: "edits_of f (events (upstream_section h active f))"
  by (simp add: upstream_section_def upstream_endpoint_def proxy_inheritance_def form_change_allowed_def)

lemma behavior_edits: "edits_of f (events (behavior_section active f))"
  by (simp add: behavior_section_def guardToggles_def capabilityToggles_def plain_toggle_def form_change_allowed_def)

lemma security_edits: "edits_of (st_form s) (events (security_section pw active s))"
  by (simp add: security_section_def admin_login_def persistence_toggles_def plain_toggle_def operational_notes_def
      form_change_allowed_def)

lemma advanced_edits: "edits_of f (events (advanced_section active f))"
  by (simp add: advanced_section_def plain_toggle_def form_change_allowed_def)

lemma prompt_test_events:
  "(\<Union>v\<in>set (strategy_test_inputs s). events v) = range (\<lambda>t. Act (V_test_prompt t)) \<union> (\<lambda>m. Act (V_test_model m)) ` mi_id ` set (settings_model_options s) \<union>
     {Act (V_test_search (\<not> st_test_search s))} \<union> (if st_testing s \<or> trim (st_test_prompt s) = [] then {} else {Act V_test})"
  by (auto simp: strategy_test_inputs_def model_choices_def image_image)

lemma prompt_forms: "edits_of f (events (strategy_routing f))" "edits_of f (events (root_prompt f))" "edits_of f (events (profile_bodies f))"
  "edits_of f (events (retry_blocks f))"
  by (simp_all add: strategy_routing_def root_prompt_def profile_bodies_def retry_blocks_def PROMPT_PROFILE_OPTIONS_def
      form_change_allowed_def)

lemma not_an_edit: "edits_of f A \<Longrightarrow> Act e \<in> A \<Longrightarrow> \<exists>g. e = V_edit g \<and> form_change_allowed f g"
  by (auto simp: edits_of_def edits_form_def edit_def)

lemma prompt_acts:
  "Act e \<in> events (prompt_section now active s) \<Longrightarrow> (\<exists>g. e = V_edit g \<and> form_change_allowed (st_form s) g) \<or>
     active = js ''prompt-strategy'' \<and> (e = V_default_strategy \<or> e = V_download now \<or> (\<exists>n. e = V_strategy n) \<or> (\<exists>t. e = V_test_prompt t) \<or>
       (\<exists>m. e = V_test_model m \<and> m \<in> mi_id ` set (settings_model_options s)) \<or> e = V_test_search (\<not> st_test_search s) \<or>
       e = V_test \<and> \<not> st_testing s \<and> trim (st_test_prompt s) \<noteq> [])"
  using not_an_edit [OF prompt_forms(1)] not_an_edit [OF prompt_forms(2)] not_an_edit [OF prompt_forms(3)] not_an_edit [OF prompt_forms(4)]
  by (auto simp: prompt_section_def Let_def strategy_test_def prompt_test_events strategy_actions_def split: if_splits)

lemma prompt_offers:
  fixes now s defines "A \<equiv> events (prompt_section now (js ''prompt-strategy'') s)"
  shows "Act V_default_strategy \<in> A" "Act (V_download now) \<in> A" "Act (V_strategy n) \<in> A" "Act (V_test_prompt t) \<in> A"
    "m \<in> mi_id ` set (settings_model_options s) \<Longrightarrow> Act (V_test_model m) \<in> A" "Act (V_test_search (\<not> st_test_search s)) \<in> A"
    "\<not> st_testing s \<Longrightarrow> trim (st_test_prompt s) \<noteq> [] \<Longrightarrow> Act V_test \<in> A"
  by (simp_all add: A_def prompt_section_def Let_def strategy_test_def prompt_test_events strategy_actions_def)

lemma utilities_events: "events (settings_utilities active s) = (if active = js ''configuration-files''
    then range (\<lambda>n. Act (V_import n)) \<union> {Act (V_action Export_config), Act (V_action Create_snapshot), Act (V_action List_snapshots)} else {})"
  by (auto simp: settings_utilities_def InfoCard_def JsonPreview_def)

lemma header_events: "events (settings_header s) = (if st_saving s then {} else {Act V_save} \<union> (if settings_dirty s then {Act V_discard} else {}))"
  by (auto simp: settings_header_def PanelHeader_def)

lemma nav_events: "events SectionNav = Jump ` sm_id ` set SECTIONS"
  by (auto simp: SectionNav_def)

section \<open>What is offered and what is allowed\<close>

text \<open>What does not come from the user, or is no change of the control, is not asked of the view.\<close>

fun by_hand :: "jsstr \<Rightarrow> settings \<Rightarrow> settings_event \<Rightarrow> bool" where
  "by_hand now s (V_config p) = False"
| "by_hand now s (V_reply t r) = False"
| "by_hand now s (V_edit f) = False"
| "by_hand now s (V_test_search b) = (b = (\<not> st_test_search s))"
| "by_hand now s (V_download t) = (t = now)"
| "by_hand now s e = True"

lemma view_events: "events (settings_view now h pw active s) = events (settings_header s) \<union> events SectionNav \<union>
    events (runtime_section active s) \<union> events (upstream_section h active (st_form s)) \<union> events (behavior_section active (st_form s)) \<union>
    events (prompt_section now active s) \<union> events (security_section pw active s) \<union> events (advanced_section active (st_form s)) \<union>
    events (settings_utilities active s)"
  by (simp add: settings_view_def settings_sections_def Un_assoc)

lemma offered_is_enabled:
  assumes "Act e \<in> events (settings_view now h pw active s)"
  shows "settings_enabled e s \<and> ((\<exists>f. e = V_edit f) \<or> by_hand now s e)"
proof -
  note edits = not_an_edit [OF runtime_edits] not_an_edit [OF upstream_edits] not_an_edit [OF behavior_edits]
    not_an_edit [OF security_edits] not_an_edit [OF advanced_edits]
  from assms consider "Act e \<in> events (settings_header s)" | "\<exists>g. e = V_edit g \<and> form_change_allowed (st_form s) g"
    | "Act e \<in> events (prompt_section now active s)" | "Act e \<in> events (settings_utilities active s)"
    unfolding view_events using edits by (auto simp: nav_events)
  then show ?thesis
  proof cases
    case 3
    then show ?thesis by (auto dest!: prompt_acts)
  qed (auto simp: header_events utilities_events split: if_splits)
qed

lemma section_ids: "sm_id ` set SECTIONS = {js ''service-runtime'', js ''upstream-connection'', js ''behavior-capabilities'',
    js ''prompt-strategy'', js ''security-admin'', js ''advanced-json'', js ''configuration-files''}"
  by (simp add: SECTIONS_def section_of_def)

lemma enabled_is_offered:
  assumes "settings_enabled e s" and "by_hand now s e"
  shows "\<exists>active\<in>sm_id ` set SECTIONS. Act e \<in> events (settings_view now h pw active s)"
proof -
  have "Act e \<in> events (settings_header s) \<or> Act e \<in> events (prompt_section now (js ''prompt-strategy'') s) \<or>
      Act e \<in> events (settings_utilities (js ''configuration-files'') s)"
  proof (cases e)
    case (V_action a)
    then show ?thesis by (cases a) (simp_all add: utilities_events)
  qed (use assms in \<open>simp_all add: prompt_offers header_events utilities_events\<close>)
  then show ?thesis unfolding view_events section_ids by blast
qed


section \<open>Each control holds its own field\<close>

definition settings_controls :: "jsstr \<Rightarrow> (jsstr \<Rightarrow> jsstr option) \<Rightarrow> bool \<Rightarrow> settings \<Rightarrow> screen list" where
  "settings_controls now h pw s = concat (List.map (\<lambda>m. controls (settings_view now h pw (sm_id m) s)) SECTIONS)"

definition screen_values :: "jsstr \<Rightarrow> (jsstr \<Rightarrow> jsstr option) \<Rightarrow> bool \<Rightarrow> settings \<Rightarrow> field_value list" where
  "screen_values now h pw s = List.map held (settings_controls now h pw s)"

lemma section_fields [simp]: "controls (SectionShell active i eyebrow title d actions children) =
    (if active = js i then concat (List.map controls actions) @ concat (List.map controls children) else [])"
  by (simp add: SectionShell_def InfoCard_def)

lemma subsection_fields [simp]: "controls (Subsection title d actions children) = concat (List.map controls actions) @ concat (List.map controls children)"
  by (simp add: Subsection_def)

lemma block_fields [simp]: "controls (FieldBlock label d children) = concat (List.map controls children)" "controls (MetaTile label v) = []"
  "controls (ToggleTile c) = [Switch (tg_value c) (tg_disabled c) (\<lambda>b. edit (tg_onChange c b))]"
  by (simp_all add: FieldBlock_def MetaTile_def ToggleTile_def)

lemma plain_fields [simp]: "controls (settings_header s) = []" "controls SectionNav = []" "controls (settings_utilities active s) = []"
  by (simp_all add: settings_header_def PanelHeader_def SectionNav_def settings_utilities_def InfoCard_def JsonPreview_def SECTIONS_def)

lemma screen_values: "screen_values now h pw s = (let f = st_form s in List.map Text_value [sf_host f, sf_port f, sf_apiKey f, currentModel s,
    sf_timeoutSec f, sf_responsesTTL f, sf_pollInterval f, sf_pollRounds f, sf_chunkRunes f, sf_upstreamBaseURL f, sf_upstreamOrigin f,
    sf_upstreamHost f, sf_upstreamTLSServerName f] @ List.map Flag_value [sf_upstreamUseEnvProxy f, sf_forceDisableUpstreamEdits f,
    sf_forceFreshThreadPerRequest f, sf_readOnly f, sf_writerMode f, sf_useWebSearch f, sf_generateImage f, sf_enableCsv f] @
    List.map Text_value [sf_aiSurface f, sf_threadType f, sf_promptProfile f, sf_fallbackProfiles f, sf_maxEscalationSteps f,
    sf_maxRefusalRetries f, sf_customPromptPrefix f, sf_cognitiveReframingPrefix f, sf_toolboxCapabilityExpansionPrefix f,
    st_test_prompt s, st_test_model s] @ [Flag_value (st_test_search s)] @ List.map Text_value [sf_codingRetryPrefixes f,
    sf_generalRetryPrefixes f, sf_directAnswerRetryPrefixes f, sf_adminPassword f, sf_adminTTL f, sf_loginSessionsDir f,
    sf_loginTimeoutSec f, sf_sqlitePath f] @ List.map Flag_value [sf_persistConversationSnapshots f, sf_persistResponses f,
    sf_persistContinuationSessions f, sf_persistSillyTavernBindings f, sf_debugUpstream f] @ List.map Text_value [sf_searchScopes f, sf_modelAliases f])"
  by (simp add: screen_values_def settings_controls_def SECTIONS_def section_of_def settings_view_def settings_sections_def section_defs
      text_input_def input_hint_def plain_toggle_def PROMPT_PROFILE_OPTIONS_def Let_def)

fun screen_apply :: "settings_act \<Rightarrow> settings \<Rightarrow> settings" where
  "screen_apply (Jump i) s = s"
| "screen_apply (Act e) s = settings_apply e s"

lemma option_id: "[] \<notin> mi_id ` set (sp_models (st_props s)) \<Longrightarrow> m \<in> set (settings_model_options s) \<Longrightarrow> mi_id m \<noteq> []"
  by (auto simp: settings_model_options_def Let_def image_def split: if_splits)

lemmas controls_eq = settings_controls_def SECTIONS_def section_of_def settings_view_def settings_sections_def section_defs
  text_input_def input_hint_def plain_toggle_def PROMPT_PROFILE_OPTIONS_def Let_def

lemma settings_hold_own:
  assumes "[] \<notin> mi_id ` set (sp_models (st_props s))"
  shows "holds_own (\<lambda>e. screen_values now h pw (screen_apply e s)) [] (settings_controls now h pw s) (screen_values now h pw s)"
  using assms
  apply (simp only: screen_values [of _ _ _ s] Let_def)
  apply (simp add: controls_eq split del: if_split)
  apply (intro holds_own.intros)
  apply (simp_all add: edit_def screen_values Let_def currentModel_def or_str_def model_choices_def split: field_value.splits)
  apply (auto dest: option_id)
  done



end
