(* ===== verification/Settings_By_Hand.thy ===== *)
theory Settings_By_Hand imports Settings_Screen begin

text \<open>
  Every form can be made with the controls of the settings panel, one field after the other, with the effects running
  after each: what the transition system does in one step for any change of the form (\<open>V_edit\<close>) a user can do by hand.
\<close>

text \<open>The controls of the whole panel, the sections one after the other.\<close>

definition offered :: "settings \<Rightarrow> settings_event \<Rightarrow> bool" where
  "offered s e \<longleftrightarrow> (\<forall>now h pw. \<exists>section\<in>sm_id ` set SECTIONS. Act e \<in> events (settings_view now h pw section s))"

inductive by_controls :: "settings \<Rightarrow> settings \<Rightarrow> bool" where
  untouched: "by_controls s s"
| touched: "by_controls s s' \<Longrightarrow> offered s' e \<Longrightarrow> by_controls s (settings_commit (settings_apply e s'))"

lemma by_controls_trans: "by_controls s' s'' \<Longrightarrow> by_controls s s' \<Longrightarrow> by_controls s s''"
  by (induction rule: by_controls.induct) (auto intro: by_controls.intros)

text \<open>The panel holds the form \<open>f\<close>, and there is no other configuration to adopt.\<close>

definition holds_form :: "settings_props \<Rightarrow> settings_form \<Rightarrow> settings \<Rightarrow> bool" where
  "holds_form p f s \<longleftrightarrow> st_form s = f \<and> st_synced s = config_version s \<and> st_props s = p"

definition hand :: "settings_props \<Rightarrow> settings_form \<Rightarrow> settings_form \<Rightarrow> bool" where
  "hand p f g \<longleftrightarrow> (\<forall>s. holds_form p f s \<longrightarrow> (\<exists>s'. by_controls s s' \<and> holds_form p g s'))"

lemma hand_refl [simp]: "hand p f f"
  by (auto simp: hand_def intro: untouched)

lemma hand_trans: "hand p f g \<Longrightarrow> hand p g k \<Longrightarrow> hand p f k"
  unfolding hand_def using by_controls_trans by blast

lemma round_holds: "holds_form p f s \<Longrightarrow> locked_form f \<Longrightarrow> holds_form p f (settings_round s)"
  by (auto simp: holds_form_def round_form synced_form_same round_synced forced_def lock_form_same config_version_def)

lemma hand_edit:
  assumes "\<And>s. holds_form p f s \<Longrightarrow> offered s (V_edit g)" and "locked_form g"
  shows "hand p f g"
  unfolding hand_def
proof (intro allI impI)
  fix s
  assume s: "holds_form p f s"
  have "holds_form p g (settings_apply (V_edit g) s)" using s by (simp add: holds_form_def config_version_def)
  then have "holds_form p g (settings_commit (settings_apply (V_edit g) s))"
    using round_holds assms(2) by (simp add: settings_commit_def)
  then show "\<exists>s'. by_controls s s' \<and> holds_form p g s'"
    using touched [OF untouched assms(1) [OF s]] by blast
qed

lemma offered_in:
  assumes "\<And>now h pw. edit g \<in> events (runtime_section (js ''service-runtime'') s) \<union> events (upstream_section h (js ''upstream-connection'') (st_form s)) \<union>
    events (behavior_section (js ''behavior-capabilities'') (st_form s)) \<union> events (prompt_section now (js ''prompt-strategy'') s) \<union>
    events (security_section pw (js ''security-admin'') s) \<union> events (advanced_section (js ''advanced-json'') (st_form s))"
  shows "offered s (V_edit g)"
  using assms unfolding offered_def view_events section_ids edit_def by fast

section \<open>Which section has the control of which field\<close>

lemma runtime_fields_offered:
  fixes s
  defines "f \<equiv> st_form s" and "A \<equiv> events (runtime_section (js ''service-runtime'') s)"
  shows
    "edit (f\<lparr>sf_host := t\<rparr>) \<in> A" "edit (f\<lparr>sf_port := t\<rparr>) \<in> A"
    "edit (f\<lparr>sf_apiKey := t\<rparr>) \<in> A" "edit (f\<lparr>sf_timeoutSec := t\<rparr>) \<in> A"
    "edit (f\<lparr>sf_responsesTTL := t\<rparr>) \<in> A" "edit (f\<lparr>sf_pollInterval := t\<rparr>) \<in> A"
    "edit (f\<lparr>sf_pollRounds := t\<rparr>) \<in> A" "edit (f\<lparr>sf_chunkRunes := t\<rparr>) \<in> A"
  by (auto simp: A_def f_def runtime_section_def gateway_entry_def runtime_rhythm_def Let_def)

lemma upstream_fields_offered:
  fixes s h
  defines "f \<equiv> st_form s" and "A \<equiv> events (upstream_section h (js ''upstream-connection'') (st_form s))"
  shows
    "edit (f\<lparr>sf_upstreamBaseURL := t\<rparr>) \<in> A" "edit (f\<lparr>sf_upstreamOrigin := t\<rparr>) \<in> A"
    "edit (f\<lparr>sf_upstreamHost := t\<rparr>) \<in> A" "edit (f\<lparr>sf_upstreamTLSServerName := t\<rparr>) \<in> A"
    "edit (f\<lparr>sf_upstreamUseEnvProxy := \<not> sf_upstreamUseEnvProxy f\<rparr>) \<in> A"
  by (auto simp: A_def f_def upstream_section_def upstream_endpoint_def proxy_inheritance_def)

lemma behavior_fields_offered:
  fixes s
  defines "f \<equiv> st_form s" and "A \<equiv> events (behavior_section (js ''behavior-capabilities'') (st_form s))"
  shows
    "edit (f\<lparr>sf_aiSurface := t\<rparr>) \<in> A" "edit (f\<lparr>sf_threadType := t\<rparr>) \<in> A"
    "edit (f\<lparr>sf_forceDisableUpstreamEdits := \<not> sf_forceDisableUpstreamEdits f\<rparr>) \<in> A"
    "edit (f\<lparr>sf_forceFreshThreadPerRequest := \<not> sf_forceFreshThreadPerRequest f\<rparr>) \<in> A"
    "edit (f\<lparr>sf_useWebSearch := \<not> sf_useWebSearch f\<rparr>) \<in> A"
    "edit (f\<lparr>sf_generateImage := \<not> sf_generateImage f\<rparr>) \<in> A"
    "edit (f\<lparr>sf_enableCsv := \<not> sf_enableCsv f\<rparr>) \<in> A"
  by (auto simp: A_def f_def behavior_section_def guardToggles_def capabilityToggles_def plain_toggle_def)

lemma prompt_fields_offered:
  fixes s now
  defines "f \<equiv> st_form s" and "A \<equiv> events (prompt_section now (js ''prompt-strategy'') s)"
  shows
    "edit (f\<lparr>sf_fallbackProfiles := t\<rparr>) \<in> A" "edit (f\<lparr>sf_maxEscalationSteps := t\<rparr>) \<in> A"
    "edit (f\<lparr>sf_maxRefusalRetries := t\<rparr>) \<in> A" "edit (f\<lparr>sf_customPromptPrefix := t\<rparr>) \<in> A"
    "edit (f\<lparr>sf_cognitiveReframingPrefix := t\<rparr>) \<in> A"
    "edit (f\<lparr>sf_toolboxCapabilityExpansionPrefix := t\<rparr>) \<in> A"
    "edit (f\<lparr>sf_codingRetryPrefixes := t\<rparr>) \<in> A" "edit (f\<lparr>sf_generalRetryPrefixes := t\<rparr>) \<in> A"
    "edit (f\<lparr>sf_directAnswerRetryPrefixes := t\<rparr>) \<in> A"
  by (auto simp: A_def f_def prompt_section_def strategy_routing_def root_prompt_def profile_bodies_def retry_blocks_def profile_choices_def PROMPT_PROFILE_OPTIONS_def Let_def)

lemma security_fields_offered:
  fixes s pw
  defines "f \<equiv> st_form s" and "A \<equiv> events (security_section pw (js ''security-admin'') s)"
  shows
    "edit (f\<lparr>sf_adminPassword := t\<rparr>) \<in> A" "edit (f\<lparr>sf_adminTTL := t\<rparr>) \<in> A"
    "edit (f\<lparr>sf_loginSessionsDir := t\<rparr>) \<in> A" "edit (f\<lparr>sf_loginTimeoutSec := t\<rparr>) \<in> A"
    "edit (f\<lparr>sf_sqlitePath := t\<rparr>) \<in> A"
    "edit (f\<lparr>sf_persistConversationSnapshots := \<not> sf_persistConversationSnapshots f\<rparr>) \<in> A"
    "edit (f\<lparr>sf_persistResponses := \<not> sf_persistResponses f\<rparr>) \<in> A"
    "edit (f\<lparr>sf_persistContinuationSessions := \<not> sf_persistContinuationSessions f\<rparr>) \<in> A"
    "edit (f\<lparr>sf_persistSillyTavernBindings := \<not> sf_persistSillyTavernBindings f\<rparr>) \<in> A"
  by (auto simp: A_def f_def security_section_def admin_login_def persistence_toggles_def plain_toggle_def)

lemma advanced_fields_offered:
  fixes s
  defines "f \<equiv> st_form s" and "A \<equiv> events (advanced_section (js ''advanced-json'') (st_form s))"
  shows
    "edit (f\<lparr>sf_debugUpstream := \<not> sf_debugUpstream f\<rparr>) \<in> A"
    "edit (f\<lparr>sf_searchScopes := t\<rparr>) \<in> A" "edit (f\<lparr>sf_modelAliases := t\<rparr>) \<in> A"
  by (auto simp: A_def f_def advanced_section_def plain_toggle_def)

lemma choices_offered:
  "m \<in> mi_id ` set (sp_models (st_props s)) \<Longrightarrow>
     edit (st_form s\<lparr>sf_defaultModel := m\<rparr>) \<in> events (runtime_section (js ''service-runtime'') s)"
  "t \<in> fst ` set profile_choices \<Longrightarrow> edit (st_form s\<lparr>sf_promptProfile := t\<rparr>) \<in> events (prompt_section now (js ''prompt-strategy'') s)"
proof -
  have choice: "h t \<in> (h \<circ> fst) ` set os" if "t \<in> fst ` set os" for h :: "jsstr \<Rightarrow> settings_act" and os :: "(jsstr \<times> jsstr) list" and t
    using that by (auto simp: image_iff)
  show "edit (st_form s\<lparr>sf_defaultModel := m\<rparr>) \<in> events (runtime_section (js ''service-runtime'') s)"
    if "m \<in> mi_id ` set (sp_models (st_props s))"
  proof -
    have "m \<in> fst ` set (model_choices s)" using that
      by (auto simp: model_choices_def settings_model_options_def Let_def image_image)
    then show ?thesis by (auto simp: runtime_section_def gateway_entry_def Let_def)
  qed
  show "edit (st_form s\<lparr>sf_promptProfile := t\<rparr>) \<in> events (prompt_section now (js ''prompt-strategy'') s)"
    if "t \<in> fst ` set profile_choices"
    using that by (auto simp: prompt_section_def strategy_routing_def Let_def)
qed

lemma locked_switches_offered:
  assumes "\<not> sf_forceDisableUpstreamEdits (st_form s)"
  shows "edit (st_form s\<lparr>sf_readOnly := \<not> sf_readOnly (st_form s)\<rparr>) \<in> events (behavior_section (js ''behavior-capabilities'') (st_form s))"
    "edit (st_form s\<lparr>sf_writerMode := \<not> sf_writerMode (st_form s)\<rparr>) \<in> events (behavior_section (js ''behavior-capabilities'') (st_form s))"
  using assms by (auto simp: behavior_section_def guardToggles_def)

lemmas fields_offered = runtime_fields_offered upstream_fields_offered behavior_fields_offered prompt_fields_offered
  security_fields_offered advanced_fields_offered choices_offered locked_switches_offered

section \<open>By hand\<close>

text \<open>Any value of one field, while the two switches are not locked.\<close>

lemma hand_text:
  assumes "\<not> sf_forceDisableUpstreamEdits f"
  shows
    "hand p f (f\<lparr>sf_host := t\<rparr>)" "hand p f (f\<lparr>sf_port := t\<rparr>)"
    "hand p f (f\<lparr>sf_apiKey := t\<rparr>)" "hand p f (f\<lparr>sf_timeoutSec := t\<rparr>)"
    "hand p f (f\<lparr>sf_responsesTTL := t\<rparr>)" "hand p f (f\<lparr>sf_pollInterval := t\<rparr>)"
    "hand p f (f\<lparr>sf_pollRounds := t\<rparr>)" "hand p f (f\<lparr>sf_chunkRunes := t\<rparr>)"
    "hand p f (f\<lparr>sf_upstreamBaseURL := t\<rparr>)" "hand p f (f\<lparr>sf_upstreamOrigin := t\<rparr>)"
    "hand p f (f\<lparr>sf_upstreamHost := t\<rparr>)" "hand p f (f\<lparr>sf_upstreamTLSServerName := t\<rparr>)"
    "hand p f (f\<lparr>sf_aiSurface := t\<rparr>)" "hand p f (f\<lparr>sf_threadType := t\<rparr>)"
    "hand p f (f\<lparr>sf_fallbackProfiles := t\<rparr>)" "hand p f (f\<lparr>sf_maxEscalationSteps := t\<rparr>)"
    "hand p f (f\<lparr>sf_maxRefusalRetries := t\<rparr>)" "hand p f (f\<lparr>sf_customPromptPrefix := t\<rparr>)"
    "hand p f (f\<lparr>sf_cognitiveReframingPrefix := t\<rparr>)"
    "hand p f (f\<lparr>sf_toolboxCapabilityExpansionPrefix := t\<rparr>)" "hand p f (f\<lparr>sf_codingRetryPrefixes := t\<rparr>)"
    "hand p f (f\<lparr>sf_generalRetryPrefixes := t\<rparr>)" "hand p f (f\<lparr>sf_directAnswerRetryPrefixes := t\<rparr>)"
    "hand p f (f\<lparr>sf_adminPassword := t\<rparr>)" "hand p f (f\<lparr>sf_adminTTL := t\<rparr>)"
    "hand p f (f\<lparr>sf_loginSessionsDir := t\<rparr>)" "hand p f (f\<lparr>sf_loginTimeoutSec := t\<rparr>)"
    "hand p f (f\<lparr>sf_sqlitePath := t\<rparr>)" "hand p f (f\<lparr>sf_searchScopes := t\<rparr>)"
    "hand p f (f\<lparr>sf_modelAliases := t\<rparr>)"
  using assms
  by (auto intro!: hand_edit offered_in simp: holds_form_def locked_form_def fields_offered)

lemma hand_flip:
  assumes "\<not> sf_forceDisableUpstreamEdits f"
  shows
    "hand p f (f\<lparr>sf_upstreamUseEnvProxy := \<not> sf_upstreamUseEnvProxy f\<rparr>)"
    "hand p f (f\<lparr>sf_forceFreshThreadPerRequest := \<not> sf_forceFreshThreadPerRequest f\<rparr>)"
    "hand p f (f\<lparr>sf_useWebSearch := \<not> sf_useWebSearch f\<rparr>)"
    "hand p f (f\<lparr>sf_generateImage := \<not> sf_generateImage f\<rparr>)"
    "hand p f (f\<lparr>sf_enableCsv := \<not> sf_enableCsv f\<rparr>)"
    "hand p f (f\<lparr>sf_persistConversationSnapshots := \<not> sf_persistConversationSnapshots f\<rparr>)"
    "hand p f (f\<lparr>sf_persistResponses := \<not> sf_persistResponses f\<rparr>)"
    "hand p f (f\<lparr>sf_persistContinuationSessions := \<not> sf_persistContinuationSessions f\<rparr>)"
    "hand p f (f\<lparr>sf_persistSillyTavernBindings := \<not> sf_persistSillyTavernBindings f\<rparr>)"
    "hand p f (f\<lparr>sf_debugUpstream := \<not> sf_debugUpstream f\<rparr>)"
    "hand p f (f\<lparr>sf_readOnly := \<not> sf_readOnly f\<rparr>)"
    "hand p f (f\<lparr>sf_writerMode := \<not> sf_writerMode f\<rparr>)"
  using assms
  by (auto intro!: hand_edit offered_in simp: holds_form_def locked_form_def fields_offered)

lemma hand_flag:
  assumes "\<not> sf_forceDisableUpstreamEdits f"
  shows
    "hand p f (f\<lparr>sf_upstreamUseEnvProxy := b\<rparr>)" "hand p f (f\<lparr>sf_forceFreshThreadPerRequest := b\<rparr>)"
    "hand p f (f\<lparr>sf_useWebSearch := b\<rparr>)" "hand p f (f\<lparr>sf_generateImage := b\<rparr>)"
    "hand p f (f\<lparr>sf_enableCsv := b\<rparr>)" "hand p f (f\<lparr>sf_persistConversationSnapshots := b\<rparr>)"
    "hand p f (f\<lparr>sf_persistResponses := b\<rparr>)" "hand p f (f\<lparr>sf_persistContinuationSessions := b\<rparr>)"
    "hand p f (f\<lparr>sf_persistSillyTavernBindings := b\<rparr>)" "hand p f (f\<lparr>sf_debugUpstream := b\<rparr>)"
    "hand p f (f\<lparr>sf_readOnly := b\<rparr>)" "hand p f (f\<lparr>sf_writerMode := b\<rparr>)"
proof -
  note flip = hand_flip [OF assms, of p]
  show "hand p f (f\<lparr>sf_upstreamUseEnvProxy := b\<rparr>)" by (cases "b = sf_upstreamUseEnvProxy f") (use flip in auto)
  show "hand p f (f\<lparr>sf_forceFreshThreadPerRequest := b\<rparr>)" by (cases "b = sf_forceFreshThreadPerRequest f") (use flip in auto)
  show "hand p f (f\<lparr>sf_useWebSearch := b\<rparr>)" by (cases "b = sf_useWebSearch f") (use flip in auto)
  show "hand p f (f\<lparr>sf_generateImage := b\<rparr>)" by (cases "b = sf_generateImage f") (use flip in auto)
  show "hand p f (f\<lparr>sf_enableCsv := b\<rparr>)" by (cases "b = sf_enableCsv f") (use flip in auto)
  show "hand p f (f\<lparr>sf_persistConversationSnapshots := b\<rparr>)" by (cases "b = sf_persistConversationSnapshots f") (use flip in auto)
  show "hand p f (f\<lparr>sf_persistResponses := b\<rparr>)" by (cases "b = sf_persistResponses f") (use flip in auto)
  show "hand p f (f\<lparr>sf_persistContinuationSessions := b\<rparr>)" by (cases "b = sf_persistContinuationSessions f") (use flip in auto)
  show "hand p f (f\<lparr>sf_persistSillyTavernBindings := b\<rparr>)" by (cases "b = sf_persistSillyTavernBindings f") (use flip in auto)
  show "hand p f (f\<lparr>sf_debugUpstream := b\<rparr>)" by (cases "b = sf_debugUpstream f") (use flip in auto)
  show "hand p f (f\<lparr>sf_readOnly := b\<rparr>)" by (cases "b = sf_readOnly f") (use flip in auto)
  show "hand p f (f\<lparr>sf_writerMode := b\<rparr>)" by (cases "b = sf_writerMode f") (use flip in auto)
qed

definition copy_fields :: "settings_form \<Rightarrow> (settings_form \<Rightarrow> settings_form) list" where
  "copy_fields g = [
     \<lambda>f. f\<lparr>sf_host := sf_host g\<rparr>, \<lambda>f. f\<lparr>sf_port := sf_port g\<rparr>,
     \<lambda>f. f\<lparr>sf_apiKey := sf_apiKey g\<rparr>, \<lambda>f. f\<lparr>sf_timeoutSec := sf_timeoutSec g\<rparr>,
     \<lambda>f. f\<lparr>sf_responsesTTL := sf_responsesTTL g\<rparr>,
     \<lambda>f. f\<lparr>sf_pollInterval := sf_pollInterval g\<rparr>,
     \<lambda>f. f\<lparr>sf_pollRounds := sf_pollRounds g\<rparr>, \<lambda>f. f\<lparr>sf_chunkRunes := sf_chunkRunes g\<rparr>,
     \<lambda>f. f\<lparr>sf_upstreamBaseURL := sf_upstreamBaseURL g\<rparr>,
     \<lambda>f. f\<lparr>sf_upstreamOrigin := sf_upstreamOrigin g\<rparr>,
     \<lambda>f. f\<lparr>sf_upstreamHost := sf_upstreamHost g\<rparr>,
     \<lambda>f. f\<lparr>sf_upstreamTLSServerName := sf_upstreamTLSServerName g\<rparr>,
     \<lambda>f. f\<lparr>sf_aiSurface := sf_aiSurface g\<rparr>, \<lambda>f. f\<lparr>sf_threadType := sf_threadType g\<rparr>,
     \<lambda>f. f\<lparr>sf_fallbackProfiles := sf_fallbackProfiles g\<rparr>,
     \<lambda>f. f\<lparr>sf_maxEscalationSteps := sf_maxEscalationSteps g\<rparr>,
     \<lambda>f. f\<lparr>sf_maxRefusalRetries := sf_maxRefusalRetries g\<rparr>,
     \<lambda>f. f\<lparr>sf_customPromptPrefix := sf_customPromptPrefix g\<rparr>,
     \<lambda>f. f\<lparr>sf_cognitiveReframingPrefix := sf_cognitiveReframingPrefix g\<rparr>,
     \<lambda>f. f\<lparr>sf_toolboxCapabilityExpansionPrefix := sf_toolboxCapabilityExpansionPrefix g\<rparr>,
     \<lambda>f. f\<lparr>sf_codingRetryPrefixes := sf_codingRetryPrefixes g\<rparr>,
     \<lambda>f. f\<lparr>sf_generalRetryPrefixes := sf_generalRetryPrefixes g\<rparr>,
     \<lambda>f. f\<lparr>sf_directAnswerRetryPrefixes := sf_directAnswerRetryPrefixes g\<rparr>,
     \<lambda>f. f\<lparr>sf_adminPassword := sf_adminPassword g\<rparr>, \<lambda>f. f\<lparr>sf_adminTTL := sf_adminTTL g\<rparr>,
     \<lambda>f. f\<lparr>sf_loginSessionsDir := sf_loginSessionsDir g\<rparr>,
     \<lambda>f. f\<lparr>sf_loginTimeoutSec := sf_loginTimeoutSec g\<rparr>,
     \<lambda>f. f\<lparr>sf_sqlitePath := sf_sqlitePath g\<rparr>,
     \<lambda>f. f\<lparr>sf_searchScopes := sf_searchScopes g\<rparr>,
     \<lambda>f. f\<lparr>sf_modelAliases := sf_modelAliases g\<rparr>,
     \<lambda>f. f\<lparr>sf_upstreamUseEnvProxy := sf_upstreamUseEnvProxy g\<rparr>,
     \<lambda>f. f\<lparr>sf_forceFreshThreadPerRequest := sf_forceFreshThreadPerRequest g\<rparr>,
     \<lambda>f. f\<lparr>sf_useWebSearch := sf_useWebSearch g\<rparr>,
     \<lambda>f. f\<lparr>sf_generateImage := sf_generateImage g\<rparr>,
     \<lambda>f. f\<lparr>sf_enableCsv := sf_enableCsv g\<rparr>,
     \<lambda>f. f\<lparr>sf_persistConversationSnapshots := sf_persistConversationSnapshots g\<rparr>,
     \<lambda>f. f\<lparr>sf_persistResponses := sf_persistResponses g\<rparr>,
     \<lambda>f. f\<lparr>sf_persistContinuationSessions := sf_persistContinuationSessions g\<rparr>,
     \<lambda>f. f\<lparr>sf_persistSillyTavernBindings := sf_persistSillyTavernBindings g\<rparr>,
     \<lambda>f. f\<lparr>sf_debugUpstream := sf_debugUpstream g\<rparr>, \<lambda>f. f\<lparr>sf_readOnly := sf_readOnly g\<rparr>,
     \<lambda>f. f\<lparr>sf_writerMode := sf_writerMode g\<rparr>]"

lemma hand_all:
  assumes "\<And>u f. u \<in> set us \<Longrightarrow> \<not> sf_forceDisableUpstreamEdits f \<Longrightarrow> hand p f (u f) \<and> \<not> sf_forceDisableUpstreamEdits (u f)"
    and "\<not> sf_forceDisableUpstreamEdits f"
  shows "hand p f (fold (\<lambda>u. u) us f) \<and> \<not> sf_forceDisableUpstreamEdits (fold (\<lambda>u. u) us f)"
  using assms
proof (induction us arbitrary: f)
  case (Cons u us)
  have "hand p f (u f) \<and> \<not> sf_forceDisableUpstreamEdits (u f)" using Cons.prems by simp
  then show ?case using Cons.IH [of "u f"] Cons.prems(1) hand_trans by auto
qed simp

lemma copied_each: "\<not> sf_forceDisableUpstreamEdits f \<Longrightarrow>
    list_all (\<lambda>u. hand p f (u f) \<and> \<not> sf_forceDisableUpstreamEdits (u f)) (copy_fields g)"
  by (simp add: copy_fields_def hand_text hand_flag)

lemma copied_one: "u \<in> set (copy_fields g) \<Longrightarrow> \<not> sf_forceDisableUpstreamEdits f \<Longrightarrow> hand p f (u f) \<and> \<not> sf_forceDisableUpstreamEdits (u f)"
  using copied_each by (simp add: list_all_iff)

lemma copied: "fold (\<lambda>u. u) (copy_fields g) f = g\<lparr>sf_defaultModel := sf_defaultModel f, sf_promptProfile := sf_promptProfile f,
    sf_forceDisableUpstreamEdits := sf_forceDisableUpstreamEdits f\<rparr>"
  by (simp add: copy_fields_def)

lemma hand_choices:
  assumes "\<not> sf_forceDisableUpstreamEdits f"
  shows "m \<in> mi_id ` set (sp_models p) \<Longrightarrow> hand p f (f\<lparr>sf_defaultModel := m\<rparr>)"
    and "t \<in> fst ` set profile_choices \<Longrightarrow> hand p f (f\<lparr>sf_promptProfile := t\<rparr>)"
proof -
  show "hand p f (f\<lparr>sf_defaultModel := m\<rparr>)" if "m \<in> mi_id ` set (sp_models p)"
    using assms choices_offered(1) that
    by (intro hand_edit offered_in) (auto simp: holds_form_def locked_form_def simp del: image_iff)
  show "hand p f (f\<lparr>sf_promptProfile := t\<rparr>)" if "t \<in> fst ` set profile_choices"
  proof (intro hand_edit offered_in)
    show "locked_form (f\<lparr>sf_promptProfile := t\<rparr>)" using assms by (simp add: locked_form_def)
  qed (use choices_offered(2) [OF that] in \<open>auto simp: holds_form_def simp del: image_iff\<close>)
qed

lemma hand_force:
  "locked_form (f\<lparr>sf_forceDisableUpstreamEdits := \<not> sf_forceDisableUpstreamEdits f\<rparr>) \<Longrightarrow>
     hand p f (f\<lparr>sf_forceDisableUpstreamEdits := \<not> sf_forceDisableUpstreamEdits f\<rparr>)"
  by (intro hand_edit offered_in) (auto simp: holds_form_def fields_offered)

definition open_form :: "settings_form \<Rightarrow> settings_form" where
  "open_form f = f\<lparr>sf_forceDisableUpstreamEdits := False\<rparr>"



end
