(* ===== verification/Accounts_View.thy ===== *)
theory Accounts_View imports Accounts_Panel Views begin

text \<open>
  What the accounts panel shows (\<open>components/admin/accounts-panel.tsx\<close>, the markup): the list of accounts, the account that
  is selected with its three tabs, the tools and the dialog that adds an account.

  \<open>show\<close> is \<open>formatDateTime\<close> and \<open>sure\<close> the answer the operator would give to \<open>window.confirm\<close>; \<open>payload\<close> is the
  property the items come from. The model policy of the workspace and the quota of all accounts are components of their own.
  While the dialog is open the page behind it cannot be used.
\<close>

type_synonym accounts_act = "accounts_event screen_event"
type_synonym accounts_screen = "accounts_act view"

section \<open>Parts\<close>

definition num_or_zero :: "jsnum option \<Rightarrow> jsstr" where
  "num_or_zero n = num_str (case n of None \<Rightarrow> 0 | Some n \<Rightarrow> n)"

definition quotaText :: "bool option \<Rightarrow> jsnum option \<Rightarrow> jsnum option \<Rightarrow> jsstr" where
  "quotaText limited remaining hourly = (if \<not> opt_true limited then txt_unlimited_locally
     else num_or_zero remaining @ js ''/'' @ num_or_zero hourly @ txt_ac_per_hour)"

definition account_quota :: "account_item \<Rightarrow> jsstr" where
  "account_quota a = quotaText (acct_quota_limited a) (acct_remaining_quota a) (acct_hourly_quota a)"

definition workspace_quota :: "workspace_item \<Rightarrow> jsstr" where
  "workspace_quota w = quotaText (ws_quota_limited w) (ws_remaining_quota w) (ws_hourly_quota w)"

definition DetailField :: "jsstr \<Rightarrow> jsstr \<Rightarrow> accounts_screen list \<Rightarrow> accounts_screen" where
  "DetailField label hint children = Group ([Shown label] @ optional_text hint @ children)"

definition workspace_count :: "account_item \<Rightarrow> nat" where
  "workspace_count a = (case opt_list (acct_workspaces a) of [] \<Rightarrow> (if truthy (acct_space_id a) then 1 else 0) | ws \<Rightarrow> length ws)"

definition default_space :: "account_item \<Rightarrow> jsstr" where
  "default_space a = or_str (case List.find (\<lambda>w. opt_true (ws_default w)) (opt_list (acct_workspaces a)) of None \<Rightarrow> []
       | Some w \<Rightarrow> opt_str (ws_name w))
     (or_str (opt_str (acct_space_name a)) (or_str (opt_str (acct_space_id a)) (js ''-'')))"

definition AccountListItem :: "(jsstr \<Rightarrow> jsstr) \<Rightarrow> account_item \<Rightarrow> accounts_screen" where
  "AccountListItem show a = Group [Button (opt_str (acct_email a)) False (Act (E_select (opt_str (acct_email a)))),
     StatusPill (acct_status a), Shown (if opt_true (acct_active a) then js ''active'' else js ''standby''),
     Shown (if opt_true (acct_disabled a) then js ''disabled'' else js ''enabled''),
     Shown (txt_ac_spaces @ nat_str (workspace_count a)), Shown (txt_ac_default_space @ default_space a),
     Shown (js ''last login'' @ middle_dot @ formatMaybeDate show (acct_last_login_at a)), Shown (txt_ac_rate @ account_quota a)]"

definition runtimeCards :: "accounts_payload option \<Rightarrow> (jsstr \<times> jsstr) list" where
  "runtimeCards p = (let helper = Option.bind p ap_login_helper; session = Option.bind p ap_session;
       refresh = Option.bind p ap_session_refresh_runtime in
     [(txt_ac_active, or_str (opt_str (Option.bind p ap_active_account)) (js ''-'')),
      (txt_ac_state, if opt_true (Option.bind p ap_session_ready) then js ''READY'' else js ''NOT READY''),
      (js ''Helper'', js ''go-native'' @ middle_dot @ js ''timeout '' @
         num_str (case Option.bind helper lh_timeout_sec of None \<Rightarrow> 120 | Some n \<Rightarrow> if n = 0 then 120 else n) @ js ''s''),
      (js ''Sessions Dir'', or_str (opt_str (Option.bind helper lh_sessions_dir)) (js ''-'')),
      (txt_ac_space, or_str (opt_str (Option.bind session ss_space_name)) (or_str (opt_str (Option.bind session ss_space_id)) (js ''-''))),
      (txt_ac_refreshed, or_str (opt_str (Option.bind refresh sr_last_refresh_at))
         (or_str (opt_str (Option.bind refresh sr_last_error)) (js ''-'')))])"

section \<open>The account that is selected\<close>

definition title_of :: "workspace_item \<Rightarrow> jsstr" where
  "title_of w = workspaceTitle (ws_name w) (ws_id w)"

definition workspace_choices :: "workspace_item list \<Rightarrow> (jsstr \<times> jsstr) list" where
  "workspace_choices ws = List.map (\<lambda>w. (ws_id w, title_of w @ (if opt_true (ws_default w) then txt_ac_default else []) @
     (if opt_true (ws_active w) then txt_ac_current else []))) ws"

definition workspace_select :: "accounts \<Rightarrow> account_item \<Rightarrow> accounts_screen" where
  "workspace_select s a = (let ws = workspaceItems a in if ws = [] then Group [] else
     DetailField txt_ac_workspace txt_ac_workspace_text [Choice (case selectedWorkspace s of None \<Rightarrow> [] | Some w \<Rightarrow> ws_id w)
       (workspace_choices ws) (length ws < 2) (\<lambda>w. Act (E_select_ws w))])"

definition detail_tabs :: "(jsstr \<times> jsstr) list" where
  "detail_tabs = [(js ''scheduling'', txt_ac_tab_scheduling), (js ''models'', txt_ac_tab_models), (js ''details'', txt_ac_tab_details)]"

definition tab_buttons :: accounts_screen where
  "tab_buttons = Group (List.map (\<lambda>(i, label). Button label False (Jump i)) detail_tabs)"

definition scheduling :: "accounts \<Rightarrow> accounts_screen" where
  "scheduling s = (let e = selectedEdit s; saving = an_saving s in Subsection txt_ac_limits txt_ac_limits_text [] [
     DetailField txt_ac_priority []
       [Input Number_input (num_str (ae_priority e)) [] saving (\<lambda>t. Act (E_limit (Priority_input t)))],
     DetailField txt_ac_hourly txt_ac_hourly_text
       [Input Number_input (num_str (ae_hourly e)) [] saving (\<lambda>t. Act (E_limit (Hourly_input t)))],
     DetailField txt_ac_concurrency txt_ac_concurrency_text
       [Input Number_input (num_str (ae_concurrency e)) [] saving (\<lambda>t. Act (E_limit (Concurrency_input t)))],
     Shown txt_ac_disable, Shown txt_ac_disable_text, Switch (selectedDisabled s) saving (\<lambda>b. Act (E_disabled b))])"

definition account_facts :: "(jsstr \<Rightarrow> jsstr) \<Rightarrow> workspace_item option \<Rightarrow> account_item \<Rightarrow> (jsstr \<times> jsstr option) list" where
  "account_facts show w a = [(js ''Email'', acct_email a), (js ''Status'', Some (or_str (opt_str (acct_status a)) (js ''-''))),
     (js ''User'', Some (or_str (opt_str (acct_user_name a)) (or_str (opt_str (acct_user_id a)) (js ''-'')))),
     (js ''Workspace'', Some (case w of Some w \<Rightarrow> title_of w @ js '' ('' @ ws_id w @ js '')''
        | None \<Rightarrow> or_str (opt_str (acct_space_name a)) (or_str (opt_str (acct_space_id a)) (js ''-'')))),
     (js ''Plan'', Some (or_str (opt_str (Option.bind w ws_plan_type)) (or_str (opt_str (acct_plan_type a)) (js ''-'')))),
     (js ''Last Login'', Some (formatMaybeDate show (acct_last_login_at a))),
     (js ''Client Version'', Some (or_str (opt_str (acct_client_version a)) (js ''-'')))]"

definition runtime_summary :: "(jsstr \<Rightarrow> jsstr) \<Rightarrow> workspace_item option \<Rightarrow> account_item \<Rightarrow> accounts_screen" where
  "runtime_summary show w a = Subsection txt_ac_runtime txt_ac_runtime_text [] (
     [MetaTile txt_ac_quota (case w of Some w \<Rightarrow> workspace_quota w | None \<Rightarrow> account_quota a),
      MetaTile txt_ac_total (num_str (case acct_account_max_concurrency a of None \<Rightarrow> 1 | Some n \<Rightarrow> if n = 0 then 1 else n))] @
     (if opt_true (acct_credential_cooldown_active a)
      then [MetaTile txt_ac_paused (formatMaybeDate show (acct_credential_cooldown_until a))] else []) @
     [MetaTile (js ''Cooldown'') (if opt_true (Option.bind w ws_cooldown_active)
        then num_or_zero (Option.bind w ws_cooldown_remaining_sec) @ js ''s'' else js ''ready''),
      MetaTile (js ''Success / Fail'') (num_or_zero (Option.bind w ws_total_successes) @ js '' / '' @
        num_or_zero (Option.bind w ws_total_failures)),
      MetaTile (js ''Last Used'') (formatMaybeDate show (if truthy (Option.bind w ws_last_used_at)
        then Option.bind w ws_last_used_at else acct_last_used_at a))])"

definition detail_tiles :: "account_item \<Rightarrow> accounts_screen list" where
  "detail_tiles a = (let login = acct_login_status a; tile = (\<lambda>label v. MetaTile (js label) (or_str (opt_str v) (js ''-''))) in
     [MetaTile (js ''Login Message'') (or_str (opt_str (Option.bind login ls_message))
        (or_str (opt_str (Option.bind login ls_error)) (js ''-''))),
      tile ''Last Error'' (acct_last_error a), tile ''Probe JSON'' (acct_probe_json a),
      tile ''Profile Dir'' (acct_profile_dir a), tile ''Storage State'' (acct_storage_state_path a)])"

definition account_details :: "(jsstr \<Rightarrow> jsstr) \<Rightarrow> accounts \<Rightarrow> account_item \<Rightarrow> accounts_screen" where
  "account_details show s a = Group ([KeyValueGrid (account_facts show (selectedWorkspace s) a),
     runtime_summary show (selectedWorkspace s) a] @ detail_tiles a)"

definition models_text :: "(jsstr \<Rightarrow> jsstr) \<Rightarrow> workspace_item option \<Rightarrow> jsstr" where
  "models_text show w = (let c = Option.bind w ws_model_capabilities in
     txt_ac_mode @ (case map_option mc_mode c of Some Auto_only \<Rightarrow> txt_ac_auto_only | Some Manual \<Rightarrow> txt_ac_manual | _ \<Rightarrow> txt_ac_unknown) @
     txt_ac_stop @ (if truthy (Option.bind c mc_checked_at)
       then txt_ac_checked @ formatMaybeDate show (Option.bind c mc_checked_at) else []))"

definition catalog_line :: "model_item \<Rightarrow> jsstr" where
  "catalog_line m = or_str (opt_str (mi_name m)) (mi_id m) @ txt_ac_effort @
     or_str (opt_str (mi_default_reasoning_effort m)) txt_unknown @
     (if truthy (mi_disabled_reason m) then txt_ac_unavailable @ opt_str (mi_disabled_reason m) else [])"

definition model_catalog :: "workspace_item option \<Rightarrow> accounts_screen" where
  "model_catalog w = (case Option.bind w ws_model_capabilities of None \<Rightarrow> Group []
     | Some c \<Rightarrow> Group ([Shown txt_ac_catalog, Shown txt_ac_catalog_text] @ List.map (\<lambda>m. Shown (catalog_line m))
         (case mc_catalog c of Some ms \<Rightarrow> ms | None \<Rightarrow> opt_list (mc_models c))))"

definition plan_text :: "workspace_item option \<Rightarrow> jsstr" where
  "plan_text w = (if opt_true (Option.bind w ws_eligible) then txt_ac_eligible
     else if opt_true (Option.bind w ws_ai_disabled) then txt_ac_ai_off
     else if starts_with (js ''workspace_plan_excluded'') (opt_str (Option.bind w ws_eligibility_reason)) then txt_ac_excluded
     else txt_ac_unconfirmed) @ txt_ac_not_all"

definition models_tab :: "(jsstr \<Rightarrow> jsstr) \<Rightarrow> accounts \<Rightarrow> accounts_screen" where
  "models_tab show s = (let w = selectedWorkspace s in Group [
     Button (if an_refreshing_models s then txt_ac_refreshing else txt_ac_refresh_models)
       (an_refreshing_models s \<or> w = None \<or> cooling_down s) (Act E_refresh_models),
     Shown (models_text show w), model_catalog w,
     Button (if an_refreshing_ws s then txt_ac_refreshing else txt_ac_refresh_plans)
       (an_refreshing_ws s \<or> cooling_down s) (Act E_refresh_workspaces),
     Shown (plan_text w)])"

definition account_buttons :: "bool \<Rightarrow> accounts \<Rightarrow> accounts_screen" where
  "account_buttons sure s = Group [
     Button (if an_saving s then txt_saving_dots else txt_ac_save) (an_saving s) (Act E_save),
     Button txt_ac_make_default (case selectedWorkspace s of None \<Rightarrow> True | Some w \<Rightarrow> opt_true (ws_default w)) (Act E_default),
     Button txt_ac_fill False (Act E_fill),
     Button txt_ac_activate False (Act E_activate),
     Button (if an_quick_testing s then txt_testing_dots else txt_ac_test_workspace) (an_quick_testing s) (Act E_test_selected),
     Button txt_ac_delete False (Act (E_delete sure))]"

definition selected_account_view :: "(jsstr \<Rightarrow> jsstr) \<Rightarrow> bool \<Rightarrow> jsstr \<Rightarrow> accounts \<Rightarrow> accounts_screen" where
  "selected_account_view show sure tab s = InfoCard [Shown txt_ac_detail] txt_ac_detail_text [] (case selectedAccount s of
     None \<Rightarrow> [EmptyHint txt_ac_choose txt_ac_choose_text]
   | Some a \<Rightarrow> [workspace_select s a, tab_buttons] @
       (if tab = js ''scheduling'' then [scheduling s] else []) @
       (if tab = js ''details'' then [account_details show s a] else []) @
       (if tab = js ''models'' then [models_tab show s] else []) @
       [account_buttons sure s])"

section \<open>The page\<close>

definition accounts_header :: accounts_screen where
  "accounts_header = PanelHeader txt_ac_title txt_ac_intro
     [Button txt_ac_add False (Act (E_add_open True)), Button txt_ac_refresh False (Act E_refresh)]"

definition draft_notice :: "accounts \<Rightarrow> accounts_screen" where
  "draft_notice s = (if accounts_dirty s then Group [Shown txt_ac_drafts, Button txt_se_discard False (Act E_discard)] else Group [])"

definition account_pool :: "(jsstr \<Rightarrow> jsstr) \<Rightarrow> accounts \<Rightarrow> accounts_screen" where
  "account_pool show s = InfoCard [Shown txt_ac_pool] (txt_ac_count_before @ nat_str (length (options_of s)) @ txt_ac_count_after) []
     (if options_of s = [] then [EmptyHint txt_ac_none txt_ac_none_text] else List.map (AccountListItem show) (options_of s))"

definition quick_test_fields :: "accounts \<Rightarrow> accounts_screen list" where
  "quick_test_fields s = (let ws = workspaces_by (an_quick_email s) (options_of s) in [
     DetailField (js ''Account'') [] [Choice (an_quick_email s) (List.map (\<lambda>a. (opt_str (acct_email a), opt_str (acct_email a))) (options_of s))
       (options_of s = []) (\<lambda>t. Act (E_quick_email t))]] @
     (if 1 < length ws then [DetailField txt_ac_workspace [] [Choice (an_quick_ws s)
       (List.map (\<lambda>w. (ws_id w, title_of w)) ws) False (\<lambda>t. Act (E_quick_ws t))]] else []) @ [
     DetailField (js ''Model'') [] [Choice (an_quick_model s)
       (List.map (\<lambda>m. (mi_id m, or_str (opt_str (mi_name m)) (mi_id m))) (modelOptions s)) False (\<lambda>t. Act (E_quick_model t))],
     DetailField (js ''Prompt'') txt_ac_prompt_text [Input Multi_line (an_quick_prompt s) [] False (\<lambda>t. Act (E_quick_prompt t))]])"

definition account_tools :: "accounts_payload option \<Rightarrow> accounts \<Rightarrow> accounts_screen" where
  "account_tools payload s = Group ([Button txt_ac_tools False (Act (E_tools (\<not> an_tools_open s)))] @ (if \<not> an_tools_open s then [] else [
     InfoCard [Shown txt_ac_overview] txt_ac_overview_text [] (List.map (\<lambda>(label, v). MetaTile label v) (runtimeCards payload)),
     InfoCard [Shown txt_ac_quick] txt_ac_quick_text [] (quick_test_fields s @ [
       Button (if an_quick_testing s then txt_testing_dots else txt_ac_run_test) (an_quick_testing s \<or> an_quick_email s = []) (Act E_test),
       Shown (or_str (an_quick_message s) txt_ac_test_hint)]),
     JsonPreview txt_ac_test_output (an_quick_output s) None]))"

section \<open>The dialog\<close>

definition login_pipeline :: "accounts \<Rightarrow> accounts_screen" where
  "login_pipeline s = InfoCard [Shown txt_ac_pipeline] txt_ac_pipeline_text [] [
     Subsection txt_ac_request txt_ac_request_text [] [
       DetailField (js ''Email'') txt_ac_email_text
         [Input Plain_input (an_start_email s) (js ''name@example.com'') False (\<lambda>t. Act (E_start_email t))],
       Button (if an_starting s then txt_ac_requesting else txt_ac_request) (an_starting s) (Act E_start),
       Shown (or_str (an_start_message s) txt_ac_submit_hint)],
     Subsection txt_ac_code txt_ac_code_text [] [
       DetailField (js ''Email'') txt_ac_verify_text
         [Input Plain_input (an_verify_email s) txt_ac_verify_hint False (\<lambda>t. Act (E_verify_email t))],
       DetailField (js ''Code'') txt_ac_code_hint
         [Input Plain_input (an_verify_code s) txt_ac_six False (\<lambda>t. Act (E_verify_code t))],
       Button (if an_verifying s then txt_verifying else txt_ac_submit) (an_verifying s) (Act E_verify),
       Shown (or_str (an_verify_message s) txt_ac_error_hint)]]"

definition manual_field :: "input_kind \<Rightarrow> jsstr \<Rightarrow> jsstr \<Rightarrow> (jsstr \<Rightarrow> manual_import) \<Rightarrow> accounts_screen" where
  "manual_field kind v placeholder change = Input kind v placeholder False (\<lambda>t. Act (E_manual (change t)))"

definition manual_identity :: "accounts \<Rightarrow> accounts_screen" where
  "manual_identity s = (let m = an_manual s in Subsection txt_ac_identity txt_ac_identity_text [] [
     DetailField (js ''Email'') txt_ac_blank_text [manual_field Plain_input (im_email m) [] (\<lambda>t. m\<lparr>im_email := t\<rparr>)],
     DetailField (js ''User ID'') [] [manual_field Plain_input (im_user_id m) [] (\<lambda>t. m\<lparr>im_user_id := t\<rparr>)],
     DetailField (js ''Space ID'') [] [manual_field Plain_input (im_space_id m) [] (\<lambda>t. m\<lparr>im_space_id := t\<rparr>)],
     DetailField (js ''Client Version'') [] [manual_field Plain_input (im_client_version m) [] (\<lambda>t. m\<lparr>im_client_version := t\<rparr>)],
     DetailField (js ''User Name'') [] [manual_field Plain_input (im_user_name m) [] (\<lambda>t. m\<lparr>im_user_name := t\<rparr>)],
     DetailField (js ''Space Name'') [] [manual_field Plain_input (im_space_name m) [] (\<lambda>t. m\<lparr>im_space_name := t\<rparr>)],
     DetailField (js ''Cookie Header'') txt_ac_cookie_text
       [manual_field Multi_line (im_cookie m) (js ''cookie1=value1; cookie2=value2'') (\<lambda>t. m\<lparr>im_cookie := t\<rparr>)],
     Shown txt_ac_activate_now, Shown txt_ac_activate_text,
     Switch (im_active m) False (\<lambda>b. Act (E_manual (m\<lparr>im_active := b\<rparr>))),
     Button (if an_manual_busy s then txt_importing else txt_ac_import) (an_manual_busy s) (Act E_import)])"

definition probe_placeholder :: jsstr where
  "probe_placeholder = js ''{\"email\":\"name@example.com\",\"user_id\":\"...\",\"space_id\":\"...\",'' @
     js ''\"client_version\":\"...\",\"cookies\":[{\"name\":\"token_v2\",\"value\":\"...\"}]}''"

definition probe_identity :: "accounts \<Rightarrow> accounts_screen" where
  "probe_identity s = (let m = an_manual s in Subsection txt_ac_probe txt_ac_probe_text [] [Shown (js ''Probe JSON''),
     manual_field Multi_line (im_probe m) probe_placeholder (\<lambda>t. m\<lparr>im_probe := t\<rparr>), Shown txt_ac_probe_hint])"

definition manual_import_view :: "accounts \<Rightarrow> accounts_screen" where
  "manual_import_view s = InfoCard [Shown txt_ac_import] txt_ac_import_text
     [Shown (or_str (an_hint s) txt_ac_token_hint)] [manual_identity s, probe_identity s]"

definition add_dialog :: "accounts \<Rightarrow> accounts_screen" where
  "add_dialog s = Group [Shown txt_ac_add, Button (js ''Close'') False (Act (E_add_open False)), login_pipeline s, manual_import_view s]"

section \<open>The panel\<close>

definition accounts_page :: "(jsstr \<Rightarrow> jsstr) \<Rightarrow> accounts_payload option \<Rightarrow> bool \<Rightarrow> jsstr \<Rightarrow> accounts \<Rightarrow> accounts_screen" where
  "accounts_page show payload sure tab s = Group [accounts_header, draft_notice s, account_pool show s,
     selected_account_view show sure tab s, account_tools payload s, Shown txt_ac_usage]"

definition accounts_view :: "(jsstr \<Rightarrow> jsstr) \<Rightarrow> accounts_payload option \<Rightarrow> bool \<Rightarrow> jsstr \<Rightarrow> accounts \<Rightarrow> accounts_screen" where
  "accounts_view show payload sure tab s = (let page = accounts_page show payload sure tab s in
     if an_add_open s then Group [Inert page, add_dialog s] else page)"

end
