(* ===== verification/Accounts_Screen.thy ===== *)
theory Accounts_Screen imports Accounts_View begin

text \<open>
  What the accounts panel offers is what its transitions allow: the events of the view against \<open>accounts_enabled\<close>.
\<close>

section \<open>The events of the parts\<close>

lemma subsection_shows [simp]:
  "events (Subsection title d actions children) = (\<Union>v\<in>set actions. events v) \<union> (\<Union>v\<in>set children. events v)"
  "events (InfoCard ts d actions children) = (\<Union>v\<in>set ts. events v) \<union> (\<Union>v\<in>set actions. events v) \<union> (\<Union>v\<in>set children. events v)"
  "events (DetailField label hint fs) = (\<Union>v\<in>set fs. events v)" "events (MetaTile label v) = {}" "events (EmptyHint t d) = {}"
  "events (StatusPill st) = {}" "events (JsonPreview t v c) = {}"
  by (auto simp: Subsection_def InfoCard_def DetailField_def MetaTile_def EmptyHint_def StatusPill_def JsonPreview_def split: option.splits)

lemma pool_events: "events (account_pool show s) = (\<lambda>a. Act (E_select (opt_str (acct_email a)))) ` set (options_of s)"
  by (auto simp: account_pool_def AccountListItem_def)

lemma workspace_select_events: "events (workspace_select s a) =
    (if length (workspaceItems a) < 2 then {} else (\<lambda>w. Act (E_select_ws (ws_id w))) ` set (workspaceItems a))"
  by (auto simp: workspace_select_def workspace_choices_def Let_def image_image)

lemma tab_events: "events tab_buttons = Jump ` fst ` set detail_tabs"
  by (force simp: tab_buttons_def)

lemma all_limits: "range (\<lambda>v. Act (E_limit v)) = range (\<lambda>t. Act (E_limit (Priority_input t))) \<union>
    range (\<lambda>t. Act (E_limit (Hourly_input t))) \<union> range (\<lambda>t. Act (E_limit (Concurrency_input t)))"
proof -
  have "Act (E_limit v) \<in> range (\<lambda>t. Act (E_limit (Priority_input t))) \<union>
      range (\<lambda>t. Act (E_limit (Hourly_input t))) \<union> range (\<lambda>t. Act (E_limit (Concurrency_input t)))" for v
    by (cases v) simp_all
  then show ?thesis by auto
qed

lemma scheduling_events:
  "events (scheduling s) = (if an_saving s then {} else range (\<lambda>v. Act (E_limit v)) \<union> {Act (E_disabled (\<not> selectedDisabled s))})"
  unfolding all_limits by (auto simp: scheduling_def Let_def)

lemma details_events: "events (account_details show s a) = {}"
  by (simp add: account_details_def runtime_summary_def detail_tiles_def Let_def)

lemma models_events: "events (models_tab show s) =
    (if an_refreshing_models s \<or> selectedWorkspace s = None \<or> cooling_down s then {} else {Act E_refresh_models}) \<union>
    (if an_refreshing_ws s \<or> cooling_down s then {} else {Act E_refresh_workspaces})"
  by (auto simp: models_tab_def Let_def model_catalog_def split: option.splits)

lemma buttons_events: "events (account_buttons sure s) = {Act E_fill, Act E_activate, Act (E_delete sure)} \<union>
    (if an_saving s then {} else {Act E_save}) \<union> (if an_quick_testing s then {} else {Act E_test_selected}) \<union>
    (case selectedWorkspace s of None \<Rightarrow> {} | Some w \<Rightarrow> if opt_true (ws_default w) then {} else {Act E_default})"
  by (auto simp: account_buttons_def split: option.splits)

lemma header_shows: "events accounts_header = {Act (E_add_open True), Act E_refresh}"
  by (auto simp: accounts_header_def PanelHeader_def)

lemma notice_events: "events (draft_notice s) = (if accounts_dirty s then {Act E_discard} else {})"
  by (auto simp: draft_notice_def)

lemma quick_events: "(\<Union>v\<in>set (quick_test_fields s). events v) = (\<lambda>a. Act (E_quick_email (opt_str (acct_email a)))) ` set (options_of s) \<union>
    (if 2 \<le> length (workspaces_by (an_quick_email s) (options_of s))
     then (\<lambda>w. Act (E_quick_ws (ws_id w))) ` set (workspaces_by (an_quick_email s) (options_of s)) else {}) \<union>
    (\<lambda>m. Act (E_quick_model (mi_id m))) ` set (modelOptions s) \<union> range (\<lambda>t. Act (E_quick_prompt t))"
  by (auto simp: quick_test_fields_def Let_def image_image)

lemma tools_events: "events (account_tools payload s) = {Act (E_tools (\<not> an_tools_open s))} \<union> (if an_tools_open s then
    (\<Union>v\<in>set (quick_test_fields s). events v) \<union> (if an_quick_testing s \<or> an_quick_email s = [] then {} else {Act E_test}) else {})"
  by (auto simp: account_tools_def)

lemma dialog_events: "events (add_dialog s) = {Act (E_add_open False)} \<union> range (\<lambda>t. Act (E_start_email t)) \<union>
    range (\<lambda>t. Act (E_verify_email t)) \<union> range (\<lambda>t. Act (E_verify_code t)) \<union> (if an_starting s then {} else {Act E_start}) \<union>
    (if an_verifying s then {} else {Act E_verify}) \<union> events (manual_identity s) \<union> events (probe_identity s)"
  by (auto simp: add_dialog_def login_pipeline_def manual_import_view_def)

lemma manual_events: "Act e \<in> events (manual_identity s) \<union> events (probe_identity s) \<Longrightarrow> e = E_import \<and> \<not> an_manual_busy s \<or> (\<exists>m. e = E_manual m)"
  by (auto simp: manual_identity_def probe_identity_def manual_field_def Let_def split: if_splits)

lemma import_offered: "\<not> an_manual_busy s \<Longrightarrow> Act E_import \<in> events (manual_identity s)"
  by (simp add: manual_identity_def Let_def)

lemma selected_events: "events (selected_account_view show sure tab s) = (case selectedAccount s of None \<Rightarrow> {} | Some a \<Rightarrow>
    events (workspace_select s a) \<union> Jump ` fst ` set detail_tabs \<union> (if tab = js ''scheduling'' then events (scheduling s) else {}) \<union>
    (if tab = js ''models'' then events (models_tab show s) else {}) \<union> events (account_buttons sure s))"
  by (auto simp: selected_account_view_def tab_events details_events split: option.splits)

lemma page_events: "events (accounts_page show payload sure tab s) = events accounts_header \<union> events (draft_notice s) \<union>
    events (account_pool show s) \<union> events (selected_account_view show sure tab s) \<union> events (account_tools payload s)"
  by (simp add: accounts_page_def Un_assoc)

lemma accounts_view_events: "events (accounts_view show payload sure tab s) =
    (if an_add_open s then events (add_dialog s) else events (accounts_page show payload sure tab s))"
  by (simp add: accounts_view_def Let_def)

section \<open>What is offered and what is allowed\<close>

text \<open>
  The events of a user on a control that changes something; the fields of the manual import are in \<open>manual_events\<close>.
\<close>

fun accounts_by_hand :: "bool \<Rightarrow> accounts \<Rightarrow> accounts_event \<Rightarrow> bool" where
  "accounts_by_hand sure s (E_reload p) = False"
| "accounts_by_hand sure s (E_reply t r) = False"
| "accounts_by_hand sure s (E_manual m) = False"
| "accounts_by_hand sure s (E_disabled b) = (b \<noteq> selectedDisabled s)"
| "accounts_by_hand sure s (E_delete b) = (b = sure)"
| "accounts_by_hand sure s (E_tools b) = (b \<noteq> an_tools_open s)"
| "accounts_by_hand sure s (E_add_open b) = (b \<noteq> an_add_open s)"
| "accounts_by_hand sure s e = True"

text \<open>The dialog and the tools have to be open for what is in them, and the dialog closed for what is behind it.\<close>

fun in_dialog :: "accounts_event \<Rightarrow> bool" where
  "in_dialog (E_start_email t) = True"
| "in_dialog (E_verify_email t) = True"
| "in_dialog (E_verify_code t) = True"
| "in_dialog (E_manual m) = True"
| "in_dialog (E_add_open b) = (\<not> b)"
| "in_dialog E_start = True"
| "in_dialog E_verify = True"
| "in_dialog E_import = True"
| "in_dialog e = False"

fun in_tools :: "accounts_event \<Rightarrow> bool" where
  "in_tools (E_quick_email t) = True"
| "in_tools (E_quick_ws t) = True"
| "in_tools (E_quick_model t) = True"
| "in_tools (E_quick_prompt t) = True"
| "in_tools E_test = True"
| "in_tools e = False"

definition in_place :: "accounts_event \<Rightarrow> accounts \<Rightarrow> bool" where
  "in_place e s \<longleftrightarrow> an_add_open s = in_dialog e \<and> (in_tools e \<longrightarrow> an_tools_open s)"

lemma selected_by_email: "selectedAccount s = Some a \<Longrightarrow> acct_email a = Some (an_selected s)"
  by (simp add: selectedAccount_def account_by_def find_Some_iff) auto

lemma workspaces_of_selected: "selectedAccount s = Some a \<Longrightarrow> workspaces_by (opt_str (acct_email a)) (options_of s) = workspaceItems a"
  using selected_by_email [of s a] by (simp add: workspaces_by_def selectedAccount_def)

lemma offered_allowed:
  assumes "Act e \<in> events (accounts_view show payload sure tab s)"
  shows "accounts_enabled e s \<and> in_place e s \<and> ((\<exists>m. e = E_manual m) \<or> accounts_by_hand sure s e)"
proof (cases "an_add_open s")
  case True
  then have "Act e \<in> events (add_dialog s)" using assms by (simp add: accounts_view_events)
  then show ?thesis using True manual_events [of e s]
    by (auto simp: dialog_events in_place_def split: if_splits)
next
  case False
  then have "Act e \<in> events (accounts_page show payload sure tab s)" using assms by (simp add: accounts_view_events)
  then consider "Act e \<in> events accounts_header \<union> events (draft_notice s) \<union> events (account_pool show s)"
    | "Act e \<in> events (selected_account_view show sure tab s)" | "Act e \<in> events (account_tools payload s)"
    unfolding page_events by blast
  then show ?thesis
  proof cases
    case 1
    then show ?thesis using False by (auto simp: header_shows notice_events pool_events in_place_def split: if_splits)
  next
    case 2
    then obtain a where a: "selectedAccount s = Some a" by (auto simp: selected_events split: option.splits)
    then have ws: "workspaces_by (opt_str (acct_email a)) (options_of s) = workspaceItems a" by (rule workspaces_of_selected)
    have on: "on_selected s P \<longleftrightarrow> P (opt_str (acct_email a))" for P by (simp add: on_selected_def a)
    consider "Act e \<in> events (workspace_select s a)" | "Act e \<in> events (scheduling s)" | "Act e \<in> events (models_tab show s)"
      | "Act e \<in> events (account_buttons sure s)"
      using 2 by (auto simp: selected_events a split: if_splits)
    then show ?thesis
    proof cases
      case 1
      then show ?thesis using False by (auto simp: workspace_select_events on ws in_place_def split: if_splits)
    next
      case 2
      then show ?thesis using False by (auto simp: scheduling_events on in_place_def split: if_splits)
    next
      case 3
      then show ?thesis using False by (auto simp: models_events on in_place_def split: if_splits)
    next
      case 4
      then show ?thesis using False by (auto simp: buttons_events on in_place_def split: if_splits option.splits)
    qed
  next
    case 3
    then show ?thesis using False by (auto simp: tools_events quick_events in_place_def split: if_splits)
  qed
qed

lemma selected_account_offers:
  assumes "selectedAccount s = Some a"
  shows "\<exists>tab\<in>fst ` set detail_tabs. events (workspace_select s a) \<union> events (scheduling s) \<union> events (account_buttons sure s) \<subseteq>
      events (selected_account_view show sure tab s)"
    and "\<exists>tab\<in>fst ` set detail_tabs. events (models_tab show s) \<subseteq> events (selected_account_view show sure tab s)"
  using assms by (auto simp: selected_events detail_tabs_def)

lemma selected_on: "on_selected s P \<Longrightarrow> \<exists>a. selectedAccount s = Some a" "selectedWorkspace s = Some w \<Longrightarrow> \<exists>a. selectedAccount s = Some a"
  by (auto simp: on_selected_def selectedWorkspace_def bind_eq_Some_conv split: option.splits)

lemma allowed_offered:
  assumes "accounts_enabled e s" and "accounts_by_hand sure s e" and "in_place e s"
  shows "\<exists>tab\<in>fst ` set detail_tabs. Act e \<in> events (accounts_view show payload sure tab s)"
proof (cases "in_dialog e")
  case True
  then have "Act e \<in> events (add_dialog s)" using assms import_offered by (cases e) (auto simp: dialog_events)
  then show ?thesis using True assms(3) by (auto simp: accounts_view_events in_place_def detail_tabs_def)
next
  case False
  note outside = False
  then have page: "events (accounts_view show payload sure tab s) = events (accounts_page show payload sure tab s)" for tab
    using assms(3) by (simp add: accounts_view_events in_place_def)
  show ?thesis
  proof (cases "\<exists>a. selectedAccount s = Some a \<and> Act e \<in> events (workspace_select s a) \<union> events (scheduling s) \<union>
      events (account_buttons sure s) \<union> events (models_tab show s)")
    case True
    then show ?thesis using selected_account_offers(1) [of s _ sure "show"] selected_account_offers(2) [of s _ "show" sure] unfolding page page_events by blast
  next
    case False
    note other = False
    have "Act e \<in> events accounts_header \<union> events (draft_notice s) \<union> events (account_pool show s) \<union> events (account_tools payload s)"
    proof (cases "selectedAccount s")
      case None
      then show ?thesis using assms outside
        by (cases e) (auto simp: header_shows notice_events pool_events tools_events quick_events in_place_def on_selected_def
          selectedWorkspace_def image_iff)
    next
      case (Some a)
      then have "Act e \<notin> events (workspace_select s a) \<union> events (scheduling s) \<union> events (account_buttons sure s) \<union> events (models_tab show s)"
        using other by blast
      then show ?thesis using assms outside Some
        by (cases e) (auto simp: header_shows notice_events pool_events tools_events quick_events in_place_def on_selected_def image_iff
          workspace_select_events scheduling_events buttons_events models_events workspaces_of_selected split: option.splits if_splits)
    qed
    then show ?thesis unfolding page page_events by (auto simp: detail_tabs_def)
  qed
qed

text \<open>
  C17. The accounts panel offers what its transitions allow. In every tab, with the dialog or the tools open or closed,
  each control that is not disabled is an event the panel accepts, in the place it belongs to; every event of the user that
  the panel accepts and whose place is open has its control in one of the three tabs; and the tabs can be reached.
\<close>

theorem accounts_screen_exact:
  "{e. Act e \<in> events (accounts_view show payload sure tab s)} \<subseteq> {e. accounts_enabled e s \<and> in_place e s} \<and>
   {e. accounts_enabled e s \<and> in_place e s \<and> accounts_by_hand sure s e} =
     {e. \<exists>tab\<in>fst ` set detail_tabs. Act e \<in> events (accounts_view show payload sure tab s)} - range E_manual \<and>
   (selectedAccount s \<noteq> None \<and> \<not> an_add_open s \<longleftrightarrow> Jump ` fst ` set detail_tabs \<subseteq> events (accounts_view show payload sure tab s))"
proof (intro conjI set_eqI subsetI)
  fix e
  assume "e \<in> {e. Act e \<in> events (accounts_view show payload sure tab s)}"
  then show "e \<in> {e. accounts_enabled e s \<and> in_place e s}" using offered_allowed by blast
next
  fix e
  have "e \<notin> range E_manual" if "accounts_by_hand sure s e" using that by (cases e) auto
  then show "e \<in> {e. accounts_enabled e s \<and> in_place e s \<and> accounts_by_hand sure s e} \<longleftrightarrow>
    e \<in> {e. \<exists>tab\<in>fst ` set detail_tabs. Act e \<in> events (accounts_view show payload sure tab s)} - range E_manual"
    using offered_allowed [of e "show" payload sure _ s] allowed_offered [of e s sure "show" payload] by blast
next
  have "Jump t \<notin> events (add_dialog s)" for t
    by (auto simp: dialog_events manual_identity_def probe_identity_def manual_field_def Let_def)
  moreover have "Jump t \<notin> events accounts_header \<union> events (draft_notice s) \<union> events (account_pool show s) \<union> events (account_tools payload s)" for t
    by (auto simp: header_shows notice_events pool_events tools_events quick_events)
  ultimately show "selectedAccount s \<noteq> None \<and> \<not> an_add_open s \<longleftrightarrow>
      Jump ` fst ` set detail_tabs \<subseteq> events (accounts_view show payload sure tab s)"
    by (auto simp: accounts_view_events page_events selected_events detail_tabs_def split: option.splits)
qed

end
