(* ===== verification/Evidence_View.thy ===== *)
theory Evidence_View imports Model_Display Views begin

text \<open>
  The evidence line below an answer (\<open>components/admin/model-evidence.tsx\<close>, the markup). Conversations_View and Chat_View
  show it; what a \<open>details\<close> element hides until it is opened is listed like the rest.
\<close>

definition evidence_view :: "conversation_message \<Rightarrow> model_item list \<Rightarrow> model_item list \<Rightarrow> 'e view" where
  "evidence_view m models preferred = (case ModelEvidence m models preferred of None \<Rightarrow> Group []
     | Some e \<Rightarrow> (let os = opt_list (cm_model_observations m) in Group (
         [Shown (txt_me_actual @ ev_summary e), Shown (ev_mode e)] @
         List.map (\<lambda>k. Shown (txt_me_code @ mo_model k @ (if truthy (mo_provider k) then middle_dot @ opt_str (mo_provider k) else []) @
           txt_me_source @ mo_source k)) os @
         (if cm_model_selection_mode m = Some (js ''auto_fallback'')
          then [Shown (txt_me_requested @ opt_str (ev_requested e) @ txt_me_executed)] else []) @
         (if os = [] then [Shown txt_me_nothing] else []))))"

lemma evidence_plain: "events (evidence_view m models preferred) = {}"
  by (auto simp: evidence_view_def Let_def split: option.splits)

end
