(* ===== verification/Conversations_View.thy ===== *)
theory Conversations_View imports Conversations_Panel Evidence_View begin

text \<open>
  What the conversations panel shows (\<open>components/admin/conversations-panel.tsx\<close>, the markup): the cards, the filtered
  list with its check boxes, and the conversation that is open with its messages.

  \<open>show\<close> is \<open>formatDateTime\<close>, \<open>names\<close> sorts with \<open>localeCompare\<close>, \<open>sure\<close> is the answer the operator would give to
  \<open>window.confirm\<close>. The text of an answer stands for what \<open>MessageMarkdown\<close> makes of it (Safe_Markdown).
\<close>

datatype list_event = On_panel panel_event | Continue jsstr \<comment> \<open>an event of the panel, or \<open>onContinue\<close>, which the shell handles\<close>

type_synonym list_screen = "list_event view"

section \<open>The list\<close>

definition conversations_header :: "conversations_panel \<Rightarrow> list_screen" where
  "conversations_header s = PanelHeader txt_cv_heading txt_cv_intro
     [Shown (uc_stream_state (cp_console s)), Button txt_cv_refresh (cp_busy s) (On_panel Refreshed)]"

definition card_row :: "conversations_panel \<Rightarrow> list_screen" where
  "card_row s = Group (List.map (\<lambda>(label, v, hint). StatCard label v hint) (summaryCards s))"

definition filter_choices :: "(jsstr list \<Rightarrow> jsstr list) \<Rightarrow> conversations_panel \<Rightarrow> (jsstr \<times> jsstr) list" where
  "filter_choices names s = [(account_filter_all, txt_all_accounts), (account_filter_unknown, txt_unknown_account)] @
     List.map (\<lambda>e. (e, e)) (accountOptions names s)"

definition list_actions :: "(jsstr list \<Rightarrow> jsstr list) \<Rightarrow> bool \<Rightarrow> conversations_panel \<Rightarrow> list_screen list" where
  "list_actions names sure s = (if uc_conversations (cp_console s) = [] then [] else [
     Choice (cp_filter s) (filter_choices names s) False (\<lambda>f. On_panel (Filter_chosen f)),
     Button (if allSelected s then txt_cv_unselect else txt_cv_select) (cp_busy s) (On_panel Toggled_all),
     Button (txt_cv_batch @ (if cp_ids s = [] then [] else js ''('' @ nat_str (length (cp_ids s)) @ js '')''))
       (cp_busy s \<or> cp_ids s = [] \<or> hasRunningSelection s) (On_panel (Batch_clicked sure))])"

definition selection_note :: "conversations_panel \<Rightarrow> list_screen list" where
  "selection_note s = (if cp_ids s = [] then [] else [Shown (txt_cv_chosen @ nat_str (length (cp_ids s)) @ txt_cv_chosen_local @
     nat_str (selectedLocalCount s) @ txt_cv_chosen_remote @ nat_str (selectedRemoteCount s) @
     (if hasRunningSelection s then txt_cv_no_running else txt_cv_synced))])"

definition or_dash :: "jsstr option \<Rightarrow> jsstr" where "or_dash v = or_str (opt_str v) (js ''-'')"

definition conversation_row :: "(jsstr \<Rightarrow> jsstr) \<Rightarrow> conversations_panel \<Rightarrow> conversation_summary \<Rightarrow> list_screen" where
  "conversation_row show s c = Group ([Switch (cv_id c \<in> set (cp_ids s)) False (\<lambda>b. On_panel (Toggled (cv_id c))),
     Button (or_str (opt_str (cv_title c)) (js ''Untitled conversation'')) False (On_panel (Opened (cv_id c))),
     Shown (conversationOriginLabel (cv_origin c))] @ optional_text (opt_str (cv_account_email c)) @
     optional_text (opt_str (cv_created_by_display_name c)) @ [StatusPill (cv_status c),
     Shown (join middle_dot [or_dash (cv_source c), or_dash (cv_transport c), or_dash (cv_model c)]),
     Shown (or_str (opt_str (cv_preview c)) txt_cv_no_preview),
     Shown (txt_cv_updated_at @ formatMaybeDate show (if truthy (cv_updated_at c) then cv_updated_at c else cv_created_at c))])"

definition conversation_list :: "(jsstr \<Rightarrow> jsstr) \<Rightarrow> (jsstr list \<Rightarrow> jsstr list) \<Rightarrow> bool \<Rightarrow> conversations_panel \<Rightarrow> list_screen" where
  "conversation_list show names sure s = InfoCard [Shown txt_cv_recent] txt_cv_recent_text (list_actions names sure s)
     (selection_note s @ (if filteredConversations s = []
       then [EmptyHint txt_cv_no_match (if uc_conversations (cp_console s) = [] then txt_cv_send_first else txt_cv_no_result)]
       else List.map (conversation_row show s) (filteredConversations s)))"

section \<open>The conversation that is open\<close>

definition active_summary :: "conversations_panel \<Rightarrow> conversation_summary option" where
  "active_summary s = (case activeConversation s of None \<Rightarrow> None
     | Some (Inl d) \<Rightarrow> Some (conversation_summary.truncate d) | Some (Inr c) \<Rightarrow> Some c)"

definition open_actions :: "bool \<Rightarrow> conversations_panel \<Rightarrow> conversation_summary \<Rightarrow> list_screen list" where
  "open_actions sure s c = (let running = (cv_status c = Some (js ''running'')) in
     [Button txt_cv_continue (cp_busy s \<or> running \<or> opt_true (cv_remote_only c)) (Continue (cv_id c)),
      Button txt_cv_delete (cp_busy s \<or> running) (On_panel (Delete_clicked sure))])"

definition conversation_facts :: "(jsstr \<Rightarrow> jsstr) \<Rightarrow> conversation_summary \<Rightarrow> (jsstr \<times> jsstr option) list" where
  "conversation_facts show c = [(txt_cv_status, cv_status c),
     (txt_cv_source, Some (join middle_dot [conversationOriginLabel (cv_origin c), or_dash (cv_source c), or_dash (cv_transport c)])),
     (txt_cv_creator, Some (or_dash (cv_created_by_display_name c))),
     (txt_cv_requested, if truthy (cv_model c) then cv_model c else cv_notion_model c), (txt_cv_account, cv_account_email c),
     (js ''Thread'', cv_thread_id c), (js ''Trace'', cv_trace_id c),
     (js ''Response / Completion'', if truthy (cv_response_id c) then cv_response_id c else cv_completion_id c),
     (txt_cv_created, Some (formatMaybeDate show (cv_created_at c))), (txt_cv_updated, Some (formatMaybeDate show (cv_updated_at c)))]"

definition message_view :: "(jsstr \<Rightarrow> jsstr) \<Rightarrow> model_item list \<Rightarrow> conversation_message \<Rightarrow> list_screen" where
  "message_view show models m = Group ([Shown (or_str (opt_str (cm_role m)) (js ''assistant'')),
     Shown (or_dash (cm_status m) @ middle_dot @
       formatMaybeDate show (if truthy (cm_updated_at m) then cm_updated_at m else cm_created_at m)),
     Shown (or_str (opt_str (cm_content m)) txt_cv_no_text), evidence_view m models []] @
     (if opt_list (cm_attachments m) = [] then [] else [FileChips (opt_list (cm_attachments m))]))"

definition timeline_text :: "conversation_summary \<Rightarrow> jsstr" where
  "timeline_text c = (if cv_status c = Some (js ''running'') then txt_cv_streaming
     else if cv_status c = Some (js ''failed'') then or_str (opt_str (cv_error c)) txt_cv_failed else txt_cv_done)"

definition open_conversation :: "(jsstr \<Rightarrow> jsstr) \<Rightarrow> model_item list \<Rightarrow> bool \<Rightarrow> conversations_panel \<Rightarrow> conversation_summary \<Rightarrow> list_screen" where
  "open_conversation show models sure s c = Group [
     InfoCard [Shown (or_str (opt_str (cv_title c)) (js ''Untitled conversation''))]
       (or_str (opt_str (cv_preview c)) (or_str (opt_str (cv_request_prompt c)) txt_cv_no_preview)) (open_actions sure s c)
       [KeyValueGrid (conversation_facts show c), MetaTile txt_cv_current (cv_id c),
        MetaTile txt_cv_origin (conversationOriginLabel (cv_origin c)),
        MetaTile txt_cv_messages (nat_str (length (conversationMessages s)))],
     InfoCard [Shown txt_cv_timeline] (timeline_text c) []
       (if conversationMessages s = [] then [EmptyHint txt_cv_no_messages txt_cv_no_detail]
        else List.map (message_view show models) (conversationMessages s))]"

definition conversations_view ::
    "(jsstr \<Rightarrow> jsstr) \<Rightarrow> (jsstr list \<Rightarrow> jsstr list) \<Rightarrow> model_item list \<Rightarrow> bool \<Rightarrow> conversations_panel \<Rightarrow> list_screen" where
  "conversations_view show names models sure s = Group [conversations_header s, card_row s, conversation_list show names sure s,
     case active_summary s of Some c \<Rightarrow> open_conversation show models sure s c | None \<Rightarrow> EmptyHint txt_cv_choose txt_cv_choose_text]"

section \<open>What is offered and what is allowed\<close>

lemma row_events: "events (conversation_row show s c) = {On_panel (Toggled (cv_id c)), On_panel (Opened (cv_id c))}"
  by (auto simp: conversation_row_def StatusPill_def)

lemma list_events: "events (conversation_list show names sure s) = (\<Union>v\<in>set (list_actions names sure s). events v) \<union>
    (\<Union>c\<in>set (filteredConversations s). {On_panel (Toggled (cv_id c)), On_panel (Opened (cv_id c))})"
  by (auto simp: conversation_list_def InfoCard_def selection_note_def EmptyHint_def row_events)

lemma message_plain: "events (message_view show models m) = {}"
  by (auto simp: message_view_def evidence_plain FileChips_def)

lemma open_events: "events (open_conversation show models sure s c) = (\<Union>v\<in>set (open_actions sure s c). events v)"
  by (auto simp: open_conversation_def InfoCard_def MetaTile_def message_plain EmptyHint_def)

lemma actions_events: "(\<Union>v\<in>set (list_actions names sure s). events v) = (if uc_conversations (cp_console s) = [] then {} else
    (\<lambda>f. On_panel (Filter_chosen f)) ` ({account_filter_all, account_filter_unknown} \<union> set (accountOptions names s)) \<union>
    (if cp_busy s then {} else {On_panel Toggled_all}) \<union>
    (if cp_busy s \<or> cp_ids s = [] \<or> hasRunningSelection s then {} else {On_panel (Batch_clicked sure)}))"
  by (auto simp: list_actions_def filter_choices_def image_image)

lemma head_events: "events (conversations_header s) = (if cp_busy s then {} else {On_panel Refreshed})" "events (card_row s) = {}"
  by (auto simp: conversations_header_def PanelHeader_def card_row_def StatCard_def summaryCards_def)

lemma view_of_list: "events (conversations_view show names models sure s) = events (conversations_header s) \<union>
    events (conversation_list show names sure s) \<union>
    (case active_summary s of None \<Rightarrow> {} | Some c \<Rightarrow> (\<Union>v\<in>set (open_actions sure s c). events v))"
  by (auto simp: conversations_view_def head_events open_events EmptyHint_def split: option.split)

lemma active_of_summary: "active_id s = map_option cv_id (active_summary s)"
  "active_running s \<longleftrightarrow> (\<exists>c. active_summary s = Some c \<and> cv_status c = Some (js ''running''))"
  "continue_offered s \<longleftrightarrow> (\<exists>c. active_summary s = Some c \<and> \<not> cp_busy s \<and> cv_status c \<noteq> Some (js ''running'') \<and> \<not> opt_true (cv_remote_only c))"
  by (auto simp: active_id_def active_running_def continue_offered_def active_field_def active_summary_def
      conversation_summary.defs split: option.splits sum.splits)

text \<open>The answer to the question and the replies are not the user's.\<close>

fun list_by_hand :: "bool \<Rightarrow> panel_event \<Rightarrow> bool" where
  "list_by_hand sure (Delete_clicked a) = (a = sure)"
| "list_by_hand sure (Batch_clicked a) = (a = sure)"
| "list_by_hand sure (Delete_done t) = False"
| "list_by_hand sure (Delete_failed t e) = False"
| "list_by_hand sure e = True"

lemma account_choices: "(\<And>xs. set (names xs) = set xs) \<Longrightarrow> set (accountOptions names s) = set (accountOptions id s)"
  by (simp add: accountOptions_def)

lemma checked_listed: "panel_ok s \<Longrightarrow> cp_ids s \<noteq> [] \<Longrightarrow> uc_conversations (cp_console s) \<noteq> []"
  using ids_in_filtered [of s] by (cases "cp_ids s") (auto simp: filteredConversations_def)

lemma offered_event:
  assumes "panel_ok s" and "set (accountOptions names s) = set (accountOptions id s)"
  shows "On_panel e \<in> events (conversations_view show names models sure s) \<longleftrightarrow> panel_enabled e s \<and> list_by_hand sure e"
  using assms(2) checked_listed [OF assms(1)] has_image [of _ "filteredConversations s"]
  by (cases e) (auto simp: view_of_list head_events list_events actions_events open_actions_def active_of_summary
      Let_def split: option.splits)

lemma offered_continue: "(\<exists>i. Continue i \<in> events (conversations_view show names models sure s)) \<longleftrightarrow> continue_offered s"
  by (auto simp: view_of_list head_events list_events actions_events open_actions_def active_of_summary Let_def
      split: option.splits)

text \<open>
  C18. The conversations panel offers what its transitions allow: in a state the user can bring about, every control that is
  not disabled is an event the panel accepts, every event of the user that it accepts has its control, and the button that
  continues a conversation in the chat is offered for the open one, exactly when that is at rest and kept locally.
\<close>

theorem conversations_screen_exact:
  assumes "panel_reachable s" and "\<And>xs. set (names xs) = set xs"
  shows "{e. On_panel e \<in> events (conversations_view show names models sure s)} = {e. panel_enabled e s \<and> list_by_hand sure e} \<and>
    ((\<exists>i. Continue i \<in> events (conversations_view show names models sure s)) \<longleftrightarrow> continue_offered s)"
  using offered_event [OF panel_ok_reachable [OF assms(1)] account_choices [OF assms(2)]] offered_continue by blast

lemma conversations_screen_exact_witness:
  "On_panel (Batch_clicked True) \<in> events (conversations_view id id [] True demo_checked) \<and>
   On_panel (Toggled (js ''a'')) \<in> events (conversations_view id id [] True demo_checked)"
proof -
  have "panel_enabled (Batch_clicked True) demo_checked" "panel_enabled (Toggled (js ''a'')) demo_checked"
    by (simp_all add: demo_checked_fields hasRunningSelection_def selectedItems_def has_conversation_def)
      (simp_all add: demo_list_def no_conversation_summary_def js_def)
  then show ?thesis using conversations_screen_exact [OF demo_checked_reachable, of id id "[]" True] by auto
qed

end
