(* ===== verification/Panel_Views.thy ===== *)
theory Panel_Views imports Admin_Service Model_Display Chat_Targets Admin_Shell Views begin

text \<open>
  What the smaller views show: the dashboard
  (\<open>dashboard-panel.tsx\<close>), the model directory (\<open>models-panel.tsx\<close>), the quota of all accounts
  (\<open>ai-usage-panel.tsx\<close>) and the entries of the navigation (\<open>admin-sidebar.tsx\<close>).
\<close>

section \<open>Dashboard\<close>

definition dashboard_features :: "admin_config_payload option \<Rightarrow> feature_config option" where
  "dashboard_features p = Option.bind p (\<lambda>c. cfg_features (acp_config c))"

definition featureLines :: "admin_config_payload option \<Rightarrow> (jsstr \<times> (bool + jsstr)) list" where
  "featureLines p = (let f = dashboard_features p; on = (\<lambda>g. Inl (opt_true (Option.bind f g))) in
     [(txt_feature_web, on fc_use_web_search), (txt_feature_read_only, on fc_use_read_only_mode),
      (txt_feature_forced_off, Inl (Option.bind f fc_force_disable_upstream_edits \<noteq> Some False)),
      (js ''Writer Mode'', on fc_writer_mode), (txt_feature_images, on fc_enable_generate_image),
      (txt_feature_csv, on fc_enable_csv_attachment_support),
      (js ''AI Surface'', Inr (or_str (opt_str (Option.bind f fc_ai_surface)) (js ''ai_module''))),
      (js ''Thread Type'', Inr (or_str (opt_str (Option.bind f fc_thread_type)) (js ''workflow'')))])"

definition dashboard_accounts :: "accounts_payload option \<Rightarrow> account_item list" where
  "dashboard_accounts p = opt_list (Option.bind p ap_items)"

definition dashboard_workspaces :: "accounts_payload option \<Rightarrow> (account_item \<times> workspace_item) list" where
  "dashboard_workspaces p = List.maps (\<lambda>a. List.map (Pair a) (opt_list (acct_workspaces a))) (dashboard_accounts p)"

definition dashboard_eligible :: "accounts_payload option \<Rightarrow> (account_item \<times> workspace_item) list" where
  "dashboard_eligible p = filter (\<lambda>(a, w). \<not> opt_true (acct_disabled a) \<and> opt_true (ws_eligible w)) (dashboard_workspaces p)"

definition dashboard_failures :: "accounts_payload option \<Rightarrow> account_item list" where
  "dashboard_failures p = filter (\<lambda>a. opt_str (acct_last_error a) \<noteq> []) (dashboard_accounts p)"

definition service_text :: "health_payload option \<Rightarrow> jsstr" where
  "service_text h = (if opt_true (Option.bind h hp_session_ready) then txt_service_ready
     else if opt_true (Option.bind h hp_ok) then txt_service_waiting else txt_service_unknown)"

definition dashboard_cards :: "health_payload option \<Rightarrow> version_payload option \<Rightarrow> accounts_payload option \<Rightarrow> (jsstr \<times> jsstr) list" where
  "dashboard_cards h v p = [(service_text h, or_str (opt_str (Option.bind v vp_version)) txt_version_unknown),
     (nat_str (length (dashboard_accounts p)),
      nat_str (length (filter (\<lambda>a. \<not> opt_true (acct_disabled a)) (dashboard_accounts p))) @ txt_enabled_suffix),
     (nat_str (length (dashboard_eligible p)), []), (nat_str (length (dashboard_failures p)), [])]"

definition refresh_warning :: "admin_config_payload option \<Rightarrow> jsstr option" where
  "refresh_warning p = (let e = opt_str (Option.bind (Option.bind p acp_session_refresh_runtime) sr_last_error) in
     if e = [] then None else Some (txt_refresh_failed_prefix @ e))"

definition workspace_badges :: "account_item \<times> workspace_item \<Rightarrow> jsstr \<times> jsstr" where
  "workspace_badges = (\<lambda>(a, w). (
     if opt_true (acct_disabled a) then txt_account_disabled else if opt_true (ws_eligible w) then txt_plan_ok else txt_plan_unknown,
     case ws_model_capabilities w of None \<Rightarrow> txt_capability_unknown
     | Some c \<Rightarrow> (case mc_mode c of Manual \<Rightarrow> txt_models_selectable | Auto_only \<Rightarrow> txt_auto_only
         | Unknown_mode \<Rightarrow> txt_capability_unknown)))"

section \<open>Model directory\<close>

record models_panel =
  md_models :: "model_item list"
  md_default :: "jsstr option"
  md_selected :: jsstr
  md_seen :: "(jsstr option \<times> model_item list) option"

definition model_fallback :: "models_panel \<Rightarrow> jsstr" where
  "model_fallback s = or_str (opt_str (md_default s)) (case md_models s of [] \<Rightarrow> [] | m # _ \<Rightarrow> mi_id m)"

definition initial_models_panel :: "model_item list \<Rightarrow> jsstr option \<Rightarrow> models_panel" where
  "initial_models_panel models d = (let s = \<lparr>md_models = models, md_default = d, md_selected = [], md_seen = None\<rparr> in
     s\<lparr>md_selected := model_fallback s\<rparr>)"

definition models_commit :: "models_panel \<Rightarrow> models_panel" where
  "models_commit s = (if md_seen s = Some (md_default s, md_models s) then s
     else s\<lparr>md_seen := Some (md_default s, md_models s),
            md_selected := (if md_selected s \<noteq> [] \<and> md_selected s \<in> mi_id ` set (md_models s) then md_selected s
              else model_fallback s)\<rparr>)"

definition uniqueValues :: "jsstr option list \<Rightarrow> jsstr list" where
  "uniqueValues xs = rev (remdups (rev (filter (\<lambda>x. x \<noteq> []) (List.map opt_str xs))))"

definition families :: "models_panel \<Rightarrow> jsstr list" where
  "families s = uniqueValues (List.map mi_family (md_models s))"

definition model_groups :: "models_panel \<Rightarrow> jsstr list" where
  "model_groups s = uniqueValues (List.map mi_group (md_models s))"

definition betaCount :: "models_panel \<Rightarrow> nat" where
  "betaCount s = length (filter (\<lambda>m. opt_true (mi_beta m)) (md_models s))"

definition enabledCount :: "models_panel \<Rightarrow> nat" where
  "enabledCount s = length (filter (\<lambda>m. mi_enabled m \<noteq> Some False) (md_models s))"

definition selectedModel :: "models_panel \<Rightarrow> model_item option" where
  "selectedModel s = List.find (\<lambda>m. mi_id m = md_selected s) (md_models s)"

definition model_cards :: "models_panel \<Rightarrow> (jsstr \<times> jsstr) list" where
  "model_cards s = [(nat_str (length (md_models s)), js ''public IDs''), (or_str (opt_str (md_default s)) (js ''-''), []),
     (nat_str (length (families s)), or_str (join middle_dot (families s)) (js ''-'')),
     (nat_str (enabledCount s) @ js '' / '' @ nat_str (betaCount s), or_str (join middle_dot (model_groups s)) txt_no_groups)]"

definition model_rows :: "models_panel \<Rightarrow> model_item \<Rightarrow> jsstr list" where
  "model_rows s m = [mi_id m, or_str (opt_str (mi_name m)) (js ''-''), or_str (opt_str (mi_family m)) (js ''-''),
     or_str (opt_str (mi_group m)) (js ''-''), or_str (opt_str (mi_notion_model m)) (js ''-''),
     if md_default s = Some (mi_id m) then txt_default_yes else txt_default_no]"

section \<open>Quota of all accounts\<close>

datatype usage_task = Usage_first | Usage_refresh

record usage_panel =
  ug_payload :: "ai_usage_payload option"
  ug_loading :: bool
  ug_error :: jsstr
  ug_mounted :: bool
  ug_tasks :: "usage_task list"

definition mounted_usage :: usage_panel where
  "mounted_usage = \<lparr>ug_payload = None, ug_loading = True, ug_error = [], ug_mounted = True, ug_tasks = [Usage_first]\<rparr>"

definition usage_refresh :: "usage_panel \<Rightarrow> usage_panel" where
  "usage_refresh s = s\<lparr>ug_loading := True, ug_error := [], ug_tasks := ug_tasks s @ [Usage_refresh]\<rparr>"

definition usage_unmount :: "usage_panel \<Rightarrow> usage_panel" where
  "usage_unmount s = s\<lparr>ug_mounted := False\<rparr>"

fun usage_answer :: "usage_task \<Rightarrow> failure + ai_usage_payload \<Rightarrow> usage_panel \<Rightarrow> usage_panel" where
  "usage_answer Usage_first r s = (if \<not> ug_mounted s then s
     else (case r of Inr p \<Rightarrow> s\<lparr>ug_payload := Some p\<rparr>
       | Inl e \<Rightarrow> s\<lparr>ug_error := failure_text e txt_usage_failed\<rparr>)\<lparr>ug_loading := False\<rparr>)"
| "usage_answer Usage_refresh r s =
     (case r of Inr p \<Rightarrow> s\<lparr>ug_payload := Some p\<rparr>
       | Inl e \<Rightarrow> s\<lparr>ug_error := failure_text e txt_usage_failed\<rparr>)\<lparr>ug_loading := False\<rparr>"

inductive usage_reachable :: "usage_panel \<Rightarrow> bool" where
  usage_mount: "usage_reachable mounted_usage"
| usage_refreshed: "usage_reachable s \<Longrightarrow> ug_mounted s \<Longrightarrow> \<not> ug_loading s \<Longrightarrow> usage_reachable (usage_refresh s)"
| usage_answered: "usage_reachable s \<Longrightarrow> t \<in> set (ug_tasks s) \<Longrightarrow>
     usage_reachable (usage_answer t r (s\<lparr>ug_tasks := remove1 t (ug_tasks s)\<rparr>))"
| usage_unmounted: "usage_reachable s \<Longrightarrow> usage_reachable (usage_unmount s)"

section \<open>Navigation\<close>

definition pages :: "tab_key list" where
  "pages = [Tester, Accounts, Conversations, Dashboard, Models, Settings]"

definition page_clicked :: "bool \<Rightarrow> tab_key \<Rightarrow> shell \<Rightarrow> shell" where
  "page_clicked confirmed t s = (setActiveTab confirmed t s)\<lparr>sh_mobile_nav := False\<rparr>"

section \<open>Lemmas\<close>

text \<open>Every tab has one entry in the navigation, and its entry leads to it.\<close>

lemma pages_complete: "mset pages = mset all_tabs"
  by (simp add: pages_def all_tabs_def)

lemma page_leads: "\<not> unsaved_edits s \<Longrightarrow> sh_tab (page_clicked a t s) = t"
  by (simp add: page_clicked_def setActiveTab_def canLeave_def)

text \<open>The model that is shown is in the directory, unless the default model is not.\<close>

lemma models_commit_selected:
  assumes "md_seen s \<noteq> Some (md_default s, md_models s)" and "opt_str (md_default s) = [] \<or> opt_str (md_default s) \<in> mi_id ` set (md_models s)"
    and "md_models s \<noteq> []"
  shows "selectedModel (models_commit s) \<noteq> None"
proof -
  have "md_selected (models_commit s) \<in> mi_id ` set (md_models s)"
    using assms by (cases "md_models s") (auto simp: models_commit_def model_fallback_def or_str_def)
  moreover have "md_models (models_commit s) = md_models s" by (simp add: models_commit_def)
  ultimately show ?thesis by (auto simp: selectedModel_def find_None_iff image_iff) 
qed

lemma models_commit_idem: "models_commit (models_commit s) = models_commit s"
  by (simp add: models_commit_def)

lemma enabled_le: "enabledCount s \<le> length (md_models s)" "betaCount s \<le> length (md_models s)"
  by (simp_all add: enabledCount_def betaCount_def)

text \<open>The refresh button is disabled exactly while an answer is outstanding.\<close>

theorem usage_loading_exact:
  assumes "usage_reachable s" and "ug_mounted s"
  shows "length (ug_tasks s) = of_bool (ug_loading s)"
  using assms
proof (induction rule: usage_reachable.induct)
  case (usage_answered s t r)
  then have "ug_mounted s" by (cases t) (auto split: sum.splits if_splits)
  then have "length (ug_tasks s) = of_bool (ug_loading s)" using usage_answered.IH by simp
  then have "ug_tasks s = [t]" using usage_answered.hyps(2)
    by (cases "ug_tasks s"; cases "ug_loading s") auto
  then show ?case using \<open>ug_mounted s\<close> by (cases t; cases r) simp_all
qed (simp_all add: mounted_usage_def usage_refresh_def usage_unmount_def)

end
