(* ===== verification/Panel_Screens.thy ===== *)
theory Panel_Screens imports Panel_Views Chat_Quota Number_Text begin

text \<open>
  What the dashboard (\<open>dashboard-panel.tsx\<close>), the model directory (\<open>models-panel.tsx\<close>), the windows of a quota
  (\<open>quota-windows.tsx\<close>) and the quota of all accounts (\<open>ai-usage-panel.tsx\<close>) show.

  \<open>date_text\<close> and \<open>time_text\<close> are the texts of a date and of a time in the operator's locale, \<open>now\<close> is the time of the render. What a
  \<open>details\<close> element hides until it is opened is listed like the rest.
\<close>

section \<open>Dashboard\<close>

definition featureBadge :: "bool + jsstr \<Rightarrow> 'e view" where
  "featureBadge v = Shown (case v of Inl b \<Rightarrow> if b then txt_on else txt_off | Inr t \<Rightarrow> t)"

definition dashboard_stats :: "health_payload option \<Rightarrow> version_payload option \<Rightarrow> accounts_payload option \<Rightarrow> 'e view" where
  "dashboard_stats h v p = Group (List.map (\<lambda>(label, (value, hint), fixed). StatCard label value (if fixed = [] then hint else fixed))
     (zip [txt_db_service, txt_tab_accounts, txt_db_eligible, txt_db_failures]
       (zip (dashboard_cards h v p) [[], [], txt_db_eligible_hint, txt_db_failures_hint])))"

definition workspace_row :: "account_item \<times> workspace_item \<Rightarrow> 'e view" where
  "workspace_row aw = Group [Shown (or_str (opt_str (ws_name (snd aw))) (ws_id (snd aw))), Shown (opt_str (acct_email (fst aw))),
     Shown (fst (workspace_badges aw)), Shown (snd (workspace_badges aw))]"

definition workspaces_card :: "accounts_payload option \<Rightarrow> 'e view" where
  "workspaces_card p = InfoCard [Shown txt_db_workspaces] txt_db_workspaces_text []
     (if dashboard_workspaces p = [] then [Shown txt_db_none] else List.map workspace_row (dashboard_workspaces p))"

definition errors_card :: "accounts_payload option \<Rightarrow> 'e view list" where
  "errors_card p = (if dashboard_failures p = [] then [] else [InfoCard [Shown txt_db_errors] [] []
     (List.map (\<lambda>a. Group [Shown (opt_str (acct_email a)), Shown (opt_str (acct_last_error a))]) (dashboard_failures p))])"

definition dashboard_facts :: "admin_config_payload option \<Rightarrow> (jsstr \<times> jsstr option) list" where
  "dashboard_facts p = (let session = Option.bind p acp_session; runtime = Option.bind p acp_session_refresh_runtime in
     [(txt_db_user, Option.bind session ss_user_email), (txt_us_workspace, Option.bind session ss_space_name),
      (txt_db_version, Option.bind session ss_client_version), (txt_ac_refreshed, Option.bind runtime sr_last_refresh_at),
      (js ''User ID'', Option.bind session ss_user_id), (js ''Space ID'', Option.bind session ss_space_id),
      (js ''Probe'', Option.bind session ss_probe_path),
      (txt_db_catalog, Some (nat_str (length (opt_list (Option.bind p acp_models)))))])"

definition dashboard_view ::
    "admin_config_payload option \<Rightarrow> version_payload option \<Rightarrow> health_payload option \<Rightarrow> accounts_payload option \<Rightarrow> 'e view" where
  "dashboard_view c v h p = Group ([PanelHeader txt_db_title txt_db_intro [], dashboard_stats h v p] @
     (case refresh_warning c of None \<Rightarrow> [] | Some t \<Rightarrow> [Shown t]) @ [workspaces_card p] @ errors_card p @
     [Shown txt_db_details, KeyValueGrid (dashboard_facts c),
      Group (List.map (\<lambda>(label, v). Group [Shown label, featureBadge v]) (featureLines c))])"

section \<open>Model directory\<close>

datatype directory_event = Directory_chosen jsstr | Accounts_opened

fun directory_apply :: "directory_event \<Rightarrow> models_panel \<Rightarrow> models_panel" where
  "directory_apply (Directory_chosen i) s = s\<lparr>md_selected := i\<rparr>"
| "directory_apply Accounts_opened s = s" \<comment> \<open>\<open>onOpenAccounts\<close>, which leads to the accounts panel\<close>

type_synonym directory_screen = "directory_event view"

definition enabled_badge :: "model_item \<Rightarrow> jsstr" where
  "enabled_badge m = (if mi_enabled m = Some False then js ''disabled'' else js ''enabled'')"

definition beta_badge :: "model_item \<Rightarrow> directory_screen list" where
  "beta_badge m = (if opt_true (mi_beta m) then [Shown (js ''beta'')] else [])"

definition model_stats :: "models_panel \<Rightarrow> directory_screen" where
  "model_stats s = Group (List.map (\<lambda>(label, (value, hint), fixed). StatCard label value (if fixed = [] then hint else fixed))
     (zip [txt_md_total, txt_md_default, txt_md_families, js ''Enabled / Beta''] (zip (model_cards s) [[], txt_md_current, [], []])))"

definition model_row :: "model_item \<Rightarrow> directory_screen" where
  "model_row m = Group ([Button (mi_id m) False (Directory_chosen (mi_id m)), Shown (or_str (opt_str (mi_name m)) txt_md_unnamed),
     Shown (enabled_badge m)] @ beta_badge m @
     [Shown (js ''family'' @ middle_dot @ or_str (opt_str (mi_family m)) (js ''-'')),
      Shown (js ''group'' @ middle_dot @ or_str (opt_str (mi_group m)) (js ''-'')),
      Shown (js ''notion'' @ middle_dot @ or_str (opt_str (mi_notion_model m)) (js ''-''))])"

definition directory_list :: "models_panel \<Rightarrow> directory_screen" where
  "directory_list s = InfoCard [Shown txt_md_list] (txt_md_count_before @ nat_str (length (md_models s)) @ txt_md_count_after) []
     (if md_models s = [] then [EmptyHint txt_md_none txt_md_none_text] else List.map model_row (md_models s))"

definition selected_model_view :: "models_panel \<Rightarrow> model_item \<Rightarrow> directory_screen" where
  "selected_model_view s m = Group [
     InfoCard [Shown (or_str (opt_str (mi_name m)) (mi_id m))] txt_md_routed
       ([Shown (enabled_badge m)] @ beta_badge m @ optional_text (opt_str (mi_group m)))
       [KeyValueGrid (zip [js ''Public ID'', txt_md_name, js ''Family'', js ''Group'', js ''Notion Model'', txt_md_default]
          (List.map Some (model_rows s m)))],
     InfoCard [Shown txt_md_mapping] txt_md_mapping_text [] [MetaTile txt_md_route (mi_id m),
       MetaTile txt_md_internal (or_str (opt_str (mi_notion_model m)) (js ''-'')),
       MetaTile txt_md_class (join middle_dot [or_str (opt_str (mi_family m)) (js ''-''), or_str (opt_str (mi_group m)) (js ''-'')])]]"

definition directory_view :: "models_panel \<Rightarrow> directory_screen" where
  "directory_view s = Group [PanelHeader txt_md_title txt_md_intro [Button txt_md_accounts False Accounts_opened], model_stats s,
     directory_list s, case selectedModel s of None \<Rightarrow> EmptyHint txt_md_choose txt_md_choose_text | Some m \<Rightarrow> selected_model_view s m]"

section \<open>Quota\<close>

definition window_view :: "window_row \<Rightarrow> 'e view" where
  "window_view r = Group [Shown (wr_label r),
     Shown (case wr_percent r of None \<Rightarrow> txt_qw_unknown | Some p \<Rightarrow> txt_qw_used @ num_str p @ js ''%''), Shown (wr_reset r)]"

definition fetched_text :: "(jsstr \<Rightarrow> jsstr) \<Rightarrow> ai_usage_report \<Rightarrow> jsstr" where
  "fetched_text time_text r = (if truthy (ur_fetched_at r) then txt_qw_updated @ time_text (opt_str (ur_fetched_at r)) else []) @
     (if ur_cached r then txt_qw_cached else []) @ txt_qw_local"

definition quota_view :: "(jsnum \<Rightarrow> jsstr) \<Rightarrow> (jsstr \<Rightarrow> jsstr) \<Rightarrow> jsnum \<Rightarrow> ai_usage_report \<Rightarrow> 'e view" where
  "quota_view date_text time_text now r = (let (problem, rows) = QuotaWindows date_text now r in
     Group ((case problem of None \<Rightarrow> [] | Some t \<Rightarrow> [Shown t]) @ List.map window_view rows @ [Shown (fetched_text time_text r)]))"

definition other_usage :: "ai_usage_report \<Rightarrow> jsstr" where
  "other_usage r = (let u = ur_usage r in
     txt_us_basic @ (case u of Some v \<Rightarrow> if opt_true (us_basic_usage_known v) then num_str (us_user_usage v) else txt_unknown
        | None \<Rightarrow> txt_unknown) @
     txt_us_premium @ (case u of Some v \<Rightarrow> if opt_true (us_premium_credit_known v)
          then (case us_premium_credit_balance v of None \<Rightarrow> [] | Some n \<Rightarrow> num_str n) else txt_unknown
        | None \<Rightarrow> txt_unknown))"

datatype usage_event = Usage_refreshed

definition usage_header :: "usage_panel \<Rightarrow> usage_event view" where
  "usage_header s = Group [Shown txt_us_title, Button txt_us_refresh (ug_loading s) Usage_refreshed]"

definition report_view :: "(jsnum \<Rightarrow> jsstr) \<Rightarrow> (jsstr \<Rightarrow> jsstr) \<Rightarrow> jsnum \<Rightarrow> ai_usage_report \<Rightarrow> 'e view" where
  "report_view date_text time_text now r = Group [Shown (or_str (opt_str (ur_workspace_name r)) txt_us_workspace),
     Shown (ur_email r), quota_view date_text time_text now r, Shown txt_us_other, Shown (other_usage r)]"

definition usage_view :: "(jsnum \<Rightarrow> jsstr) \<Rightarrow> (jsstr \<Rightarrow> jsstr) \<Rightarrow> jsnum \<Rightarrow> usage_panel \<Rightarrow> usage_event view" where
  "usage_view date_text time_text now s = Group ([usage_header s] @ optional_text (ug_error s) @
     (if ug_payload s = None \<and> ug_loading s then [Shown txt_us_loading] else []) @
     List.map (report_view date_text time_text now) (opt_list (map_option up_accounts (ug_payload s))))"

section \<open>What is offered\<close>

lemma card_plain [simp]: "events (StatCard label value hint) = {}"
  by (auto simp: StatCard_def)

lemma dashboard_plain: "events (dashboard_view c v h p) = {}"
  by (auto simp: dashboard_view_def layout dashboard_stats_def workspaces_card_def workspace_row_def errors_card_def featureBadge_def
      split: option.splits)

lemma directory_offers: "events (directory_view s) = insert Accounts_opened (Directory_chosen ` mi_id ` set (md_models s))"
  by (auto simp: directory_view_def layout model_stats_def directory_list_def model_row_def selected_model_view_def beta_badge_def
      split: option.splits)

lemma quota_plain: "events (quota_view date_text time_text now r) = {}"
  by (auto simp: quota_view_def Let_def window_view_def split: prod.splits option.splits)

lemma usage_offers: "events (usage_view date_text time_text now s) = (if ug_loading s then {} else {Usage_refreshed})"
  by (auto simp: usage_view_def usage_header_def report_view_def quota_plain)

text \<open>
  Whatever model of the directory the operator clicks, it is the one that is shown then, and it stays when the directory is read
  again, as long as it is in it.
\<close>

theorem directory_shows_chosen:
  assumes "Directory_chosen i \<in> events (directory_view s)"
  shows "map_option mi_id (selectedModel (directory_apply (Directory_chosen i) s)) = Some i \<and>
    (\<forall>ms d. i \<in> mi_id ` set ms \<longrightarrow> i \<noteq> [] \<longrightarrow>
       map_option mi_id (selectedModel (models_commit ((directory_apply (Directory_chosen i) s)\<lparr>md_models := ms, md_default := d\<rparr>))) = Some i)"
proof -
  have find: "map_option mi_id (List.find (\<lambda>m. mi_id m = i) ms) = Some i" if "i \<in> mi_id ` set ms" for ms
  proof (cases "List.find (\<lambda>m. mi_id m = i) ms")
    case None
    then show ?thesis using that by (auto simp: find_None_iff)
  next
    case (Some m)
    then show ?thesis by (auto simp: find_Some_iff)
  qed
  have "i \<in> mi_id ` set (md_models s)" using assms by (auto simp: directory_offers)
  then show ?thesis using find by (simp add: selectedModel_def models_commit_def) blast
qed

end
