(* ===== verification/Chat_View.thy ===== *)
theory Chat_View imports Chat_Invariants Panel_Screens Evidence_View begin

text \<open>
  What the chat shows (\<open>components/admin/chat-workspace.tsx\<close>, the markup): the history with the row that is renamed, the header
  with the quota, the transcript with the message that is edited, and the composer.

  \<open>chat_ui\<close> is the state of the component that no handler of Chat_Workspace reads. \<open>chat_env\<close> holds what the next click would
  draw from outside: identifiers, times, the answer to \<open>window.confirm\<close> and texts of dates. The text of an answer stands for what
  \<open>MessageMarkdown\<close> makes of it; the dialog of the notes, the model policy in its dialog and files that are dropped, pasted or
  picked are not part of the view. While a dialog is open what is behind it cannot be used.
\<close>

section \<open>What only the markup reads\<close>

record chat_ui =
  cu_filter :: jsstr
  cu_sidebar :: bool
  cu_notes :: bool
  cu_policy :: bool
  cu_policy_target :: jsstr
  cu_bottom :: bool
  cu_copied :: "nat option"
  cu_dragging :: bool
  cu_dark :: bool

datatype ui_event =
    Searched jsstr
  | Sidebar_set bool
  | Notes_set bool
  | Policy_opened jsstr
  | Policy_chosen jsstr
  | Policy_closed
  | Bottom_reached bool
  | Copied nat
  | Copied_over
  | Theme_switched
  | Files_asked \<comment> \<open>the hidden file input opens the dialog of the browser\<close>
  | Console_asked \<comment> \<open>\<open>onNavigate('dashboard')\<close>, which the shell handles\<close>

fun ui_apply :: "ui_event \<Rightarrow> chat_ui \<Rightarrow> chat_ui" where
  "ui_apply (Searched t) u = u\<lparr>cu_filter := t\<rparr>"
| "ui_apply (Sidebar_set b) u = u\<lparr>cu_sidebar := b\<rparr>"
| "ui_apply (Notes_set b) u = u\<lparr>cu_notes := b\<rparr>"
| "ui_apply (Policy_opened i) u = u\<lparr>cu_policy := True, cu_policy_target := i\<rparr>"
| "ui_apply (Policy_chosen i) u = u\<lparr>cu_policy_target := i\<rparr>"
| "ui_apply Policy_closed u = u\<lparr>cu_policy := False\<rparr>"
| "ui_apply (Bottom_reached b) u = u\<lparr>cu_bottom := b\<rparr>"
| "ui_apply (Copied i) u = u\<lparr>cu_copied := Some i\<rparr>"
| "ui_apply Copied_over u = u\<lparr>cu_copied := None\<rparr>"
| "ui_apply Theme_switched u = u\<lparr>cu_dark := \<not> cu_dark u\<rparr>"
| "ui_apply Files_asked u = u"
| "ui_apply Console_asked u = u"

record chat_env =
  en_sure :: bool
  en_conv :: jsstr
  en_answer :: jsstr
  en_now :: jsstr
  en_ms :: int
  en_clock :: jsnum
  en_date :: "jsnum \<Rightarrow> jsstr"
  en_time :: "jsstr \<Rightarrow> jsstr"

datatype chat_act = Do chat_event | Ui ui_event

type_synonym chat_screen = "chat_act view"

definition targets_of :: "chat \<Rightarrow> chat_target list" where
  "targets_of s = eligible_targets (accounts_of s)"

definition effective_of :: "chat \<Rightarrow> chat_target option" where
  "effective_of s = effectiveWorkspace (accounts_of s) (ch_target s)"

definition bound_of :: "chat \<Rightarrow> chat_target option" where
  "bound_of s = boundTarget (accounts_of s) (ch_target s)"

section \<open>The history\<close>

definition rename_row :: "chat \<Rightarrow> conversation_summary \<Rightarrow> chat_screen" where
  "rename_row s item = (let busy = (ch_busy s = cv_id item) in Group [
     Input Plain_input (ch_rename_value s) [] busy (\<lambda>t. Do (E_rename_value (take 72 t))),
     Key (js ''Escape'') busy (Do E_cancel_rename),
     Button txt_ch_rename_save (busy \<or> trim (ch_rename_value s) = []) (Do (E_commit_rename (cv_id item))),
     Button txt_ch_rename_cancel busy (Do E_cancel_rename)])"

definition history_row :: "chat_env \<Rightarrow> chat \<Rightarrow> conversation_summary \<Rightarrow> chat_screen" where
  "history_row c s item = (let label = conversationLabel item; busy = (ch_busy s = cv_id item);
       local_only = (\<lambda>b. if opt_true (cv_remote_only item) then [] else [b]) in Group (
     [Button label (ch_running s) (Do (E_open (cv_id item)))] @
     local_only (Button (txt_ch_rename @ label) (busy \<or> ch_running s) (Do (E_start_rename item))) @
     [Button (txt_ch_export @ label) busy (Do (E_export (cv_id item) label (en_now c)))] @
     local_only (Button (txt_ch_delete @ label) (busy \<or> ch_running s) (Do (E_remove item (en_sure c))))))"

definition shown_history :: "chat_ui \<Rightarrow> chat \<Rightarrow> conversation_summary list" where
  "shown_history u s = history (conversations_of s) (cu_filter u)"

definition sidebar :: "chat_env \<Rightarrow> chat_ui \<Rightarrow> chat \<Rightarrow> chat_screen" where
  "sidebar c u s = Group ([Shown txt_ch_records, Button txt_ch_fold False (Ui (Sidebar_set False)),
     Button txt_new_conversation (ch_running s) (Do E_new), Input Plain_input (cu_filter u) txt_ch_search False (\<lambda>t. Ui (Searched t)),
     Shown txt_ch_recent] @
     List.map (\<lambda>item. if ch_renaming s = cv_id item then rename_row s item else history_row c s item) (shown_history u s) @
     (if shown_history u s = [] then [Shown (if cu_filter u \<noteq> [] then txt_ch_no_match else txt_ch_empty)] else []) @
     [Button txt_ch_admin False (Ui Console_asked)])"

section \<open>The header\<close>

definition quota_rows :: "chat_env \<Rightarrow> ai_usage_report list option \<Rightarrow> chat_screen" where
  "quota_rows c rows = (case rows of None \<Rightarrow> Shown txt_ch_quota_reading
     | Some [] \<Rightarrow> Shown txt_ch_quota_none
     | Some rs \<Rightarrow> Group (List.map (\<lambda>r. Group [Shown (or_str (opt_str (ur_workspace_name r)) (opt_str (ur_space_id r))),
         quota_view (en_date c) (en_time c) (en_clock c) r]) rs))"

definition quota_panel :: "chat_env \<Rightarrow> chat \<Rightarrow> chat_screen" where
  "quota_panel c s = (let q = ch_quota s; active = activeQuota (effective_key s) q in if \<not> qs_open q then Group [] else Group (
     [Key (js ''backdrop'') False (Do E_toggle_quota), Shown txt_ch_quota,
      Button txt_ch_quota_refresh (qs_loading q \<or> qs_rows_loading q) (Do (E_refresh_quota (en_ms c)))] @
     optional_text (qs_error q) @ (if qs_error q \<noteq> [] then [] else case effective_of s of None \<Rightarrow> [quota_rows c (qs_rows q)]
       | Some w \<Rightarrow> [Shown (ct_name w @ middle_dot @ ct_email w)] @
           (if qs_loading q \<and> active = None then [Shown txt_ch_quota_reading] else []) @
           (case active of None \<Rightarrow> [] | Some r \<Rightarrow> [quota_view (en_date c) (en_time c) (en_clock c) r]))))"

definition quota_chip :: "chat \<Rightarrow> jsstr" where
  "quota_chip s = (let q = ch_quota s in if qs_error q \<noteq> [] \<and> activeQuota (effective_key s) q = None then txt_ch_quota_failed
     else case primaryPercent (effective_key s) q of None \<Rightarrow> txt_ch_quota_short | Some p \<Rightarrow> txt_ch_quota_left @ num_str (of_int p) @ js ''%'')"

definition header_tools :: "chat_env \<Rightarrow> chat \<Rightarrow> chat_screen" where
  "header_tools c s = Group (
     (if ch_running s then [Shown txt_ch_generating] else []) @
     (if list_ex (\<lambda>t. \<not> ct_disabled t) (allTargets (accounts_of s)) then [Button txt_ch_notes False (Ui (Notes_set True))] else []) @
     (case targets_of s of [] \<Rightarrow> [] | t # _ \<Rightarrow>
       [Button txt_ch_policy (ch_running s) (Ui (Policy_opened (case effective_of s of Some w \<Rightarrow> ct_id w | None \<Rightarrow> ct_id t))),
        Button (quota_chip s) False (Do E_toggle_quota), quota_panel c s]) @
     (if ch_conv s = [] then [] else [Button txt_ch_markdown (ch_loading s \<or> ch_busy s = ch_conv s)
        (Do (E_export (ch_conv s) (ch_title s) (en_now c)))]) @
     [Button txt_ch_theme False (Ui Theme_switched), Button txt_new_conversation (ch_running s) (Do E_new)])"

definition chat_header :: "chat_env \<Rightarrow> chat_ui \<Rightarrow> chat \<Rightarrow> chat_screen" where
  "chat_header c u s = Group ([Button txt_ch_nav_open False (Do (E_mobile True))] @
     (if cu_sidebar u then [] else [Button txt_ch_unfold False (Ui (Sidebar_set True))]) @
     [Shown (case bound_of s of None \<Rightarrow> js ''Notion AI'' | Some t \<Rightarrow> ct_name t), Shown (ch_title s), header_tools c s])"

section \<open>The transcript\<close>

definition chat_welcome :: "chat \<Rightarrow> chat_screen" where
  "chat_welcome s = (if ch_loading s \<or> ch_messages s \<noteq> [] \<or> ch_load_failed s then Group []
     else Group ([Shown txt_lo_product, Shown txt_ch_question, Shown txt_ch_question_text] @
       List.map (\<lambda>t. Button t False (Do (E_prompt t))) starters))"

definition process_view :: "conversation_message list \<Rightarrow> chat_screen" where
  "process_view steps = Group (Shown (txt_ch_process @ nat_str (length steps) @ txt_ch_process_count) #
     List.map (\<lambda>m. Group [Shown (stepLabel (cm_step_type m)), Shown (or_str (opt_str (cm_step_type m)) txt_step_other),
       Shown (or_str (opt_str (cm_content m)) txt_ch_no_detail)]) steps)"

definition message_edit :: "chat \<Rightarrow> conversation_message \<Rightarrow> chat_screen" where
  "message_edit s m = Group [Input Multi_line (ch_edit_value s) [] (ch_saving s) (\<lambda>t. Do (E_edit_value t)),
     Key (js ''Escape'') (ch_saving s) (Do E_cancel_edit),
     Button txt_ch_edit_save (ch_saving s \<or> trim (ch_edit_value s) = []) (Do (E_commit_edit m)),
     Button txt_ch_edit_cancel (ch_saving s) (Do E_cancel_edit)]"

definition attachment_view :: "nat \<times> message_attachment \<Rightarrow> chat_screen" where
  "attachment_view = (\<lambda>(i, a). Shown (or_str (opt_str (ma_name a)) (txt_ch_attachment @ nat_str (Suc i))))"

definition message_content :: "conversation_message \<Rightarrow> chat_screen" where
  "message_content m = Group (optional_text (opt_str (cm_content m)) @
     (if \<not> truthy (cm_content m) \<and> cm_status m = Some (js ''streaming'') then [Shown txt_ch_thinking] else []) @
     List.map attachment_view (enumerate 0 (opt_list (cm_attachments m))))"

definition message_actions :: "chat_env \<Rightarrow> chat_ui \<Rightarrow> chat \<Rightarrow> nat \<Rightarrow> conversation_message \<Rightarrow> chat_screen" where
  "message_actions c u s i m = (let locked = (ch_running s \<or> ch_saving s \<or> \<not> truthy (cm_id m) \<or> ch_remote_only s) in Group (
     (if truthy (cm_edited_at m) then [Shown txt_ch_edited] else []) @
     (if cm_status m = Some (js ''failed'') then [Shown txt_ch_failed] else []) @
     (if opt_true (cm_truncated m) then [Shown txt_ch_truncated] else []) @
     (if truthy (cm_content m) then [Shown (txt_ch_about @ formatTokens (estimateTokens (cm_content m)) @ js '' tokens'')] else []) @
     [Button txt_ch_edit locked (Do (E_start_edit m)), Button txt_ch_remove locked (Do (E_remove_message m (en_sure c))),
      Button txt_ch_copy (\<not> truthy (cm_content m)) (Ui (Copied i))]))"

definition preferred_models :: "chat \<Rightarrow> model_item list" where
  "preferred_models s = (case Option.bind (bound_of s) ct_capability of None \<Rightarrow> []
     | Some k \<Rightarrow> opt_list (mc_models k) @ opt_list (mc_catalog k))"

definition article :: "chat_env \<Rightarrow> chat_ui \<Rightarrow> chat \<Rightarrow> nat \<Rightarrow> conversation_message \<Rightarrow> chat_screen" where
  "article c u s i m = Group ((if cm_role m = Some (js ''user'') then [] else [Shown (js ''Notion AI'')]) @
     [if in_edit s m then message_edit s m else message_content m,
      evidence_view m (modelCatalog (cp_models (ch_props s)) (accounts_of s)) (preferred_models s), message_actions c u s i m])"

definition transcript_row :: "chat_env \<Rightarrow> chat_ui \<Rightarrow> chat \<Rightarrow> nat \<times> conversation_message \<Rightarrow> chat_screen" where
  "transcript_row c u s = (\<lambda>(i, m). if is_step m then
       (if 0 < i \<and> is_step (ch_messages s ! (i - 1)) then Group [] else process_view (takeWhile is_step (drop i (ch_messages s))))
     else article c u s i m)"

definition transcript :: "chat_env \<Rightarrow> chat_ui \<Rightarrow> chat \<Rightarrow> chat_screen" where
  "transcript c u s = Group ((if ch_loading s then [Shown txt_ch_loading] else []) @ [chat_welcome s] @
     List.map (transcript_row c u s) (enumerate 0 (ch_messages s)))"

section \<open>The composer\<close>

definition chat_notices :: "chat_ui \<Rightarrow> chat \<Rightarrow> chat_screen" where
  "chat_notices u s = Group (
     (if \<not> cu_bottom u \<and> ch_messages s \<noteq> [] then [Button txt_ch_latest False (Ui (Bottom_reached True))] else []) @
     (if ch_error s = [] then [] else [Shown (ch_error s)] @
       (if ch_load_failed s then [Button txt_lo_reload False (Do E_reload)] else [])) @
     (if ch_remote_running s then [Shown txt_ch_remote] else []))"

definition file_view :: "chat \<Rightarrow> nat \<times> js_file \<Rightarrow> chat_screen" where
  "file_view s = (\<lambda>(i, f). Group [Shown (file_name f), Shown (formatBytes (file_size f)),
     Button (txt_ch_file_remove @ file_name f) (ch_running s) (Do (E_remove_file i))])"

definition send_button :: "chat_env \<Rightarrow> chat \<Rightarrow> chat_screen" where
  "send_button c s = (if ch_running s then Button txt_ch_stop False (Do E_stop)
     else Button txt_ch_send (\<not> composer_on s \<or> trim (ch_prompt s) = [] \<and> ch_files s = []) (Do (E_submit (en_conv c) (en_answer c))))"

definition model_select :: "chat \<Rightarrow> chat_screen" where
  "model_select s = Choice (ch_model s) (List.map (\<lambda>m. (mi_id m, or_str (opt_str (mi_name m)) (mi_id m))) (model_choices s))
     (ch_running s \<or> ch_remote_running s \<or> length (model_choices s) = 1) (\<lambda>m. Do (E_model m))"

definition composer :: "chat_env \<Rightarrow> chat_ui \<Rightarrow> chat \<Rightarrow> chat_screen" where
  "composer c u s = Group ((if cu_dragging u then [Shown txt_ch_drop] else []) @ List.map (file_view s) (enumerate 0 (ch_files s)) @
     [Input Multi_line (ch_prompt s) txt_ch_send_hint (\<not> composer_on s) (\<lambda>t. Do (E_prompt t)),
      Key (js ''Enter'') (\<not> composer_on s) (Do (E_submit (en_conv c) (en_answer c))),
      Button txt_ch_attach (ch_loading s \<or> ch_running s) (Ui Files_asked), model_select s,
      Button txt_ch_web (ch_running s) (Do E_web), send_button c s])"

definition model_note :: "chat \<Rightarrow> jsstr" where
  "model_note s = (if autoOnly (accounts_of s) (ch_target s) then txt_ch_auto_only
     else if length (model_choices s) = 1 then txt_ch_no_choice else txt_ch_by_hand)"

definition target_select :: "chat \<Rightarrow> chat_screen" where
  "target_select s = Group (Choice (ch_target s)
       ((auto, if ch_conv s = [] then txt_ch_any else txt_ch_bound) #
        List.map (\<lambda>t. (ct_id t, ct_name t @ middle_dot @ ct_tier t @ middle_dot @ ct_email t)) (targets_of s))
       (ch_conv s \<noteq> [] \<or> ch_loading s \<or> ch_running s) (\<lambda>t. Do (E_target t)) #
     (if ch_target s \<noteq> auto \<and> selectedTarget (accounts_of s) (ch_target s) = None
      then [Shown ((case bound_of s of None \<Rightarrow> txt_ch_former | Some t \<Rightarrow> ct_name t @ middle_dot @ ct_tier t) @ txt_ch_gone)] else []))"

definition token_total :: "chat \<Rightarrow> chat_screen" where
  "token_total s = (if ch_messages s = [] then Group [] else Shown (txt_ch_input @ formatTokens (inputTokens (ch_messages s)) @
     txt_ch_output @ formatTokens (outputTokens (ch_messages s)) @ txt_ch_estimated))"

definition composer_area :: "chat_env \<Rightarrow> chat_ui \<Rightarrow> chat \<Rightarrow> chat_screen" where
  "composer_area c u s = Group [chat_notices u s, composer c u s, Shown (model_note s), target_select s, token_total s,
     Shown txt_ch_enter, Shown txt_ch_shift_enter]"

section \<open>The chat\<close>

definition chat_page :: "chat_env \<Rightarrow> chat_ui \<Rightarrow> chat \<Rightarrow> chat_screen" where
  "chat_page c u s = Group ((if cu_sidebar u then [sidebar c u s] else []) @ [chat_header c u s, transcript c u s, composer_area c u s])"

definition policy_dialog :: "chat_ui \<Rightarrow> chat \<Rightarrow> chat_screen" where
  "policy_dialog u s = Group [Shown txt_ch_policy, Shown txt_ch_policy_text,
     Choice (case policyWorkspace (accounts_of s) (cu_policy_target u) (ch_target s) of None \<Rightarrow> [] | Some t \<Rightarrow> ct_id t)
       (List.map (\<lambda>t. (ct_id t, ct_name t @ middle_dot @ ct_email t)) (targets_of s)) False (\<lambda>i. Ui (Policy_chosen i)),
     Button (js ''Close'') False (Ui Policy_closed)]"

definition chat_view :: "chat_env \<Rightarrow> chat_ui \<Rightarrow> chat \<Rightarrow> chat_screen" where
  "chat_view c u s = (let page = chat_page c u s in if \<not> cp_visible (ch_props s) then Group []
     else if cu_notes u then Inert page else if cu_policy u then Group [Inert page, policy_dialog u s]
     else if ch_mobile_open s then Group [Inert page, Shown txt_ch_nav_title, sidebar c u s, Button (js ''Close'') False (Do (E_mobile False))]
     else page)"

end
