(* ===== verification/Chat_Screen.thy ===== *)
theory Chat_Screen imports Chat_View begin

text \<open>
  The chat offers what its transitions allow: the events of each part of Chat_View, and of the whole.
\<close>

section \<open>The parts\<close>

lemma take_range: "range (\<lambda>t::jsstr. take n t) = {v. length v \<le> n}"
  by (auto simp: image_def) (metis order_refl take_all)

lemma enumerate_ex: "(\<And>i x. P (i, x) \<longleftrightarrow> Q x) \<Longrightarrow> (\<exists>p\<in>set (enumerate n xs). P p) \<longleftrightarrow> (\<exists>x\<in>set xs. Q x)"
proof -
  assume "\<And>i x. P (i, x) \<longleftrightarrow> Q x"
  then have "(\<exists>p\<in>set (enumerate n xs). P p) \<longleftrightarrow> (\<exists>x\<in>snd ` set (enumerate n xs). Q x)" by force
  also have "snd ` set (enumerate n xs) = set xs" using map_snd_enumerate [of n xs] by (metis list.set_map)
  finally show ?thesis .
qed

lemma rename_row_events: "Do e \<in> events (rename_row s item) \<longleftrightarrow> ch_busy s \<noteq> cv_id item \<and>
    (e = E_cancel_rename \<or> (\<exists>v. e = E_rename_value v \<and> length v \<le> 72) \<or>
     e = E_commit_rename (cv_id item) \<and> trim (ch_rename_value s) \<noteq> [])"
proof -
  have "(\<exists>t. e = E_rename_value (take 72 t)) \<longleftrightarrow> (\<exists>v. e = E_rename_value v \<and> length v \<le> 72)"
    using take_range [of 72] by (auto simp: image_def set_eq_iff)
  then show ?thesis by (auto simp: rename_row_def Let_def image_iff)
qed

lemma history_row_events: "Do e \<in> events (history_row c s item) \<longleftrightarrow>
    e = E_open (cv_id item) \<and> \<not> ch_running s \<or>
    e = E_export (cv_id item) (conversationLabel item) (en_now c) \<and> ch_busy s \<noteq> cv_id item \<or>
    (e = E_start_rename item \<or> e = E_remove item (en_sure c)) \<and> \<not> opt_true (cv_remote_only item) \<and> \<not> ch_running s \<and>
      ch_busy s \<noteq> cv_id item"
  by (auto simp: history_row_def Let_def)

lemma sidebar_events: "Do e \<in> events (sidebar c u s) \<longleftrightarrow> e = E_new \<and> \<not> ch_running s \<or>
    (\<exists>item\<in>set (shown_history u s). Do e \<in> events (if ch_renaming s = cv_id item then rename_row s item else history_row c s item))"
  by (auto simp: sidebar_def image_iff)

lemma quota_panel_events: "Do e \<in> events (quota_panel c s) \<longleftrightarrow> qs_open (ch_quota s) \<and>
    (e = E_toggle_quota \<or> e = E_refresh_quota (en_ms c) \<and> \<not> qs_loading (ch_quota s) \<and> \<not> qs_rows_loading (ch_quota s))"
  by (auto simp: quota_panel_def quota_rows_def Let_def quota_plain split: option.splits list.splits)

lemma chat_tools_events: "Do e \<in> events (header_tools c s) \<longleftrightarrow> e = E_new \<and> \<not> ch_running s \<or>
    targets_of s \<noteq> [] \<and> (e = E_toggle_quota \<or> Do e \<in> events (quota_panel c s)) \<or>
    e = E_export (ch_conv s) (ch_title s) (en_now c) \<and> ch_conv s \<noteq> [] \<and> \<not> ch_loading s \<and> ch_busy s \<noteq> ch_conv s"
  by (cases "targets_of s") (simp_all add: header_tools_def disj_ac)

lemma chat_header_events: "Do e \<in> events (chat_header c u s) \<longleftrightarrow> e = E_mobile True \<or> Do e \<in> events (header_tools c s)"
  by (simp add: chat_header_def)

lemma article_events: "Do e \<in> events (article c u s i m) \<longleftrightarrow>
    in_edit s m \<and> \<not> ch_saving s \<and> (e = E_cancel_edit \<or> (\<exists>v. e = E_edit_value v) \<or> e = E_commit_edit m \<and> trim (ch_edit_value s) \<noteq> []) \<or>
    (e = E_start_edit m \<or> e = E_remove_message m (en_sure c)) \<and> truthy (cm_id m) \<and> \<not> ch_running s \<and> \<not> ch_saving s \<and> \<not> ch_remote_only s"
proof -
  have "events (message_content m) = {}" by (auto simp: message_content_def attachment_view_def split: prod.splits)
  moreover have "Do e \<in> events (message_edit s m) \<longleftrightarrow> \<not> ch_saving s \<and>
      (e = E_cancel_edit \<or> (\<exists>v. e = E_edit_value v) \<or> e = E_commit_edit m \<and> trim (ch_edit_value s) \<noteq> [])"
    by (auto simp: message_edit_def image_iff)
  moreover have "Do e \<in> events (message_actions c u s i m) \<longleftrightarrow> (e = E_start_edit m \<or> e = E_remove_message m (en_sure c)) \<and>
      truthy (cm_id m) \<and> \<not> ch_running s \<and> \<not> ch_saving s \<and> \<not> ch_remote_only s"
    by (auto simp: message_actions_def Let_def)
  ultimately show ?thesis by (auto simp: article_def evidence_plain)
qed

lemma transcript_events: "Do e \<in> events (transcript c u s) \<longleftrightarrow>
    (\<exists>t\<in>set starters. e = E_prompt t) \<and> \<not> ch_loading s \<and> ch_messages s = [] \<and> \<not> ch_load_failed s \<or>
    (\<exists>m\<in>set (ch_messages s). \<not> is_step m \<and> Do e \<in> events (article c u s 0 m))"
proof -
  have row: "Do e \<in> events (transcript_row c u s (i, m)) \<longleftrightarrow> \<not> is_step m \<and> Do e \<in> events (article c u s 0 m)" for i m
    by (auto simp: transcript_row_def process_view_def article_events)
  have "(\<exists>p\<in>set (enumerate 0 (ch_messages s)). Do e \<in> events (transcript_row c u s p)) \<longleftrightarrow>
      (\<exists>m\<in>set (ch_messages s). \<not> is_step m \<and> Do e \<in> events (article c u s 0 m))"
    by (rule enumerate_ex) (rule row)
  moreover have "Do e \<in> events (chat_welcome s) \<longleftrightarrow>
      (\<exists>t\<in>set starters. e = E_prompt t) \<and> \<not> ch_loading s \<and> ch_messages s = [] \<and> \<not> ch_load_failed s"
    by (auto simp: chat_welcome_def)
  ultimately show ?thesis by (simp add: transcript_def disj_ac)
qed

lemma file_events: "(\<exists>p\<in>set (enumerate 0 (ch_files s)). Do e \<in> events (file_view s p)) \<longleftrightarrow>
    (\<exists>i. e = E_remove_file i \<and> i < length (ch_files s)) \<and> \<not> ch_running s"
proof -
  have "Do e \<in> events (file_view s p) \<longleftrightarrow> e = E_remove_file (fst p) \<and> \<not> ch_running s" for p
    by (cases p) (simp add: file_view_def)
  moreover have "fst ` set (enumerate 0 (ch_files s)) = {0..<length (ch_files s)}"
    using map_fst_enumerate [of 0 "ch_files s"] by (metis add_0 list.set_map set_upt)
  ultimately show ?thesis by (auto simp: set_eq_iff image_iff)
qed

lemma composer_events: "Do e \<in> events (composer_area c u s) \<longleftrightarrow>
    e = E_reload \<and> ch_load_failed s \<and> ch_error s \<noteq> [] \<or> (\<exists>i. e = E_remove_file i \<and> i < length (ch_files s)) \<and> \<not> ch_running s \<or>
    ((\<exists>t. e = E_prompt t) \<or> e = E_submit (en_conv c) (en_answer c)) \<and> composer_on s \<or>
    (\<exists>m\<in>set (model_choices s). e = E_model (mi_id m)) \<and> \<not> ch_running s \<and> \<not> ch_remote_running s \<and> length (model_choices s) \<noteq> 1 \<or>
    e = E_web \<and> \<not> ch_running s \<or> e = E_stop \<and> ch_running s \<or>
    (\<exists>t\<in>insert auto (ct_id ` set (targets_of s)). e = E_target t) \<and> ch_conv s = [] \<and> \<not> ch_loading s \<and> \<not> ch_running s"
proof -
  have "Do e \<in> events (chat_notices u s) \<longleftrightarrow> e = E_reload \<and> ch_load_failed s \<and> ch_error s \<noteq> []"
    by (auto simp: chat_notices_def)
  moreover have "Do e \<in> events (target_select s) \<longleftrightarrow>
      (\<exists>t\<in>insert auto (ct_id ` set (targets_of s)). e = E_target t) \<and> ch_conv s = [] \<and> \<not> ch_loading s \<and> \<not> ch_running s"
    by (auto simp: target_select_def image_image)
  moreover have "Do e \<in> events (model_select s) \<longleftrightarrow> (\<exists>m\<in>set (model_choices s). e = E_model (mi_id m)) \<and> \<not> ch_running s \<and>
      \<not> ch_remote_running s \<and> length (model_choices s) \<noteq> 1"
    by (auto simp: model_select_def image_image)
  moreover have "events (token_total s) = {}" by (simp add: token_total_def)
  ultimately show ?thesis using file_events [of s e]
    by (auto simp: composer_area_def composer_def send_button_def image_iff)
qed

text \<open>The area behind the quota panel closes it, which is what the chip does while the panel is open.\<close>

lemma backdrop_closes: "qs_open q \<Longrightarrow> toggleQuota effective ts q = q\<lparr>qs_open := False\<rparr>"
  by (simp add: toggleQuota_def)

section \<open>The whole\<close>

lemma history_all: "history conversations [] = conversations"
  by (simp add: history_def to_lower_def)

text \<open>
  What the user does with the controls. Files that are picked, dropped or pasted, a note that is referred to and what happens
  by itself are not; identifiers, times and the answer to a question are those of the environment.
\<close>

fun chat_by_hand :: "chat_env \<Rightarrow> chat_event \<Rightarrow> bool" where
  "chat_by_hand c (E_submit a b) = (a = en_conv c \<and> b = en_answer c)"
| "chat_by_hand c (E_remove item a) = (a = en_sure c)"
| "chat_by_hand c (E_remove_message m a) = (a = en_sure c)"
| "chat_by_hand c (E_export i label now) = (now = en_now c)"
| "chat_by_hand c (E_refresh_quota ms) = (ms = en_ms c)"
| "chat_by_hand c (E_mobile b) = b"
| "chat_by_hand c (E_props p) = False"
| "chat_by_hand c (E_add_files fs) = False"
| "chat_by_hand c (E_reference note w) = False"
| "chat_by_hand c E_tick = False"
| "chat_by_hand c (E_delta n d) = False"
| "chat_by_hand c (E_reply n r now ms) = False"
| "chat_by_hand c (E_quota_reply t r) = False"
| "chat_by_hand c E_unmount = False"
| "chat_by_hand c e = True"

lemma shown_in_history: "set (shown_history u s) \<subseteq> set (conversations_of s)"
  by (auto simp: shown_history_def history_def)

lemma history_enabled:
  assumes "cp_visible (ch_props s)" and "Do e \<in> events (sidebar c u s)"
  shows "chat_enabled e s \<and> chat_by_hand c e"
proof -
  consider "e = E_new" "\<not> ch_running s" | item where "item \<in> set (conversations_of s)"
      "Do e \<in> events (if ch_renaming s = cv_id item then rename_row s item else history_row c s item)"
    using assms(2) shown_in_history [of u s] by (auto simp: sidebar_events)
  then show ?thesis
  proof cases
    case 2
    then show ?thesis using assms(1)
      by (auto simp: rename_row_events history_row_events chat_enabled_def chat_allowed_def rename_shown_def row_action_def export_offered_def
          split: if_splits)
  qed (use assms(1) in \<open>simp add: chat_enabled_def chat_allowed_def\<close>)
qed

lemma main_enabled:
  assumes "cp_visible (ch_props s)" and "Do e \<in> events (chat_page c u s)"
  shows "chat_enabled e s \<and> chat_by_hand c e"
proof -
  consider "Do e \<in> events (sidebar c u s)" | "Do e \<in> events (chat_header c u s)" | "Do e \<in> events (transcript c u s)"
    | "Do e \<in> events (composer_area c u s)"
    using assms(2) by (auto simp: chat_page_def split: if_splits)
  then show ?thesis
  proof cases
    case 1
    then show ?thesis using history_enabled assms(1) by blast
  next
    case 2
    then show ?thesis using assms(1)
      by (auto simp: chat_header_events chat_tools_events quota_panel_events chat_enabled_def chat_allowed_def export_offered_def targets_of_def)
  next
    case 3
    then show ?thesis using assms(1)
      by (auto simp: transcript_events article_events chat_enabled_def chat_allowed_def message_action_def edit_shown_def list_ex_iff)
  next
    case 4
    then show ?thesis using assms(1)
      by (auto simp: composer_events chat_enabled_def chat_allowed_def targets_of_def)
  qed
qed

definition plain_ui :: "chat_ui \<Rightarrow> chat \<Rightarrow> bool" where
  "plain_ui u s \<longleftrightarrow> cu_filter u = [] \<and> cu_sidebar u \<and> \<not> cu_notes u \<and> \<not> cu_policy u \<and> \<not> ch_mobile_open s"

lemma full_history: "plain_ui u s \<Longrightarrow> shown_history u s = conversations_of s"
  by (simp add: plain_ui_def shown_history_def history_all)

lemma row_offered:
  assumes "plain_ui u s" and "item \<in> set (conversations_of s)" and "ch_renaming s \<noteq> cv_id item" and "Do e \<in> events (history_row c s item)"
  shows "Do e \<in> events (chat_page c u s)"
  using assms by (auto simp: chat_page_def sidebar_events full_history) (simp add: plain_ui_def)

lemma rename_offered:
  assumes "plain_ui u s" and "rename_shown s" and "\<And>item. cv_id item = ch_renaming s \<Longrightarrow> Do e \<in> events (rename_row s item)"
  shows "Do e \<in> events (chat_page c u s)"
proof -
  obtain item where "item \<in> set (conversations_of s)" "cv_id item = ch_renaming s" using assms(2) by (auto simp: rename_shown_def)
  then show ?thesis using assms(1,3) by (auto simp: chat_page_def sidebar_events full_history) (auto simp: plain_ui_def)
qed

lemma article_offered: "m \<in> set (ch_messages s) \<Longrightarrow> \<not> is_step m \<Longrightarrow> Do e \<in> events (article c u s 0 m) \<Longrightarrow> Do e \<in> events (chat_page c u s)"
  by (auto simp: chat_page_def transcript_events)

lemma page_parts:
  "Do e \<in> events (chat_header c u s) \<Longrightarrow> Do e \<in> events (chat_page c u s)"
  "Do e \<in> events (transcript c u s) \<Longrightarrow> Do e \<in> events (chat_page c u s)"
  "Do e \<in> events (composer_area c u s) \<Longrightarrow> Do e \<in> events (chat_page c u s)"
  by (simp_all add: chat_page_def)

lemma export_shown:
  assumes "plain_ui u s" and "export_offered i label s"
  shows "Do (E_export i label (en_now c)) \<in> events (chat_page c u s)"
proof (cases "i = ch_conv s \<and> i \<noteq> [] \<and> label = ch_title s \<and> \<not> ch_loading s")
  case True
  then show ?thesis using assms(2) by (intro page_parts(1)) (auto simp: chat_header_events chat_tools_events export_offered_def)
next
  case False
  then obtain item where "item \<in> set (conversations_of s)" "i = cv_id item" "label = conversationLabel item" "cv_id item \<noteq> ch_renaming s"
    using assms(2) by (auto simp: export_offered_def)
  then show ?thesis using assms by (intro row_offered) (auto simp: history_row_events export_offered_def)
qed

lemma all_offered:
  assumes plain: "plain_ui u s" and "chat_enabled e s" and hand: "chat_by_hand c e"
  shows "Do e \<in> events (chat_page c u s)"
proof -
  have allowed: "chat_allowed e s" using assms(2) hand by (cases e) (simp_all add: chat_enabled_def)
  show ?thesis
  proof (cases e)
    case (E_open i)
    then obtain item where "item \<in> set (conversations_of s)" "i = cv_id item" "cv_id item \<noteq> ch_renaming s" "\<not> ch_running s"
      using allowed by (auto simp: chat_allowed_def)
    then show ?thesis using E_open by (intro row_offered [OF plain]) (auto simp: history_row_events)
  next
    case (E_start_rename item)
    then show ?thesis using allowed
      by (intro row_offered [OF plain, of item]) (auto simp: chat_allowed_def row_action_def history_row_events)
  next
    case (E_remove item a)
    then show ?thesis using allowed hand
      by (intro row_offered [OF plain, of item]) (auto simp: chat_allowed_def row_action_def history_row_events)
  next
    case (E_export i label now)
    then show ?thesis using allowed hand export_shown [OF plain] by (simp add: chat_allowed_def)
  next
    case (E_rename_value v)
    then show ?thesis using allowed
      by (intro rename_offered [OF plain]) (auto simp: chat_allowed_def rename_row_events rename_shown_def)
  next
    case E_cancel_rename
    then show ?thesis using allowed
      by (intro rename_offered [OF plain]) (auto simp: chat_allowed_def rename_row_events rename_shown_def)
  next
    case (E_commit_rename i)
    then show ?thesis using allowed
      by (intro rename_offered [OF plain]) (auto simp: chat_allowed_def rename_row_events rename_shown_def)
  next
    case (E_start_edit m)
    then show ?thesis using allowed
      by (intro article_offered [of m]) (auto simp: chat_allowed_def message_action_def article_events)
  next
    case (E_remove_message m a)
    then show ?thesis using allowed hand
      by (intro article_offered [of m]) (auto simp: chat_allowed_def message_action_def article_events)
  next
    case (E_commit_edit m)
    then show ?thesis using allowed
      by (intro article_offered [of m]) (auto simp: chat_allowed_def article_events)
  next
    case (E_edit_value v)
    then obtain m where "m \<in> set (ch_messages s)" "\<not> is_step m" "in_edit s m" "\<not> ch_saving s"
      using allowed by (auto simp: chat_allowed_def edit_shown_def list_ex_iff)
    then show ?thesis using E_edit_value by (intro article_offered [of m]) (auto simp: article_events)
  next
    case E_cancel_edit
    then obtain m where "m \<in> set (ch_messages s)" "\<not> is_step m" "in_edit s m" "\<not> ch_saving s"
      using allowed by (auto simp: chat_allowed_def edit_shown_def list_ex_iff)
    then show ?thesis using E_cancel_edit by (intro article_offered [of m]) (auto simp: article_events)
  next
    case (E_prompt v)
    then show ?thesis using allowed page_parts(2,3) [of e c u s]
      by (auto simp: chat_allowed_def transcript_events composer_events)
  qed (use allowed hand page_parts [of e c u s] in
      \<open>auto simp: chat_allowed_def chat_header_events chat_tools_events quota_panel_events composer_events targets_of_def\<close>)
qed

text \<open>
  C19. The chat offers what its transitions allow: whatever is open, a control that is not disabled is an event the chat
  accepts; and with no dialog open, the side bar on screen and nothing searched for, every event of the user that the chat accepts
  has its control.
\<close>

theorem chat_screen_exact:
  "{e. Do e \<in> events (chat_view c u s)} \<subseteq> {e. chat_enabled e s} \<and>
   (plain_ui u s \<longrightarrow> {e. Do e \<in> events (chat_view c u s)} = {e. chat_enabled e s \<and> chat_by_hand c e})"
proof (cases "cp_visible (ch_props s)")
  case False
  have "\<not> (chat_enabled e s \<and> chat_by_hand c e)" for e using False by (cases e) (simp_all add: chat_enabled_def)
  then show ?thesis using False by (auto simp: chat_view_def)
next
  case True
  have "chat_enabled (E_mobile False) s" using True by (simp add: chat_enabled_def chat_allowed_def)
  then have "{e. Do e \<in> events (chat_view c u s)} \<subseteq> {e. chat_enabled e s}"
    using True main_enabled [OF True] history_enabled [OF True]
    by (auto simp: chat_view_def Let_def policy_dialog_def split: if_splits)
  moreover have "{e. Do e \<in> events (chat_view c u s)} = {e. chat_enabled e s \<and> chat_by_hand c e}" if "plain_ui u s"
    using True that main_enabled [OF True] all_offered [OF that] by (auto simp: chat_view_def plain_ui_def)
  ultimately show ?thesis by blast
qed

definition demo_env :: chat_env where
  "demo_env = \<lparr>en_sure = True, en_conv = js ''1'', en_answer = js ''2'', en_now = [], en_ms = 0, en_clock = 0, en_date = (\<lambda>_. []),
     en_time = (\<lambda>_. [])\<rparr>"

definition demo_ui :: chat_ui where
  "demo_ui = \<lparr>cu_filter = [], cu_sidebar = True, cu_notes = False, cu_policy = False, cu_policy_target = [], cu_bottom = True,
     cu_copied = None, cu_dragging = False, cu_dark = False\<rparr>"

lemma chat_screen_exact_witness: "Do (E_open (js ''a'')) \<in> events (chat_view demo_env demo_ui two_conversations)"
proof -
  have "plain_ui demo_ui two_conversations" "chat_enabled (E_open (js ''a'')) two_conversations" by code_simp+
  then show ?thesis using chat_screen_exact [of demo_env demo_ui two_conversations] by auto
qed

end
