(* ===== verification/Chat_Session.thy ===== *)
theory Chat_Session imports Chat_Invariants begin

text \<open>
  What the chat keeps over a reload of the page (\<open>components/admin/chat-workspace.tsx\<close>): the effect that writes the
  session to both storages and the effect on mount that reads it. The text that is written is the one
  \<open>JSON.stringify\<close> makes of the session, and reading it goes through \<open>JSON.parse\<close> (Json_Codec).
\<close>

section \<open>What is written\<close>

lemma session_json_members [simp]:
  "jstring (jget (js ''conversationID'') (session_json s)) = Some (ch_conv s)"
  "jstring (jget (js ''prompt'') (session_json s)) = Some (ch_prompt s)"
  "jstring (jget (js ''model'') (session_json s)) = Some (ch_model s)"
  "jbool (jget (js ''useWebSearch'') (session_json s)) = Some (ch_web s)"
  "jstring (jget (js ''target'') (session_json s)) = Some (ch_target s)"
  by (simp_all add: session_json_def obj_def jstr_def jget_def jstring_def jbool_def)

lemma session_json_ok: "json_ok (session_json s)" "\<exists>ms. session_json s = JObj ms" "stringify (session_json s) \<noteq> []"
proof -
  show ok: "json_ok (session_json s)" by (simp add: session_json_def obj_def jstr_def)
  show "\<exists>ms. session_json s = JObj ms" by (simp add: session_json_def obj_def)
  show "stringify (session_json s) \<noteq> []" using stringify_start [OF ok] by auto
qed

lemma saved_session_stringify: "saved_session (Some (stringify (session_json s))) local = session_json s"
  using session_json_ok [of s] by (auto simp: saved_session_def parse_stringify truthy_def or_opt_def or_str_def opt_str_def)

text \<open>Every commit of a chat that is not loading leaves the storages with the session on screen.\<close>

lemma commit_saves: "\<not> ch_loading s \<Longrightarrow> ch_saved (chat_commit s) = Some (stringify (session_json (chat_commit s)))"
  by (simp add: chat_commit_def poll_effect_def active_effect_def session_effect_def chat_quota_effect_def model_effect_def
      session_json_def Let_def)

lemma session_saved: "chat_reachable s \<Longrightarrow> \<not> ch_loading s \<Longrightarrow> ch_saved s = Some (stringify (session_json s))"
  by (induction rule: chat_reachable.induct) (auto simp: chat_step_def intro!: commit_saves)

section \<open>What is read\<close>

lemma load_done_settles:
  "ch_mounted s \<Longrightarrow> ch_revision s = r \<Longrightarrow>
    \<not> ch_loading (load_done r models item s) \<and> ch_prompt (load_done r models item s) = ch_prompt s \<and>
    ch_conv (load_done r models item s) = ch_conv s"
  by (simp add: load_done_def bind_target_def Let_def)

lemma load_failed_settles:
  "ch_mounted s \<Longrightarrow> ch_revision s = r \<Longrightarrow> ch_abort s = None \<Longrightarrow>
    \<not> ch_loading (load_failed r (ch_prompt s) known e s) \<and> ch_prompt (load_failed r (ch_prompt s) known e s) = ch_prompt s \<and>
    (ch_conv (load_failed r (ch_prompt s) known e s) = ch_conv s \<or> conversation_missing e)"
  by (simp add: load_failed_def resetConversation_def notify_def set_quota_open_def cancelEdit_def cancelRename_def Let_def)

lemma load_settles:
  assumes "ch_mounted s" and "ch_abort s = None"
    and "chat_answers (K_load (ch_revision s) i (ch_prompt s) known models) reply"
  shows "let t = chat_resume now ms (K_load (ch_revision s) i (ch_prompt s) known models) reply s in
    \<not> ch_loading t \<and> ch_prompt t = ch_prompt s \<and> (ch_conv t = ch_conv s \<or> (\<exists>e. reply = C_failed e \<and> conversation_missing e))"
proof (cases reply)
  case (C_detail item)
  then show ?thesis using assms load_done_settles [of s "ch_revision s" models item] by (simp add: Let_def)
next
  case (C_failed e)
  then show ?thesis using assms load_failed_settles [of s "ch_revision s" known e] by (simp add: Let_def)
qed (use assms(3) in \<open>simp_all add: chat_answers_def\<close>)

text \<open>C6. A reload of the page loses nothing of the session: whatever the chat shows once nothing is loading, a chat
  that is opened on the storage it left behind has the same conversation, the same unsent text, the same choice of web
  search, and the same model where it is still listed. Without a conversation it is ready at once, with the same
  target. With one it asks for exactly that conversation, and every answer, a failure as well, ends the loading and
  leaves the unsent text; only the report that the conversation is gone takes the conversation away.\<close>

theorem session_restored:
  assumes "chat_reachable s" and "\<not> ch_loading s"
  shows "let t = mount_chat (ch_saved s) local (initial_chat p m w) in
    ch_conv t = ch_conv s \<and> ch_prompt t = ch_prompt s \<and> ch_web t = ch_web s \<and>
    (ch_model s \<in> mi_id ` set (cp_models p) \<longrightarrow> ch_model t = ch_model s) \<and>
    (if ch_conv s = [] then \<not> ch_loading t \<and> ch_target t = ch_target s \<and> ch_tasks t = []
     else \<exists>k. ch_tasks t = [(0, k)] \<and> task_conversation k = Some (ch_conv s) \<and>
       (\<forall>reply now ms. chat_answers k reply \<longrightarrow> (let u = chat_resume now ms k reply (drop_task 0 t) in
          \<not> ch_loading u \<and> ch_prompt u = ch_prompt s \<and>
          (ch_conv u = ch_conv s \<or> (\<exists>e. reply = C_failed e \<and> conversation_missing e)))))"
proof -
  define t where "t = mount_chat (ch_saved s) local (initial_chat p m w)"
  have "ch_saved s = Some (stringify (session_json s))" using assms by (rule session_saved)
  note t = t_def [unfolded this mount_chat_def saved_session_stringify restore_session_def]
  note opened = openConversation_def chat_spawn_def initial_chat_def set_quota_open_def cancelEdit_def cancelRename_def opt_str_def Let_def
  have kept: "ch_conv t = ch_conv s" "ch_prompt t = ch_prompt s" "ch_web t = ch_web s"
    "ch_model s \<in> mi_id ` set (cp_models p) \<longrightarrow> ch_model t = ch_model s" "ch_mounted t" "ch_abort t = None"
    by (auto simp: t opened)
  have ready: "\<not> ch_loading t \<and> ch_target t = ch_target s \<and> ch_tasks t = []" if "ch_conv s = []"
    using that by (auto simp: t opened)
  show ?thesis
  proof (cases "ch_conv s = []")
    case True
    then show ?thesis using kept ready by (simp add: t_def [symmetric] Let_def)
  next
    case False
    then have "\<exists>known models. ch_tasks t = [(0, K_load (ch_revision t) (ch_conv s) (ch_prompt s) known models)]"
      by (auto simp: t opened)
    then obtain known models where k: "ch_tasks t = [(0, K_load (ch_revision t) (ch_conv s) (ch_prompt s) known models)]" by blast
    then have d: "drop_task 0 t = t\<lparr>ch_tasks := []\<rparr>" by (simp add: drop_task_def)
    show ?thesis
      using load_settles [of "t\<lparr>ch_tasks := []\<rparr>" "ch_conv s" known models] kept False
      by (simp add: t_def [symmetric] Let_def k d)
  qed
qed

text \<open>A chat with a text that has not been sent.\<close>

definition drafting_chat :: chat where
  "drafting_chat = chat_step (E_prompt (js ''dra\"ft'')) fresh_chat"

lemma session_restored_witness:
  "let t = mount_chat (ch_saved drafting_chat) None (initial_chat no_props None True) in
    ch_prompt t = js ''dra\"ft'' \<and> \<not> ch_web t \<and> \<not> ch_loading t"
proof -
  have "chat_reachable drafting_chat"
    unfolding drafting_chat_def by (intro chat_stepped fresh_chat_reachable fresh_chat_mounted) code_simp
  moreover have f: "\<not> ch_loading drafting_chat" "ch_prompt drafting_chat = js ''dra\"ft''" "\<not> ch_web drafting_chat"
    "ch_conv drafting_chat = []" by code_simp+
  ultimately show ?thesis
    using session_restored [of drafting_chat None no_props None True] by (simp add: Let_def)
qed

end
