(* ===== verification/Chat_Page.thy ===== *)
theory Chat_Page imports Admin_Shell Chat_Session begin

text \<open>
  The chat as the console mounts it (\<open>components/admin/admin-console.tsx\<close>): it exists while the session is authenticated
  and a configuration is there, and stays mounted behind the other tabs. It gets its properties from the shell at every
  render, asks the hook to delete a conversation and to read the list and the accounts again, and takes over the
  conversation a click on "continue" in the conversations panel names.

  \<open>pg_session\<close> and \<open>pg_local\<close> are the two storages the chat writes, which outlive it. A reply for a request of the chat
  may arrive at any time; that the hook has settled by then is not used. Commands of the hook run by themselves at
  any time too (\<open>page_hook\<close>), so what an aborted run still triggers after the chat is gone is among the steps.
\<close>

section \<open>State\<close>

record page =
  pg_shell :: shell
  pg_chat :: "chat option"
  pg_session :: "jsstr option"
  pg_local :: "jsstr option"

definition chat_props_of :: "shell \<Rightarrow> chat_props" where
  "chat_props_of s = \<lparr>cp_models = shell_models s, cp_conversations = uc_conversations (sh_console s),
     cp_accounts = opt_list (Option.bind (uc_accounts (sh_console s)) ap_items),
     cp_visible = (sh_tab s = Tester), cp_initial = Some (sh_resume s)\<rparr>"

section \<open>Rendering\<close>

definition store_session :: "chat \<Rightarrow> page \<Rightarrow> page" where
  "store_session c g = (case ch_saved c of None \<Rightarrow> g | Some v \<Rightarrow> g\<lparr>pg_session := Some v, pg_local := Some v\<rparr>)"

definition opened_chat :: "page \<Rightarrow> chat" where
  "opened_chat g = (let s = pg_shell g in chat_commit (resume_effect None [] (mount_chat (pg_session g) (pg_local g)
     (initial_chat (chat_props_of s) (shell_default_model s) (shell_web_search s)))))"

definition render_chat :: "page \<Rightarrow> chat" where
  "render_chat g = (case pg_chat g of None \<Rightarrow> opened_chat g | Some c \<Rightarrow> chat_step (E_props (chat_props_of (pg_shell g))) c)"

definition show_chat :: "page \<Rightarrow> page" where
  "show_chat g = (if \<not> chat_mounted (pg_shell g) then g\<lparr>pg_chat := None\<rparr>
     else store_session (render_chat g) (g\<lparr>pg_chat := Some (render_chat g)\<rparr>))"

text \<open>\<open>onResumeHandled\<close> was called in an effect of the render: the shell forgets the conversation and renders again.\<close>

definition resumes :: "page \<Rightarrow> nat" where
  "resumes g = (case pg_chat g of None \<Rightarrow> 0 | Some c \<Rightarrow> ch_resumed c)"

definition answer_resume :: "nat \<Rightarrow> page \<Rightarrow> page" where
  "answer_resume before g = (if before < resumes g
     then show_chat (g\<lparr>pg_shell := shell_commit (shell_apply Resume_handled (pg_shell g))\<rparr>) else g)"

definition render_page :: "shell \<Rightarrow> page \<Rightarrow> page" where
  "render_page s g = answer_resume (resumes g) (show_chat (g\<lparr>pg_shell := s\<rparr>))"

section \<open>What the chat asks the hook for\<close>

fun chat_asks :: "chat_task \<Rightarrow> command list" where
  "chat_asks (K_delete i conv known) = [Delete_conversation i]"
| "chat_asks (K_rename_refresh i nxt conv) = [Load_conversations]"
| "chat_asks (K_message_refresh ok fallback) = [Load_conversations]"
| "chat_asks _ = []"

text \<open>\<open>onRun\<close> reads the list and the accounts again once the answer stream has ended, however it ended.\<close>

fun run_settled :: "chat_event \<Rightarrow> chat \<Rightarrow> command list" where
  "run_settled (E_reply n r now ms) c = (case map_of (ch_tasks c) n of
     Some (K_run k p) \<Rightarrow> [Load_conversations, Refresh_accounts] | _ \<Rightarrow> [])"
| "run_settled _ c = []"

definition chat_commands :: "chat_event \<Rightarrow> chat \<Rightarrow> chat \<Rightarrow> command list" where
  "chat_commands e c c' = run_settled e c @
     List.concat (List.map (chat_asks \<circ> snd) (filter (\<lambda>(n, t). ch_next c \<le> n) (ch_tasks c')))"

definition chat_does :: "chat_event \<Rightarrow> chat \<Rightarrow> page \<Rightarrow> page" where
  "chat_does e c g = (let c' = chat_step e c; g' = store_session c' (g\<lparr>pg_chat := Some c'\<rparr>); cs = chat_commands e c c' in
     if cs = [] then g' else render_page (fold (\<lambda>k s. shell_commit (on_console k s)) cs (pg_shell g)) g')"

section \<open>Steps\<close>

text \<open>The properties of the chat and its unmounting are not events of their own here.\<close>

fun chat_own :: "chat_event \<Rightarrow> bool" where
  "chat_own (E_props p) = False"
| "chat_own E_unmount = False"
| "chat_own _ = True"

inductive page_step :: "page \<Rightarrow> page \<Rightarrow> bool" where
  page_shell: "shell_enabled e (pg_shell g) \<Longrightarrow> e \<noteq> Resume_handled \<Longrightarrow>
     page_step g (render_page (shell_commit (shell_apply e (pg_shell g))) g)"
| page_hook: "console_step (sh_console (pg_shell g)) k \<Longrightarrow>
     page_step g (render_page (shell_commit ((pg_shell g)\<lparr>sh_console := k\<rparr>)) g)"
| page_chat: "pg_chat g = Some c \<Longrightarrow> chat_enabled e c \<Longrightarrow> chat_own e \<Longrightarrow> page_step g (chat_does e c g)"

definition opened_page :: "jsstr option list \<Rightarrow> nat \<Rightarrow> jsstr option \<Rightarrow> jsstr option \<Rightarrow> jsstr option \<Rightarrow> page" where
  "opened_page entries position theme session local = (let s = mounted_shell entries position theme in
     render_page s \<lparr>pg_shell = s, pg_chat = None, pg_session = session, pg_local = local\<rparr>)"

inductive page_reachable :: "page \<Rightarrow> bool" where
  page_opened: "position < length entries \<Longrightarrow> page_reachable (opened_page entries position theme session local)"
| page_stepped: "page_reachable g \<Longrightarrow> page_step g g' \<Longrightarrow> page_reachable g'"

section \<open>What a render leaves behind\<close>

definition chat_fits :: "page \<Rightarrow> bool" where
  "chat_fits g \<longleftrightarrow> (case pg_chat g of None \<Rightarrow> \<not> chat_mounted (pg_shell g)
     | Some c \<Rightarrow> chat_mounted (pg_shell g) \<and> chat_reachable c \<and> ch_mounted c \<and> ch_props c = chat_props_of (pg_shell g) \<and>
         sh_resume (pg_shell g) = [])"

text \<open>Before a render nothing is known of the properties, but the chat on screen has been told of no conversation.\<close>

definition chat_before :: "page \<Rightarrow> bool" where
  "chat_before g \<longleftrightarrow> (case pg_chat g of None \<Rightarrow> True
     | Some c \<Rightarrow> chat_reachable c \<and> ch_mounted c \<and> (sh_resume (pg_shell g) = [] \<or> \<not> truthy (cp_initial (ch_props c))))"

lemma store_session_fields [simp]:
  "pg_shell (store_session c g) = pg_shell g" "pg_chat (store_session c g) = pg_chat g"
  by (simp_all add: store_session_def split: option.split)

lemma openConversation_resumed [simp]:
  "ch_resumed (openConversation i d s) = ch_resumed s" "ch_props (openConversation i d s) = ch_props s"
  "ch_mounted (openConversation i d s) = ch_mounted s"
  by (simp_all add: openConversation_def notify_def set_quota_open_def cancelEdit_def cancelRename_def chat_spawn_def Let_def)

lemma set_props_fields [simp]: "ch_props (set_props p s) = p" "ch_mounted (set_props p s) = ch_mounted s"
  by (simp_all add: set_props_def resume_effect_def Let_def)

lemma commit_resumed [simp]: "ch_resumed (chat_commit s) = ch_resumed s"
  by (simp add: chat_commit_def poll_effect_def active_effect_def session_effect_def chat_quota_effect_def
      model_effect_def Let_def)

lemma set_props_resumed:
  "ch_resumed (set_props p s) = ch_resumed s +
     (if cp_initial p \<noteq> cp_initial (ch_props s) \<and> truthy (cp_initial p) then 1 else 0)"
  by (auto simp: set_props_def resume_effect_def Let_def)

lemma restore_session_resumed [simp]:
  "ch_resumed (restore_session v s) = ch_resumed s" "ch_props (restore_session v s) = ch_props s"
  by (auto simp: restore_session_def Let_def split: option.splits)

lemma mount_chat_fields [simp]:
  "ch_resumed (mount_chat session local s) = ch_resumed s" "ch_props (mount_chat session local s) = ch_props s"
  by (simp_all add: mount_chat_def Let_def)

lemma opened_chat_facts:
  "chat_reachable (opened_chat g)" "ch_mounted (opened_chat g)" "ch_props (opened_chat g) = chat_props_of (pg_shell g)"
  "ch_resumed (opened_chat g) = (if sh_resume (pg_shell g) = [] then 0 else 1)"
proof -
  show "chat_reachable (opened_chat g)" unfolding opened_chat_def Let_def by (rule chat_reachable.chat_mounted)
  define u where "u = initial_chat (chat_props_of (pg_shell g)) (shell_default_model (pg_shell g)) (shell_web_search (pg_shell g))"
  have u: "ch_resumed u = 0" "ch_props u = chat_props_of (pg_shell g)" "ch_mounted (mount_chat (pg_session g) (pg_local g) u)"
    using mount_ok by (simp_all add: u_def initial_chat_def)
  have "cp_initial (chat_props_of (pg_shell g)) = Some (sh_resume (pg_shell g))" by (simp add: chat_props_of_def)
  then show "ch_mounted (opened_chat g)" "ch_props (opened_chat g) = chat_props_of (pg_shell g)"
    "ch_resumed (opened_chat g) = (if sh_resume (pg_shell g) = [] then 0 else 1)"
    using u by (simp_all add: opened_chat_def u_def [symmetric] resume_effect_def Let_def)
qed

lemma render_chat_facts:
  assumes "chat_before g"
  shows "chat_reachable (render_chat g)" "ch_mounted (render_chat g)" "ch_props (render_chat g) = chat_props_of (pg_shell g)"
    "ch_resumed (render_chat g) = resumes g + (if sh_resume (pg_shell g) = [] then 0 else 1)"
proof -
  have "chat_reachable (render_chat g) \<and> ch_mounted (render_chat g) \<and> ch_props (render_chat g) = chat_props_of (pg_shell g) \<and>
    ch_resumed (render_chat g) = resumes g + (if sh_resume (pg_shell g) = [] then 0 else 1)"
  proof (cases "pg_chat g")
    case None
    then show ?thesis using opened_chat_facts [of g] by (simp add: render_chat_def resumes_def)
  next
    case (Some c)
    let ?p = "chat_props_of (pg_shell g)"
    have r: "render_chat g = chat_commit (set_props ?p c)" using Some by (simp add: render_chat_def chat_step_def)
    have "chat_reachable (chat_step (E_props ?p) c)"
      using assms Some by (intro chat_stepped) (simp_all add: chat_before_def chat_enabled_def)
    moreover have "cp_initial ?p \<noteq> cp_initial (ch_props c) \<and> truthy (cp_initial ?p) \<longleftrightarrow> sh_resume (pg_shell g) \<noteq> []"
      using assms Some by (cases "cp_initial (ch_props c)") (auto simp: chat_before_def chat_props_of_def)
    ultimately show ?thesis using assms Some
      by (simp add: r chat_step_def set_props_resumed resumes_def chat_before_def)
  qed
  then show "chat_reachable (render_chat g)" "ch_mounted (render_chat g)" "ch_props (render_chat g) = chat_props_of (pg_shell g)"
    "ch_resumed (render_chat g) = resumes g + (if sh_resume (pg_shell g) = [] then 0 else 1)" by blast+
qed

lemma show_chat_fields [simp]:
  "pg_shell (show_chat g) = pg_shell g"
  "pg_chat (show_chat g) = (if chat_mounted (pg_shell g) then Some (render_chat g) else None)"
  by (simp_all add: show_chat_def)

lemma shell_commit_resume [simp]: "sh_resume (shell_commit s) = sh_resume s"
  by (simp add: shell_commit_def run_overlay_def run_cleanups_def)

lemma chat_mounted_frame [simp]:
  "chat_mounted (shell_commit s) = chat_mounted s" "chat_mounted (s\<lparr>sh_resume := i\<rparr>) = chat_mounted s"
  by (simp_all add: chat_mounted_def mounted_defs)

lemma render_page_fits:
  assumes "chat_before (g\<lparr>pg_shell := s\<rparr>)"
  shows "chat_fits (render_page s g)"
proof -
  let ?g = "show_chat (g\<lparr>pg_shell := s\<rparr>)"
  let ?h = "?g\<lparr>pg_shell := shell_commit (s\<lparr>sh_resume := []\<rparr>)\<rparr>"
  note facts = render_chat_facts [OF assms]
  show ?thesis
  proof (cases "chat_mounted s \<and> sh_resume s \<noteq> []")
    case True
    then have "resumes ?g = Suc (resumes g)" using facts(4) by (simp add: resumes_def)
    then have r: "render_page s g = show_chat ?h" by (simp add: render_page_def answer_resume_def)
    have "chat_before ?h" using True facts by (simp add: chat_before_def)
    from render_chat_facts [OF this] show ?thesis using True by (simp add: r chat_fits_def)
  next
    case False
    then have "\<not> resumes g < resumes ?g" using facts(4) by (auto simp: resumes_def)
    then show ?thesis using False facts by (simp add: render_page_def answer_resume_def chat_fits_def)
  qed
qed

lemma fits_before: "chat_fits g \<Longrightarrow> chat_before (g\<lparr>pg_shell := s\<rparr>)"
  by (auto simp: chat_fits_def chat_before_def chat_props_of_def split: option.splits)

section \<open>What no handler of the chat touches\<close>

definition outside :: "chat \<Rightarrow> chat_props \<times> bool \<times> nat" where
  "outside s = (ch_props s, ch_mounted s, ch_resumed s)"

lemma outside_update [simp]:
  "outside (s\<lparr>ch_prompt := v0\<rparr>) = outside s" "outside (s\<lparr>ch_model := v1\<rparr>) = outside s"
  "outside (s\<lparr>ch_web := v2\<rparr>) = outside s" "outside (s\<lparr>ch_conv := v3\<rparr>) = outside s"
  "outside (s\<lparr>ch_remote_only := v4\<rparr>) = outside s" "outside (s\<lparr>ch_messages := v5\<rparr>) = outside s"
  "outside (s\<lparr>ch_files := v6\<rparr>) = outside s" "outside (s\<lparr>ch_loading := v7\<rparr>) = outside s"
  "outside (s\<lparr>ch_load_failed := v8\<rparr>) = outside s"
  "outside (s\<lparr>ch_remote_running := v9\<rparr>) = outside s" "outside (s\<lparr>ch_running := v10\<rparr>) = outside s"
  "outside (s\<lparr>ch_error := v11\<rparr>) = outside s" "outside (s\<lparr>ch_target := v12\<rparr>) = outside s"
  "outside (s\<lparr>ch_owner := v13\<rparr>) = outside s" "outside (s\<lparr>ch_title := v14\<rparr>) = outside s"
  "outside (s\<lparr>ch_mobile_open := v15\<rparr>) = outside s" "outside (s\<lparr>ch_renaming := v16\<rparr>) = outside s"
  "outside (s\<lparr>ch_rename_value := v17\<rparr>) = outside s" "outside (s\<lparr>ch_editing := v18\<rparr>) = outside s"
  "outside (s\<lparr>ch_edit_value := v19\<rparr>) = outside s" "outside (s\<lparr>ch_busy := v20\<rparr>) = outside s"
  "outside (s\<lparr>ch_saving := v21\<rparr>) = outside s" "outside (s\<lparr>ch_quota := v22\<rparr>) = outside s"
  "outside (s\<lparr>ch_abort := v23\<rparr>) = outside s" "outside (s\<lparr>ch_revision := v24\<rparr>) = outside s"
  "outside (s\<lparr>ch_active := v25\<rparr>) = outside s" "outside (s\<lparr>ch_poll_dep := v26\<rparr>) = outside s"
  "outside (s\<lparr>ch_poll := v27\<rparr>) = outside s" "outside (s\<lparr>ch_poll_next := v28\<rparr>) = outside s"
  "outside (s\<lparr>ch_saved := v29\<rparr>) = outside s" "outside (s\<lparr>ch_tasks := v30\<rparr>) = outside s"
  "outside (s\<lparr>ch_next := v31\<rparr>) = outside s" "outside (s\<lparr>ch_toasts := v32\<rparr>) = outside s"
  "outside (s\<lparr>ch_downloads := v33\<rparr>) = outside s"
  by (simp_all add: outside_def)

lemma outside_basic [simp]:
  "outside (chat_spawn k s) = outside s" "outside (notify t s) = outside s" "outside (set_quota_open b s) = outside s"
  "outside (cancelRename s) = outside s" "outside (cancelEdit s) = outside s"
  by (simp_all add: chat_spawn_def notify_def set_quota_open_def cancelRename_def cancelEdit_def
      Let_def split: option.split prod.split)

lemma outside_open [simp]: "outside (openConversation i d s) = outside s"
  by (simp add: outside_def)

lemma outside_load [simp]:
  "outside (resetConversation d b s) = outside s" "outside (startNew s) = outside s"
  "outside (bind_target item s) = outside s" "outside (load_done r ms item s) = outside s"
  "outside (load_failed r d b e s) = outside s"
  by (simp_all add: resetConversation_def startNew_def bind_target_def load_done_def load_failed_def
      Let_def split: option.split prod.split)

lemma outside_list [simp]:
  "outside (startRename c s) = outside s" "outside (commitRename i s) = outside s"
  "outside (renamed i x v s) = outside s" "outside (action_failed x e s) = outside s"
  "outside (removeConversation c b s) = outside s" "outside (removed i v b s) = outside s"
  "outside (download now x zs meta s) = outside s" "outside (exportConversation now i l s) = outside s"
  "outside (exported now l item s) = outside s"
  by (simp_all add: startRename_def commitRename_def renamed_def action_failed_def removeConversation_def removed_def download_def exportConversation_def exported_def
      Let_def split: option.split prod.split)

lemma outside_message [simp]:
  "outside (startEdit m s) = outside s" "outside (removeMessage m b s) = outside s"
  "outside (message_removed v item s) = outside s" "outside (commitEdit m s) = outside s"
  "outside (message_edited v item s) = outside s" "outside (edit_settled t s) = outside s"
  by (simp_all add: startEdit_def removeMessage_def message_removed_def commitEdit_def message_edited_def edit_settled_def
      Let_def split: option.split prod.split)

lemma outside_run [simp]:
  "outside (finish_run s) = outside s" "outside (performRun a v s) = outside s" "outside (run_send q atts s) = outside s"
  "outside (update_answer q f s) = outside s" "outside (run_delta q x s) = outside s"
  "outside (run_done n q result s) = outside s" "outside (run_loaded item s) = outside s"
  "outside (run_failed q e s) = outside s" "outside (run_recovered q item s) = outside s"
  by (simp_all add: finish_run_def performRun_def run_send_def update_answer_def run_delta_def run_done_def run_loaded_def run_failed_def run_recovered_def
      Let_def split: option.split prod.split)

lemma outside_rest [simp]:
  "outside (stop_run s) = outside s" "outside (poll_tick s) = outside s" "outside (polled n item s) = outside s"
  "outside (reference_note note w s) = outside s" "outside (add_files_step fs s) = outside s"
  "outside (drop_task n s) = outside s"
  by (simp_all add: stop_run_def poll_tick_def polled_def reference_note_def add_files_step_def drop_task_def
      Let_def split: option.split prod.split)

lemma outside_resume: "outside (chat_resume now ms t r s) = outside s"
  by (cases t; cases r) simp_all

lemma outside_apply: "chat_own e \<Longrightarrow> outside (chat_apply e s) = outside s"
  by (cases e) (simp_all add: outside_resume split: option.split chat_task.split)

lemma chat_step_outside: "chat_own e \<Longrightarrow> outside (chat_step e s) = outside s"
  using outside_apply [of e s] by (simp add: chat_step_def outside_def)

section \<open>Every reachable state of the page\<close>

lemma render_page_shell: "shell_reachable s \<Longrightarrow> shell_reachable (pg_shell (render_page s g))"
  using shell_stepped [OF _ shell_event [of Resume_handled s]] by (simp add: render_page_def answer_resume_def)

lemma commands_shell: "shell_reachable s \<Longrightarrow> shell_reachable (fold (\<lambda>k u. shell_commit (on_console k u)) cs s)"
  by (induction cs arbitrary: s)
    (auto simp: on_console_def intro!: shell_stepped [OF _ shell_hook [OF command]])

definition page_ok :: "page \<Rightarrow> bool" where
  "page_ok g \<longleftrightarrow> shell_reachable (pg_shell g) \<and> chat_fits g"

lemma page_ok_render: "page_ok g \<Longrightarrow> shell_reachable s \<Longrightarrow> page_ok (render_page s g)"
  by (simp add: page_ok_def render_page_shell render_page_fits fits_before)

lemma page_ok_chat:
  assumes "page_ok g" and "pg_chat g = Some c" and "chat_enabled e c" and "chat_own e"
  shows "page_ok (chat_does e c g)"
proof -
  let ?g = "store_session (chat_step e c) (g\<lparr>pg_chat := Some (chat_step e c)\<rparr>)"
  have c: "chat_reachable c" "ch_mounted c" using assms by (simp_all add: page_ok_def chat_fits_def)
  have "chat_reachable (chat_step e c)" using chat_stepped [OF c assms(3)] .
  then have ok: "page_ok ?g" using assms(1,2) chat_step_outside [OF assms(4), of c]
    by (simp add: page_ok_def chat_fits_def outside_def)
  then have "page_ok (render_page (fold (\<lambda>k u. shell_commit (on_console k u)) cs (pg_shell g)) ?g)" for cs
    using assms(1) by (intro page_ok_render commands_shell) (simp_all add: page_ok_def)
  then show ?thesis using ok by (simp add: chat_does_def Let_def)
qed

lemma page_ok_opened: "position < length entries \<Longrightarrow> page_ok (opened_page entries position theme session local)"
  by (simp add: page_ok_def opened_page_def Let_def render_page_shell render_page_fits chat_before_def
      shell_reachable.shell_mounted)

lemma reachable_page_ok: "page_reachable g \<Longrightarrow> page_ok g"
proof (induction rule: page_reachable.induct)
  case (page_stepped g g')
  from page_stepped.hyps(2) show ?case
  proof cases
    case (page_shell e)
    then show ?thesis using page_stepped.IH
      by (auto simp: page_ok_def intro!: page_ok_render [unfolded page_ok_def] shell_stepped [OF _ shell_event])
  next
    case (page_hook k)
    then show ?thesis using page_stepped.IH
      by (auto simp: page_ok_def intro!: page_ok_render [unfolded page_ok_def] shell_stepped [OF _ shell_hook])
  qed (use page_stepped.IH page_ok_chat in blast)
qed (rule page_ok_opened)

text \<open>C7. In every state of the page the chat is there exactly while the session is authenticated and a configuration is
  there, it is in a state the chat can reach by itself, so that everything shown of those states holds of it, its
  properties are what the shell and the hook hold, and no conversation that was to be continued is still waiting for it.
  The shell is in a state it can reach by itself as well.\<close>

theorem page_reachable_ok:
  assumes "page_reachable g"
  shows "shell_reachable (pg_shell g) \<and> (pg_chat g = None \<longleftrightarrow> \<not> chat_mounted (pg_shell g)) \<and>
    (\<forall>c. pg_chat g = Some c \<longrightarrow> chat_reachable c \<and> ch_mounted c \<and> ch_props c = chat_props_of (pg_shell g) \<and>
       sh_resume (pg_shell g) = [])"
  using reachable_page_ok [OF assms] by (auto simp: page_ok_def chat_fits_def split: option.splits)

section \<open>Continuing a conversation\<close>

lemma set_props_told:
  assumes "\<not> truthy (cp_initial (ch_props c))" and "cp_visible p" and "cp_initial p = Some i" and "i \<noteq> []"
  shows "set_props p c = (if ch_conv c = i then c\<lparr>ch_props := p\<rparr> else openConversation i [] (c\<lparr>ch_props := p\<rparr>))
    \<lparr>ch_resumed := Suc (ch_resumed c)\<rparr>"
  using assms by (cases "cp_initial (ch_props c)") (simp_all add: set_props_def resume_effect_def Let_def)

lemma set_props_quiet: "cp_visible p \<Longrightarrow> cp_initial p = Some [] \<Longrightarrow> set_props p c = c\<lparr>ch_props := p\<rparr>"
  by (simp add: set_props_def resume_effect_def Let_def)

lemma opened_or_kept:
  "if ch_abort c \<noteq> None
   then ch_conv (openConversation i [] c) = ch_conv c \<and> ch_messages (openConversation i [] c) = ch_messages c \<and>
     ch_prompt (openConversation i [] c) = ch_prompt c \<and> ch_tasks (openConversation i [] c) = ch_tasks c
   else ch_conv (openConversation i [] c) = i \<and> ch_loading (openConversation i [] c) \<and>
     (\<exists>r k ms. ch_tasks (openConversation i [] c) = ch_tasks c @ [(ch_next c, K_load r i [] k ms)])"
  by (simp add: openConversation_def notify_def set_quota_open_def cancelEdit_def cancelRename_def chat_spawn_def Let_def)

text \<open>The click: nothing holds unsaved edits while the conversations panel is on screen.\<close>

lemma continue_shell:
  assumes "shell_reachable s" and "shell_enabled (Continue a i) s" and "t = shell_commit (shell_apply (Continue a i) s)"
  shows "sh_tab t = Tester \<and> sh_resume t = i \<and> sh_console t = sh_console s"
proof -
  have "\<not> unsaved_edits s" using reachable_shell_ok [OF assms(1)] assms(2)
    by (auto simp: shell_ok_def flags_mounted_def unsaved_edits_def)
  then show ?thesis using assms(3) by (simp add: continue_conversation_def setActiveTab_def canLeave_def)
qed

lemma chat_mounted_console: "sh_console t = sh_console s \<Longrightarrow> chat_mounted t = chat_mounted s"
  by (simp add: chat_mounted_def mounted_defs)

text \<open>The two renders of a click: the chat is told of the conversation, then that there is none any more.\<close>

lemma render_told:
  assumes "chat_fits g" and "pg_chat g = Some c" and "chat_mounted t" and "sh_tab t = Tester" and "sh_resume t = i" and "i \<noteq> []"
  obtains p q where "sh_tab (pg_shell (render_page t g)) = Tester" "sh_resume (pg_shell (render_page t g)) = []"
    "pg_chat (render_page t g) = Some (chat_commit ((chat_commit (set_props p c))\<lparr>ch_props := q\<rparr>))"
    "cp_visible p" "cp_initial p = Some i" "cp_visible q"
proof -
  define u where "u = shell_commit (t\<lparr>sh_resume := []\<rparr>)"
  let ?g = "show_chat (g\<lparr>pg_shell := t\<rparr>)"
  have "resumes g < resumes ?g" using render_chat_facts(4) [OF fits_before [OF assms(1), of t]] assms(3,5,6)
    by (simp add: resumes_def)
  then have r: "render_page t g = show_chat (?g\<lparr>pg_shell := u\<rparr>)" by (simp add: render_page_def answer_resume_def u_def)
  have c: "render_chat (g\<lparr>pg_shell := t\<rparr>) = chat_commit (set_props (chat_props_of t) c)"
    using assms(2) by (simp add: render_chat_def chat_step_def)
  have "pg_chat (render_page t g) = Some (chat_commit ((chat_commit (set_props (chat_props_of t) c))\<lparr>ch_props := chat_props_of u\<rparr>))"
    using assms(3,4) by (simp add: r u_def render_chat_def [of "?g\<lparr>pg_shell := _\<rparr>"] c chat_step_def set_props_quiet chat_props_of_def)
  then show thesis using assms by (intro that [where p = "chat_props_of t" and q = "chat_props_of u"]) (simp_all add: r u_def chat_props_of_def)
qed

text \<open>C8. A click on "continue" in the conversations panel brings the chat to the screen and reaches it exactly once: a
  conversation that is not on screen is opened, with one request for it, unless a turn is running, in which case the chat
  keeps its conversation, its transcript and its unsent text and only says so; the one on screen is left as it is.\<close>

theorem continue_reaches_chat:
  assumes "page_reachable g" and "pg_chat g = Some c" and "shell_enabled (Continue a i) (pg_shell g)" and "i \<noteq> []"
  shows "let h = render_page (shell_commit (shell_apply (Continue a i) (pg_shell g))) g in
    sh_tab (pg_shell h) = Tester \<and> sh_resume (pg_shell h) = [] \<and>
    (\<exists>d. pg_chat h = Some d \<and> cp_visible (ch_props d) \<and> ch_resumed d = Suc (ch_resumed c) \<and>
       (if ch_conv c = i \<or> ch_abort c \<noteq> None
        then ch_conv d = ch_conv c \<and> ch_messages d = ch_messages c \<and> ch_prompt d = ch_prompt c \<and> ch_tasks d = ch_tasks c
        else ch_conv d = i \<and> ch_loading d \<and> (\<exists>r k ms. ch_tasks d = ch_tasks c @ [(ch_next c, K_load r i [] k ms)])))"
proof -
  define t where "t = shell_commit (shell_apply (Continue a i) (pg_shell g))"
  have ok: "shell_reachable (pg_shell g)" "chat_fits g" using reachable_page_ok [OF assms(1)] by (simp_all add: page_ok_def)
  note t = continue_shell [OF ok(1) assms(3) t_def]
  have "chat_mounted t = chat_mounted (pg_shell g)" by (rule chat_mounted_console) (use t in blast)
  then have c: "chat_mounted t" "\<not> truthy (cp_initial (ch_props c))"
    using ok(2) assms(2) by (simp_all add: chat_fits_def chat_props_of_def)
  obtain p q where h: "sh_tab (pg_shell (render_page t g)) = Tester" "sh_resume (pg_shell (render_page t g)) = []"
    "pg_chat (render_page t g) = Some (chat_commit ((chat_commit (set_props p c))\<lparr>ch_props := q\<rparr>))" and
    p: "cp_visible p" "cp_initial p = Some i" "cp_visible q"
    using render_told [OF ok(2) assms(2) c(1)] t assms(4) by metis
  define x where "x = set_props p c"
  define d where "d = chat_commit ((chat_commit x)\<lparr>ch_props := q\<rparr>)"
  have d: "ch_conv d = ch_conv x" "ch_messages d = ch_messages x" "ch_prompt d = ch_prompt x" "ch_tasks d = ch_tasks x"
    "ch_loading d = ch_loading x" "ch_resumed d = ch_resumed x" "ch_props d = q"
    unfolding d_def by simp_all
  note x = x_def [unfolded set_props_told [OF c(2) p(1,2) assms(4)]]
  have r: "ch_resumed x = Suc (ch_resumed c)" by (simp add: x)
  have "if ch_conv c = i \<or> ch_abort c \<noteq> None
    then ch_conv x = ch_conv c \<and> ch_messages x = ch_messages c \<and> ch_prompt x = ch_prompt c \<and> ch_tasks x = ch_tasks c
    else ch_conv x = i \<and> ch_loading x \<and> (\<exists>r k ms. ch_tasks x = ch_tasks c @ [(ch_next c, K_load r i [] k ms)])"
    using opened_or_kept [of "c\<lparr>ch_props := p\<rparr>" i] by (simp add: x split: if_splits)
  then have "cp_visible (ch_props d) \<and> ch_resumed d = Suc (ch_resumed c) \<and> (if ch_conv c = i \<or> ch_abort c \<noteq> None
    then ch_conv d = ch_conv c \<and> ch_messages d = ch_messages c \<and> ch_prompt d = ch_prompt c \<and> ch_tasks d = ch_tasks c
    else ch_conv d = i \<and> ch_loading d \<and> (\<exists>r k ms. ch_tasks d = ch_tasks c @ [(ch_next c, K_load r i [] k ms)]))"
    unfolding d using r p(3) by blast
  then show ?thesis using h unfolding Let_def t_def [symmetric] x_def [symmetric] d_def [symmetric] by blast
qed

section \<open>A page on which a conversation is continued\<close>

definition page_config :: app_config where
  "page_config = \<lparr>cfg_host = None, cfg_port = None, cfg_api_key = None, cfg_upstream_base_url = None,
     cfg_upstream_origin = None, cfg_upstream_host_header = None, cfg_upstream_tls_server_name = None,
     cfg_upstream_use_env_proxy = None, cfg_timeout_sec = None, cfg_poll_interval_sec = None,
     cfg_poll_max_rounds = None, cfg_stream_chunk_runes = None, cfg_default_model = None, cfg_model_id = None,
     cfg_debug_upstream = None, cfg_model_aliases = None, cfg_responses = None, cfg_storage = None, cfg_admin = None,
     cfg_login_helper = None, cfg_prompt = None, cfg_features = None\<rparr>"

definition page_payload :: admin_config_payload where
  "page_payload = \<lparr>acp_success = True, acp_config = page_config, acp_secrets = None, acp_session = None,
     acp_session_refresh_runtime = None, acp_models = Some []\<rparr>"

definition page_bundle :: reply where
  "page_bundle = R_bundle page_payload
     \<lparr>vp_success = None, vp_version = None, vp_name = None, vp_default_model = None, vp_model_count = None,
      vp_user_email = None, vp_space_id = None, vp_features = None, vp_responses = None, vp_storage = None\<rparr>
     \<lparr>hp_ok = None, hp_session_ready = None, hp_version = None, hp_model = None, hp_user_email = None, hp_space_id = None\<rparr>
     \<lparr>ap_items = Some [], ap_active_account = None, ap_active_workspace_id = None, ap_session_ready = None,
      ap_session = None, ap_login_helper = None, ap_session_refresh = None, ap_session_refresh_runtime = None\<rparr>"

definition page_console :: console where
  "page_console = commit (resume T_bundle page_bundle (finish_task 1 demo_console))"

definition on_page :: "console \<Rightarrow> page \<Rightarrow> page" where
  "on_page k g = render_page (shell_commit ((pg_shell g)\<lparr>sh_console := k\<rparr>)) g"

definition page_0 :: page where "page_0 = opened_page [Some (tab_name Conversations)] 0 None None None"
definition page_1 :: page where "page_1 = on_page page_console (on_page demo_console page_0)"

lemma render_page_shell_fields [simp]:
  "sh_tab (pg_shell (render_page s g)) = sh_tab s" "sh_console (pg_shell (render_page s g)) = sh_console s"
  by (simp_all add: render_page_def answer_resume_def)

lemma on_page_fields [simp]:
  "sh_tab (pg_shell (on_page k g)) = sh_tab (pg_shell g)" "sh_console (pg_shell (on_page k g)) = k"
  by (simp_all add: on_page_def)

lemma page_0_fields: "sh_tab (pg_shell page_0) = Conversations" "sh_console (pg_shell page_0) = mounted_console"
  using tab_of_name [of Conversations]
  by (simp_all add: page_0_def opened_page_def mounted_shell_def sync_tab_def initial_shell_def canLeave_def unsaved_edits_def Let_def
      del: tab_name.simps)

lemma demo_console_open: "uc_verify demo_console = Some demo_verify" "(1, T_bundle) \<in> set (uc_tasks demo_console)"
  by (simp_all add: demo_console_def after_verify_def Let_def signed_out_def demo_verify_def mounted_console_def
      refreshAll_def spawn_def initial_console_def finish_task_def)

lemma page_console_fields: "uc_verify page_console = Some demo_verify" "uc_config page_console = Some page_payload"
  by (simp_all add: page_console_def page_bundle_def after_bundle_def loadConversations_def spawn_def finish_task_def demo_console_open)

lemma page_1_reachable: "page_reachable page_1"
proof -
  have "page_reachable page_0" unfolding page_0_def by (rule page_opened) simp
  then have "page_reachable (on_page demo_console page_0)"
    unfolding on_page_def by (rule page_stepped) (rule page_hook, simp add: page_0_fields demo_hook)
  moreover have "console_step demo_console page_console" unfolding page_console_def
    by (rule console_step.reply [OF demo_console_open(2)]) (simp add: answers_def page_bundle_def)
  ultimately show ?thesis
    unfolding page_1_def by (subst on_page_def) (rule page_stepped, assumption, rule page_hook, simp)
qed

lemma page_1_shell: "chat_mounted (pg_shell page_1)" "mounted_panel (pg_shell page_1) = Some Conversations"
  by (simp_all add: page_1_def chat_mounted_def mounted_defs page_console_fields page_0_fields demo_verify_def opt_true_def)

text \<open>The chat of this page has just been opened, so no turn is running in it.\<close>

lemma on_page_resume: "sh_resume (pg_shell g) = [] \<Longrightarrow> sh_resume (pg_shell (on_page k g)) = []"
  by (simp add: on_page_def render_page_def answer_resume_def)

lemma opened_chat_idle: "ch_abort (opened_chat g) = None"
  by (simp add: opened_chat_def Let_def resume_effect_def mount_chat_def openConversation_def initial_chat_def
      set_quota_open_def cancelEdit_def cancelRename_def chat_spawn_def notify_def)

lemma page_1_chat: "\<exists>c. pg_chat page_1 = Some c \<and> ch_abort c = None"
proof -
  define g where "g = on_page demo_console page_0"
  define u where "u = g\<lparr>pg_shell := shell_commit ((pg_shell g)\<lparr>sh_console := page_console\<rparr>)\<rparr>"
  have "uc_config demo_console = None"
    by (simp add: demo_console_def after_verify_def Let_def signed_out_def demo_verify_def mounted_console_def
        refreshAll_def spawn_def initial_console_def finish_task_def)
  then have "\<not> chat_mounted (shell_commit ((pg_shell page_0)\<lparr>sh_console := demo_console\<rparr>))"
    by (simp add: chat_mounted_def)
  then have none: "pg_chat g = None" by (simp add: g_def on_page_def render_page_def answer_resume_def resumes_def)
  have "sh_resume (pg_shell page_0) = []"
    by (simp add: page_0_def opened_page_def render_page_def answer_resume_def mounted_shell_def sync_tab_def initial_shell_def Let_def)
  then have resume: "sh_resume (pg_shell u) = []" by (simp add: u_def g_def on_page_resume)
  have mounted: "chat_mounted (pg_shell u)"
    by (simp add: u_def chat_mounted_def mounted_defs page_console_fields demo_verify_def opt_true_def)
  have shown: "pg_chat (show_chat u) = Some (opened_chat u)"
    using mounted none by (simp add: render_chat_def u_def)
  have "resumes (show_chat u) = 0" using shown opened_chat_facts(4) [of u] resume by (simp add: resumes_def del: show_chat_fields)
  then have kept: "answer_resume 0 (show_chat u) = show_chat u" by (simp add: answer_resume_def)
  have "page_1 = answer_resume 0 (show_chat u)"
    using none by (simp add: page_1_def g_def [symmetric] on_page_def [of page_console] render_page_def u_def resumes_def)
  then have "pg_chat page_1 = Some (opened_chat u)" unfolding kept using shown by (simp del: show_chat_fields)
  then show ?thesis by (simp add: opened_chat_idle)
qed

lemma page_reachable_ok_witness: "\<exists>c. pg_chat page_1 = Some c \<and> chat_reachable c \<and> ch_props c = chat_props_of (pg_shell page_1)"
  using page_reachable_ok [OF page_1_reachable] page_1_shell(1) by auto

lemma continue_reaches_chat_witness:
  "let h = render_page (shell_commit (shell_apply (Continue False (js ''c1'')) (pg_shell page_1))) page_1 in
    sh_tab (pg_shell h) = Tester \<and> (\<exists>d. pg_chat h = Some d \<and> ch_conv d = js ''c1'')"
proof -
  obtain c where c: "pg_chat page_1 = Some c" "ch_abort c = None" using page_1_chat by blast
  have "shell_enabled (Continue False (js ''c1'')) (pg_shell page_1)" using page_1_shell(2) by simp
  from continue_reaches_chat [OF page_1_reachable c(1) this] show ?thesis
    using c(2) by (auto simp: Let_def split: if_splits)
qed

end
