(* ===== verification/Tester_Panel.thy ===== *)
theory Tester_Panel imports Chat_Workspace Views begin

text \<open>
  The tester panel (\<open>components/admin/tester-panel.tsx\<close>), a smaller chat next to the one of chat-workspace.tsx: one
  conversation, the session it keeps, runs, and its markup. No module mounts it at present. Its replies and the counting
  of pending requests are those of Chat_Workspace; the identifiers \<open>randomID\<close> makes are arguments.
\<close>

section \<open>State\<close>

record tester_run =
  tr_prompt :: jsstr
  tr_files :: "js_file list"
  tr_id :: jsstr
  tr_answer :: jsstr
  tr_model :: jsstr
  tr_web :: bool

datatype tester_task =
    L_open bool "jsstr list" \<comment> \<open>whether it continues a conversation, ids of the models at mount\<close>
  | L_reload jsstr
  | L_read tester_run
  | L_run tester_run chat_run_input
  | L_run_load tester_run jsstr
  | L_copy jsstr

record tester =
  tp_models :: "model_item list"
  tp_prompt :: jsstr
  tp_model :: jsstr
  tp_web :: bool
  tp_conv :: jsstr
  tp_messages :: "conversation_message list"
  tp_files :: "js_file list"
  tp_loading :: bool
  tp_load_failed :: bool
  tp_remote_running :: bool
  tp_running :: bool
  tp_error :: jsstr
  tp_owner :: jsstr
  tp_abort :: "bool option" \<comment> \<open>\<open>abortRef.current\<close> and whether its signal is aborted\<close>
  tp_mounted :: bool
  tp_saved :: "jsstr option"
  tp_resumed :: nat
  tp_tasks :: "(nat \<times> tester_task) list"
  tp_next :: nat
  tp_toasts :: "toast list"

definition initial_tester :: "model_item list \<Rightarrow> jsstr option \<Rightarrow> bool \<Rightarrow> tester" where
  "initial_tester models defaultModel defaultWebSearch =
     \<lparr>tp_models = models, tp_prompt = [],
      tp_model = or_str (opt_str defaultModel) (or_str (case models of [] \<Rightarrow> [] | m # _ \<Rightarrow> mi_id m) auto),
      tp_web = defaultWebSearch, tp_conv = [], tp_messages = [], tp_files = [], tp_loading = True, tp_load_failed = False,
      tp_remote_running = False, tp_running = False, tp_error = [], tp_owner = [], tp_abort = None, tp_mounted = False,
      tp_saved = None, tp_resumed = 0, tp_tasks = [], tp_next = 0, tp_toasts = []\<rparr>"

definition tester_spawn :: "tester_task \<Rightarrow> tester \<Rightarrow> tester" where
  "tester_spawn t s = s\<lparr>tp_tasks := tp_tasks s @ [(tp_next s, t)], tp_next := Suc (tp_next s)\<rparr>"

section \<open>Opening\<close>

text \<open>The effect on mount; \<open>resume\<close> is the conversation to be continued, \<open>session\<close> what the storage holds.\<close>

definition tester_restored :: "jsstr option \<Rightarrow> json \<Rightarrow> tester \<Rightarrow> tester" where
  "tester_restored resume saved s =
     (let s1 = s\<lparr>tp_mounted := True\<rparr>;
          s2 = (if truthy resume then s1 else s1\<lparr>tp_prompt := opt_str (jstring (jget (js ''prompt'') saved))\<rparr>);
          s3 = (case jstring (jget (js ''model'') saved) of
                  Some m \<Rightarrow> if m \<noteq> [] \<and> m \<in> mi_id ` set (tp_models s) then s2\<lparr>tp_model := m\<rparr> else s2 | None \<Rightarrow> s2)
      in case jbool (jget (js ''useWebSearch'') saved) of Some b \<Rightarrow> s3\<lparr>tp_web := b\<rparr> | None \<Rightarrow> s3)"

definition mount_tester :: "jsstr option \<Rightarrow> jsstr option \<Rightarrow> tester \<Rightarrow> tester" where
  "mount_tester resume session s =
     (let saved = saved_session session None;
          i = or_str (opt_str resume) (opt_str (jstring (jget (js ''conversationID'') saved)));
          s1 = (tester_restored resume saved s)\<lparr>tp_conv := i\<rparr>;
          s2 = (if truthy resume then s1\<lparr>tp_resumed := tp_resumed s1 + 1\<rparr> else s1)
      in if i \<noteq> [] then tester_spawn (L_open (truthy resume) (List.map mi_id (tp_models s))) s2 else s2\<lparr>tp_loading := False\<rparr>)"

definition tester_running :: "conversation_detail \<Rightarrow> bool" where
  "tester_running item \<longleftrightarrow> cv_status item = Some (js ''running'')"

definition tester_opened :: "bool \<Rightarrow> jsstr list \<Rightarrow> conversation_detail \<Rightarrow> tester \<Rightarrow> tester" where
  "tester_opened resumed models item s =
     (if \<not> tp_mounted s then s
      else (let s1 = s\<lparr>tp_messages := opt_list (cd_messages item), tp_owner := opt_str (cv_account_email item),
                  tp_remote_running := tester_running item\<rparr>;
                s2 = (if resumed \<and> truthy (cv_model item) \<and> opt_str (cv_model item) \<in> set models
                      then s1\<lparr>tp_model := opt_str (cv_model item)\<rparr> else s1);
                s3 = (if tester_running item then s2\<lparr>tp_error := txt_tp_running\<rparr> else s2)
            in s3\<lparr>tp_loading := False\<rparr>))"

definition tester_load_failed :: "failure \<Rightarrow> tester \<Rightarrow> tester" where
  "tester_load_failed e s = (if \<not> tp_mounted s then s
     else s\<lparr>tp_load_failed := True, tp_error := failure_text e txt_load_failed, tp_loading := False\<rparr>)"

definition reloadConversation :: "tester \<Rightarrow> tester" where
  "reloadConversation s = tester_spawn (L_reload (tp_conv s)) (s\<lparr>tp_loading := True\<rparr>)"

definition tester_reloaded :: "conversation_detail \<Rightarrow> tester \<Rightarrow> tester" where
  "tester_reloaded item s = (if \<not> tp_mounted s then s
     else s\<lparr>tp_messages := opt_list (cd_messages item), tp_owner := opt_str (cv_account_email item), tp_load_failed := False,
       tp_remote_running := tester_running item, tp_error := (if tester_running item then txt_tp_refresh_later else []),
       tp_loading := False\<rparr>)"

section \<open>Running a turn\<close>

definition tester_blocked :: "tester \<Rightarrow> bool" where
  "tester_blocked s \<longleftrightarrow> tp_abort s \<noteq> None \<or> tp_loading s \<or> tp_load_failed s \<or> tp_remote_running s \<or>
     (trim (tp_prompt s) = [] \<and> tp_files s = [])"

definition tester_context :: "jsstr \<Rightarrow> jsstr \<Rightarrow> tester \<Rightarrow> tester_run" where
  "tester_context newConv newAnswer s =
     \<lparr>tr_prompt = tp_prompt s, tr_files = tp_files s, tr_id = or_str (tp_conv s) (js ''conv_'' @ newConv),
      tr_answer = js ''answer_'' @ newAnswer, tr_model = tp_model s, tr_web = tp_web s\<rparr>"

definition tester_submit :: "jsstr \<Rightarrow> jsstr \<Rightarrow> tester \<Rightarrow> tester" where
  "tester_submit newConv newAnswer s = (if tester_blocked s then s
     else tester_spawn (L_read (tester_context newConv newAnswer s)) (s\<lparr>tp_abort := Some False, tp_running := True, tp_error := []\<rparr>))"

definition tester_finish :: "tester \<Rightarrow> tester" where
  "tester_finish s = s\<lparr>tp_abort := None, tp_running := (if tp_mounted s then False else tp_running s)\<rparr>"

definition tester_question :: "tester_run \<Rightarrow> conversation_message" where
  "tester_question c = no_conversation_message\<lparr>cm_id := Some (js ''user_'' @ tr_answer c), cm_role := Some (js ''user''),
     cm_content := Some (tr_prompt c), cm_status := Some (js ''completed''),
     cm_attachments := Some (List.map (\<lambda>f. \<lparr>ma_name = Some (file_name f), ma_content_type = Some (file_type f),
       ma_contentType = None, ma_url = None, ma_source = None\<rparr>) (tr_files c))\<rparr>"

definition tester_answer :: "tester_run \<Rightarrow> conversation_message" where
  "tester_answer c = no_conversation_message\<lparr>cm_id := Some (tr_answer c), cm_role := Some (js ''assistant''),
     cm_content := Some [], cm_status := Some (js ''streaming'')\<rparr>"

definition tester_payload :: "tester_run \<Rightarrow> attachment_input list \<Rightarrow> chat_run_input" where
  "tester_payload c attachments = \<lparr>cri_account_email = None, cri_workspace_id = None, cri_prompt = tr_prompt c,
     cri_model = tr_model c, cri_use_web_search = tr_web c, cri_attachments = attachments, cri_conversation_id = Some (tr_id c)\<rparr>"

definition tester_send :: "tester_run \<Rightarrow> attachment_input list \<Rightarrow> tester \<Rightarrow> tester" where
  "tester_send c attachments s = (if tp_abort s = Some True then tester_finish s
     else tester_spawn (L_run c (tester_payload c attachments))
       (s\<lparr>tp_conv := tr_id c, tp_messages := tp_messages s @ [tester_question c, tester_answer c], tp_prompt := [], tp_files := []\<rparr>))"

definition tester_change :: "tester_run \<Rightarrow> (conversation_message \<Rightarrow> conversation_message) \<Rightarrow> tester \<Rightarrow> tester" where
  "tester_change c f s = s\<lparr>tp_messages := map_where (\<lambda>m. cm_id m = Some (tr_answer c)) f (tp_messages s)\<rparr>"

definition tester_delta :: "tester_run \<Rightarrow> jsstr \<Rightarrow> tester \<Rightarrow> tester" where
  "tester_delta c delta s = (if tp_mounted s
     then tester_change c (\<lambda>m. m\<lparr>cm_content := Some (opt_str (cm_content m) @ delta)\<rparr>) s else s)"

definition tester_done :: "tester_run \<Rightarrow> chat_run_result \<Rightarrow> tester \<Rightarrow> tester" where
  "tester_done c result s = (if \<not> tp_mounted s then tester_finish s
     else (let i = or_str (crr_conversation_id result) (tr_id c)
       in tester_spawn (L_run_load c i) (tester_change c (\<lambda>m. m\<lparr>cm_content := Some (crr_text result),
            cm_status := Some (js ''completed'')\<rparr>) (s\<lparr>tp_conv := i\<rparr>))))"

definition tester_loaded :: "conversation_detail \<Rightarrow> tester \<Rightarrow> tester" where
  "tester_loaded item s = tester_finish (if tp_mounted s
     then s\<lparr>tp_messages := opt_list (cd_messages item), tp_owner := opt_str (cv_account_email item)\<rparr> else s)"

definition tester_failed :: "tester_run \<Rightarrow> failure \<Rightarrow> tester \<Rightarrow> tester" where
  "tester_failed c e s = tester_finish (if \<not> tp_mounted s then s
     else (let aborted = (tp_abort s = Some True);
               s1 = tester_change c (\<lambda>m. m\<lparr>cm_status := Some (js ''failed'')\<rparr>)
                 (s\<lparr>tp_error := (if aborted then txt_stopped else failure_text e txt_generation_failed)\<rparr>)
           in if aborted then s1 else s1\<lparr>tp_prompt := or_str (tp_prompt s1) (tr_prompt c)\<rparr>))"

definition tester_stop :: "tester \<Rightarrow> tester" where
  "tester_stop s = s\<lparr>tp_abort := map_option (\<lambda>_. True) (tp_abort s)\<rparr>"

definition tester_new :: "tester \<Rightarrow> tester" where
  "tester_new s = s\<lparr>tp_conv := [], tp_messages := [], tp_owner := [], tp_error := [], tp_prompt := [], tp_files := [],
     tp_load_failed := False, tp_remote_running := False\<rparr>"

section \<open>Replies\<close>

definition tester_toast :: "toast \<Rightarrow> tester \<Rightarrow> tester" where
  "tester_toast t s = s\<lparr>tp_toasts := tp_toasts s @ [t]\<rparr>"

fun tester_resume :: "tester_task \<Rightarrow> chat_reply \<Rightarrow> tester \<Rightarrow> tester" where
  "tester_resume (L_open resumed models) (C_detail item) s = tester_opened resumed models item s"
| "tester_resume (L_open resumed models) (C_failed e) s = tester_load_failed e s"
| "tester_resume (L_reload i) (C_detail item) s = tester_reloaded item s"
| "tester_resume (L_reload i) (C_failed e) s = tester_load_failed e s"
| "tester_resume (L_read c) (C_attachments attachments) s = tester_send c attachments s"
| "tester_resume (L_read c) (C_failed e) s = tester_failed c e s"
| "tester_resume (L_run c p) (C_result result) s = tester_done c result s"
| "tester_resume (L_run c p) (C_failed e) s = tester_failed c e s"
| "tester_resume (L_run_load c i) (C_detail item) s = tester_loaded item s"
| "tester_resume (L_run_load c i) (C_failed e) s = tester_finish s"
| "tester_resume (L_copy t) C_done s = tester_toast (Toast_success txt_tp_copied) s"
| "tester_resume (L_copy t) (C_failed e) s = tester_toast (Toast_error txt_copy_failed) s"
| "tester_resume _ _ s = s"

definition tester_answers :: "tester_task \<Rightarrow> chat_reply \<Rightarrow> bool" where
  "tester_answers t r = (case r of C_failed _ \<Rightarrow> True
     | C_detail _ \<Rightarrow> (case t of L_open _ _ \<Rightarrow> True | L_reload _ \<Rightarrow> True | L_run_load _ _ \<Rightarrow> True | _ \<Rightarrow> False)
     | C_done \<Rightarrow> (case t of L_copy _ \<Rightarrow> True | _ \<Rightarrow> False)
     | C_attachments _ \<Rightarrow> (case t of L_read _ \<Rightarrow> True | _ \<Rightarrow> False)
     | C_result _ \<Rightarrow> (case t of L_run _ _ \<Rightarrow> True | _ \<Rightarrow> False))"

definition tester_drop :: "nat \<Rightarrow> tester \<Rightarrow> tester" where
  "tester_drop n s = s\<lparr>tp_tasks := filter (\<lambda>(k, _). k \<noteq> n) (tp_tasks s)\<rparr>"

section \<open>Steps\<close>

definition tester_json :: "tester \<Rightarrow> json" where
  "tester_json s = obj [(''conversationID'', jstr (tp_conv s)), (''prompt'', jstr (tp_prompt s)), (''model'', jstr (tp_model s)),
     (''useWebSearch'', Some (JBool (tp_web s)))]"

definition tester_commit :: "tester \<Rightarrow> tester" where
  "tester_commit s = (if tp_loading s then s else s\<lparr>tp_saved := Some (stringify (tester_json s))\<rparr>)"

definition unmount_tester :: "tester \<Rightarrow> tester" where
  "unmount_tester s = (tester_stop s)\<lparr>tp_mounted := False\<rparr>"

datatype tester_event =
    Tp_models "model_item list"
  | Tp_prompt jsstr
  | Tp_model jsstr
  | Tp_web bool
  | Tp_files_asked
  | Tp_add_files "js_file list"
  | Tp_remove_file nat
  | Tp_submit jsstr jsstr
  | Tp_stop
  | Tp_new
  | Tp_reload
  | Tp_copy jsstr
  | Tp_delta nat jsstr
  | Tp_reply nat chat_reply
  | Tp_unmount

definition tester_on :: "tester \<Rightarrow> bool" where
  "tester_on s \<longleftrightarrow> \<not> tp_loading s \<and> \<not> tp_load_failed s \<and> \<not> tp_remote_running s"

text \<open>What the controls allow; files may come from the dialog at any time once it was opened.\<close>

definition tester_enabled :: "tester_event \<Rightarrow> tester \<Rightarrow> bool" where
  "tester_enabled e s = (case e of
     Tp_prompt v \<Rightarrow> tester_on s
   | Tp_model m \<Rightarrow> \<not> tp_running s \<and> m \<in> mi_id ` set (tp_models s)
   | Tp_web b \<Rightarrow> \<not> tp_running s \<and> b \<noteq> tp_web s
   | Tp_files_asked \<Rightarrow> tester_on s \<and> \<not> tp_running s
   | Tp_remove_file i \<Rightarrow> \<not> tp_running s \<and> i < length (tp_files s)
   | Tp_submit _ _ \<Rightarrow> tester_on s
   | Tp_stop \<Rightarrow> tp_running s
   | Tp_new \<Rightarrow> \<not> tp_running s \<and> \<not> tp_loading s
   | Tp_reload \<Rightarrow> (tp_load_failed s \<or> tp_remote_running s) \<and> \<not> tp_loading s
   | Tp_copy t \<Rightarrow> t \<noteq> [] \<and> Some t \<in> cm_content ` set (tp_messages s)
   | Tp_delta n _ \<Rightarrow> (\<exists>(k, t) \<in> set (tp_tasks s). k = n \<and> (case t of L_run _ _ \<Rightarrow> True | _ \<Rightarrow> False))
   | Tp_reply n r \<Rightarrow> (\<exists>(k, t) \<in> set (tp_tasks s). k = n \<and> tester_answers t r)
   | _ \<Rightarrow> True)"

fun tester_apply :: "tester_event \<Rightarrow> tester \<Rightarrow> tester" where
  "tester_apply (Tp_models ms) s = s\<lparr>tp_models := ms\<rparr>"
| "tester_apply (Tp_prompt v) s = s\<lparr>tp_prompt := v\<rparr>"
| "tester_apply (Tp_model m) s = s\<lparr>tp_model := m\<rparr>"
| "tester_apply (Tp_web b) s = s\<lparr>tp_web := b\<rparr>"
| "tester_apply Tp_files_asked s = s"
| "tester_apply (Tp_add_files fs) s = s\<lparr>tp_files := tp_files s @ fs\<rparr>"
| "tester_apply (Tp_remove_file i) s = s\<lparr>tp_files := take i (tp_files s) @ drop (Suc i) (tp_files s)\<rparr>"
| "tester_apply (Tp_submit a b) s = tester_submit a b s"
| "tester_apply Tp_stop s = tester_stop s"
| "tester_apply Tp_new s = tester_new s"
| "tester_apply Tp_reload s = reloadConversation s"
| "tester_apply (Tp_copy t) s = tester_spawn (L_copy t) s"
| "tester_apply (Tp_delta n d) s = (case map_of (tp_tasks s) n of Some (L_run c p) \<Rightarrow> tester_delta c d s | _ \<Rightarrow> s)"
| "tester_apply (Tp_reply n r) s = (case map_of (tp_tasks s) n of Some t \<Rightarrow> tester_resume t r (tester_drop n s) | None \<Rightarrow> s)"
| "tester_apply Tp_unmount s = unmount_tester s"

definition tester_step :: "tester_event \<Rightarrow> tester \<Rightarrow> tester" where
  "tester_step e s = tester_commit (tester_apply e s)"

inductive tester_reachable :: "tester \<Rightarrow> bool" where
  tester_mounted: "tester_reachable (tester_commit (mount_tester resume session (initial_tester ms m w)))"
| tester_stepped: "tester_reachable s \<Longrightarrow> tp_mounted s \<Longrightarrow> tester_enabled e s \<Longrightarrow> tester_reachable (tester_step e s)"

end
