(* ===== verification/Tester_Facts.thy ===== *)
theory Tester_Facts imports Tester_Panel Chat_Session begin

text \<open>
  What holds in every state of the tester panel: it waits for at most one thing besides the clipboard, which is a load or a step of
  a turn for the conversation on screen, and its flags say which. At last the session it keeps.
\<close>

section \<open>The pending request\<close>

fun copies :: "tester_task \<Rightarrow> bool" where
  "copies (L_copy t) = True"
| "copies _ = False"

definition pending :: "(nat \<times> tester_task) list \<Rightarrow> (nat \<times> tester_task) list" where
  "pending ts = filter (\<lambda>(k, t). \<not> copies t) ts"

text \<open>What may be pending while the panel is loading or running, and for which conversation.\<close>

fun tester_fits :: "bool \<Rightarrow> bool \<Rightarrow> jsstr \<Rightarrow> tester_task \<Rightarrow> bool" where
  "tester_fits loading running conv (L_open r ms) = (loading \<and> \<not> running)"
| "tester_fits loading running conv (L_reload i) = (loading \<and> \<not> running \<and> i = conv)"
| "tester_fits loading running conv (L_read c) = (running \<and> \<not> loading \<and> (conv = [] \<or> conv = tr_id c))"
| "tester_fits loading running conv (L_run c p) = (running \<and> \<not> loading \<and> conv = tr_id c)"
| "tester_fits loading running conv (L_run_load c i) = (running \<and> \<not> loading \<and> conv = i)"
| "tester_fits loading running conv (L_copy t) = False"

definition waits :: "(nat \<times> tester_task) list \<Rightarrow> bool \<Rightarrow> bool \<Rightarrow> jsstr \<Rightarrow> bool" where
  "waits ts loading running conv \<longleftrightarrow> pending ts = [] \<and> \<not> loading \<and> \<not> running \<or>
     (\<exists>k t. pending ts = [(k, t)] \<and> tester_fits loading running conv t)"

definition tester_inv :: "tester \<Rightarrow> bool" where
  "tester_inv s \<longleftrightarrow> distinct (List.map fst (tp_tasks s)) \<and> (\<forall>(k, t) \<in> set (tp_tasks s). k < tp_next s) \<and>
     (tp_running s \<longleftrightarrow> tp_abort s \<noteq> None) \<and> (tp_running s \<longrightarrow> \<not> tp_load_failed s \<and> \<not> tp_remote_running s) \<and>
     waits (tp_tasks s) (tp_loading s) (tp_running s) (tp_conv s)"

lemma pending_simps [simp]:
  "pending [] = []" "pending (ts @ us) = pending ts @ pending us"
  "pending ((k, t) # ts) = (if copies t then pending ts else (k, t) # pending ts)"
  by (simp_all add: pending_def)

lemma pending_drop: "pending (filter (\<lambda>(k, _). k \<noteq> n) ts) = filter (\<lambda>(k, _). k \<noteq> n) (pending ts)"
  by (simp add: pending_def conj_commute case_prod_beta')

text \<open>An answered request is gone; what is pending is the one that was answered, or it stays.\<close>

lemma waits_drop:
  assumes "waits ts loading running conv" and "distinct (List.map fst ts)" and "map_of ts n = Some t"
  defines "us \<equiv> filter (\<lambda>(k, _). k \<noteq> n) ts"
  shows "copies t \<Longrightarrow> waits us loading running conv"
    and "\<not> copies t \<Longrightarrow> pending us = [] \<and> tester_fits loading running conv t"
proof -
  have t: "(n, t) \<in> set ts" using assms(3) by (rule map_of_SomeD)
  show "waits us loading running conv" if "copies t"
  proof -
    have "k \<noteq> n" if "(k, u) \<in> set (pending ts)" for k u
      using that \<open>copies t\<close> t eq_key_imp_eq_value [OF assms(2), of n t u] by (auto simp: pending_def)
    then have "pending us = pending ts" unfolding us_def pending_drop by (auto simp: filter_id_conv)
    then show ?thesis using assms(1) by (simp add: waits_def)
  qed
  show "pending us = [] \<and> tester_fits loading running conv t" if "\<not> copies t"
  proof -
    have "(n, t) \<in> set (pending ts)" using t that by (simp add: pending_def)
    then show ?thesis using assms(1) unfolding us_def pending_drop by (auto simp: waits_def)
  qed
qed

lemma drop_keys: "distinct (List.map fst ts) \<Longrightarrow> distinct (List.map fst (filter P ts))"
  by (rule distinct_map_filter)

section \<open>Every operation keeps it\<close>

lemmas tester_ops = tester_opened_def tester_load_failed_def tester_reloaded_def tester_send_def tester_failed_def
  tester_done_def tester_loaded_def tester_finish_def tester_change_def tester_delta_def tester_spawn_def tester_toast_def

lemma inv_copy:
  assumes "tester_inv s" and "map_of (tp_tasks s) n = Some (L_copy v)"
  shows "tester_inv (tester_drop n s)"
  using assms waits_drop(1) [of "tp_tasks s" _ _ _ n "L_copy v"] by (auto simp: tester_inv_def tester_drop_def drop_keys)

text \<open>The state after the request that is pending has been taken out.\<close>

lemma inv_taken:
  assumes "tester_inv s" and "map_of (tp_tasks s) n = Some t" and "\<not> copies t"
  shows "distinct (List.map fst (tp_tasks (tester_drop n s)))" "\<forall>(k, u) \<in> set (tp_tasks (tester_drop n s)). k < tp_next s"
    "pending (tp_tasks (tester_drop n s)) = []" "tester_fits (tp_loading s) (tp_running s) (tp_conv s) t"
    "tp_next (tester_drop n s) = tp_next s" "tp_mounted (tester_drop n s) = tp_mounted s" "tp_conv (tester_drop n s) = tp_conv s"
    "tp_abort (tester_drop n s) = tp_abort s" "tp_running (tester_drop n s) = tp_running s" "tp_loading (tester_drop n s) = tp_loading s"
    "tp_load_failed (tester_drop n s) = tp_load_failed s" "tp_remote_running (tester_drop n s) = tp_remote_running s"
    "tp_running s \<longleftrightarrow> tp_abort s \<noteq> None" "tp_running s \<longrightarrow> \<not> tp_load_failed s \<and> \<not> tp_remote_running s"
  using assms waits_drop(2) [of "tp_tasks s" _ _ _ n t] by (auto simp: tester_inv_def tester_drop_def drop_keys)

lemma inv_toast [simp]: "tester_inv (tester_toast t s) = tester_inv s"
  by (simp add: tester_inv_def tester_toast_def)

lemma waits_fresh:
  "pending ts = [] \<Longrightarrow> waits (ts @ [(k, t)]) ld rn cv \<longleftrightarrow> (if copies t then \<not> ld \<and> \<not> rn else tester_fits ld rn cv t)"
  by (auto simp: waits_def)

lemma waits_none: "pending ts = [] \<Longrightarrow> waits ts ld rn cv \<longleftrightarrow> \<not> ld \<and> \<not> rn"
  by (auto simp: waits_def)

lemma inv_reply:
  assumes "tester_inv s" and "tp_mounted s" and "map_of (tp_tasks s) n = Some t" and "tester_answers t r"
  shows "tester_inv (tester_resume t r (tester_drop n s))"
proof (cases "copies t")
  case True
  then obtain v where "t = L_copy v" by (cases t) auto
  moreover from this have "tester_inv (tester_drop n s)" using inv_copy assms(1,3) by blast
  ultimately show ?thesis using assms(4) by (cases r) (simp_all add: tester_answers_def)
next
  case False
  note taken = inv_taken [OF assms(1,3) False]
  have keys: "\<forall>k \<in> fst ` set (tp_tasks (tester_drop n s)). k < tp_next s" using taken(2) by auto
  show ?thesis using taken assms(2,4) False keys
    by (cases t; cases r) (auto simp: tester_answers_def tester_inv_def tester_ops Let_def waits_fresh waits_none or_str_def)
qed

lemma waits_idle: "waits ts ld rn cv \<Longrightarrow> \<not> ld \<Longrightarrow> \<not> rn \<Longrightarrow> pending ts = []"
  by (auto simp: waits_def elim: tester_fits.elims)

lemma waits_copy: "waits (ts @ [(k, L_copy t)]) ld rn cv = waits ts ld rn cv"
  by (simp add: waits_def)

lemma inv_submit: "tester_inv s \<Longrightarrow> tester_inv (tester_submit a b s)"
  using waits_idle [of "tp_tasks s" "tp_loading s" "tp_running s" "tp_conv s"]
  by (auto simp: tester_inv_def tester_submit_def tester_blocked_def tester_spawn_def waits_fresh tester_context_def or_str_def)

lemma inv_reload: "tester_inv s \<Longrightarrow> tester_enabled Tp_reload s \<Longrightarrow> tester_inv (reloadConversation s)"
  using waits_idle [of "tp_tasks s" "tp_loading s" "tp_running s" "tp_conv s"]
  by (auto simp: tester_inv_def tester_enabled_def reloadConversation_def tester_spawn_def waits_fresh)

lemma inv_new: "tester_inv s \<Longrightarrow> tester_enabled Tp_new s \<Longrightarrow> tester_inv (tester_new s)"
  using waits_idle [of "tp_tasks s" "tp_loading s" "tp_running s" "tp_conv s"]
  by (auto simp: tester_inv_def tester_enabled_def tester_new_def waits_none)

lemma inv_copy_asked: "tester_inv s \<Longrightarrow> tester_inv (tester_spawn (L_copy t) s)"
  by (auto simp: tester_inv_def tester_spawn_def waits_copy)

lemma inv_delta: "tester_inv (tester_delta c d s) = tester_inv s"
  by (simp add: tester_inv_def tester_delta_def tester_change_def)

lemma inv_stop: "tester_inv s \<Longrightarrow> tester_inv (tester_stop s)"
  by (auto simp: tester_inv_def tester_stop_def)

lemma inv_frames [simp]:
  "tester_inv (s\<lparr>tp_mounted := b\<rparr>) = tester_inv s" "tester_inv (s\<lparr>tp_models := ms\<rparr>) = tester_inv s"
  "tester_inv (s\<lparr>tp_prompt := v\<rparr>) = tester_inv s" "tester_inv (s\<lparr>tp_model := m\<rparr>) = tester_inv s"
  "tester_inv (s\<lparr>tp_web := w\<rparr>) = tester_inv s" "tester_inv (s\<lparr>tp_files := fs\<rparr>) = tester_inv s"
  by (simp_all add: tester_inv_def)

lemma inv_apply:
  assumes "tester_inv s" and "tp_mounted s" and "tester_enabled e s"
  shows "tester_inv (tester_apply e s)"
proof (cases e)
  case (Tp_reply n r)
  then obtain t where "(n, t) \<in> set (tp_tasks s)" "tester_answers t r" using assms(3) by (auto simp: tester_enabled_def)
  moreover from this have "map_of (tp_tasks s) n = Some t" using assms(1) by (simp add: tester_inv_def)
  ultimately show ?thesis using Tp_reply inv_reply [OF assms(1,2)] by simp
next
  case (Tp_delta n d)
  then show ?thesis using assms(1) by (simp add: inv_delta split: option.split tester_task.split)
next
  case Tp_unmount
  then show ?thesis using inv_stop [OF assms(1)] by (simp add: unmount_tester_def)
next
  case Tp_reload
  then show ?thesis using inv_reload assms(1,3) by simp
next
  case Tp_new
  then show ?thesis using inv_new assms(1,3) by simp
qed (use assms(1) in \<open>simp_all add: inv_submit inv_stop inv_copy_asked\<close>)

lemma inv_commit [simp]: "tester_inv (tester_commit s) = tester_inv s"
  by (simp add: tester_inv_def tester_commit_def)

lemma restored_fields [simp]:
  "tp_tasks (tester_restored resume v s) = tp_tasks s" "tp_next (tester_restored resume v s) = tp_next s"
  "tp_abort (tester_restored resume v s) = tp_abort s" "tp_running (tester_restored resume v s) = tp_running s"
  "tp_loading (tester_restored resume v s) = tp_loading s" "tp_load_failed (tester_restored resume v s) = tp_load_failed s"
  "tp_remote_running (tester_restored resume v s) = tp_remote_running s" "tp_models (tester_restored resume v s) = tp_models s"
  "tp_resumed (tester_restored resume v s) = tp_resumed s"
  by (auto simp: tester_restored_def Let_def split: option.split)

lemma inv_mount: "tester_inv (mount_tester resume session (initial_tester ms m w))"
proof -
  have f: "tp_tasks (initial_tester ms m w) = []" "tp_next (initial_tester ms m w) = 0" "tp_abort (initial_tester ms m w) = None"
    "\<not> tp_running (initial_tester ms m w)" "tp_loading (initial_tester ms m w)"
    by (simp_all add: initial_tester_def)
  then show ?thesis by (simp add: tester_inv_def mount_tester_def tester_spawn_def waits_def Let_def)
qed

section \<open>Every reachable state\<close>

lemma reachable_tester_inv: "tester_reachable s \<Longrightarrow> tester_inv s"
  by (induction rule: tester_reachable.induct) (simp_all add: inv_mount tester_step_def inv_apply)

text \<open>
  The panel waits for at most one thing besides the clipboard. While it is loading that is the load of the conversation on
  screen; while it is running it is a step of one turn, which belongs to the conversation on screen, and the
  panel is not locked; otherwise it is nothing.
\<close>

theorem tester_consistent:
  assumes "tester_reachable s"
  shows "(tp_running s \<longleftrightarrow> tp_abort s \<noteq> None) \<and> \<not> (tp_running s \<and> tp_loading s) \<and> (tp_running s \<longrightarrow> tester_on s) \<and>
    length (filter (\<lambda>(k, t). \<not> copies t) (tp_tasks s)) = of_bool (tp_loading s \<or> tp_running s) \<and>
    (\<forall>(k, t) \<in> set (tp_tasks s). copies t \<or> tester_fits (tp_loading s) (tp_running s) (tp_conv s) t)"
proof -
  have inv: "tester_inv s" using assms by (rule reachable_tester_inv)
  then have w: "waits (tp_tasks s) (tp_loading s) (tp_running s) (tp_conv s)" unfolding tester_inv_def by blast
  have fits: "t = u" if "pending (tp_tasks s) = [(k, t)]" "(j, u) \<in> set (tp_tasks s)" "\<not> copies u" for k t j u
  proof -
    have "(j, u) \<in> set (pending (tp_tasks s))" using that(2,3) by (simp add: pending_def)
    then show ?thesis using that(1) by simp
  qed
  show ?thesis
  proof (cases "pending (tp_tasks s)")
    case Nil
    then have "\<not> tp_loading s" "\<not> tp_running s" "\<forall>(k, t) \<in> set (tp_tasks s). copies t"
      using w by (auto simp: waits_def, auto simp: pending_def filter_empty_conv)
    then show ?thesis using Nil inv by (auto simp: tester_inv_def pending_def)
  next
    case (Cons p ps)
    then obtain k t where p: "pending (tp_tasks s) = [(k, t)]" "tester_fits (tp_loading s) (tp_running s) (tp_conv s) t"
      using w by (auto simp: waits_def)
    then have "(tp_loading s \<or> tp_running s) \<and> \<not> (tp_loading s \<and> tp_running s)" by (cases t) auto
    then show ?thesis using p inv fits [OF p(1)] by (fastforce simp: tester_inv_def tester_on_def pending_def)
  qed
qed

text \<open>What a reload of the page restores; a conversation to be continued takes precedence, and drops the unsent text.\<close>

lemma tester_json_members [simp]:
  "jstring (jget (js ''conversationID'') (tester_json s)) = Some (tp_conv s)"
  "jstring (jget (js ''prompt'') (tester_json s)) = Some (tp_prompt s)"
  "jstring (jget (js ''model'') (tester_json s)) = Some (tp_model s)"
  "jbool (jget (js ''useWebSearch'') (tester_json s)) = Some (tp_web s)"
  by (simp_all add: tester_json_def obj_def jstr_def jget_def jstring_def jbool_def)

lemma tester_session: "saved_session (Some (stringify (tester_json s))) local = tester_json s"
proof -
  have ok: "json_ok (tester_json s)" by (simp add: tester_json_def obj_def jstr_def)
  moreover have "\<exists>ms. tester_json s = JObj ms" by (simp add: tester_json_def obj_def)
  moreover have "stringify (tester_json s) \<noteq> []" using stringify_start [OF ok] by auto
  ultimately show ?thesis by (auto simp: saved_session_def parse_stringify truthy_def or_opt_def or_str_def opt_str_def)
qed

lemma tester_saved: "tester_reachable s \<Longrightarrow> \<not> tp_loading s \<Longrightarrow> tp_saved s = Some (stringify (tester_json s))"
  by (erule tester_reachable.cases) (auto simp: tester_step_def tester_commit_def tester_json_def split: if_splits)

theorem tester_restores:
  assumes "tester_reachable s" and "\<not> tp_loading s"
  shows "let t = mount_tester resume (tp_saved s) (initial_tester ms m w) in
    tp_web t = tp_web s \<and> (tp_model s \<in> mi_id ` set ms \<and> tp_model s \<noteq> [] \<longrightarrow> tp_model t = tp_model s) \<and>
    (if truthy resume then tp_conv t = opt_str resume \<and> tp_prompt t = [] \<and> tp_resumed t = 1
     else tp_conv t = tp_conv s \<and> tp_prompt t = tp_prompt s \<and> tp_resumed t = 0)"
proof -
  have "tp_saved s = Some (stringify (tester_json s))" using assms by (rule tester_saved)
  then show ?thesis
    by (cases resume)
      (auto simp: mount_tester_def tester_session tester_restored_def tester_spawn_def initial_tester_def or_str_def Let_def)
qed

text \<open>A failed turn gives the prompt back unless something was typed meanwhile; the attached files are gone.\<close>

lemma tester_failed_turn:
  assumes "tp_mounted s" and "tp_abort s = Some False"
  shows "tp_prompt (tester_failed c e s) = or_str (tp_prompt s) (tr_prompt c) \<and> tp_files (tester_failed c e s) = tp_files s \<and>
    tp_error (tester_failed c e s) = failure_text e txt_generation_failed \<and> \<not> tp_running (tester_failed c e s)"
  using assms by (simp add: tester_failed_def tester_finish_def tester_change_def Let_def)

end
