(* ===== verification/Tester_View.thy ===== *)
theory Tester_View imports Tester_Facts begin

text \<open>
  What the tester panel shows (\<open>components/admin/tester-panel.tsx\<close>, the markup), and that it offers exactly what its transitions
  allow. \<open>a\<close> and \<open>b\<close> are the identifiers the next run would get.
\<close>

type_synonym tester_screen = "tester_event view"

definition tester_header :: "tester \<Rightarrow> tester_screen" where
  "tester_header s = Group ([Shown (js ''Notion AI'')] @ optional_text (tp_owner s) @
     [Button txt_new_conversation (tp_running s \<or> tp_loading s) Tp_new])"

definition tester_options :: "tester \<Rightarrow> tester_screen" where
  "tester_options s = Group [Choice (tp_model s) (List.map (\<lambda>m. (mi_id m, or_str (opt_str (mi_name m)) (mi_id m))) (tp_models s))
     (tp_running s) Tp_model, Switch (tp_web s) (tp_running s) Tp_web, Shown txt_step_search]"

definition tester_article :: "conversation_message \<Rightarrow> tester_screen" where
  "tester_article m = Group ([Shown (if cm_role m = Some (js ''user'') then txt_tp_you else js ''Notion AI''),
     Button txt_ch_copy (\<not> truthy (cm_content m)) (Tp_copy (opt_str (cm_content m))), Shown (opt_str (cm_content m))] @
     (if cm_status m = Some (js ''failed'') then [Shown txt_ch_failed] else []) @
     List.map (\<lambda>f. Shown (opt_str (ma_name f))) (opt_list (cm_attachments m)))"

definition tester_transcript :: "tester \<Rightarrow> tester_screen" where
  "tester_transcript s = Group ((if \<not> tp_loading s \<and> tp_messages s = [] then [Shown txt_new_conversation] else []) @
     List.map tester_article (tp_messages s))"

definition tester_file :: "tester \<Rightarrow> nat \<times> js_file \<Rightarrow> tester_screen" where
  "tester_file s = (\<lambda>(i, f). Group [Shown (file_name f), Button (txt_ch_file_remove @ file_name f) (tp_running s) (Tp_remove_file i)])"

definition tester_send_button :: "jsstr \<Rightarrow> jsstr \<Rightarrow> tester \<Rightarrow> tester_screen" where
  "tester_send_button a b s = (if tp_running s then Button txt_ch_stop False Tp_stop
     else Button txt_ch_send (\<not> tester_on s \<or> trim (tp_prompt s) = [] \<and> tp_files s = []) (Tp_submit a b))"

definition tester_form :: "jsstr \<Rightarrow> jsstr \<Rightarrow> tester \<Rightarrow> tester_screen" where
  "tester_form a b s = Group (optional_text (tp_error s) @
     (if tp_load_failed s \<or> tp_remote_running s then [Button txt_tp_refresh (tp_loading s) Tp_reload] else []) @
     List.map (tester_file s) (enumerate 0 (tp_files s)) @
     [Input Multi_line (tp_prompt s) txt_tp_message (\<not> tester_on s) Tp_prompt, Key (js ''Enter'') (\<not> tester_on s) (Tp_submit a b),
      Button txt_ch_attach (tp_running s \<or> \<not> tester_on s) Tp_files_asked, tester_send_button a b s])"

definition tester_view :: "jsstr \<Rightarrow> jsstr \<Rightarrow> tester \<Rightarrow> tester_screen" where
  "tester_view a b s = Group [tester_header s, tester_options s, tester_transcript s, tester_form a b s]"

section \<open>The screen and the transitions\<close>

text \<open>New properties, files from the dialog, the stream and replies are not a use of a control.\<close>

fun tester_by_hand :: "jsstr \<Rightarrow> jsstr \<Rightarrow> tester_event \<Rightarrow> bool" where
  "tester_by_hand a b (Tp_submit x y) = (x = a \<and> y = b)"
| "tester_by_hand a b (Tp_models ms) = False"
| "tester_by_hand a b (Tp_add_files fs) = False"
| "tester_by_hand a b (Tp_delta n d) = False"
| "tester_by_hand a b (Tp_reply n r) = False"
| "tester_by_hand a b Tp_unmount = False"
| "tester_by_hand a b _ = True"

lemma tester_file_events: "(\<Union>p\<in>set (enumerate 0 (tp_files s)). events (tester_file s p)) =
    (if tp_running s then {} else Tp_remove_file ` {..<length (tp_files s)})"
proof -
  have "events (tester_file s p) = (if tp_running s then {} else {Tp_remove_file (fst p)})" for p
    by (cases p) (simp add: tester_file_def)
  moreover have "fst ` set (enumerate 0 (tp_files s)) = {..<length (tp_files s)}"
    using map_fst_enumerate [of 0 "tp_files s"] by (metis add_0 atLeast0LessThan list.set_map set_upt)
  ultimately show ?thesis by auto
qed

lemma tester_article_events: "events (tester_article m) = {Tp_copy t | t. t \<noteq> [] \<and> cm_content m = Some t}"
  by (cases "cm_content m") (auto simp: tester_article_def)

lemma tester_copies: "(\<Union>m\<in>set ms. events (tester_article m)) = {Tp_copy t | t. t \<noteq> [] \<and> Some t \<in> cm_content ` set ms}"
proof -
  have "Some t \<in> cm_content ` set ms \<longleftrightarrow> (\<exists>m\<in>set ms. cm_content m = Some t)" for t by (simp add: image_iff eq_commute)
  then show ?thesis unfolding tester_article_events by blast
qed

lemma tester_parts:
  "events (tester_header s) = (if tp_running s \<or> tp_loading s then {} else {Tp_new})"
  "events (tester_options s) = (if tp_running s then {} else Tp_model ` mi_id ` set (tp_models s) \<union> {Tp_web (\<not> tp_web s)})"
  "events (tester_transcript s) = {Tp_copy t | t. t \<noteq> [] \<and> Some t \<in> cm_content ` set (tp_messages s)}"
  "events (tester_form a b s) =
     (if (tp_load_failed s \<or> tp_remote_running s) \<and> \<not> tp_loading s then {Tp_reload} else {}) \<union>
     (if tp_running s then {Tp_stop} else Tp_remove_file ` {..<length (tp_files s)}) \<union>
     (if tester_on s then insert (Tp_submit a b) (range Tp_prompt) else {}) \<union>
     (if tester_on s \<and> \<not> tp_running s then {Tp_files_asked} else {})"
proof -
  show "events (tester_header s) = (if tp_running s \<or> tp_loading s then {} else {Tp_new})" by (simp add: tester_header_def)
  show "events (tester_options s) = (if tp_running s then {} else Tp_model ` mi_id ` set (tp_models s) \<union> {Tp_web (\<not> tp_web s)})"
    by (auto simp: tester_options_def image_iff)
  show "events (tester_transcript s) = {Tp_copy t | t. t \<noteq> [] \<and> Some t \<in> cm_content ` set (tp_messages s)}"
    unfolding tester_copies [symmetric] by (simp add: tester_transcript_def)
  show "events (tester_form a b s) =
     (if (tp_load_failed s \<or> tp_remote_running s) \<and> \<not> tp_loading s then {Tp_reload} else {}) \<union>
     (if tp_running s then {Tp_stop} else Tp_remove_file ` {..<length (tp_files s)}) \<union>
     (if tester_on s then insert (Tp_submit a b) (range Tp_prompt) else {}) \<union>
     (if tester_on s \<and> \<not> tp_running s then {Tp_files_asked} else {})"
    using tester_file_events [of s] by (auto simp: tester_form_def tester_send_button_def)
qed

text \<open>The panel offers exactly what its transitions allow.\<close>

theorem tester_screen_exact: "events (tester_view a b s) = {e. tester_enabled e s \<and> tester_by_hand a b e}"
proof (rule set_eqI)
  fix e
  show "e \<in> events (tester_view a b s) \<longleftrightarrow> e \<in> {e. tester_enabled e s \<and> tester_by_hand a b e}"
    by (cases e) (auto simp: tester_view_def tester_parts tester_enabled_def tester_on_def)
qed

end
