(* ===== verification/Policy_View.thy ===== *)
theory Policy_View imports Model_Policy Views begin

text \<open>
  What the model settings of a workspace show (\<open>components/admin/workspace-model-policy.tsx\<close>, the markup), and what a
  click of each control does.

  \<open>show\<close> is \<open>formatDateTime\<close>, \<open>name\<close> the name of the workspace. The models that are not available are listed and cannot be chosen.
\<close>

datatype policy_control =
    Scope_chosen policy_scope
  | Model_chosen jsstr
  | Read_clicked
  | Apply_clicked policy_action
  | Clear_asked
  | Clear_cancelled
  | Clear_confirmed

fun policy_click :: "policy_control \<Rightarrow> policy \<Rightarrow> policy" where
  "policy_click (Scope_chosen v) s = select_scope v s"
| "policy_click (Model_chosen m) s = s\<lparr>mp_model := m\<rparr>"
| "policy_click Read_clicked s = read_policy s"
| "policy_click (Apply_clicked a) s = apply_policy a s"
| "policy_click Clear_asked s = s\<lparr>mp_confirm := True\<rparr>"
| "policy_click Clear_cancelled s = s\<lparr>mp_confirm := False\<rparr>"
| "policy_click Clear_confirmed s = apply_policy Clear (s\<lparr>mp_confirm := False\<rparr>)"

type_synonym policy_screen = "policy_control view"

section \<open>The markup\<close>

definition scope_of :: "jsstr \<Rightarrow> policy_scope" where
  "scope_of t = (if t = scope_text Custom then Custom else Personal)"

definition scope_choice :: "policy \<Rightarrow> policy_screen" where
  "scope_choice s = Choice (scope_text (mp_scope s))
     [(scope_text Personal, txt_policy_personal), (scope_text Custom, txt_policy_custom)] (mp_busy s) (\<lambda>t. Scope_chosen (scope_of t))"

definition membership :: "policy_snapshot \<Rightarrow> jsstr" where
  "membership v = txt_po_right @ (if ps_membership_type v = js ''owner'' then txt_po_owner
     else if ps_membership_type v = js ''unknown'' then txt_po_unknown else ps_membership_type v) @ txt_full_stop @
     (if ps_can_edit v then [] else txt_po_view_only)"

definition allowed_text :: "policy_snapshot \<Rightarrow> jsstr" where
  "allowed_text v = txt_po_allowed @ (if allowed_models v = [] then txt_po_none
     else join txt_po_comma (List.map pm_name (allowed_models v))) @ txt_full_stop @
     (if ps_policy_present v then [] else txt_po_no_limits)"

definition model_label :: "policy_model \<Rightarrow> jsstr" where
  "model_label m = pm_name m @ (if pm_available m then [] else txt_po_unavailable @
     (if truthy (pm_disabled_reason m) then txt_colon @ opt_str (pm_disabled_reason m) else []) @ txt_close_paren)"

definition model_choice :: "policy \<Rightarrow> policy_snapshot \<Rightarrow> policy_screen" where
  "model_choice s v = Group (Choice (mp_model s) (List.map (\<lambda>m. (pm_id m, model_label m)) (filter pm_available (ps_models v)))
       (mp_busy s \<or> \<not> editable s) Model_chosen #
     List.map (\<lambda>m. Shown (model_label m)) (filter (\<lambda>m. \<not> pm_available m) (ps_models v)))"

definition model_mapping :: "policy_model \<Rightarrow> policy_screen" where
  "model_mapping m = Group [Shown (txt_po_official @ pm_name m), Shown (txt_po_provider @ pm_provider m), Shown (txt_po_id @ pm_id m),
     Shown (txt_po_alias @ or_str (opt_str (pm_final_model m)) txt_po_no_alias), Shown txt_po_source]"

definition policy_buttons :: "policy \<Rightarrow> policy_snapshot \<Rightarrow> policy_screen" where
  "policy_buttons s v = Group [
     Button txt_po_apply (mp_busy s \<or> \<not> editable s \<or> \<not> (case selected_model s of None \<Rightarrow> False | Some m \<Rightarrow> pm_available m))
       (Apply_clicked Lock),
     Button txt_po_restore (mp_busy s \<or> \<not> editable s \<or> ps_restore_point v = None) (Apply_clicked Restore),
     Button txt_po_clear (mp_busy s \<or> \<not> editable s \<or> \<not> ps_policy_present v) Clear_asked]"

definition restore_text :: "(jsstr \<Rightarrow> jsstr) \<Rightarrow> policy_snapshot \<Rightarrow> jsstr" where
  "restore_text show v = (case ps_restore_point v of None \<Rightarrow> txt_po_no_restore
     | Some r \<Rightarrow> txt_po_saved @ formatMaybeDate show (Some (rp_saved_at r)) @ txt_po_saved_close @
         (if rp_present r then txt_po_excludes @ nat_str (length (wp_disabledModels (rp_policy r))) @ txt_po_excludes_models @
            nat_str (length (wp_disabledProviders (rp_policy r))) @ txt_po_excludes_providers
          else txt_po_no_limits_then) @ txt_po_restore_once)"

definition snapshot_view :: "(jsstr \<Rightarrow> jsstr) \<Rightarrow> jsstr \<Rightarrow> policy \<Rightarrow> policy_snapshot \<Rightarrow> policy_screen" where
  "snapshot_view show name s v = Group ([Shown (membership v)] @
     (if noUsableModel s then [Shown (txt_po_none_before @ scopeLabel s @ txt_po_none_after)] else []) @
     [Shown (allowed_text v), model_choice s v] @
     (case selected_model s of None \<Rightarrow> [] | Some m \<Rightarrow> [model_mapping m]) @ [Shown txt_po_effect] @
     (case selected_model s of None \<Rightarrow> []
      | Some m \<Rightarrow> [Shown (txt_po_apply_to @ name @ txt_po_apply_of @ scopeLabel s @ txt_colon @ pm_name m)]) @
     [policy_buttons s v, Shown (restore_text show v)])"

definition policy_section :: "(jsstr \<Rightarrow> jsstr) \<Rightarrow> jsstr \<Rightarrow> policy \<Rightarrow> policy_screen" where
  "policy_section show name s = Group ([Shown txt_po_title, Shown (name @ middle_dot @ pp_email (mp_props s)), Shown txt_po_intro,
     scope_choice s,
     Button (if mp_busy s then txt_po_busy else txt_po_read) (mp_busy s \<or> pp_cooling (mp_props s)) Read_clicked] @
     (if pp_cooling (mp_props s) then [Shown txt_po_cooling] else []) @
     (case mp_snapshot s of None \<Rightarrow> [] | Some v \<Rightarrow> [snapshot_view show name s v]) @
     optional_text (mp_message s) @ [Shown txt_po_third_party])"

definition clear_dialog :: "jsstr \<Rightarrow> policy \<Rightarrow> policy_screen" where
  "clear_dialog name s = Group [Shown txt_po_clear_title,
     Shown (txt_po_clear_before @ name @ txt_po_clear_quote @ scopeLabel s @ txt_po_clear_after),
     Button txt_po_cancel False Clear_cancelled, Button txt_po_confirm (mp_busy s) Clear_confirmed,
     Button (js ''Close'') False Clear_cancelled]"

definition policy_view :: "(jsstr \<Rightarrow> jsstr) \<Rightarrow> jsstr \<Rightarrow> policy \<Rightarrow> policy_screen" where
  "policy_view show name s = (if mp_confirm s then Group [Inert (policy_section show name s), clear_dialog name s]
     else policy_section show name s)"

section \<open>What is offered and what is allowed\<close>

lemma snapshot_events: "events (snapshot_view show name s v) = events (model_choice s v) \<union> events (policy_buttons s v)"
  by (auto simp: snapshot_view_def model_mapping_def split: option.splits)

lemma policy_section_events: "events (policy_section show name s) = events (scope_choice s) \<union>
    (if mp_busy s \<or> pp_cooling (mp_props s) then {} else {Read_clicked}) \<union>
    (case mp_snapshot s of None \<Rightarrow> {} | Some v \<Rightarrow> events (model_choice s v) \<union> events (policy_buttons s v))"
  by (auto simp: policy_section_def snapshot_events split: option.splits)

lemma choice_events: "events (scope_choice s) = (if mp_busy s then {} else range Scope_chosen)"
proof -
  have "scope_of (scope_text Personal) = Personal" "scope_of (scope_text Custom) = Custom" by code_simp+
  moreover have "range Scope_chosen = {Scope_chosen Personal, Scope_chosen Custom}"
    using policy_scope.exhaust by (auto simp: image_def)
  ultimately show ?thesis by (simp add: scope_choice_def insert_commute)
qed

lemma model_events: "events (model_choice s v) = (if mp_busy s \<or> \<not> editable s then {}
    else (\<lambda>m. Model_chosen (pm_id m)) ` {m \<in> set (ps_models v). pm_available m})"
  by (auto simp: model_choice_def image_image)

text \<open>What happens without the user.\<close>

inductive policy_world :: "policy \<Rightarrow> policy \<Rightarrow> bool" where
  world_reply: "t \<in> set (mp_tasks s) \<Longrightarrow> policy_answers t r \<Longrightarrow>
     policy_world s (policy_resume t r (s\<lparr>mp_tasks := remove1 t (mp_tasks s)\<rparr>))"
| world_cooling: "mp_alive s \<Longrightarrow> policy_world s (s\<lparr>mp_props := (mp_props s)\<lparr>pp_cooling := b\<rparr>\<rparr>)"
| world_unmount: "policy_world s (s\<lparr>mp_alive := False\<rparr>)"

lemma selected_snapshot: "selected_model s = Some m \<Longrightarrow> \<exists>v. mp_snapshot s = Some v"
  by (cases "mp_snapshot s") (simp_all add: selected_model_def)

lemma step_offered:
  assumes "policy_step s s'"
  shows "mp_alive s \<and> (\<exists>e\<in>events (policy_view show name s). s' = policy_click e s) \<or> policy_world s s'"
  using assms
proof cases
  case (step_model v m)
  then have "Model_chosen (pm_id m) \<in> events (policy_view show name s)"
    by (auto simp: policy_view_def policy_section_events model_events)
  then show ?thesis using step_model by (intro disjI1 conjI bexI [of _ "Model_chosen (pm_id m)"]) simp_all
next
  case (step_scope v)
  then have "Scope_chosen v \<in> events (policy_view show name s)"
    by (simp add: policy_view_def policy_section_events choice_events)
  then show ?thesis using step_scope by (intro disjI1 conjI bexI [of _ "Scope_chosen v"]) simp_all
next
  case step_read
  then have "Read_clicked \<in> events (policy_view show name s)" by (simp add: policy_view_def policy_section_events)
  then show ?thesis using step_read by (intro disjI1 conjI bexI [of _ Read_clicked]) simp_all
next
  case (step_lock m)
  then obtain v where "mp_snapshot s = Some v" using selected_snapshot by blast
  then have "Apply_clicked Lock \<in> events (policy_view show name s)" using step_lock
    by (simp add: policy_view_def policy_section_events policy_buttons_def)
  then show ?thesis using step_lock by (intro disjI1 conjI bexI [of _ "Apply_clicked Lock"]) simp_all
next
  case (step_restore v)
  then have "Apply_clicked Restore \<in> events (policy_view show name s)"
    by (auto simp: policy_view_def policy_section_events policy_buttons_def)
  then show ?thesis using step_restore by (intro disjI1 conjI bexI [of _ "Apply_clicked Restore"]) simp_all
next
  case (step_ask_clear v)
  then have "Clear_asked \<in> events (policy_view show name s)"
    by (simp add: policy_view_def policy_section_events policy_buttons_def)
  then show ?thesis using step_ask_clear by (intro disjI1 conjI bexI [of _ Clear_asked]) simp_all
next
  case step_cancel_clear
  then have "Clear_cancelled \<in> events (policy_view show name s)" by (simp add: policy_view_def clear_dialog_def)
  then show ?thesis using step_cancel_clear by (intro disjI1 conjI bexI [of _ Clear_cancelled]) simp_all
next
  case step_clear
  then have "Clear_confirmed \<in> events (policy_view show name s)" by (simp add: policy_view_def clear_dialog_def)
  then show ?thesis using step_clear by (intro disjI1 conjI bexI [of _ Clear_confirmed]) simp_all
qed (auto intro: policy_world.intros)

lemma step_restore_point: "mp_alive s \<Longrightarrow> \<not> mp_confirm s \<Longrightarrow> \<not> mp_busy s \<Longrightarrow> editable s \<Longrightarrow> mp_snapshot s = Some v \<Longrightarrow>
    ps_restore_point v = Some r \<Longrightarrow> policy_step s (apply_policy Restore s)"
  by (rule step_restore) auto

lemma offered_step:
  assumes "mp_alive s" and "e \<in> events (policy_view show name s)"
  shows "policy_step s (policy_click e s)"
proof (cases "mp_confirm s")
  case True
  then show ?thesis using assms
    by (auto simp: policy_view_def clear_dialog_def split: if_splits intro: step_cancel_clear step_clear)
next
  case False
  then have "e \<in> events (policy_section show name s)" using assms(2) by (simp add: policy_view_def)
  then show ?thesis using assms(1) False
    by (auto simp: policy_section_events choice_events model_events policy_buttons_def split: if_splits option.splits
        intro: step_scope step_model step_read step_lock step_restore_point step_ask_clear)
qed

text \<open>
  C20. The model settings can be operated exactly as their transitions say: a step of the panel is the click of a control
  that is on screen, not disabled and not behind the question whether to clear the limits, or it is a reply, the start or
  end of the cooling of the account, or the end of the panel; and each such click is a step.
\<close>

theorem policy_screen_exact:
  "policy_step s s' \<longleftrightarrow> (mp_alive s \<and> s' \<in> (\<lambda>e. policy_click e s) ` events (policy_view show name s)) \<or> policy_world s s'"
proof
  assume "policy_step s s'"
  then show "mp_alive s \<and> s' \<in> (\<lambda>e. policy_click e s) ` events (policy_view show name s) \<or> policy_world s s'"
    using step_offered [of s s' "show" name] by (auto simp: image_def)
next
  assume "mp_alive s \<and> s' \<in> (\<lambda>e. policy_click e s) ` events (policy_view show name s) \<or> policy_world s s'"
  then show "policy_step s s'"
    using offered_step by (auto elim!: policy_world.cases intro: step_reply step_cooling step_unmount)
qed

end
