(* ===== verification/Notebook_View.thy ===== *)
theory Notebook_View imports Notebook Views begin

text \<open>
  What the notebook dialog shows (\<open>components/admin/notebook-dialog.tsx\<close>, the markup). \<open>lower\<close> is
  \<open>toLocaleLowerCase\<close>.
\<close>

type_synonym notebook_screen = "notebook_event view"

definition note_target_choice :: "notebook \<Rightarrow> notebook_screen" where
  "note_target_choice s = Choice (nb_target s) (List.map (\<lambda>t. (ct_id t, ct_name t @ middle_dot @ ct_email t)) (nb_targets s))
     (nb_busy s) Note_target"

definition source_of :: "jsstr \<Rightarrow> note_source" where
  "source_of t = (if t = source_name Private then Private else Shared)"

definition note_source_choice :: "notebook \<Rightarrow> notebook_screen" where
  "note_source_choice s = Choice (source_name (nb_source s))
     [(source_name Shared, txt_nb_shared), (source_name Private, txt_nb_private)] (nb_busy s) (\<lambda>t. Note_source (source_of t))"

definition note_reader :: "notebook \<Rightarrow> notebook_screen" where
  "note_reader s = Group (Button (if nb_busy s then txt_nb_reading else if nb_items s = None then txt_nb_read else txt_nb_again)
       (nb_busy s \<or> notebook_workspace s = None) (Note_read None) #
     (if nb_items s = None then [] else [Input Plain_input (nb_filter s) txt_nb_search False Note_filter]))"

definition note_list :: "(jsstr \<Rightarrow> jsstr) \<Rightarrow> notebook \<Rightarrow> notebook_screen" where
  "note_list lower s = Group (List.map (\<lambda>i. Button (ni_title i) (nb_busy s) (Note_read (Some (ni_id i)))) (shown_items lower s) @
     (if nb_items s = Some [] then [Shown txt_nb_empty] else []))"

definition note_preview :: "notebook \<Rightarrow> notebook_screen" where
  "note_preview s = (case nb_note s of None \<Rightarrow> Shown txt_nb_choose
     | Some p \<Rightarrow> Group ([Shown (ni_title p)] @ (if nn_partial p then [Shown txt_nb_partial] else []) @
         [Shown (or_str (nn_text p) txt_nb_no_text),
          Button txt_nb_refer (nb_busy s \<or> nb_disabled s \<or> nn_text p = [] \<or> notebook_workspace s = None) Note_refer,
          Shown txt_nb_edit]))"

definition notebook_view :: "(jsstr \<Rightarrow> jsstr) \<Rightarrow> notebook \<Rightarrow> notebook_screen" where
  "notebook_view lower s = (if \<not> nb_open s then Group [] else Group ([Shown txt_nb_title, Shown txt_nb_intro, note_target_choice s,
     note_source_choice s, note_reader s] @ optional_text (nb_error s) @
     [note_list lower s, note_preview s, Button (js ''Close'') False Note_closed]))"

text \<open>
  Replies and new properties are not the user's. The page that is read is one of the list, as the filter leaves it.
\<close>

fun notebook_by_hand :: "(jsstr \<Rightarrow> jsstr) \<Rightarrow> notebook \<Rightarrow> notebook_event \<Rightarrow> bool" where
  "notebook_by_hand lower s (Note_props a b c d) = False"
| "notebook_by_hand lower s (Note_answered t r) = False"
| "notebook_by_hand lower s (Note_read (Some i)) = (i \<in> ni_id ` set (shown_items lower s))"
| "notebook_by_hand lower s e = True"

lemma source_events: "events (note_source_choice s) = (if nb_busy s then {} else range Note_source)"
proof -
  have "source_of (source_name Shared) = Shared" "source_of (source_name Private) = Private" by code_simp+
  moreover have "range Note_source = {Note_source Shared, Note_source Private}"
    using note_source.exhaust by (auto simp: image_def)
  ultimately show ?thesis by (simp add: note_source_choice_def insert_commute)
qed

lemma shown_listed: "i \<in> set (shown_items lower s) \<Longrightarrow> i \<in> set (opt_list (nb_items s))"
  by (simp add: shown_items_def)

lemma list_note_events: "events (note_list lower s) = (if nb_busy s then {} else (\<lambda>i. Note_read (Some (ni_id i))) ` set (shown_items lower s))"
  by (auto simp: note_list_def)

lemma preview_events: "events (note_preview s) = (if nb_busy s \<or> nb_disabled s \<or> notebook_workspace s = None \<or>
    (case nb_note s of None \<Rightarrow> True | Some p \<Rightarrow> nn_text p = []) then {} else {Note_refer})"
  by (auto simp: note_preview_def split: option.split)

lemma notebook_events: "events (notebook_view lower s) = (if \<not> nb_open s then {} else
    (if nb_busy s then {} else Note_target ` ct_id ` set (nb_targets s)) \<union> events (note_source_choice s) \<union>
    (if nb_busy s \<or> notebook_workspace s = None then {} else {Note_read None}) \<union>
    (if nb_items s = None then {} else range Note_filter) \<union> events (note_list lower s) \<union> events (note_preview s) \<union> {Note_closed})"
  by (auto simp: notebook_view_def note_target_choice_def note_reader_def image_image)

text \<open>
  The notebook dialog offers what its transitions allow: while it is open, a control that is not disabled is an event it
  accepts, and every event of the user that it accepts has its control; while it is closed there is nothing.
\<close>

theorem notebook_screen_exact:
  "events (notebook_view lower s) = {e. notebook_enabled e s \<and> notebook_by_hand lower s e}"
proof (rule set_eqI)
  fix e
  show "e \<in> events (notebook_view lower s) \<longleftrightarrow> e \<in> {e. notebook_enabled e s \<and> notebook_by_hand lower s e}"
  proof (cases e)
    case (Note_read p)
    moreover have "ni_id ` set (shown_items lower s) \<subseteq> ni_id ` set (opt_list (nb_items s))" using shown_listed by blast
    ultimately show ?thesis
      by (cases p) (auto simp: notebook_events list_note_events preview_events source_events)
  qed (auto simp: notebook_events list_note_events preview_events source_events split: option.splits)
qed

end
