(* ===== verification/Shell_View.thy ===== *)
theory Shell_View imports Panel_Views begin

text \<open>
  What the shell shows around the panels: the navigation (\<open>admin-sidebar.tsx\<close>), the top bar and the notices
  (\<open>admin-console.tsx\<close>) and the login (\<open>login-overlay.tsx\<close>).

  A control brings about a list of events, one after the other; \<open>sure\<close> is the answer the operator would give to
  \<open>window.confirm\<close>. The chat and the panel on screen are views of their own. While the menu is open, what is behind it
  cannot be used. \<open>None\<close> is the reloading of the page.
\<close>

type_synonym shell_act = "shell_event list option"
type_synonym shell_screen = "shell_act view"

section \<open>Navigation\<close>

definition page_button :: "bool \<Rightarrow> tab_key \<Rightarrow> shell_screen" where
  "page_button sure t = Button (tab_label t) False (Some [Tab_clicked sure t, Mobile_nav False])"

definition space_shown :: "shell \<Rightarrow> jsstr" where
  "space_shown s = (let name = (\<lambda>x. opt_str (Option.bind x ss_space_name)) in
     or_str (name (Option.bind (uc_config (sh_console s)) acp_session)) (name (Option.bind (uc_accounts (sh_console s)) ap_session)))"

definition navigation :: "bool \<Rightarrow> shell \<Rightarrow> shell_screen" where
  "navigation sure s = Group ([Shown (js ''N''), Shown (js ''Notion2API''), Shown txt_sb_product] @ List.map (page_button sure) pages @
     [Shown txt_sb_workspace, Shown (or_str (space_shown s) txt_sb_no_workspace),
      Shown (or_str (opt_str (Option.bind (uc_accounts (sh_console s)) ap_active_account)) txt_sb_no_account),
      Shown (txt_sb_model @ or_str (opt_str (shell_default_model s)) (js ''Auto'')), Shown (authState s),
      Button txt_sb_logout False (Some [Logout_clicked sure])])"

definition menu_dialog :: "bool \<Rightarrow> shell \<Rightarrow> shell_screen" where
  "menu_dialog sure s = Group [Shown txt_sb_menu, navigation sure s, Button (js ''Close'') False (Some [Mobile_nav False])]"

section \<open>Top bar and notices\<close>

definition theme_choices :: "(jsstr \<times> jsstr) list" where
  "theme_choices = [(js ''system'', txt_co_system), (js ''light'', txt_co_light), (js ''dark'', txt_co_dark)]"

definition topbar :: "shell \<Rightarrow> shell_screen" where
  "topbar s = Group [Button txt_co_menu False (Some [Mobile_nav True]), Shown (tab_label (sh_tab s)),
     Shown (uc_stream_state (sh_console s)), Choice (themeMode s) theme_choices False (\<lambda>t. Some [Theme t]),
     Button txt_co_resync (uc_boot_loading (sh_console s)) (Some [Resync])]"

definition boot_notice :: "shell \<Rightarrow> shell_screen" where
  "boot_notice s = Group (optional_text (uc_boot_error (sh_console s)))"

definition config_notice :: "shell \<Rightarrow> shell_screen" where
  "config_notice s = (if config_missing s then Group [Shown (or_str (uc_boot_error (sh_console s)) txt_co_config),
     Button txt_lo_reload False (Some [Resync])] else Group [])"

section \<open>Login\<close>

definition login_form :: "shell \<Rightarrow> shell_screen" where
  "login_form s = (if passwordConfigured s then Group [Shown txt_lo_password,
       Input Plain_input (sh_password s) txt_lo_enter (sh_login_busy s) (\<lambda>t. Some [Password_typed t]),
       Button (if sh_login_busy s then txt_lo_busy else txt_lo_login) (sh_login_busy s \<or> trim (sh_password s) = []) (Some [Login_submitted])]
     else Button txt_lo_reload False None)"

definition login_overlay :: "shell \<Rightarrow> shell_screen" where
  "login_overlay s = Group ([Shown (js ''N''), Shown (js ''Notion2API''), Shown txt_lo_product,
     Shown (if passwordConfigured s then txt_lo_welcome else txt_lo_set_password),
     Shown (if passwordConfigured s then txt_lo_welcome_text else txt_lo_set_text), login_form s] @
     optional_text (sh_local_message s) @ [Shown txt_lo_footer])"

section \<open>The shell\<close>

definition shell_page :: "bool \<Rightarrow> shell \<Rightarrow> shell_screen" where
  "shell_page sure s = Group ([navigation sure s, topbar s, boot_notice s, config_notice s] @
     (if shouldShowOverlay s then [login_overlay s] else []))"

definition shell_view :: "bool \<Rightarrow> shell \<Rightarrow> shell_screen" where
  "shell_view sure s = (if boot_screen s then Shown txt_co_booting
     else if sh_mobile_nav s then Group [Inert (shell_page sure s), menu_dialog sure s] else shell_page sure s)"

section \<open>What is offered and what is allowed\<close>

lemma navigation_events: "events (navigation sure s) = insert (Some [Logout_clicked sure])
    (range (\<lambda>t. Some [Tab_clicked sure t, Mobile_nav False]))"
proof -
  have "t \<in> set pages" for t :: tab_key by (cases t) (simp_all add: pages_def)
  then have "set pages = UNIV" by auto
  then show ?thesis by (auto simp: navigation_def page_button_def)
qed

lemma topbar_events: "events (topbar s) = insert (Some [Mobile_nav True]) ((\<lambda>t. Some [Theme t]) ` {js ''system'', js ''light'', js ''dark''} \<union>
    (if uc_boot_loading (sh_console s) then {} else {Some [Resync]}))"
  by (auto simp: topbar_def theme_choices_def)

lemma shell_notice_events: "events (boot_notice s) = {}" "events (config_notice s) = (if config_missing s then {Some [Resync]} else {})"
  by (auto simp: boot_notice_def config_notice_def)

lemma overlay_events: "events (login_overlay s) = (if \<not> passwordConfigured s then {None} else if sh_login_busy s then {}
    else range (\<lambda>t. Some [Password_typed t]) \<union> (if trim (sh_password s) = [] then {} else {Some [Login_submitted]}))"
  by (auto simp: login_overlay_def login_form_def)

lemmas page_events = shell_page_def navigation_events topbar_events shell_notice_events overlay_events

text \<open>What the user does with the shell itself. A change of the tab closes the menu.\<close>

fun shell_by_hand :: "bool \<Rightarrow> shell_event \<Rightarrow> bool" where
  "shell_by_hand sure (Tab_clicked a t) = (a = sure)"
| "shell_by_hand sure (Logout_clicked a) = (a = sure)"
| "shell_by_hand sure Resync = True"
| "shell_by_hand sure (Password_typed t) = True"
| "shell_by_hand sure Login_submitted = True"
| "shell_by_hand sure (Theme t) = True"
| "shell_by_hand sure _ = False"

definition hand_events :: "shell_act \<Rightarrow> shell_event set" where
  "hand_events a = (case a of None \<Rightarrow> {} | Some es \<Rightarrow> {e \<in> set es. \<not> (\<exists>b. e = Mobile_nav b)})"

lemma hand_events_simps [simp]: "hand_events None = {}" "hand_events (Some [Tab_clicked a t, Mobile_nav b]) = {Tab_clicked a t}"
  "hand_events (Some [Logout_clicked a]) = {Logout_clicked a}" "hand_events (Some [Resync]) = {Resync}"
  "hand_events (Some [Theme m]) = {Theme m}" "hand_events (Some [Mobile_nav b]) = {}"
  "hand_events (Some [Password_typed p]) = {Password_typed p}" "hand_events (Some [Login_submitted]) = {Login_submitted}"
  by (auto simp: hand_events_def)

lemma page_hand: "\<not> boot_screen s \<Longrightarrow> (\<Union>a\<in>events (shell_page sure s). hand_events a) = {e. shell_enabled e s \<and> shell_by_hand sure e}"
proof (intro set_eqI)
  fix e
  assume "\<not> boot_screen s"
  then show "e \<in> (\<Union>a\<in>events (shell_page sure s). hand_events a) \<longleftrightarrow> e \<in> {e. shell_enabled e s \<and> shell_by_hand sure e}"
    by (cases e) (auto simp: page_events overlay_mounted_def)
qed

text \<open>
  The shell offers what its transitions allow: nothing while it boots; with the menu closed, exactly the events of the user that
  it accepts; with the menu open, the tabs and the logout only. A tab of the menu closes it.
\<close>

theorem shell_screen_exact:
  "(\<Union>a\<in>events (shell_view sure s). hand_events a) = {e. shell_enabled e s \<and> shell_by_hand sure e \<and> \<not> boot_screen s \<and>
     (sh_mobile_nav s \<longrightarrow> e = Logout_clicked sure \<or> (\<exists>t. e = Tab_clicked sure t))}"
proof (cases "boot_screen s \<or> \<not> sh_mobile_nav s")
  case True
  then show ?thesis using page_hand [of s sure] by (auto simp: shell_view_def)
next
  case False
  then show ?thesis by (auto simp: shell_view_def menu_dialog_def navigation_events)
qed

lemma shell_screen_exact_witness: "(\<Union>a\<in>events (shell_view True demo_unsaved). hand_events a) \<subseteq> {e. shell_enabled e demo_unsaved}"
  using shell_screen_exact [of True demo_unsaved] by auto

end
