(* ===== verification/Safe_Markdown.thy ===== *)
theory Safe_Markdown imports Panel_Texts begin

text \<open>
  How the answers of the models are rendered (\<open>components/admin/safe-markdown.tsx\<close>,
  \<open>components/admin/message-markdown.tsx\<close>).

  The Markdown parser is not part of the repository: the model starts from the tree of elements it
  yields and applies the components that replace some of them, innermost first, as React does.
\<close>

section \<open>Elements\<close>

datatype md_element =
    Md_text jsstr
  | Md_element jsstr "(jsstr \<times> jsstr) list" "md_element list"

definition attribute :: "jsstr \<Rightarrow> (jsstr \<times> jsstr) list \<Rightarrow> jsstr option" where
  "attribute k attrs = map_of attrs k"

definition tag_a :: jsstr where "tag_a = js ''a''"
definition tag_img :: jsstr where "tag_img = js ''img''"
definition tag_table :: jsstr where "tag_table = js ''table''"

definition external_rel :: jsstr where "external_rel = js ''noopener noreferrer nofollow''"

definition external_attrs :: "(jsstr \<times> jsstr) list" where
  "external_attrs = [(js ''target'', js ''_blank''), (js ''rel'', external_rel)]"

definition href_attr :: "jsstr option \<Rightarrow> (jsstr \<times> jsstr) list" where
  "href_attr h = (case h of Some u \<Rightarrow> [(js ''href'', u)] | None \<Rightarrow> [])"

section \<open>Components\<close>

definition safe_link :: "(jsstr \<times> jsstr) list \<Rightarrow> md_element list \<Rightarrow> md_element" where
  "safe_link attrs children = Md_element tag_a (href_attr (attribute (js ''href'') attrs) @ external_attrs) children"

definition image_label :: "(jsstr \<times> jsstr) list \<Rightarrow> jsstr" where
  "image_label attrs = or_str (trim (opt_str (attribute (js ''alt'') attrs)))
     (or_str (opt_str (attribute (js ''src'') attrs)) txt_image)"

definition safe_image :: "(jsstr \<times> jsstr) list \<Rightarrow> md_element" where
  "safe_image attrs = (let href = opt_str (attribute (js ''src'') attrs);
       label = [Md_text (txt_image_open @ image_label attrs @ js '']'')] in
     if href \<noteq> [] then Md_element tag_a ([(js ''href'', href)] @ external_attrs @ [(js ''title'', href)]) label
     else Md_element (js ''span'') [] label)"

definition safe_table :: "md_element list \<Rightarrow> md_element" where
  "safe_table children = Md_element (js ''div'') [(js ''class'', js ''markdown-table'')] [Md_element tag_table [] children]"

definition md_component :: "jsstr \<Rightarrow> (jsstr \<times> jsstr) list \<Rightarrow> md_element list \<Rightarrow> md_element" where
  "md_component tag attrs children = (if tag = tag_a then safe_link attrs children
     else if tag = tag_img then safe_image attrs
     else if tag = tag_table then safe_table children
     else Md_element tag attrs children)"

fun render_markdown :: "md_element \<Rightarrow> md_element" where
  "render_markdown (Md_text t) = Md_text t"
| "render_markdown (Md_element tag attrs children) = md_component tag attrs (List.map render_markdown children)"

section \<open>What is rendered\<close>

text \<open>Every element of a tree with its attributes.\<close>

fun md_nodes :: "md_element \<Rightarrow> (jsstr \<times> (jsstr \<times> jsstr) list) list" where
  "md_nodes (Md_text t) = []"
| "md_nodes (Md_element tag attrs children) = (tag, attrs) # concat (List.map md_nodes children)"

text \<open>A link leaves the page to a new window that cannot reach back, and goes to an address of the answer.\<close>

definition node_safe :: "(jsstr \<times> (jsstr \<times> jsstr) list) list \<Rightarrow> jsstr \<times> (jsstr \<times> jsstr) list \<Rightarrow> bool" where
  "node_safe source n \<longleftrightarrow> fst n \<noteq> tag_img \<and> (fst n = tag_a \<longrightarrow>
     set external_attrs \<subseteq> set (snd n) \<and>
     (\<forall>u. (js ''href'', u) \<in> set (snd n) \<longrightarrow> (\<exists>attrs. (tag_a, attrs) \<in> set source \<and> attribute (js ''href'') attrs = Some u \<or>
        (tag_img, attrs) \<in> set source \<and> attribute (js ''src'') attrs = Some u)))"

lemma tags_differ [simp]: "tag_a \<noteq> tag_img" "tag_img \<noteq> tag_a" "js ''span'' \<noteq> tag_img" "js ''span'' \<noteq> tag_a"
  "js ''div'' \<noteq> tag_img" "js ''div'' \<noteq> tag_a" "tag_table \<noteq> tag_img" "tag_table \<noteq> tag_a"
  by (simp_all add: tag_a_def tag_img_def tag_table_def js_def)

lemma attribute_names: "js ''target'' \<noteq> js ''href''" "js ''rel'' \<noteq> js ''href''" "js ''title'' \<noteq> js ''href''"
  by (simp_all add: js_def)

lemma href_in_link: "(js ''href'', u) \<in> set (href_attr h @ external_attrs) \<Longrightarrow> h = Some u"
  using attribute_names by (auto simp: href_attr_def external_attrs_def split: option.splits)

lemma link_safe: "node_safe ((tag_a, attrs) # rest) (tag_a, href_attr (attribute (js ''href'') attrs) @ external_attrs)"
  unfolding node_safe_def using href_in_link by fastforce

lemma image_safe:
  assumes "href = opt_str (attribute (js ''src'') attrs)" and "href \<noteq> []"
  shows "node_safe ((tag_img, attrs) # rest) (tag_a, [(js ''href'', href)] @ external_attrs @ [(js ''title'', href)])"
proof -
  have "attribute (js ''src'') attrs = Some href" using assms by (cases "attribute (js ''src'') attrs") auto
  then show ?thesis using attribute_names by (auto simp: node_safe_def external_attrs_def)
qed

lemma safe_more: "node_safe source n \<Longrightarrow> set source \<subseteq> set more \<Longrightarrow> node_safe more n"
  unfolding node_safe_def by (meson subsetD)

lemma component_safe:
  assumes "\<forall>c \<in> set children. \<forall>n \<in> set (md_nodes (render_markdown c)). node_safe (md_nodes c) n"
  shows "\<forall>n \<in> set (md_nodes (md_component tag attrs (List.map render_markdown children))).
    node_safe ((tag, attrs) # concat (List.map md_nodes children)) n"
proof -
  let ?source = "(tag, attrs) # concat (List.map md_nodes children)"
  have inner: "\<forall>n \<in> set (concat (List.map (md_nodes \<circ> render_markdown) children)). node_safe ?source n"
  proof
    fix n assume "n \<in> set (concat (List.map (md_nodes \<circ> render_markdown) children))"
    then obtain c where "c \<in> set children" and "n \<in> set (md_nodes (render_markdown c))" by auto
    with assms have "node_safe (md_nodes c) n" by blast
    then show "node_safe ?source n" using \<open>c \<in> set children\<close> by (elim safe_more) auto
  qed
  consider "tag = tag_a" | "tag = tag_img" | "tag \<noteq> tag_a" "tag \<noteq> tag_img" by blast
  then show ?thesis
  proof cases
    case 1
    have "node_safe ?source (tag_a, href_attr (attribute (js ''href'') attrs) @ external_attrs)"
      unfolding 1 by (rule link_safe)
    then show ?thesis using inner unfolding 1 by (simp add: md_component_def safe_link_def)
  next
    case 2
    show ?thesis
    proof (cases "opt_str (attribute (js ''src'') attrs) = []")
      case True
      then show ?thesis unfolding 2 by (simp add: md_component_def safe_image_def Let_def node_safe_def)
    next
      case False
      then show ?thesis using image_safe [OF refl False] unfolding 2 by (simp add: md_component_def safe_image_def Let_def)
    qed
  next
    case 3
    then have self: "node_safe ?source (tag, attrs)" "node_safe ?source (tag_table, [])"
        "node_safe ?source (js ''div'', [(js ''class'', js ''markdown-table'')])"
      by (simp_all add: node_safe_def)
    show ?thesis using 3 self inner by (cases "tag = tag_table") (simp_all add: md_component_def safe_table_def)
  qed
qed


end
