(* ===== verification/Spec2Isabelle.thy ===== *)
theory Spec2Isabelle imports Console_Store Admin_Service Model_Display Chat_Invariants Model_Policy Accounts_Facts Settings_Facts Conversations_Panel Notebook Admin_Shell Desk_Outcomes Settings_By_Hand Accounts_Screen Conversations_View Chat_Screen Chat_Page Tester_View Policy_View Notebook_View Shell_View Safe_Markdown begin

text \<open>
  The admin frontend of Notion2API (\<open>src/frontend/\<close>, TypeScript and React): a chat with the models of
  Notion workspaces, and panels for accounts, conversations, settings and models. It talks to a
  service (in Go, not part of this development) over HTTP and an event stream.

  \<^bold>\<open>How React code is modelled.\<close>
  The \<open>useState\<close> values and the refs of a component are the fields of one record. A handler runs to its
  next \<open>await\<close> and leaves a task that carries the values its closure has captured; the continuation
  is a function of the task and of the reply, which may be a failure, so that any other event may come in
  between. An effect is a function \<open>run_x r s\<close> of the render \<open>r\<close>, whose values its closure sees, and of the
  state it writes; a dependency list is a field that holds the values of its last run. A \<open>round\<close> is one pass
  over the effects in their order, a \<open>commit\<close> repeats it; three passes are enough for every component, which
  is proved (\<open>accounts_settled\<close>, \<open>commit_settled\<close> in Settings_Facts, \<open>panel_commit_settled\<close>). Object
  identity, where an effect depends on it, is a version number. The state a user can bring about is an
  inductive predicate (\<open>chat_reachable\<close>, \<open>console_reachable\<close>, \<open>desk_reachable\<close>, ...) over the enabled events.
  A failure is a value (\<open>failure\<close> of Api_Client); \<open>Inl\<close> is a thrown one. Markup is a \<open>view\<close> (Views): the texts and the
  controls that are shown, in their order, each control with whether it is disabled and the event its use brings about.

  \<^bold>\<open>JavaScript.\<close>
  Js_Prelude: strings as lists of 16-bit units, truthiness, \<open>||\<close>, \<open>??\<close>, \<open>trim\<close>, stable sorting.
  Js_Number and Number_Text: doubles as rationals with rounding, \<open>Number(text)\<close>, \<open>String(number)\<close>.
  Js_Date: \<open>Date.parse\<close> of the service's time stamps. Json_Codec, Json_Pretty: \<open>JSON.stringify\<close>,
  \<open>JSON.parse\<close> (a parser with as much fuel as the text has units, enough by \<open>parse_stringify\<close>). Uri_Codec:
  \<open>encodeURIComponent\<close>, \<open>URLSearchParams\<close>. Text_Lists: lists edited as text. Texts, Panel_Texts: the Chinese
  literals. Interfaces: the contracts \<open>keyed_store\<close>, \<open>latest_wins\<close>,
  \<open>single_flight\<close> and \<open>hosted_panel\<close> as locales.

  \<^bold>\<open>The program.\<close>
  \<^item> Api_Types: the interfaces of \<open>lib/services/admin/types.ts\<close>. Api_Client: \<open>lib/services/core/api-client.ts\<close>,
    \<open>copyToClipboard\<close> of \<open>lib/utils.ts\<close>. Admin_Service: \<open>lib/services/admin/admin.service.ts\<close>. Lemmas: a stream is
    complete exactly when it ended as it should, the result of a run is the fold of its events, identifiers
    survive addresses, attachments keep their order, a gateway page becomes a short message.
  \<^item> Console_Store: \<open>hooks/use-admin-console.ts\<close>, the state all panels share. Lemmas: the invariant of every
    reachable state, the list, the cache and the messages as keyed stores, stream events, signing out.
  \<^item> Model_Display: \<open>lib/model-display.ts\<close>, \<open>model-evidence.tsx\<close>.
  \<^item> Chat_Text, Chat_Targets, Chat_Files, Chat_Quota, Chat_Workspace: \<open>components/admin/chat-workspace.tsx\<close>,
    \<open>quota-windows.tsx\<close>; Chat_Invariants: what holds in every reachable state of the chat, loads and runs that
    overtake each other, failed turns, and two ways in which a late reply acts on another conversation. Chat_View and
    Chat_Screen: its markup, and that it offers what the transitions allow. Chat_Session: what a reload of the page restores.
    Chat_Page: the chat as \<open>admin-console.tsx\<close> mounts it, with the shell and the hook; all of its states on the page
    are states of Chat_Workspace, and a conversation to be continued reaches it once.
  \<^item> Tester_Panel: \<open>tester-panel.tsx\<close>, a smaller chat that no module imports at present; Tester_Facts: it waits for one
    thing at a time, and what a reload restores. Tester_View: its markup, and that it offers what the transitions allow.
  \<^item> Model_Policy: \<open>workspace-model-policy.tsx\<close>; a pending write fits the policy on screen. Policy_View: its markup;
    a step is a click of a control on screen or a reply.
  \<^item> Accounts_Edits, Accounts_Panel, Accounts_Facts: \<open>accounts-panel.tsx\<close>; drafts and reloads, saving, tests.
    Accounts_View: its markup; Accounts_Screen: the screen offers what the transitions allow.
  \<^item> Settings_Form, Settings_Panel, Settings_Facts: \<open>settings-panel.tsx\<close>; the form and the configuration it is
    built from and saved to, refreshes next to unsaved edits, saving. Settings_View: its markup; Settings_Screen and
    Settings_By_Hand: the screen offers what the transitions allow, a control holds one field, every form can be made by hand.
  \<^item> Conversations_Panel: \<open>conversations-panel.tsx\<close> together with the hook; what is checked, open and deleted.
    Conversations_View: its markup, and that it offers what the transitions allow.
  \<^item> Notebook: \<open>notebook-dialog.tsx\<close>; reads that a change of workspace or scope overtakes. Notebook_View: its markup.
  \<^item> Admin_Shell: \<open>admin-console.tsx\<close>, \<open>login-overlay.tsx\<close>; tabs, address, unsaved edits, login. Shell_View:
    the navigation (\<open>admin-sidebar.tsx\<close>), the top bar and the login, and that they offer what the transitions allow.
  \<^item> Panel_Views, Panel_Screens: \<open>dashboard-panel.tsx\<close>, \<open>models-panel.tsx\<close>, \<open>ai-usage-panel.tsx\<close>,
    \<open>quota-windows.tsx\<close>, with Views (\<open>shared.tsx\<close>); the model that is chosen is shown, the quota is read once at a time.
    Safe_Markdown: \<open>safe-markdown.tsx\<close>, \<open>message-markdown.tsx\<close>.
  \<^item> Panel_Calls, Desk: \<open>admin-console.tsx\<close> again, the callbacks of the settings and accounts panels (a request, then the
    reads of the hook that follow it) and the console as a whole: the shell with the hook, the panel on screen, and the
    calls that are out. A step is an event of one of them, a reply of the hook, an answer of the service or
    the delivery of a settled call to the panel that made it. Desk_Facts and Desk_Invariant: the invariant that ties the
    panel to the hook, the guard to the panel and each waiting panel to its calls; Desk_Drafts: unsaved edits survive all
    that happens around them; Desk_Outcomes: what an operation reports and that it always can end.

  The panels get the hook's values as properties and call its operations. Desk, Conversations_Panel and Admin_Shell
  contain the console of Console_Store itself, and Chat_Page the shell and the chat. The model policy and the notebook are
  modelled on their own, with a change of their properties as an event; for Desk, what they and the chat ask of
  the hook is any command.

  \<^bold>\<open>Parameters.\<close>
  Replies of the service, times, random identifiers, answers of \<open>window.confirm\<close>, the text of a date in the
  operator's locale, \<open>localeCompare\<close> and the tree a Markdown text parses to are arguments. The conversations
  panel assumes that the service lists a conversation once.

  \<^bold>\<open>Not modelled.\<close>
  Tags, class names, icons, focus, scrolling and timers that only change the look; \<open>components/ui\<close> (wrappers of
  Radix components); date formats of \<open>Intl\<close>; page, layout, theme,
  build scripts and browser tests; \<open>src/static/admin\<close>, which is the build output; the Go service
  (\<open>src/internal\<close>, \<open>src/cmd\<close>). Numbers beyond the range of a double and subnormal numbers do not occur in the
  model of arithmetic.
\<close>

end
